(* ===== verification/Go_Prelude.thy ===== *)
theory Go_Prelude
  imports Main "HOL-Library.Sublist" "HOL-Library.Word"
    "HOL-Library.Char_ord" "HOL-Library.List_Lexorder"
begin

section \<open>Shared vocabulary: Go strings, integers and results\<close>

text \<open>
  What every component uses of Go and of its standard library. A Go \<open>string\<close> or
  \<open>[]byte\<close> is a list of bytes, here \<^typ>\<open>string\<close> (a list of 8-bit characters). The
  functions of the packages \<open>strings\<close>, \<open>strconv\<close> and \<open>time\<close> that the program calls are
  defined on it, with the same results on every input; the program's own functions are
  in the other theories.

  The collection \<open>go_string\<close> holds the rewrite rules for these functions, \<open>go_list\<close>
  the list lemmas the components share.
\<close>

named_theorems go_string
named_theorems go_list

type_synonym bytes = string

subsection \<open>Errors as values\<close>

text \<open>
  A Go result pair \<open>(T, error)\<close> is a sum: \<open>Inl\<close> of the error, or \<open>Inr\<close> of the value. The
  error values the program distinguishes are constructors: \<open>gorm.ErrRecordNotFound\<close>
  (tested with \<open>errors.Is\<close>), a violated uniqueness constraint, any other failure of the
  database or driver, and the errors the program builds itself with \<open>fmt.Errorf\<close>, kept as
  their format text (their only use is to be reported).
\<close>

datatype err =
    ErrRecordNotFound
  | ErrDuplicatedKey
  | ErrDriver string
  | ErrMsg string
  | ErrWrap string err

text \<open>\<open>errors.Is(err, gorm.ErrRecordNotFound)\<close> looks through \<open>fmt.Errorf("...: %w", err)\<close>.\<close>

fun is_not_found :: "err \<Rightarrow> bool" where
  "is_not_found ErrRecordNotFound = True"
| "is_not_found (ErrWrap _ e) = is_not_found e"
| "is_not_found _ = False"

fun result_ok :: "err + 'a \<Rightarrow> bool" where
  "result_ok (Inl _) = False"
| "result_ok (Inr _) = True"

text \<open>
  Stateful code that may fail maps a state to a result and the next state. \<open>bindr\<close> runs one
  step and hands its value to the next, as \<open>if err != nil { return err }\<close> does; \<open>retr\<close>
  returns a value without touching the state.
\<close>

definition retr :: "'a \<Rightarrow> 's \<Rightarrow> (err + 'a) \<times> 's" where
  "retr x s = (Inr x, s)"

definition failr :: "err \<Rightarrow> 's \<Rightarrow> (err + 'a) \<times> 's" where
  "failr e s = (Inl e, s)"

text \<open>The error of a step, wrapped.\<close>

definition wrapr :: "string \<Rightarrow> ('s \<Rightarrow> (err + 'a) \<times> 's) \<Rightarrow> 's \<Rightarrow> (err + 'a) \<times> 's" where
  "wrapr msg m s = (case m s of (Inl e, s') \<Rightarrow> (Inl (ErrWrap msg e), s') | (Inr x, s') \<Rightarrow> (Inr x, s'))"

definition bindr :: "('s \<Rightarrow> (err + 'a) \<times> 's) \<Rightarrow> ('a \<Rightarrow> 's \<Rightarrow> (err + 'b) \<times> 's) \<Rightarrow> 's \<Rightarrow> (err + 'b) \<times> 's" where
  "bindr m f s = (case m s of (Inl e, s') \<Rightarrow> (Inl e, s') | (Inr x, s') \<Rightarrow> f x s')"

lemma bindr_Inr: "bindr m f s = (Inr y, s'') \<longleftrightarrow> (\<exists>x s'. m s = (Inr x, s') \<and> f x s' = (Inr y, s''))"
  by (simp add: bindr_def split: prod.splits sum.splits)

lemma bindr_Inl: "bindr m f s = (Inl e, s'') \<longleftrightarrow>
    m s = (Inl e, s'') \<or> (\<exists>x s'. m s = (Inr x, s') \<and> f x s' = (Inl e, s''))"
  by (simp add: bindr_def split: prod.splits sum.splits)

lemma wrapr_Inr [simp]: "wrapr msg m s = (Inr x, s') \<longleftrightarrow> m s = (Inr x, s')"
  by (auto simp: wrapr_def split: prod.splits sum.splits)

lemma wrapr_Inl: "wrapr msg m s = (Inl e, s') \<longleftrightarrow> (\<exists>e'. e = ErrWrap msg e' \<and> m s = (Inl e', s'))"
  by (auto simp: wrapr_def split: prod.splits sum.splits)

lemma retr_simps [simp]: "retr x s = (Inr y, s') \<longleftrightarrow> y = x \<and> s' = s" "retr x s \<noteq> (Inl e, s')"
  "failr e s = (Inl e', s') \<longleftrightarrow> e' = e \<and> s' = s" "failr e s \<noteq> (Inr y, s')"
  by (auto simp: retr_def failr_def)

subsection \<open>Signed 64-bit integers\<close>

text \<open>
  Go's \<open>int\<close> and \<open>int64\<close> are 64-bit. Where the code only stores and compares them they are
  \<^typ>\<open>int\<close>; where it computes, the result is reduced with \<open>wrap64\<close>.
\<close>

definition in_int64 :: "int \<Rightarrow> bool" where
  "in_int64 x \<longleftrightarrow> - (2 ^ 63) \<le> x \<and> x < 2 ^ 63"

definition wrap64 :: "int \<Rightarrow> int" where
  "wrap64 x = (x + 2 ^ 63) mod 2 ^ 64 - 2 ^ 63"

lemma in_int64_wrap64 [simp]: "in_int64 (wrap64 x)"
  by (simp add: in_int64_def wrap64_def)

lemma wrap64_id [simp]: "in_int64 x \<Longrightarrow> wrap64 x = x"
  by (simp add: in_int64_def wrap64_def mod_pos_pos_trivial)

subsection \<open>strings.HasPrefix, strings.TrimPrefix, strings.Contains\<close>

definition has_prefix :: "string \<Rightarrow> string \<Rightarrow> bool" where
  "has_prefix s p = prefix p s"

definition trim_prefix :: "string \<Rightarrow> string \<Rightarrow> string" where
  "trim_prefix s p = (if prefix p s then drop (length p) s else s)"

fun contains :: "string \<Rightarrow> string \<Rightarrow> bool" where
  "contains [] p = (p = [])"
| "contains (c # s) p = (prefix p (c # s) \<or> contains s p)"

lemma contains_sublist: "contains s p = sublist p s"
  by (induction s) (auto simp: sublist_Cons_right)

lemma contains_single [go_string]: "contains s [c] = (c \<in> set s)"
  by (induction s) auto

subsection \<open>strings.TrimSpace\<close>

text \<open>
  The UTF-8 encodings of the code points for which \<open>unicode.IsSpace\<close> holds. No encoding is
  a proper suffix of another valid one, so trimming on the right may compare suffixes.
\<close>

definition space_runes :: "string list" where
  "space_runes =
     [[CHR 0x09], [CHR 0x0A], [CHR 0x0B], [CHR 0x0C], [CHR 0x0D], [CHR 0x20],
      [CHR 0xC2, CHR 0x85], [CHR 0xC2, CHR 0xA0], [CHR 0xE1, CHR 0x9A, CHR 0x80]]
     @ map (\<lambda>b. [CHR 0xE2, CHR 0x80, b])
         [CHR 0x80, CHR 0x81, CHR 0x82, CHR 0x83, CHR 0x84, CHR 0x85, CHR 0x86, CHR 0x87,
          CHR 0x88, CHR 0x89, CHR 0x8A, CHR 0xA8, CHR 0xA9, CHR 0xAF]
     @ [[CHR 0xE2, CHR 0x81, CHR 0x9F], [CHR 0xE3, CHR 0x80, CHR 0x80]]"

definition lead_len :: "string list \<Rightarrow> string \<Rightarrow> nat" where
  "lead_len runes s = (case find (\<lambda>r. prefix r s) runes of None \<Rightarrow> 0 | Some r \<Rightarrow> length r)"

function strip_lead :: "string list \<Rightarrow> string \<Rightarrow> string" where
  "strip_lead runes s =
     (if lead_len runes s = 0 \<or> s = [] then s
      else strip_lead runes (drop (lead_len runes s) s))"
  by pat_completeness auto
termination
  by (relation "measure (\<lambda>(runes, s). length s)") auto

declare strip_lead.simps [simp del]

definition trim_left :: "string \<Rightarrow> string" where
  "trim_left s = strip_lead space_runes s"

definition trim_right :: "string \<Rightarrow> string" where
  "trim_right s = rev (strip_lead (map rev space_runes) (rev s))"

definition trim_space :: "string \<Rightarrow> string" where
  "trim_space s = trim_right (trim_left s)"

text \<open>A printable ASCII character other than the blank is never trimmed.\<close>

definition solid :: "char \<Rightarrow> bool" where
  "solid c \<longleftrightarrow> CHR 0x20 < c \<and> c < CHR 0x7F"

lemma lead_len_solid:
  assumes "solid c" and "\<forall>r \<in> set runes. r \<noteq> [] \<and> \<not> solid (hd r)"
  shows "lead_len runes (c # s) = 0"
proof -
  have "find (\<lambda>r. prefix r (c # s)) runes = None"
    using assms by (auto simp: find_None_iff prefix_Cons)
  then show ?thesis by (simp add: lead_len_def)
qed

lemma space_runes_not_solid: "\<forall>r \<in> set space_runes. r \<noteq> [] \<and> \<not> solid (hd r)"
  by (simp add: space_runes_def solid_def less_char_def)

lemma rev_space_runes_not_solid: "\<forall>r \<in> set (map rev space_runes). r \<noteq> [] \<and> \<not> solid (hd r)"
  by (simp add: space_runes_def solid_def less_char_def)

lemma trim_left_solid [go_string]: "solid c \<Longrightarrow> trim_left (c # s) = c # s"
  by (simp add: trim_left_def strip_lead.simps lead_len_solid space_runes_not_solid)

lemma trim_right_solid [go_string]: "solid c \<Longrightarrow> trim_right (s @ [c]) = s @ [c]"
  unfolding trim_right_def
  by (subst strip_lead.simps) (simp add: lead_len_solid [OF _ rev_space_runes_not_solid])

lemma trim_Nil [simp]: "trim_left [] = []" "trim_right [] = []" "trim_space [] = []"
  by (simp_all add: trim_left_def trim_right_def trim_space_def strip_lead.simps)

lemma trim_space_solid [go_string]:
  assumes "solid (hd s)" and "solid (last s)" and "s \<noteq> []"
  shows "trim_space s = s"
proof -
  have l: "trim_left s = s"
    using assms(1,3) by (cases s) (auto simp: go_string)
  have "s = butlast s @ [last s]" using assms(3) by simp
  then have "trim_right s = s" using assms(2) by (metis trim_right_solid)
  with l show ?thesis by (simp add: trim_space_def)
qed

lemma lead_len_blank: "lead_len space_runes (CHR '' '' # s) = 1"
  by (simp add: lead_len_def space_runes_def)

lemma trim_left_blank [go_string]: "trim_left (CHR '' '' # s) = trim_left s"
  unfolding trim_left_def
  by (subst strip_lead.simps) (simp add: lead_len_blank)

lemma trim_space_blank [go_string]: "trim_space (CHR '' '' # s) = trim_space s"
  by (simp add: trim_space_def trim_left_blank)

lemma rev_lead_len_blank: "lead_len (map rev space_runes) (CHR '' '' # s) = 1"
  by (simp add: lead_len_def space_runes_def)

lemma trim_right_blank [go_string]: "trim_right (s @ '' '') = trim_right s"
  unfolding trim_right_def
  by (subst strip_lead.simps) (simp add: rev_lead_len_blank)

lemma trim_space_blanks [go_string]:
  assumes "solid (hd s)" and "solid (last s)" and "s \<noteq> []"
  shows "trim_space (s @ '' '') = s"
proof -
  have "trim_left (s @ '' '') = s @ '' ''"
    using assms(1,3) by (cases s) (auto simp: trim_left_solid)
  moreover have "trim_right s = s"
    using assms(2,3) by (metis append_butlast_last_id trim_right_solid)
  ultimately show ?thesis by (simp add: trim_space_def trim_right_blank)
qed

subsection \<open>strings.Split\<close>

text \<open>\<open>strings.Split s sep\<close> for a non-empty separator: \<open>acc\<close> holds the current piece in reverse.\<close>

function split_acc :: "string \<Rightarrow> string \<Rightarrow> string \<Rightarrow> string list" where
  "split_acc sep acc s =
     (case s of
        [] \<Rightarrow> [rev acc]
      | c # cs \<Rightarrow>
          if sep \<noteq> [] \<and> prefix sep s then rev acc # split_acc sep [] (drop (length sep) s)
          else split_acc sep (c # acc) cs)"
  by pat_completeness auto
termination
  by (relation "measure (\<lambda>(sep, acc, s). length s)") auto

declare split_acc.simps [simp del]

definition split :: "string \<Rightarrow> string \<Rightarrow> string list" where
  "split s sep = split_acc sep [] s"

lemma split_acc_Nil [simp]: "split_acc sep acc [] = [rev acc]"
  by (simp add: split_acc.simps)

lemma split_acc_no_sep:
  "\<not> sublist sep s \<Longrightarrow> split_acc sep acc s = [rev acc @ s]"
proof (induction s arbitrary: acc)
  case Nil
  then show ?case by simp
next
  case (Cons c s)
  then have "\<not> prefix sep (c # s)" and "\<not> sublist sep s"
    by (auto simp: sublist_Cons_right)
  with Cons.IH show ?case
    by (subst split_acc.simps) simp
qed

lemma split_no_sep [go_string]: "\<not> sublist sep s \<Longrightarrow> split s sep = [s]"
  by (simp add: split_def split_acc_no_sep)

lemma split_acc_char:
  "c \<notin> set a \<Longrightarrow> split_acc [c] acc (a @ c # b) = (rev acc @ a) # split_acc [c] [] b"
proof (induction a arbitrary: acc)
  case Nil
  then show ?case by (subst split_acc.simps) simp
next
  case (Cons x a)
  then show ?case by (subst append_Cons, subst split_acc.simps) simp
qed

lemma split_char_append [go_string]:
  "c \<notin> set a \<Longrightarrow> split (a @ c # b) [c] = a # split b [c]"
  by (simp add: split_def split_acc_char)

lemma split_char_single [go_string]: "c \<notin> set a \<Longrightarrow> split a [c] = [a]"
  by (rule split_no_sep) (metis contains_single contains_sublist)

text \<open>A separator of two equal characters, as in a constraint's \<open>||\<close>.\<close>

lemma split_acc_double:
  "c \<notin> set a \<Longrightarrow> split_acc [c, c] acc (a @ c # c # b) = (rev acc @ a) # split_acc [c, c] [] b"
proof (induction a arbitrary: acc)
  case Nil
  then show ?case by (subst split_acc.simps) simp
next
  case (Cons x a)
  then show ?case by (subst append_Cons, subst split_acc.simps) simp
qed

lemma split_double_append [go_string]:
  "c \<notin> set a \<Longrightarrow> split (a @ c # c # b) [c, c] = a # split b [c, c]"
  by (simp add: split_def split_acc_double)

lemma split_double_single [go_string]: "c \<notin> set a \<Longrightarrow> split a [c, c] = [a]"
  by (rule split_no_sep) (auto dest: set_mono_sublist)

text \<open>\<open>strings.Join\<close>, and \<open>Split\<close> undoing it.\<close>

fun join :: "string list \<Rightarrow> string \<Rightarrow> string" where
  "join [] sep = []"
| "join [x] sep = x"
| "join (x # xs) sep = x @ sep @ join xs sep"

lemma split_join [go_string]:
  "xs \<noteq> [] \<Longrightarrow> \<forall>x \<in> set xs. c \<notin> set x \<Longrightarrow> split (join xs [c]) [c] = xs"
  by (induction xs "[c]" rule: join.induct) (auto simp: split_char_append split_char_single)

subsection \<open>strconv.Atoi\<close>

datatype num_err = ErrSyntax | ErrRange

definition is_digit :: "char \<Rightarrow> bool" where
  "is_digit c \<longleftrightarrow> CHR ''0'' \<le> c \<and> c \<le> CHR ''9''"

definition digit_val :: "char \<Rightarrow> nat" where
  "digit_val c = of_char c - 48"

definition dec_val :: "string \<Rightarrow> nat" where
  "dec_val ds = foldl (\<lambda>n d. 10 * n + digit_val d) 0 ds"

text \<open>
  \<open>Atoi\<close> returns a value beside the error, which callers that drop the error use: 0 for a
  syntax error, the nearest 64-bit bound for a range error.
\<close>

definition atoi :: "string \<Rightarrow> int \<times> num_err option" where
  "atoi s =
     (let neg = (s \<noteq> [] \<and> hd s = CHR ''-'');
          ds = (if s \<noteq> [] \<and> (hd s = CHR ''-'' \<or> hd s = CHR ''+'') then tl s else s)
      in if ds = [] \<or> \<not> list_all is_digit ds then (0, Some ErrSyntax)
         else let n = (if neg then - int (dec_val ds) else int (dec_val ds))
              in if in_int64 n then (n, None)
                 else (if neg then - (2 ^ 63) else 2 ^ 63 - 1, Some ErrRange))"

lemma atoi_in_int64: "in_int64 (fst (atoi s))"
  by (auto simp: atoi_def Let_def in_int64_def)

lemma is_digit_solid: "is_digit c \<Longrightarrow> solid c"
  by (simp add: is_digit_def solid_def less_eq_char_def less_char_def)

lemma dec_val_append: "dec_val (a @ [d]) = 10 * dec_val a + digit_val d"
  by (simp add: dec_val_def)

subsection \<open>strconv.Itoa\<close>

definition digit_char :: "nat \<Rightarrow> char" where
  "digit_char d = char_of (48 + d)"

fun show_nat :: "nat \<Rightarrow> string" where
  "show_nat n = (if n < 10 then [digit_char n] else show_nat (n div 10) @ [digit_char (n mod 10)])"

declare show_nat.simps [simp del]

definition itoa :: "int \<Rightarrow> string" where
  "itoa n = (if n < 0 then ''-'' @ show_nat (nat (- n)) else show_nat (nat n))"

lemma digit_char_digit [simp]: "d < 10 \<Longrightarrow> is_digit (digit_char d)"
  by (simp add: is_digit_def digit_char_def less_eq_char_def take_bit_nat_def)

lemma digit_val_char [simp]: "d < 10 \<Longrightarrow> digit_val (digit_char d) = d"
  by (simp add: digit_val_def digit_char_def take_bit_nat_def)

lemma show_nat_digits: "list_all is_digit (show_nat n)"
proof (induction n rule: show_nat.induct)
  case (1 n)
  then show ?case
    by (cases "n < 10") (simp_all add: show_nat.simps [of n])
qed

lemma show_nat_not_Nil [simp]: "show_nat n \<noteq> []"
  by (simp add: show_nat.simps [of n])

lemma dec_val_show_nat [simp]: "dec_val (show_nat n) = n"
proof (induction n rule: show_nat.induct)
  case (1 n)
  show ?case
  proof (cases "n < 10")
    case True
    then show ?thesis by (simp add: show_nat.simps [of n] dec_val_def)
  next
    case False
    with 1 show ?thesis by (simp add: show_nat.simps [of n] dec_val_append)
  qed
qed

lemma digit_not_sign: "is_digit c \<Longrightarrow> c \<noteq> CHR ''-'' \<and> c \<noteq> CHR ''+'' \<and> c \<noteq> CHR ''.''"
  by (auto simp: is_digit_def less_eq_char_def)

lemma show_nat_not_mem:
  assumes "\<not> is_digit c"
  shows "c \<notin> set (show_nat n)"
  using assms show_nat_digits [of n] by (auto simp: list_all_iff)

lemma hd_show_nat_digit: "is_digit (hd (show_nat n))"
  using show_nat_digits [of n] by (cases "show_nat n") auto

lemma last_show_nat_digit: "is_digit (last (show_nat n))"
  using show_nat_digits [of n] by (metis last_in_set list_all_iff show_nat_not_Nil)

lemma atoi_show_nat: "int n < 2 ^ 63 \<Longrightarrow> atoi (show_nat n) = (int n, None)"
  using hd_show_nat_digit [of n, THEN digit_not_sign] show_nat_digits [of n]
  by (auto simp: atoi_def Let_def in_int64_def)

subsection \<open>time.Time\<close>

text \<open>
  A \<open>time.Time\<close> is its distance from the Unix epoch in nanoseconds, unbounded;
  \<open>time_zero\<close> is Go's zero time, 1 January of year 1. \<open>UnixNano\<close> and \<open>UnixMilli\<close> are
  64-bit.
\<close>

type_synonym time = int

text \<open>\<open>time.Second\<close> in nanoseconds, the unit of a \<open>time.Duration\<close>.\<close>

definition second :: int where "second = 1000000000"

definition time_zero :: time where
  "time_zero = - 62135596800000000000"

definition unix_nano :: "time \<Rightarrow> int" where
  "unix_nano t = wrap64 t"

definition unix_milli :: "time \<Rightarrow> int" where
  "unix_milli t = wrap64 (t div 1000000)"

definition unix_sec :: "time \<Rightarrow> int" where
  "unix_sec t = wrap64 (t div 1000000000)"

lemma unix_nano_zero: "unix_nano time_zero = - 6795364578871345152"
  by (simp add: unix_nano_def time_zero_def wrap64_def)

subsection \<open>Lists\<close>

lemma find_map_of_distinct [go_list]:
  "distinct (map f xs) \<Longrightarrow> x \<in> set xs \<Longrightarrow> find (\<lambda>y. f y = f x) xs = Some x"
  by (induction xs) auto

lemma find_None_filter [go_list]: "find P xs = None \<longleftrightarrow> filter P xs = []"
  by (induction xs) auto

lemma find_Some_mem [go_list]: "find P xs = Some x \<Longrightarrow> x \<in> set xs \<and> P x"
  by (induction xs) (auto split: if_splits)

subsection \<open>hash/fnv\<close>

text \<open>
  The FNV-1a hashes of a byte string, of 32 and 64 bits: each byte is combined with
  exclusive or, then the hash is multiplied by the FNV prime, modulo the width.
\<close>

unbundle bit_operations_syntax

definition fnv32_step :: "32 word \<Rightarrow> char \<Rightarrow> 32 word" where
  "fnv32_step h c = (h XOR of_nat (of_char c)) * 16777619"

definition fnv32a :: "string \<Rightarrow> 32 word" where
  "fnv32a s = foldl fnv32_step 2166136261 s"

definition fnv64_step :: "64 word \<Rightarrow> char \<Rightarrow> 64 word" where
  "fnv64_step h c = (h XOR of_nat (of_char c)) * 1099511628211"

definition fnv64a :: "string \<Rightarrow> 64 word" where
  "fnv64a s = foldl fnv64_step 14695981039346656037 s"


end
