(* ===== verification/Data_Model.thy ===== *)
theory Data_Model
  imports Go_Prelude
begin

section \<open>The data model (internal/model/model.go)\<close>

text \<open>
  The rows of the database, one record for each struct of \<open>model.go\<close>, field for field; the
  prefix of a field name stands for its struct. \<open>PipelineConfig\<close> and \<open>InstanceConfig\<close>
  have the same fields and share the record \<open>config_row\<close>. Unsigned 64-bit counters are
  \<^typ>\<open>nat\<close>, timestamps \<^typ>\<open>time\<close>, details byte strings. Configuration types and states
  are strings, as in the source.
\<close>

record AgentGroup =
  ag_name :: string
  ag_description :: string
  ag_ip_selector :: string
  ag_version_constraint :: string
  ag_created :: time
  ag_updated :: time

record AgentGroupTag =
  tag_id :: nat
  tag_group :: string
  tag_name :: string
  tag_value :: string

record AgentMatchContext =
  mc_instance :: string
  mc_ip :: string
  mc_hostid :: string
  mc_hostname :: string
  mc_version :: string
  mc_tags :: "AgentGroupTag list"

record config_row =
  cf_name :: string
  cf_version :: int
  cf_detail :: bytes
  cf_created :: time
  cf_updated :: time

type_synonym PipelineConfig = config_row
type_synonym InstanceConfig = config_row

record OnetimeCommand =
  oc_name :: string
  oc_version :: int
  oc_detail :: bytes
  oc_expire :: int
  oc_created :: time

record GroupConfigMapping =
  mp_group :: string
  mp_config :: string
  mp_type :: string

record Agent =
  a_instance :: string
  a_type :: string
  a_ip :: string
  a_hostname :: string
  a_hostid :: string
  a_version :: string
  a_attributes_json :: string
  a_tags_json :: string
  a_running_status :: string
  a_startup :: int
  a_seq :: nat
  a_capabilities :: nat
  a_last_heartbeat :: time
  a_created :: time
  a_updated :: time

record AgentConfigStatus =
  st_instance :: string
  st_config :: string
  st_type :: string
  st_status :: int
  st_message :: string
  st_updated :: time

record ConfigHistory =
  ch_id :: nat
  ch_resource_type :: string
  ch_resource_name :: string
  ch_version :: int
  ch_action :: string
  ch_detail :: bytes
  ch_changed_by :: string
  ch_changed_at :: time

record AuditLog =
  al_id :: nat
  al_username :: string
  al_action :: string
  al_resource_type :: string
  al_resource_name :: string
  al_detail :: string
  al_client_ip :: string
  al_created :: time

record CanaryRelease =
  cr_config :: string
  cr_type :: string
  cr_detail :: bytes
  cr_version :: int
  cr_percent :: int
  cr_version_constraint :: string
  cr_ip_selector :: string
  cr_tag_selector :: string
  cr_status :: string
  cr_created_by :: string
  cr_created :: time
  cr_updated :: time

record User =
  us_name :: string
  us_password_hash :: string
  us_is_admin :: bool
  us_role :: string
  us_email :: string
  us_totp_secret :: string
  us_totp_enabled :: bool
  us_updated :: time

record Role =
  ro_name :: string
  ro_description :: string
  ro_updated :: time

record RolePermission =
  rp_role :: string
  rp_resource :: string
  rp_create :: bool
  rp_read :: bool
  rp_update :: bool
  rp_delete :: bool

subsection \<open>Constants\<close>

definition CanaryStatusRolling :: string where "CanaryStatusRolling = ''rolling''"
definition CanaryStatusPaused :: string where "CanaryStatusPaused = ''paused''"
definition CanaryStatusPromoted :: string where "CanaryStatusPromoted = ''promoted''"
definition CanaryStatusAborted :: string where "CanaryStatusAborted = ''aborted''"

definition AllResources :: "string list" where
  "AllResources =
     [''pipeline_configs'', ''instance_configs'', ''onetime_commands'', ''agent_groups'', ''agents'']"

end
