(* ===== verification/Gorm_Api.thy ===== *)
theory Gorm_Api
  imports Data_Model
begin

section \<open>The database interface (gorm.io/gorm)\<close>

text \<open>
  The store reaches the database through GORM, which is not part of the program: it is a
  parameter \<open>G\<close> of every definition that uses it, a function from the statement issued and
  the state of the database to a result (or an error) and the next state. A statement is
  one value of \<open>stmt\<close>; conditions and assignments are functions on rows, the meaning of the
  SQL fragment in the source. All tables are seen through \<open>tabs\<close>, one finite map from
  primary keys to rows.

  What the store relies on is the locale \<open>gorm_api\<close>: rows sit under their primary key; a
  statement that fails changes nothing, and reports \<open>ErrRecordNotFound\<close> only for a \<open>First\<close>
  without a match; a statement that succeeds does what GORM documents (\<open>stmt_ok\<close>), the
  columns that GORM fills by itself (generated ids, \<open>created_at\<close>, \<open>updated_at\<close>) left open.
  Conditions compare strings exactly. \<open>mem_gorm\<close> is a small database in memory that
  satisfies it; witnesses run on it.
\<close>

subsection \<open>Rows and keys\<close>

datatype row =
    RGroup AgentGroup
  | RTag AgentGroupTag
  | RPipeline config_row
  | RInstance config_row
  | ROnetime OnetimeCommand
  | RMapping GroupConfigMapping
  | RAgent Agent
  | RStatus AgentConfigStatus
  | RHistory ConfigHistory
  | RAudit AuditLog
  | RCanary CanaryRelease
  | RUser User
  | RRole Role
  | RPerm RolePermission

datatype dbkey =
    KGroup string
  | KTag nat
  | KPipeline string
  | KInstance string
  | KOnetime string
  | KMapping string string string
  | KAgent string
  | KStatus string string string
  | KHistory nat
  | KAudit nat
  | KCanary string string
  | KUser string
  | KRole string
  | KPerm string string

fun key_of :: "row \<Rightarrow> dbkey" where
  "key_of (RGroup g) = KGroup (ag_name g)"
| "key_of (RTag t) = KTag (tag_id t)"
| "key_of (RPipeline c) = KPipeline (cf_name c)"
| "key_of (RInstance c) = KInstance (cf_name c)"
| "key_of (ROnetime c) = KOnetime (oc_name c)"
| "key_of (RMapping m) = KMapping (mp_group m) (mp_config m) (mp_type m)"
| "key_of (RAgent a) = KAgent (a_instance a)"
| "key_of (RStatus s) = KStatus (st_instance s) (st_config s) (st_type s)"
| "key_of (RHistory h) = KHistory (ch_id h)"
| "key_of (RAudit a) = KAudit (al_id a)"
| "key_of (RCanary c) = KCanary (cr_config c) (cr_type c)"
| "key_of (RUser u) = KUser (us_name u)"
| "key_of (RRole r) = KRole (ro_name r)"
| "key_of (RPerm p) = KPerm (rp_role p) (rp_resource p)"

type_synonym tables = "dbkey \<rightharpoonup> row"

text \<open>A row without what GORM fills by itself: two rows are \<open>stored\<close> alike up to that.\<close>

fun auto_free :: "row \<Rightarrow> row" where
  "auto_free (RGroup g) = RGroup (g\<lparr>ag_created := 0, ag_updated := 0\<rparr>)"
| "auto_free (RTag t) = RTag (t\<lparr>tag_id := 0\<rparr>)"
| "auto_free (RPipeline c) = RPipeline (c\<lparr>cf_created := 0, cf_updated := 0\<rparr>)"
| "auto_free (RInstance c) = RInstance (c\<lparr>cf_created := 0, cf_updated := 0\<rparr>)"
| "auto_free (ROnetime c) = ROnetime (c\<lparr>oc_created := 0\<rparr>)"
| "auto_free (RMapping m) = RMapping m"
| "auto_free (RAgent a) = RAgent (a\<lparr>a_created := 0, a_updated := 0\<rparr>)"
| "auto_free (RStatus s) = RStatus (s\<lparr>st_updated := 0\<rparr>)"
| "auto_free (RHistory h) = RHistory (h\<lparr>ch_id := 0\<rparr>)"
| "auto_free (RAudit a) = RAudit (a\<lparr>al_id := 0, al_created := 0\<rparr>)"
| "auto_free (RCanary c) = RCanary (c\<lparr>cr_created := 0, cr_updated := 0\<rparr>)"
| "auto_free (RUser u) = RUser (u\<lparr>us_updated := 0\<rparr>)"
| "auto_free (RRole r) = RRole (r\<lparr>ro_updated := 0\<rparr>)"
| "auto_free (RPerm p) = RPerm p"

definition stored :: "row \<Rightarrow> row \<Rightarrow> bool" where
  "stored r r' \<longleftrightarrow> auto_free r' = auto_free r"

text \<open>Tables whose key is not generated keep it when a row is stored.\<close>

fun generated_id :: "row \<Rightarrow> bool" where
  "generated_id (RTag _) = True"
| "generated_id (RHistory _) = True"
| "generated_id (RAudit _) = True"
| "generated_id _ = False"

lemma key_auto_free: "\<not> generated_id r \<Longrightarrow> key_of (auto_free r) = key_of r"
  by (cases r) auto

lemma generated_auto_free [simp]: "generated_id (auto_free r) = generated_id r"
  by (cases r) auto

lemma stored_key:
  assumes "stored r r'" and "\<not> generated_id r"
  shows "key_of r' = key_of r"
proof -
  have "\<not> generated_id r'"
    using assms by (metis generated_auto_free stored_def)
  with assms show ?thesis
    using key_auto_free [of r] key_auto_free [of r'] by (simp add: stored_def)
qed

lemma stored_refl [simp]: "stored r r"
  by (simp add: stored_def)

subsection \<open>Statements\<close>

text \<open>
  \<open>FindSorted Q f n k\<close> is a query with a condition that may look at the whole table (a
  subquery), an \<open>ORDER BY f DESC\<close>, a limit (\<open>None\<close> for none) and an offset. \<open>RawNames\<close> is a
  raw query returning a column of names, as a function of the rows. The statements of a
  transaction are the writes its function issues.
\<close>

datatype wstmt =
    Create "row list"
  | Save row
  | Update "row \<Rightarrow> bool" "row \<Rightarrow> row"
  | Delete "row \<Rightarrow> bool"

datatype stmt =
    Find "row \<Rightarrow> bool"
  | First "row \<Rightarrow> bool"
  | Count "row \<Rightarrow> bool"
  | FindSorted "row list \<Rightarrow> row \<Rightarrow> bool" "row \<Rightarrow> int" "nat option" nat
  | RawNames "row list \<Rightarrow> string list"
  | FirstOrCreate "row \<Rightarrow> bool" row
  | Write wstmt
  | Transaction "wstmt list"

datatype db_result =
    Rows "row list"
  | Num nat
  | Names "string list"
  | Done

text \<open>A listing of the tables: every row once, in some order.\<close>

definition listing :: "row list \<Rightarrow> tables \<Rightarrow> bool" where
  "listing rows t \<longleftrightarrow> distinct rows \<and> set rows = ran t"

definition add_rows :: "row list \<Rightarrow> tables \<Rightarrow> tables" where
  "add_rows rs t = t ++ map_of (map (\<lambda>r. (key_of r, r)) rs)"

definition drop_rows :: "(row \<Rightarrow> bool) \<Rightarrow> tables \<Rightarrow> tables" where
  "drop_rows P t = (\<lambda>k. case t k of Some r \<Rightarrow> if P r then None else Some r | None \<Rightarrow> None)"

definition change_rows :: "(row \<Rightarrow> bool) \<Rightarrow> (row \<Rightarrow> row) \<Rightarrow> tables \<Rightarrow> tables \<Rightarrow> bool" where
  "change_rows P f t t' \<longleftrightarrow>
     (\<forall>k. case t k of
            None \<Rightarrow> t' k = None
          | Some r \<Rightarrow> (\<exists>r'. t' k = Some r' \<and> (if P r then stored (f r) r' else r' = r)))"

fun write_ok :: "wstmt \<Rightarrow> tables \<Rightarrow> tables \<Rightarrow> bool" where
  "write_ok (Create rs) t t' \<longleftrightarrow>
     (\<exists>rs'. list_all2 stored rs rs' \<and> distinct (map key_of rs') \<and> (\<forall>r \<in> set rs'. t (key_of r) = None) \<and>
        t' = add_rows rs' t)"
| "write_ok (Save r) t t' \<longleftrightarrow> (\<exists>r'. stored r r' \<and> key_of r' = key_of r \<and> t' = t(key_of r \<mapsto> r'))"
| "write_ok (Update P f) t t' \<longleftrightarrow> change_rows P f t t'"
| "write_ok (Delete P) t t' \<longleftrightarrow> t' = drop_rows P t"

fun writes_ok :: "wstmt list \<Rightarrow> tables \<Rightarrow> tables \<Rightarrow> bool" where
  "writes_ok [] t t' \<longleftrightarrow> t' = t"
| "writes_ok (w # ws) t t' \<longleftrightarrow> (\<exists>t1. write_ok w t t1 \<and> writes_ok ws t1 t')"

fun stmt_ok :: "stmt \<Rightarrow> tables \<Rightarrow> db_result \<Rightarrow> tables \<Rightarrow> bool" where
  "stmt_ok (Find P) t x t' \<longleftrightarrow>
     t' = t \<and> (\<exists>rows. x = Rows rows \<and> distinct rows \<and> set rows = {r \<in> ran t. P r})"
| "stmt_ok (First P) t x t' \<longleftrightarrow> t' = t \<and> (\<exists>r \<in> ran t. P r \<and> x = Rows [r])"
| "stmt_ok (Count P) t x t' \<longleftrightarrow> t' = t \<and> x = Num (card {r \<in> ran t. P r})"
| "stmt_ok (FindSorted Q f n k) t x t' \<longleftrightarrow>
     t' = t \<and> (\<exists>all rows. listing all t \<and> distinct rows \<and> set rows = {r \<in> ran t. Q all r} \<and>
       sorted_wrt (\<lambda>a b. f a \<ge> f b) rows \<and>
       x = Rows (case n of None \<Rightarrow> drop k rows | Some m \<Rightarrow> take m (drop k rows)))"
| "stmt_ok (RawNames q) t x t' \<longleftrightarrow>
     t' = t \<and> (\<exists>all names. listing all t \<and> set names = set (q all) \<and> x = Names names)"
| "stmt_ok (FirstOrCreate P r) t x t' \<longleftrightarrow>
     (if \<exists>r' \<in> ran t. P r' then t' = t
      else \<exists>r'. stored r r' \<and> t (key_of r') = None \<and> t' = t(key_of r' \<mapsto> r'))"
| "stmt_ok (Write w) t x t' \<longleftrightarrow> write_ok w t t'"
| "stmt_ok (Transaction ws) t x t' \<longleftrightarrow> writes_ok ws t t'"

type_synonym 'd gorm = "stmt \<Rightarrow> 'd \<Rightarrow> (err + db_result) \<times> 'd"

locale gorm_api =
  fixes G :: "'d gorm"
    and tabs :: "'d \<Rightarrow> tables"
  assumes keyed: "tabs d k = Some r \<Longrightarrow> key_of r = k"
    and failed: "G q d = (Inl e, d') \<Longrightarrow> tabs d' = tabs d"
    and not_found: "G q d = (Inl e, d') \<Longrightarrow> is_not_found e \<Longrightarrow>
      \<exists>P. q = First P \<and> (\<forall>r \<in> ran (tabs d). \<not> P r)"
    and succeeded: "G q d = (Inr x, d') \<Longrightarrow> stmt_ok q (tabs d) x (tabs d')"

subsection \<open>Tables\<close>

text \<open>Rows that sit under their key, as the locale states of every state of the database.\<close>

definition well_keyed :: "tables \<Rightarrow> bool" where
  "well_keyed t \<longleftrightarrow> (\<forall>k r. t k = Some r \<longrightarrow> key_of r = k)"

lemma well_keyed_ran: "well_keyed t \<Longrightarrow> r \<in> ran t \<longleftrightarrow> t (key_of r) = Some r"
  by (auto simp: well_keyed_def ran_def)

lemma drop_rows_Some: "drop_rows P t k = Some r \<longleftrightarrow> t k = Some r \<and> \<not> P r"
  by (auto simp: drop_rows_def split: option.splits)

lemma drop_rows_ran [simp]: "well_keyed t \<Longrightarrow> ran (drop_rows P t) = {r \<in> ran t. \<not> P r}"
  by (auto simp: ran_def drop_rows_Some)

lemma add_rows_Cons: "add_rows (r # rs) t = (add_rows rs t)(key_of r \<mapsto> r)"
  by (simp add: add_rows_def)

lemma add_rows_Nil [simp]: "add_rows [] t = t"
  by (simp add: add_rows_def)

lemma add_rows_single [simp]: "add_rows [r] t = t(key_of r \<mapsto> r)"
  by (simp add: add_rows_def)

lemma well_keyed_drop [intro]: "well_keyed t \<Longrightarrow> well_keyed (drop_rows P t)"
  by (auto simp: well_keyed_def drop_rows_Some)

lemma well_keyed_upd [intro]: "well_keyed t \<Longrightarrow> key_of r = k \<Longrightarrow> well_keyed (t(k \<mapsto> r))"
  by (auto simp: well_keyed_def)

lemma write_create_single:
  assumes "write_ok (Create [r]) t t'" and "\<not> generated_id r"
  shows "t (key_of r) = None \<and> (\<exists>r'. stored r r' \<and> key_of r' = key_of r \<and> t' = t(key_of r \<mapsto> r'))"
proof -
  obtain r' where "stored r r'" "t (key_of r') = None" "t' = t(key_of r' \<mapsto> r')"
    using assms(1) by (auto simp: list_all2_Cons1)
  with stored_key [OF this(1) assms(2)] show ?thesis by auto
qed

context gorm_api
begin

lemma well_keyed_tabs [simp, intro]: "well_keyed (tabs d)"
  using keyed by (auto simp: well_keyed_def)

lemma ran_tabs: "r \<in> ran (tabs d) \<longleftrightarrow> tabs d (key_of r) = Some r"
  by (rule well_keyed_ran) simp

lemma find_rows:
  "G (Find P) d = (Inr x, d') \<Longrightarrow>
   tabs d' = tabs d \<and> (\<exists>rows. x = Rows rows \<and> distinct rows \<and> set rows = {r \<in> ran (tabs d). P r})"
  using succeeded [of "Find P"] by simp

lemma first_row:
  "G (First P) d = (Inr x, d') \<Longrightarrow> tabs d' = tabs d \<and> (\<exists>r. x = Rows [r] \<and> r \<in> ran (tabs d) \<and> P r)"
  using succeeded [of "First P" d x d'] by auto

lemma write_done: "G (Write w) d = (Inr x, d') \<Longrightarrow> write_ok w (tabs d) (tabs d')"
  using succeeded [of "Write w"] by simp

lemma writes_done: "G (Transaction ws) d = (Inr x, d') \<Longrightarrow> writes_ok ws (tabs d) (tabs d')"
  using succeeded [of "Transaction ws"] by simp

end

subsection \<open>A database in memory\<close>

text \<open>
  \<open>mem_gorm\<close> keeps the rows in a list, the first one with a key being the one that counts,
  and generates ids by counting; \<open>mem_faults\<close> decides for each statement, in turn, whether
  it fails (a statement beyond the list does not).
\<close>

record memdb =
  mem_rows :: "row list"
  mem_faults :: "bool list"

definition mem_empty :: memdb where
  "mem_empty = \<lparr>mem_rows = [], mem_faults = []\<rparr>"

definition tab :: "row list \<Rightarrow> tables" where
  "tab rows = map_of (map (\<lambda>r. (key_of r, r)) rows)"

definition mem_tabs :: "memdb \<Rightarrow> tables" where
  "mem_tabs d = tab (mem_rows d)"

fun live :: "row list \<Rightarrow> row list" where
  "live [] = []"
| "live (r # rs) = r # filter (\<lambda>r'. key_of r' \<noteq> key_of r) (live rs)"

fun set_id :: "nat \<Rightarrow> row \<Rightarrow> row" where
  "set_id n (RTag t) = RTag (t\<lparr>tag_id := n\<rparr>)"
| "set_id n (RHistory h) = RHistory (h\<lparr>ch_id := n\<rparr>)"
| "set_id n (RAudit a) = RAudit (a\<lparr>al_id := n\<rparr>)"
| "set_id n r = r"

fun id_of :: "row \<Rightarrow> nat" where
  "id_of (RTag t) = tag_id t"
| "id_of (RHistory h) = ch_id h"
| "id_of (RAudit a) = al_id a"
| "id_of r = 0"

definition next_id :: "row list \<Rightarrow> nat" where
  "next_id rows = Suc (foldr (\<lambda>r n. max (id_of r) n) rows 0)"

text \<open>The rows after one write; \<open>None\<close> if a key would clash or change.\<close>

fun mem_create :: "row list \<Rightarrow> row list \<Rightarrow> row list option" where
  "mem_create [] rows = Some rows"
| "mem_create (r # rs) rows =
     (let r' = set_id (next_id rows) r
      in if key_of r' \<in> key_of ` set rows then None else mem_create rs (r' # rows))"

fun mem_write :: "wstmt \<Rightarrow> row list \<Rightarrow> row list option" where
  "mem_write (Create rs) rows = mem_create rs rows"
| "mem_write (Save r) rows = Some (r # filter (\<lambda>r'. key_of r' \<noteq> key_of r) rows)"
| "mem_write (Update P f) rows =
     (if \<forall>r \<in> set rows. P r \<longrightarrow> key_of (f r) = key_of r
      then Some (map (\<lambda>r. if P r then f r else r) rows) else None)"
| "mem_write (Delete P) rows = Some (filter (\<lambda>r. \<not> P r) rows)"

fun mem_writes :: "wstmt list \<Rightarrow> row list \<Rightarrow> row list option" where
  "mem_writes [] rows = Some rows"
| "mem_writes (w # ws) rows = Option.bind (mem_write w rows) (mem_writes ws)"

definition mem_done :: "row list option \<Rightarrow> memdb \<Rightarrow> (err + db_result) \<times> memdb" where
  "mem_done rows d =
     (case rows of
        None \<Rightarrow> (Inl ErrDuplicatedKey, d)
      | Some rs \<Rightarrow> (Inr Done, d\<lparr>mem_rows := rs\<rparr>))"

fun mem_run :: "stmt \<Rightarrow> memdb \<Rightarrow> (err + db_result) \<times> memdb" where
  "mem_run (Find P) d = (Inr (Rows (filter P (live (mem_rows d)))), d)"
| "mem_run (First P) d =
     (case filter P (live (mem_rows d)) of
        [] \<Rightarrow> (Inl ErrRecordNotFound, d)
      | r # _ \<Rightarrow> (Inr (Rows [r]), d))"
| "mem_run (Count P) d = (Inr (Num (length (filter P (live (mem_rows d))))), d)"
| "mem_run (FindSorted Q f n k) d =
     (let rows = sort_key (\<lambda>r. - f r) (filter (Q (live (mem_rows d))) (live (mem_rows d)))
      in (Inr (Rows (case n of None \<Rightarrow> drop k rows | Some m \<Rightarrow> take m (drop k rows))), d))"
| "mem_run (RawNames q) d = (Inr (Names (q (live (mem_rows d)))), d)"
| "mem_run (FirstOrCreate P r) d =
     (if filter P (live (mem_rows d)) \<noteq> [] then (Inr Done, d)
      else mem_done (mem_create [r] (live (mem_rows d))) d)"
| "mem_run (Write w) d = mem_done (mem_write w (live (mem_rows d))) d"
| "mem_run (Transaction ws) d = mem_done (mem_writes ws (live (mem_rows d))) d"

definition mem_gorm :: "memdb gorm" where
  "mem_gorm q d =
     (case mem_faults d of
        [] \<Rightarrow> mem_run q d
      | b # bs \<Rightarrow>
          if b then (Inl (ErrDriver ''database is locked''), d\<lparr>mem_faults := bs\<rparr>)
          else mem_run q (d\<lparr>mem_faults := bs\<rparr>))"

lemma tab_simps [simp]: "tab [] = Map.empty" "tab (r # rs) = (tab rs)(key_of r \<mapsto> r)"
  by (simp_all add: tab_def)

lemma tab_Some: "tab rs k = Some r \<Longrightarrow> key_of r = k \<and> r \<in> set rs"
  by (auto simp: tab_def dest: map_of_SomeD)

lemma live_distinct: "distinct (map key_of (live rs))"
  by (induction rs) (auto simp: distinct_map inj_on_def)

lemma tab_filter_key:
  "tab (filter (\<lambda>r. key_of r \<noteq> k) rs) = (\<lambda>k'. if k' = k then None else tab rs k')"
  by (induction rs) auto

lemma tab_live [simp]: "tab (live rs) = tab rs"
  by (induction rs) (auto simp: tab_filter_key)

lemma ran_tab: "distinct (map key_of rs) \<Longrightarrow> ran (tab rs) = set rs"
  by (simp add: tab_def ran_distinct comp_def image_image)

lemma ran_tab_live [simp]: "ran (tab rs) = set (live rs)"
  using ran_tab [OF live_distinct, of rs] by simp

lemma distinct_live [simp]: "distinct (live rs)"
  using live_distinct [of rs] by (simp add: distinct_map)

lemma id_of_less: "r \<in> set rows \<Longrightarrow> id_of r < next_id rows"
  by (induction rows) (auto simp: next_id_def less_Suc_eq_le)

lemma stored_set_id [simp]: "stored r (set_id n r)"
  by (cases r) (auto simp: stored_def)

lemma tab_None: "tab rows k = None \<longleftrightarrow> k \<notin> key_of ` set rows"
  by (force simp: tab_def map_of_eq_None_iff)

lemma mem_create_ok:
  "mem_create rs rows = Some rows' \<Longrightarrow>
   \<exists>rs'. list_all2 stored rs rs' \<and> distinct (map key_of rs') \<and> (\<forall>r \<in> set rs'. tab rows (key_of r) = None) \<and>
     tab rows' = add_rows rs' (tab rows)"
proof (induction rs arbitrary: rows)
  case Nil
  then show ?case by simp
next
  case (Cons r rs)
  let ?r = "set_id (next_id rows) r"
  from Cons.prems have new: "key_of ?r \<notin> key_of ` set rows" "mem_create rs (?r # rows) = Some rows'"
    by (auto simp: Let_def split: if_splits)
  from Cons.IH [OF new(2)] obtain rs' where rs': "list_all2 stored rs rs'" "distinct (map key_of rs')"
      "\<forall>x \<in> set rs'. tab (?r # rows) (key_of x) = None" "tab rows' = add_rows rs' (tab (?r # rows))"
    by blast
  have "\<forall>x \<in> set rs'. key_of x \<noteq> key_of ?r \<and> tab rows (key_of x) = None"
    using rs'(3) by (auto split: if_splits)
  moreover from this have "map_of (map (\<lambda>r. (key_of r, r)) rs') (key_of ?r) = None"
    by (auto simp: map_of_eq_None_iff)
  then have "add_rows rs' ((tab rows)(key_of ?r \<mapsto> ?r)) = add_rows (?r # rs') (tab rows)"
    by (auto simp: add_rows_def map_add_def split: option.splits)
  ultimately show ?case
    using rs' new(1) by (intro exI [of _ "?r # rs'"]) (auto simp: tab_None)
qed

lemma tab_map:
  "\<forall>r \<in> set rows. key_of (g r) = key_of r \<Longrightarrow> tab (map g rows) k = map_option g (tab rows k)"
  by (induction rows) auto

lemma change_rows_map:
  assumes "\<forall>r \<in> set rows. P r \<longrightarrow> key_of (f r) = key_of r"
  shows "change_rows P f (tab rows) (tab (map (\<lambda>r. if P r then f r else r) rows))"
proof -
  have "\<exists>r'. (P x \<longrightarrow> f x = r' \<and> stored (f x) r') \<and> (\<not> P x \<longrightarrow> x = r' \<and> r' = x)" for x
    by (cases "P x") auto
  with assms show ?thesis by (auto simp: change_rows_def tab_map split: option.splits)
qed

lemma drop_rows_filter:
  "distinct (map key_of rows) \<Longrightarrow> tab (filter (\<lambda>r. \<not> P r) rows) = drop_rows P (tab rows)"
proof (induction rows)
  case (Cons r rows)
  then have "tab rows (key_of r) = None" by (simp add: tab_None)
  with Cons show ?case by (auto simp: drop_rows_def fun_eq_iff)
qed (simp add: drop_rows_def fun_eq_iff)

lemma mem_create_distinct:
  "mem_create rs rows = Some rows' \<Longrightarrow> distinct (map key_of rows) \<Longrightarrow> distinct (map key_of rows')"
  by (induction rs arbitrary: rows) (auto simp: Let_def split: if_splits)

lemma distinct_keys_filter: "distinct (map key_of rows) \<Longrightarrow> distinct (map key_of (filter P rows))"
  by (induction rows) auto

lemma mem_write_ok:
  assumes "distinct (map key_of rows)" and "mem_write w rows = Some rows'"
  shows "write_ok w (tab rows) (tab rows') \<and> distinct (map key_of rows')"
proof (cases w)
  case (Create rs)
  with assms show ?thesis
    using mem_create_ok [of rs rows rows'] mem_create_distinct [of rs rows rows'] by simp
next
  case (Save r)
  with assms show ?thesis
    by (auto simp: tab_filter_key fun_eq_iff distinct_keys_filter intro!: exI [of _ r])
next
  case (Update P f)
  with assms(2) have k: "\<forall>r \<in> set rows. P r \<longrightarrow> key_of (f r) = key_of r"
      "rows' = map (\<lambda>r. if P r then f r else r) rows"
    by (auto split: if_splits)
  then have "map key_of rows' = map key_of rows" by simp
  with assms(1) have "distinct (map key_of rows')" by metis
  with k show ?thesis
    using change_rows_map [of rows P f] Update by simp
next
  case (Delete P)
  with assms show ?thesis
    using drop_rows_filter [of rows P] by (auto simp: distinct_keys_filter)
qed

lemma mem_writes_ok:
  "distinct (map key_of rows) \<Longrightarrow> mem_writes ws rows = Some rows' \<Longrightarrow>
   writes_ok ws (tab rows) (tab rows')"
proof (induction ws arbitrary: rows)
  case (Cons w ws)
  then obtain r1 where "mem_write w rows = Some r1" "mem_writes ws r1 = Some rows'"
    by (auto simp: bind_eq_Some_conv)
  with Cons mem_write_ok [OF Cons.prems(1)] show ?case by auto
qed simp

lemma mem_done_Inr: "mem_done rows d = (Inr x, d') \<longleftrightarrow>
    (\<exists>rs. rows = Some rs \<and> x = Done \<and> d' = d\<lparr>mem_rows := rs\<rparr>)"
  by (auto simp: mem_done_def split: option.splits)

lemma mem_done_Inl: "mem_done rows d = (Inl e, d') \<longleftrightarrow> rows = None \<and> e = ErrDuplicatedKey \<and> d' = d"
  by (auto simp: mem_done_def split: option.splits)

lemma mem_run_failed: "mem_run q d = (Inl e, d') \<Longrightarrow> d' = d"
  by (cases q) (auto simp: mem_done_Inl Let_def split: list.splits if_splits)

lemma mem_run_not_found:
  "mem_run q d = (Inl e, d') \<Longrightarrow> is_not_found e \<Longrightarrow> \<exists>P. q = First P \<and> (\<forall>r \<in> ran (mem_tabs d). \<not> P r)"
  by (cases q)
    (auto simp: mem_done_Inl mem_tabs_def Let_def filter_empty_conv split: list.splits if_splits)

lemma mem_run_sorted:
  assumes "mem_run (FindSorted Q f n k) d = (Inr x, d')"
  shows "stmt_ok (FindSorted Q f n k) (mem_tabs d) x (mem_tabs d')"
proof -
  let ?all = "live (mem_rows d)"
  let ?rows = "sort_key (\<lambda>r. - f r) (filter (Q ?all) ?all)"
  have "sorted_wrt (\<lambda>a b. f a \<ge> f b) ?rows"
    using sorted_sort_key [of "\<lambda>r. - f r" "filter (Q ?all) ?all"]
    by (simp add: sorted_wrt_map)
  moreover have "distinct ?rows" "set ?rows = {r \<in> ran (mem_tabs d). Q ?all r}" "listing ?all (mem_tabs d)"
    by (auto simp: mem_tabs_def listing_def)
  moreover have "d' = d"
      "x = Rows (case n of None \<Rightarrow> drop k ?rows | Some m \<Rightarrow> take m (drop k ?rows))"
    using assms by (simp_all add: Let_def)
  ultimately show ?thesis
    unfolding stmt_ok.simps by (intro conjI exI [of _ ?all] exI [of _ ?rows]) simp_all
qed

lemma mem_run_ok:
  assumes "mem_run q d = (Inr x, d')"
  shows "stmt_ok q (mem_tabs d) x (mem_tabs d')"
proof (cases q)
  case (First P)
  with assms show ?thesis
    by (auto simp: mem_tabs_def filter_eq_Cons_iff split: list.splits)
next
  case (Count P)
  have "length (filter P (live (mem_rows d))) = card {r \<in> set (live (mem_rows d)). P r}"
    by (metis distinct_card distinct_filter distinct_live set_filter)
  with assms Count show ?thesis by (auto simp: mem_tabs_def)
next
  case (FindSorted Q f n k)
  with assms show ?thesis using mem_run_sorted by blast
next
  case (RawNames f)
  have "listing (live (mem_rows d)) (mem_tabs d)" by (simp add: mem_tabs_def listing_def)
  with assms RawNames show ?thesis by auto
next
  case (FirstOrCreate P r)
  let ?new = "set_id (next_id (live (mem_rows d))) r"
  from assms FirstOrCreate show ?thesis
    using distinct_live [of "mem_rows d"]
    by (auto simp: mem_tabs_def mem_done_Inr Let_def filter_empty_conv tab_None fun_eq_iff
        simp flip: tab_None split: if_splits intro!: exI [of _ ?new])
next
  case (Write w)
  with assms show ?thesis
    using mem_write_ok [OF live_distinct, of w "mem_rows d"] by (auto simp: mem_tabs_def mem_done_Inr)
next
  case (Transaction ws)
  with assms show ?thesis
    using mem_writes_ok [OF live_distinct, of ws "mem_rows d"] by (auto simp: mem_tabs_def mem_done_Inr)
qed (use assms in \<open>auto simp: mem_tabs_def\<close>)

interpretation mem: gorm_api mem_gorm mem_tabs
proof
  fix q d e d' x
  show "mem_tabs d k = Some r \<Longrightarrow> key_of r = k" for k r
    by (auto simp: mem_tabs_def dest: tab_Some)
  have t: "mem_tabs (d\<lparr>mem_faults := bs\<rparr>) = mem_tabs d" for bs
    by (simp add: mem_tabs_def)
  show "mem_gorm q d = (Inl e, d') \<Longrightarrow> mem_tabs d' = mem_tabs d"
    by (auto simp: mem_gorm_def t split: list.splits if_splits dest!: mem_run_failed)
  show "mem_gorm q d = (Inl e, d') \<Longrightarrow> is_not_found e \<Longrightarrow>
      \<exists>P. q = First P \<and> (\<forall>r \<in> ran (mem_tabs d). \<not> P r)"
    by (auto simp: mem_gorm_def t split: list.splits if_splits dest!: mem_run_not_found)
  show "mem_gorm q d = (Inr x, d') \<Longrightarrow> stmt_ok q (mem_tabs d) x (mem_tabs d')"
    by (auto simp: mem_gorm_def t split: list.splits if_splits dest!: mem_run_ok)
qed

end
