(* ===== verification/Semver.thy ===== *)
theory Semver
  imports Go_Prelude
begin

section \<open>Version constraints (internal/model/semver.go)\<close>

text \<open>
  A constraint is a disjunction of \<open>||\<close>-separated groups, each a conjunction of
  comma-separated clauses \<open><op> <version>\<close>. The functions below are those of
  \<open>semver.go\<close>, under their names. A loop over the pieces of a string is a recursion over
  the list \<open>split\<close> returns, one equation for each way through its body.

  The lemmas show that \<open>compareVersions\<close> is a total preorder on version strings, that the
  string matcher implements the evaluation of a parsed constraint, and what a half-open
  range means.
\<close>

subsection \<open>Versions\<close>

text \<open>
  \<open>versionSegments\<close>: an optional leading \<open>v\<close> is dropped, each dotted part is cut at its
  first minus or plus sign, and the list ends before the first part that is not a number.
\<close>

definition cut_suffix :: "string \<Rightarrow> string" where
  "cut_suffix p = takeWhile (\<lambda>c. c \<noteq> CHR ''-'' \<and> c \<noteq> CHR ''+'') p"

fun segments_of :: "string list \<Rightarrow> int list" where
  "segments_of [] = []"
| "segments_of (p # ps) =
     (case atoi (cut_suffix p) of
        (n, None) \<Rightarrow> n # segments_of ps
      | (_, Some _) \<Rightarrow> [])"

definition versionSegments :: "string \<Rightarrow> int list" where
  "versionSegments v = segments_of (split (trim_prefix v ''v'') ''.'')"

text \<open>\<open>compareVersions\<close>: the loop runs to the longer length; a missing segment is 0.\<close>

definition seg :: "int list \<Rightarrow> nat \<Rightarrow> int" where
  "seg xs i = (if i < length xs then xs ! i else 0)"

function compare_from :: "nat \<Rightarrow> int list \<Rightarrow> int list \<Rightarrow> int" where
  "compare_from i as bs =
     (if i < max (length as) (length bs) then
        if seg as i < seg bs i then - 1
        else if seg as i > seg bs i then 1
        else compare_from (Suc i) as bs
      else 0)"
  by pat_completeness auto
termination
  by (relation "measure (\<lambda>(i, as, bs). max (length as) (length bs) - i)") auto

declare compare_from.simps [simp del]

definition compareVersions :: "string \<Rightarrow> string \<Rightarrow> int" where
  "compareVersions a b = compare_from 0 (versionSegments a) (versionSegments b)"

subsection \<open>Clauses, groups, constraints\<close>

text \<open>
  \<open>parseClause\<close> tries the operators in the order of the source, which matters: the
  two-character ones come before their one-character prefixes.
\<close>

fun first_op :: "string list \<Rightarrow> string \<Rightarrow> (string \<times> string) option" where
  "first_op [] clause = None"
| "first_op (o' # os) clause =
     (if has_prefix clause o' then Some (o', trim_space (drop (length o') clause))
      else first_op os clause)"

definition parseClause :: "string \<Rightarrow> err + (string \<times> string)" where
  "parseClause clause =
     (case first_op [''>='', ''<='', ''>'', ''<'', ''==''] clause of
        Some r \<Rightarrow> Inr r
      | None \<Rightarrow>
          if has_prefix clause ''='' then Inr (''='', trim_space (drop 1 clause))
          else Inl (ErrMsg (''invalid version constraint clause '' @ clause)))"

definition matchClause :: "string \<Rightarrow> string \<Rightarrow> bool" where
  "matchClause clause agentVersion =
     (case parseClause clause of
        Inl _ \<Rightarrow> False
      | Inr (op, ver) \<Rightarrow>
          (let cmp = compareVersions agentVersion ver
           in if op = ''>='' then cmp \<ge> 0
              else if op = ''>'' then cmp > 0
              else if op = ''<='' then cmp \<le> 0
              else if op = ''<'' then cmp < 0
              else if op = ''='' \<or> op = ''=='' then cmp = 0
              else False))"

fun match_clauses :: "string list \<Rightarrow> string \<Rightarrow> bool" where
  "match_clauses [] agentVersion = True"
| "match_clauses (clause # cs) agentVersion =
     (let clause' = trim_space clause
      in if clause' = [] then match_clauses cs agentVersion
         else if \<not> matchClause clause' agentVersion then False
         else match_clauses cs agentVersion)"

definition matchAndGroup :: "string \<Rightarrow> string \<Rightarrow> bool" where
  "matchAndGroup grp agentVersion = match_clauses (split grp '','') agentVersion"

fun match_groups :: "string list \<Rightarrow> string \<Rightarrow> bool" where
  "match_groups [] agentVersion = False"
| "match_groups (grp # gs) agentVersion =
     (let grp' = trim_space grp
      in if grp' = [] then match_groups gs agentVersion
         else if matchAndGroup grp' agentVersion then True
         else match_groups gs agentVersion)"

definition MatchVersionConstraint :: "string \<Rightarrow> string \<Rightarrow> bool" where
  "MatchVersionConstraint constraint agentVersion =
     (let c = trim_space constraint
      in if c = [] then True else match_groups (split c ''||'') agentVersion)"

text \<open>\<open>ValidateVersionConstraint\<close> walks the same structure; \<open>None\<close> is the nil error.\<close>

fun validate_clauses :: "string list \<Rightarrow> err option" where
  "validate_clauses [] = None"
| "validate_clauses (clause # cs) =
     (let clause' = trim_space clause
      in if clause' = [] then validate_clauses cs
         else (case parseClause clause' of
                 Inl e \<Rightarrow> Some e
               | Inr _ \<Rightarrow> validate_clauses cs))"

fun validate_groups :: "string list \<Rightarrow> err option" where
  "validate_groups [] = None"
| "validate_groups (grp # gs) =
     (let grp' = trim_space grp
      in if grp' = [] then validate_groups gs
         else (case validate_clauses (split grp' '','') of
                 Some e \<Rightarrow> Some e
               | None \<Rightarrow> validate_groups gs))"

definition ValidateVersionConstraint :: "string \<Rightarrow> err option" where
  "ValidateVersionConstraint constraint =
     (let c = trim_space constraint
      in if c = [] then None else validate_groups (split c ''||''))"

subsection \<open>Comparison is a total preorder\<close>

text \<open>
  Padded with zeros, a version is a function from positions to segments; \<open>compare_from i\<close>
  finds the first position from \<open>i\<close> at which two of them differ.
\<close>

definition first_less :: "nat \<Rightarrow> (nat \<Rightarrow> int) \<Rightarrow> (nat \<Rightarrow> int) \<Rightarrow> bool" where
  "first_less i f g \<longleftrightarrow> (\<exists>k\<ge>i. (\<forall>j. i \<le> j \<and> j < k \<longrightarrow> f j = g j) \<and> f k < g k)"

definition same_from :: "nat \<Rightarrow> (nat \<Rightarrow> int) \<Rightarrow> (nat \<Rightarrow> int) \<Rightarrow> bool" where
  "same_from i f g \<longleftrightarrow> (\<forall>k\<ge>i. f k = g k)"

lemma first_less_asym: "first_less i f g \<Longrightarrow> \<not> first_less i g f"
  unfolding first_less_def by (metis linorder_neqE_nat order_less_asym order_less_irrefl)

lemma first_less_not_same: "first_less i f g \<Longrightarrow> \<not> same_from i f g"
  unfolding first_less_def same_from_def by fastforce

lemma first_less_not_same': "first_less i f g \<Longrightarrow> \<not> same_from i g f"
  unfolding first_less_def same_from_def by fastforce

lemma first_less_trans:
  assumes "first_less i f g" and "first_less i g h"
  shows "first_less i f h"
proof -
  obtain k where k: "k \<ge> i" "\<forall>j. i \<le> j \<and> j < k \<longrightarrow> f j = g j" "f k < g k"
    using assms(1) by (auto simp: first_less_def)
  obtain l where l: "l \<ge> i" "\<forall>j. i \<le> j \<and> j < l \<longrightarrow> g j = h j" "g l < h l"
    using assms(2) by (auto simp: first_less_def)
  have "f (min k l) < h (min k l)"
    using k l by (cases k l rule: linorder_cases) (auto simp: min_def)
  moreover have "\<forall>j. i \<le> j \<and> j < min k l \<longrightarrow> f j = h j"
    using k l by auto
  ultimately show ?thesis
    using k l by (auto simp: first_less_def intro!: exI [of _ "min k l"])
qed

lemma first_less_same:
  assumes "first_less i f g" and "same_from i g h"
  shows "first_less i f h"
  using assms unfolding first_less_def same_from_def by fastforce

lemma same_first_less:
  assumes "same_from i f g" and "first_less i g h"
  shows "first_less i f h"
  using assms unfolding first_less_def same_from_def by fastforce

lemma same_from_sym: "same_from i f g \<longleftrightarrow> same_from i g f"
  by (auto simp: same_from_def)

lemma first_less_Suc: "f i = g i \<Longrightarrow> first_less (Suc i) f g \<Longrightarrow> first_less i f g"
  unfolding first_less_def by (metis Suc_leD le_antisym not_less_eq_eq)

lemma first_less_here: "f i < g i \<Longrightarrow> first_less i f g"
  unfolding first_less_def by (rule exI [of _ i]) auto

lemma compare_from_cases:
  "compare_from i as bs = 0 \<and> same_from i (seg as) (seg bs) \<or>
   compare_from i as bs = - 1 \<and> first_less i (seg as) (seg bs) \<or>
   compare_from i as bs = 1 \<and> first_less i (seg bs) (seg as)"
proof (induction i as bs rule: compare_from.induct)
  case (1 i as bs)
  consider (past) "\<not> i < max (length as) (length bs)"
    | (less) "i < max (length as) (length bs)" "seg as i < seg bs i"
    | (greater) "i < max (length as) (length bs)" "seg as i > seg bs i"
    | (same) "i < max (length as) (length bs)" "seg as i = seg bs i"
    by linarith
  then show ?case
  proof cases
    case past
    then show ?thesis by (subst compare_from.simps) (auto simp: same_from_def seg_def)
  next
    case less
    then show ?thesis by (subst (1 2 3) compare_from.simps) (auto intro: first_less_here)
  next
    case greater
    then show ?thesis by (subst (1 2 3) compare_from.simps) (auto intro: first_less_here)
  next
    case same
    then have "compare_from i as bs = compare_from (Suc i) as bs"
      by (subst compare_from.simps) simp
    with 1 same show ?thesis
      by (auto simp: same_from_def intro: first_less_Suc)
        (metis le_antisym not_less_eq_eq)+
  qed
qed

lemmas first_less_rules =
  first_less_asym first_less_not_same first_less_not_same' first_less_trans

lemma compare_from_zero: "compare_from i as bs = 0 \<longleftrightarrow> same_from i (seg as) (seg bs)"
  using compare_from_cases [of i as bs] by (auto dest: first_less_not_same first_less_not_same')

lemma compare_from_neg: "compare_from i as bs < 0 \<longleftrightarrow> first_less i (seg as) (seg bs)"
  using compare_from_cases [of i as bs] by (auto dest: first_less_not_same first_less_asym)

lemma compare_from_pos: "compare_from i as bs > 0 \<longleftrightarrow> first_less i (seg bs) (seg as)"
  using compare_from_cases [of i as bs] by (auto dest: first_less_not_same' first_less_asym)

lemma compare_from_swap: "compare_from i bs as = - compare_from i as bs"
  using compare_from_cases [of i as bs] compare_from_cases [of i bs as]
  by (auto simp: same_from_sym dest: first_less_not_same first_less_not_same' first_less_asym)

lemma compare_from_trans:
  assumes "compare_from i as bs \<le> 0" and "compare_from i bs cs \<le> 0"
  shows "compare_from i as cs \<le> 0"
proof -
  have "first_less i (seg as) (seg bs) \<or> same_from i (seg as) (seg bs)"
    using assms(1) by (auto simp: compare_from_neg compare_from_zero order_le_less)
  moreover have "first_less i (seg bs) (seg cs) \<or> same_from i (seg bs) (seg cs)"
    using assms(2) by (auto simp: compare_from_neg compare_from_zero order_le_less)
  ultimately have "first_less i (seg as) (seg cs) \<or> same_from i (seg as) (seg cs)"
    using first_less_trans first_less_same same_first_less
    by (metis (no_types, lifting) same_from_def)
  then show ?thesis
    by (auto simp: compare_from_neg [symmetric] compare_from_zero [symmetric])
qed

text \<open>
  Version comparison is a total preorder on all version strings, whatever they contain:
  a string equals itself, swapping the arguments negates the result (so any two versions are
  comparable), and "not newer than" is transitive. Constraints therefore cut the versions
  into intervals.
\<close>

theorem compareVersions_preorder:
  "compareVersions a a = 0 \<and>
   compareVersions b a = - compareVersions a b \<and>
   (compareVersions a b \<le> 0 \<longrightarrow> compareVersions b c \<le> 0 \<longrightarrow> compareVersions a c \<le> 0)"
  unfolding compareVersions_def
  by (metis compare_from_swap compare_from_trans compare_from_zero same_from_def)

theorem compareVersions_preorder_witness:
  "compareVersions ''1.9.0'' ''v1.10'' \<le> 0 \<and> compareVersions ''v1.10'' ''2-beta'' \<le> 0 \<and>
   compareVersions ''1.9.0'' ''2-beta'' \<le> 0"
proof -
  have "compareVersions ''1.9.0'' ''v1.10'' \<le> 0" "compareVersions ''v1.10'' ''2-beta'' \<le> 0"
    by code_simp+
  then show ?thesis
    using compareVersions_preorder [of "''1.9.0''" "''v1.10''" "''2-beta''"] by blast
qed

subsection \<open>The meaning of a constraint\<close>

text \<open>
  The documented language, as data: a constraint is a list of groups, a group a list of
  clauses, a clause an operator and the segments of a version. \<open>eval_constraint\<close> is its
  meaning; \<open>render_constraint\<close> writes it the way the documentation does.
\<close>

datatype version_op = Ge | Gt | Le | Lt | Eq

type_synonym version_clause = "version_op \<times> nat list"

fun op_holds :: "version_op \<Rightarrow> int \<Rightarrow> bool" where
  "op_holds Ge c = (c \<ge> 0)"
| "op_holds Gt c = (c > 0)"
| "op_holds Le c = (c \<le> 0)"
| "op_holds Lt c = (c < 0)"
| "op_holds Eq c = (c = 0)"

definition eval_clause :: "int list \<Rightarrow> version_clause \<Rightarrow> bool" where
  "eval_clause v cl = op_holds (fst cl) (compare_from 0 v (map int (snd cl)))"

definition eval_constraint :: "int list \<Rightarrow> version_clause list list \<Rightarrow> bool" where
  "eval_constraint v gs \<longleftrightarrow> (\<exists>g \<in> set gs. \<forall>cl \<in> set g. eval_clause v cl)"

fun op_string :: "version_op \<Rightarrow> string" where
  "op_string Ge = ''>=''"
| "op_string Gt = ''>''"
| "op_string Le = ''<=''"
| "op_string Lt = ''<''"
| "op_string Eq = ''=''"

definition render_version :: "nat list \<Rightarrow> string" where
  "render_version ns = join (map show_nat ns) ''.''"

definition render_clause :: "version_clause \<Rightarrow> string" where
  "render_clause cl = op_string (fst cl) @ '' '' @ render_version (snd cl)"

definition render_group :: "version_clause list \<Rightarrow> string" where
  "render_group g = join (map render_clause g) '', ''"

definition render_constraint :: "version_clause list list \<Rightarrow> string" where
  "render_constraint gs = join (map render_group gs) '' || ''"

text \<open>A clause is well formed when its version has a segment and every segment is a Go \<open>int\<close>.\<close>

definition clause_wf :: "version_clause \<Rightarrow> bool" where
  "clause_wf cl \<longleftrightarrow> snd cl \<noteq> [] \<and> (\<forall>n \<in> set (snd cl). int n < 2 ^ 63)"

definition constraint_wf :: "version_clause list list \<Rightarrow> bool" where
  "constraint_wf gs \<longleftrightarrow> gs \<noteq> [] \<and> (\<forall>g \<in> set gs. g \<noteq> [] \<and> (\<forall>cl \<in> set g. clause_wf cl))"

lemma hd_join: "xs \<noteq> [] \<Longrightarrow> hd xs \<noteq> [] \<Longrightarrow> hd (join xs sep) = hd (hd xs)"
  by (cases "(xs, sep)" rule: join.cases) auto

lemma join_not_Nil: "xs \<noteq> [] \<Longrightarrow> \<forall>x \<in> set xs. x \<noteq> [] \<Longrightarrow> join xs sep \<noteq> []"
  by (cases "(xs, sep)" rule: join.cases) auto

lemma last_join: "xs \<noteq> [] \<Longrightarrow> \<forall>x \<in> set xs. x \<noteq> [] \<Longrightarrow> last (join xs sep) = last (last xs)"
  by (induction xs sep rule: join.induct) (auto simp: join_not_Nil)

lemma set_join: "set (join xs sep) \<subseteq> \<Union> (set ` set xs) \<union> set sep"
  by (induction xs sep rule: join.induct) auto

lemma set_render_version: "set (render_version ns) \<subseteq> {c. is_digit c \<or> c = CHR ''.''}"
  using set_join [of "map show_nat ns" "''.''"] show_nat_digits
  by (fastforce simp: render_version_def list_all_iff)

lemma render_version_ends:
  assumes "ns \<noteq> []"
  shows "render_version ns \<noteq> []" and "is_digit (hd (render_version ns))"
    and "is_digit (last (render_version ns))"
  using assms hd_show_nat_digit last_show_nat_digit
  by (auto simp: render_version_def join_not_Nil hd_join last_join hd_map last_map)

lemma segments_of_show:
  "\<forall>n \<in> set ns. int n < 2 ^ 63 \<Longrightarrow> segments_of (map show_nat ns) = map int ns"
proof (induction ns)
  case (Cons n ns)
  have "cut_suffix (show_nat n) = show_nat n"
    using show_nat_digits [of n] digit_not_sign
    by (auto simp: cut_suffix_def list_all_iff takeWhile_eq_all_conv)
  with Cons show ?case by (simp add: atoi_show_nat)
qed simp

lemma versionSegments_render:
  assumes "ns \<noteq> []" and "\<forall>n \<in> set ns. int n < 2 ^ 63"
  shows "versionSegments (render_version ns) = map int ns"
proof -
  have "\<not> prefix ''v'' (render_version ns)"
    using render_version_ends(2) [OF assms(1)] render_version_ends(1) [OF assms(1)]
    by (cases "render_version ns") (auto simp: is_digit_def less_eq_char_def)
  moreover have "split (render_version ns) ''.'' = map show_nat ns"
    unfolding render_version_def
    by (rule split_join) (use assms(1) show_nat_not_mem in \<open>auto simp: is_digit_def less_eq_char_def\<close>)
  ultimately show ?thesis
    using assms(2) by (simp add: versionSegments_def trim_prefix_def segments_of_show)
qed

lemma matchClause_render:
  assumes "clause_wf cl"
  shows "matchClause (render_clause cl) v = eval_clause (versionSegments v) cl"
proof -
  obtain op' ns where cl: "cl = (op', ns)" by (cases cl)
  with assms have ns: "ns \<noteq> []" "\<forall>n \<in> set ns. int n < 2 ^ 63" by (auto simp: clause_wf_def)
  have t: "trim_space (CHR '' '' # render_version ns) = render_version ns"
    using render_version_ends [OF ns(1)]
    by (simp add: trim_space_blank trim_space_solid is_digit_solid)
  have p: "parseClause (render_clause cl) = Inr (op_string op', render_version ns)"
    using t by (cases op') (simp_all add: cl parseClause_def render_clause_def has_prefix_def)
  show ?thesis
    unfolding matchClause_def p using versionSegments_render [OF ns]
    by (cases op') (simp_all add: cl eval_clause_def compareVersions_def)
qed

lemma render_clause_ends:
  assumes "clause_wf cl"
  shows "render_clause cl \<noteq> []" and "solid (hd (render_clause cl))"
    and "solid (last (render_clause cl))"
proof -
  obtain op' ns where cl: "cl = (op', ns)" by (cases cl)
  with assms have ns: "ns \<noteq> []" by (auto simp: clause_wf_def)
  show "render_clause cl \<noteq> []" "solid (hd (render_clause cl))"
    by (cases op'; simp add: render_clause_def cl solid_def less_char_def)+
  show "solid (last (render_clause cl))"
    using render_version_ends [OF ns] by (simp add: render_clause_def cl is_digit_solid)
qed

lemma set_render_clause:
  "set (render_clause cl) \<subseteq> {c. is_digit c \<or> c \<in> set ''.>=< ''}"
proof -
  have "set (op_string (fst cl)) \<subseteq> set ''>=<''" by (cases "fst cl") auto
  with set_render_version [of "snd cl"] show ?thesis by (auto simp: render_clause_def)
qed

lemma render_clause_no_sep: "CHR '','' \<notin> set (render_clause cl)" "CHR ''|'' \<notin> set (render_clause cl)"
  using set_render_clause [of cl] by (auto simp: is_digit_def less_eq_char_def)

text \<open>Splitting a rendered list at its separator gives the elements back, up to blanks.\<close>

definition trimmed_word :: "string \<Rightarrow> bool" where
  "trimmed_word x \<longleftrightarrow> x \<noteq> [] \<and> solid (hd x) \<and> solid (last x)"

lemma trimmed_word_trims:
  assumes "trimmed_word x"
  shows "trim_space x = x" "trim_space ('' '' @ x) = x"
    "trim_space (x @ '' '') = x" "trim_space ('' '' @ x @ '' '') = x"
  using assms by (auto simp: trimmed_word_def trim_space_solid trim_space_blank trim_space_blanks)

lemma split_comma_pieces:
  assumes "\<forall>y \<in> set (x # xs). trimmed_word y \<and> CHR '','' \<notin> set y" and "b = [] \<or> b = '' ''"
  shows "list_all2 (\<lambda>z y. trim_space z = y) (split (b @ join (x # xs) '', '') '','') (x # xs)"
  using assms
proof (induction xs arbitrary: x b)
  case Nil
  then have "split (b @ x) '','' = [b @ x]" by (auto simp: split_char_single)
  moreover have "trim_space (b @ x) = x"
    using Nil trimmed_word_trims [of x] by auto
  ultimately show ?case by simp
next
  case (Cons y ys)
  have "CHR '','' \<notin> set (b @ x)" using Cons.prems by auto
  then have "split (b @ join (x # y # ys) '', '') '','' =
      (b @ x) # split ('' '' @ join (y # ys) '', '') '',''"
    using split_char_append [of "CHR '',''" "b @ x" "'' '' @ join (y # ys) '', ''"] by simp
  moreover have "trim_space (b @ x) = x"
    using Cons.prems trimmed_word_trims [of x] by auto
  moreover have "list_all2 (\<lambda>z y. trim_space z = y)
      (split ('' '' @ join (y # ys) '', '') '','') (y # ys)"
    using Cons.prems by (intro Cons.IH) auto
  ultimately show ?case by simp
qed

lemma split_bars_pieces:
  assumes "\<forall>y \<in> set (x # xs). trimmed_word y \<and> CHR ''|'' \<notin> set y" and "b = [] \<or> b = '' ''"
  shows "list_all2 (\<lambda>z y. trim_space z = y) (split (b @ join (x # xs) '' || '') ''||'') (x # xs)"
  using assms
proof (induction xs arbitrary: x b)
  case Nil
  then have "split (b @ x) ''||'' = [b @ x]" by (auto simp: split_double_single)
  moreover have "trim_space (b @ x) = x"
    using Nil trimmed_word_trims [of x] by auto
  ultimately show ?case by simp
next
  case (Cons y ys)
  have "CHR ''|'' \<notin> set (b @ x @ '' '')" using Cons.prems by auto
  then have "split (b @ join (x # y # ys) '' || '') ''||'' =
      (b @ x @ '' '') # split ('' '' @ join (y # ys) '' || '') ''||''"
    using split_double_append [of "CHR ''|''" "b @ x @ '' ''" "'' '' @ join (y # ys) '' || ''"]
    by simp
  moreover have "trim_space (b @ x @ '' '') = x"
    using Cons.prems trimmed_word_trims [of x] by auto
  moreover have "list_all2 (\<lambda>z y. trim_space z = y)
      (split ('' '' @ join (y # ys) '' || '') ''||'') (y # ys)"
    using Cons.prems by (intro Cons.IH) auto
  ultimately show ?case by simp
qed

lemma match_clauses_pieces:
  assumes "list_all2 (\<lambda>z y. trim_space z = y) zs (map render_clause cls)"
    and "\<forall>cl \<in> set cls. clause_wf cl"
  shows "match_clauses zs v \<longleftrightarrow> (\<forall>cl \<in> set cls. eval_clause (versionSegments v) cl)"
  using assms
proof (induction cls arbitrary: zs)
  case (Cons cl cls)
  then obtain z zs' where zs: "zs = z # zs'" "trim_space z = render_clause cl"
      "list_all2 (\<lambda>z y. trim_space z = y) zs' (map render_clause cls)"
    by (auto simp: list_all2_Cons2)
  have "match_clauses zs' v \<longleftrightarrow> (\<forall>cl \<in> set cls. eval_clause (versionSegments v) cl)"
    using Cons.prems(2) by (intro Cons.IH zs(3)) simp
  with Cons.prems(2) zs show ?case
    by (simp add: Let_def render_clause_ends(1) matchClause_render)
qed simp

lemma trimmed_word_render_clause: "clause_wf cl \<Longrightarrow> trimmed_word (render_clause cl)"
  by (simp add: trimmed_word_def render_clause_ends)

lemma matchAndGroup_render:
  assumes "g \<noteq> []" and "\<forall>cl \<in> set g. clause_wf cl"
  shows "matchAndGroup (render_group g) v \<longleftrightarrow> (\<forall>cl \<in> set g. eval_clause (versionSegments v) cl)"
proof -
  obtain c cs where g: "g = c # cs" using assms(1) by (cases g) auto
  have "\<forall>y \<in> set (render_clause c # map render_clause cs). trimmed_word y \<and> CHR '','' \<notin> set y"
    using assms(2) by (auto simp: g trimmed_word_render_clause render_clause_no_sep)
  from split_comma_pieces [OF this, of "[]"]
  have "list_all2 (\<lambda>z y. trim_space z = y) (split (render_group g) '','') (map render_clause g)"
    by (simp add: g render_group_def)
  then show ?thesis
    unfolding matchAndGroup_def using assms(2) by (rule match_clauses_pieces)
qed

lemma trimmed_word_render_group:
  assumes "g \<noteq> []" and "\<forall>cl \<in> set g. clause_wf cl"
  shows "trimmed_word (render_group g)" and "CHR ''|'' \<notin> set (render_group g)"
proof -
  have ne: "\<forall>x \<in> set (map render_clause g). x \<noteq> []"
    using assms(2) by (auto simp: render_clause_ends)
  have "solid (hd (render_clause (hd g)))" "solid (last (render_clause (last g)))"
    using assms by (simp_all add: render_clause_ends)
  with ne show "trimmed_word (render_group g)"
    using assms(1)
    by (simp add: trimmed_word_def render_group_def join_not_Nil hd_join last_join hd_map last_map)
  show "CHR ''|'' \<notin> set (render_group g)"
    using set_join [of "map render_clause g" "'', ''"] render_clause_no_sep(2)
    by (auto simp: render_group_def)
qed

lemma match_groups_pieces:
  assumes "list_all2 (\<lambda>z y. trim_space z = y) zs (map render_group gs)"
    and "\<forall>g \<in> set gs. g \<noteq> [] \<and> (\<forall>cl \<in> set g. clause_wf cl)"
  shows "match_groups zs v \<longleftrightarrow> eval_constraint (versionSegments v) gs"
  using assms
proof (induction gs arbitrary: zs)
  case Nil
  then show ?case by (simp add: eval_constraint_def)
next
  case (Cons g gs)
  then obtain z zs' where zs: "zs = z # zs'" "trim_space z = render_group g"
      "list_all2 (\<lambda>z y. trim_space z = y) zs' (map render_group gs)"
    by (auto simp: list_all2_Cons2)
  have "match_groups zs' v \<longleftrightarrow> eval_constraint (versionSegments v) gs"
    using Cons.prems(2) by (intro Cons.IH zs(3)) simp
  moreover have "trimmed_word (render_group g)"
    using Cons.prems(2) by (intro trimmed_word_render_group) auto
  ultimately show ?case
    using Cons.prems(2) zs
    by (auto simp: Let_def matchAndGroup_render trimmed_word_def eval_constraint_def)
qed

text \<open>
  C23. Reading a constraint back: for every constraint of the documented language (operators
  \<open>>=\<close>, \<open>>\<close>, \<open><=\<close>, \<open><\<close>, \<open>=\<close>; commas for "and", \<open>||\<close> for "or"; segments that fit Go's
  \<open>int\<close>), written with the documented punctuation, \<open>MatchVersionConstraint\<close> decides exactly
  its meaning over the agent's version segments: some group all of whose clauses hold.
\<close>

theorem MatchVersionConstraint_render:
  assumes "constraint_wf gs"
  shows "MatchVersionConstraint (render_constraint gs) v \<longleftrightarrow>
    eval_constraint (versionSegments v) gs"
proof -
  obtain g gs' where gs: "gs = g # gs'" using assms by (cases gs) (auto simp: constraint_wf_def)
  have wf: "\<forall>g \<in> set gs. g \<noteq> [] \<and> (\<forall>cl \<in> set g. clause_wf cl)"
    using assms by (auto simp: constraint_wf_def)
  then have tw: "\<forall>y \<in> set (map render_group gs). trimmed_word y \<and> CHR ''|'' \<notin> set y"
    by (auto simp: trimmed_word_render_group)
  have "list_all2 (\<lambda>z y. trim_space z = y) (split (render_constraint gs) ''||'') (map render_group gs)"
    using split_bars_pieces [of "render_group g" "map render_group gs'" "[]"] tw
    by (simp add: gs render_constraint_def)
  note pieces = match_groups_pieces [OF this wf]
  have ends: "\<forall>x \<in> set (map render_group gs). x \<noteq> []" "solid (hd (render_group (hd gs)))"
      "solid (last (render_group (last gs)))"
    using tw gs by (auto simp: trimmed_word_def)
  then have "trimmed_word (render_constraint gs)"
    using gs by (simp add: trimmed_word_def render_constraint_def join_not_Nil hd_join last_join hd_map last_map
      del: join.simps list.map last.simps)
  then show ?thesis
    using pieces by (simp add: MatchVersionConstraint_def trimmed_word_trims Let_def trimmed_word_def)
qed

theorem MatchVersionConstraint_render_witness:
  "constraint_wf [[(Ge, [1, 2, 0]), (Lt, [2, 0, 0])], [(Ge, [3])]] \<and>
   render_constraint [[(Ge, [1, 2, 0]), (Lt, [2, 0, 0])], [(Ge, [3])]]
     = ''>= 1.2.0, < 2.0.0 || >= 3'' \<and>
   MatchVersionConstraint ''>= 1.2.0, < 2.0.0 || >= 3'' ''1.10.0-beta'' \<and>
   \<not> MatchVersionConstraint ''>= 1.2.0, < 2.0.0 || >= 3'' ''2.0''"
proof -
  let ?gs = "[[(Ge, [1, 2, 0]), (Lt, [2, 0, 0])], [(Ge, [3])]] :: version_clause list list"
  have wf: "constraint_wf ?gs" by (simp add: constraint_wf_def clause_wf_def)
  have r: "render_constraint ?gs = ''>= 1.2.0, < 2.0.0 || >= 3''" by code_simp
  have "versionSegments ''1.10.0-beta'' = [1, 10, 0]" "versionSegments ''2.0'' = [2, 0]"
    by code_simp+
  moreover have "eval_constraint [1, 10, 0] ?gs" "\<not> eval_constraint [2, 0] ?gs"
    by code_simp+
  ultimately show ?thesis
    using MatchVersionConstraint_render [OF wf] wf r by metis
qed

lemma match_clauses_mem:
  "match_clauses cs v \<Longrightarrow> c \<in> set cs \<Longrightarrow> trim_space c \<noteq> [] \<Longrightarrow> matchClause (trim_space c) v"
  by (induction cs) (auto simp: Let_def split: if_splits)

lemma validate_clauses_Some:
  "validate_clauses cs = Some e \<Longrightarrow>
   \<exists>c \<in> set cs. trim_space c \<noteq> [] \<and> parseClause (trim_space c) = Inl e"
  by (induction cs) (auto simp: Let_def split: if_splits sum.splits)

text \<open>
  A constraint that \<open>ValidateVersionConstraint\<close> rejects is never satisfied by way of its
  bad clause: a group containing a clause without an operator matches no agent (the matcher
  fails closed where the validator reports an error).
\<close>

theorem rejected_group_never_matches:
  assumes "validate_clauses (split grp '','') = Some e"
  shows "\<not> matchAndGroup grp v"
  using validate_clauses_Some [OF assms] match_clauses_mem [of "split grp '',''" v]
  by (fastforce simp: matchAndGroup_def matchClause_def)

theorem rejected_group_never_matches_witness:
  "validate_clauses (split ''>= 1.0, 2.0'' '','') \<noteq> None \<and> \<not> matchAndGroup ''>= 1.0, 2.0'' ''1.5''"
proof -
  have "validate_clauses (split ''>= 1.0, 2.0'' '','') =
      Some (ErrMsg ''invalid version constraint clause 2.0'')"
    by code_simp
  with rejected_group_never_matches [OF this, of "''1.5''"] show ?thesis by simp
qed

end
