(* ===== verification/Netip.thy ===== *)
theory Netip
  imports Go_Prelude
begin


section \<open>IP addresses (the standard library package net/netip)\<close>

text \<open>
  The part of \<open>net/netip\<close> that the selectors use: \<open>Addr\<close> with its zero value, its IPv4
  values and its IPv6 values with an optional zone; \<open>ParseAddr\<close>, \<open>ParsePrefix\<close>, \<open>Compare\<close>,
  \<open>Is4\<close>, \<open>As4\<close>, \<open>AddrFrom4\<close> and \<open>Prefix.Contains\<close>. An IPv4-mapped IPv6 address is an IPv6
  value, as in Go. Parsing failures carry no text here: the program only wraps them.

  \<open>Compare\<close> orders by bit length, then address, then zone; it is the order of the
  \<open>linorder\<close> instance of \<open>addr\<close>.
\<close>

datatype addr =
    AddrZero
  | Addr4 "32 word"
  | Addr6 "128 word" string

fun bit_len :: "addr \<Rightarrow> nat" where
  "bit_len AddrZero = 0"
| "bit_len (Addr4 _) = 32"
| "bit_len (Addr6 _ _) = 128"

fun is4 :: "addr \<Rightarrow> bool" where
  "is4 (Addr4 _) = True"
| "is4 _ = False"

fun is6 :: "addr \<Rightarrow> bool" where
  "is6 (Addr6 _ _) = True"
| "is6 _ = False"

fun addr_zone :: "addr \<Rightarrow> string" where
  "addr_zone (Addr6 _ z) = z"
| "addr_zone _ = []"

fun addr_value :: "addr \<Rightarrow> nat" where
  "addr_value AddrZero = 0"
| "addr_value (Addr4 w) = unat w"
| "addr_value (Addr6 w _) = unat w"

definition addr_key :: "addr \<Rightarrow> nat \<times> nat \<times> string" where
  "addr_key a = (bit_len a, addr_value a, addr_zone a)"

text \<open>\<open>Addr.Compare\<close>.\<close>

definition addr_compare :: "addr \<Rightarrow> addr \<Rightarrow> int" where
  "addr_compare a b =
     (if bit_len a < bit_len b then - 1 else if bit_len a > bit_len b then 1
      else if addr_value a < addr_value b then - 1 else if addr_value a > addr_value b then 1
      else if addr_zone a < addr_zone b then - 1 else if addr_zone a > addr_zone b then 1
      else 0)"

lemma addr_key_inj: "addr_key a = addr_key b \<longleftrightarrow> a = b"
  by (cases a; cases b) (auto simp: addr_key_def word_unat_eq_iff)

instantiation addr :: linorder
begin

definition less_eq_addr :: "addr \<Rightarrow> addr \<Rightarrow> bool" where
  "less_eq_addr a b \<longleftrightarrow> addr_compare a b \<le> 0"

definition less_addr :: "addr \<Rightarrow> addr \<Rightarrow> bool" where
  "less_addr a b \<longleftrightarrow> addr_compare a b < 0"

instance
proof
  fix x y z :: addr
  show "(x < y) = (x \<le> y \<and> \<not> y \<le> x)"
    by (auto simp: less_addr_def less_eq_addr_def addr_compare_def)
  show "x \<le> x"
    by (simp add: less_eq_addr_def addr_compare_def)
  show "x \<le> y \<Longrightarrow> y \<le> z \<Longrightarrow> x \<le> z"
    unfolding less_eq_addr_def addr_compare_def by (auto split: if_splits)
  show "x \<le> y \<Longrightarrow> y \<le> x \<Longrightarrow> x = y"
    by (rule addr_key_inj [THEN iffD1])
      (auto simp: less_eq_addr_def addr_compare_def addr_key_def split: if_splits)
  show "x \<le> y \<or> y \<le> x"
    by (auto simp: less_eq_addr_def addr_compare_def)
qed

end

lemma addr_compare_le: "addr_compare a b \<le> 0 \<longleftrightarrow> a \<le> b"
  by (simp add: less_eq_addr_def)

lemma addr_compare_less: "addr_compare a b < 0 \<longleftrightarrow> a < b"
  by (simp add: less_addr_def)

lemma addr_compare_swap: "addr_compare b a = - addr_compare a b"
  by (auto simp: addr_compare_def)

lemma addr_compare_ge: "addr_compare a b \<ge> 0 \<longleftrightarrow> b \<le> a"
  using addr_compare_swap [of a b] by (simp add: less_eq_addr_def)

lemma addr_compare_greater: "addr_compare a b > 0 \<longleftrightarrow> b < a"
  using addr_compare_swap [of a b] by (simp add: less_addr_def)

lemma Addr4_le [simp]: "Addr4 v \<le> Addr4 w \<longleftrightarrow> v \<le> w"
  by (auto simp: less_eq_addr_def addr_compare_def word_le_nat_alt)

lemma Addr4_between: "Addr4 v \<le> a \<Longrightarrow> a \<le> Addr4 w \<Longrightarrow> is4 a"
  by (cases a) (auto simp: less_eq_addr_def addr_compare_def split: if_splits)

subsection \<open>Octets\<close>

definition octets :: "32 word \<Rightarrow> nat \<times> nat \<times> nat \<times> nat" where
  "octets w = (unat (drop_bit 24 w) mod 256, unat (drop_bit 16 w) mod 256,
     unat (drop_bit 8 w) mod 256, unat w mod 256)"

text \<open>\<open>AddrFrom4\<close> of four octets, most significant first.\<close>

definition from_octets :: "nat \<Rightarrow> nat \<Rightarrow> nat \<Rightarrow> nat \<Rightarrow> 32 word" where
  "from_octets a b c d = of_nat (((a * 256 + b) * 256 + c) * 256 + d)"

subsection \<open>Parsing IPv4\<close>

text \<open>
  \<open>parseIPv4Fields\<close>: exactly four dot-separated fields of one or more digits, each at most
  255 and without a leading zero.
\<close>

definition octet_of :: "string \<Rightarrow> nat option" where
  "octet_of f =
     (if f \<noteq> [] \<and> list_all is_digit f \<and> (length f > 1 \<longrightarrow> hd f \<noteq> CHR ''0'') \<and> dec_val f \<le> 255
      then Some (dec_val f) else None)"

definition parse_ipv4 :: "string \<Rightarrow> (32 word) option" where
  "parse_ipv4 s =
     (case map octet_of (split s ''.'') of
        [Some a, Some b, Some c, Some d] \<Rightarrow> Some (from_octets a b c d)
      | _ \<Rightarrow> None)"

subsection \<open>Parsing IPv6\<close>

definition hex_val :: "char \<Rightarrow> nat option" where
  "hex_val c =
     (if CHR ''0'' \<le> c \<and> c \<le> CHR ''9'' then Some (of_char c - 48)
      else if CHR ''a'' \<le> c \<and> c \<le> CHR ''f'' then Some (of_char c - 87)
      else if CHR ''A'' \<le> c \<and> c \<le> CHR ''F'' then Some (of_char c - 55)
      else None)"

fun hex_run :: "string \<Rightarrow> nat list" where
  "hex_run [] = []"
| "hex_run (c # s) = (case hex_val c of None \<Rightarrow> [] | Some d \<Rightarrow> d # hex_run s)"

definition hex_num :: "nat list \<Rightarrow> nat" where
  "hex_num ds = foldl (\<lambda>n d. 16 * n + d) 0 ds"

text \<open>
  The loop of \<open>parseIPv6\<close>. \<open>groups\<close> are the 16-bit fields read so far, \<open>ell\<close> the position
  of the \<open>::\<close> among them. The fuel is the number of fields that can still be read: each
  round reads one, so 8 are enough. The result is the fields, the position of the \<open>::\<close>, and
  the text left over.
\<close>

fun ipv6_fields :: "nat \<Rightarrow> nat list \<Rightarrow> nat option \<Rightarrow> string \<Rightarrow> (nat list \<times> nat option \<times> string) option" where
  "ipv6_fields 0 groups ell s = Some (groups, ell, s)"
| "ipv6_fields (Suc fuel) groups ell s =
     (let ds = hex_run s; off = length ds; rest = drop off s
      in if off = 0 \<or> off > 4 then None
         else if rest \<noteq> [] \<and> hd rest = CHR ''.'' then
           (if ell = None \<and> length groups \<noteq> 6 then None
            else if length groups > 6 then None
            else (case parse_ipv4 s of
                    None \<Rightarrow> None
                  | Some w \<Rightarrow> Some (groups @ [unat w div 65536, unat w mod 65536], ell, [])))
         else
           (let groups' = groups @ [hex_num ds]
            in case rest of
                 [] \<Rightarrow> Some (groups', ell, [])
               | c # r \<Rightarrow>
                   if c \<noteq> CHR '':'' then None
                   else (case r of
                           [] \<Rightarrow> None
                         | c' # r' \<Rightarrow>
                             if c' = CHR '':'' then
                               (if ell \<noteq> None then None
                                else if r' = [] then Some (groups', Some (length groups'), [])
                                else ipv6_fields fuel groups' (Some (length groups')) r')
                             else ipv6_fields fuel groups' ell r)))"

definition from_fields :: "nat list \<Rightarrow> 128 word" where
  "from_fields gs = of_nat (foldl (\<lambda>n g. 65536 * n + g) 0 gs)"

definition finish_ipv6 :: "nat list \<times> nat option \<times> string \<Rightarrow> (128 word) option" where
  "finish_ipv6 r =
     (case r of (gs, ell, s) \<Rightarrow>
        if s \<noteq> [] then None
        else if length gs < 8 then
          (case ell of
             None \<Rightarrow> None
           | Some k \<Rightarrow> Some (from_fields (take k gs @ replicate (8 - length gs) 0 @ drop k gs)))
        else (case ell of None \<Rightarrow> Some (from_fields gs) | Some _ \<Rightarrow> None))"

definition parse_ipv6 :: "string \<Rightarrow> addr option" where
  "parse_ipv6 s0 =
     (let s = takeWhile (\<lambda>c. c \<noteq> CHR ''%'') s0;
          zone = drop (Suc (length s)) s0
      in if CHR ''%'' \<in> set s0 \<and> zone = [] then None
         else if prefix ''::'' s then
           (if drop 2 s = [] then Some (Addr6 0 zone)
            else (case ipv6_fields 8 [] (Some 0) (drop 2 s) of
                    None \<Rightarrow> None
                  | Some r \<Rightarrow> map_option (\<lambda>w. Addr6 w zone) (finish_ipv6 r)))
         else (case ipv6_fields 8 [] None s of
                 None \<Rightarrow> None
               | Some r \<Rightarrow> map_option (\<lambda>w. Addr6 w zone) (finish_ipv6 r)))"

text \<open>\<open>ParseAddr\<close> looks for the first dot, colon or percent sign to choose the family.\<close>

definition parse_addr :: "string \<Rightarrow> addr option" where
  "parse_addr s =
     (case find (\<lambda>c. c = CHR ''.'' \<or> c = CHR '':'' \<or> c = CHR ''%'') s of
        None \<Rightarrow> None
      | Some c \<Rightarrow>
          if c = CHR ''.'' then map_option Addr4 (parse_ipv4 s)
          else if c = CHR '':'' then parse_ipv6 s
          else None)"

subsection \<open>Prefixes\<close>

type_synonym ip_prefix = "addr \<times> nat"

text \<open>\<open>ParsePrefix\<close> splits at the last slash; the bits may not have a sign or a leading zero.\<close>

definition after_last :: "char \<Rightarrow> string \<Rightarrow> string" where
  "after_last c s = rev (takeWhile (\<lambda>d. d \<noteq> c) (rev s))"

definition before_last :: "char \<Rightarrow> string \<Rightarrow> string" where
  "before_last c s = rev (drop 1 (dropWhile (\<lambda>d. d \<noteq> c) (rev s)))"

definition parse_prefix :: "string \<Rightarrow> ip_prefix option" where
  "parse_prefix s =
     (if CHR ''/'' \<notin> set s then None
      else
        (let bits = after_last (CHR ''/'') s
         in case parse_addr (before_last (CHR ''/'') s) of
              None \<Rightarrow> None
            | Some ip \<Rightarrow>
                if is6 ip \<and> addr_zone ip \<noteq> [] then None
                else if length bits > 1 \<and> \<not> (CHR ''1'' \<le> hd bits \<and> hd bits \<le> CHR ''9'') then None
                else (case atoi bits of
                        (_, Some _) \<Rightarrow> None
                      | (n, None) \<Rightarrow>
                          if n < 0 \<or> n > int (if is6 ip then 128 else 32) then None
                          else Some (ip, nat n))))"

text \<open>
  \<open>Prefix.Contains\<close>: same family, no zone on the address, and equal leading bits. The
  prefix address itself need not be masked.
\<close>

fun prefix_contains :: "ip_prefix \<Rightarrow> addr \<Rightarrow> bool" where
  "prefix_contains (Addr4 p, bits) (Addr4 w) = (drop_bit (32 - bits) (w XOR p) = 0)"
| "prefix_contains (Addr6 p _, bits) (Addr6 w z) = (z = [] \<and> drop_bit (128 - bits) (w XOR p) = 0)"
| "prefix_contains _ _ = False"

text \<open>For IPv4, containment is membership in the block of \<open>2 ^ (32 - bits)\<close> addresses.\<close>

lemma word_xor_eq_0:
  fixes v w :: "'a::len word"
  shows "v XOR w = 0 \<longleftrightarrow> v = w"
proof
  assume "v XOR w = 0"
  then have "(v XOR w) XOR w = w" by simp
  then show "v = w" by (simp add: xor.assoc)
qed simp

lemma xor_shift_zero:
  fixes v w :: "'a::len word"
  shows "drop_bit n (v XOR w) = 0 \<longleftrightarrow> unat v div 2 ^ n = unat w div 2 ^ n"
proof -
  have "drop_bit n (v XOR w) = 0 \<longleftrightarrow> drop_bit n v = drop_bit n w"
    by (simp add: drop_bit_xor word_xor_eq_0)
  also have "\<dots> \<longleftrightarrow> unat (drop_bit n v) = unat (drop_bit n w)"
    by (rule word_unat_eq_iff)
  also have "\<dots> \<longleftrightarrow> drop_bit n (unat v) = drop_bit n (unat w)"
    by (simp only: unat_drop_bit_eq)
  finally show ?thesis
    by (simp only: drop_bit_eq_div [of n "unat v"] drop_bit_eq_div [of n "unat w"])
qed

end
