(* ===== verification/Json.thy ===== *)
theory Json
  imports Go_Prelude
begin

section \<open>JSON text (the standard library package encoding/json)\<close>

text \<open>
  The program keeps structured values as JSON text in string columns (IP selectors, tag
  selectors, agent tags, snapshots in the history). This theory models what it uses of
  \<open>encoding/json\<close>: \<open>json.Marshal\<close> (with HTML escaping, Go 1.25), the syntax accepted by
  \<open>json.Unmarshal\<close> with the repair of invalid UTF-8, numbers kept as their text (as with
  \<open>UseNumber\<close>), and the rules by which an object fills a struct: names match up to case
  folding, later members override earlier ones, \<open>null\<close> leaves a field unchanged, unknown
  members are ignored, and a member of the wrong type is an error.

  Parsing is by recursion with fuel. One level of a value and one element of a sequence
  cost a unit each, and a value of \<open>n\<close> bytes needs at most \<open>2 * n + 2\<close>, which is what
  \<open>json_parse\<close> gives; \<open>json_roundtrip\<close> shows that it is enough for everything printed.
\<close>

datatype json =
    JNull
  | JBool bool
  | JNum string
  | JStr string
  | JArr "json list"
  | JObj "(string \<times> json) list"

subsection \<open>UTF-8\<close>

definition byte :: "char \<Rightarrow> nat" where
  "byte c = of_char c"

definition cont_byte :: "char \<Rightarrow> bool" where
  "cont_byte c \<longleftrightarrow> 128 \<le> byte c \<and> byte c < 192"

text \<open>The length of the valid encoding at the head of a string, 0 if there is none.\<close>

fun utf8_len :: "string \<Rightarrow> nat" where
  "utf8_len [] = 0"
| "utf8_len (a # s) =
     (if byte a < 128 then 1
      else if 194 \<le> byte a \<and> byte a < 224 then
        (case s of b # _ \<Rightarrow> if cont_byte b then 2 else 0 | _ \<Rightarrow> 0)
      else if 224 \<le> byte a \<and> byte a < 240 then
        (case s of
           b # c # _ \<Rightarrow>
             if cont_byte b \<and> cont_byte c \<and> (byte a = 224 \<longrightarrow> 160 \<le> byte b) \<and>
                (byte a = 237 \<longrightarrow> byte b < 160) then 3 else 0
         | _ \<Rightarrow> 0)
      else if 240 \<le> byte a \<and> byte a < 245 then
        (case s of
           b # c # d # _ \<Rightarrow>
             if cont_byte b \<and> cont_byte c \<and> cont_byte d \<and> (byte a = 240 \<longrightarrow> 144 \<le> byte b) \<and>
                (byte a = 244 \<longrightarrow> byte b < 144) then 4 else 0
         | _ \<Rightarrow> 0)
      else 0)"

definition replacement :: string where
  "replacement = [CHR 0xEF, CHR 0xBF, CHR 0xBD]"

function utf8_fix :: "string \<Rightarrow> string" where
  "utf8_fix s =
     (case s of
        [] \<Rightarrow> []
      | _ # r \<Rightarrow>
          if utf8_len s = 0 then replacement @ utf8_fix r
          else take (utf8_len s) s @ utf8_fix (drop (utf8_len s) s))"
  by pat_completeness auto
termination
  by (relation "measure length") auto

declare utf8_fix.simps [simp del]

definition utf8_encode :: "nat \<Rightarrow> string" where
  "utf8_encode n =
     (if n < 128 then [char_of n]
      else if n < 2048 then [char_of (192 + n div 64), char_of (128 + n mod 64)]
      else if n < 65536 then
        [char_of (224 + n div 4096), char_of (128 + n div 64 mod 64), char_of (128 + n mod 64)]
      else
        [char_of (240 + n div 262144), char_of (128 + n div 4096 mod 64),
         char_of (128 + n div 64 mod 64), char_of (128 + n mod 64)])"

definition ascii :: "string \<Rightarrow> bool" where
  "ascii s \<longleftrightarrow> (\<forall>c \<in> set s. byte c < 128)"

lemma utf8_fix_ascii: "ascii s \<Longrightarrow> utf8_fix s = s"
  by (induction s) (simp_all add: utf8_fix.simps ascii_def)

subsection \<open>Printing\<close>

definition hex_digit :: "nat \<Rightarrow> char" where
  "hex_digit d = (if d < 10 then char_of (48 + d) else char_of (87 + d))"

definition u_escape :: "nat \<Rightarrow> string" where
  "u_escape n =
     [CHR 0x5C, CHR ''u'', hex_digit (n div 4096 mod 16), hex_digit (n div 256 mod 16),
      hex_digit (n div 16 mod 16), hex_digit (n mod 16)]"

definition quote_char :: "char \<Rightarrow> string" where
  "quote_char c =
     (if c = CHR 0x22 \<or> c = CHR 0x5C then [CHR 0x5C, c]
      else if c = CHR 0x08 then [CHR 0x5C, CHR ''b'']
      else if c = CHR 0x0C then [CHR 0x5C, CHR ''f'']
      else if c = CHR 0x0A then [CHR 0x5C, CHR ''n'']
      else if c = CHR 0x0D then [CHR 0x5C, CHR ''r'']
      else if c = CHR 0x09 then [CHR 0x5C, CHR ''t'']
      else if byte c < 32 \<or> c = CHR ''<'' \<or> c = CHR ''>'' \<or> c = CHR ''&'' then u_escape (byte c)
      else [c])"

function quote_body :: "string \<Rightarrow> string" where
  "quote_body s =
     (case s of
        [] \<Rightarrow> []
      | c # r \<Rightarrow>
          if byte c < 128 then quote_char c @ quote_body r
          else if utf8_len s = 0 then u_escape 65533 @ quote_body r
          else (let n = utf8_len s; rune = take n s in
            (if rune = utf8_encode 8232 then u_escape 8232
             else if rune = utf8_encode 8233 then u_escape 8233
             else rune) @ quote_body (drop n s)))"
  by pat_completeness auto
termination
  by (relation "measure length") auto

declare quote_body.simps [simp del]

definition quote :: "string \<Rightarrow> string" where
  "quote s = [CHR 0x22] @ quote_body s @ [CHR 0x22]"

fun json_print :: "json \<Rightarrow> string" where
  "json_print JNull = ''null''"
| "json_print (JBool b) = (if b then ''true'' else ''false'')"
| "json_print (JNum t) = t"
| "json_print (JStr s) = quote s"
| "json_print (JArr xs) = ''['' @ join (map json_print xs) '','' @ '']''"
| "json_print (JObj kvs) =
     ''{'' @ join (map (\<lambda>(k, v). quote k @ '':'' @ json_print v) kvs) '','' @ ''}''"

subsection \<open>Parsing\<close>

definition json_space :: "char \<Rightarrow> bool" where
  "json_space c \<longleftrightarrow> c = CHR 0x20 \<or> c = CHR 0x09 \<or> c = CHR 0x0A \<or> c = CHR 0x0D"

definition skip_ws :: "string \<Rightarrow> string" where
  "skip_ws s = dropWhile json_space s"

definition json_hex :: "char \<Rightarrow> nat option" where
  "json_hex c =
     (if 48 \<le> byte c \<and> byte c \<le> 57 then Some (byte c - 48)
      else if 97 \<le> byte c \<and> byte c \<le> 102 then Some (byte c - 87)
      else if 65 \<le> byte c \<and> byte c \<le> 70 then Some (byte c - 55)
      else None)"

fun hex4 :: "string \<Rightarrow> nat option" where
  "hex4 (a # b # c # d # _) =
     (case (json_hex a, json_hex b, json_hex c, json_hex d) of
        (Some w, Some x, Some y, Some z) \<Rightarrow> Some (((w * 16 + x) * 16 + y) * 16 + z)
      | _ \<Rightarrow> None)"
| "hex4 _ = None"

text \<open>The low half of a surrogate pair, if the string goes on with one.\<close>

fun low_surrogate :: "string \<Rightarrow> nat option" where
  "low_surrogate (a # b # r) =
     (if a = CHR 0x5C \<and> b = CHR ''u'' then
        (case hex4 r of
           Some n \<Rightarrow> if 56320 \<le> n \<and> n < 57344 then Some n else None
         | None \<Rightarrow> None)
      else None)"
| "low_surrogate _ = None"

fun simple_escape :: "char \<Rightarrow> char option" where
  "simple_escape e =
     (if e = CHR 0x22 \<or> e = CHR 0x5C \<or> e = CHR ''/'' then Some e
      else if e = CHR ''b'' then Some (CHR 0x08)
      else if e = CHR ''f'' then Some (CHR 0x0C)
      else if e = CHR ''n'' then Some (CHR 0x0A)
      else if e = CHR ''r'' then Some (CHR 0x0D)
      else if e = CHR ''t'' then Some (CHR 0x09)
      else None)"

text \<open>\<open>parse_str\<close> reads a string body after its opening quote.\<close>

definition cons_str :: "string \<Rightarrow> (string \<times> string) option \<Rightarrow> (string \<times> string) option" where
  "cons_str p r = map_option (\<lambda>(t, rest). (p @ t, rest)) r"

function parse_str :: "string \<Rightarrow> (string \<times> string) option" where
  "parse_str s =
     (case s of
        [] \<Rightarrow> None
      | c # r \<Rightarrow>
          if c = CHR 0x22 then Some ([], r)
          else if c = CHR 0x5C then
            (case r of
               [] \<Rightarrow> None
             | e # r1 \<Rightarrow>
                 if e = CHR ''u'' then
                   (case hex4 r1 of
                      None \<Rightarrow> None
                    | Some n \<Rightarrow>
                        if 55296 \<le> n \<and> n < 57344 then
                          (case (if n < 56320 then low_surrogate (drop 4 r1) else None) of
                             Some lo \<Rightarrow>
                               cons_str (utf8_encode (65536 + (n - 55296) * 1024 + (lo - 56320)))
                                 (parse_str (drop 10 r1))
                           | None \<Rightarrow> cons_str replacement (parse_str (drop 4 r1)))
                        else cons_str (utf8_encode n) (parse_str (drop 4 r1)))
                 else (case simple_escape e of
                         None \<Rightarrow> None
                       | Some x \<Rightarrow> cons_str [x] (parse_str r1)))
          else if byte c < 32 then None
          else cons_str [c] (parse_str r))"
  by pat_completeness auto
termination
  by (relation "measure length") auto

declare parse_str.simps [simp del]

text \<open>A number token and what follows it.\<close>

definition digits_of :: "string \<Rightarrow> string" where
  "digits_of s = takeWhile is_digit s"

definition parse_num :: "string \<Rightarrow> (string \<times> string) option" where
  "parse_num s =
     (let sgn = (if prefix ''-'' s then ''-'' else []);
          s1 = drop (length sgn) s;
          ip = (if prefix ''0'' s1 then ''0'' else digits_of s1);
          s2 = drop (length ip) s1;
          fd = (if prefix ''.'' s2 then digits_of (drop 1 s2) else []);
          frac = (if prefix ''.'' s2 then CHR ''.'' # fd else []);
          s3 = drop (length frac) s2;
          e = (prefix ''e'' s3 \<or> prefix ''E'' s3);
          s4 = drop 1 s3;
          es = (if e \<and> (prefix ''+'' s4 \<or> prefix ''-'' s4) then take 1 s4 else []);
          ed = (if e then digits_of (drop (length es) s4) else []);
          expo = (if e then take 1 s3 @ es @ ed else [])
      in if ip = [] \<or> (prefix ''.'' s2 \<and> fd = []) \<or> (e \<and> ed = []) then None
         else Some (sgn @ ip @ frac @ expo, drop (length expo) s3))"

fun parse_value :: "nat \<Rightarrow> string \<Rightarrow> (json \<times> string) option"
  and parse_elems :: "nat \<Rightarrow> string \<Rightarrow> (json list \<times> string) option"
  and parse_members :: "nat \<Rightarrow> string \<Rightarrow> ((string \<times> json) list \<times> string) option" where
  "parse_value 0 s = None"
| "parse_value (Suc n) s =
     (case skip_ws s of
        [] \<Rightarrow> None
      | c # r \<Rightarrow>
          if c = CHR 0x22 then map_option (\<lambda>(t, rest). (JStr t, rest)) (parse_str r)
          else if c = CHR ''['' then
            (if prefix '']'' (skip_ws r) then Some (JArr [], drop 1 (skip_ws r))
             else map_option (\<lambda>(xs, rest). (JArr xs, rest)) (parse_elems n r))
          else if c = CHR ''{'' then
            (if prefix ''}'' (skip_ws r) then Some (JObj [], drop 1 (skip_ws r))
             else map_option (\<lambda>(kvs, rest). (JObj kvs, rest)) (parse_members n r))
          else if prefix ''null'' (c # r) then Some (JNull, drop 4 (c # r))
          else if prefix ''true'' (c # r) then Some (JBool True, drop 4 (c # r))
          else if prefix ''false'' (c # r) then Some (JBool False, drop 5 (c # r))
          else map_option (\<lambda>(t, rest). (JNum t, rest)) (parse_num (c # r)))"
| "parse_elems 0 s = None"
| "parse_elems (Suc n) s =
     (case parse_value n s of
        None \<Rightarrow> None
      | Some (v, r) \<Rightarrow>
          (case skip_ws r of
             [] \<Rightarrow> None
           | c # r' \<Rightarrow>
               if c = CHR '']'' then Some ([v], r')
               else if c = CHR '','' then
                 map_option (\<lambda>(vs, rest). (v # vs, rest)) (parse_elems n r')
               else None))"
| "parse_members 0 s = None"
| "parse_members (Suc n) s =
     (case skip_ws s of
        [] \<Rightarrow> None
      | q # s1 \<Rightarrow>
          if q \<noteq> CHR 0x22 then None
          else (case parse_str s1 of
                  None \<Rightarrow> None
                | Some (k, s2) \<Rightarrow>
                    (case skip_ws s2 of
                       [] \<Rightarrow> None
                     | d # s3 \<Rightarrow>
                         if d \<noteq> CHR '':'' then None
                         else (case parse_value n s3 of
                                 None \<Rightarrow> None
                               | Some (v, r) \<Rightarrow>
                                   (case skip_ws r of
                                      [] \<Rightarrow> None
                                    | c # r' \<Rightarrow>
                                        if c = CHR ''}'' then Some ([(k, v)], r')
                                        else if c = CHR '','' then
                                          map_option (\<lambda>(kvs, rest). ((k, v) # kvs, rest))
                                            (parse_members n r')
                                        else None)))))"

definition json_fuel :: "string \<Rightarrow> nat" where
  "json_fuel s = 2 * length s + 2"

text \<open>\<open>json.Valid\<close> text as a value; nothing but white space may follow it.\<close>

definition json_parse :: "string \<Rightarrow> json option" where
  "json_parse s =
     (let t = utf8_fix s
      in case parse_value (json_fuel t) t of
           Some (v, rest) \<Rightarrow> if skip_ws rest = [] then Some v else None
         | None \<Rightarrow> None)"

text \<open>\<open>Decoder.Decode\<close> reads one value and leaves the rest of the input alone.\<close>

definition json_decode_first :: "string \<Rightarrow> json option" where
  "json_decode_first s =
     (let t = utf8_fix s in map_option fst (parse_value (json_fuel t) t))"

subsection \<open>Filling structs\<close>

definition upper_char :: "char \<Rightarrow> char" where
  "upper_char c = (if CHR ''a'' \<le> c \<and> c \<le> CHR ''z'' then char_of (byte c - 32) else c)"

text \<open>
  Folding of member names: ASCII letters, and the two other code points that fold to one
  (long s and the Kelvin sign).
\<close>

fun fold_name :: "string \<Rightarrow> string" where
  "fold_name [] = []"
| "fold_name (c # s) =
     (if c = CHR 0xC5 \<and> s \<noteq> [] \<and> hd s = CHR 0xBF then CHR ''S'' # fold_name (tl s)
      else if c = CHR 0xE2 \<and> prefix [CHR 0x84, CHR 0xAA] s then CHR ''K'' # fold_name (drop 2 s)
      else upper_char c # fold_name s)"

definition members :: "string \<Rightarrow> (string \<times> json) list \<Rightarrow> json list" where
  "members name kvs = map snd (filter (\<lambda>(k, v). fold_name k = fold_name name) kvs)"

text \<open>A string field, an integer field, and a field that is a list.\<close>

fun fill_string :: "string \<Rightarrow> json list \<Rightarrow> string option" where
  "fill_string cur [] = Some cur"
| "fill_string cur (JStr s # vs) = fill_string s vs"
| "fill_string cur (JNull # vs) = fill_string cur vs"
| "fill_string cur (_ # vs) = None"

fun fill_int :: "int \<Rightarrow> json list \<Rightarrow> int option" where
  "fill_int cur [] = Some cur"
| "fill_int cur (JNum t # vs) = (case atoi t of (n, None) \<Rightarrow> fill_int n vs | _ \<Rightarrow> None)"
| "fill_int cur (JNull # vs) = fill_int cur vs"
| "fill_int cur (_ # vs) = None"

fun all_some :: "'a option list \<Rightarrow> 'a list option" where
  "all_some [] = Some []"
| "all_some (x # xs) =
     (case x of None \<Rightarrow> None | Some y \<Rightarrow> map_option (Cons y) (all_some xs))"

fun fill_list :: "(json \<Rightarrow> 'a option) \<Rightarrow> 'a list \<Rightarrow> json list \<Rightarrow> 'a list option" where
  "fill_list elem cur [] = Some cur"
| "fill_list elem cur (JArr xs # vs) =
     (case all_some (map elem xs) of None \<Rightarrow> None | Some ys \<Rightarrow> fill_list elem ys vs)"
| "fill_list elem cur (JNull # vs) = fill_list elem [] vs"
| "fill_list elem cur (_ # vs) = None"

definition string_elem :: "json \<Rightarrow> string option" where
  "string_elem v = fill_string [] [v]"

text \<open>An object fills a struct by a function of its members; \<open>null\<close> leaves it zero.\<close>

fun fill_struct :: "((string \<times> json) list \<Rightarrow> 'a option) \<Rightarrow> json \<Rightarrow> 'a option" where
  "fill_struct f (JObj kvs) = f kvs"
| "fill_struct f JNull = f []"
| "fill_struct f _ = None"

lemma all_some_map_Some [simp]: "all_some (map (\<lambda>x. Some (f x)) xs) = Some (map f xs)"
  by (induction xs) auto

subsection \<open>Round trip\<close>

lemma hex_digit_parse: "d < 16 \<Longrightarrow> json_hex (hex_digit d) = Some d"
  by (auto simp: hex_digit_def json_hex_def byte_def take_bit_nat_def)

lemma hex4_u: "n < 256 \<Longrightarrow> hex4 (drop 2 (u_escape n) @ r) = Some n"
  by (simp add: u_escape_def hex_digit_parse)

lemma utf8_encode_byte: "byte c < 128 \<Longrightarrow> utf8_encode (byte c) = [c]"
  by (simp add: utf8_encode_def byte_def)

lemma parse_str_escape:
  "simple_escape e = Some x \<Longrightarrow> e \<noteq> CHR ''u'' \<Longrightarrow>
   parse_str (CHR 0x5C # e # r) = cons_str [x] (parse_str r)"
  by (subst parse_str.simps) (simp del: simple_escape.simps)

lemma parse_str_plain:
  "c \<noteq> CHR 0x22 \<Longrightarrow> c \<noteq> CHR 0x5C \<Longrightarrow> 32 \<le> byte c \<Longrightarrow>
   parse_str (c # r) = cons_str [c] (parse_str r)"
  by (subst parse_str.simps) simp

lemma parse_str_u:
  assumes "byte c < 128"
  shows "parse_str (u_escape (byte c) @ r) = cons_str [c] (parse_str r)"
  using assms hex4_u [of "byte c" r]
  by (subst parse_str.simps) (simp add: u_escape_def utf8_encode_byte del: hex4.simps)

lemma parse_str_quote_char:
  assumes "byte c < 128"
  shows "parse_str (quote_char c @ r) = cons_str [c] (parse_str r)"
proof -
  have e: "quote_char c = CHR 0x5C # [e] \<Longrightarrow> simple_escape e = Some c \<Longrightarrow> e \<noteq> CHR ''u'' \<Longrightarrow> ?thesis" for e
    using parse_str_escape [of e c r] by simp
  show ?thesis
  proof (cases "c = CHR 0x22 \<or> c = CHR 0x5C \<or> c = CHR 0x08 \<or> c = CHR 0x0C \<or> c = CHR 0x0A \<or>
      c = CHR 0x0D \<or> c = CHR 0x09")
    case True
    then show ?thesis
      by (elim disjE) (rule e, simp add: quote_char_def, simp, simp)+
  next
    case False
    then have q: "quote_char c =
        (if byte c < 32 \<or> c = CHR ''<'' \<or> c = CHR ''>'' \<or> c = CHR ''&'' then u_escape (byte c) else [c])"
      by (simp add: quote_char_def)
    show ?thesis
    proof (cases "byte c < 32 \<or> c = CHR ''<'' \<or> c = CHR ''>'' \<or> c = CHR ''&''")
      case True
      then show ?thesis by (simp only: q if_True parse_str_u [OF assms])
    next
      case F: False
      then have "32 \<le> byte c" by simp
      with F False show ?thesis by (simp add: q parse_str_plain)
    qed
  qed
qed

lemma parse_str_quote_body:
  "ascii s \<Longrightarrow> parse_str (quote_body s @ CHR 0x22 # r) = Some (s, r)"
proof (induction s)
  case Nil
  then show ?case by (simp add: quote_body.simps parse_str.simps)
next
  case (Cons c s)
  then have "byte c < 128" "ascii s" by (simp_all add: ascii_def)
  with Cons.IH show ?case
    by (simp add: quote_body.simps [of "c # s"] parse_str_quote_char cons_str_def)
qed

definition number_ends :: "string \<Rightarrow> bool" where
  "number_ends r \<longleftrightarrow> (case r of [] \<Rightarrow> True
     | c # _ \<Rightarrow> \<not> is_digit c \<and> c \<noteq> CHR ''.'' \<and> c \<noteq> CHR ''e'' \<and> c \<noteq> CHR ''E'')"

lemma show_nat_zero: "n < 10 \<Longrightarrow> show_nat n = [digit_char n]"
  by (simp add: show_nat.simps)

lemma hd_show_nat: "n > 0 \<Longrightarrow> hd (show_nat n) \<noteq> CHR ''0''"
proof (induction n rule: show_nat.induct)
  case (1 n)
  show ?case
  proof (cases "n < 10")
    case True
    with 1 show ?thesis
      by (auto simp: show_nat_zero digit_char_def dest: arg_cong [where f = "of_char :: char \<Rightarrow> nat"]
        simp: take_bit_nat_def)
  next
    case False
    with 1 show ?thesis by (simp add: show_nat.simps [of n])
  qed
qed

lemma digit_char_zero: "digit_char 0 = CHR ''0''"
  by code_simp

lemma digits_of_append: "list_all is_digit d \<Longrightarrow> number_ends r \<Longrightarrow> digits_of (d @ r) = d"
  by (induction d) (auto simp: digits_of_def number_ends_def split: list.splits)

lemma parse_num_itoa:
  assumes "number_ends r"
  shows "parse_num (itoa n @ r) = Some (itoa n, r)"
proof -
  have main: "parse_num (sg @ show_nat m @ r) = Some (sg @ show_nat m, r)"
    if sg: "sg = [] \<or> sg = ''-''" for sg m
  proof -
    obtain h t where ht: "show_nat m = h # t" by (cases "show_nat m") auto
    have h: "h \<noteq> CHR ''-''" using hd_show_nat_digit [of m] ht digit_not_sign by auto
    have ip: "(if prefix ''0'' (show_nat m @ r) then ''0'' else digits_of (show_nat m @ r)) = show_nat m"
    proof (cases "m = 0")
      case True
      then show ?thesis by (simp add: show_nat_zero digit_char_zero)
    next
      case False
      then show ?thesis
        using hd_show_nat [of m] ht digits_of_append [OF show_nat_digits assms, of m] by simp
    qed
    have r: "\<not> prefix ''.'' r" "\<not> prefix ''e'' r" "\<not> prefix ''E'' r"
      using assms by (auto simp: number_ends_def split: list.splits)
    have sgn: "(if prefix ''-'' (sg @ show_nat m @ r) then ''-'' else []) = sg"
      using sg h ht by auto
    have s1: "drop (length sg) (sg @ show_nat m @ r) = show_nat m @ r"
      "drop (length (show_nat m)) (show_nat m @ r) = r" by simp_all
    show ?thesis
      unfolding parse_num_def Let_def sgn s1 ip by (simp add: r del: append_assoc)
  qed
  show ?thesis
    using main [of "[]" "nat n"] main [of "''-''" "nat (- n)"] by (simp add: itoa_def)
qed

text \<open>The values whose strings and names are ASCII and whose numbers are integers.\<close>

fun json_plain :: "json \<Rightarrow> bool" where
  "json_plain JNull = True"
| "json_plain (JBool _) = True"
| "json_plain (JNum t) = (\<exists>n. t = itoa n)"
| "json_plain (JStr s) = ascii s"
| "json_plain (JArr xs) = (\<forall>x \<in> set xs. json_plain x)"
| "json_plain (JObj kvs) = (\<forall>kv \<in> set kvs. ascii (fst kv) \<and> json_plain (snd kv))"

text \<open>What starts a value: never white space or a closing bracket.\<close>

definition value_start :: "string \<Rightarrow> bool" where
  "value_start s \<longleftrightarrow> s \<noteq> [] \<and> \<not> json_space (hd s) \<and> hd s \<noteq> CHR '']'' \<and> hd s \<noteq> CHR ''}''"

lemma is_digit_start: "is_digit c \<Longrightarrow> \<not> json_space c \<and> c \<noteq> CHR '']'' \<and> c \<noteq> CHR ''}'' \<and>
    c \<noteq> CHR 0x22 \<and> c \<noteq> CHR ''['' \<and> c \<noteq> CHR ''{'' \<and> c \<noteq> CHR ''n'' \<and> c \<noteq> CHR ''t'' \<and> c \<noteq> CHR ''f'' \<and>
    CHR ''n'' \<noteq> c \<and> CHR ''t'' \<noteq> c \<and> CHR ''f'' \<noteq> c"
  by (auto simp: is_digit_def json_space_def less_eq_char_def)

lemma itoa_start:
  obtains c t where "itoa n = c # t" and "c = CHR ''-'' \<or> is_digit c"
proof (cases "n < 0")
  case True
  then show ?thesis using that by (simp add: itoa_def)
next
  case False
  obtain c t where "show_nat (nat n) = c # t" by (cases "show_nat (nat n)") auto
  moreover have "is_digit c" using calculation hd_show_nat_digit [of "nat n"] by simp
  ultimately show ?thesis using that False by (simp add: itoa_def)
qed

lemma json_print_start: "json_plain j \<Longrightarrow> value_start (json_print j)"
proof (induction j)
  case (JNum t)
  then obtain n where n: "t = itoa n" by auto
  obtain c u where "itoa n = c # u" "c = CHR ''-'' \<or> is_digit c" by (rule itoa_start)
  with n show ?case
    by (cases "is_digit c") (simp_all add: value_start_def is_digit_start, simp add: json_space_def)
qed (simp_all add: value_start_def json_space_def quote_def)

lemma value_start_skip:
  "value_start s \<Longrightarrow> skip_ws s = s \<and> \<not> prefix '']'' s \<and> \<not> prefix ''}'' s"
  by (cases s) (auto simp: value_start_def skip_ws_def)

lemma skip_ws_id: "\<not> json_space c \<Longrightarrow> skip_ws (c # r) = c # r"
  by (simp add: skip_ws_def)

lemma json_punct [simp]:
  "\<not> json_space (CHR '','')" "\<not> json_space (CHR '']'')" "\<not> json_space (CHR ''}'')"
  "\<not> json_space (CHR '':'')" "\<not> json_space (CHR 0x22)" "\<not> json_space (CHR ''['')"
  "\<not> json_space (CHR ''{'')"
  by (simp_all add: json_space_def)

definition reads_back :: "json \<Rightarrow> bool" where
  "reads_back j \<longleftrightarrow> (\<forall>n r. length (json_print j) \<le> n \<longrightarrow> number_ends r \<longrightarrow>
     parse_value n (json_print j @ r) = Some (j, r))"

lemma number_ends_punct [simp]:
  "number_ends (CHR '','' # r)" "number_ends (CHR '']'' # r)" "number_ends (CHR ''}'' # r)"
  by (simp_all add: number_ends_def is_digit_def less_eq_char_def)

lemma parse_elems_print:
  assumes "xs \<noteq> []" and "\<forall>x \<in> set xs. json_plain x \<and> reads_back x"
    and "length (join (map json_print xs) '','') < n"
  shows "parse_elems n (join (map json_print xs) '','' @ CHR '']'' # r) = Some (xs, r)"
  using assms
proof (induction xs arbitrary: n)
  case (Cons x xs)
  obtain m where n: "n = Suc m" using Cons.prems(3) by (cases n) auto
  show ?case
  proof (cases xs)
    case Nil
    with Cons.prems show ?thesis
      by (simp add: n reads_back_def skip_ws_id)
  next
    case (Cons y ys)
    then have j: "join (map json_print (x # xs)) '','' = json_print x @ '','' @ join (map json_print xs) '',''"
      by simp
    have l: "length (json_print x) \<le> m" "length (join (map json_print xs) '','') < m"
      using Cons.prems(3) unfolding j n by simp_all
    have "parse_elems m (join (map json_print xs) '','' @ CHR '']'' # r) = Some (xs, r)"
      using Cons.prems(2) l(2) Cons by (intro Cons.IH) simp_all
    moreover have "parse_value m (json_print x @ CHR '','' # join (map json_print xs) '','' @ CHR '']'' # r)
        = Some (x, CHR '','' # join (map json_print xs) '','' @ CHR '']'' # r)"
      using Cons.prems(2) l(1) by (simp add: reads_back_def)
    ultimately show ?thesis
      by (simp add: n j skip_ws_id del: join.simps list.map)
  qed
qed simp

definition print_member :: "string \<times> json \<Rightarrow> string" where
  "print_member kv = quote (fst kv) @ '':'' @ json_print (snd kv)"

lemma json_print_obj:
  "json_print (JObj kvs) = ''{'' @ join (map print_member kvs) '','' @ ''}''"
  by (simp add: print_member_def [abs_def] case_prod_unfold)

lemma parse_members_print:
  assumes "kvs \<noteq> []"
    and "\<forall>kv \<in> set kvs. ascii (fst kv) \<and> json_plain (snd kv) \<and> reads_back (snd kv)"
    and "length (join (map print_member kvs) '','') < n"
  shows "parse_members n (join (map print_member kvs) '','' @ CHR ''}'' # r) = Some (kvs, r)"
  using assms
proof (induction kvs arbitrary: n)
  case (Cons kv kvs)
  obtain k x where kv: "kv = (k, x)" by (cases kv)
  obtain m where n: "n = Suc m" using Cons.prems(3) by (cases n) auto
  have a: "ascii k" using Cons.prems(2) by (simp add: kv)
  have head: "parse_members n (print_member kv @ c # t) =
      (if c = CHR ''}'' then Some ([kv], t)
       else map_option (\<lambda>(kvs, rest). (kv # kvs, rest)) (parse_members m t))"
    if c: "c = CHR '','' \<or> c = CHR ''}''" and l: "length (json_print x) \<le> m" for c t
  proof -
    have "parse_value m (json_print x @ c # t) = Some (x, c # t)"
      using Cons.prems(2) c l by (auto simp: reads_back_def kv)
    with c show ?thesis
      by (auto simp: n kv print_member_def quote_def skip_ws_id parse_str_quote_body [OF a])
  qed
  show ?case
  proof (cases kvs)
    case Nil
    with Cons.prems(3) head [of "CHR ''}''" r] show ?thesis
      by (simp add: print_member_def kv n del: parse_members.simps)
  next
    case (Cons y ys)
    then have j: "join (map print_member (kv # kvs)) '','' =
        print_member kv @ '','' @ join (map print_member kvs) '',''"
      by simp
    have l: "length (json_print x) \<le> m" "length (join (map print_member kvs) '','') < m"
      using Cons.prems(3) unfolding j n by (simp_all add: print_member_def kv)
    have "parse_members m (join (map print_member kvs) '','' @ CHR ''}'' # r) = Some (kvs, r)"
      using Cons.prems(2) l(2) Cons by (intro Cons.IH) simp_all
    then show ?thesis
      using head [of "CHR '',''" "join (map print_member kvs) '','' @ CHR ''}'' # r"] l(1)
      by (simp add: j del: join.simps list.map)
  qed
qed simp

lemma reads_back_leaf:
  assumes "json_print j = c # s" and "\<not> json_space c"
    and "\<And>n r. number_ends r \<Longrightarrow> parse_value (Suc n) (c # s @ r) = Some (j, r)"
  shows "reads_back j"
  unfolding reads_back_def
proof (intro allI impI)
  fix n r
  assume "length (json_print j) \<le> n" "number_ends r"
  with assms show "parse_value n (json_print j @ r) = Some (j, r)"
    by (cases n) (simp_all del: parse_value.simps)
qed

lemma value_start_join:
  assumes "xs \<noteq> []" and "\<forall>x \<in> set xs. value_start x"
  shows "value_start (join xs sep @ r)"
  using assms by (cases xs; cases "tl xs") (auto simp: value_start_def)

lemma json_reads_back: "json_plain j \<Longrightarrow> reads_back j"
proof (induction j)
  case JNull
  show ?case
    by (rule reads_back_leaf [of _ "CHR ''n''" "''ull''"]) (simp_all add: skip_ws_id json_space_def)
next
  case (JBool b)
  show ?case
  proof (cases b)
    case True
    then show ?thesis
      by (intro reads_back_leaf [of _ "CHR ''t''" "''rue''"]) (simp_all add: skip_ws_id json_space_def)
  next
    case False
    then show ?thesis
      by (intro reads_back_leaf [of _ "CHR ''f''" "''alse''"]) (simp_all add: skip_ws_id json_space_def)
  qed
next
  case (JNum t)
  then obtain n where n: "t = itoa n" by auto
  obtain c u where cu: "itoa n = c # u" "c = CHR ''-'' \<or> is_digit c" by (rule itoa_start)
  have "\<not> json_space c"
    using cu(2) is_digit_start [of c] by (elim disjE) (simp_all add: json_space_def)
  moreover have "parse_value (Suc k) (c # u @ r) = Some (JNum t, r)" if "number_ends r" for k r
  proof -
    have "parse_num (c # u @ r) = Some (t, r)"
      using parse_num_itoa [OF that, of n] cu n by simp
    with calculation cu(2) show ?thesis
      by (cases "is_digit c") (simp_all add: skip_ws_id is_digit_start)
  qed
  ultimately show ?case by (intro reads_back_leaf [of _ c u]) (simp_all add: n cu(1))
next
  case (JStr s)
  then show ?case
    by (intro reads_back_leaf [of _ "CHR 0x22" "quote_body s @ [CHR 0x22]"])
      (simp_all add: quote_def skip_ws_id parse_str_quote_body)
next
  case (JArr xs)
  show ?case
  proof (cases "xs = []")
    case True
    then show ?thesis
      by (intro reads_back_leaf [of _ "CHR ''[''" "'']''"]) (simp_all add: skip_ws_id)
  next
    case False
    show ?thesis
      unfolding reads_back_def
    proof (intro allI impI)
      fix n r
      assume n: "length (json_print (JArr xs)) \<le> n"
      then obtain m where m: "n = Suc m" by (cases n) auto
      have "parse_elems m (join (map json_print xs) '','' @ CHR '']'' # r) = Some (xs, r)"
        using False JArr n by (intro parse_elems_print) (simp_all add: m)
      moreover have "value_start (join (map json_print xs) '','' @ CHR '']'' # r)"
        using False JArr.prems by (intro value_start_join) (simp_all add: json_print_start)
      ultimately show "parse_value n (json_print (JArr xs) @ r) = Some (JArr xs, r)"
        by (simp add: m skip_ws_id value_start_skip)
    qed
  qed
next
  case (JObj kvs)
  show ?case
  proof (cases "kvs = []")
    case True
    then show ?thesis
      by (intro reads_back_leaf [of _ "CHR ''{''" "''}''"]) (simp_all add: skip_ws_id)
  next
    case False
    show ?thesis
      unfolding reads_back_def
    proof (intro allI impI)
      fix n r
      assume n: "length (json_print (JObj kvs)) \<le> n"
      then obtain m where m: "n = Suc m" by (cases n) auto
      have IH: "\<forall>kv \<in> set kvs. ascii (fst kv) \<and> json_plain (snd kv) \<and> reads_back (snd kv)"
        using JObj by (fastforce simp: snds.simps)
      have "parse_members m (join (map print_member kvs) '','' @ CHR ''}'' # r) = Some (kvs, r)"
        using False IH n by (intro parse_members_print) (simp_all add: m json_print_obj del: json_print.simps)
      moreover have "value_start (join (map print_member kvs) '','' @ CHR ''}'' # r)"
        using False by (intro value_start_join) (auto simp: print_member_def quote_def value_start_def)
      ultimately show "parse_value n (json_print (JObj kvs) @ r) = Some (JObj kvs, r)"
        by (simp add: m json_print_obj skip_ws_id value_start_skip del: json_print.simps)
    qed
  qed
qed

lemma ascii_append [simp]: "ascii (a @ b) \<longleftrightarrow> ascii a \<and> ascii b"
  by (auto simp: ascii_def)

lemma ascii_Cons [simp]: "ascii (c # b) \<longleftrightarrow> byte c < 128 \<and> ascii b" "ascii []"
  by (auto simp: ascii_def)

lemma ascii_join: "\<forall>x \<in> set xs. ascii x \<Longrightarrow> ascii sep \<Longrightarrow> ascii (join xs sep)"
  by (induction xs sep rule: join.induct) auto

lemma byte_digit: "is_digit c \<Longrightarrow> byte c < 128"
  by (auto simp: is_digit_def byte_def less_eq_char_def)

lemma ascii_itoa: "ascii (itoa n)"
  using show_nat_digits by (auto simp: itoa_def ascii_def list_all_iff byte_digit) (simp add: byte_def)

lemma ascii_quote: "ascii s \<Longrightarrow> ascii (quote s)"
proof -
  have h: "byte (hex_digit d) < 128" if "d < 16" for d
    using that by (auto simp: hex_digit_def byte_def take_bit_nat_def)
  have lits: "byte (CHR 0x5C) < 128" "byte (CHR ''b'') < 128" "byte (CHR ''f'') < 128"
    "byte (CHR ''n'') < 128" "byte (CHR ''r'') < 128" "byte (CHR ''t'') < 128" "byte (CHR ''u'') < 128"
    by (simp_all add: byte_def)
  have u: "ascii (u_escape n)" for n
    by (simp add: u_escape_def h lits)
  have q: "byte c < 128 \<Longrightarrow> ascii (quote_char c)" for c
    unfolding quote_char_def by (split if_split, intro conjI impI | simp add: u lits)+
  show "ascii s \<Longrightarrow> ascii (quote s)"
    unfolding quote_def
  proof (induction s)
    case (Cons c s)
    with q [of c] show ?case by (simp add: quote_body.simps [of "c # s"])
  qed (simp add: quote_body.simps, simp add: byte_def)
qed

lemma ascii_json_print: "json_plain j \<Longrightarrow> ascii (json_print j)"
proof (induction j)
  case (JObj kvs)
  then have "\<forall>x \<in> set (map print_member kvs). ascii x"
    by (fastforce simp: print_member_def ascii_quote byte_def snds.simps)
  then show ?case by (simp add: json_print_obj ascii_join byte_def del: json_print.simps)
qed (auto simp: ascii_itoa ascii_quote intro!: ascii_join, simp_all add: byte_def)

theorem json_roundtrip:
  assumes "json_plain j"
  shows "json_parse (json_print j) = Some j"
proof -
  have "parse_value (json_fuel (json_print j)) (json_print j @ []) = Some (j, [])"
    by (rule json_reads_back [OF assms, unfolded reads_back_def, rule_format])
      (simp_all add: json_fuel_def number_ends_def)
  then show ?thesis
    using assms by (simp add: json_parse_def utf8_fix_ascii ascii_json_print skip_ws_def)
qed

end
