(* ===== verification/IP_Selector.thy ===== *)
theory IP_Selector
  imports Netip Json
begin


section \<open>IP selectors (internal/model/ip_selector.go)\<close>

text \<open>
  A selector is a list of rules, each an address, a range \<open>start-end\<close> (whose end may be
  only the last octet for IPv4) or a CIDR prefix. Groups and canaries keep it as JSON text.
  The functions are those of \<open>ip_selector.go\<close>; \<open>AgentGroupIPSelector\<close> is the struct of
  \<open>model.go\<close>. The rendered text of an error is reduced to its fixed part.

  The lemmas show that normalising is idempotent and keeps the meaning, that what
  \<open>MarshalIPSelector\<close> stores is matched without errors as the selector means, and what each
  kind of IPv4 rule admits.
\<close>

record AgentGroupIPSelector =
  IPs :: "string list"

record ipSelectorItem =
  item_addr :: addr
  item_start :: addr
  item_end :: addr
  item_prefix :: ip_prefix
  item_kind :: string

definition zero_item :: ipSelectorItem where
  "zero_item = \<lparr>item_addr = AddrZero, item_start = AddrZero, item_end = AddrZero,
     item_prefix = (AddrZero, 0), item_kind = []\<rparr>"

subsection \<open>One rule\<close>

text \<open>\<open>octets[3] = byte(suffix)\<close> on the four octets of an IPv4 address.\<close>

definition set_last_octet :: "32 word \<Rightarrow> nat \<Rightarrow> 32 word" where
  "set_last_octet w n = (case octets w of (a, b, c, d) \<Rightarrow> from_octets a b c n)"

definition parseRangeEnd :: "addr \<Rightarrow> string \<Rightarrow> err + addr" where
  "parseRangeEnd start endText =
     (if contains endText ''.'' \<or> contains endText '':'' then
        (case parse_addr endText of None \<Rightarrow> Inl (ErrMsg ''ParseAddr'') | Some a \<Rightarrow> Inr a)
      else
        (case start of
           Addr4 w \<Rightarrow>
             (case atoi endText of
                (_, Some _) \<Rightarrow> Inl (ErrMsg ''Atoi'')
              | (n, None) \<Rightarrow>
                  if n < 0 \<or> n > 255 then Inl (ErrMsg ''last octet out of range'')
                  else Inr (Addr4 (set_last_octet w (nat n))))
         | _ \<Rightarrow> Inl (ErrMsg ''short range end only supports IPv4'')))"

definition parseIPSelectorItem :: "string \<Rightarrow> err + ipSelectorItem" where
  "parseIPSelectorItem item =
     (if contains item ''/'' then
        (case parse_prefix item of
           None \<Rightarrow> Inl (ErrMsg ''invalid ip cidr'')
         | Some p \<Rightarrow> Inr (zero_item\<lparr>item_prefix := p, item_kind := ''prefix''\<rparr>))
      else if contains item ''-'' then
        (case split item ''-'' of
           [p0, p1] \<Rightarrow>
             (case parse_addr (trim_space p0) of
                None \<Rightarrow> Inl (ErrMsg ''invalid ip range start'')
              | Some start \<Rightarrow>
                  (case parseRangeEnd start (trim_space p1) of
                     Inl _ \<Rightarrow> Inl (ErrMsg ''invalid ip range end'')
                   | Inr e \<Rightarrow>
                       if addr_compare start e > 0
                       then Inl (ErrMsg ''invalid ip range: start is greater than end'')
                       else Inr (zero_item\<lparr>item_start := start, item_end := e, item_kind := ''range''\<rparr>)))
         | _ \<Rightarrow> Inl (ErrMsg ''invalid ip range''))
      else
        (case parse_addr item of
           None \<Rightarrow> Inl (ErrMsg ''invalid ip'')
         | Some a \<Rightarrow> Inr (zero_item\<lparr>item_addr := a, item_kind := ''addr''\<rparr>)))"

definition item_matches :: "ipSelectorItem \<Rightarrow> addr \<Rightarrow> bool" where
  "item_matches item a =
     (if item_kind item = ''addr'' then a = item_addr item
      else if item_kind item = ''range'' then
        addr_compare a (item_start item) \<ge> 0 \<and> addr_compare a (item_end item) \<le> 0
      else if item_kind item = ''prefix'' then prefix_contains (item_prefix item) a
      else False)"

subsection \<open>Selectors\<close>

text \<open>The loop of \<open>NormalizeIPSelector\<close>; \<open>seen\<close> holds the items kept so far.\<close>

fun normalize_items :: "string list \<Rightarrow> string list \<Rightarrow> err + string list" where
  "normalize_items seen [] = Inr []"
| "normalize_items seen (raw # rest) =
     (let item = trim_space raw in
      if item = [] then normalize_items seen rest
      else
        (case parseIPSelectorItem item of
           Inl e \<Rightarrow> Inl e
         | Inr _ \<Rightarrow>
             if item \<in> set seen then normalize_items seen rest
             else
               (case normalize_items (item # seen) rest of
                  Inl e \<Rightarrow> Inl e
                | Inr items \<Rightarrow> Inr (item # items))))"

definition NormalizeIPSelector :: "AgentGroupIPSelector \<Rightarrow> err + AgentGroupIPSelector" where
  "NormalizeIPSelector selector =
     (case normalize_items [] (IPs selector) of
        Inl e \<Rightarrow> Inl e
      | Inr items \<Rightarrow> Inr \<lparr>IPs = items\<rparr>)"

text \<open>The members of the JSON object, and the object \<open>json.Marshal\<close> writes.\<close>

definition fill_ip_selector :: "(string \<times> json) list \<Rightarrow> AgentGroupIPSelector option" where
  "fill_ip_selector kvs =
     map_option (\<lambda>ips. \<lparr>IPs = ips\<rparr>) (fill_list string_elem [] (members ''ips'' kvs))"

definition ip_selector_json :: "AgentGroupIPSelector \<Rightarrow> json" where
  "ip_selector_json selector = JObj [(''ips'', JArr (map JStr (IPs selector)))]"

definition ParseIPSelectorJSON :: "string \<Rightarrow> err + AgentGroupIPSelector" where
  "ParseIPSelectorJSON raw =
     (if trim_space raw = [] then Inr \<lparr>IPs = []\<rparr>
      else
        (case json_parse raw of
           None \<Rightarrow> Inl (ErrMsg ''invalid ip selector json'')
         | Some j \<Rightarrow>
             (case fill_struct fill_ip_selector j of
                None \<Rightarrow> Inl (ErrMsg ''invalid ip selector json'')
              | Some selector \<Rightarrow> NormalizeIPSelector selector)))"

definition MarshalIPSelector :: "AgentGroupIPSelector \<Rightarrow> err + string" where
  "MarshalIPSelector selector =
     (case NormalizeIPSelector selector of
        Inl e \<Rightarrow> Inl e
      | Inr normalized \<Rightarrow>
          if IPs normalized = [] then Inr []
          else Inr (json_print (ip_selector_json normalized)))"

fun any_item_matches :: "string list \<Rightarrow> addr \<Rightarrow> err + bool" where
  "any_item_matches [] a = Inr False"
| "any_item_matches (item # items) a =
     (case parseIPSelectorItem item of
        Inl e \<Rightarrow> Inl e
      | Inr rule \<Rightarrow> if item_matches rule a then Inr True else any_item_matches items a)"

definition IPSelectorMatches :: "string \<Rightarrow> string \<Rightarrow> err + bool" where
  "IPSelectorMatches raw ip =
     (case ParseIPSelectorJSON raw of
        Inl e \<Rightarrow> Inl e
      | Inr selector \<Rightarrow>
          (case parse_addr (trim_space ip) of
             None \<Rightarrow> Inr False
           | Some a \<Rightarrow> any_item_matches (IPs selector) a))"

subsection \<open>Normalisation\<close>

lemma trim_left_idem: "trim_left (trim_left s) = trim_left s"
proof -
  have "strip_lead runes (strip_lead runes s) = strip_lead runes s" for runes s
    by (induction runes s rule: strip_lead.induct) (metis strip_lead.simps)
  then show ?thesis by (simp add: trim_left_def)
qed

lemma trim_right_idem: "trim_right (trim_right s) = trim_right s"
proof -
  have "strip_lead runes (strip_lead runes s) = strip_lead runes s" for runes s
    by (induction runes s rule: strip_lead.induct) (metis strip_lead.simps)
  then show ?thesis by (simp add: trim_right_def)
qed

lemma prefix_trim_right: "prefix (trim_right s) s"
proof -
  have "suffix (strip_lead runes t) t" for runes t
  proof (induction runes t rule: strip_lead.induct)
    case (1 runes t)
    show ?case
    proof (cases "lead_len runes t = 0 \<or> t = []")
      case True
      then show ?thesis by (subst strip_lead.simps) simp
    next
      case False
      with 1 have "suffix (strip_lead runes (drop (lead_len runes t) t)) (drop (lead_len runes t) t)"
        by blast
      then have "suffix (strip_lead runes (drop (lead_len runes t) t)) t"
        using suffix_drop suffix_order.trans by blast
      with False show ?thesis
        by (simp add: strip_lead.simps [of runes t])
    qed
  qed
  then show ?thesis unfolding trim_right_def by (metis suffix_to_prefix rev_rev_ident)
qed

lemma lead_len_prefix:
  assumes "prefix t s" and "lead_len runes s = 0" and "\<forall>r \<in> set runes. r \<noteq> []"
  shows "lead_len runes t = 0"
proof -
  have "find (\<lambda>r. prefix r s) runes = None"
    using assms(2,3) unfolding lead_len_def
    by (auto dest: find_Some_mem split: option.splits)
  then have "find (\<lambda>r. prefix r t) runes = None"
    using assms(1) by (auto simp: find_None_iff dest: prefix_order.trans)
  then show ?thesis by (simp add: lead_len_def)
qed

lemma strip_lead_done: "strip_lead runes s = [] \<or> lead_len runes (strip_lead runes s) = 0"
  by (induction runes s rule: strip_lead.induct) (metis strip_lead.simps)

lemma trim_space_idem [simp]: "trim_space (trim_space s) = trim_space s"
proof -
  have "trim_left (trim_right (trim_left s)) = trim_right (trim_left s)"
  proof (cases "trim_left s = []")
    case False
    then have "lead_len space_runes (trim_left s) = 0"
      using strip_lead_done [of space_runes s] by (simp add: trim_left_def)
    then have "lead_len space_runes (trim_right (trim_left s)) = 0"
      using lead_len_prefix [OF prefix_trim_right] space_runes_not_solid by blast
    then show ?thesis by (simp add: trim_left_def [of "trim_right (trim_left s)"] strip_lead.simps)
  qed simp
  then show ?thesis by (simp add: trim_space_def trim_right_idem)
qed

text \<open>An item that survives: trimmed, not empty, and accepted by the parser.\<close>

definition good_item :: "string \<Rightarrow> bool" where
  "good_item i \<longleftrightarrow> i \<noteq> [] \<and> trim_space i = i \<and> result_ok (parseIPSelectorItem i)"

lemma normalize_items_spec:
  "normalize_items seen raws = Inr items \<Longrightarrow>
   distinct items \<and> set items = trim_space ` set raws - {[]} - set seen \<and> (\<forall>i \<in> set items. good_item i) \<and>
   (\<forall>raw \<in> set raws. trim_space raw \<noteq> [] \<longrightarrow> result_ok (parseIPSelectorItem (trim_space raw)))"
proof (induction seen raws arbitrary: items rule: normalize_items.induct)
  case (2 seen raw rest)
  show ?case
  proof (cases "trim_space raw = []")
    case True
    with 2 show ?thesis by (auto simp: Let_def)
  next
    case False
    with "2.prems" obtain x where x: "parseIPSelectorItem (trim_space raw) = Inr x"
      by (auto simp: Let_def split: sum.splits)
    show ?thesis
    proof (cases "trim_space raw \<in> set seen")
      case True
      have "normalize_items seen rest = Inr items"
        using "2.prems" False x True by (simp add: Let_def)
      from 2(2) [OF refl False x True this] True False x show ?thesis by auto
    next
      case F: False
      obtain items' where i: "normalize_items (trim_space raw # seen) rest = Inr items'"
        "items = trim_space raw # items'"
        using "2.prems" False x F
        by (cases "normalize_items (trim_space raw # seen) rest") (simp_all add: Let_def)
      note ih = 2(3) [OF refl False x F i(1)]
      have g: "good_item (trim_space raw)" using False x by (simp add: good_item_def)
      have "set items = trim_space ` set (raw # rest) - {[]} - set seen"
        unfolding i(2) list.set image_insert conjunct1 [OF conjunct2 [OF ih]] using F False by auto
      moreover have "distinct items" "\<forall>i \<in> set items. good_item i"
        using ih g by (simp_all add: i(2))
      ultimately show ?thesis using ih x by simp
    qed
  qed
qed simp

lemma normalize_items_good:
  "distinct items \<Longrightarrow> set items \<inter> set seen = {} \<Longrightarrow> \<forall>i \<in> set items. good_item i \<Longrightarrow>
   normalize_items seen items = Inr items"
  by (induction items arbitrary: seen) (auto simp: good_item_def Let_def split: sum.splits)

text \<open>
  Normalising a selector succeeds only if every non-blank rule parses; its result is
  the trimmed, non-blank rules without repetition, and normalising it again changes nothing.
\<close>

theorem NormalizeIPSelector_normal:
  assumes "NormalizeIPSelector selector = Inr out"
  shows "distinct (IPs out) \<and> set (IPs out) = trim_space ` set (IPs selector) - {[]} \<and>
    NormalizeIPSelector out = Inr out"
proof -
  obtain items where i: "normalize_items [] (IPs selector) = Inr items" "out = \<lparr>IPs = items\<rparr>"
    using assms by (auto simp: NormalizeIPSelector_def split: sum.splits)
  from normalize_items_spec [OF i(1)] show ?thesis
    by (simp add: i(2) NormalizeIPSelector_def normalize_items_good)
qed

subsection \<open>What is stored is what is matched\<close>

lemma any_item_matches_good:
  "\<forall>i \<in> set items. good_item i \<Longrightarrow>
   any_item_matches items a =
     Inr (\<exists>i \<in> set items. \<exists>rule. parseIPSelectorItem i = Inr rule \<and> item_matches rule a)"
  by (induction items) (auto simp: good_item_def split: sum.splits)

lemma fill_ip_selector_json:
  "fill_struct fill_ip_selector (ip_selector_json selector) = Some selector"
proof -
  have "string_elem (JStr x) = Some x" for x by (simp add: string_elem_def)
  then have "all_some (map (string_elem \<circ> JStr) xs) = Some xs" for xs
    by (induction xs) auto
  then show ?thesis
    by (simp add: ip_selector_json_def fill_ip_selector_def members_def)
qed

lemma json_print_selector_not_blank:
  assumes "IPs s \<noteq> []"
  shows "trim_space (json_print (ip_selector_json s)) \<noteq> []"
proof -
  obtain m where "json_print (ip_selector_json s) = ''{'' @ m @ ''}''"
    by (simp add: ip_selector_json_def)
  moreover have "solid (CHR ''{'')" "solid (CHR ''}'')"
    by (simp_all add: solid_def less_char_def)
  ultimately show ?thesis
    using trim_space_solid [of "''{'' @ m @ ''}''"] by simp
qed

lemma ParseIPSelectorJSON_Marshal:
  assumes "NormalizeIPSelector selector = Inr out" and "MarshalIPSelector selector = Inr text"
    and "\<forall>i \<in> set (IPs selector). ascii (trim_space i)"
  shows "ParseIPSelectorJSON text = Inr out"
proof (cases "IPs out = []")
  case True
  with assms show ?thesis by (auto simp: MarshalIPSelector_def ParseIPSelectorJSON_def)
next
  case False
  have t: "text = json_print (ip_selector_json out)"
    using assms(1,2) False by (simp add: MarshalIPSelector_def)
  have n: "NormalizeIPSelector out = Inr out" "set (IPs out) \<subseteq> trim_space ` set (IPs selector)"
    using NormalizeIPSelector_normal [OF assms(1)] by auto
  have "json_plain (ip_selector_json out)"
    using n(2) assms(3) by (auto simp: ip_selector_json_def ascii_def byte_def)
  from json_roundtrip [OF this] show ?thesis
    using json_print_selector_not_blank [OF False] n(1)
    by (simp add: ParseIPSelectorJSON_def t fill_ip_selector_json)
qed

text \<open>
  C24. What \<open>MarshalIPSelector\<close> stores is matched without an error, and exactly as the
  configured rules mean: an address that does not parse matches nothing, any other matches
  if and only if one of the non-blank rules admits it. (Rules are ASCII text here; a zone
  could hold other bytes.)
\<close>

theorem stored_selector_means_rules:
  assumes "MarshalIPSelector selector = Inr text"
    and "\<forall>i \<in> set (IPs selector). ascii (trim_space i)"
  shows "IPSelectorMatches text ip =
    Inr (case parse_addr (trim_space ip) of
           None \<Rightarrow> False
         | Some a \<Rightarrow> \<exists>i \<in> set (IPs selector). trim_space i \<noteq> [] \<and>
             (\<exists>rule. parseIPSelectorItem (trim_space i) = Inr rule \<and> item_matches rule a))"
proof -
  obtain out where out: "NormalizeIPSelector selector = Inr out"
    using assms(1) by (auto simp: MarshalIPSelector_def split: sum.splits)
  then obtain items where i: "normalize_items [] (IPs selector) = Inr items" "out = \<lparr>IPs = items\<rparr>"
    by (auto simp: NormalizeIPSelector_def split: sum.splits)
  note spec = normalize_items_spec [OF i(1)]
  have "ParseIPSelectorJSON text = Inr out"
    by (rule ParseIPSelectorJSON_Marshal [OF out assms])
  then show ?thesis
    using spec any_item_matches_good [of items]
    by (auto simp: IPSelectorMatches_def i(2) split: option.splits)
qed

subsection \<open>What the IPv4 rules admit\<close>

text \<open>The dotted form of an address, and reading it back.\<close>

definition show_ip4 :: "32 word \<Rightarrow> string" where
  "show_ip4 w = (case octets w of (a, b, c, d) \<Rightarrow>
     join [show_nat a, show_nat b, show_nat c, show_nat d] ''.'')"

lemma octets_div:
  "octets w = (unat w div 2 ^ 24, unat w div 2 ^ 16 mod 256, unat w div 2 ^ 8 mod 256, unat w mod 256)"
proof -
  have "unat w div 2 ^ 24 < 256"
    by (rule less_mult_imp_div_less, rule unsigned_less [THEN less_le_trans]) simp
  then show ?thesis
    by (simp only: octets_def unat_drop_bit_eq drop_bit_eq_div [of _ "unat w"]) simp
qed

lemma octets_lt: "octets w = (a, b, c, d) \<Longrightarrow> a < 256 \<and> b < 256 \<and> c < 256 \<and> d < 256"
  by (auto simp: octets_def)

lemma octets_unat:
  assumes "octets w = (a, b, c, d)"
  shows "unat w = ((a * 256 + b) * 256 + c) * 256 + d"
proof -
  define n where "n = unat w"
  have "n div 2 ^ 16 = n div 256 div 256" "n div 2 ^ 24 = n div 256 div 256 div 256" "n div 2 ^ 8 = n div 256"
    by (simp_all add: div_mult2_eq [symmetric])
  then have "a = n div 256 div 256 div 256" "b = n div 256 div 256 mod 256" "c = n div 256 mod 256"
      "d = n mod 256"
    using assms by (simp_all only: octets_div n_def [symmetric] prod.inject)
  then show ?thesis by (simp only: div_mult_mod_eq n_def)
qed

lemma from_octets_octets: "octets w = (a, b, c, d) \<Longrightarrow> from_octets a b c d = w"
  using octets_unat [of w a b c d, symmetric] by (simp add: from_octets_def del: of_nat_add of_nat_mult)

lemma unat_from_octets:
  assumes "a < 256" "b < 256" "c < 256" "d < 256"
  shows "unat (from_octets a b c d) = ((a * 256 + b) * 256 + c) * 256 + d"
  unfolding from_octets_def unat_of_nat using assms by simp

lemma octet_of_show: "n < 256 \<Longrightarrow> octet_of (show_nat n) = Some n"
proof -
  assume n: "n < 256"
  have "length (show_nat n) > 1 \<longrightarrow> hd (show_nat n) \<noteq> CHR ''0''"
    using hd_show_nat [of n] by (cases "n = 0") (simp_all add: show_nat_zero)
  with n show ?thesis by (simp add: octet_of_def show_nat_digits)
qed

lemma not_digit_punct:
  "\<not> is_digit (CHR ''.'')" "\<not> is_digit (CHR ''-'')" "\<not> is_digit (CHR ''/'')" "\<not> is_digit (CHR '':'')"
  by (simp_all add: is_digit_def less_eq_char_def)

lemmas show_nat_no_punct = show_nat_not_mem [OF not_digit_punct(1)] show_nat_not_mem [OF not_digit_punct(2)]
  show_nat_not_mem [OF not_digit_punct(3)] show_nat_not_mem [OF not_digit_punct(4)]

lemma parse_ipv4_show [simp]: "parse_ipv4 (show_ip4 w) = Some w"
proof -
  obtain a b c d where o: "octets w = (a, b, c, d)" by (cases "octets w")
  have "split (show_ip4 w) ''.'' = [show_nat a, show_nat b, show_nat c, show_nat d]"
    unfolding show_ip4_def o prod.case by (rule split_join) (simp_all add: show_nat_no_punct)
  then show ?thesis
    using octets_lt [OF o] by (simp add: parse_ipv4_def octet_of_show from_octets_octets [OF o])
qed

lemma show_ip4_chars:
  "c \<in> set (show_ip4 w) \<Longrightarrow> is_digit c \<or> c = CHR ''.''"
  using show_nat_digits by (auto simp: show_ip4_def list_all_iff split: prod.splits)

lemma show_ip4_ends:
  "show_ip4 w \<noteq> []" "solid (hd (show_ip4 w))" "solid (last (show_ip4 w))"
  by (simp_all add: show_ip4_def is_digit_solid hd_show_nat_digit last_show_nat_digit split: prod.splits)

lemma show_ip4_no_punct:
  "CHR ''-'' \<notin> set (show_ip4 w)" "CHR ''/'' \<notin> set (show_ip4 w)"
  using show_ip4_chars by (fastforce simp: not_digit_punct)+

lemma find_append_none:
  "find P xs = None \<Longrightarrow> find P (xs @ ys) = find P ys"
  by (induction xs) auto

lemma parse_addr_show [simp]: "parse_addr (show_ip4 w) = Some (Addr4 w)"
proof -
  obtain a b c d where o: "octets w = (a, b, c, d)" by (cases "octets w")
  have "find (\<lambda>c. c = CHR ''.'' \<or> c = CHR '':'' \<or> c = CHR ''%'') (show_nat a @ CHR ''.'' # r) = Some (CHR ''.'')" for r
  proof -
    have "\<not> is_digit (CHR ''%'')" by (simp add: is_digit_def less_eq_char_def)
    then have "find (\<lambda>c. c = CHR ''.'' \<or> c = CHR '':'' \<or> c = CHR ''%'') (show_nat a) = None"
      using show_nat_no_punct show_nat_not_mem [of "CHR ''%''" a] by (auto simp: find_None_iff)
    from find_append_none [OF this] show ?thesis by simp
  qed
  then have "find (\<lambda>c. c = CHR ''.'' \<or> c = CHR '':'' \<or> c = CHR ''%'') (show_ip4 w) = Some (CHR ''.'')"
    by (simp add: show_ip4_def o)
  then show ?thesis by (simp add: parse_addr_def)
qed

datatype ip4_rule =
    Single "32 word"
  | Span "32 word" "32 word"
  | LastOctet "32 word" nat
  | Block "32 word" nat

fun render_rule :: "ip4_rule \<Rightarrow> string" where
  "render_rule (Single w) = show_ip4 w"
| "render_rule (Span v w) = show_ip4 v @ ''-'' @ show_ip4 w"
| "render_rule (LastOctet v n) = show_ip4 v @ ''-'' @ show_nat n"
| "render_rule (Block v n) = show_ip4 v @ ''/'' @ show_nat n"

fun rule_wf :: "ip4_rule \<Rightarrow> bool" where
  "rule_wf (Single w) = True"
| "rule_wf (Span v w) = (v \<le> w)"
| "rule_wf (LastOctet v n) = (unat v mod 256 \<le> n \<and> n < 256)"
| "rule_wf (Block v n) = (n \<le> 32)"

fun rule_admits :: "ip4_rule \<Rightarrow> 32 word \<Rightarrow> bool" where
  "rule_admits (Single v) x = (x = v)"
| "rule_admits (Span v w) x = (v \<le> x \<and> x \<le> w)"
| "rule_admits (LastOctet v n) x =
     (unat x div 256 = unat v div 256 \<and> unat v mod 256 \<le> unat x mod 256 \<and> unat x mod 256 \<le> n)"
| "rule_admits (Block v n) x = (unat x div 2 ^ (32 - n) = unat v div 2 ^ (32 - n))"

lemma set_last_octet_unat:
  assumes "n < 256"
  shows "unat (set_last_octet w n) = unat w div 256 * 256 + n"
proof -
  obtain a b c d where o: "octets w = (a, b, c, d)" by (cases "octets w")
  from octets_lt [OF o] assms have "unat (set_last_octet w n) = ((a * 256 + b) * 256 + c) * 256 + n"
    by (simp add: set_last_octet_def o unat_from_octets)
  moreover have "unat w div 256 = (a * 256 + b) * 256 + c"
    using octets_unat [OF o] octets_lt [OF o] by (simp only: div_mult_self3 div_less) 
  ultimately show ?thesis by simp
qed

lemma trim_show: "trim_space (show_ip4 w) = show_ip4 w" "trim_space (show_nat n) = show_nat n"
  by (rule trim_space_solid;
      simp add: show_ip4_ends is_digit_solid hd_show_nat_digit last_show_nat_digit)+

lemma contains_show_ip4: "contains (show_ip4 w) ''.''"
  by (cases "octets w") (simp add: contains_single show_ip4_def)

lemma atoi_show_nat_small: "n < 256 \<Longrightarrow> atoi (show_nat n) = (int n, None)"
  by (rule atoi_show_nat) simp

lemma parse_range_show:
  assumes "CHR ''-'' \<notin> set e" and "CHR ''/'' \<notin> set e" and "trim_space e = e"
  shows "parseIPSelectorItem (show_ip4 v @ ''-'' @ e) =
    (case parseRangeEnd (Addr4 v) e of
       Inl _ \<Rightarrow> Inl (ErrMsg ''invalid ip range end'')
     | Inr x \<Rightarrow>
         if x < Addr4 v then Inl (ErrMsg ''invalid ip range: start is greater than end'')
         else Inr (zero_item\<lparr>item_start := Addr4 v, item_end := x, item_kind := ''range''\<rparr>))"
proof -
  have "split (show_ip4 v @ ''-'' @ e) ''-'' = [show_ip4 v, e]"
    using assms(1) show_ip4_no_punct(1) [of v] by (simp add: split_char_append split_char_single)
  then show ?thesis
    using assms(2,3) show_ip4_no_punct(2) [of v]
    by (simp add: parseIPSelectorItem_def contains_single trim_show addr_compare_greater
        split: sum.splits)
qed


lemma Addr4_less [simp]: "Addr4 v < Addr4 w \<longleftrightarrow> v < w"
  by (simp add: less_le_not_le)

text \<open>The matcher of each kind of item on an IPv4 address.\<close>

lemma item_matches_kinds:
  "item_matches (zero_item\<lparr>item_addr := a, item_kind := ''addr''\<rparr>) x \<longleftrightarrow> x = a"
  "item_matches (zero_item\<lparr>item_start := a, item_end := b, item_kind := ''range''\<rparr>) x \<longleftrightarrow> a \<le> x \<and> x \<le> b"
  "item_matches (zero_item\<lparr>item_prefix := p, item_kind := ''prefix''\<rparr>) x \<longleftrightarrow> prefix_contains p x"
  by (simp_all add: item_matches_def zero_item_def addr_compare_ge addr_compare_le)

lemma single_rule: "parseIPSelectorItem (show_ip4 w) =
    Inr (zero_item\<lparr>item_addr := Addr4 w, item_kind := ''addr''\<rparr>)"
  using show_ip4_no_punct [of w] by (simp add: parseIPSelectorItem_def contains_single)

lemma span_rule:
  "v \<le> w \<Longrightarrow> parseIPSelectorItem (show_ip4 v @ ''-'' @ show_ip4 w) =
    Inr (zero_item\<lparr>item_start := Addr4 v, item_end := Addr4 w, item_kind := ''range''\<rparr>)"
  by (subst parse_range_show)
    (simp_all add: show_ip4_no_punct trim_show parseRangeEnd_def contains_show_ip4 not_less)

lemma set_last_octet_less:
  "n < 256 \<Longrightarrow> set_last_octet v n < v \<longleftrightarrow> n < unat v mod 256"
  using div_mult_mod_eq [of "unat v" 256] by (simp only: word_less_nat_alt set_last_octet_unat) linarith

lemma last_octet_rule:
  "n < 256 \<Longrightarrow> parseIPSelectorItem (show_ip4 v @ ''-'' @ show_nat n) =
    (if n < unat v mod 256 then Inl (ErrMsg ''invalid ip range: start is greater than end'')
     else Inr (zero_item\<lparr>item_start := Addr4 v, item_end := Addr4 (set_last_octet v n),
       item_kind := ''range''\<rparr>))"
  by (subst parse_range_show)
    (simp_all add: show_nat_no_punct trim_show parseRangeEnd_def contains_single atoi_show_nat_small
      set_last_octet_less)

lemma last_octet_between:
  assumes "n < 256" and "unat v mod 256 \<le> n"
  shows "v \<le> x \<and> x \<le> set_last_octet v n \<longleftrightarrow> rule_admits (LastOctet v n) x"
proof -
  define q m p k where d: "q = unat v div 256" "m = unat v mod 256" "p = unat x div 256" "k = unat x mod 256"
  have "unat v = q * 256 + m" "unat x = p * 256 + k" "m < 256" "k < 256"
    by (simp_all add: d)
  with assms have "unat v \<le> unat x \<and> unat x \<le> q * 256 + n \<longleftrightarrow> p = q \<and> m \<le> k \<and> k \<le> n"
    unfolding d(2) [symmetric] by (cases p q rule: linorder_cases) auto
  then show ?thesis
    by (simp add: word_le_nat_alt set_last_octet_unat [OF assms(1)] d)
qed

lemma while_not_char:
  "c \<notin> set xs \<Longrightarrow> takeWhile (\<lambda>d. d \<noteq> c) (xs @ c # ys) = xs"
  "c \<notin> set xs \<Longrightarrow> dropWhile (\<lambda>d. d \<noteq> c) (xs @ c # ys) = c # ys"
  by (induction xs) auto

lemma last_char_split:
  "c \<notin> set b \<Longrightarrow> after_last c (a @ c # b) = b" "c \<notin> set b \<Longrightarrow> before_last c (a @ c # b) = a"
  by (simp_all add: after_last_def before_last_def while_not_char)

lemma nonzero_digit:
  assumes "c \<noteq> CHR ''0''" and "is_digit c"
  shows "CHR ''1'' \<le> c \<and> c \<le> CHR ''9''"
proof -
  have "of_char c \<noteq> (48 :: nat)"
    using assms(1) digit_char_zero by (metis add.right_neutral char_of_char digit_char_def)
  moreover have "48 \<le> (of_char c :: nat)" "(of_char c :: nat) \<le> 57"
    using assms(2) by (simp_all add: is_digit_def less_eq_char_def)
  ultimately show ?thesis by (simp add: less_eq_char_def)
qed

lemma block_rule:
  assumes "n \<le> 32"
  shows "parseIPSelectorItem (show_ip4 v @ ''/'' @ show_nat n) =
    Inr (zero_item\<lparr>item_prefix := (Addr4 v, n), item_kind := ''prefix''\<rparr>)"
proof -
  have "length (show_nat n) > 1 \<longrightarrow> CHR ''1'' \<le> hd (show_nat n) \<and> hd (show_nat n) \<le> CHR ''9''"
  proof
    assume "1 < length (show_nat n)"
    then have "hd (show_nat n) \<noteq> CHR ''0''"
      using hd_show_nat [of n] by (cases "n = 0") (simp_all add: show_nat_zero)
    then show "CHR ''1'' \<le> hd (show_nat n) \<and> hd (show_nat n) \<le> CHR ''9''"
      using hd_show_nat_digit [of n] by (rule nonzero_digit)
  qed
  with assms have "parse_prefix (show_ip4 v @ ''/'' @ show_nat n) = Some (Addr4 v, n)"
    by (simp add: parse_prefix_def last_char_split show_nat_no_punct Let_def atoi_show_nat_small)
  then show ?thesis by (simp add: parseIPSelectorItem_def contains_single)
qed

text \<open>
  C25. Each well-formed IPv4 rule - an address, a range \<open>v-w\<close>, a range \<open>v-n\<close> whose end is the
  last octet only, a prefix \<open>v/n\<close> - parses, and the parsed item matches exactly the IPv4
  addresses the rule stands for: \<open>v-n\<close> stays within the /24 of \<open>v\<close>, \<open>v/n\<close> is the aligned
  block of \<open>2 ^ (32 - n)\<close> addresses around \<open>v\<close>, and no IPv6 address is ever matched.
\<close>

theorem ip4_rule_meaning:
  assumes "rule_wf r"
  shows "\<exists>item. parseIPSelectorItem (render_rule r) = Inr item \<and>
    (\<forall>w. item_matches item (Addr4 w) = rule_admits r w) \<and> (\<forall>a. item_matches item a \<longrightarrow> is4 a)"
proof (cases r)
  case (Single w)
  then show ?thesis by (auto simp: single_rule item_matches_kinds)
next
  case (Span v w)
  then show ?thesis
    using assms by (auto simp: span_rule item_matches_kinds dest: Addr4_between simp del: append.simps)
next
  case (LastOctet v n)
  then show ?thesis
    using assms last_octet_between [of n v]
    by (auto simp: last_octet_rule item_matches_kinds dest: Addr4_between simp del: append.simps)
next
  case (Block v n)
  have "prefix_contains (Addr4 v, n) a \<Longrightarrow> is4 a" for a by (cases a) auto
  with Block show ?thesis
    using assms by (auto simp: block_rule item_matches_kinds xor_shift_zero simp del: append.simps drop_bit_xor)
qed

text \<open>Rules of concrete addresses.\<close>

lemma base_256:
  "x * 256 + d = y * 256 + d' \<Longrightarrow> d < 256 \<Longrightarrow> d' < 256 \<Longrightarrow> x = y \<and> d = (d' :: nat)"
  by (cases x y rule: linorder_cases) auto

lemma octets_from_octets:
  assumes "a < 256" "b < 256" "c < 256" "d < 256"
  shows "octets (from_octets a b c d) = (a, b, c, d)"
proof -
  obtain a' b' c' d' where o: "octets (from_octets a b c d) = (a', b', c', d')"
    by (cases "octets (from_octets a b c d)")
  have "((a * 256 + b) * 256 + c) * 256 + d = ((a' * 256 + b') * 256 + c') * 256 + d'"
    using octets_unat [OF o] unat_from_octets [OF assms] by simp
  with assms octets_lt [OF o] show ?thesis
    unfolding o by (metis base_256)
qed

definition ip4 :: "nat \<Rightarrow> nat \<Rightarrow> nat \<Rightarrow> nat \<Rightarrow> 32 word" where
  "ip4 a b c d = from_octets a b c d"

lemma show_ip4_octets:
  "a < 256 \<Longrightarrow> b < 256 \<Longrightarrow> c < 256 \<Longrightarrow> d < 256 \<Longrightarrow>
   show_ip4 (ip4 a b c d) = join [show_nat a, show_nat b, show_nat c, show_nat d] ''.''"
  by (simp add: show_ip4_def ip4_def octets_from_octets)

lemma unat_ip4:
  "a < 256 \<Longrightarrow> b < 256 \<Longrightarrow> c < 256 \<Longrightarrow> d < 256 \<Longrightarrow>
   unat (ip4 a b c d) = ((a * 256 + b) * 256 + c) * 256 + d"
  by (simp add: ip4_def unat_from_octets)

lemma sample_rules:
  "render_rule (Block (ip4 10 0 0 0) 24) = ''10.0.0.0/24''"
  "render_rule (LastOctet (ip4 192 168 1 200) 230) = ''192.168.1.200-230''"
  "show_ip4 (ip4 10 0 0 42) = ''10.0.0.42''"
proof -
  have d: "show_nat 10 = ''10''" "show_nat 0 = ''0''" "show_nat 24 = ''24''" "show_nat 192 = ''192''"
    "show_nat 168 = ''168''" "show_nat 1 = ''1''" "show_nat 200 = ''200''" "show_nat 230 = ''230''"
    "show_nat 42 = ''42''"
    by code_simp+
  then show "render_rule (Block (ip4 10 0 0 0) 24) = ''10.0.0.0/24''"
    "render_rule (LastOctet (ip4 192 168 1 200) 230) = ''192.168.1.200-230''"
    "show_ip4 (ip4 10 0 0 42) = ''10.0.0.42''"
    by (simp_all add: show_ip4_octets)
qed

lemma sample_items:
  "parseIPSelectorItem ''10.0.0.0/24'' =
     Inr (zero_item\<lparr>item_prefix := (Addr4 (ip4 10 0 0 0), 24), item_kind := ''prefix''\<rparr>)"
  "result_ok (parseIPSelectorItem ''192.168.1.200-230'')"
  "parse_addr ''10.0.0.42'' = Some (Addr4 (ip4 10 0 0 42))"
  using block_rule [of 24 "ip4 10 0 0 0"] last_octet_rule [of 230 "ip4 192 168 1 200"]
    parse_addr_show [of "ip4 10 0 0 42"] sample_rules
  by (simp_all add: unat_ip4)

lemma sample_trims:
  "trim_space ''10.0.0.0/24'' = ''10.0.0.0/24''"
  "trim_space '' 192.168.1.200-230 '' = ''192.168.1.200-230''"
  "trim_space '' 10.0.0.0/24'' = ''10.0.0.0/24''" "trim_space ''  '' = []"
  "trim_space '' 10.0.0.42'' = ''10.0.0.42''"
  by code_simp+

lemma sample_normal:
  "NormalizeIPSelector \<lparr>IPs = [''10.0.0.0/24'', '' 192.168.1.200-230 '', ''  '', '' 10.0.0.0/24'']\<rparr> =
     Inr \<lparr>IPs = [''10.0.0.0/24'', ''192.168.1.200-230'']\<rparr>"
  using sample_items(1,2)
  by (cases "parseIPSelectorItem ''192.168.1.200-230''")
    (simp_all add: NormalizeIPSelector_def sample_trims Let_def)

theorem NormalizeIPSelector_normal_witness:
  "NormalizeIPSelector \<lparr>IPs = [''10.0.0.0/24'', '' 192.168.1.200-230 '', ''  '', '' 10.0.0.0/24'']\<rparr> =
     Inr \<lparr>IPs = [''10.0.0.0/24'', ''192.168.1.200-230'']\<rparr> \<and>
   NormalizeIPSelector \<lparr>IPs = [''10.0.0.0/24'', ''192.168.1.200-230'']\<rparr> =
     Inr \<lparr>IPs = [''10.0.0.0/24'', ''192.168.1.200-230'']\<rparr>"
  using sample_normal NormalizeIPSelector_normal [OF sample_normal] by blast

theorem stored_selector_means_rules_witness:
  "IPSelectorMatches
     (json_print (ip_selector_json \<lparr>IPs = [''10.0.0.0/24'', ''192.168.1.200-230'']\<rparr>)) '' 10.0.0.42'' = Inr True"
proof -
  let ?sel = "\<lparr>IPs = [''10.0.0.0/24'', '' 192.168.1.200-230 '', ''  '', '' 10.0.0.0/24'']\<rparr>"
  let ?text = "json_print (ip_selector_json \<lparr>IPs = [''10.0.0.0/24'', ''192.168.1.200-230'']\<rparr>)"
  have m: "MarshalIPSelector ?sel = Inr ?text"
    by (simp add: MarshalIPSelector_def sample_normal)
  have a: "\<forall>i \<in> set (IPs ?sel). ascii (trim_space i)"
    by (simp add: sample_trims byte_def)
  have "item_matches (zero_item\<lparr>item_prefix := (Addr4 (ip4 10 0 0 0), 24), item_kind := ''prefix''\<rparr>)
      (Addr4 (ip4 10 0 0 42))"
    by (simp add: item_matches_kinds xor_shift_zero unat_ip4 del: drop_bit_xor)
  then show ?thesis
    unfolding stored_selector_means_rules [OF m a, of "'' 10.0.0.42''"]
    using sample_items(1,3) by (simp add: sample_trims)
qed

theorem ip4_rule_meaning_witness:
  "rule_wf (LastOctet (ip4 192 168 1 200) 230) \<and>
   (\<exists>item. parseIPSelectorItem ''192.168.1.200-230'' = Inr item \<and>
     item_matches item (Addr4 (ip4 192 168 1 220)) \<and> \<not> item_matches item (Addr4 (ip4 192 168 1 231)))"
proof -
  have wf: "rule_wf (LastOctet (ip4 192 168 1 200) 230)" by (simp add: unat_ip4)
  have "rule_admits (LastOctet (ip4 192 168 1 200) 230) (ip4 192 168 1 220)"
    "\<not> rule_admits (LastOctet (ip4 192 168 1 200) 230) (ip4 192 168 1 231)"
    by (simp_all add: unat_ip4)
  with ip4_rule_meaning [OF wf, unfolded sample_rules] wf show ?thesis by blast
qed

end
