(* ===== verification/Canary_Rules.thy ===== *)
theory Canary_Rules
  imports Data_Model Semver IP_Selector
begin

section \<open>Canary eligibility (internal/model/canary.go)\<close>

text \<open>
  Who receives the canary version of a configuration: an agent within the canary's
  targeting (version constraint, IP selector, tag selector), whose stable bucket in
  \<open>[0, 100)\<close> is below the rollout percentage. The functions are those of \<open>canary.go\<close>.

  The lemmas show that eligibility is targeting plus bucket, and how it depends on the
  percentage.
\<close>

subsection \<open>Buckets\<close>

definition stableKey :: "AgentMatchContext \<Rightarrow> string option" where
  "stableKey m =
     (if mc_instance m \<noteq> [] then Some (mc_instance m)
      else if mc_hostid m \<noteq> [] then Some (mc_hostid m)
      else if mc_hostname m \<noteq> [] then Some (mc_hostname m)
      else None)"

definition CanaryBucket :: "AgentMatchContext \<Rightarrow> string \<Rightarrow> nat option" where
  "CanaryBucket m configName =
     (case stableKey m of
        None \<Rightarrow> None
      | Some key \<Rightarrow> Some (unat (fnv32a (key @ [CHR 0x00] @ configName)) mod 100))"

subsection \<open>Selectors\<close>

definition CanaryMatchesIP :: "string \<Rightarrow> string \<Rightarrow> err + bool" where
  "CanaryMatchesIP ipSelectorJSON ip =
     (if ipSelectorJSON = [] then Inr True
      else if ip = [] then Inr False
      else IPSelectorMatches ipSelectorJSON ip)"

record CanaryTag =
  ct_name :: string
  ct_value :: string

record CanaryTagSelector =
  cts_tags :: "CanaryTag list"

definition fill_canary_tag :: "(string \<times> json) list \<Rightarrow> CanaryTag option" where
  "fill_canary_tag kvs =
     (case (fill_string [] (members ''name'' kvs), fill_string [] (members ''value'' kvs)) of
        (Some n, Some v) \<Rightarrow> Some \<lparr>ct_name = n, ct_value = v\<rparr>
      | _ \<Rightarrow> None)"

definition fill_tag_selector :: "(string \<times> json) list \<Rightarrow> CanaryTagSelector option" where
  "fill_tag_selector kvs =
     map_option (\<lambda>ts. \<lparr>cts_tags = ts\<rparr>)
       (fill_list (fill_struct fill_canary_tag) [] (members ''tags'' kvs))"

text \<open>The two nested loops of \<open>CanaryMatchesTags\<close>.\<close>

fun any_have :: "CanaryTag \<Rightarrow> AgentGroupTag list \<Rightarrow> bool" where
  "any_have want [] = False"
| "any_have want (t # tags) =
     (if tag_name t = ct_name want \<and> tag_value t = ct_value want then True else any_have want tags)"

fun any_want :: "CanaryTag list \<Rightarrow> AgentGroupTag list \<Rightarrow> bool" where
  "any_want [] tags = False"
| "any_want (want # wants) tags = (if any_have want tags then True else any_want wants tags)"

definition CanaryMatchesTags :: "string \<Rightarrow> AgentGroupTag list \<Rightarrow> err + bool" where
  "CanaryMatchesTags tagSelectorJSON tags =
     (if tagSelectorJSON = [] then Inr True
      else
        (case Option.bind (json_parse tagSelectorJSON) (fill_struct fill_tag_selector) of
           None \<Rightarrow> Inl (ErrMsg ''invalid tag selector json'')
         | Some sel \<Rightarrow>
             if cts_tags sel = [] then Inr True
             else Inr (any_want (cts_tags sel) tags)))"

subsection \<open>Targeting and eligibility\<close>

definition CanaryTargeted :: "CanaryRelease \<Rightarrow> AgentMatchContext \<Rightarrow> err + bool" where
  "CanaryTargeted cr m =
     (if cr_version_constraint cr \<noteq> [] \<and>
         \<not> MatchVersionConstraint (cr_version_constraint cr) (mc_version m) then Inr False
      else
        (case CanaryMatchesIP (cr_ip_selector cr) (mc_ip m) of
           Inl e \<Rightarrow> Inl e
         | Inr ipOK \<Rightarrow>
             if \<not> ipOK then Inr False
             else
               (case CanaryMatchesTags (cr_tag_selector cr) (mc_tags m) of
                  Inl e \<Rightarrow> Inl e
                | Inr tagOK \<Rightarrow> Inr tagOK)))"

definition CanaryEligible :: "CanaryRelease \<Rightarrow> AgentMatchContext \<Rightarrow> string \<Rightarrow> err + bool" where
  "CanaryEligible cr m configName =
     (if cr_version_constraint cr \<noteq> [] \<and>
         \<not> MatchVersionConstraint (cr_version_constraint cr) (mc_version m) then Inr False
      else
        (case CanaryMatchesIP (cr_ip_selector cr) (mc_ip m) of
           Inl e \<Rightarrow> Inl e
         | Inr ipOK \<Rightarrow>
             if \<not> ipOK then Inr False
             else
               (case CanaryMatchesTags (cr_tag_selector cr) (mc_tags m) of
                  Inl e \<Rightarrow> Inl e
                | Inr tagOK \<Rightarrow>
                    if \<not> tagOK then Inr False
                    else
                      (case CanaryBucket m configName of
                         None \<Rightarrow> Inr False
                       | Some bucket \<Rightarrow> Inr (int bucket < cr_percent cr)))))"

subsection \<open>Lemmas\<close>

lemma CanaryBucket_less: "CanaryBucket m n = Some b \<Longrightarrow> b < 100"
  by (auto simp: CanaryBucket_def split: option.splits)

lemma CanaryBucket_None: "CanaryBucket m n = None \<longleftrightarrow> stableKey m = None"
  by (simp add: CanaryBucket_def split: option.splits)

lemma CanaryTargeted_percent [simp]: "CanaryTargeted (cr\<lparr>cr_percent := p\<rparr>) m = CanaryTargeted cr m"
  by (simp add: CanaryTargeted_def split: sum.splits)

text \<open>Eligibility is targeting, then the bucket.\<close>

lemma CanaryEligible_targeted:
  "CanaryEligible cr m n =
     (case CanaryTargeted cr m of
        Inr True \<Rightarrow> Inr (case CanaryBucket m n of None \<Rightarrow> False | Some b \<Rightarrow> int b < cr_percent cr)
      | r \<Rightarrow> r)"
  by (auto simp: CanaryEligible_def CanaryTargeted_def split: sum.splits option.splits bool.splits)

lemma CanaryEligible_True:
  "CanaryEligible cr m n = Inr True \<longleftrightarrow>
     CanaryTargeted cr m = Inr True \<and> (\<exists>b. CanaryBucket m n = Some b \<and> int b < cr_percent cr)"
  by (auto simp: CanaryEligible_targeted split: sum.splits option.splits bool.splits)

lemma any_have_iff: "any_have want tags \<longleftrightarrow>
    (\<exists>t \<in> set tags. tag_name t = ct_name want \<and> tag_value t = ct_value want)"
  by (induction tags) auto

lemma any_want_iff: "any_want wants tags \<longleftrightarrow>
    (\<exists>w \<in> set wants. \<exists>t \<in> set tags. tag_name t = ct_name w \<and> tag_value t = ct_value w)"
  by (induction wants) (auto simp: any_have_iff)

text \<open>
  C22. Raising the rollout percentage never takes an agent off the canary: an agent eligible
  at \<open>p\<close> percent is eligible at every \<open>q \<ge> p\<close>. At 0 percent nobody is eligible, and at 100
  percent (or more) exactly the targeted agents that have a stable identity are.
\<close>

theorem canary_rollout_monotone:
  assumes "p \<le> q"
  shows "(CanaryEligible (cr\<lparr>cr_percent := p\<rparr>) m n = Inr True \<longrightarrow>
      CanaryEligible (cr\<lparr>cr_percent := q\<rparr>) m n = Inr True) \<and>
    CanaryEligible (cr\<lparr>cr_percent := 0\<rparr>) m n \<noteq> Inr True \<and>
    (100 \<le> q \<longrightarrow> (CanaryEligible (cr\<lparr>cr_percent := q\<rparr>) m n = Inr True \<longleftrightarrow>
      CanaryTargeted cr m = Inr True \<and> stableKey m \<noteq> None))"
proof -
  have "\<exists>b. CanaryBucket m n = Some b \<and> int b < q" if "100 \<le> q" "stableKey m \<noteq> None"
    using that CanaryBucket_less [of m n] CanaryBucket_None [of m n] by force
  then show ?thesis
    using assms CanaryBucket_None [of m n] by (auto simp: CanaryEligible_True)
qed

theorem canary_rollout_monotone_witness:
  "let cr = \<lparr>cr_config = ''cfg'', cr_type = ''pipeline'', cr_detail = [], cr_version = 2,
       cr_percent = 10, cr_version_constraint = '''', cr_ip_selector = '''', cr_tag_selector = '''',
       cr_status = ''rolling'', cr_created_by = '''', cr_created = 0, cr_updated = 0\<rparr>;
     m = \<lparr>mc_instance = ''i-1'', mc_ip = '''', mc_hostid = '''', mc_hostname = '''',
       mc_version = ''1.0'', mc_tags = []\<rparr>
   in CanaryEligible (cr\<lparr>cr_percent := 100\<rparr>) m ''cfg'' = Inr True \<and>
      CanaryEligible (cr\<lparr>cr_percent := 0\<rparr>) m ''cfg'' \<noteq> Inr True"
proof -
  let ?cr = "\<lparr>cr_config = ''cfg'', cr_type = ''pipeline'', cr_detail = [], cr_version = 2,
       cr_percent = 10, cr_version_constraint = '''', cr_ip_selector = '''', cr_tag_selector = '''',
       cr_status = ''rolling'', cr_created_by = '''', cr_created = 0, cr_updated = 0\<rparr>"
  let ?m = "\<lparr>mc_instance = ''i-1'', mc_ip = '''', mc_hostid = '''', mc_hostname = '''',
       mc_version = ''1.0'', mc_tags = []\<rparr>"
  have "CanaryTargeted ?cr ?m = Inr True" "stableKey ?m \<noteq> None"
    by (simp_all add: CanaryTargeted_def CanaryMatchesIP_def CanaryMatchesTags_def stableKey_def)
  with canary_rollout_monotone [of 10 100 ?cr ?m "''cfg''"] show ?thesis
    unfolding Let_def by simp
qed

end
