(* ===== verification/Gorm_Store.thy ===== *)
theory Gorm_Store
  imports Gorm_Api Canary_Rules
begin

section \<open>The store (internal/store/gormdb/gormdb.go)\<close>

text \<open>
  The methods of \<open>gormdb.Store\<close> under their names, over the database interface \<open>G\<close> of the
  theory \<open>Gorm_Api\<close>: each issues the statements of the source in their order. A method takes
  the state of the database and returns its result and the next state; \<open>(nil, nil)\<close> is
  \<open>Inr None\<close>. The clock is an argument \<open>now\<close>.
\<close>

subsection \<open>Typed queries\<close>

fun as_group where "as_group (RGroup x) = Some x" | "as_group _ = None"
fun as_tag where "as_tag (RTag x) = Some x" | "as_tag _ = None"
fun as_pipeline where "as_pipeline (RPipeline x) = Some x" | "as_pipeline _ = None"
fun as_instance where "as_instance (RInstance x) = Some x" | "as_instance _ = None"
fun as_onetime where "as_onetime (ROnetime x) = Some x" | "as_onetime _ = None"
fun as_mapping where "as_mapping (RMapping x) = Some x" | "as_mapping _ = None"
fun as_agent where "as_agent (RAgent x) = Some x" | "as_agent _ = None"
fun as_status where "as_status (RStatus x) = Some x" | "as_status _ = None"
fun as_history where "as_history (RHistory x) = Some x" | "as_history _ = None"
fun as_audit where "as_audit (RAudit x) = Some x" | "as_audit _ = None"
fun as_canary where "as_canary (RCanary x) = Some x" | "as_canary _ = None"
fun as_user where "as_user (RUser x) = Some x" | "as_user _ = None"
fun as_role where "as_role (RRole x) = Some x" | "as_role _ = None"
fun as_perm where "as_perm (RPerm x) = Some x" | "as_perm _ = None"

text \<open>A condition on one table, and an assignment to its rows.\<close>

definition on :: "(row \<Rightarrow> 'a option) \<Rightarrow> ('a \<Rightarrow> bool) \<Rightarrow> row \<Rightarrow> bool" where
  "on p P r = (case p r of None \<Rightarrow> False | Some x \<Rightarrow> P x)"

definition setting :: "(row \<Rightarrow> 'a option) \<Rightarrow> ('a \<Rightarrow> row) \<Rightarrow> ('a \<Rightarrow> 'a) \<Rightarrow> row \<Rightarrow> row" where
  "setting p C f r = (case p r of None \<Rightarrow> r | Some x \<Rightarrow> C (f x))"

definition find_as :: "'d gorm \<Rightarrow> (row \<Rightarrow> 'a option) \<Rightarrow> ('a \<Rightarrow> bool) \<Rightarrow> 'd \<Rightarrow> (err + 'a list) \<times> 'd" where
  "find_as G p P d =
     (case G (Find (on p P)) d of
        (Inl e, d') \<Rightarrow> (Inl e, d')
      | (Inr (Rows rs), d') \<Rightarrow> (Inr (List.map_filter p rs), d')
      | (Inr _, d') \<Rightarrow> (Inr [], d'))"

definition sorted_as ::
  "'d gorm \<Rightarrow> (row \<Rightarrow> 'a option) \<Rightarrow> ('a list \<Rightarrow> 'a \<Rightarrow> bool) \<Rightarrow> ('a \<Rightarrow> int) \<Rightarrow> nat option \<Rightarrow> nat \<Rightarrow> 'd \<Rightarrow>
   (err + 'a list) \<times> 'd" where
  "sorted_as G p Q f n k d =
     (case G (FindSorted (\<lambda>all. on p (Q (List.map_filter p all)))
                (\<lambda>r. case p r of None \<Rightarrow> 0 | Some x \<Rightarrow> f x) n k) d of
        (Inl e, d') \<Rightarrow> (Inl e, d')
      | (Inr (Rows rs), d') \<Rightarrow> (Inr (List.map_filter p rs), d')
      | (Inr _, d') \<Rightarrow> (Inr [], d'))"

definition first_as :: "'d gorm \<Rightarrow> (row \<Rightarrow> 'a option) \<Rightarrow> ('a \<Rightarrow> bool) \<Rightarrow> 'd \<Rightarrow> (err + 'a) \<times> 'd" where
  "first_as G p P d =
     (case G (First (on p P)) d of
        (Inl e, d') \<Rightarrow> (Inl e, d')
      | (Inr (Rows (r # _)), d') \<Rightarrow>
          (case p r of Some x \<Rightarrow> (Inr x, d') | None \<Rightarrow> (Inl (ErrDriver ''scan''), d'))
      | (Inr _, d') \<Rightarrow> (Inl (ErrDriver ''scan''), d'))"

text \<open>The pattern \<open>errors.Is(err, gorm.ErrRecordNotFound)\<close>, \<open>return nil, nil\<close>.\<close>

definition or_nil :: "('d \<Rightarrow> (err + 'a) \<times> 'd) \<Rightarrow> 'd \<Rightarrow> (err + 'a option) \<times> 'd" where
  "or_nil m d =
     (case m d of
        (Inl e, d') \<Rightarrow> if is_not_found e then (Inr None, d') else (Inl e, d')
      | (Inr x, d') \<Rightarrow> (Inr (Some x), d'))"

definition count_as :: "'d gorm \<Rightarrow> (row \<Rightarrow> 'a option) \<Rightarrow> ('a \<Rightarrow> bool) \<Rightarrow> 'd \<Rightarrow> (err + nat) \<times> 'd" where
  "count_as G p P d =
     (case G (Count (on p P)) d of
        (Inl e, d') \<Rightarrow> (Inl e, d')
      | (Inr (Num n), d') \<Rightarrow> (Inr n, d')
      | (Inr _, d') \<Rightarrow> (Inr 0, d'))"

definition exec :: "'d gorm \<Rightarrow> stmt \<Rightarrow> 'd \<Rightarrow> (err + unit) \<times> 'd" where
  "exec G q d = (case G q d of (Inl e, d') \<Rightarrow> (Inl e, d') | (Inr _, d') \<Rightarrow> (Inr (), d'))"

subsection \<open>Groups, tags, mappings\<close>

definition ConfigTypePipeline :: string where "ConfigTypePipeline = ''pipeline''"
definition ConfigTypeInstance :: string where "ConfigTypeInstance = ''instance''"
definition ConfigTypeOnetime :: string where "ConfigTypeOnetime = ''onetime''"
definition DefaultGroupName :: string where "DefaultGroupName = ''default''"

definition CreateGroup :: "'d gorm \<Rightarrow> AgentGroup \<Rightarrow> 'd \<Rightarrow> (err + unit) \<times> 'd" where
  "CreateGroup G grp = exec G (Write (Create [RGroup grp]))"

definition GetGroup :: "'d gorm \<Rightarrow> string \<Rightarrow> 'd \<Rightarrow> (err + AgentGroup) \<times> 'd" where
  "GetGroup G name = first_as G as_group (\<lambda>g. ag_name g = name)"

definition ListGroups :: "'d gorm \<Rightarrow> 'd \<Rightarrow> (err + AgentGroup list) \<times> 'd" where
  "ListGroups G = find_as G as_group (\<lambda>_. True)"

definition UpdateGroup :: "'d gorm \<Rightarrow> AgentGroup \<Rightarrow> 'd \<Rightarrow> (err + unit) \<times> 'd" where
  "UpdateGroup G grp = exec G (Write (Save (RGroup grp)))"

definition DeleteGroup :: "'d gorm \<Rightarrow> string \<Rightarrow> 'd \<Rightarrow> (err + unit) \<times> 'd" where
  "DeleteGroup G name =
     (if name = DefaultGroupName then failr (ErrMsg ''the default group cannot be deleted'')
      else exec G (Transaction
        [Delete (on as_group (\<lambda>g. ag_name g = name)),
         Delete (on as_tag (\<lambda>t. tag_group t = name)),
         Delete (on as_mapping (\<lambda>m. mp_group m = name))]))"

definition SetGroupTags :: "'d gorm \<Rightarrow> string \<Rightarrow> AgentGroupTag list \<Rightarrow> 'd \<Rightarrow> (err + unit) \<times> 'd" where
  "SetGroupTags G groupName tags =
     exec G (Transaction
       (Delete (on as_tag (\<lambda>t. tag_group t = groupName)) #
        (if tags = [] then [] else [Create (map (\<lambda>t. RTag (t\<lparr>tag_group := groupName\<rparr>)) tags)])))"

definition GetGroupTags :: "'d gorm \<Rightarrow> string \<Rightarrow> 'd \<Rightarrow> (err + AgentGroupTag list) \<times> 'd" where
  "GetGroupTags G groupName = find_as G as_tag (\<lambda>t. tag_group t = groupName)"

text \<open>
  GORM leaves a zero-valued field of a struct condition out of the query, so an empty name in
  the mapping does not restrict the search.
\<close>

definition AddGroupConfig :: "'d gorm \<Rightarrow> GroupConfigMapping \<Rightarrow> 'd \<Rightarrow> (err + unit) \<times> 'd" where
  "AddGroupConfig G mapping =
     exec G (FirstOrCreate
       (on as_mapping (\<lambda>m. (mp_group mapping = [] \<or> mp_group m = mp_group mapping) \<and>
          (mp_config mapping = [] \<or> mp_config m = mp_config mapping) \<and>
          (mp_type mapping = [] \<or> mp_type m = mp_type mapping)))
       (RMapping mapping))"

definition RemoveGroupConfig :: "'d gorm \<Rightarrow> string \<Rightarrow> string \<Rightarrow> string \<Rightarrow> 'd \<Rightarrow> (err + unit) \<times> 'd" where
  "RemoveGroupConfig G groupName configName configType =
     exec G (Write (Delete (on as_mapping
       (\<lambda>m. mp_group m = groupName \<and> mp_config m = configName \<and> mp_type m = configType))))"

text \<open>The names of one type among the mappings, and which of them exist in their table.\<close>

definition names_of_type :: "string \<Rightarrow> GroupConfigMapping list \<Rightarrow> string list" where
  "names_of_type ct ms = map mp_config (filter (\<lambda>m. mp_type m = ct) ms)"

definition existing ::
  "'d gorm \<Rightarrow> (row \<Rightarrow> 'a option) \<Rightarrow> ('a \<Rightarrow> string) \<Rightarrow> string list \<Rightarrow> 'd \<Rightarrow> (err + string list) \<times> 'd" where
  "existing G p name_of names =
     (if names = [] then retr []
      else bindr (find_as G p (\<lambda>c. name_of c \<in> set names)) (\<lambda>found. retr (map name_of found)))"

definition keep_mapping :: "string list \<Rightarrow> string list \<Rightarrow> string list \<Rightarrow> GroupConfigMapping \<Rightarrow> bool" where
  "keep_mapping pipes insts onetimes m =
     (if mp_type m = ConfigTypePipeline then mp_config m \<in> set pipes
      else if mp_type m = ConfigTypeInstance then mp_config m \<in> set insts
      else if mp_type m = ConfigTypeOnetime then mp_config m \<in> set onetimes
      else False)"

definition GetGroupConfigs :: "'d gorm \<Rightarrow> string \<Rightarrow> 'd \<Rightarrow> (err + GroupConfigMapping list) \<times> 'd" where
  "GetGroupConfigs G groupName =
     bindr (find_as G as_mapping (\<lambda>m. mp_group m = groupName)) (\<lambda>ms.
       if ms = [] then retr ms
       else
         bindr (existing G as_pipeline cf_name (names_of_type ConfigTypePipeline ms)) (\<lambda>pipes.
         bindr (existing G as_instance cf_name (names_of_type ConfigTypeInstance ms)) (\<lambda>insts.
         bindr (existing G as_onetime oc_name (names_of_type ConfigTypeOnetime ms)) (\<lambda>onetimes.
           retr (filter (keep_mapping pipes insts onetimes) ms)))))"

subsection \<open>Configurations\<close>

definition CreatePipelineConfig :: "'d gorm \<Rightarrow> PipelineConfig \<Rightarrow> 'd \<Rightarrow> (err + unit) \<times> 'd" where
  "CreatePipelineConfig G cfg = exec G (Write (Create [RPipeline cfg]))"

definition GetPipelineConfig :: "'d gorm \<Rightarrow> string \<Rightarrow> 'd \<Rightarrow> (err + PipelineConfig) \<times> 'd" where
  "GetPipelineConfig G name = first_as G as_pipeline (\<lambda>c. cf_name c = name)"

definition ListPipelineConfigs :: "'d gorm \<Rightarrow> 'd \<Rightarrow> (err + PipelineConfig list) \<times> 'd" where
  "ListPipelineConfigs G = find_as G as_pipeline (\<lambda>_. True)"

definition UpdatePipelineConfig :: "'d gorm \<Rightarrow> time \<Rightarrow> PipelineConfig \<Rightarrow> 'd \<Rightarrow> (err + unit) \<times> 'd" where
  "UpdatePipelineConfig G now cfg =
     exec G (Write (Update (on as_pipeline (\<lambda>c. cf_name c = cf_name cfg))
       (setting as_pipeline RPipeline
         (\<lambda>c. c\<lparr>cf_version := cf_version cfg, cf_detail := cf_detail cfg, cf_updated := now\<rparr>))))"

definition DeletePipelineConfig :: "'d gorm \<Rightarrow> string \<Rightarrow> 'd \<Rightarrow> (err + unit) \<times> 'd" where
  "DeletePipelineConfig G name =
     exec G (Transaction
       [Delete (on as_pipeline (\<lambda>c. cf_name c = name)),
        Delete (on as_mapping (\<lambda>m. mp_config m = name \<and> mp_type m = ConfigTypePipeline))])"

definition CreateInstanceConfig :: "'d gorm \<Rightarrow> InstanceConfig \<Rightarrow> 'd \<Rightarrow> (err + unit) \<times> 'd" where
  "CreateInstanceConfig G cfg = exec G (Write (Create [RInstance cfg]))"

definition GetInstanceConfig :: "'d gorm \<Rightarrow> string \<Rightarrow> 'd \<Rightarrow> (err + InstanceConfig) \<times> 'd" where
  "GetInstanceConfig G name = first_as G as_instance (\<lambda>c. cf_name c = name)"

definition ListInstanceConfigs :: "'d gorm \<Rightarrow> 'd \<Rightarrow> (err + InstanceConfig list) \<times> 'd" where
  "ListInstanceConfigs G = find_as G as_instance (\<lambda>_. True)"

definition UpdateInstanceConfig :: "'d gorm \<Rightarrow> time \<Rightarrow> InstanceConfig \<Rightarrow> 'd \<Rightarrow> (err + unit) \<times> 'd" where
  "UpdateInstanceConfig G now cfg =
     exec G (Write (Update (on as_instance (\<lambda>c. cf_name c = cf_name cfg))
       (setting as_instance RInstance
         (\<lambda>c. c\<lparr>cf_version := cf_version cfg, cf_detail := cf_detail cfg, cf_updated := now\<rparr>))))"

definition DeleteInstanceConfig :: "'d gorm \<Rightarrow> string \<Rightarrow> 'd \<Rightarrow> (err + unit) \<times> 'd" where
  "DeleteInstanceConfig G name =
     exec G (Transaction
       [Delete (on as_instance (\<lambda>c. cf_name c = name)),
        Delete (on as_mapping (\<lambda>m. mp_config m = name \<and> mp_type m = ConfigTypeInstance))])"

definition CreateOnetimeCommand :: "'d gorm \<Rightarrow> OnetimeCommand \<Rightarrow> 'd \<Rightarrow> (err + unit) \<times> 'd" where
  "CreateOnetimeCommand G cmd = exec G (Write (Create [ROnetime cmd]))"

definition GetOnetimeCommand :: "'d gorm \<Rightarrow> string \<Rightarrow> 'd \<Rightarrow> (err + OnetimeCommand) \<times> 'd" where
  "GetOnetimeCommand G name = first_as G as_onetime (\<lambda>c. oc_name c = name)"

definition ListOnetimeCommands :: "'d gorm \<Rightarrow> 'd \<Rightarrow> (err + OnetimeCommand list) \<times> 'd" where
  "ListOnetimeCommands G = find_as G as_onetime (\<lambda>_. True)"

fun backfill_versions :: "'d gorm \<Rightarrow> time \<Rightarrow> OnetimeCommand list \<Rightarrow> 'd \<Rightarrow> (err + unit) \<times> 'd" where
  "backfill_versions G now [] = retr ()"
| "backfill_versions G now (cmd # cmds) =
     (let version0 = unix_nano (oc_created cmd);
          version = (if version0 \<le> 0 then unix_nano now else version0)
      in bindr (exec G (Write (Update
             (on as_onetime (\<lambda>c. oc_name c = oc_name cmd \<and> oc_version c = 0))
             (setting as_onetime ROnetime (\<lambda>c. c\<lparr>oc_version := version\<rparr>)))))
           (\<lambda>_. backfill_versions G now cmds))"

definition BackfillOnetimeCommandVersions :: "'d gorm \<Rightarrow> time \<Rightarrow> 'd \<Rightarrow> (err + unit) \<times> 'd" where
  "BackfillOnetimeCommandVersions G now =
     bindr (find_as G as_onetime (\<lambda>c. oc_version c = 0)) (backfill_versions G now)"

definition DeleteOnetimeCommand :: "'d gorm \<Rightarrow> string \<Rightarrow> 'd \<Rightarrow> (err + unit) \<times> 'd" where
  "DeleteOnetimeCommand G name =
     exec G (Transaction
       [Delete (on as_onetime (\<lambda>c. oc_name c = name)),
        Delete (on as_mapping (\<lambda>m. mp_config m = name \<and> mp_type m = ConfigTypeOnetime))])"

subsection \<open>Agents and their statuses\<close>

definition UpsertAgent :: "'d gorm \<Rightarrow> time \<Rightarrow> Agent \<Rightarrow> 'd \<Rightarrow> (err + unit) \<times> 'd" where
  "UpsertAgent G now agent = exec G (Write (Save (RAgent (agent\<lparr>a_last_heartbeat := now\<rparr>))))"

definition GetAgent :: "'d gorm \<Rightarrow> string \<Rightarrow> 'd \<Rightarrow> (err + Agent) \<times> 'd" where
  "GetAgent G instanceID = first_as G as_agent (\<lambda>a. a_instance a = instanceID)"

definition ListAgents :: "'d gorm \<Rightarrow> 'd \<Rightarrow> (err + Agent list) \<times> 'd" where
  "ListAgents G = find_as G as_agent (\<lambda>_. True)"

definition UpsertAgentConfigStatus ::
  "'d gorm \<Rightarrow> time \<Rightarrow> AgentConfigStatus \<Rightarrow> 'd \<Rightarrow> (err + unit) \<times> 'd" where
  "UpsertAgentConfigStatus G now st = exec G (Write (Save (RStatus (st\<lparr>st_updated := now\<rparr>))))"

definition GetAgentConfigStatuses ::
  "'d gorm \<Rightarrow> string \<Rightarrow> 'd \<Rightarrow> (err + AgentConfigStatus list) \<times> 'd" where
  "GetAgentConfigStatuses G instanceID = find_as G as_status (\<lambda>s. st_instance s = instanceID)"

subsection \<open>Resolution: the configurations of an agent\<close>

text \<open>
  \<open>GetConfigsForAgent\<close> in its steps. A Go set of names is the list of its elements. First the
  groups: the default group, those sharing a tag with the agent (a raw query), those whose IP
  selector matches, and those that have a version constraint; then the constraint filters
  them.
\<close>

definition tag_cond :: "AgentGroupTag list \<Rightarrow> AgentGroupTag \<Rightarrow> bool" where
  "tag_cond tags agt \<longleftrightarrow> list_ex (\<lambda>t. tag_name agt = tag_name t \<and> tag_value agt = tag_value t) tags"

definition matched_count :: "AgentGroupTag list \<Rightarrow> row list \<Rightarrow> string \<Rightarrow> nat" where
  "matched_count tags rows gname =
     length (filter (\<lambda>agt. tag_group agt = gname \<and> tag_cond tags agt) (List.map_filter as_tag rows))"

definition tag_group_query :: "AgentGroupTag list \<Rightarrow> row list \<Rightarrow> string list" where
  "tag_group_query tags rows =
     map ag_name (filter (\<lambda>g. matched_count tags rows (ag_name g) \<ge> 1) (List.map_filter as_group rows))"

definition tag_groups :: "'d gorm \<Rightarrow> AgentMatchContext \<Rightarrow> 'd \<Rightarrow> (err + string list) \<times> 'd" where
  "tag_groups G match d =
     (if mc_tags match = [] then (Inr [], d)
      else
        (case G (RawNames (tag_group_query (mc_tags match))) d of
           (Inl e, d') \<Rightarrow> (Inl (ErrWrap ''GetConfigsForAgent group query'' e), d')
         | (Inr (Names ns), d') \<Rightarrow> (Inr ns, d')
         | (Inr _, d') \<Rightarrow> (Inr [], d')))"

fun ip_matched :: "string \<Rightarrow> AgentGroup list \<Rightarrow> err + string list" where
  "ip_matched ip [] = Inr []"
| "ip_matched ip (g # gs) =
     (case IPSelectorMatches (ag_ip_selector g) ip of
        Inl e \<Rightarrow> Inl (ErrWrap ''GetConfigsForAgent ip selector'' e)
      | Inr matched \<Rightarrow>
          (case ip_matched ip gs of
             Inl e \<Rightarrow> Inl e
           | Inr ns \<Rightarrow> Inr (if matched then ag_name g # ns else ns)))"

definition ip_groups :: "'d gorm \<Rightarrow> AgentMatchContext \<Rightarrow> 'd \<Rightarrow> (err + string list) \<times> 'd" where
  "ip_groups G match =
     (if mc_ip match = [] then retr []
      else
        bindr (wrapr ''GetConfigsForAgent ip selector group query''
                 (find_as G as_group (\<lambda>g. ag_ip_selector g \<noteq> [])))
          (\<lambda>gs d. (ip_matched (mc_ip match) gs, d)))"

definition version_groups :: "'d gorm \<Rightarrow> 'd \<Rightarrow> (err + string list) \<times> 'd" where
  "version_groups G =
     bindr (wrapr ''GetConfigsForAgent version group query''
              (find_as G as_group (\<lambda>g. ag_version_constraint g \<noteq> [])))
       (\<lambda>gs. retr (map ag_name gs))"

definition fails_version :: "AgentMatchContext \<Rightarrow> AgentGroup \<Rightarrow> bool" where
  "fails_version match g \<longleftrightarrow>
     ag_version_constraint g \<noteq> [] \<and>
     \<not> MatchVersionConstraint (ag_version_constraint g) (mc_version match)"

definition version_filter ::
  "'d gorm \<Rightarrow> AgentMatchContext \<Rightarrow> string list \<Rightarrow> 'd \<Rightarrow> (err + string list) \<times> 'd" where
  "version_filter G match groupNameSet =
     (if card (set groupNameSet) > 1 then
        (let nonDefault = filter (\<lambda>n. n \<noteq> DefaultGroupName) groupNameSet
         in bindr (wrapr ''GetConfigsForAgent version constraint query''
                     (find_as G as_group (\<lambda>g. ag_name g \<in> set nonDefault)))
              (\<lambda>vcRows. retr (filter (\<lambda>n. n \<notin> set (map ag_name (filter (fails_version match) vcRows)))
                 groupNameSet)))
      else retr groupNameSet)"

definition matched_groups :: "'d gorm \<Rightarrow> AgentMatchContext \<Rightarrow> 'd \<Rightarrow> (err + string list) \<times> 'd" where
  "matched_groups G match =
     bindr (tag_groups G match) (\<lambda>byTag.
     bindr (ip_groups G match) (\<lambda>byIP.
     bindr (version_groups G) (\<lambda>byVersion.
       version_filter G match (remdups (DefaultGroupName # byTag @ byIP @ byVersion)))))"

text \<open>Then the configurations mapped to these groups, one query for each type with any.\<close>

definition fetch_named ::
  "'d gorm \<Rightarrow> (row \<Rightarrow> 'a option) \<Rightarrow> ('a \<Rightarrow> string) \<Rightarrow> string \<Rightarrow> string list \<Rightarrow> 'd \<Rightarrow> (err + 'a list) \<times> 'd" where
  "fetch_named G p name_of msg names =
     (if names = [] then retr [] else wrapr msg (find_as G p (\<lambda>c. name_of c \<in> set names)))"

text \<open>The canary overlay: the map of rolling canaries, and one loop for each type.\<close>

definition canary_key :: "string \<Rightarrow> string \<Rightarrow> string" where
  "canary_key name ct = name @ [CHR 0x00] @ ct"

definition crMap :: "CanaryRelease list \<Rightarrow> string \<rightharpoonup> CanaryRelease" where
  "crMap canaries = foldl (\<lambda>m cr. m(canary_key (cr_config cr) (cr_type cr) \<mapsto> cr)) Map.empty canaries"

definition overlaid :: "CanaryRelease \<Rightarrow> config_row \<Rightarrow> config_row" where
  "overlaid cr cfg = cfg\<lparr>cf_detail := cr_detail cr, cf_version := cr_version cr\<rparr>"

fun overlay ::
  "(string \<rightharpoonup> CanaryRelease) \<Rightarrow> string \<Rightarrow> AgentMatchContext \<Rightarrow> config_row list \<Rightarrow> err + config_row list" where
  "overlay m ct match [] = Inr []"
| "overlay m ct match (cfg # cfgs) =
     (case m (canary_key (cf_name cfg) ct) of
        None \<Rightarrow> map_sum id (Cons cfg) (overlay m ct match cfgs)
      | Some cr \<Rightarrow>
          (case CanaryEligible cr match (cf_name cfg) of
             Inl e \<Rightarrow> Inl (ErrWrap ''GetConfigsForAgent canary eligibility'' e)
           | Inr eligible \<Rightarrow>
               map_sum id (Cons (if eligible then overlaid cr cfg else cfg)) (overlay m ct match cfgs)))"

definition canary_overlay ::
  "CanaryRelease list \<Rightarrow> AgentMatchContext \<Rightarrow> config_row list \<Rightarrow> config_row list \<Rightarrow>
   err + config_row list \<times> config_row list" where
  "canary_overlay canaries match pipes insts =
     (if canaries = [] then Inr (pipes, insts)
      else
        (case overlay (crMap canaries) ConfigTypePipeline match pipes of
           Inl e \<Rightarrow> Inl e
         | Inr pipes' \<Rightarrow>
             (case overlay (crMap canaries) ConfigTypeInstance match insts of
                Inl e \<Rightarrow> Inl e
              | Inr insts' \<Rightarrow> Inr (pipes', insts'))))"

type_synonym agent_configs = "PipelineConfig list \<times> InstanceConfig list \<times> OnetimeCommand list"

definition GetConfigsForAgent :: "'d gorm \<Rightarrow> AgentMatchContext \<Rightarrow> 'd \<Rightarrow> (err + agent_configs) \<times> 'd" where
  "GetConfigsForAgent G match =
     bindr (matched_groups G match) (\<lambda>groupNames.
     bindr (wrapr ''GetConfigsForAgent mapping query''
              (find_as G as_mapping (\<lambda>m. mp_group m \<in> set groupNames))) (\<lambda>ms.
     bindr (fetch_named G as_pipeline cf_name ''GetConfigsForAgent pipeline query''
              (names_of_type ConfigTypePipeline ms)) (\<lambda>pipes.
     bindr (fetch_named G as_instance cf_name ''GetConfigsForAgent instance query''
              (names_of_type ConfigTypeInstance ms)) (\<lambda>insts.
     bindr (fetch_named G as_onetime oc_name ''GetConfigsForAgent onetime query''
              (names_of_type ConfigTypeOnetime ms)) (\<lambda>onetimes.
     bindr (wrapr ''GetConfigsForAgent canary query''
              (find_as G as_canary (\<lambda>cr. cr_status cr = CanaryStatusRolling))) (\<lambda>canaries d.
       (case canary_overlay canaries match pipes insts of
          Inl e \<Rightarrow> (Inl e, d)
        | Inr (pipes', insts') \<Rightarrow> (Inr (pipes', insts', onetimes), d))))))))"

subsection \<open>Users and roles\<close>

definition GetUser :: "'d gorm \<Rightarrow> string \<Rightarrow> 'd \<Rightarrow> (err + User option) \<times> 'd" where
  "GetUser G username = or_nil (first_as G as_user (\<lambda>u. us_name u = username))"

definition ListUsers :: "'d gorm \<Rightarrow> 'd \<Rightarrow> (err + User list) \<times> 'd" where
  "ListUsers G = find_as G as_user (\<lambda>_. True)"

definition CreateUser :: "'d gorm \<Rightarrow> User \<Rightarrow> 'd \<Rightarrow> (err + unit) \<times> 'd" where
  "CreateUser G user = exec G (Write (Create [RUser user]))"

definition UpdateUser :: "'d gorm \<Rightarrow> User \<Rightarrow> 'd \<Rightarrow> (err + unit) \<times> 'd" where
  "UpdateUser G user = exec G (Write (Save (RUser user)))"

definition DeleteUser :: "'d gorm \<Rightarrow> string \<Rightarrow> 'd \<Rightarrow> (err + unit) \<times> 'd" where
  "DeleteUser G username = exec G (Write (Delete (on as_user (\<lambda>u. us_name u = username))))"

definition AdminExists :: "'d gorm \<Rightarrow> 'd \<Rightarrow> (err + bool) \<times> 'd" where
  "AdminExists G = bindr (count_as G as_user us_is_admin) (\<lambda>count. retr (count > 0))"

definition GetRole :: "'d gorm \<Rightarrow> string \<Rightarrow> 'd \<Rightarrow> (err + Role option) \<times> 'd" where
  "GetRole G name = or_nil (first_as G as_role (\<lambda>r. ro_name r = name))"

definition ListRoles :: "'d gorm \<Rightarrow> 'd \<Rightarrow> (err + Role list) \<times> 'd" where
  "ListRoles G = find_as G as_role (\<lambda>_. True)"

definition CreateRole :: "'d gorm \<Rightarrow> Role \<Rightarrow> 'd \<Rightarrow> (err + unit) \<times> 'd" where
  "CreateRole G role = exec G (Write (Create [RRole role]))"

definition UpdateRole :: "'d gorm \<Rightarrow> Role \<Rightarrow> 'd \<Rightarrow> (err + unit) \<times> 'd" where
  "UpdateRole G role = exec G (Write (Save (RRole role)))"

definition DeleteRole :: "'d gorm \<Rightarrow> string \<Rightarrow> 'd \<Rightarrow> (err + unit) \<times> 'd" where
  "DeleteRole G name =
     exec G (Transaction
       [Update (on as_user (\<lambda>u. us_role u = name)) (setting as_user RUser (\<lambda>u. u\<lparr>us_role := []\<rparr>)),
        Delete (on as_perm (\<lambda>p. rp_role p = name)),
        Delete (on as_role (\<lambda>r. ro_name r = name))])"

definition GetRolePermissions :: "'d gorm \<Rightarrow> string \<Rightarrow> 'd \<Rightarrow> (err + RolePermission list) \<times> 'd" where
  "GetRolePermissions G roleName = find_as G as_perm (\<lambda>p. rp_role p = roleName)"

definition SetRolePermissions ::
  "'d gorm \<Rightarrow> string \<Rightarrow> RolePermission list \<Rightarrow> 'd \<Rightarrow> (err + unit) \<times> 'd" where
  "SetRolePermissions G roleName perms =
     exec G (Transaction
       (Delete (on as_perm (\<lambda>p. rp_role p = roleName)) #
        (if perms \<noteq> [] then [Create (map RPerm perms)] else [])))"

subsection \<open>History and audit log\<close>

definition SaveConfigHistory :: "'d gorm \<Rightarrow> ConfigHistory \<Rightarrow> 'd \<Rightarrow> (err + unit) \<times> 'd" where
  "SaveConfigHistory G h = exec G (Write (Create [RHistory h]))"

definition ListConfigHistory ::
  "'d gorm \<Rightarrow> string \<Rightarrow> string \<Rightarrow> 'd \<Rightarrow> (err + ConfigHistory list) \<times> 'd" where
  "ListConfigHistory G resourceType resourceName =
     sorted_as G as_history
       (\<lambda>_ h. ch_resource_type h = resourceType \<and> ch_resource_name h = resourceName)
       ch_changed_at (Some 200) 0"

text \<open>The subquery: for each resource name, the largest id among the delete entries.\<close>

definition max_delete_ids :: "string \<Rightarrow> ConfigHistory list \<Rightarrow> nat list" where
  "max_delete_ids resourceType hs =
     (let dels = filter (\<lambda>h. ch_resource_type h = resourceType \<and> ch_action h = ''delete'') hs
      in map (\<lambda>n. foldr (\<lambda>h i. max (ch_id h) i) (filter (\<lambda>h. ch_resource_name h = n) dels) 0)
           (remdups (map ch_resource_name dels)))"

definition ListDeletedConfigs :: "'d gorm \<Rightarrow> string \<Rightarrow> 'd \<Rightarrow> (err + ConfigHistory list) \<times> 'd" where
  "ListDeletedConfigs G resourceType =
     sorted_as G as_history (\<lambda>hs h. ch_id h \<in> set (max_delete_ids resourceType hs)) ch_changed_at None 0"

definition GetConfigHistoryByID :: "'d gorm \<Rightarrow> nat \<Rightarrow> 'd \<Rightarrow> (err + ConfigHistory) \<times> 'd" where
  "GetConfigHistoryByID G i = first_as G as_history (\<lambda>h. ch_id h = i)"

definition CreateAuditLog :: "'d gorm \<Rightarrow> AuditLog \<Rightarrow> 'd \<Rightarrow> (err + unit) \<times> 'd" where
  "CreateAuditLog G entry = exec G (Write (Create [RAudit entry]))"

definition ListAuditLogs :: "'d gorm \<Rightarrow> nat \<Rightarrow> nat \<Rightarrow> 'd \<Rightarrow> (err + AuditLog list \<times> nat) \<times> 'd" where
  "ListAuditLogs G limit offset =
     bindr (count_as G as_audit (\<lambda>_. True)) (\<lambda>total.
     bindr (sorted_as G as_audit (\<lambda>_ _. True) al_created (Some limit) offset) (\<lambda>logs.
       retr (logs, total)))"

subsection \<open>Canary releases\<close>

definition CreateCanary :: "'d gorm \<Rightarrow> CanaryRelease \<Rightarrow> 'd \<Rightarrow> (err + unit) \<times> 'd" where
  "CreateCanary G cr = exec G (Write (Create [RCanary cr]))"

definition GetCanary :: "'d gorm \<Rightarrow> string \<Rightarrow> string \<Rightarrow> 'd \<Rightarrow> (err + CanaryRelease option) \<times> 'd" where
  "GetCanary G configName configType =
     or_nil (first_as G as_canary (\<lambda>cr. cr_config cr = configName \<and> cr_type cr = configType))"

definition ListCanaries :: "'d gorm \<Rightarrow> 'd \<Rightarrow> (err + CanaryRelease list) \<times> 'd" where
  "ListCanaries G = find_as G as_canary (\<lambda>_. True)"

definition UpdateCanary :: "'d gorm \<Rightarrow> CanaryRelease \<Rightarrow> 'd \<Rightarrow> (err + unit) \<times> 'd" where
  "UpdateCanary G cr = exec G (Write (Save (RCanary cr)))"

definition DeleteCanary :: "'d gorm \<Rightarrow> string \<Rightarrow> string \<Rightarrow> 'd \<Rightarrow> (err + unit) \<times> 'd" where
  "DeleteCanary G configName configType =
     exec G (Write (Delete (on as_canary
       (\<lambda>cr. cr_config cr = configName \<and> cr_type cr = configType))))"

end
