(* ===== verification/Store_Laws.thy ===== *)
theory Store_Laws
  imports Gorm_Store
begin

section \<open>What the store guarantees\<close>

text \<open>
  The laws of the store's methods, for every database that keeps the contract \<open>gorm_api\<close>.
  Pipeline and instance tables satisfy one contract, the locale \<open>config_table\<close>. Resolution
  is specified by \<open>agent_configs_spec\<close>: who is in which group, what is assigned, and what a
  canary changes; \<open>GetConfigsForAgent_refines_spec\<close> shows that the code delivers exactly that.
  Further lemmas: reads see writes, deleting leaves nothing behind, the filtered list of a
  group's configurations, roles, and the list of deleted configurations.
\<close>

subsection \<open>What the methods do to the tables\<close>

text \<open>A projection and the constructor it inverts.\<close>

definition projects :: "(row \<Rightarrow> 'a option) \<Rightarrow> ('a \<Rightarrow> row) \<Rightarrow> bool" where
  "projects p C \<longleftrightarrow> (\<forall>r x. p r = Some x \<longleftrightarrow> r = C x)"

lemma all_row: "(\<forall>r. Q r) \<longleftrightarrow> (\<forall>x. Q (RGroup x)) \<and> (\<forall>x. Q (RTag x)) \<and> (\<forall>x. Q (RPipeline x)) \<and>
    (\<forall>x. Q (RInstance x)) \<and> (\<forall>x. Q (ROnetime x)) \<and> (\<forall>x. Q (RMapping x)) \<and> (\<forall>x. Q (RAgent x)) \<and>
    (\<forall>x. Q (RStatus x)) \<and> (\<forall>x. Q (RHistory x)) \<and> (\<forall>x. Q (RAudit x)) \<and> (\<forall>x. Q (RCanary x)) \<and>
    (\<forall>x. Q (RUser x)) \<and> (\<forall>x. Q (RRole x)) \<and> (\<forall>x. Q (RPerm x))"
  by (metis row.exhaust)

lemma projects_table [simp, intro]:
  "projects as_group RGroup" "projects as_tag RTag" "projects as_pipeline RPipeline"
  "projects as_instance RInstance" "projects as_onetime ROnetime" "projects as_mapping RMapping"
  "projects as_agent RAgent" "projects as_status RStatus" "projects as_history RHistory"
  "projects as_audit RAudit" "projects as_canary RCanary" "projects as_user RUser"
  "projects as_role RRole" "projects as_perm RPerm"
  by (simp_all add: projects_def all_row)

lemma projects_iff: "projects p C \<Longrightarrow> p r = Some x \<longleftrightarrow> r = C x"
  by (simp add: projects_def)

lemma projects_back [simp]: "projects p C \<Longrightarrow> p (C x) = Some x"
  by (simp add: projects_iff)

lemma projects_inj: "projects p C \<Longrightarrow> C x = C y \<longleftrightarrow> x = y"
  by (metis projects_iff option.inject)

lemma on_iff: "projects p C \<Longrightarrow> on p P r \<longleftrightarrow> (\<exists>x. r = C x \<and> P x)"
proof (cases "p r")
  case None
  moreover assume "projects p C"
  ultimately show ?thesis by (metis on_def option.simps(4) projects_back option.distinct(1))
next
  case (Some x)
  moreover assume "projects p C"
  ultimately show ?thesis by (auto simp: on_def projects_iff projects_inj)
qed

lemma map_filter_set: "projects p C \<Longrightarrow> set (List.map_filter p rs) = {x. C x \<in> set rs}"
  by (force simp: List.map_filter_def projects_iff image_iff)

lemma map_filter_distinct: "projects p C \<Longrightarrow> distinct rs \<Longrightarrow> distinct (List.map_filter p rs)"
proof (induction rs)
  case (Cons r rs)
  then show ?case
    using map_filter_set [OF Cons.prems(1), of rs]
    by (cases "p r") (auto simp: List.map_filter_simps projects_iff)
qed (simp add: List.map_filter_simps)

text \<open>The rows of one table, by what they hold.\<close>

definition has :: "tables \<Rightarrow> row \<Rightarrow> bool" where
  "has t r \<longleftrightarrow> t (key_of r) = Some r"

context gorm_api
begin

lemma has_ran: "r \<in> ran (tabs d) \<longleftrightarrow> has (tabs d) r"
  by (simp add: has_def ran_tabs)

lemma find_as_ok:
  assumes "projects p C" and "find_as G p P d = (Inr xs, d')"
  shows "tabs d' = tabs d \<and> distinct xs \<and> set xs = {x. has (tabs d) (C x) \<and> P x}"
proof -
  obtain rs where g: "G (Find (on p P)) d = (Inr (Rows rs), d')" "xs = List.map_filter p rs"
    using assms(2) find_rows [of "on p P" d]
    by (auto simp: find_as_def split: prod.splits sum.splits db_result.splits)
  from find_rows [OF g(1)] have "tabs d' = tabs d" "distinct rs" "set rs = {r \<in> ran (tabs d). on p P r}"
    by auto
  then show ?thesis
    using map_filter_set [OF assms(1), of rs] map_filter_distinct [OF assms(1), of rs]
    by (auto simp: g(2) on_iff [OF assms(1)] has_ran projects_inj [OF assms(1)])
qed

lemma find_as_err: "find_as G p P d = (Inl e, d') \<Longrightarrow> tabs d' = tabs d \<and> \<not> is_not_found e"
  using failed [of "Find (on p P)" d e d'] not_found [of "Find (on p P)" d e d']
  by (auto simp: find_as_def split: prod.splits sum.splits db_result.splits)

lemma first_as_ok:
  assumes "projects p C" and "first_as G p P d = (Inr x, d')"
  shows "tabs d' = tabs d \<and> has (tabs d) (C x) \<and> P x"
proof -
  obtain r rs where g: "G (First (on p P)) d = (Inr (Rows (r # rs)), d')" "p r = Some x"
    using assms(2)
    by (auto simp: first_as_def split: prod.splits sum.splits db_result.splits list.splits option.splits)
  from first_row [OF g(1)] show ?thesis
    using g(2) by (auto simp: on_iff [OF assms(1)] has_ran projects_iff [OF assms(1)] projects_inj [OF assms(1)])
qed

lemma first_as_err:
  assumes "projects p C" and "first_as G p P d = (Inl e, d')"
  shows "tabs d' = tabs d \<and> (is_not_found e \<longrightarrow> (\<forall>x. has (tabs d) (C x) \<longrightarrow> \<not> P x))"
proof (cases "G (First (on p P)) d")
  case (Pair res d1)
  show ?thesis
  proof (cases res)
    case (Inl e1)
    with Pair assms(2) have "G (First (on p P)) d = (Inl e, d')" by (simp add: first_as_def)
    from failed [OF this] not_found [OF this] show ?thesis
      by (auto simp: has_ran on_iff [OF assms(1)])
  next
    case (Inr x)
    with first_row [of "on p P" d x d1] Pair assms show ?thesis
      by (auto simp: first_as_def on_iff [OF assms(1)])
  qed
qed

end

text \<open>Rows by key.\<close>

definition row_at :: "(row \<Rightarrow> 'a option) \<Rightarrow> dbkey \<Rightarrow> tables \<Rightarrow> 'a option" where
  "row_at p k t = Option.bind (t k) p"

abbreviation group_at where "group_at t n \<equiv> row_at as_group (KGroup n) t"
abbreviation pipeline_at where "pipeline_at t n \<equiv> row_at as_pipeline (KPipeline n) t"
abbreviation instance_at where "instance_at t n \<equiv> row_at as_instance (KInstance n) t"
abbreviation onetime_at where "onetime_at t n \<equiv> row_at as_onetime (KOnetime n) t"
abbreviation mapped where "mapped t g n ct \<equiv> has t (RMapping \<lparr>mp_group = g, mp_config = n, mp_type = ct\<rparr>)"

lemma row_at_Some:
  assumes "projects p C" and "well_keyed t"
  shows "row_at p k t = Some x \<longleftrightarrow> has t (C x) \<and> key_of (C x) = k"
  using assms(2) by (auto simp: row_at_def has_def bind_eq_Some_conv projects_iff [OF assms(1)] well_keyed_def)

lemma has_upd: "has (t(key_of r \<mapsto> r)) r' \<longleftrightarrow> (if key_of r' = key_of r then r' = r else has t r')"
  by (auto simp: has_def)

lemma has_drop: "has (drop_rows P t) r \<longleftrightarrow> has t r \<and> \<not> P r"
  by (simp add: has_def drop_rows_Some)

context gorm_api
begin

lemma exec_ok: "exec G q d = (Inr u, d') \<Longrightarrow> \<exists>x. G q d = (Inr x, d')"
  by (auto simp: exec_def split: prod.splits sum.splits)

lemma exec_err: "exec G q d = (Inl e, d') \<Longrightarrow> tabs d' = tabs d"
  using failed by (auto simp: exec_def split: prod.splits sum.splits)

lemma exec_write: "exec G (Write w) d = (Inr u, d') \<Longrightarrow> write_ok w (tabs d) (tabs d')"
  using exec_ok write_done by blast

lemma exec_writes: "exec G (Transaction ws) d = (Inr u, d') \<Longrightarrow> writes_ok ws (tabs d) (tabs d')"
  using exec_ok writes_done by blast

lemma row_at_tabs:
  "projects p C \<Longrightarrow> row_at p k (tabs d) = Some x \<longleftrightarrow> has (tabs d) (C x) \<and> key_of (C x) = k"
  by (rule row_at_Some) auto

end

subsection \<open>Methods that only read\<close>

definition keeps :: "('d \<Rightarrow> tables) \<Rightarrow> ('d \<Rightarrow> 'r \<times> 'd) \<Rightarrow> bool" where
  "keeps tabs f \<longleftrightarrow> (\<forall>d. tabs (snd (f d)) = tabs d)"

lemma keepsD: "keeps tabs f \<Longrightarrow> f d = (r, d') \<Longrightarrow> tabs d' = tabs d"
  by (metis keeps_def snd_conv)

lemma keeps_retr [simp, intro]: "keeps tabs (retr x)"
  by (simp add: keeps_def retr_def)

lemma keeps_pair [simp, intro]: "keeps tabs (\<lambda>d. (x, d))"
  by (simp add: keeps_def)

lemma keeps_bindr [intro]:
  assumes "keeps tabs m" and "\<And>x. keeps tabs (f x)"
  shows "keeps tabs (bindr m f)"
  using assms by (auto simp: keeps_def bindr_def split: prod.splits sum.splits) (metis snd_conv)+

lemma keeps_wrapr [intro]: "keeps tabs m \<Longrightarrow> keeps tabs (wrapr msg m)"
  by (auto simp: keeps_def wrapr_def split: prod.splits sum.splits) (metis snd_conv)+

lemma keeps_or_nil [intro]: "keeps tabs m \<Longrightarrow> keeps tabs (or_nil m)"
  by (auto simp: keeps_def or_nil_def split: prod.splits sum.splits) (metis snd_conv)+

lemma keeps_if [intro]: "keeps tabs f \<Longrightarrow> keeps tabs g \<Longrightarrow> keeps tabs (if b then f else g)"
  by simp

fun is_query :: "stmt \<Rightarrow> bool" where
  "is_query (FirstOrCreate _ _) = False"
| "is_query (Write _) = False"
| "is_query (Transaction _) = False"
| "is_query _ = True"

context gorm_api
begin

lemma keeps_query: "is_query q \<Longrightarrow> G q d = (r, d') \<Longrightarrow> tabs d' = tabs d"
  using failed succeeded by (cases r; cases q) fastforce+

lemma keeps_reads [simp, intro]:
  "keeps tabs (find_as G p P)" "keeps tabs (first_as G p P)" "keeps tabs (count_as G p P)"
  "keeps tabs (sorted_as G p Q f n k)"
  by (auto simp: keeps_def find_as_def first_as_def count_as_def sorted_as_def dest: keeps_query [rotated]
      split: prod.splits sum.splits db_result.splits list.splits option.splits)

end

subsection \<open>The contract of a configuration table\<close>

text \<open>
  Pipeline and instance configurations promise the same, whatever table they live in: a
  successful \<open>get\<close> returns the row, a not-found error means there is none, and each write
  changes its own name only. Timestamps are left open.
\<close>

definition same_config :: "config_row \<Rightarrow> config_row \<Rightarrow> bool" where
  "same_config c c' \<longleftrightarrow> cf_name c' = cf_name c \<and> cf_version c' = cf_version c \<and> cf_detail c' = cf_detail c"

locale config_table =
  fixes tabs :: "'d \<Rightarrow> tables"
    and look :: "tables \<Rightarrow> string \<Rightarrow> config_row option"
    and create :: "config_row \<Rightarrow> 'd \<Rightarrow> (err + unit) \<times> 'd"
    and get :: "string \<Rightarrow> 'd \<Rightarrow> (err + config_row) \<times> 'd"
    and update :: "time \<Rightarrow> config_row \<Rightarrow> 'd \<Rightarrow> (err + unit) \<times> 'd"
    and delete :: "string \<Rightarrow> 'd \<Rightarrow> (err + unit) \<times> 'd"
  assumes get_ok: "get n d = (Inr c, d') \<Longrightarrow> tabs d' = tabs d \<and> look (tabs d) n = Some c"
    and get_err: "get n d = (Inl e, d') \<Longrightarrow>
      tabs d' = tabs d \<and> (is_not_found e \<longrightarrow> look (tabs d) n = None)"
    and create_ok: "create c d = (Inr u, d') \<Longrightarrow>
      look (tabs d) (cf_name c) = None \<and>
      (\<exists>c'. same_config c c' \<and> look (tabs d') = (look (tabs d))(cf_name c \<mapsto> c'))"
    and update_ok: "update now c d = (Inr u, d') \<Longrightarrow>
      (\<forall>n. if n = cf_name c then rel_option (\<lambda>_ c'. same_config c c') (look (tabs d) n) (look (tabs d') n)
           else look (tabs d') n = look (tabs d) n)"
    and delete_ok: "delete n d = (Inr u, d') \<Longrightarrow> look (tabs d') = (look (tabs d))(n := None)"
    and write_err: "create c d = (Inl e, d') \<Longrightarrow> tabs d' = tabs d"
      "update now c d = (Inl e, d') \<Longrightarrow> tabs d' = tabs d"
      "delete n d = (Inl e, d') \<Longrightarrow> tabs d' = tabs d"
begin

lemma get_after_create:
  "create c d = (Inr u, d1) \<Longrightarrow> get (cf_name c) d1 = (Inr c', d2) \<Longrightarrow> same_config c c'"
  using create_ok [of c d u d1] get_ok [of "cf_name c" d1 c' d2] by auto

lemma get_after_update:
  "update now c d = (Inr u, d1) \<Longrightarrow> get (cf_name c) d1 = (Inr c', d2) \<Longrightarrow> same_config c c'"
  using update_ok [of now c d u d1, rule_format, of "cf_name c"] get_ok [of "cf_name c" d1 c' d2]
  by (cases "look (tabs d) (cf_name c)") auto

lemma get_after_delete: "delete n d = (Inr u, d1) \<Longrightarrow> get n d1 \<noteq> (Inr c, d2)"
  using delete_ok [of n d u d1] get_ok [of n d1 c d2] by auto

lemma update_keeps_others:
  "update now c d = (Inr u, d1) \<Longrightarrow> n \<noteq> cf_name c \<Longrightarrow> get n d1 = (Inr c', d2) \<Longrightarrow>
   look (tabs d) n = Some c'"
  using update_ok [of now c d u d1] get_ok [of n d1 c' d2] by auto

end

lemma update_rows_look:
  assumes p: "projects p C" and t: "change_rows (on p P) (setting p C f) t t'"
    and auto: "\<And>x r'. stored (C x) r' \<Longrightarrow> \<exists>y. r' = C y \<and> R x y"
  shows "row_at p k t' = None \<longleftrightarrow> row_at p k t = None"
    "row_at p k t = Some x \<Longrightarrow> P x \<Longrightarrow> \<exists>y. row_at p k t' = Some y \<and> R (f x) y"
    "row_at p k t = Some x \<Longrightarrow> \<not> P x \<Longrightarrow> row_at p k t' = Some x"
proof -
  have at_k: "case t k of None \<Rightarrow> t' k = None
      | Some r \<Rightarrow> (\<exists>r'. t' k = Some r' \<and> (if on p P r then stored (setting p C f r) r' else r' = r))"
    using t by (simp add: change_rows_def)
  have set_C: "setting p C f (C x) = C (f x)" for x
    using p by (simp add: setting_def)
  have on_C: "on p P (C x) = P x" for x
    using p by (simp add: on_def)
  show yes: "row_at p k t = Some x \<Longrightarrow> P x \<Longrightarrow> \<exists>y. row_at p k t' = Some y \<and> R (f x) y" for x
    using at_k auto [of "f x"] p
    by (auto simp: row_at_def bind_eq_Some_conv projects_iff set_C on_C)
  show no: "row_at p k t = Some x \<Longrightarrow> \<not> P x \<Longrightarrow> row_at p k t' = Some x" for x
    using at_k p by (auto simp: row_at_def bind_eq_Some_conv projects_iff on_C)
  have "row_at p k t' = None" if "row_at p k t = None"
  proof (cases "t k")
    case (Some r)
    with that have "p r = None" by (simp add: row_at_def)
    then have "\<not> on p P r" by (simp add: on_def)
    with at_k Some \<open>p r = None\<close> show ?thesis by (auto simp: row_at_def)
  qed (use at_k in \<open>simp add: row_at_def\<close>)
  moreover have "row_at p k t' \<noteq> None" if "row_at p k t = Some x" for x
    using yes [OF that] no [OF that] by (cases "P x") auto
  ultimately show "row_at p k t' = None \<longleftrightarrow> row_at p k t = None"
    by (cases "row_at p k t") auto
qed

lemma stored_config:
  "stored (RPipeline c) r' \<Longrightarrow> \<exists>y. r' = RPipeline y \<and> same_config c y"
  "stored (RInstance c) r' \<Longrightarrow> \<exists>y. r' = RInstance y \<and> same_config c y"
  by (cases r'; auto simp: stored_def same_config_def config_row.defs elim: config_row.cases
      dest: arg_cong [where f = cf_name] arg_cong [where f = cf_version] arg_cong [where f = cf_detail])+

lemma row_at_create:
  assumes p: "projects p C" and k: "\<not> generated_id (C x)" and w: "write_ok (Create [C x]) t t'"
    and auto: "\<And>r'. stored (C x) r' \<Longrightarrow> \<exists>y. r' = C y \<and> R x y"
  shows "row_at p (key_of (C x)) t = None \<and>
    (\<exists>y. R x y \<and> key_of (C y) = key_of (C x) \<and>
      (\<forall>k. row_at p k t' = (if k = key_of (C x) then Some y else row_at p k t)))"
proof -
  obtain r' where r': "t (key_of (C x)) = None" "stored (C x) r'" "key_of r' = key_of (C x)"
      "t' = t(key_of (C x) \<mapsto> r')"
    using write_create_single [OF w k] by blast
  with auto obtain y where "r' = C y" "R x y" by blast
  with r' p show ?thesis by (auto simp: row_at_def)
qed

lemma row_at_drop:
  assumes "projects p C" and "well_keyed t"
  shows "row_at p k (drop_rows (on p P) t) =
    (case row_at p k t of None \<Rightarrow> None | Some x \<Rightarrow> if P x then None else Some x)"
  using assms by (auto simp: row_at_def drop_rows_def on_def bind_eq_Some_conv projects_iff split: option.splits)

lemma row_at_drop_other:
  assumes "projects p C" and "projects q D" and "\<And>x y. C x \<noteq> D y"
  shows "row_at p k (drop_rows (on q P) t) = row_at p k t"
proof -
  have "p (D y) = None" for y
    using assms(3) [of _ y] by (cases "p (D y)") (auto simp: projects_iff [OF assms(1)])
  then show ?thesis
    by (auto simp: row_at_def drop_rows_def on_iff [OF assms(2)] split: option.splits)
qed

text \<open>
  The methods of a table, once for all tables keyed by a name: \<open>p\<close> and \<open>C\<close> are its
  projection and constructor, \<open>K\<close> its key and \<open>nm\<close> the name of a row.
\<close>

definition named_table :: "(row \<Rightarrow> 'a option) \<Rightarrow> ('a \<Rightarrow> row) \<Rightarrow> (string \<Rightarrow> dbkey) \<Rightarrow> ('a \<Rightarrow> string) \<Rightarrow> bool" where
  "named_table p C K nm \<longleftrightarrow>
     projects p C \<and> (\<forall>x. key_of (C x) = K (nm x)) \<and> inj K \<and> (\<forall>x. \<not> generated_id (C x)) \<and>
     (\<forall>x m. C x \<noteq> RMapping m)"

lemma named_tables [simp]:
  "named_table as_pipeline RPipeline KPipeline cf_name"
  "named_table as_instance RInstance KInstance cf_name"
  "named_table as_onetime ROnetime KOnetime oc_name"
  by (simp_all add: named_table_def inj_def)

context gorm_api
begin

lemma table_get_ok:
  assumes "named_table p C K nm" and "first_as G p (\<lambda>c. nm c = n) d = (Inr c, d')"
  shows "tabs d' = tabs d \<and> row_at p (K n) (tabs d) = Some c"
proof -
  have p: "projects p C" "key_of (C c) = K (nm c)" using assms(1) by (simp_all add: named_table_def)
  from first_as_ok [OF p(1) assms(2)] p(2) show ?thesis by (simp add: row_at_tabs [OF p(1)])
qed

lemma table_get_err:
  assumes "named_table p C K nm" and "first_as G p (\<lambda>c. nm c = n) d = (Inl e, d')"
  shows "tabs d' = tabs d \<and> (is_not_found e \<longrightarrow> row_at p (K n) (tabs d) = None)"
proof -
  have p: "projects p C" "\<And>x. key_of (C x) = K (nm x)" "inj K"
    using assms(1) by (simp_all add: named_table_def)
  have "row_at p (K n) (tabs d) = Some x \<Longrightarrow> has (tabs d) (C x) \<and> nm x = n" for x
    using row_at_tabs [OF p(1)] p(2,3) by (simp add: inj_eq)
  with first_as_err [OF p(1) assms(2)] show ?thesis by (cases "row_at p (K n) (tabs d)") auto
qed

lemma table_create_ok:
  assumes "named_table p C K nm" and "exec G (Write (Create [C c])) d = (Inr u, d')"
    and "\<And>r'. stored (C c) r' \<Longrightarrow> \<exists>y. r' = C y \<and> R c y"
  shows "row_at p (K (nm c)) (tabs d) = None \<and>
    (\<exists>c'. R c c' \<and> (\<lambda>n. row_at p (K n) (tabs d')) = (\<lambda>n. row_at p (K n) (tabs d))(nm c \<mapsto> c'))"
proof -
  have p: "projects p C" "\<not> generated_id (C c)" "key_of (C c) = K (nm c)" "inj K"
    using assms(1) by (simp_all add: named_table_def)
  from row_at_create [of p C c _ _ R, OF p(1,2) exec_write [OF assms(2)] assms(3)] show ?thesis
    using p(3,4) by (auto simp: fun_eq_iff inj_eq)
qed

lemma table_update_ok:
  assumes "named_table p C K nm"
    and "exec G (Write (Update (on p (\<lambda>c. nm c = m)) (setting p C f))) d = (Inr u, d')"
    and "\<And>x r'. stored (C x) r' \<Longrightarrow> \<exists>y. r' = C y \<and> R x y"
  shows "if n = m then rel_option (\<lambda>x y. nm x = m \<and> R (f x) y) (row_at p (K n) (tabs d)) (row_at p (K n) (tabs d'))
    else row_at p (K n) (tabs d') = row_at p (K n) (tabs d)"
proof -
  have p: "projects p C" "\<And>x. key_of (C x) = K (nm x)" "inj K"
    using assms(1) by (simp_all add: named_table_def)
  have c: "change_rows (on p (\<lambda>c. nm c = m)) (setting p C f) (tabs d) (tabs d')"
    using exec_write [OF assms(2)] by simp
  note look = update_rows_look [where k = "K n" and R = R, OF p(1) c assms(3), simplified]
  have nm: "row_at p (K n) (tabs d) = Some x \<Longrightarrow> nm x = n" for x
    using row_at_tabs [OF p(1)] p(2,3) by (simp add: inj_eq)
  show ?thesis
  proof (cases "row_at p (K n) (tabs d)")
    case None
    then show ?thesis using look(1) by auto
  next
    case (Some x)
    then show ?thesis using look(2,3) [OF Some] nm [OF Some] by auto
  qed
qed

lemma table_delete_ok:
  assumes "named_table p C K nm"
    and "exec G (Transaction [Delete (on p (\<lambda>c. nm c = n)), Delete (on as_mapping Q)]) d = (Inr u, d')"
  shows "(\<lambda>n. row_at p (K n) (tabs d')) = (\<lambda>n. row_at p (K n) (tabs d))(n := None)"
    "has (tabs d') (RMapping m) \<longleftrightarrow> has (tabs d) (RMapping m) \<and> \<not> Q m"
proof -
  have p: "projects p C" "\<And>x. key_of (C x) = K (nm x)" "inj K" "\<And>x m. C x \<noteq> RMapping m"
    using assms(1) by (simp_all add: named_table_def)
  have t: "tabs d' = drop_rows (on as_mapping Q) (drop_rows (on p (\<lambda>c. nm c = n)) (tabs d))"
    using exec_writes [OF assms(2)] by simp
  have nm: "row_at p (K k) (tabs d) = Some x \<Longrightarrow> nm x = k" for x k
    using row_at_tabs [OF p(1)] p(2,3) by (simp add: inj_eq)
  show "(\<lambda>n. row_at p (K n) (tabs d')) = (\<lambda>n. row_at p (K n) (tabs d))(n := None)"
    using nm by (auto simp: t row_at_drop_other [OF p(1) projects_table(6) p(4)]
        row_at_drop [OF p(1)] fun_eq_iff split: option.splits)
  have "\<not> on p P (RMapping m)" for P
    using p(4) by (metis on_iff [OF p(1)])
  then show "has (tabs d') (RMapping m) \<longleftrightarrow> has (tabs d) (RMapping m) \<and> \<not> Q m"
    by (simp add: t has_drop on_iff [OF projects_table(6)])
qed

end

lemma option_update_same:
  assumes "if n = cf_name c
    then rel_option (\<lambda>x y. cf_name x = cf_name c \<and>
      same_config (x\<lparr>cf_version := cf_version c, cf_detail := cf_detail c, cf_updated := now\<rparr>) y) a b
    else b = a"
  shows "if n = cf_name c then rel_option (\<lambda>_ c'. same_config c c') a b else b = a"
  using assms by (auto simp: same_config_def elim!: option.rel_mono_strong split: if_splits)

sublocale gorm_api < pipelines: config_table tabs pipeline_at "CreatePipelineConfig G"
  "GetPipelineConfig G" "UpdatePipelineConfig G" "DeletePipelineConfig G"
proof
  note T = named_tables(1)
  show "GetPipelineConfig G n d = (Inr c, d') \<Longrightarrow> tabs d' = tabs d \<and> pipeline_at (tabs d) n = Some c"
    for n d c d' using table_get_ok [OF T] by (simp add: GetPipelineConfig_def)
  show "GetPipelineConfig G n d = (Inl e, d') \<Longrightarrow>
      tabs d' = tabs d \<and> (is_not_found e \<longrightarrow> pipeline_at (tabs d) n = None)"
    for n d e d' using table_get_err [OF T] by (simp add: GetPipelineConfig_def)
  show "CreatePipelineConfig G c d = (Inr u, d') \<Longrightarrow> pipeline_at (tabs d) (cf_name c) = None \<and>
      (\<exists>c'. same_config c c' \<and> pipeline_at (tabs d') = (pipeline_at (tabs d))(cf_name c \<mapsto> c'))"
    for c d u d'
    using table_create_ok [OF T, of c d u d' same_config] stored_config(1)
    by (simp add: CreatePipelineConfig_def)
  show "UpdatePipelineConfig G now c d = (Inr u, d') \<Longrightarrow>
      (\<forall>n. if n = cf_name c
           then rel_option (\<lambda>_ c'. same_config c c') (pipeline_at (tabs d) n) (pipeline_at (tabs d') n)
           else pipeline_at (tabs d') n = pipeline_at (tabs d) n)"
    for now c d u d'
    unfolding UpdatePipelineConfig_def
    by (intro allI option_update_same, erule table_update_ok [OF T _ stored_config(1)])
  show "DeletePipelineConfig G n d = (Inr u, d') \<Longrightarrow> pipeline_at (tabs d') = (pipeline_at (tabs d))(n := None)"
    for n d u d' using table_delete_ok(1) [OF T] by (simp add: DeletePipelineConfig_def)
qed (auto simp: CreatePipelineConfig_def UpdatePipelineConfig_def DeletePipelineConfig_def dest: exec_err)

sublocale gorm_api < instances: config_table tabs instance_at "CreateInstanceConfig G"
  "GetInstanceConfig G" "UpdateInstanceConfig G" "DeleteInstanceConfig G"
proof
  note T = named_tables(2)
  show "GetInstanceConfig G n d = (Inr c, d') \<Longrightarrow> tabs d' = tabs d \<and> instance_at (tabs d) n = Some c"
    for n d c d' using table_get_ok [OF T] by (simp add: GetInstanceConfig_def)
  show "GetInstanceConfig G n d = (Inl e, d') \<Longrightarrow>
      tabs d' = tabs d \<and> (is_not_found e \<longrightarrow> instance_at (tabs d) n = None)"
    for n d e d' using table_get_err [OF T] by (simp add: GetInstanceConfig_def)
  show "CreateInstanceConfig G c d = (Inr u, d') \<Longrightarrow> instance_at (tabs d) (cf_name c) = None \<and>
      (\<exists>c'. same_config c c' \<and> instance_at (tabs d') = (instance_at (tabs d))(cf_name c \<mapsto> c'))"
    for c d u d'
    using table_create_ok [OF T, of c d u d' same_config] stored_config(2)
    by (simp add: CreateInstanceConfig_def)
  show "UpdateInstanceConfig G now c d = (Inr u, d') \<Longrightarrow>
      (\<forall>n. if n = cf_name c
           then rel_option (\<lambda>_ c'. same_config c c') (instance_at (tabs d) n) (instance_at (tabs d') n)
           else instance_at (tabs d') n = instance_at (tabs d) n)"
    for now c d u d'
    unfolding UpdateInstanceConfig_def
    by (intro allI option_update_same, erule table_update_ok [OF T _ stored_config(2)])
  show "DeleteInstanceConfig G n d = (Inr u, d') \<Longrightarrow> instance_at (tabs d') = (instance_at (tabs d))(n := None)"
    for n d u d' using table_delete_ok(1) [OF T] by (simp add: DeleteInstanceConfig_def)
qed (auto simp: CreateInstanceConfig_def UpdateInstanceConfig_def DeleteInstanceConfig_def dest: exec_err)

subsection \<open>What resolution delivers\<close>

text \<open>
  The specification: which groups an agent is in, and what a configuration of such a group
  looks like for it.
\<close>

definition shares_tag :: "tables \<Rightarrow> AgentMatchContext \<Rightarrow> string \<Rightarrow> bool" where
  "shares_tag t match g \<longleftrightarrow>
     (\<exists>agt. has t (RTag agt) \<and> tag_group agt = g \<and>
        (\<exists>tg \<in> set (mc_tags match). tag_name agt = tag_name tg \<and> tag_value agt = tag_value tg))"

definition ip_selected :: "AgentMatchContext \<Rightarrow> AgentGroup \<Rightarrow> bool" where
  "ip_selected match g \<longleftrightarrow> mc_ip match \<noteq> [] \<and> ag_ip_selector g \<noteq> [] \<and>
     IPSelectorMatches (ag_ip_selector g) (mc_ip match) = Inr True"

definition in_group :: "tables \<Rightarrow> AgentMatchContext \<Rightarrow> string \<Rightarrow> bool" where
  "in_group t match name \<longleftrightarrow>
     name = DefaultGroupName \<or>
     (\<exists>g. group_at t name = Some g \<and>
        (shares_tag t match name \<or> ip_selected match g \<or> ag_version_constraint g \<noteq> []) \<and>
        \<not> fails_version match g)"

definition assigned :: "tables \<Rightarrow> AgentMatchContext \<Rightarrow> string \<Rightarrow> string \<Rightarrow> bool" where
  "assigned t match ct name \<longleftrightarrow> (\<exists>g. in_group t match g \<and> mapped t g name ct)"

lemma ip_matched_ok:
  "ip_matched ip gs = Inr ns \<Longrightarrow>
   set ns = {ag_name g | g. g \<in> set gs \<and> IPSelectorMatches (ag_ip_selector g) ip = Inr True}"
proof (induction gs arbitrary: ns)
  case (Cons g gs)
  then obtain b ms where "IPSelectorMatches (ag_ip_selector g) ip = Inr b" "ip_matched ip gs = Inr ms"
      "ns = (if b then ag_name g # ms else ms)"
    by (auto split: sum.splits)
  with Cons.IH [of ms] show ?case by auto
qed simp

lemma list_ex_bex: "list_ex P xs \<longleftrightarrow> (\<exists>x \<in> set xs. P x)"
  by (simp add: list_ex_iff)

context gorm_api
begin

lemma group_tabs: "group_at (tabs d) n = Some g \<longleftrightarrow> has (tabs d) (RGroup g) \<and> ag_name g = n"
  by (simp add: row_at_tabs [OF projects_table(1)])

lemma tag_groups_ok:
  assumes "tag_groups G match d = (Inr ns, d')"
  shows "tabs d' = tabs d \<and>
    set ns = {n. \<exists>g. group_at (tabs d) n = Some g \<and> shares_tag (tabs d) match n}"
proof (cases "mc_tags match = []")
  case True
  with assms show ?thesis by (simp add: tag_groups_def shares_tag_def)
next
  case False
  with assms obtain x where g: "G (RawNames (tag_group_query (mc_tags match))) d = (Inr x, d')"
    by (auto simp: tag_groups_def split: prod.splits sum.splits db_result.splits)
  from succeeded [OF g] obtain all names where s: "listing all (tabs d)" "tabs d' = tabs d"
      "x = Names names" "set names = set (tag_group_query (mc_tags match) all)"
    by auto
  have "matched_count (mc_tags match) all gname \<ge> 1 \<longleftrightarrow> shares_tag (tabs d) match gname" for gname
    using s(1) map_filter_set [OF projects_table(2), of all]
    by (auto simp: matched_count_def shares_tag_def tag_cond_def list_ex_bex listing_def has_ran
        Suc_le_eq filter_empty_conv)
  then have "set (tag_group_query (mc_tags match) all) =
      {n. \<exists>g. group_at (tabs d) n = Some g \<and> shares_tag (tabs d) match n}"
    using s(1) map_filter_set [OF projects_table(1), of all]
    by (auto simp: tag_group_query_def listing_def has_ran group_tabs)
  with False assms g s show ?thesis by (simp add: tag_groups_def)
qed

lemma ip_groups_ok:
  assumes "ip_groups G match d = (Inr ns, d')"
  shows "tabs d' = tabs d \<and> set ns = {n. \<exists>g. group_at (tabs d) n = Some g \<and> ip_selected match g}"
  using assms find_as_ok [OF projects_table(1)]
  by (auto simp: ip_groups_def bindr_Inr ip_selected_def ip_matched_ok group_tabs split: if_splits)

lemma version_groups_ok:
  assumes "version_groups G d = (Inr ns, d')"
  shows "tabs d' = tabs d \<and>
    set ns = {n. \<exists>g. group_at (tabs d) n = Some g \<and> ag_version_constraint g \<noteq> []}"
  using assms find_as_ok [OF projects_table(1)]
  by (auto simp: version_groups_def bindr_Inr group_tabs)

lemma version_filter_ok:
  assumes "version_filter G match ns d = (Inr ns', d')" and "DefaultGroupName \<in> set ns"
  shows "tabs d' = tabs d \<and>
    set ns' = {n \<in> set ns. n = DefaultGroupName \<or>
      \<not> (\<exists>g. group_at (tabs d) n = Some g \<and> fails_version match g)}"
proof (cases "card (set ns) > 1")
  case False
  with assms(2) have "set ns = {DefaultGroupName}"
    using False card_le_Suc0_iff_eq [of "set ns"] by (auto simp: not_less)
  with assms(1) False show ?thesis by (auto simp: version_filter_def)
next
  case True
  with assms(1) obtain rows where
    f: "find_as G as_group (\<lambda>g. ag_name g \<in> set (filter (\<lambda>n. n \<noteq> DefaultGroupName) ns)) d = (Inr rows, d')"
    and ns': "ns' = filter (\<lambda>n. n \<notin> set (map ag_name (filter (fails_version match) rows))) ns"
    by (auto simp: version_filter_def bindr_Inr Let_def)
  from find_as_ok [OF projects_table(1) f] have "tabs d' = tabs d"
    and "set rows = {g. has (tabs d) (RGroup g) \<and> ag_name g \<in> set ns \<and> ag_name g \<noteq> DefaultGroupName}"
    by auto
  then show ?thesis unfolding ns' group_tabs by auto
qed

lemma matched_groups_ok:
  assumes "matched_groups G match d = (Inr ns, d')"
  shows "tabs d' = tabs d \<and> set ns = {n. in_group (tabs d) match n}"
proof -
  from assms obtain a d1 b d2 c d3 where s: "tag_groups G match d = (Inr a, d1)"
      "ip_groups G match d1 = (Inr b, d2)" "version_groups G d2 = (Inr c, d3)"
      "version_filter G match (remdups (DefaultGroupName # a @ b @ c)) d3 = (Inr ns, d')"
    by (auto simp: matched_groups_def bindr_Inr)
  note ok = tag_groups_ok [OF s(1)] ip_groups_ok [OF s(2)] version_groups_ok [OF s(3)]
    version_filter_ok [OF s(4)]
  have "DefaultGroupName \<in> set (remdups (DefaultGroupName # a @ b @ c))" by simp
  note ok = ok(1,2,3) ok(4) [OF this]
  have "in_group (tabs d) match n \<longleftrightarrow> n = DefaultGroupName \<or>
      ((n \<in> set a \<or> n \<in> set b \<or> n \<in> set c) \<and>
       \<not> (\<exists>g. group_at (tabs d) n = Some g \<and> fails_version match g))" for n
    using ok(1,2,3) by (auto simp: in_group_def)
  then have "{n. in_group (tabs d) match n} = {n \<in> set (remdups (DefaultGroupName # a @ b @ c)).
      n = DefaultGroupName \<or> \<not> (\<exists>g. group_at (tabs d) n = Some g \<and> fails_version match g)}"
    by auto
  moreover have "tabs d3 = tabs d" using ok by simp
  ultimately show ?thesis using ok(4) by simp
qed

lemma fetch_named_ok:
  assumes "projects p C" and "fetch_named G p name_of msg names d = (Inr xs, d')"
  shows "tabs d' = tabs d \<and> distinct xs \<and> set xs = {x. has (tabs d) (C x) \<and> name_of x \<in> set names}"
  using assms find_as_ok [OF assms(1)]
  by (auto simp: fetch_named_def split: if_splits)

end

text \<open>
  The overlay. Canary names without a NUL byte cannot be confused in the map's keys; the
  statuses below are those of the database.
\<close>

definition canary_at :: "tables \<Rightarrow> string \<Rightarrow> string \<Rightarrow> CanaryRelease option" where
  "canary_at t name ct = row_at as_canary (KCanary name ct) t"

definition plain_names :: "tables \<Rightarrow> bool" where
  "plain_names t \<longleftrightarrow> (\<forall>cr. has t (RCanary cr) \<longrightarrow>
     CHR 0x00 \<notin> set (cr_config cr) \<and> CHR 0x00 \<notin> set (cr_type cr))"

definition canary_for :: "tables \<Rightarrow> AgentMatchContext \<Rightarrow> string \<Rightarrow> string \<Rightarrow> CanaryRelease option" where
  "canary_for t match ct name =
     (case canary_at t name ct of
        Some cr \<Rightarrow>
          if cr_status cr = CanaryStatusRolling \<and> CanaryEligible cr match name = Inr True then Some cr else None
      | None \<Rightarrow> None)"

definition effective :: "tables \<Rightarrow> AgentMatchContext \<Rightarrow> string \<Rightarrow> config_row \<Rightarrow> config_row" where
  "effective t match ct c =
     (case canary_for t match ct (cf_name c) of Some cr \<Rightarrow> overlaid cr c | None \<Rightarrow> c)"

lemma canary_key_inj:
  assumes k: "canary_key a ct = canary_key b ct'" and "CHR 0x00 \<notin> set a" and "CHR 0x00 \<notin> set ct"
  shows "a = b \<and> ct = ct'"
proof -
  have "count_list (canary_key a ct) (CHR 0x00) = count_list (canary_key b ct') (CHR 0x00)"
    using k by simp
  with assms(2,3) have "CHR 0x00 \<notin> set b"
    by (simp add: canary_key_def count_list_0_iff [symmetric])
  then have "takeWhile (\<lambda>c. c \<noteq> CHR 0x00) (canary_key a ct) = a"
    "takeWhile (\<lambda>c. c \<noteq> CHR 0x00) (canary_key b ct') = b"
    using while_not_char(1) [of _ a ct] while_not_char(1) [of _ b ct'] assms(2)
    by (simp_all add: canary_key_def)
  with k have "a = b" by simp
  with k show ?thesis by (simp add: canary_key_def)
qed

lemma crMap_Some:
  "crMap crs k = Some cr \<Longrightarrow> cr \<in> set crs \<and> canary_key (cr_config cr) (cr_type cr) = k"
  unfolding crMap_def by (induction crs rule: rev_induct) (auto split: if_splits)

lemma crMap_None:
  "crMap crs k = None \<Longrightarrow> cr \<in> set crs \<Longrightarrow> canary_key (cr_config cr) (cr_type cr) \<noteq> k"
  unfolding crMap_def by (induction crs rule: rev_induct) (auto split: if_splits)

lemma overlay_ok:
  "overlay m ct match cfgs = Inr out \<Longrightarrow>
   out = map (\<lambda>c. case m (canary_key (cf_name c) ct) of
     None \<Rightarrow> c
   | Some cr \<Rightarrow> if CanaryEligible cr match (cf_name c) = Inr True then overlaid cr c else c) cfgs"
proof (induction cfgs arbitrary: out)
  case (Cons c cfgs)
  show ?case
  proof (cases "overlay m ct match cfgs")
    case (Inl e)
    with Cons.prems show ?thesis by (auto split: option.splits sum.splits)
  next
    case (Inr rest)
    with Cons.prems Cons.IH [OF Inr] show ?thesis
      by (auto split: option.splits sum.splits)
  qed
qed simp

text \<open>The map built from the rolling canaries, and what it makes of a configuration.\<close>

definition rolling_canaries :: "tables \<Rightarrow> CanaryRelease set" where
  "rolling_canaries t = {cr. has t (RCanary cr) \<and> cr_status cr = CanaryStatusRolling}"

lemma canary_at_iff:
  "well_keyed t \<Longrightarrow> canary_at t n ct = Some cr \<longleftrightarrow> has t (RCanary cr) \<and> cr_config cr = n \<and> cr_type cr = ct"
  by (simp add: canary_at_def row_at_Some [OF projects_table(11)])

lemma crMap_rolling:
  assumes crs: "set crs = rolling_canaries t"
    and "plain_names t" and "well_keyed t"
  shows "crMap crs (canary_key n ct) = Some cr \<longleftrightarrow>
    canary_at t n ct = Some cr \<and> cr_status cr = CanaryStatusRolling"
proof -
  note at_k = canary_at_iff [OF assms(3)]
  note crs = crs [unfolded rolling_canaries_def]
  have inj: "cr \<in> set crs \<Longrightarrow> canary_key (cr_config cr) (cr_type cr) = canary_key n ct \<longleftrightarrow>
      cr_config cr = n \<and> cr_type cr = ct" for cr
    using assms(2) canary_key_inj [of "cr_config cr" "cr_type cr" n ct] by (auto simp: crs plain_names_def)
  show ?thesis
  proof
    assume "crMap crs (canary_key n ct) = Some cr"
    from crMap_Some [OF this] inj [of cr] show
      "canary_at t n ct = Some cr \<and> cr_status cr = CanaryStatusRolling"
      by (auto simp: at_k crs)
  next
    assume h: "canary_at t n ct = Some cr \<and> cr_status cr = CanaryStatusRolling"
    then have cr: "cr \<in> set crs" "canary_key (cr_config cr) (cr_type cr) = canary_key n ct"
      by (auto simp: at_k crs)
    then obtain cr' where c': "crMap crs (canary_key n ct) = Some cr'"
      using crMap_None [of crs "canary_key n ct" cr] by (cases "crMap crs (canary_key n ct)") auto
    from crMap_Some [OF c'] inj [of cr'] have "canary_at t n ct = Some cr'"
      by (auto simp: at_k crs)
    with h c' show "crMap crs (canary_key n ct) = Some cr" by simp
  qed
qed

lemma crMap_effective:
  assumes "\<And>cr. crMap crs (canary_key (cf_name c) ct) = Some cr \<longleftrightarrow>
    canary_at t (cf_name c) ct = Some cr \<and> cr_status cr = CanaryStatusRolling"
  shows "(case crMap crs (canary_key (cf_name c) ct) of
     None \<Rightarrow> c
   | Some cr \<Rightarrow> if CanaryEligible cr match (cf_name c) = Inr True then overlaid cr c else c)
   = effective t match ct c"
proof (cases "crMap crs (canary_key (cf_name c) ct)")
  case None
  then have "\<not> (\<exists>cr. canary_at t (cf_name c) ct = Some cr \<and> cr_status cr = CanaryStatusRolling)"
    using assms by (metis option.distinct(1))
  with None show ?thesis
    by (auto simp: effective_def canary_for_def split: option.splits)
next
  case (Some cr)
  then have "canary_at t (cf_name c) ct = Some cr" "cr_status cr = CanaryStatusRolling"
    using assms by auto
  with Some show ?thesis
    by (auto simp: effective_def canary_for_def split: option.splits)
qed

context gorm_api
begin

lemma mappings_named:
  assumes "find_as G as_mapping (\<lambda>m. mp_group m \<in> set gs) d = (Inr ms, d')"
  shows "set (names_of_type ct ms) = {n. \<exists>g \<in> set gs. mapped (tabs d) g n ct}"
proof -
  have m: "m = \<lparr>mp_group = g, mp_config = n, mp_type = ct\<rparr> \<longleftrightarrow>
      mp_group m = g \<and> mp_config m = n \<and> mp_type m = ct" for m g n
    by (cases m) auto
  have "set ms = {m. has (tabs d) (RMapping m) \<and> mp_group m \<in> set gs}"
    using find_as_ok [OF projects_table(6) assms] by simp
  then show ?thesis
    by (auto simp: names_of_type_def image_iff) (metis m)+
qed

lemma crMap_canary:
  assumes "find_as G as_canary (\<lambda>cr. cr_status cr = CanaryStatusRolling) d = (Inr crs, d')"
    and "plain_names (tabs d)"
  shows "crMap crs (canary_key n ct) = Some cr \<longleftrightarrow>
    canary_at (tabs d) n ct = Some cr \<and> cr_status cr = CanaryStatusRolling"
  using find_as_ok [OF projects_table(11) assms(1)] by (intro crMap_rolling [OF _ assms(2)]) (auto simp: rolling_canaries_def)

lemma overlay_effective:
  assumes "find_as G as_canary (\<lambda>cr. cr_status cr = CanaryStatusRolling) d = (Inr crs, d')"
    and "plain_names (tabs d)" and "overlay (crMap crs) ct match cfgs = Inr out"
  shows "out = map (effective (tabs d) match ct) cfgs"
  using overlay_ok [OF assms(3)] crMap_effective crMap_canary [OF assms(1,2)] by simp

lemma canary_overlay_effective:
  assumes "find_as G as_canary (\<lambda>cr. cr_status cr = CanaryStatusRolling) d = (Inr crs, d')"
    and "plain_names (tabs d)" and "canary_overlay crs match ps xs = Inr (ps', xs')"
  shows "ps' = map (effective (tabs d) match ConfigTypePipeline) ps \<and>
    xs' = map (effective (tabs d) match ConfigTypeInstance) xs"
proof (cases "crs = []")
  case True
  have "overlay (crMap crs) ct match cfgs = Inr cfgs" for ct cfgs
    by (induction cfgs) (simp_all add: True crMap_def)
  with overlay_effective [OF assms(1,2)] assms(3) True show ?thesis
    by (simp add: canary_overlay_def)
next
  case False
  with assms(3) overlay_effective [OF assms(1,2)] show ?thesis
    by (auto simp: canary_overlay_def split: sum.splits)
qed

end

text \<open>The overlay changes no names.\<close>

lemma overlay_names: "overlay m ct match cfgs = Inr out \<Longrightarrow> map cf_name out = map cf_name cfgs"
  using overlay_ok by (fastforce simp: overlaid_def split: option.splits)

lemma canary_overlay_names:
  "canary_overlay crs match ps xs = Inr (ps', xs') \<Longrightarrow>
   map cf_name ps' = map cf_name ps \<and> map cf_name xs' = map cf_name xs"
  by (auto simp: canary_overlay_def overlay_names split: if_splits sum.splits)

definition agent_configs_spec :: "tables \<Rightarrow> AgentMatchContext \<Rightarrow> agent_configs \<Rightarrow> bool" where
  "agent_configs_spec t match out \<longleftrightarrow> (case out of (ps, xs, os) \<Rightarrow>
     set ps = {effective t match ConfigTypePipeline c | c.
       has t (RPipeline c) \<and> assigned t match ConfigTypePipeline (cf_name c)} \<and>
     set xs = {effective t match ConfigTypeInstance c | c.
       has t (RInstance c) \<and> assigned t match ConfigTypeInstance (cf_name c)} \<and>
     set os = {c. has t (ROnetime c) \<and> assigned t match ConfigTypeOnetime (oc_name c)})"

lemma overlay_result:
  "(case r of Inl e \<Rightarrow> (Inl e, d) | Inr (a, b) \<Rightarrow> (Inr (a, b, c), d)) = (Inr out, d') \<longleftrightarrow>
   (\<exists>a b. r = Inr (a, b) \<and> out = (a, b, c) \<and> d' = d)"
  by (auto split: sum.splits)

context gorm_api
begin

lemma GetConfigsForAgent_parts:
  assumes "GetConfigsForAgent G match d = (Inr out, d')"
  obtains ps xs os ps' xs' crs d5 where "tabs d5 = tabs d" "tabs d' = tabs d"
    "set ps = {c. has (tabs d) (RPipeline c) \<and> assigned (tabs d) match ConfigTypePipeline (cf_name c)}"
    "set xs = {c. has (tabs d) (RInstance c) \<and> assigned (tabs d) match ConfigTypeInstance (cf_name c)}"
    "set os = {c. has (tabs d) (ROnetime c) \<and> assigned (tabs d) match ConfigTypeOnetime (oc_name c)}"
    "find_as G as_canary (\<lambda>cr. cr_status cr = CanaryStatusRolling) d5 = (Inr crs, d')"
    "canary_overlay crs match ps xs = Inr (ps', xs')" "out = (ps', xs', os)"
proof -
  obtain gs d1 ms d2 ps d3 xs d4 os d5 crs ps' xs' where
    s: "matched_groups G match d = (Inr gs, d1)"
      "find_as G as_mapping (\<lambda>m. mp_group m \<in> set gs) d1 = (Inr ms, d2)"
      "fetch_named G as_pipeline cf_name ''GetConfigsForAgent pipeline query''
         (names_of_type ConfigTypePipeline ms) d2 = (Inr ps, d3)"
      "fetch_named G as_instance cf_name ''GetConfigsForAgent instance query''
         (names_of_type ConfigTypeInstance ms) d3 = (Inr xs, d4)"
      "fetch_named G as_onetime oc_name ''GetConfigsForAgent onetime query''
         (names_of_type ConfigTypeOnetime ms) d4 = (Inr os, d5)"
    and c: "find_as G as_canary (\<lambda>cr. cr_status cr = CanaryStatusRolling) d5 = (Inr crs, d')"
    and o: "canary_overlay crs match ps xs = Inr (ps', xs')" "out = (ps', xs', os)"
    using assms(1) unfolding GetConfigsForAgent_def bindr_Inr wrapr_Inr overlay_result by blast
  have g: "tabs d1 = tabs d" "set gs = {n. in_group (tabs d) match n}"
    using matched_groups_ok [OF s(1)] by auto
  have m: "tabs d2 = tabs d" "set (names_of_type ct ms) = {n. assigned (tabs d) match ct n}" for ct
    using find_as_ok [OF projects_table(6) s(2)] mappings_named [OF s(2)] g by (auto simp: assigned_def)
  have f: "tabs d5 = tabs d"
    "set ps = {c. has (tabs d) (RPipeline c) \<and> assigned (tabs d) match ConfigTypePipeline (cf_name c)}"
    "set xs = {c. has (tabs d) (RInstance c) \<and> assigned (tabs d) match ConfigTypeInstance (cf_name c)}"
    "set os = {c. has (tabs d) (ROnetime c) \<and> assigned (tabs d) match ConfigTypeOnetime (oc_name c)}"
    using fetch_named_ok [OF projects_table(3) s(3)] fetch_named_ok [OF projects_table(4) s(4)]
      fetch_named_ok [OF projects_table(5) s(5)] m by auto
  have "tabs d' = tabs d"
    using find_as_ok [OF projects_table(11) c] f(1) by simp
  from f(1) this f(2,3,4) c o show thesis by (rule that)
qed

lemma keeps_tag_groups: "keeps tabs (tag_groups G match)"
  by (auto simp: keeps_def tag_groups_def dest: keeps_query [rotated]
      split: prod.splits sum.splits db_result.splits)

lemma keeps_overlay: "keeps tabs (\<lambda>d. case r of Inl e \<Rightarrow> (Inl e, d) | Inr (a, b) \<Rightarrow> (Inr (a, b, c), d))"
  by (simp add: keeps_def split: sum.splits prod.splits)

lemma keeps_GetConfigsForAgent: "keeps tabs (GetConfigsForAgent G match)"
  unfolding GetConfigsForAgent_def matched_groups_def ip_groups_def version_groups_def
    version_filter_def fetch_named_def Let_def
  by (intro keeps_bindr keeps_wrapr keeps_if keeps_reads keeps_retr keeps_pair keeps_tag_groups keeps_overlay)

lemma GetConfigsForAgent_ok:
  assumes "GetConfigsForAgent G match d = (Inr out, d')" and "plain_names (tabs d)"
  shows "tabs d' = tabs d \<and> agent_configs_spec (tabs d) match out"
proof -
  obtain ps xs os ps' xs' crs d5 where f: "tabs d5 = tabs d" "tabs d' = tabs d"
    "set ps = {c. has (tabs d) (RPipeline c) \<and> assigned (tabs d) match ConfigTypePipeline (cf_name c)}"
    "set xs = {c. has (tabs d) (RInstance c) \<and> assigned (tabs d) match ConfigTypeInstance (cf_name c)}"
    "set os = {c. has (tabs d) (ROnetime c) \<and> assigned (tabs d) match ConfigTypeOnetime (oc_name c)}"
    and c: "find_as G as_canary (\<lambda>cr. cr_status cr = CanaryStatusRolling) d5 = (Inr crs, d')"
    and o: "canary_overlay crs match ps xs = Inr (ps', xs')" "out = (ps', xs', os)"
    by (rule GetConfigsForAgent_parts [OF assms(1)])
  have "ps' = map (effective (tabs d) match ConfigTypePipeline) ps \<and>
      xs' = map (effective (tabs d) match ConfigTypeInstance) xs"
    using canary_overlay_effective [OF c _ o(1)] assms(2) f(1) by simp
  then show ?thesis
    unfolding agent_configs_spec_def o(2) using f(2-5) by (auto simp: image_iff)
qed

end

text \<open>
  C1. Resolution refines its specification: what \<open>GetConfigsForAgent\<close> returns is exactly the
  configurations assigned to a group the agent is in, each in the form effective for this
  agent (its canary version if it has a rolling canary the agent is eligible for, the stable
  version otherwise), and the database is not changed. An agent is in the default group, and
  in each group with a tag of its own, a matching IP selector or a version constraint, unless
  the group's constraint rejects its version.
\<close>

theorem GetConfigsForAgent_refines_spec:
  assumes "gorm_api G tabs"
    and "plain_names (tabs d)"
    and "GetConfigsForAgent G match d = (Inr out, d')"
  shows "tabs d' = tabs d \<and> agent_configs_spec (tabs d) match out"
  by (rule gorm_api.GetConfigsForAgent_ok [OF assms(1,3,2)])

text \<open>A small database for witnesses.\<close>

definition sample_db :: memdb where
  "sample_db = \<lparr>mem_rows =
     [RGroup \<lparr>ag_name = ''default'', ag_description = '''', ag_ip_selector = '''',
        ag_version_constraint = '''', ag_created = 1, ag_updated = 1\<rparr>,
      RGroup \<lparr>ag_name = ''web'', ag_description = '''', ag_ip_selector = '''',
        ag_version_constraint = '''', ag_created = 1, ag_updated = 1\<rparr>,
      RTag \<lparr>tag_id = 1, tag_group = ''web'', tag_name = ''env'', tag_value = ''prod''\<rparr>,
      RPipeline \<lparr>cf_name = ''p1'', cf_version = 7, cf_detail = ''a: 1'', cf_created = 1, cf_updated = 1\<rparr>,
      RPipeline \<lparr>cf_name = ''p2'', cf_version = 9, cf_detail = ''b: 1'', cf_created = 1, cf_updated = 1\<rparr>,
      RMapping \<lparr>mp_group = ''web'', mp_config = ''p1'', mp_type = ''pipeline''\<rparr>],
    mem_faults = []\<rparr>"

definition sample_match :: AgentMatchContext where
  "sample_match = \<lparr>mc_instance = ''i-1'', mc_ip = '''', mc_hostid = '''', mc_hostname = ''h'',
     mc_version = ''1.2.0'',
     mc_tags = [\<lparr>tag_id = 0, tag_group = '''', tag_name = ''env'', tag_value = ''prod''\<rparr>]\<rparr>"


lemma sample_plain: "plain_names (mem_tabs sample_db)"
  by (simp add: plain_names_def has_def mem_tabs_def sample_db_def)

theorem GetConfigsForAgent_refines_spec_witness:
  "\<exists>out d'. GetConfigsForAgent mem_gorm sample_match sample_db = (Inr out, d') \<and>
     map cf_name (fst out) = [''p1''] \<and> agent_configs_spec (mem_tabs sample_db) sample_match out"
proof -
  have "fst (GetConfigsForAgent mem_gorm sample_match sample_db) =
      Inr ([\<lparr>cf_name = ''p1'', cf_version = 7, cf_detail = ''a: 1'', cf_created = 1, cf_updated = 1\<rparr>], [], [])"
    by code_simp
  then obtain d' where r: "GetConfigsForAgent mem_gorm sample_match sample_db =
      (Inr ([\<lparr>cf_name = ''p1'', cf_version = 7, cf_detail = ''a: 1'', cf_created = 1, cf_updated = 1\<rparr>], [], []), d')"
    by (cases "GetConfigsForAgent mem_gorm sample_match sample_db") simp
  from GetConfigsForAgent_refines_spec [OF mem.gorm_api_axioms sample_plain r] r show ?thesis by auto
qed

text \<open>
  A version constraint by itself puts an agent in a group, whatever the group's tags and IP
  selector are: if the agent's version satisfies the non-empty constraint of a group, every
  pipeline configuration mapped to the group is delivered. (The comment in the code speaks of
  groups with \<open>only a version constraint (no tag/IP selector)\<close>; the query has no such
  condition.)
\<close>

theorem version_constraint_alone_selects:
  assumes "gorm_api G tabs" and "plain_names (tabs d)"
    and "GetConfigsForAgent G match d = (Inr (ps, xs, os), d')"
    and "group_at (tabs d) g = Some grp" and "ag_version_constraint grp \<noteq> []"
    and "MatchVersionConstraint (ag_version_constraint grp) (mc_version match)"
    and "mapped (tabs d) g n ConfigTypePipeline" and "pipeline_at (tabs d) n = Some c"
  shows "effective (tabs d) match ConfigTypePipeline c \<in> set ps"
proof -
  have "in_group (tabs d) match g"
    using assms(4-6) by (auto simp: in_group_def fails_version_def)
  then have "assigned (tabs d) match ConfigTypePipeline n"
    using assms(7) by (auto simp: assigned_def)
  moreover have "has (tabs d) (RPipeline c)" "cf_name c = n"
    using assms(8) by (simp_all add: gorm_api.row_at_tabs [OF assms(1) projects_table(3)])
  moreover note gorm_api.GetConfigsForAgent_ok [OF assms(1,3,2)]
  ultimately show ?thesis
    by (auto simp: agent_configs_spec_def)
qed

definition constrained_db :: memdb where
  "constrained_db = sample_db\<lparr>mem_rows :=
     RGroup \<lparr>ag_name = ''web'', ag_description = '''', ag_ip_selector = '''',
        ag_version_constraint = ''>= 1.0'', ag_created = 1, ag_updated = 1\<rparr> # mem_rows sample_db\<rparr>"

theorem version_constraint_alone_selects_witness:
  "\<exists>ps xs os d'. GetConfigsForAgent mem_gorm (sample_match\<lparr>mc_tags := []\<rparr>) constrained_db =
     (Inr (ps, xs, os), d') \<and> ps \<noteq> []"
proof -
  let ?m = "sample_match\<lparr>mc_tags := []\<rparr>"
  have "\<exists>ps. fst (GetConfigsForAgent mem_gorm ?m constrained_db) = Inr (ps, [], [])"
  proof
    show "fst (GetConfigsForAgent mem_gorm ?m constrained_db) =
        Inr ([\<lparr>cf_name = ''p1'', cf_version = 7, cf_detail = ''a: 1'', cf_created = 1, cf_updated = 1\<rparr>], [], [])"
      by code_simp
  qed
  then obtain ps d' where r: "GetConfigsForAgent mem_gorm ?m constrained_db = (Inr (ps, [], []), d')"
    by (cases "GetConfigsForAgent mem_gorm ?m constrained_db") auto
  have p: "plain_names (mem_tabs constrained_db)"
    by (simp add: plain_names_def has_def mem_tabs_def constrained_db_def sample_db_def)
  have "MatchVersionConstraint ''>= 1.0'' (mc_version ?m)" by code_simp
  with version_constraint_alone_selects [OF mem.gorm_api_axioms p r, of "''web''"
      "\<lparr>ag_name = ''web'', ag_description = '''', ag_ip_selector = '''',
        ag_version_constraint = ''>= 1.0'', ag_created = 1, ag_updated = 1\<rparr>" "''p1''"
      "\<lparr>cf_name = ''p1'', cf_version = 7, cf_detail = ''a: 1'', cf_created = 1, cf_updated = 1\<rparr>"]
  have "ps \<noteq> []"
    by (auto simp: row_at_def has_def mem_tabs_def constrained_db_def sample_db_def ConfigTypePipeline_def)
  with r show ?thesis by blast
qed

subsection \<open>Deleting, listing, roles\<close>

lemma cf_name_effective [simp]: "cf_name (effective t match ct c) = cf_name c"
  by (simp add: effective_def overlaid_def split: option.splits)

text \<open>
  C21. Deleting a pipeline configuration is complete: afterwards there is no row and no mapping of
  that name in any group, the other configurations are untouched, and no agent is given the
  name any more.
\<close>

theorem deleted_pipeline_not_delivered:
  assumes "gorm_api G tabs"
    and "DeletePipelineConfig G n d = (Inr u, d1)"
    and "plain_names (tabs d1)"
    and "GetConfigsForAgent G match d1 = (Inr (ps, xs, os), d2)"
  shows "n \<notin> cf_name ` set ps \<and> pipeline_at (tabs d2) n = None \<and>
    (\<forall>g. \<not> mapped (tabs d2) g n ConfigTypePipeline) \<and>
    (\<forall>m. m \<noteq> n \<longrightarrow> pipeline_at (tabs d2) m = pipeline_at (tabs d) m)"
proof -
  note del = gorm_api.table_delete_ok [OF assms(1) named_tables(1) assms(2) [unfolded DeletePipelineConfig_def]]
  note spec = gorm_api.GetConfigsForAgent_ok [OF assms(1,4,3)]
  have look: "pipeline_at (tabs d1) m = (if m = n then None else pipeline_at (tabs d) m)" for m
    using fun_cong [OF del(1), of m] by simp
  have no_map: "\<not> mapped (tabs d1) g n ConfigTypePipeline" for g
    using del(2) by simp
  then have "\<not> assigned (tabs d1) match ConfigTypePipeline n"
    by (simp add: assigned_def)
  with spec have "n \<notin> cf_name ` set ps"
    by (auto simp: agent_configs_spec_def)
  with spec look no_map show ?thesis by simp
qed

theorem deleted_pipeline_not_delivered_witness:
  "\<exists>u d1 ps xs os d2. DeletePipelineConfig mem_gorm ''p1'' sample_db = (Inr u, d1) \<and>
     GetConfigsForAgent mem_gorm sample_match d1 = (Inr (ps, xs, os), d2) \<and>
     pipeline_at (mem_tabs d2) ''p2'' \<noteq> None \<and> ''p1'' \<notin> cf_name ` set ps"
proof -
  let ?del = "DeletePipelineConfig mem_gorm ''p1'' sample_db"
  have f: "fst ?del = Inr ()" "fst (GetConfigsForAgent mem_gorm sample_match (snd ?del)) = Inr ([], [], [])"
    by code_simp+
  then obtain d1 where d1: "?del = (Inr (), d1)" by (cases ?del) simp
  with f(2) obtain d2 where d2: "GetConfigsForAgent mem_gorm sample_match d1 = (Inr ([], [], []), d2)"
    by (cases "GetConfigsForAgent mem_gorm sample_match d1") simp
  have "d1 = snd ?del" using d1 by simp
  then have p: "plain_names (mem_tabs d1)"
    by (simp add: plain_names_def has_def mem_tabs_def sample_db_def DeletePipelineConfig_def exec_def
        mem_gorm_def mem_done_def on_def split: if_splits)
  have "pipeline_at (mem_tabs sample_db) ''p2'' \<noteq> None"
    by (simp add: row_at_def mem_tabs_def sample_db_def)
  with deleted_pipeline_not_delivered [OF mem.gorm_api_axioms d1 p d2] d1 d2 show ?thesis by auto
qed

definition config_exists :: "tables \<Rightarrow> GroupConfigMapping \<Rightarrow> bool" where
  "config_exists t m \<longleftrightarrow>
     mp_type m = ConfigTypePipeline \<and> pipeline_at t (mp_config m) \<noteq> None \<or>
     mp_type m = ConfigTypeInstance \<and> instance_at t (mp_config m) \<noteq> None \<or>
     mp_type m = ConfigTypeOnetime \<and> onetime_at t (mp_config m) \<noteq> None"

lemma config_types_differ [simp]:
  "ConfigTypePipeline \<noteq> ConfigTypeInstance" "ConfigTypePipeline \<noteq> ConfigTypeOnetime"
  "ConfigTypeInstance \<noteq> ConfigTypeOnetime" "ConfigTypeInstance \<noteq> ConfigTypePipeline"
  "ConfigTypeOnetime \<noteq> ConfigTypePipeline" "ConfigTypeOnetime \<noteq> ConfigTypeInstance"
  by (simp_all add: ConfigTypePipeline_def ConfigTypeInstance_def ConfigTypeOnetime_def)

context gorm_api
begin

lemma existing_ok:
  assumes T: "named_table p C K nm" and "existing G p nm names d = (Inr found, d')"
  shows "tabs d' = tabs d \<and> set found = {n \<in> set names. row_at p (K n) (tabs d) \<noteq> None}"
proof (cases "names = []")
  case True
  with assms(2) show ?thesis by (simp add: existing_def)
next
  case False
  have p: "projects p C" "\<And>x. key_of (C x) = K (nm x)" "inj K"
    using T by (simp_all add: named_table_def)
  from False assms(2) obtain rows where
    f: "find_as G p (\<lambda>c. nm c \<in> set names) d = (Inr rows, d')" "found = map nm rows"
    by (auto simp: existing_def bindr_Inr)
  have "row_at p (K n) (tabs d) \<noteq> None \<longleftrightarrow> (\<exists>x. has (tabs d) (C x) \<and> nm x = n)" for n
    using p by (auto simp: row_at_tabs [OF p(1)] inj_eq)
  with find_as_ok [OF p(1) f(1)] show ?thesis by (auto simp: f(2))
qed

lemma GetGroupConfigs_ok:
  assumes "GetGroupConfigs G g d = (Inr ms, d')"
  shows "tabs d' = tabs d \<and> distinct ms \<and>
    set ms = {m. has (tabs d) (RMapping m) \<and> mp_group m = g \<and> config_exists (tabs d) m}"
proof -
  obtain all d1 where a: "find_as G as_mapping (\<lambda>m. mp_group m = g) d = (Inr all, d1)"
      "(if all = [] then retr all
        else bindr (existing G as_pipeline cf_name (names_of_type ConfigTypePipeline all)) (\<lambda>pipes.
          bindr (existing G as_instance cf_name (names_of_type ConfigTypeInstance all)) (\<lambda>insts.
          bindr (existing G as_onetime oc_name (names_of_type ConfigTypeOnetime all)) (\<lambda>onetimes.
            retr (filter (keep_mapping pipes insts onetimes) all))))) d1 = (Inr ms, d')"
    using assms by (auto simp: GetGroupConfigs_def bindr_Inr)
  note all = find_as_ok [OF projects_table(6) a(1)]
  show ?thesis
  proof (cases "all = []")
    case True
    with a all show ?thesis by auto
  next
    case False
    with a(2) obtain ps xs os d2 d3 where
      e: "existing G as_pipeline cf_name (names_of_type ConfigTypePipeline all) d1 = (Inr ps, d2)"
      "existing G as_instance cf_name (names_of_type ConfigTypeInstance all) d2 = (Inr xs, d3)"
      "existing G as_onetime oc_name (names_of_type ConfigTypeOnetime all) d3 = (Inr os, d')"
      "ms = filter (keep_mapping ps xs os) all"
      by (auto simp: bindr_Inr)
    note ok = existing_ok [OF named_tables(1) e(1)] existing_ok [OF named_tables(2) e(2)]
      existing_ok [OF named_tables(3) e(3)]
    have "keep_mapping ps xs os m \<longleftrightarrow> config_exists (tabs d) m" if "m \<in> set all" for m
      using ok all that by (auto simp: keep_mapping_def config_exists_def names_of_type_def)
    with all ok e(4) show ?thesis by auto
  qed
qed

lemma sorted_as_ok:
  assumes "projects p C" and "sorted_as G p Q f None 0 d = (Inr xs, d')"
  shows "tabs d' = tabs d \<and> distinct xs \<and> sorted_wrt (\<lambda>a b. f a \<ge> f b) xs \<and>
    (\<exists>all. distinct all \<and> set all = {x. has (tabs d) (C x)} \<and>
      set xs = {x. has (tabs d) (C x) \<and> Q all x})"
proof -
  let ?f = "\<lambda>r. case p r of None \<Rightarrow> 0 | Some x \<Rightarrow> f x"
  obtain y where g: "G (FindSorted (\<lambda>all. on p (Q (List.map_filter p all))) ?f None 0) d = (Inr y, d')"
    using assms(2) by (auto simp: sorted_as_def split: prod.splits sum.splits db_result.splits)
  from succeeded [OF g] obtain all rows where s: "tabs d' = tabs d" "listing all (tabs d)" "distinct rows"
      "set rows = {r \<in> ran (tabs d). on p (Q (List.map_filter p all)) r}"
      "sorted_wrt (\<lambda>a b. ?f a \<ge> ?f b) rows" "y = Rows rows"
    by auto
  let ?all = "List.map_filter p all"
  have xs: "xs = List.map_filter p rows"
    using assms(2) g s(6) by (simp add: sorted_as_def)
  have all: "distinct ?all" "set ?all = {x. has (tabs d) (C x)}"
    using s(2) map_filter_set [OF assms(1), of all] map_filter_distinct [OF assms(1), of all]
    by (auto simp: listing_def has_ran)
  have rows: "\<forall>r \<in> set rows. \<exists>x. r = C x"
    using s(4) by (auto simp: on_iff [OF assms(1)])
  then have "rows = map C xs"
    unfolding xs using assms(1) by (induction rows) (auto simp: List.map_filter_simps)
  then have "sorted_wrt (\<lambda>a b. f a \<ge> f b) xs"
    using s(5) assms(1) by (simp add: sorted_wrt_map)
  moreover have "set xs = {x. has (tabs d) (C x) \<and> Q ?all x}"
    using s(4) map_filter_set [OF assms(1), of rows]
    by (auto simp: xs on_iff [OF assms(1)] has_ran projects_inj [OF assms(1)])
  ultimately show ?thesis
    using s(1,3) all map_filter_distinct [OF assms(1), of rows] xs by blast
qed

end

text \<open>
  The configurations listed for a group are exactly its mappings whose configuration still
  exists in the table of its type; mappings of an unknown type are dropped.
\<close>

theorem GetGroupConfigs_existing:
  assumes "gorm_api G tabs" and "GetGroupConfigs G g d = (Inr ms, d')"
  shows "tabs d' = tabs d \<and> distinct ms \<and>
    set ms = {m. has (tabs d) (RMapping m) \<and> mp_group m = g \<and> config_exists (tabs d) m}"
  by (rule gorm_api.GetGroupConfigs_ok [OF assms])

theorem GetGroupConfigs_existing_witness:
  "\<exists>ms d'. GetGroupConfigs mem_gorm ''web'' sample_db = (Inr ms, d') \<and>
     set ms = {m. has (mem_tabs sample_db) (RMapping m) \<and> mp_group m = ''web'' \<and>
       config_exists (mem_tabs sample_db) m} \<and> ms \<noteq> []"
proof -
  let ?ms = "[\<lparr>mp_group = ''web'', mp_config = ''p1'', mp_type = ''pipeline''\<rparr>]"
  have "fst (GetGroupConfigs mem_gorm ''web'' sample_db) = Inr ?ms" by code_simp
  then obtain d' where r: "GetGroupConfigs mem_gorm ''web'' sample_db = (Inr ?ms, d')"
    by (cases "GetGroupConfigs mem_gorm ''web'' sample_db") simp
  from GetGroupConfigs_existing [OF mem.gorm_api_axioms r] r show ?thesis by blast
qed

context gorm_api
begin

lemma pipelines_contract:
  "config_table tabs pipeline_at (CreatePipelineConfig G) (GetPipelineConfig G)
     (UpdatePipelineConfig G) (DeletePipelineConfig G)"
  by (rule pipelines.config_table_axioms)

lemma instances_contract:
  "config_table tabs instance_at (CreateInstanceConfig G) (GetInstanceConfig G)
     (UpdateInstanceConfig G) (DeleteInstanceConfig G)"
  by (rule instances.config_table_axioms)

lemma stored_user: "stored (RUser x) r' \<Longrightarrow> \<exists>y. r' = RUser y \<and> us_role y = us_role x \<and>
    us_is_admin y = us_is_admin x \<and> us_password_hash y = us_password_hash x"
  by (cases r') (auto simp: stored_def User.defs elim: User.cases
    dest: arg_cong [where f = us_role] arg_cong [where f = us_is_admin] arg_cong [where f = us_password_hash])

lemma DeleteRole_ok:
  assumes "DeleteRole G name d = (Inr u, d')" and "name \<noteq> []"
  shows "\<not> has (tabs d') (RPerm p) \<or> rp_role p \<noteq> name"
    "\<not> has (tabs d') (RRole r) \<or> ro_name r \<noteq> name"
    "rel_option (\<lambda>x y. us_role y = (if us_role x = name then [] else us_role x) \<and>
       us_is_admin y = us_is_admin x \<and> us_password_hash y = us_password_hash x)
     (row_at as_user (KUser n) (tabs d)) (row_at as_user (KUser n) (tabs d'))"
proof -
  let ?P = "on as_user (\<lambda>u. us_role u = name)" and ?f = "setting as_user RUser (\<lambda>u. u\<lparr>us_role := []\<rparr>)"
  let ?perm = "on as_perm (\<lambda>p. rp_role p = name)" and ?role = "on as_role (\<lambda>r. ro_name r = name)"
  obtain t1 where t: "change_rows ?P ?f (tabs d) t1" "tabs d' = drop_rows ?role (drop_rows ?perm t1)"
    using exec_writes [of "[Update ?P ?f, Delete ?perm, Delete ?role]" d u d'] assms(1)
    by (auto simp: DeleteRole_def)
  show "\<not> has (tabs d') (RPerm p) \<or> rp_role p \<noteq> name" "\<not> has (tabs d') (RRole r) \<or> ro_name r \<noteq> name"
    by (auto simp: t(2) has_drop on_iff [OF projects_table(14)] on_iff [OF projects_table(13)])
  have same: "row_at as_user k (tabs d') = row_at as_user k t1" for k
    by (simp add: t(2) row_at_drop_other [OF projects_table(12) projects_table(14)]
        row_at_drop_other [OF projects_table(12) projects_table(13)])
  note look = update_rows_look [where k = "KUser n" and R = "\<lambda>x y. us_role y = us_role x \<and>
      us_is_admin y = us_is_admin x \<and> us_password_hash y = us_password_hash x",
      OF projects_table(12) t(1) stored_user, simplified]
  show "rel_option (\<lambda>x y. us_role y = (if us_role x = name then [] else us_role x) \<and>
       us_is_admin y = us_is_admin x \<and> us_password_hash y = us_password_hash x)
     (row_at as_user (KUser n) (tabs d)) (row_at as_user (KUser n) (tabs d'))"
    unfolding same using look by (cases "row_at as_user (KUser n) (tabs d)") auto
qed

end

text \<open>
  Reads see writes. In the pipeline table, a read after a successful create or update of a
  name returns the version and detail just written; after a successful delete it finds
  nothing; and an update of one name leaves every other as it was.
\<close>

theorem pipeline_reads_see_writes:
  assumes "gorm_api G tabs"
  shows "(CreatePipelineConfig G c d = (Inr u, d1) \<longrightarrow> GetPipelineConfig G (cf_name c) d1 = (Inr c', d2) \<longrightarrow>
      same_config c c') \<and>
    (UpdatePipelineConfig G now c d = (Inr u, d1) \<longrightarrow> GetPipelineConfig G (cf_name c) d1 = (Inr c', d2) \<longrightarrow>
      same_config c c') \<and>
    (UpdatePipelineConfig G now c d = (Inr u, d1) \<longrightarrow> n \<noteq> cf_name c \<longrightarrow>
      GetPipelineConfig G n d1 = (Inr c', d2) \<longrightarrow> pipeline_at (tabs d) n = Some c') \<and>
    (DeletePipelineConfig G n d = (Inr u, d1) \<longrightarrow> GetPipelineConfig G n d1 \<noteq> (Inr c', d2))"
proof -
  note laws = config_table.get_after_create config_table.get_after_update
    config_table.update_keeps_others config_table.get_after_delete
  note T = gorm_api.pipelines_contract [OF assms]
  show ?thesis
    by (intro conjI impI)
      ((erule (1) laws(1) [OF T] laws(2) [OF T] | erule (2) laws(3) [OF T] | erule laws(4) [OF T])+)
qed

theorem pipeline_reads_see_writes_witness:
  "\<exists>d1 c' d2. UpdatePipelineConfig mem_gorm 5
       \<lparr>cf_name = ''p1'', cf_version = 8, cf_detail = ''x'', cf_created = 0, cf_updated = 0\<rparr> sample_db = (Inr (), d1) \<and>
     GetPipelineConfig mem_gorm ''p1'' d1 = (Inr c', d2) \<and> cf_version c' = 8 \<and> cf_detail c' = ''x''"
proof -
  let ?c = "\<lparr>cf_name = ''p1'', cf_version = 8, cf_detail = ''x'', cf_created = 0, cf_updated = 0\<rparr>"
  let ?up = "UpdatePipelineConfig mem_gorm 5 ?c sample_db"
  have "fst ?up = Inr ()" "\<exists>c'. fst (GetPipelineConfig mem_gorm ''p1'' (snd ?up)) = Inr c'"
    by (code_simp, rule exI, code_simp)
  then obtain d1 c' d2 where r: "?up = (Inr (), d1)" "GetPipelineConfig mem_gorm (cf_name ?c) d1 = (Inr c', d2)"
    by (cases ?up, cases "GetPipelineConfig mem_gorm ''p1'' (snd ?up)") auto
  from pipeline_reads_see_writes [OF mem.gorm_api_axioms] r have "same_config ?c c'" by blast
  with r show ?thesis by (auto simp: same_config_def)
qed

text \<open>
  Deleting a role leaves nothing that refers to it: no user has it, no permission row is
  left, the role is gone; and every user stays, with only the role name cleared where it was
  the deleted one.
\<close>

theorem deleted_role_unreferenced:
  assumes "gorm_api G tabs" and "DeleteRole G name d = (Inr u, d')" and "name \<noteq> []"
  shows "(\<forall>x. has (tabs d') (RUser x) \<longrightarrow> us_role x \<noteq> name) \<and>
    (\<forall>p. has (tabs d') (RPerm p) \<longrightarrow> rp_role p \<noteq> name) \<and>
    (\<forall>r. has (tabs d') (RRole r) \<longrightarrow> ro_name r \<noteq> name) \<and>
    (\<forall>n x. row_at as_user (KUser n) (tabs d) = Some x \<longrightarrow>
      (\<exists>x'. row_at as_user (KUser n) (tabs d') = Some x' \<and>
        us_role x' = (if us_role x = name then [] else us_role x) \<and>
        us_is_admin x' = us_is_admin x \<and> us_password_hash x' = us_password_hash x))"
proof -
  note ok = gorm_api.DeleteRole_ok [OF assms]
  have "\<exists>x'. row_at as_user (KUser n) (tabs d') = Some x' \<and>
      us_role x' = (if us_role x = name then [] else us_role x) \<and>
      us_is_admin x' = us_is_admin x \<and> us_password_hash x' = us_password_hash x"
    if "row_at as_user (KUser n) (tabs d) = Some x" for n x
    using ok(3) [of n] unfolding that by (auto simp: option_rel_Some1)
  moreover have "us_role x' \<noteq> name" if "has (tabs d') (RUser x')" for x'
  proof -
    have at_k: "row_at as_user (KUser (us_name x')) (tabs d') = Some x'"
      using that by (simp add: gorm_api.row_at_tabs [OF assms(1) projects_table(12)])
    from ok(3) [of "us_name x'"] show ?thesis
      unfolding at_k using assms(3) by (auto simp: option_rel_Some2 split: if_splits)
  qed
  ultimately show ?thesis using ok(1,2) by blast
qed

definition role_db :: memdb where
  "role_db = \<lparr>mem_rows =
     [RUser \<lparr>us_name = ''u'', us_password_hash = ''h'', us_is_admin = False, us_role = ''dev'',
        us_email = '''', us_totp_secret = '''', us_totp_enabled = False, us_updated = 1\<rparr>,
      RRole \<lparr>ro_name = ''dev'', ro_description = '''', ro_updated = 1\<rparr>,
      RPerm \<lparr>rp_role = ''dev'', rp_resource = ''agents'', rp_create = False, rp_read = True,
        rp_update = False, rp_delete = False\<rparr>], mem_faults = []\<rparr>"

theorem deleted_role_unreferenced_witness:
  "\<exists>d'. DeleteRole mem_gorm ''dev'' role_db = (Inr (), d') \<and>
     (\<exists>x. row_at as_user (KUser ''u'') (mem_tabs d') = Some x \<and> us_role x = [] \<and> us_password_hash x = ''h'')"
proof -
  have "fst (DeleteRole mem_gorm ''dev'' role_db) = Inr ()" by code_simp
  then obtain d' where r: "DeleteRole mem_gorm ''dev'' role_db = (Inr (), d')"
    by (cases "DeleteRole mem_gorm ''dev'' role_db") simp
  have "\<exists>x. row_at as_user (KUser ''u'') (mem_tabs role_db) = Some x \<and> us_role x = ''dev'' \<and>
      us_password_hash x = ''h''"
    by (simp add: row_at_def mem_tabs_def role_db_def)
  with deleted_role_unreferenced [OF mem.gorm_api_axioms r] r show ?thesis by fastforce
qed

subsection \<open>The list of deleted configurations\<close>

lemma foldr_max_ge: "x \<in> set xs \<Longrightarrow> f x \<le> foldr (\<lambda>y n. max (f y) n) xs (0 :: nat)"
  by (induction xs) auto

lemma foldr_max_in:
  "xs \<noteq> [] \<Longrightarrow> \<exists>x \<in> set xs. foldr (\<lambda>y n. max (f y) n) xs (0 :: nat) = f x"
proof (induction xs)
  case (Cons x xs)
  then show ?case by (cases "xs = []") (auto simp: max_def)
qed simp

definition delete_entry :: "tables \<Rightarrow> string \<Rightarrow> ConfigHistory \<Rightarrow> bool" where
  "delete_entry t rt h \<longleftrightarrow> has t (RHistory h) \<and> ch_resource_type h = rt \<and> ch_action h = ''delete''"

lemma max_delete_ids_iff:
  assumes "set hs = {h. has t (RHistory h)}" and "has t (RHistory h)"
  shows "ch_id h \<in> set (max_delete_ids rt hs) \<longleftrightarrow>
    delete_entry t rt h \<and>
    (\<forall>h'. delete_entry t rt h' \<longrightarrow> ch_resource_name h' = ch_resource_name h \<longrightarrow> ch_id h' \<le> ch_id h)"
proof -
  let ?dels = "filter (\<lambda>h. ch_resource_type h = rt \<and> ch_action h = ''delete'') hs"
  let ?of = "\<lambda>n. filter (\<lambda>h. ch_resource_name h = n) ?dels"
  let ?max = "\<lambda>n. foldr (\<lambda>h i. max (ch_id h) i) (?of n) 0"
  have dels: "set ?dels = {h. delete_entry t rt h}"
    using assms(1) by (auto simp: delete_entry_def)
  have ids: "set (max_delete_ids rt hs) = {?max (ch_resource_name x) | x. delete_entry t rt x}"
    using dels by (auto simp: max_delete_ids_def Let_def)
  have uniq: "ch_id x = ch_id h \<Longrightarrow> has t (RHistory x) \<Longrightarrow> x = h" for x
    using assms(2) by (simp add: has_def)
  show ?thesis
  proof
    assume "ch_id h \<in> set (max_delete_ids rt hs)"
    then obtain x where x: "delete_entry t rt x" "ch_id h = ?max (ch_resource_name x)"
      using ids by auto
    then have "?of (ch_resource_name x) \<noteq> []"
      using dels by (auto simp: filter_empty_conv)
    from foldr_max_in [OF this, of ch_id] obtain y where
      y: "y \<in> set (?of (ch_resource_name x))" "ch_id y = ch_id h"
      using x(2) by auto
    then have "y = h" using uniq dels by (auto simp: delete_entry_def)
    with y dels have "delete_entry t rt h" "ch_resource_name h = ch_resource_name x" by auto
    moreover have "ch_id h' \<le> ch_id h"
      if "delete_entry t rt h'" "ch_resource_name h' = ch_resource_name h" for h'
      using foldr_max_ge [of h' "?of (ch_resource_name x)" ch_id] that dels calculation(2) x(2) by auto
    ultimately show "delete_entry t rt h \<and>
      (\<forall>h'. delete_entry t rt h' \<longrightarrow> ch_resource_name h' = ch_resource_name h \<longrightarrow> ch_id h' \<le> ch_id h)"
      by blast
  next
    assume h: "delete_entry t rt h \<and>
      (\<forall>h'. delete_entry t rt h' \<longrightarrow> ch_resource_name h' = ch_resource_name h \<longrightarrow> ch_id h' \<le> ch_id h)"
    then have mem: "h \<in> set (?of (ch_resource_name h))" using dels by auto
    then have "?of (ch_resource_name h) \<noteq> []" by (metis empty_iff empty_set)
    from foldr_max_in [OF this, of ch_id] obtain y where
      y: "y \<in> set (?of (ch_resource_name h))" "?max (ch_resource_name h) = ch_id y" by blast
    then have "ch_id y \<le> ch_id h" using h dels by auto
    moreover have "ch_id h \<le> ch_id y" using foldr_max_ge [OF mem, of ch_id] y(2) by simp
    ultimately have "ch_id h = ?max (ch_resource_name h)" using y(2) by simp
    with h ids show "ch_id h \<in> set (max_delete_ids rt hs)" by blast
  qed
qed

text \<open>
  The list of deleted configurations of a type holds, for every resource name with a
  delete entry in the history, exactly its latest one (the greatest id), newest first.
\<close>

theorem ListDeletedConfigs_latest:
  assumes "gorm_api G tabs" and "ListDeletedConfigs G rt d = (Inr hs, d')"
  shows "tabs d' = tabs d \<and> distinct hs \<and> sorted_wrt (\<lambda>a b. ch_changed_at a \<ge> ch_changed_at b) hs \<and>
    set hs = {h. delete_entry (tabs d) rt h \<and>
      (\<forall>h'. delete_entry (tabs d) rt h' \<longrightarrow> ch_resource_name h' = ch_resource_name h \<longrightarrow> ch_id h' \<le> ch_id h)}"
proof -
  from gorm_api.sorted_as_ok [OF assms(1) projects_table(9) assms(2) [unfolded ListDeletedConfigs_def]]
  obtain all where o: "tabs d' = tabs d" "distinct hs"
      "sorted_wrt (\<lambda>a b. ch_changed_at a \<ge> ch_changed_at b) hs"
      "set all = {x. has (tabs d) (RHistory x)}"
      "set hs = {x. has (tabs d) (RHistory x) \<and> ch_id x \<in> set (max_delete_ids rt all)}"
    by blast
  have "set hs = {h. delete_entry (tabs d) rt h \<and>
      (\<forall>h'. delete_entry (tabs d) rt h' \<longrightarrow> ch_resource_name h' = ch_resource_name h \<longrightarrow> ch_id h' \<le> ch_id h)}"
    unfolding o(5) using max_delete_ids_iff [OF o(4)] by (auto simp: delete_entry_def)
  with o show ?thesis by blast
qed

definition history_db :: memdb where
  "history_db = \<lparr>mem_rows = map (\<lambda>(i, a, at). RHistory \<lparr>ch_id = i, ch_resource_type = ''pipeline'',
     ch_resource_name = ''p'', ch_version = 1, ch_action = a, ch_detail = [], ch_changed_by = ''u'',
     ch_changed_at = at\<rparr>)
     [(1, ''delete'', 10), (2, ''create'', 20), (3, ''delete'', 30)], mem_faults = []\<rparr>"

theorem ListDeletedConfigs_latest_witness:
  "\<exists>hs d'. ListDeletedConfigs mem_gorm ''pipeline'' history_db = (Inr hs, d') \<and> map ch_id hs = [3] \<and>
     (\<forall>h \<in> set hs. delete_entry (mem_tabs history_db) ''pipeline'' h)"
proof -
  let ?h = "\<lparr>ch_id = 3, ch_resource_type = ''pipeline'', ch_resource_name = ''p'', ch_version = 1,
    ch_action = ''delete'', ch_detail = [], ch_changed_by = ''u'', ch_changed_at = 30\<rparr>"
  have l: "live (mem_rows history_db) = mem_rows history_db" "mem_faults history_db = []"
    by (simp_all add: history_db_def)
  have m: "max_delete_ids ''pipeline'' (List.map_filter as_history (mem_rows history_db)) = [3]"
    by (simp add: history_db_def List.map_filter_simps max_delete_ids_def)
  have "filter (on as_history (\<lambda>h. ch_id h \<in> set [3])) (mem_rows history_db) = [RHistory ?h]"
    by (simp add: history_db_def on_def)
  then have "fst (ListDeletedConfigs mem_gorm ''pipeline'' history_db) = Inr [?h]"
    by (simp only: ListDeletedConfigs_def sorted_as_def mem_gorm_def l list.case mem_run.simps Let_def m)
      (simp add: List.map_filter_simps)
  then have "map_sum id (map ch_id) (fst (ListDeletedConfigs mem_gorm ''pipeline'' history_db)) = Inr [3]"
    by simp
  then obtain hs d' where r: "ListDeletedConfigs mem_gorm ''pipeline'' history_db = (Inr hs, d')" "map ch_id hs = [3]"
    by (cases "ListDeletedConfigs mem_gorm ''pipeline'' history_db"; cases "fst (ListDeletedConfigs mem_gorm ''pipeline'' history_db)") auto
  have "\<forall>h \<in> set hs. delete_entry (mem_tabs history_db) ''pipeline'' h"
    unfolding conjunct2 [OF conjunct2 [OF conjunct2 [OF ListDeletedConfigs_latest [OF mem.gorm_api_axioms r(1)]]]]
    by simp
  with r show ?thesis by (intro exI [of _ hs] exI [of _ d']) simp
qed

end
