(* ===== verification/Cache_Api.thy ===== *)
theory Cache_Api
  imports Store_Laws "HOL-Library.AList"
begin

section \<open>The caches' interfaces (coocood/freecache and redis/go-redis)\<close>

text \<open>
  The manager keeps bytes in two \<open>freecache.Cache\<close> values and, in distributed mode, in Redis.
  Both are libraries outside the program: their operations are parameters, gathered with
  the database in the record \<open>services\<close>, and what is relied on is the locale
  \<open>freecache_api\<close>: a hit returns the entry under the key; an entry may disappear at any time
  (eviction, expiry), but never comes back by itself; \<open>Set\<close> adds at most the new entry, and
  may fail (an entry too large), leaving the old one.

  The bytes are \<open>json.Marshal\<close> of a struct. A \<open>blob\<close> says which struct; decoding a blob into
  another struct goes by the names of the fields, as \<open>encoding/json\<close> does. \<open>JRaw\<close> is text
  that no struct here accepts. Decoding into the same struct gives it back: for strings this is
  UTF-8 only, since \<open>json.Marshal\<close> would replace the bytes of a string that are not (contents are
  \<open>[]byte\<close>, which it encodes in base64).
\<close>

subsection \<open>Encoded values\<close>

record agentConfigSet =
  set_pipeline :: "string list"
  set_instance :: "string list"
  set_onetime :: "string list"

datatype blob =
    JConfig config_row
  | JOnetime OnetimeCommand
  | JAgent Agent
  | JStatus AgentConfigStatus
  | JSet agentConfigSet
  | JCanaries "CanaryRelease list"
  | JRaw string

definition zero_config :: config_row where
  "zero_config = \<lparr>cf_name = [], cf_version = 0, cf_detail = [], cf_created = time_zero, cf_updated = time_zero\<rparr>"

fun decode_config :: "blob \<Rightarrow> config_row option" where
  "decode_config (JConfig c) = Some c"
| "decode_config (JOnetime o1) =
     Some \<lparr>cf_name = oc_name o1, cf_version = oc_version o1, cf_detail = oc_detail o1,
       cf_created = oc_created o1, cf_updated = time_zero\<rparr>"
| "decode_config (JSet _) = Some zero_config"
| "decode_config _ = None"

fun decode_onetime :: "blob \<Rightarrow> OnetimeCommand option" where
  "decode_onetime (JOnetime o1) = Some o1"
| "decode_onetime (JConfig c) =
     Some \<lparr>oc_name = cf_name c, oc_version = cf_version c, oc_detail = cf_detail c, oc_expire = 0,
       oc_created = cf_created c\<rparr>"
| "decode_onetime (JSet _) =
     Some \<lparr>oc_name = [], oc_version = 0, oc_detail = [], oc_expire = 0, oc_created = time_zero\<rparr>"
| "decode_onetime _ = None"

fun decode_set :: "blob \<Rightarrow> agentConfigSet option" where
  "decode_set (JSet s) = Some s"
| "decode_set (JCanaries _) = None"
| "decode_set (JRaw _) = None"
| "decode_set _ = Some \<lparr>set_pipeline = [], set_instance = [], set_onetime = []\<rparr>"

fun decode_canaries :: "blob \<Rightarrow> CanaryRelease list option" where
  "decode_canaries (JCanaries cs) = Some cs"
| "decode_canaries _ = None"

fun decode_agent :: "blob \<Rightarrow> Agent option" where
  "decode_agent (JAgent a) = Some a"
| "decode_agent _ = None"

fun decode_status :: "blob \<Rightarrow> AgentConfigStatus option" where
  "decode_status (JStatus s) = Some s"
| "decode_status _ = None"

text \<open>The \<open>Version\<close> member of an encoded value, as the Lua script reads it.\<close>

fun blob_version :: "blob \<Rightarrow> int option" where
  "blob_version (JConfig c) = Some (cf_version c)"
| "blob_version (JOnetime o1) = Some (oc_version o1)"
| "blob_version _ = None"

subsection \<open>Redis\<close>

text \<open>
  The commands the manager issues. \<open>REval k f\<close> runs a script that reads the key \<open>k\<close> and
  acts on it, atomically: \<open>f\<close> is the meaning of the script (\<open>Put\<close> is SET with EX, \<open>Renew\<close> is
  PEXPIRE, \<open>Drop\<close> is DEL), and its integer reply says whether it did anything.
  \<open>RScan\<close> is a full iteration of SCAN over all masters. A missing key is an error
  (\<open>redis.Nil\<close>), as in go-redis.
\<close>

datatype script_act = Keep | Put blob int | Renew int | Drop

datatype redis_cmd =
    RGet string
  | RSet string blob int
  | RDel string
  | RExpire string int
  | RPublish string string
  | REval string "blob option \<Rightarrow> script_act"
  | RSetNX string blob int
  | RHSet string string blob
  | RHExpire string int string
  | RHGetAll string
  | RScan string
  | RExec "redis_cmd list"

datatype redis_reply =
    ReplyBlob blob
  | ReplyFields "(string \<times> blob) list"
  | ReplyKeys "string list"
  | ReplyBool bool
  | ReplyInt int
  | ReplyOK

type_synonym 'r redis = "redis_cmd \<Rightarrow> 'r \<Rightarrow> (err + redis_reply) \<times> 'r"

subsection \<open>The services\<close>

record ('d, 'f, 'r) services =
  gorm :: "'d gorm"
  fc_get :: "string \<Rightarrow> 'f \<Rightarrow> blob option \<times> 'f"
  fc_set :: "string \<Rightarrow> blob \<Rightarrow> int \<Rightarrow> 'f \<Rightarrow> 'f"
  fc_del :: "string \<Rightarrow> 'f \<Rightarrow> 'f"
  fc_clear :: "'f \<Rightarrow> 'f"
  redis :: "'r redis"

lemma map_leD: "m \<subseteq>\<^sub>m m' \<Longrightarrow> m k = Some v \<Longrightarrow> m' k = Some v"
  by (metis domI map_le_def)

locale freecache_api =
  fixes get :: "string \<Rightarrow> 'f \<Rightarrow> blob option \<times> 'f"
    and set :: "string \<Rightarrow> blob \<Rightarrow> int \<Rightarrow> 'f \<Rightarrow> 'f"
    and del :: "string \<Rightarrow> 'f \<Rightarrow> 'f"
    and clear :: "'f \<Rightarrow> 'f"
    and view :: "'f \<Rightarrow> string \<rightharpoonup> blob"
  assumes get_hit: "get k f = (Some v, f') \<Longrightarrow> view f k = Some v"
    and get_keeps: "get k f = (r, f') \<Longrightarrow> view f' \<subseteq>\<^sub>m view f"
    and set_view: "view (set k v ttl f) j = Some w \<Longrightarrow> (j = k \<and> w = v) \<or> view f j = Some w"
    and del_drops: "view (del k f) \<subseteq>\<^sub>m (view f)(k := None)"
    and clear_drops: "view (clear f) = Map.empty"
begin

lemma get_view: "get k f = (r, f') \<Longrightarrow> view f' j = Some v \<Longrightarrow> view f j = Some v"
  by (rule map_leD [OF get_keeps])

lemma del_view: "view (del k f) j = Some w \<Longrightarrow> j \<noteq> k \<and> view f j = Some w"
  using map_leD [OF del_drops [of k f], of j w] by (simp split: if_splits)

end

text \<open>A cache in memory that never evicts, for witnesses.\<close>

type_synonym memcache = "(string \<times> blob) list"

definition mem_get :: "string \<Rightarrow> memcache \<Rightarrow> blob option \<times> memcache" where
  "mem_get k f = (map_of f k, f)"

definition mem_set :: "string \<Rightarrow> blob \<Rightarrow> int \<Rightarrow> memcache \<Rightarrow> memcache" where
  "mem_set k v ttl f = AList.update k v f"

definition mem_del :: "string \<Rightarrow> memcache \<Rightarrow> memcache" where
  "mem_del k f = AList.delete k f"

definition mem_clear :: "memcache \<Rightarrow> memcache" where
  "mem_clear f = []"

interpretation memc: freecache_api mem_get mem_set mem_del mem_clear map_of
  by unfold_locales
    (auto simp: mem_get_def mem_set_def mem_del_def mem_clear_def update_conv' delete_conv' split: if_splits)

definition mem_services :: "(memdb, memcache, unit) services" where
  "mem_services = \<lparr>gorm = mem_gorm, fc_get = mem_get, fc_set = mem_set, fc_del = mem_del,
     fc_clear = mem_clear, redis = (\<lambda>c r. (Inl (ErrDriver ''redis: nil''), r))\<rparr>"

text \<open>What the manager relies on: the database and the cache, seen through \<open>tabs\<close> and \<open>view\<close>.\<close>

definition services_ok :: "('d, 'f, 'r) services \<Rightarrow> ('d \<Rightarrow> tables) \<Rightarrow> ('f \<Rightarrow> string \<rightharpoonup> blob) \<Rightarrow> bool" where
  "services_ok X tabs view \<longleftrightarrow>
     gorm_api (gorm X) tabs \<and> freecache_api (fc_get X) (fc_set X) (fc_del X) (fc_clear X) view"

lemma mem_services_ok: "services_ok mem_services mem_tabs map_of"
  using mem.gorm_api_axioms memc.freecache_api_axioms by (simp add: services_ok_def mem_services_def)

end
