(* ===== verification/Cache_Manager.thy ===== *)
theory Cache_Manager
  imports Cache_Api "HOL-Library.Log_Nat"
begin

section \<open>The cache manager (internal/cache/manager.go)\<close>

text \<open>
  \<open>Manager\<close> sits between the handlers and the store: it caches single configurations (L1 in
  memory, L2 in Redis), the configuration names resolved for an agent, and the rolling
  canaries; it also holds the registry of live agents and their statuses. Each method is
  one definition, by its Go name with the suffix \<open>_m\<close> where the store has a method of that
  name. A method takes the services \<open>X\<close> it calls and the manager's state, and returns its
  result with the next state. The manager runs one method at a time here: the mutexes are
  taken as given, and \<open>singleflight\<close> is a plain call. \<open>log\<close> output is not modelled.

  A Go map is an association list, or a set where only membership counts. The order in which
  Go ranges over a map is unspecified: where it reaches a result, it is an argument \<open>ord\<close>,
  some permutation. \<open>strings.ToLower\<close> (a Unicode table) is an argument \<open>lower\<close>.
\<close>

subsection \<open>State\<close>

record ('d, 'f, 'r) mgr =
  m_db :: 'd
  m_l1 :: 'f
  m_rdb :: "'r option"
  m_l1TTL :: int
  m_l2TTL :: int
  m_hfe :: bool
  m_resolve :: 'f
  m_epoch :: "64 word"
  m_agents :: "(string \<times> Agent) list"
  m_lru :: "string list"
  m_idx :: "string set"
  m_statuses :: "(string \<times> AgentConfigStatus) list"

definition prefixPipeline :: string where "prefixPipeline = ''cfg:pipeline:''"
definition prefixInstance :: string where "prefixInstance = ''cfg:instance:''"
definition prefixOnetime :: string where "prefixOnetime = ''cfg:onetime:''"
definition prefixAgent :: string where "prefixAgent = ''agent:''"
definition prefixStatus :: string where "prefixStatus = ''agent_status:''"
definition pubSubChannel :: string where "pubSubChannel = ''configserver:invalidate''"
definition keyResolveCanaries :: string where "keyResolveCanaries = ''__canaries__''"
definition msgFlushResolve :: string where "msgFlushResolve = ''__flush_resolve__''"
definition resolveTTL :: int where "resolveTTL = 300"
definition resolveCanaryTTL :: int where "resolveCanaryTTL = 30"
definition agentRedisTTL :: int where "agentRedisTTL = 604800 * second"
definition agentHashSafetyTTL :: int where "agentHashSafetyTTL = agentRedisTTL * 2"
definition maxAgents :: nat where "maxAgents = 100000"
definition maxStatuses :: nat where "maxStatuses = maxAgents * 10"
definition agentTTL :: int where "agentTTL = 1800 * second"

text \<open>\<open>New\<close>: the services are there already; only their use starts here.\<close>

definition New :: "'d \<Rightarrow> 'f \<Rightarrow> 'f \<Rightarrow> 'r option \<Rightarrow> int \<Rightarrow> int \<Rightarrow> bool \<Rightarrow> ('d, 'f, 'r) mgr" where
  "New st l1 resolve rdb l1TTL l2TTL hfeEnabled =
     \<lparr>m_db = st, m_l1 = l1, m_rdb = rdb, m_l1TTL = l1TTL, m_l2TTL = l2TTL,
      m_hfe = (hfeEnabled \<and> (case rdb of None \<Rightarrow> False | Some _ \<Rightarrow> True)),
      m_resolve = resolve, m_epoch = 0, m_agents = [], m_lru = [], m_idx = {}, m_statuses = []\<rparr>"

subsection \<open>Calls to the services\<close>

definition on_db ::
  "('d \<Rightarrow> (err + 'a) \<times> 'd) \<Rightarrow> ('d, 'f, 'r) mgr \<Rightarrow> (err + 'a) \<times> ('d, 'f, 'r) mgr" where
  "on_db f m = (case f (m_db m) of (r, d') \<Rightarrow> (r, m\<lparr>m_db := d'\<rparr>))"

text \<open>A Redis command, for a manager that has a client; \<open>redis_do\<close> drops the reply.\<close>

definition on_redis ::
  "('d, 'f, 'r) services \<Rightarrow> redis_cmd \<Rightarrow> ('d, 'f, 'r) mgr \<Rightarrow> (err + redis_reply) \<times> ('d, 'f, 'r) mgr" where
  "on_redis X c m =
     (case m_rdb m of
        None \<Rightarrow> (Inl (ErrDriver ''no redis''), m)
      | Some r \<Rightarrow> (case redis X c r of (x, r') \<Rightarrow> (x, m\<lparr>m_rdb := Some r'\<rparr>)))"

definition redis_do ::
  "('d, 'f, 'r) services \<Rightarrow> redis_cmd \<Rightarrow> ('d, 'f, 'r) mgr \<Rightarrow> ('d, 'f, 'r) mgr" where
  "redis_do X c m = snd (on_redis X c m)"

definition l1Set ::
  "('d, 'f, 'r) services \<Rightarrow> string \<Rightarrow> blob \<Rightarrow> ('d, 'f, 'r) mgr \<Rightarrow> ('d, 'f, 'r) mgr" where
  "l1Set X key raw m =
     (let ttlSec = m_l1TTL m div second
      in m\<lparr>m_l1 := fc_set X key raw (if ttlSec \<le> 0 then 300 else ttlSec) (m_l1 m)\<rparr>)"

definition l1Del ::
  "('d, 'f, 'r) services \<Rightarrow> string \<Rightarrow> ('d, 'f, 'r) mgr \<Rightarrow> ('d, 'f, 'r) mgr" where
  "l1Del X key m = m\<lparr>m_l1 := fc_del X key (m_l1 m)\<rparr>"

text \<open>A lookup in L1, then (with Redis) in L2, which fills L1; undecodable data is a miss.\<close>

definition l1_lookup ::
  "('d, 'f, 'r) services \<Rightarrow> (blob \<Rightarrow> 'a option) \<Rightarrow> string \<Rightarrow> ('d, 'f, 'r) mgr \<Rightarrow>
   'a option \<times> ('d, 'f, 'r) mgr" where
  "l1_lookup X dec key m =
     (case fc_get X key (m_l1 m) of
        (raw, f') \<Rightarrow> (Option.bind raw dec, m\<lparr>m_l1 := f'\<rparr>))"

definition l2_lookup ::
  "('d, 'f, 'r) services \<Rightarrow> (blob \<Rightarrow> 'a option) \<Rightarrow> string \<Rightarrow> ('d, 'f, 'r) mgr \<Rightarrow>
   'a option \<times> ('d, 'f, 'r) mgr" where
  "l2_lookup X dec key m =
     (case on_redis X (RGet key) m of
        (Inr (ReplyBlob raw), m1) \<Rightarrow>
          (case dec raw of
             Some cfg \<Rightarrow> (Some cfg, l1Set X key raw m1)
           | None \<Rightarrow> (None, m1))
      | (_, m1) \<Rightarrow> (None, m1))"

definition tier_lookup ::
  "('d, 'f, 'r) services \<Rightarrow> (blob \<Rightarrow> 'a option) \<Rightarrow> string \<Rightarrow> ('d, 'f, 'r) mgr \<Rightarrow>
   'a option \<times> ('d, 'f, 'r) mgr" where
  "tier_lookup X dec key m =
     (case l1_lookup X dec key m of
        (Some cfg, m1) \<Rightarrow> (Some cfg, m1)
      | (None, m1) \<Rightarrow>
          (case m_rdb m1 of
             None \<Rightarrow> (None, m1)
           | Some _ \<Rightarrow> l2_lookup X dec key m1))"

subsection \<open>Filling the caches\<close>

text \<open>
  The Lua script compares versions as Lua numbers, IEEE doubles: integers beyond 53 bits are
  rounded to the nearest representable one, ties to even.
\<close>

definition as_double :: "int \<Rightarrow> int" where
  "as_double n =
     (if \<bar>n\<bar> < 2 ^ 53 then n
      else
        let k = nat (bitlen \<bar>n\<bar>) - 53;
            q = \<bar>n\<bar> div 2 ^ k;
            r = \<bar>n\<bar> mod 2 ^ k;
            up = 2 * r > 2 ^ k \<or> (2 * r = 2 ^ k \<and> odd q)
        in sgn n * (if up then q + 1 else q) * 2 ^ k)"

definition backfillScript :: "blob \<Rightarrow> int \<Rightarrow> int \<Rightarrow> blob option \<Rightarrow> script_act" where
  "backfillScript raw ttlSec version cur =
     (if as_double version \<le> 0 then Keep
      else
        (case Option.bind cur blob_version of
           Some v \<Rightarrow> if as_double v \<ge> as_double version then Keep else Put raw ttlSec
         | None \<Rightarrow> Put raw ttlSec))"

definition backfill ::
  "('d, 'f, 'r) services \<Rightarrow> string \<Rightarrow> blob \<Rightarrow> int \<Rightarrow> ('d, 'f, 'r) mgr \<Rightarrow> ('d, 'f, 'r) mgr" where
  "backfill X key raw version m =
     (let m1 = l1Set X key raw m
      in case m_rdb m1 of
           None \<Rightarrow> m1
         | Some _ \<Rightarrow> redis_do X (REval key (backfillScript raw (m_l2TTL m1 div second) version)) m1)"

subsection \<open>Reading one configuration\<close>

definition GetPipelineConfig_m ::
  "('d, 'f, 'r) services \<Rightarrow> string \<Rightarrow> ('d, 'f, 'r) mgr \<Rightarrow> (err + PipelineConfig) \<times> ('d, 'f, 'r) mgr" where
  "GetPipelineConfig_m X name m =
     (let key = prefixPipeline @ name
      in case tier_lookup X decode_config key m of
           (Some cfg, m1) \<Rightarrow> (Inr cfg, m1)
         | (None, m1) \<Rightarrow>
             (case on_db (GetPipelineConfig (gorm X) name) m1 of
                (Inl e, m2) \<Rightarrow> (Inl e, m2)
              | (Inr cfg, m2) \<Rightarrow> (Inr cfg, backfill X key (JConfig cfg) (cf_version cfg) m2)))"

definition GetInstanceConfig_m ::
  "('d, 'f, 'r) services \<Rightarrow> string \<Rightarrow> ('d, 'f, 'r) mgr \<Rightarrow> (err + InstanceConfig) \<times> ('d, 'f, 'r) mgr" where
  "GetInstanceConfig_m X name m =
     (let key = prefixInstance @ name
      in case tier_lookup X decode_config key m of
           (Some cfg, m1) \<Rightarrow> (Inr cfg, m1)
         | (None, m1) \<Rightarrow>
             (case on_db (GetInstanceConfig (gorm X) name) m1 of
                (Inl e, m2) \<Rightarrow> (Inl e, m2)
              | (Inr cfg, m2) \<Rightarrow> (Inr cfg, backfill X key (JConfig cfg) (cf_version cfg) m2)))"

definition onetimeCacheVersion :: "OnetimeCommand \<Rightarrow> int" where
  "onetimeCacheVersion cfg =
     (if oc_version cfg > 0 then oc_version cfg
      else if oc_created cfg \<noteq> time_zero then unix_nano (oc_created cfg)
      else 0)"

definition with_version :: "OnetimeCommand \<Rightarrow> OnetimeCommand" where
  "with_version cfg = (if oc_version cfg = 0 then cfg\<lparr>oc_version := onetimeCacheVersion cfg\<rparr> else cfg)"

definition GetOnetimeCommand_m ::
  "('d, 'f, 'r) services \<Rightarrow> string \<Rightarrow> ('d, 'f, 'r) mgr \<Rightarrow> (err + OnetimeCommand) \<times> ('d, 'f, 'r) mgr" where
  "GetOnetimeCommand_m X name m =
     (let key = prefixOnetime @ name
      in case tier_lookup X decode_onetime key m of
           (Some cmd, m1) \<Rightarrow> (Inr cmd, m1)
         | (None, m1) \<Rightarrow>
             (case on_db (GetOnetimeCommand (gorm X) name) m1 of
                (Inl e, m2) \<Rightarrow> (Inl e, m2)
              | (Inr cfg0, m2) \<Rightarrow>
                  let cfg = with_version cfg0
                  in (Inr cfg, backfill X key (JOnetime cfg) (onetimeCacheVersion cfg) m2)))"

subsection \<open>Invalidation\<close>

definition invalidate ::
  "('d, 'f, 'r) services \<Rightarrow> string \<Rightarrow> ('d, 'f, 'r) mgr \<Rightarrow> ('d, 'f, 'r) mgr" where
  "invalidate X key m =
     (let m1 = l1Del X key m
      in case m_rdb m1 of
           None \<Rightarrow> m1
         | Some _ \<Rightarrow>
             let m2 = (case on_redis X (RDel key) m1 of
                         (Inl e, m') \<Rightarrow> redis_do X (RExpire key (300 * second)) m'
                       | (Inr _, m') \<Rightarrow> m')
             in redis_do X (RPublish pubSubChannel key) m2)"

definition InvalidatePipelineConfig where
  "InvalidatePipelineConfig X name = invalidate X (prefixPipeline @ name)"

definition InvalidateInstanceConfig where
  "InvalidateInstanceConfig X name = invalidate X (prefixInstance @ name)"

definition bump_resolve ::
  "('d, 'f, 'r) services \<Rightarrow> ('d, 'f, 'r) mgr \<Rightarrow> ('d, 'f, 'r) mgr" where
  "bump_resolve X m = m\<lparr>m_epoch := m_epoch m + 1, m_resolve := fc_del X keyResolveCanaries (m_resolve m)\<rparr>"

definition invalidateResolveCache ::
  "('d, 'f, 'r) services \<Rightarrow> ('d, 'f, 'r) mgr \<Rightarrow> ('d, 'f, 'r) mgr" where
  "invalidateResolveCache X m =
     (let m1 = bump_resolve X m
      in case m_rdb m1 of
           None \<Rightarrow> m1
         | Some _ \<Rightarrow> redis_do X (RPublish pubSubChannel msgFlushResolve) m1)"

text \<open>
  One turn of the loop of \<open>subscribeInvalidations\<close>: what \<open>ReceiveMessage\<close> returned, an error
  (the connection was lost, messages may be missing) or a message.
\<close>

fun subscribeInvalidations_step ::
  "('d, 'f, 'r) services \<Rightarrow> err + string \<Rightarrow> ('d, 'f, 'r) mgr \<Rightarrow> ('d, 'f, 'r) mgr" where
  "subscribeInvalidations_step X (Inl e) m = bump_resolve X (m\<lparr>m_l1 := fc_clear X (m_l1 m)\<rparr>)"
| "subscribeInvalidations_step X (Inr payload) m =
     (if payload = msgFlushResolve then bump_resolve X m else l1Del X payload m)"

subsection \<open>Resolution of an agent's configurations\<close>

text \<open>The key: the epoch and a hash of what group membership depends on, 8 bytes each.\<close>

fun le_bytes :: "nat \<Rightarrow> nat \<Rightarrow> string" where
  "le_bytes 0 n = []"
| "le_bytes (Suc k) n = char_of n # le_bytes k (n div 256)"

definition le64 :: "64 word \<Rightarrow> string" where
  "le64 w = le_bytes 8 (unat w)"

definition tag_strings :: "AgentMatchContext \<Rightarrow> string list" where
  "tag_strings match = sort (map (\<lambda>t. tag_name t @ ''='' @ tag_value t) (mc_tags match))"

definition match_bytes :: "AgentMatchContext \<Rightarrow> string" where
  "match_bytes match =
     mc_ip match @ [CHR 0x00]
     @ (if mc_hostid match \<noteq> [] then mc_hostid match else mc_hostname match) @ [CHR 0x00]
     @ mc_version match @ [CHR 0x00]
     @ concat (map (\<lambda>t. t @ [CHR 0x00]) (tag_strings match))"

definition resolveAgentKey :: "AgentMatchContext \<Rightarrow> ('d, 'f, 'r) mgr \<Rightarrow> string" where
  "resolveAgentKey match m = le64 (m_epoch m) @ le64 (fnv64a (match_bytes match))"

definition resolve_get ::
  "('d, 'f, 'r) services \<Rightarrow> (blob \<Rightarrow> 'a option) \<Rightarrow> string \<Rightarrow> ('d, 'f, 'r) mgr \<Rightarrow>
   'a option \<times> ('d, 'f, 'r) mgr" where
  "resolve_get X dec key m =
     (case fc_get X key (m_resolve m) of
        (raw, f') \<Rightarrow> (Option.bind raw dec, m\<lparr>m_resolve := f'\<rparr>))"

definition resolve_set ::
  "('d, 'f, 'r) services \<Rightarrow> string \<Rightarrow> blob \<Rightarrow> int \<Rightarrow> ('d, 'f, 'r) mgr \<Rightarrow> ('d, 'f, 'r) mgr" where
  "resolve_set X key raw ttl m = m\<lparr>m_resolve := fc_set X key raw ttl (m_resolve m)\<rparr>"

definition getActiveCanaries ::
  "('d, 'f, 'r) services \<Rightarrow> ('d, 'f, 'r) mgr \<Rightarrow> (err + CanaryRelease list) \<times> ('d, 'f, 'r) mgr" where
  "getActiveCanaries X m =
     (case resolve_get X decode_canaries keyResolveCanaries m of
        (Some crs, m1) \<Rightarrow> (Inr crs, m1)
      | (None, m1) \<Rightarrow>
          (case on_db (ListCanaries (gorm X)) m1 of
             (Inl e, m2) \<Rightarrow> (Inl e, m2)
           | (Inr all, m2) \<Rightarrow>
               let active = filter (\<lambda>cr. cr_status cr = CanaryStatusRolling) all
               in (Inr active, resolve_set X keyResolveCanaries (JCanaries active) resolveCanaryTTL m2)))"

text \<open>
  \<open>hydrateAgentConfigSet\<close>: the names of one type in turn, each fetched by \<open>get\<close>; a name that
  no longer exists is skipped; the configuration found is given its canary version if the
  agent is eligible (an error in the targeting is only logged).
\<close>

definition canary_version :: "(string \<rightharpoonup> CanaryRelease) \<Rightarrow> string \<Rightarrow> AgentMatchContext \<Rightarrow> string \<Rightarrow> config_row \<Rightarrow> config_row" where
  "canary_version crs ct match name cfg =
     (case crs (canary_key name ct) of
        None \<Rightarrow> cfg
      | Some cr \<Rightarrow>
          (case CanaryEligible cr match name of
             Inl cerr \<Rightarrow> cfg
           | Inr eligible \<Rightarrow> if eligible then overlaid cr cfg else cfg))"

fun hydrate ::
  "(string \<Rightarrow> 's \<Rightarrow> (err + 'a) \<times> 's) \<Rightarrow> (string \<Rightarrow> 'a \<Rightarrow> 'a) \<Rightarrow> string list \<Rightarrow> 's \<Rightarrow> (err + 'a list) \<times> 's" where
  "hydrate get adapt [] m = (Inr [], m)"
| "hydrate get adapt (name # names) m =
     (case get name m of
        (Inl e, m1) \<Rightarrow> if is_not_found e then hydrate get adapt names m1 else (Inl e, m1)
      | (Inr cfg, m1) \<Rightarrow>
          (case hydrate get adapt names m1 of
             (Inl e, m2) \<Rightarrow> (Inl e, m2)
           | (Inr cfgs, m2) \<Rightarrow> (Inr (adapt name cfg # cfgs), m2)))"

definition hydrateAgentConfigSet ::
  "('d, 'f, 'r) services \<Rightarrow> agentConfigSet \<Rightarrow> AgentMatchContext \<Rightarrow> ('d, 'f, 'r) mgr \<Rightarrow>
   (err + agent_configs) \<times> ('d, 'f, 'r) mgr" where
  "hydrateAgentConfigSet X aset match =
     bindr (getActiveCanaries X) (\<lambda>canaries.
     let crs = crMap canaries
     in bindr (hydrate (GetPipelineConfig_m X) (canary_version crs ConfigTypePipeline match)
                (set_pipeline aset)) (\<lambda>pipes.
        bindr (hydrate (GetInstanceConfig_m X) (canary_version crs ConfigTypeInstance match)
                (set_instance aset)) (\<lambda>insts.
        bindr (hydrate (GetOnetimeCommand_m X) (\<lambda>_ cmd. cmd) (set_onetime aset)) (\<lambda>onetimes.
          retr (pipes, insts, onetimes)))))"

definition names_of :: "agent_configs \<Rightarrow> agentConfigSet" where
  "names_of cfgs = (case cfgs of (pipes, insts, onetimes) \<Rightarrow>
     \<lparr>set_pipeline = map cf_name pipes, set_instance = map cf_name insts,
      set_onetime = map oc_name onetimes\<rparr>)"

definition GetConfigsForAgent_m ::
  "('d, 'f, 'r) services \<Rightarrow> AgentMatchContext \<Rightarrow> ('d, 'f, 'r) mgr \<Rightarrow>
   (err + agent_configs) \<times> ('d, 'f, 'r) mgr" where
  "GetConfigsForAgent_m X match m =
     (let key = resolveAgentKey match m
      in case resolve_get X decode_set key m of
           (Some aset, m1) \<Rightarrow> hydrateAgentConfigSet X aset match m1
         | (None, m1) \<Rightarrow>
             (case on_db (GetConfigsForAgent (gorm X) match) m1 of
                (Inl e, m2) \<Rightarrow> (Inl e, m2)
              | (Inr cfgs, m2) \<Rightarrow>
                  hydrateAgentConfigSet X (names_of cfgs) match
                    (resolve_set X key (JSet (names_of cfgs)) resolveTTL m2)))"

subsection \<open>The store's methods through the manager\<close>

text \<open>\<open>and_then\<close>: a write to the store and, if it succeeded, the invalidation that goes with it.\<close>

definition and_then ::
  "('d \<Rightarrow> (err + unit) \<times> 'd) \<Rightarrow> (('d, 'f, 'r) mgr \<Rightarrow> ('d, 'f, 'r) mgr) \<Rightarrow>
   ('d, 'f, 'r) mgr \<Rightarrow> (err + unit) \<times> ('d, 'f, 'r) mgr" where
  "and_then w after m =
     (case on_db w m of
        (Inl e, m1) \<Rightarrow> (Inl e, m1)
      | (Inr _, m1) \<Rightarrow> (Inr (), after m1))"

type_synonym ('d, 'f, 'r) mwrite = "('d, 'f, 'r) mgr \<Rightarrow> (err + unit) \<times> ('d, 'f, 'r) mgr"

definition CreateGroup_m :: "('d, 'f, 'r) services \<Rightarrow> AgentGroup \<Rightarrow> ('d, 'f, 'r) mwrite" where
  "CreateGroup_m X g = and_then (CreateGroup (gorm X) g) (invalidateResolveCache X)"

definition GetGroup_m where "GetGroup_m X name = on_db (GetGroup (gorm X) name)"
definition ListGroups_m where "ListGroups_m X = on_db (ListGroups (gorm X))"

definition UpdateGroup_m :: "('d, 'f, 'r) services \<Rightarrow> AgentGroup \<Rightarrow> ('d, 'f, 'r) mwrite" where
  "UpdateGroup_m X g = and_then (UpdateGroup (gorm X) g) (invalidateResolveCache X)"

definition DeleteGroup_m :: "('d, 'f, 'r) services \<Rightarrow> string \<Rightarrow> ('d, 'f, 'r) mwrite" where
  "DeleteGroup_m X name = and_then (DeleteGroup (gorm X) name) (invalidateResolveCache X)"

definition SetGroupTags_m :: "('d, 'f, 'r) services \<Rightarrow> string \<Rightarrow> AgentGroupTag list \<Rightarrow> ('d, 'f, 'r) mwrite" where
  "SetGroupTags_m X groupName tags =
     and_then (SetGroupTags (gorm X) groupName tags) (invalidateResolveCache X)"

definition GetGroupTags_m where "GetGroupTags_m X groupName = on_db (GetGroupTags (gorm X) groupName)"

definition AddGroupConfig_m :: "('d, 'f, 'r) services \<Rightarrow> GroupConfigMapping \<Rightarrow> ('d, 'f, 'r) mwrite" where
  "AddGroupConfig_m X mapping = and_then (AddGroupConfig (gorm X) mapping) (invalidateResolveCache X)"

definition RemoveGroupConfig_m ::
  "('d, 'f, 'r) services \<Rightarrow> string \<Rightarrow> string \<Rightarrow> string \<Rightarrow> ('d, 'f, 'r) mwrite" where
  "RemoveGroupConfig_m X groupName configName configType =
     and_then (RemoveGroupConfig (gorm X) groupName configName configType) (invalidateResolveCache X)"

definition GetGroupConfigs_m where
  "GetGroupConfigs_m X groupName = on_db (GetGroupConfigs (gorm X) groupName)"

definition CreatePipelineConfig_m :: "('d, 'f, 'r) services \<Rightarrow> PipelineConfig \<Rightarrow> ('d, 'f, 'r) mwrite" where
  "CreatePipelineConfig_m X cfg =
     and_then (CreatePipelineConfig (gorm X) cfg) (InvalidatePipelineConfig X (cf_name cfg))"

definition ListPipelineConfigs_m where "ListPipelineConfigs_m X = on_db (ListPipelineConfigs (gorm X))"

definition UpdatePipelineConfig_m ::
  "('d, 'f, 'r) services \<Rightarrow> time \<Rightarrow> PipelineConfig \<Rightarrow> ('d, 'f, 'r) mwrite" where
  "UpdatePipelineConfig_m X now cfg =
     and_then (UpdatePipelineConfig (gorm X) now cfg) (InvalidatePipelineConfig X (cf_name cfg))"

definition DeletePipelineConfig_m :: "('d, 'f, 'r) services \<Rightarrow> string \<Rightarrow> ('d, 'f, 'r) mwrite" where
  "DeletePipelineConfig_m X name =
     and_then (DeletePipelineConfig (gorm X) name)
       (\<lambda>m. invalidateResolveCache X (InvalidatePipelineConfig X name m))"

definition CreateInstanceConfig_m :: "('d, 'f, 'r) services \<Rightarrow> InstanceConfig \<Rightarrow> ('d, 'f, 'r) mwrite" where
  "CreateInstanceConfig_m X cfg =
     and_then (CreateInstanceConfig (gorm X) cfg) (InvalidateInstanceConfig X (cf_name cfg))"

definition ListInstanceConfigs_m where "ListInstanceConfigs_m X = on_db (ListInstanceConfigs (gorm X))"

definition UpdateInstanceConfig_m ::
  "('d, 'f, 'r) services \<Rightarrow> time \<Rightarrow> InstanceConfig \<Rightarrow> ('d, 'f, 'r) mwrite" where
  "UpdateInstanceConfig_m X now cfg =
     and_then (UpdateInstanceConfig (gorm X) now cfg) (InvalidateInstanceConfig X (cf_name cfg))"

definition DeleteInstanceConfig_m :: "('d, 'f, 'r) services \<Rightarrow> string \<Rightarrow> ('d, 'f, 'r) mwrite" where
  "DeleteInstanceConfig_m X name =
     and_then (DeleteInstanceConfig (gorm X) name)
       (\<lambda>m. invalidateResolveCache X (InvalidateInstanceConfig X name m))"

definition CreateOnetimeCommand_m ::
  "('d, 'f, 'r) services \<Rightarrow> time \<Rightarrow> OnetimeCommand \<Rightarrow> ('d, 'f, 'r) mwrite" where
  "CreateOnetimeCommand_m X now cmd0 =
     (let cmd = (if oc_version cmd0 = 0 then cmd0\<lparr>oc_version := unix_milli now\<rparr> else cmd0)
      in and_then (CreateOnetimeCommand (gorm X) cmd)
           (\<lambda>m. invalidateResolveCache X (invalidate X (prefixOnetime @ oc_name cmd) m)))"

definition ListOnetimeCommands_m where "ListOnetimeCommands_m X = on_db (ListOnetimeCommands (gorm X))"

definition DeleteOnetimeCommand_m :: "('d, 'f, 'r) services \<Rightarrow> string \<Rightarrow> ('d, 'f, 'r) mwrite" where
  "DeleteOnetimeCommand_m X name =
     and_then (DeleteOnetimeCommand (gorm X) name)
       (\<lambda>m. invalidateResolveCache X (invalidate X (prefixOnetime @ name) m))"

definition CreateCanary_m :: "('d, 'f, 'r) services \<Rightarrow> CanaryRelease \<Rightarrow> ('d, 'f, 'r) mwrite" where
  "CreateCanary_m X cr = and_then (CreateCanary (gorm X) cr) (invalidateResolveCache X)"

definition GetCanary_m where
  "GetCanary_m X configName configType = on_db (GetCanary (gorm X) configName configType)"
definition ListCanaries_m where "ListCanaries_m X = on_db (ListCanaries (gorm X))"

definition UpdateCanary_m :: "('d, 'f, 'r) services \<Rightarrow> CanaryRelease \<Rightarrow> ('d, 'f, 'r) mwrite" where
  "UpdateCanary_m X cr = and_then (UpdateCanary (gorm X) cr) (invalidateResolveCache X)"

definition DeleteCanary_m :: "('d, 'f, 'r) services \<Rightarrow> string \<Rightarrow> string \<Rightarrow> ('d, 'f, 'r) mwrite" where
  "DeleteCanary_m X configName configType =
     and_then (DeleteCanary (gorm X) configName configType) (invalidateResolveCache X)"

text \<open>Users, roles, history and the audit log are not cached.\<close>

definition GetUser_m where "GetUser_m X username = on_db (GetUser (gorm X) username)"
definition ListUsers_m where "ListUsers_m X = on_db (ListUsers (gorm X))"
definition CreateUser_m where "CreateUser_m X user = on_db (CreateUser (gorm X) user)"
definition UpdateUser_m where "UpdateUser_m X user = on_db (UpdateUser (gorm X) user)"
definition DeleteUser_m where "DeleteUser_m X username = on_db (DeleteUser (gorm X) username)"
definition AdminExists_m where "AdminExists_m X = on_db (AdminExists (gorm X))"
definition GetRole_m where "GetRole_m X name = on_db (GetRole (gorm X) name)"
definition ListRoles_m where "ListRoles_m X = on_db (ListRoles (gorm X))"
definition CreateRole_m where "CreateRole_m X role = on_db (CreateRole (gorm X) role)"
definition UpdateRole_m where "UpdateRole_m X role = on_db (UpdateRole (gorm X) role)"
definition DeleteRole_m where "DeleteRole_m X name = on_db (DeleteRole (gorm X) name)"
definition GetRolePermissions_m where
  "GetRolePermissions_m X roleName = on_db (GetRolePermissions (gorm X) roleName)"
definition SetRolePermissions_m where
  "SetRolePermissions_m X roleName perms = on_db (SetRolePermissions (gorm X) roleName perms)"
definition SaveConfigHistory_m where "SaveConfigHistory_m X h = on_db (SaveConfigHistory (gorm X) h)"
definition ListConfigHistory_m where
  "ListConfigHistory_m X resourceType resourceName = on_db (ListConfigHistory (gorm X) resourceType resourceName)"
definition ListDeletedConfigs_m where
  "ListDeletedConfigs_m X resourceType = on_db (ListDeletedConfigs (gorm X) resourceType)"
definition GetConfigHistoryByID_m where "GetConfigHistoryByID_m X i = on_db (GetConfigHistoryByID (gorm X) i)"
definition CreateAuditLog_m where "CreateAuditLog_m X entry = on_db (CreateAuditLog (gorm X) entry)"
definition ListAuditLogs_m where "ListAuditLogs_m X limit offset = on_db (ListAuditLogs (gorm X) limit offset)"

end
