(* ===== verification/Agent_Registry.thy ===== *)
theory Agent_Registry
  imports Cache_Manager Json
begin

section \<open>The registry of agents and the reconciler (internal/cache/manager.go)\<close>

text \<open>
  The other half of \<open>Manager\<close>: agents and their configuration statuses, kept in memory (never
  in the database) and mirrored to Redis in distributed mode; listing with filters and pages;
  and the job that removes stale entries from Redis. \<open>m_lru\<close> is the linked list of instance
  ids, newest first, \<open>m_idx\<close> the keys of its index.
\<close>

subsection \<open>Agents\<close>

definition agentStatusKey :: "string \<Rightarrow> string \<Rightarrow> string \<Rightarrow> string" where
  "agentStatusKey instanceID configName configType = instanceID @ '':'' @ configName @ '':'' @ configType"

definition agentHashKey :: "string \<Rightarrow> string" where
  "agentHashKey instanceID = prefixStatus @ instanceID"

definition agentHashField :: "string \<Rightarrow> string \<Rightarrow> string" where
  "agentHashField configName configType = configName @ '':'' @ configType"

definition purge_statuses :: "string \<Rightarrow> ('d, 'f, 'r) mgr \<Rightarrow> ('d, 'f, 'r) mgr" where
  "purge_statuses p m = m\<lparr>m_statuses := filter (\<lambda>(k, _). \<not> has_prefix k p) (m_statuses m)\<rparr>"

definition evictOldestAgentLocked :: "('d, 'f, 'r) mgr \<Rightarrow> ('d, 'f, 'r) mgr" where
  "evictOldestAgentLocked m =
     (if m_lru m = [] then m
      else
        let i = last (m_lru m);
            m1 = m\<lparr>m_lru := butlast (m_lru m), m_idx := m_idx m - {i}\<rparr>
        in case map_of (m_agents m1) i of
             None \<Rightarrow> m1
           | Some a \<Rightarrow> purge_statuses (i @ [CHR 0x00]) (m1\<lparr>m_agents := AList.delete i (m_agents m1)\<rparr>))"

definition register :: "Agent \<Rightarrow> ('d, 'f, 'r) mgr \<Rightarrow> ('d, 'f, 'r) mgr" where
  "register agent m =
     (let i = a_instance agent
      in if i \<in> m_idx m then
           m\<lparr>m_agents := AList.update i agent (m_agents m), m_lru := i # remove1 i (m_lru m)\<rparr>
         else
           let m1 = (if length (m_agents m) \<ge> maxAgents then evictOldestAgentLocked m else m)
           in m1\<lparr>m_agents := AList.update i agent (m_agents m1), m_lru := i # m_lru m1,
                m_idx := insert i (m_idx m1)\<rparr>)"

definition UpsertAgent_m ::
  "('d, 'f, 'r) services \<Rightarrow> Agent \<Rightarrow> ('d, 'f, 'r) mgr \<Rightarrow> (err + unit) \<times> ('d, 'f, 'r) mgr" where
  "UpsertAgent_m X agent m =
     (let m1 = register agent m
      in case m_rdb m1 of
           None \<Rightarrow> (Inr (), m1)
         | Some _ \<Rightarrow>
             (Inr (), redis_do X (RSet (prefixAgent @ a_instance agent) (JAgent agent) agentRedisTTL) m1))"

text \<open>
  \<open>evictStaleAgents\<close>: the agents last seen before the cutoff leave the map and the list, then
  their statuses go, then their two Redis keys.
\<close>

definition is_stale :: "time \<Rightarrow> Agent \<Rightarrow> bool" where
  "is_stale now a \<longleftrightarrow> a_last_heartbeat a < now - agentTTL"

fun drop_agents :: "string list \<Rightarrow> ('d, 'f, 'r) mgr \<Rightarrow> ('d, 'f, 'r) mgr" where
  "drop_agents [] m = m"
| "drop_agents (i # ids) m =
     (let m1 = m\<lparr>m_agents := AList.delete i (m_agents m)\<rparr>
      in drop_agents ids
           (if i \<in> m_idx m1 then m1\<lparr>m_lru := remove1 i (m_lru m1), m_idx := m_idx m1 - {i}\<rparr> else m1))"

fun purge_all :: "string list \<Rightarrow> ('d, 'f, 'r) mgr \<Rightarrow> ('d, 'f, 'r) mgr" where
  "purge_all [] m = m"
| "purge_all (i # ids) m = purge_all ids (purge_statuses (i @ '':'') m)"

fun redis_drop_agents ::
  "('d, 'f, 'r) services \<Rightarrow> string list \<Rightarrow> ('d, 'f, 'r) mgr \<Rightarrow> ('d, 'f, 'r) mgr" where
  "redis_drop_agents X [] m = m"
| "redis_drop_agents X (i # ids) m =
     redis_drop_agents X ids
       (redis_do X (RDel (agentHashKey i)) (redis_do X (RDel (prefixAgent @ i)) m))"

definition evictStaleAgents ::
  "('d, 'f, 'r) services \<Rightarrow> time \<Rightarrow> ('d, 'f, 'r) mgr \<Rightarrow> ('d, 'f, 'r) mgr" where
  "evictStaleAgents X now m =
     (let stale = map fst (filter (\<lambda>(_, a). is_stale now a) (m_agents m));
          m1 = drop_agents stale m
      in if stale = [] then m1
         else
           let m2 = purge_all stale m1
           in case m_rdb m2 of
                None \<Rightarrow> m2
              | Some _ \<Rightarrow> redis_drop_agents X stale m2)"

definition GetAgent_m ::
  "('d, 'f, 'r) services \<Rightarrow> string \<Rightarrow> ('d, 'f, 'r) mgr \<Rightarrow> (err + Agent) \<times> ('d, 'f, 'r) mgr" where
  "GetAgent_m X instanceID m =
     (case map_of (m_agents m) instanceID of
        Some a \<Rightarrow> (Inr a, m)
      | None \<Rightarrow>
          (case m_rdb m of
             None \<Rightarrow> (Inl ErrRecordNotFound, m)
           | Some _ \<Rightarrow>
               (case on_redis X (RGet (prefixAgent @ instanceID)) m of
                  (Inr (ReplyBlob raw), m1) \<Rightarrow>
                    (case decode_agent raw of
                       Some a \<Rightarrow> (Inr a, m1)
                     | None \<Rightarrow> (Inl ErrRecordNotFound, m1))
                | (_, m1) \<Rightarrow> (Inl ErrRecordNotFound, m1))))"

subsection \<open>Listing agents\<close>

text \<open>
  \<open>forEachMaster\<close> with a SCAN loop is one \<open>RScan\<close>; each key is then fetched, and skipped if it
  is gone or undecodable.
\<close>

fun fetch_agents ::
  "('d, 'f, 'r) services \<Rightarrow> string list \<Rightarrow> ('d, 'f, 'r) mgr \<Rightarrow> Agent list \<times> ('d, 'f, 'r) mgr" where
  "fetch_agents X [] m = ([], m)"
| "fetch_agents X (key # keys) m =
     (case on_redis X (RGet key) m of
        (Inr (ReplyBlob raw), m1) \<Rightarrow>
          (case fetch_agents X keys m1 of
             (as, m2) \<Rightarrow> ((case decode_agent raw of Some a \<Rightarrow> a # as | None \<Rightarrow> as), m2))
      | (_, m1) \<Rightarrow> fetch_agents X keys m1)"

definition listAgentsFromRedis ::
  "('d, 'f, 'r) services \<Rightarrow> ('d, 'f, 'r) mgr \<Rightarrow> (err + Agent list) \<times> ('d, 'f, 'r) mgr" where
  "listAgentsFromRedis X m =
     (case on_redis X (RScan (prefixAgent @ ''*'')) m of
        (Inl e, m1) \<Rightarrow> (Inl e, m1)
      | (Inr (ReplyKeys keys), m1) \<Rightarrow> (case fetch_agents X keys m1 of (as, m2) \<Rightarrow> (Inr as, m2))
      | (Inr _, m1) \<Rightarrow> (Inr [], m1))"

definition ListAgents_m ::
  "(Agent list \<Rightarrow> Agent list) \<Rightarrow> ('d, 'f, 'r) services \<Rightarrow> ('d, 'f, 'r) mgr \<Rightarrow>
   (err + Agent list) \<times> ('d, 'f, 'r) mgr" where
  "ListAgents_m ord X m =
     (case m_rdb m of
        Some _ \<Rightarrow> listAgentsFromRedis X m
      | None \<Rightarrow> (Inr (ord (map snd (m_agents m))), m))"

record agentTagEntry =
  te_name :: string
  te_value :: string

definition fill_tag_entry :: "(string \<times> json) list \<Rightarrow> agentTagEntry option" where
  "fill_tag_entry kvs =
     (case (fill_string [] (members ''name'' kvs), fill_string [] (members ''value'' kvs)) of
        (Some n, Some v) \<Rightarrow> Some \<lparr>te_name = n, te_value = v\<rparr>
      | _ \<Rightarrow> None)"

definition parse_tag_entries :: "string \<Rightarrow> agentTagEntry list option" where
  "parse_tag_entries tagsJSON =
     (if tagsJSON = [] then Some []
      else Option.bind (json_parse tagsJSON) (\<lambda>j. fill_list (fill_struct fill_tag_entry) [] [j]))"

text \<open>The Go map of the agent's tags: a later entry replaces an earlier one; a missing key is "".\<close>

definition agentTagSet :: "agentTagEntry list \<Rightarrow> string \<rightharpoonup> string" where
  "agentTagSet entries = foldl (\<lambda>tm e. tm(te_name e \<mapsto> te_value e)) Map.empty entries"

definition tag_lookup :: "(string \<rightharpoonup> string) \<Rightarrow> string \<Rightarrow> string" where
  "tag_lookup tm n = (case tm n of None \<Rightarrow> [] | Some v \<Rightarrow> v)"

fun any_group_tag :: "(string \<rightharpoonup> string) \<Rightarrow> AgentGroupTag list \<Rightarrow> bool" where
  "any_group_tag tm [] = False"
| "any_group_tag tm (gt # gts) =
     (if tag_lookup tm (tag_name gt) = tag_value gt then True else any_group_tag tm gts)"

definition agentMatchesGroup :: "Agent \<Rightarrow> AgentGroupTag list \<Rightarrow> bool" where
  "agentMatchesGroup agent groupTags =
     (if groupTags = [] then True
      else
        (case parse_tag_entries (a_tags_json agent) of
           None \<Rightarrow> False
         | Some entries \<Rightarrow> any_group_tag (agentTagSet entries) groupTags))"

definition agentMatchesSearch :: "(string \<Rightarrow> string) \<Rightarrow> Agent \<Rightarrow> string \<Rightarrow> bool" where
  "agentMatchesSearch lower agent search =
     (if search = [] then True
      else
        let s = lower search
        in contains (lower (a_instance agent)) s \<or> contains (lower (a_hostname agent)) s \<or>
           contains (lower (a_ip agent)) s \<or> contains (lower (a_version agent)) s \<or>
           contains (lower (a_type agent)) s)"

text \<open>
  \<open>sort.Slice\<close> by falling heartbeat. It is not stable: what it does with agents of equal
  heartbeat is open, and so is the order in which a request ranges over the map. \<open>ord\<close> is that
  choice for one request: the sort is the stable one of the list as \<open>ord\<close> permutes it, which
  gives every order of the ties. Another request has an \<open>ord\<close> of its own.
\<close>

definition sort_slice :: "(Agent list \<Rightarrow> Agent list) \<Rightarrow> Agent list \<Rightarrow> Agent list" where
  "sort_slice ord filtered = sort_key (\<lambda>a. - a_last_heartbeat a) (ord filtered)"

text \<open>
  The page of a list: \<open>None\<close> is the panic of a slice expression with a negative bound. \<open>page\<close>
  and \<open>pageSize\<close> are Go ints, and the product wraps.
\<close>

definition page_of :: "int \<Rightarrow> int \<Rightarrow> 'a list \<Rightarrow> ('a list \<times> int) option" where
  "page_of page pageSize filtered =
     (let total = int (length filtered);
          start = wrap64 (wrap64 (page - 1) * pageSize)
      in if start \<ge> total then Some ([], total)
         else
           let end0 = wrap64 (start + pageSize);
               end1 = (if end0 > total then total else end0)
           in if start < 0 \<or> end1 < start then None
              else Some (take (nat end1 - nat start) (drop (nat start) filtered), total))"

definition ListAgentsPaged_m ::
  "(string \<Rightarrow> string) \<Rightarrow> (Agent list \<Rightarrow> Agent list) \<Rightarrow> ('d, 'f, 'r) services \<Rightarrow>
   string \<Rightarrow> int \<Rightarrow> int \<Rightarrow> string \<Rightarrow> ('d, 'f, 'r) mgr \<Rightarrow>
   (err + (Agent list \<times> int) option) \<times> ('d, 'f, 'r) mgr" where
  "ListAgentsPaged_m lower ord X grp page pageSize search m =
     (case (if grp \<noteq> [] \<and> grp \<noteq> DefaultGroupName then GetGroupTags_m X grp m else (Inr [], m)) of
        (Inl e, m1) \<Rightarrow> if is_not_found e then (Inr (Some ([], 0)), m1) else (Inl e, m1)
      | (Inr groupTags, m1) \<Rightarrow>
          (case ListAgents_m ord X m1 of
             (Inl e, m2) \<Rightarrow> (Inl e, m2)
           | (Inr all, m2) \<Rightarrow>
               let filtered = filter (\<lambda>a. agentMatchesGroup a groupTags \<and> agentMatchesSearch lower a search) all
               in (Inr (page_of page pageSize (sort_slice ord filtered)), m2)))"

subsection \<open>Configuration statuses\<close>

definition put_status :: "AgentConfigStatus \<Rightarrow> ('d, 'f, 'r) mgr \<Rightarrow> ('d, 'f, 'r) mgr" where
  "put_status status m =
     (let key = agentStatusKey (st_instance status) (st_config status) (st_type status)
      in if key \<in> fst ` set (m_statuses m) \<or> length (m_statuses m) < maxStatuses
         then m\<lparr>m_statuses := AList.update key status (m_statuses m)\<rparr>
         else m)"

definition UpsertAgentConfigStatus_m ::
  "('d, 'f, 'r) services \<Rightarrow> time \<Rightarrow> AgentConfigStatus \<Rightarrow> ('d, 'f, 'r) mgr \<Rightarrow>
   (err + unit) \<times> ('d, 'f, 'r) mgr" where
  "UpsertAgentConfigStatus_m X now status0 m =
     (let status = status0\<lparr>st_updated := now\<rparr>;
          m1 = put_status status m
      in case m_rdb m1 of
           None \<Rightarrow> (Inr (), m1)
         | Some _ \<Rightarrow>
             let hashKey = agentHashKey (st_instance status);
                 field = agentHashField (st_config status) (st_type status)
             in if m_hfe m1
                then (Inr (), redis_do X (RExec [RHSet hashKey field (JStatus status),
                       RHExpire hashKey agentRedisTTL field, RExpire hashKey agentHashSafetyTTL]) m1)
                else (Inr (), redis_do X (RExec [RHSet hashKey field (JStatus status),
                       RExpire hashKey agentRedisTTL]) m1))"

definition decode_fields :: "(string \<times> blob) list \<Rightarrow> AgentConfigStatus list" where
  "decode_fields fs = List.map_filter (\<lambda>(_, raw). decode_status raw) fs"

definition GetAgentConfigStatuses_m ::
  "(AgentConfigStatus list \<Rightarrow> AgentConfigStatus list) \<Rightarrow> ('d, 'f, 'r) services \<Rightarrow> string \<Rightarrow>
   ('d, 'f, 'r) mgr \<Rightarrow> (err + AgentConfigStatus list) \<times> ('d, 'f, 'r) mgr" where
  "GetAgentConfigStatuses_m ord X instanceID m =
     (case m_rdb m of
        Some _ \<Rightarrow>
          (case on_redis X (RHGetAll (agentHashKey instanceID)) m of
             (Inl e, m1) \<Rightarrow> (Inl e, m1)
           | (Inr (ReplyFields fs), m1) \<Rightarrow> (Inr (ord (decode_fields fs)), m1)
           | (Inr _, m1) \<Rightarrow> (Inr [], m1))
      | None \<Rightarrow>
          (Inr (ord (map snd (filter (\<lambda>(k, _). has_prefix k (instanceID @ '':'')) (m_statuses m)))), m))"

fun fetch_statuses ::
  "('d, 'f, 'r) services \<Rightarrow> string list \<Rightarrow> ('d, 'f, 'r) mgr \<Rightarrow> AgentConfigStatus list \<times> ('d, 'f, 'r) mgr" where
  "fetch_statuses X [] m = ([], m)"
| "fetch_statuses X (key # keys) m =
     (case on_redis X (RHGetAll key) m of
        (Inr (ReplyFields fs), m1) \<Rightarrow>
          (case fetch_statuses X keys m1 of (ss, m2) \<Rightarrow> (decode_fields fs @ ss, m2))
      | (_, m1) \<Rightarrow> fetch_statuses X keys m1)"

definition ListAgentConfigStatuses_m ::
  "(AgentConfigStatus list \<Rightarrow> AgentConfigStatus list) \<Rightarrow> ('d, 'f, 'r) services \<Rightarrow>
   ('d, 'f, 'r) mgr \<Rightarrow> (err + AgentConfigStatus list) \<times> ('d, 'f, 'r) mgr" where
  "ListAgentConfigStatuses_m ord X m =
     (case m_rdb m of
        Some _ \<Rightarrow>
          (case on_redis X (RScan (prefixStatus @ ''*'')) m of
             (Inl e, m1) \<Rightarrow> (Inl e, m1)
           | (Inr (ReplyKeys keys), m1) \<Rightarrow> (case fetch_statuses X keys m1 of (ss, m2) \<Rightarrow> (Inr (ord ss), m2))
           | (Inr _, m1) \<Rightarrow> (Inr [], m1))
      | None \<Rightarrow> (Inr (ord (map snd (m_statuses m))), m))"


subsection \<open>The reconciler\<close>

text \<open>
  The job of one replica, every five minutes: with the lock taken, compare each entry of L2
  with the database by version, and drop the entries of configurations that are gone. While
  the job runs, a goroutine renews the lock; \<open>renew_lock\<close> is what it does at a tick: whether the
  lock is still held (if not, the job is cancelled). The ticks themselves are in \<open>Background\<close>.
\<close>

definition reconcile_entry ::
  "('d, 'f, 'r) services \<Rightarrow> (blob \<Rightarrow> 'a option) \<Rightarrow> ('a \<Rightarrow> int) \<Rightarrow> string \<Rightarrow> int \<Rightarrow>
   ('d, 'f, 'r) mgr \<Rightarrow> ('d, 'f, 'r) mgr" where
  "reconcile_entry X dec version_of key dbVersion m =
     (case on_redis X (RGet key) m of
        (Inr (ReplyBlob raw), m1) \<Rightarrow>
          (case dec raw of
             None \<Rightarrow> m1
           | Some cached \<Rightarrow> if version_of cached \<noteq> dbVersion then invalidate X key m1 else m1)
      | (_, m1) \<Rightarrow> m1)"

fun reconcile_entries ::
  "('d, 'f, 'r) services \<Rightarrow> (blob \<Rightarrow> 'a option) \<Rightarrow> ('a \<Rightarrow> int) \<Rightarrow> (string \<times> int) list \<Rightarrow>
   ('d, 'f, 'r) mgr \<Rightarrow> ('d, 'f, 'r) mgr" where
  "reconcile_entries X dec version_of [] m = m"
| "reconcile_entries X dec version_of ((key, v) # es) m =
     reconcile_entries X dec version_of es (reconcile_entry X dec version_of key v m)"

fun drop_deleted ::
  "('d, 'f, 'r) services \<Rightarrow> string \<Rightarrow> string list \<Rightarrow> string list \<Rightarrow> ('d, 'f, 'r) mgr \<Rightarrow> ('d, 'f, 'r) mgr" where
  "drop_deleted X p names [] m = m"
| "drop_deleted X p names (key # keys) m =
     drop_deleted X p names keys
       (if trim_prefix key p \<in> set names then m else invalidate X key m)"

definition cleanupDeletedConfigCacheKeys ::
  "('d, 'f, 'r) services \<Rightarrow> string \<Rightarrow> string list \<Rightarrow> ('d, 'f, 'r) mgr \<Rightarrow> ('d, 'f, 'r) mgr" where
  "cleanupDeletedConfigCacheKeys X p names m =
     (case on_redis X (RScan (p @ ''*'')) m of
        (Inr (ReplyKeys keys), m1) \<Rightarrow> drop_deleted X p names keys m1
      | (_, m1) \<Rightarrow> m1)"

definition listed :: "err + 'a list \<Rightarrow> 'a list" where
  "listed r = (case r of Inl _ \<Rightarrow> [] | Inr xs \<Rightarrow> xs)"

definition clean_if_listed where
  "clean_if_listed X r p name_of m =
     (case r of Inl _ \<Rightarrow> m | Inr xs \<Rightarrow> cleanupDeletedConfigCacheKeys X p (map name_of xs) m)"

definition reconcileCache ::
  "('d, 'f, 'r) services \<Rightarrow> time \<Rightarrow> ('d, 'f, 'r) mgr \<Rightarrow> ('d, 'f, 'r) mgr" where
  "reconcileCache X now m =
     (case on_db (ListPipelineConfigs (gorm X)) m of (ps, m1) \<Rightarrow>
     (case on_db (ListInstanceConfigs (gorm X)) m1 of (xs, m2) \<Rightarrow>
     (case on_db (BackfillOnetimeCommandVersions (gorm X) now) m2 of (_, m3) \<Rightarrow>
     (case on_db (ListOnetimeCommands (gorm X)) m3 of (os, m4) \<Rightarrow>
       let m5 = reconcile_entries X decode_config cf_version
                  (map (\<lambda>c. (prefixPipeline @ cf_name c, cf_version c)) (listed ps)) m4;
           m6 = reconcile_entries X decode_config cf_version
                  (map (\<lambda>c. (prefixInstance @ cf_name c, cf_version c)) (listed xs)) m5;
           m7 = reconcile_entries X decode_onetime onetimeCacheVersion
                  (map (\<lambda>c. (prefixOnetime @ oc_name c, onetimeCacheVersion c)) (listed os)) m6;
           m8 = clean_if_listed X ps prefixPipeline cf_name m7;
           m9 = clean_if_listed X xs prefixInstance cf_name m8
       in clean_if_listed X os prefixOnetime oc_name m9))))"

definition reconcileLockName :: string where "reconcileLockName = ''cfg:reconcile_lock''"
definition reconcileLockTTL :: int where "reconcileLockTTL = 600 * second"

definition acquireReconcileLock ::
  "('d, 'f, 'r) services \<Rightarrow> string \<Rightarrow> ('d, 'f, 'r) mgr \<Rightarrow> bool \<times> ('d, 'f, 'r) mgr" where
  "acquireReconcileLock X token m =
     (case on_redis X (RSetNX reconcileLockName (JRaw token) reconcileLockTTL) m of
        (Inr (ReplyBool acquired), m1) \<Rightarrow> (acquired, m1)
      | (_, m1) \<Rightarrow> (False, m1))"

definition reconcileLockReleaseScript :: "string \<Rightarrow> blob option \<Rightarrow> script_act" where
  "reconcileLockReleaseScript token cur = (if cur = Some (JRaw token) then Drop else Keep)"

definition reconcileLockRenewScript :: "string \<Rightarrow> int \<Rightarrow> blob option \<Rightarrow> script_act" where
  "reconcileLockRenewScript token ttlMillis cur =
     (if cur = Some (JRaw token) then Renew (ttlMillis * 1000000) else Keep)"

definition renew_lock ::
  "('d, 'f, 'r) services \<Rightarrow> string \<Rightarrow> ('d, 'f, 'r) mgr \<Rightarrow> bool \<times> ('d, 'f, 'r) mgr" where
  "renew_lock X token m =
     (let ttlMillis = reconcileLockTTL div 1000000
      in case on_redis X (REval reconcileLockName (reconcileLockRenewScript token ttlMillis)) m of
           (Inr (ReplyInt n), m1) \<Rightarrow> (n = 1, m1)
         | (_, m1) \<Rightarrow> (False, m1))"

definition release_lock ::
  "('d, 'f, 'r) services \<Rightarrow> string \<Rightarrow> ('d, 'f, 'r) mgr \<Rightarrow> ('d, 'f, 'r) mgr" where
  "release_lock X token m = redis_do X (REval reconcileLockName (reconcileLockReleaseScript token)) m"

definition runReconcileWithLock ::
  "('d, 'f, 'r) services \<Rightarrow> time \<Rightarrow> string \<Rightarrow> ('d, 'f, 'r) mgr \<Rightarrow> ('d, 'f, 'r) mgr" where
  "runReconcileWithLock X now token m = release_lock X token (reconcileCache X now m)"

definition reconcile_tick ::
  "('d, 'f, 'r) services \<Rightarrow> string \<Rightarrow> time \<Rightarrow> ('d, 'f, 'r) mgr \<Rightarrow> ('d, 'f, 'r) mgr" where
  "reconcile_tick X token now m =
     (case acquireReconcileLock X token m of
        (False, m1) \<Rightarrow> m1
      | (True, m1) \<Rightarrow> runReconcileWithLock X now token m1)"

end
