(* ===== verification/Agent_Handler.thy ===== *)
theory Agent_Handler
  imports Agent_Registry
begin

section \<open>The agent endpoints (internal/server/agent/handler.go)\<close>

text \<open>
  The three endpoints an agent calls: \<open>Heartbeat\<close> (report state, receive what to change),
  \<open>FetchConfig\<close> (fetch contents) and \<open>ReportStatus\<close>. The messages are records with the
  fields of \<open>agentV2.proto\<close> that the handlers read or set. The protobuf codec is generated
  code over a library: decoding and encoding are arguments of the handlers (encoding can
  fail, for strings that are not UTF-8). A request body is its bytes and whether reading fails
  after them. One clock reading \<open>now\<close> serves a whole request, and \<open>log\<close> is not modelled.

  Go ranges over the maps of names an agent reported in no particular order: the argument
  \<open>ord\<close> is the order, one permutation for each type of configuration.
\<close>

subsection \<open>Messages\<close>

record ProtoTag =
  pt_name :: string
  pt_value :: string

record ConfigInfo =
  ci_name :: string
  ci_version :: int
  ci_status :: int
  ci_message :: string

record AgentAttributes =
  at_version :: bytes
  at_ip :: bytes
  at_hostname :: bytes
  at_hostid :: bytes

record HeartbeatRequest =
  hb_request_id :: bytes
  hb_sequence_num :: nat
  hb_capabilities :: nat
  hb_instance_id :: bytes
  hb_agent_type :: string
  hb_attributes :: "AgentAttributes option"
  hb_tags :: "ProtoTag list"
  hb_running_status :: string
  hb_startup_time :: int
  hb_pipelines :: "ConfigInfo list"
  hb_instances :: "ConfigInfo list"
  hb_onetimes :: "ConfigInfo list"
  hb_flags :: "64 word"

record ConfigDetail =
  cd_name :: string
  cd_version :: int
  cd_detail :: bytes

record CommandDetail =
  cmd_name :: string
  cmd_detail :: bytes
  cmd_expire :: int

record CommonResponse =
  co_status :: int
  co_error :: bytes

record HeartbeatResponse =
  hr_request_id :: bytes
  hr_common :: CommonResponse
  hr_capabilities :: "64 word"
  hr_pipelines :: "ConfigDetail list"
  hr_instances :: "ConfigDetail list"
  hr_onetimes :: "CommandDetail list"
  hr_flags :: "64 word"

record FetchConfigRequest =
  fq_request_id :: bytes
  fq_instance_id :: bytes
  fq_pipelines :: "ConfigInfo list"
  fq_instances :: "ConfigInfo list"
  fq_onetimes :: "ConfigInfo list"

record FetchConfigResponse =
  fr_request_id :: bytes
  fr_common :: CommonResponse
  fr_pipelines :: "ConfigDetail list"
  fr_instances :: "ConfigDetail list"
  fr_onetimes :: "CommandDetail list"

record ReportStatusRequest =
  rq_request_id :: bytes
  rq_instance_id :: bytes
  rq_pipelines :: "ConfigInfo list"
  rq_instances :: "ConfigInfo list"
  rq_onetimes :: "ConfigInfo list"

record ReportStatusResponse =
  rr_request_id :: bytes
  rr_common :: CommonResponse

definition RequestFlags_FullState :: "64 word" where "RequestFlags_FullState = 1"
definition ResponseFlags_ReportFullState :: "64 word" where "ResponseFlags_ReportFullState = 1"
definition ResponseFlags_FetchContinuousPipelineConfigDetail :: "64 word" where
  "ResponseFlags_FetchContinuousPipelineConfigDetail = 2"
definition ResponseFlags_FetchInstanceConfigDetail :: "64 word" where
  "ResponseFlags_FetchInstanceConfigDetail = 4"

unbundle bit_operations_syntax

definition server_capabilities :: "64 word" where
  "server_capabilities = 1 OR 2 OR 4 OR 8"

definition maxInlineDetailBytes :: nat where
  "maxInlineDetailBytes = 256 * 1024"

subsection \<open>Reading and writing\<close>

text \<open>\<open>io.ReadAll(io.LimitReader(body, 4<<20))\<close>: a failure beyond the limit is never seen.\<close>

definition body_limit :: nat where "body_limit = 4 * 2 ^ 20"

definition read_body :: "bytes \<times> bool \<Rightarrow> bytes option" where
  "read_body b =
     (case b of (sent, fails) \<Rightarrow>
        if fails \<and> length sent < body_limit then None else Some (take body_limit sent))"

datatype http_reply =
    HttpError nat string
  | ProtoReply bytes

definition writeProtoResponse :: "('m \<Rightarrow> bytes option) \<Rightarrow> 'm \<Rightarrow> http_reply" where
  "writeProtoResponse enc msg =
     (case enc msg of
        None \<Rightarrow> HttpError 500 ''encode response''
      | Some raw \<Rightarrow> ProtoReply raw)"

definition ok_response :: CommonResponse where
  "ok_response = \<lparr>co_status = 0, co_error = []\<rparr>"

definition buildErrHBResp :: "bytes \<Rightarrow> int \<Rightarrow> string \<Rightarrow> HeartbeatResponse" where
  "buildErrHBResp reqID status msg =
     \<lparr>hr_request_id = reqID, hr_common = \<lparr>co_status = status, co_error = msg\<rparr>, hr_capabilities = 0,
      hr_pipelines = [], hr_instances = [], hr_onetimes = [], hr_flags = 0\<rparr>"

subsection \<open>What an agent reports\<close>

text \<open>\<open>json.Marshal\<close> of the generated struct: empty fields are omitted, no tags are \<open>null\<close>.\<close>

definition tag_json :: "ProtoTag \<Rightarrow> json" where
  "tag_json t =
     JObj ((if pt_name t = [] then [] else [(''name'', JStr (pt_name t))]) @
           (if pt_value t = [] then [] else [(''value'', JStr (pt_value t))]))"

definition tags_json :: "ProtoTag list \<Rightarrow> string" where
  "tags_json tags = json_print (if tags = [] then JNull else JArr (map tag_json tags))"

definition attr :: "(AgentAttributes \<Rightarrow> bytes) \<Rightarrow> HeartbeatRequest \<Rightarrow> string" where
  "attr f req = (case hb_attributes req of None \<Rightarrow> [] | Some a \<Rightarrow> f a)"

definition buildAgent :: "time \<Rightarrow> HeartbeatRequest \<Rightarrow> Agent" where
  "buildAgent now req =
     \<lparr>a_instance = hb_instance_id req, a_type = hb_agent_type req,
      a_ip = attr at_ip req, a_hostname = attr at_hostname req, a_hostid = attr at_hostid req,
      a_version = attr at_version req, a_attributes_json = [], a_tags_json = tags_json (hb_tags req),
      a_running_status = hb_running_status req, a_startup = hb_startup_time req,
      a_seq = hb_sequence_num req, a_capabilities = hb_capabilities req,
      a_last_heartbeat = now, a_created = time_zero, a_updated = time_zero\<rparr>"

definition protoTagsToModel :: "ProtoTag list \<Rightarrow> AgentGroupTag list" where
  "protoTagsToModel tags =
     map (\<lambda>t. \<lparr>tag_id = 0, tag_group = [], tag_name = pt_name t, tag_value = pt_value t\<rparr>) tags"

definition match_context :: "Agent \<Rightarrow> HeartbeatRequest \<Rightarrow> AgentMatchContext" where
  "match_context agent req =
     \<lparr>mc_instance = hb_instance_id req, mc_ip = a_ip agent, mc_hostid = a_hostid agent,
      mc_hostname = a_hostname agent, mc_version = a_version agent,
      mc_tags = protoTagsToModel (hb_tags req)\<rparr>"

text \<open>A Go map from names to versions, in the order of insertion: later infos override.\<close>

type_synonym info_index = "(string \<times> int) list"

definition indexConfigInfos :: "ConfigInfo list \<Rightarrow> info_index" where
  "indexConfigInfos cfgs = foldl (\<lambda>m c. AList.update (ci_name c) (ci_version c) m) [] cfgs"

definition info_status :: "string \<Rightarrow> string \<Rightarrow> ConfigInfo \<Rightarrow> AgentConfigStatus" where
  "info_status instanceID configType ci =
     \<lparr>st_instance = instanceID, st_config = ci_name ci, st_type = configType,
      st_status = ci_status ci, st_message = ci_message ci, st_updated = time_zero\<rparr>"

fun saveStatusList ::
  "('d, 'f, 'r) services \<Rightarrow> time \<Rightarrow> string \<Rightarrow> ConfigInfo list \<Rightarrow> string \<Rightarrow> ('d, 'f, 'r) mgr \<Rightarrow> ('d, 'f, 'r) mgr" where
  "saveStatusList X now instanceID [] configType m = m"
| "saveStatusList X now instanceID (ci # cfgs) configType m =
     saveStatusList X now instanceID cfgs configType
       (snd (UpsertAgentConfigStatus_m X now (info_status instanceID configType ci) m))"

definition saveConfigStatuses ::
  "('d, 'f, 'r) services \<Rightarrow> time \<Rightarrow> HeartbeatRequest \<Rightarrow> string \<Rightarrow> ('d, 'f, 'r) mgr \<Rightarrow> ('d, 'f, 'r) mgr" where
  "saveConfigStatuses X now req instanceID m =
     (let m1 = saveStatusList X now instanceID (hb_pipelines req) ConfigTypePipeline m;
          m2 = saveStatusList X now instanceID (hb_instances req) ConfigTypeInstance m1
      in saveStatusList X now instanceID (hb_onetimes req) ConfigTypeOnetime m2)"

subsection \<open>One-time commands\<close>

text \<open>
  \<open>map[string]interface{}\<close>: of a repeated key the last value counts, and printing sorts by
  key. Such a map is kept here as a sorted list; values inside are in the same form.
\<close>

fun put_member :: "string \<Rightarrow> json \<Rightarrow> (string \<times> json) list \<Rightarrow> (string \<times> json) list" where
  "put_member k v [] = [(k, v)]"
| "put_member k v ((k', v') # kvs) =
     (if k = k' then (k, v) # kvs
      else if k < k' then (k, v) # (k', v') # kvs
      else (k', v') # put_member k v kvs)"

fun go_value :: "json \<Rightarrow> json" where
  "go_value (JObj kvs) = JObj (foldl (\<lambda>mp (k, v). put_member k v mp) [] (map (\<lambda>(k, v). (k, go_value v)) kvs))"
| "go_value (JArr xs) = JArr (map go_value xs)"
| "go_value v = v"

definition onetimeGenerationKey :: string where
  "onetimeGenerationKey = ''__onetime_generation__''"

definition put_generation :: "int \<Rightarrow> (string \<times> json) list \<Rightarrow> (string \<times> json) list" where
  "put_generation gen doc =
     (let global = (case map_of doc ''global'' of Some (JObj g) \<Rightarrow> g | _ \<Rightarrow> [])
      in put_member ''global'' (JObj (put_member onetimeGenerationKey (JNum (itoa gen)) global)) doc)"

definition onetimeDetailWithGeneration :: "OnetimeCommand \<Rightarrow> bytes" where
  "onetimeDetailWithGeneration oc =
     (let gen = unix_nano (oc_created oc)
      in if gen \<le> 0 then oc_detail oc
         else
           (case map_option go_value (json_decode_first (oc_detail oc)) of
              Some (JObj doc) \<Rightarrow> json_print (JObj (put_generation gen doc))
            | _ \<Rightarrow> oc_detail oc))"

definition onetimeContentHash :: "bytes \<Rightarrow> int" where
  "onetimeContentHash detail =
     uint (foldl (\<lambda>h b. (h XOR of_nat (of_char b)) * 1099511628211) (14695981039346656037 :: 64 word) detail
           AND 0x7FFFFFFFFFFFFFFF)"

subsection \<open>Heartbeat\<close>

definition config_detail :: "config_row \<Rightarrow> ConfigDetail" where
  "config_detail c = \<lparr>cd_name = cf_name c, cd_version = cf_version c, cd_detail = cf_detail c\<rparr>"

definition config_updates :: "bool \<Rightarrow> info_index \<Rightarrow> config_row list \<Rightarrow> ConfigDetail list" where
  "config_updates fullState idx cs =
     map config_detail
       (filter (\<lambda>c. cf_detail c \<noteq> [] \<and> \<not> (\<not> fullState \<and> map_of idx (cf_name c) = Some (cf_version c))) cs)"

definition config_deletions ::
  "(string list \<Rightarrow> string list) \<Rightarrow> info_index \<Rightarrow> config_row list \<Rightarrow> ConfigDetail list" where
  "config_deletions ord idx cs =
     (let server_names = map cf_name (filter (\<lambda>c. cf_detail c \<noteq> []) cs)
      in map (\<lambda>name. \<lparr>cd_name = name, cd_version = - 1, cd_detail = []\<rparr>)
           (filter (\<lambda>name. name \<notin> set server_names) (ord (map fst idx))))"

definition onetime_cancellations ::
  "(string list \<Rightarrow> string list) \<Rightarrow> info_index \<Rightarrow> OnetimeCommand list \<Rightarrow> CommandDetail list" where
  "onetime_cancellations ord idx ocs =
     map (\<lambda>name. \<lparr>cmd_name = name, cmd_detail = [], cmd_expire = - 1\<rparr>)
       (filter (\<lambda>name. name \<notin> set (map oc_name ocs)) (ord (map fst idx)))"

text \<open>The deadline is compared with \<open>time.Now().Unix()\<close>: it is taken as a number of seconds.\<close>

definition expired :: "time \<Rightarrow> OnetimeCommand \<Rightarrow> bool" where
  "expired now oc \<longleftrightarrow> oc_expire oc > 0 \<and> oc_expire oc < unix_sec now"

definition command_detail :: "OnetimeCommand \<Rightarrow> CommandDetail" where
  "command_detail oc =
     \<lparr>cmd_name = oc_name oc, cmd_detail = onetimeDetailWithGeneration oc, cmd_expire = oc_expire oc\<rparr>"

definition onetime_deliveries :: "bool \<Rightarrow> time \<Rightarrow> info_index \<Rightarrow> OnetimeCommand list \<Rightarrow> CommandDetail list" where
  "onetime_deliveries fullState now idx ocs =
     map command_detail
       (filter (\<lambda>oc. \<not> expired now oc \<and>
          (case map_of idx (oc_name oc) of
             Some agentVer \<Rightarrow> fullState \<or> agentVer \<noteq> onetimeContentHash (onetimeDetailWithGeneration oc)
           | None \<Rightarrow> True)) ocs)"

definition total_bytes :: "ConfigDetail list \<Rightarrow> nat" where
  "total_bytes us = sum_list (map (\<lambda>u. length (cd_detail u)) us)"

definition strip_details :: "64 word \<Rightarrow> ConfigDetail list \<Rightarrow> 64 word \<Rightarrow> ConfigDetail list \<times> 64 word" where
  "strip_details flag us flags =
     (if total_bytes us > maxInlineDetailBytes then (map (cd_detail_update (\<lambda>_. [])) us, flags OR flag)
      else (us, flags))"

definition build_response ::
  "(string \<Rightarrow> string list \<Rightarrow> string list) \<Rightarrow> time \<Rightarrow> bool \<Rightarrow> HeartbeatRequest \<Rightarrow> agent_configs \<Rightarrow> HeartbeatResponse" where
  "build_response ord now needFullState req cfgs =
     (case cfgs of (pipelines, instances, onetimes) \<Rightarrow>
      let agentPipeline = indexConfigInfos (hb_pipelines req);
          agentInstance = indexConfigInfos (hb_instances req);
          agentOnetime = indexConfigInfos (hb_onetimes req);
          fullState = hb_flags req AND RequestFlags_FullState \<noteq> 0;
          respFlags = (if needFullState then ResponseFlags_ReportFullState else 0);
          pus = config_updates fullState agentPipeline pipelines
                @ config_deletions (ord ConfigTypePipeline) agentPipeline pipelines;
          ius = config_updates fullState agentInstance instances
                @ config_deletions (ord ConfigTypeInstance) agentInstance instances;
          ous = onetime_cancellations (ord ConfigTypeOnetime) agentOnetime onetimes
                @ onetime_deliveries fullState now agentOnetime onetimes
      in case strip_details ResponseFlags_FetchContinuousPipelineConfigDetail pus respFlags of
           (pus', flags1) \<Rightarrow>
         (case strip_details ResponseFlags_FetchInstanceConfigDetail ius flags1 of
           (ius', flags2) \<Rightarrow>
           \<lparr>hr_request_id = hb_request_id req, hr_common = ok_response, hr_capabilities = server_capabilities,
            hr_pipelines = pus', hr_instances = ius', hr_onetimes = ous, hr_flags = flags2\<rparr>))"

definition heartbeat ::
  "(string \<Rightarrow> string list \<Rightarrow> string list) \<Rightarrow> ('d, 'f, 'r) services \<Rightarrow> time \<Rightarrow> HeartbeatRequest \<Rightarrow>
   ('d, 'f, 'r) mgr \<Rightarrow> HeartbeatResponse \<times> ('d, 'f, 'r) mgr" where
  "heartbeat ord X now req m =
     (let instanceID = hb_instance_id req
      in case GetAgent_m X instanceID m of
           (found, m1) \<Rightarrow>
             let needFullState = (case found of
                   Inl _ \<Rightarrow> False
                 | Inr a \<Rightarrow> a_seq a = 0 \<and> hb_sequence_num req > 1);
                 agent = buildAgent now req;
                 m2 = snd (UpsertAgent_m X agent m1);
                 m3 = saveConfigStatuses X now req instanceID m2
             in case GetConfigsForAgent_m X (match_context agent req) m3 of
                  (Inl e, m4) \<Rightarrow> (buildErrHBResp (hb_request_id req) 1 ''internal error'', m4)
                | (Inr cfgs, m4) \<Rightarrow> (build_response ord now needFullState req cfgs, m4))"

definition Heartbeat_h ::
  "(bytes \<Rightarrow> HeartbeatRequest option) \<Rightarrow> (HeartbeatResponse \<Rightarrow> bytes option) \<Rightarrow>
   (string \<Rightarrow> string list \<Rightarrow> string list) \<Rightarrow> ('d, 'f, 'r) services \<Rightarrow> time \<Rightarrow> bytes \<times> bool \<Rightarrow>
   ('d, 'f, 'r) mgr \<Rightarrow> http_reply \<times> ('d, 'f, 'r) mgr" where
  "Heartbeat_h dec enc ord X now sent m =
     (case read_body sent of
        None \<Rightarrow> (HttpError 400 ''read body'', m)
      | Some body \<Rightarrow>
          (case dec body of
             None \<Rightarrow> (HttpError 400 ''decode request'', m)
           | Some req \<Rightarrow>
               (case heartbeat ord X now req m of
                  (resp, m1) \<Rightarrow> (writeProtoResponse enc resp, m1))))"

subsection \<open>FetchConfig\<close>

fun fetch_updates ::
  "(string \<Rightarrow> 's \<Rightarrow> (err + config_row) \<times> 's) \<Rightarrow> ConfigInfo list \<Rightarrow> 's \<Rightarrow> ConfigDetail list \<times> 's" where
  "fetch_updates get [] m = ([], m)"
| "fetch_updates get (ci # cfgs) m =
     (case get (ci_name ci) m of
        (r, m1) \<Rightarrow>
          (case fetch_updates get cfgs m1 of
             (us, m2) \<Rightarrow>
               ((case r of
                   Inl e \<Rightarrow>
                     if is_not_found e then \<lparr>cd_name = ci_name ci, cd_version = - 1, cd_detail = []\<rparr> # us else us
                 | Inr c \<Rightarrow>
                     if cf_detail c = [] then us
                     else if cf_version c \<noteq> ci_version ci then config_detail c # us
                     else us), m2)))"

fun fetch_commands ::
  "('d, 'f, 'r) services \<Rightarrow> time \<Rightarrow> ConfigInfo list \<Rightarrow> ('d, 'f, 'r) mgr \<Rightarrow> CommandDetail list \<times> ('d, 'f, 'r) mgr" where
  "fetch_commands X now [] m = ([], m)"
| "fetch_commands X now (ci # cfgs) m =
     (case GetOnetimeCommand_m X (ci_name ci) m of
        (r, m1) \<Rightarrow>
          (case fetch_commands X now cfgs m1 of
             (us, m2) \<Rightarrow>
               ((case r of
                   Inl e \<Rightarrow> us
                 | Inr oc \<Rightarrow> if expired now oc then us else command_detail oc # us), m2)))"

definition fetch_config ::
  "('d, 'f, 'r) services \<Rightarrow> time \<Rightarrow> FetchConfigRequest \<Rightarrow> ('d, 'f, 'r) mgr \<Rightarrow>
   FetchConfigResponse \<times> ('d, 'f, 'r) mgr" where
  "fetch_config X now req m =
     (case fetch_updates (GetPipelineConfig_m X) (fq_pipelines req) m of (ps, m1) \<Rightarrow>
     (case fetch_updates (GetInstanceConfig_m X) (fq_instances req) m1 of (xs, m2) \<Rightarrow>
     (case fetch_commands X now (fq_onetimes req) m2 of (os, m3) \<Rightarrow>
       (\<lparr>fr_request_id = fq_request_id req, fr_common = ok_response,
         fr_pipelines = ps, fr_instances = xs, fr_onetimes = os\<rparr>, m3))))"

definition FetchConfig_h ::
  "(bytes \<Rightarrow> FetchConfigRequest option) \<Rightarrow> (FetchConfigResponse \<Rightarrow> bytes option) \<Rightarrow>
   ('d, 'f, 'r) services \<Rightarrow> time \<Rightarrow> bytes \<times> bool \<Rightarrow> ('d, 'f, 'r) mgr \<Rightarrow> http_reply \<times> ('d, 'f, 'r) mgr" where
  "FetchConfig_h dec enc X now sent m =
     (case read_body sent of
        None \<Rightarrow> (HttpError 400 ''read body'', m)
      | Some body \<Rightarrow>
          (case dec body of
             None \<Rightarrow> (HttpError 400 ''decode request'', m)
           | Some req \<Rightarrow>
               (case fetch_config X now req m of
                  (resp, m1) \<Rightarrow> (writeProtoResponse enc resp, m1))))"

subsection \<open>ReportStatus\<close>

definition report_status ::
  "('d, 'f, 'r) services \<Rightarrow> time \<Rightarrow> ReportStatusRequest \<Rightarrow> ('d, 'f, 'r) mgr \<Rightarrow>
   ReportStatusResponse \<times> ('d, 'f, 'r) mgr" where
  "report_status X now req m =
     (let instanceID = rq_instance_id req;
          m1 = saveStatusList X now instanceID (rq_pipelines req) ConfigTypePipeline m;
          m2 = saveStatusList X now instanceID (rq_instances req) ConfigTypeInstance m1;
          m3 = saveStatusList X now instanceID (rq_onetimes req) ConfigTypeOnetime m2
      in (\<lparr>rr_request_id = rq_request_id req, rr_common = ok_response\<rparr>, m3))"

definition ReportStatus_h ::
  "(bytes \<Rightarrow> ReportStatusRequest option) \<Rightarrow> (ReportStatusResponse \<Rightarrow> bytes option) \<Rightarrow>
   ('d, 'f, 'r) services \<Rightarrow> time \<Rightarrow> bytes \<times> bool \<Rightarrow> ('d, 'f, 'r) mgr \<Rightarrow> http_reply \<times> ('d, 'f, 'r) mgr" where
  "ReportStatus_h dec enc X now sent m =
     (case read_body sent of
        None \<Rightarrow> (HttpError 400 ''read body'', m)
      | Some body \<Rightarrow>
          (case dec body of
             None \<Rightarrow> (HttpError 400 ''decode request'', m)
           | Some req \<Rightarrow>
               (case report_status X now req m of
                  (resp, m1) \<Rightarrow> (writeProtoResponse enc resp, m1))))"

end
