(* ===== verification/Manager_Laws.thy ===== *)
theory Manager_Laws
  imports Agent_Registry
begin

section \<open>What the cache manager guarantees\<close>

text \<open>
  In all-in-one mode (no Redis). \<open>coherent\<close> is the invariant of the caches: every entry of L1
  is a row of the database, the list of canaries is the rolling ones, and every resolution
  entry of the current epoch names what is assigned to an agent that asked. Every operation
  keeps it, so reads through the manager agree with the database after any history. The
  registry's invariant relates the map of agents, the list and its index.
\<close>

subsection \<open>Which tables a statement touches\<close>

datatype table =
    TGroup | TTag | TPipeline | TInstance | TOnetime | TMapping | TAgent | TStatus | THistory
  | TAudit | TCanary | TUser | TRole | TPerm

fun table_of :: "row \<Rightarrow> table" where
  "table_of (RGroup _) = TGroup"
| "table_of (RTag _) = TTag"
| "table_of (RPipeline _) = TPipeline"
| "table_of (RInstance _) = TInstance"
| "table_of (ROnetime _) = TOnetime"
| "table_of (RMapping _) = TMapping"
| "table_of (RAgent _) = TAgent"
| "table_of (RStatus _) = TStatus"
| "table_of (RHistory _) = THistory"
| "table_of (RAudit _) = TAudit"
| "table_of (RCanary _) = TCanary"
| "table_of (RUser _) = TUser"
| "table_of (RRole _) = TRole"
| "table_of (RPerm _) = TPerm"

fun key_table :: "dbkey \<Rightarrow> table" where
  "key_table (KGroup _) = TGroup"
| "key_table (KTag _) = TTag"
| "key_table (KPipeline _) = TPipeline"
| "key_table (KInstance _) = TInstance"
| "key_table (KOnetime _) = TOnetime"
| "key_table (KMapping _ _ _) = TMapping"
| "key_table (KAgent _) = TAgent"
| "key_table (KStatus _ _ _) = TStatus"
| "key_table (KHistory _) = THistory"
| "key_table (KAudit _) = TAudit"
| "key_table (KCanary _ _) = TCanary"
| "key_table (KUser _) = TUser"
| "key_table (KRole _) = TRole"
| "key_table (KPerm _ _) = TPerm"

lemma key_table_of [simp]: "key_table (key_of r) = table_of r"
  by (cases r) auto

lemma table_of_stored: "stored r r' \<Longrightarrow> table_of r' = table_of r"
  by (cases r; cases r') (auto simp: stored_def)

fun touches :: "wstmt \<Rightarrow> table \<Rightarrow> bool" where
  "touches (Create rs) T \<longleftrightarrow> T \<in> table_of ` set rs"
| "touches (Save r) T \<longleftrightarrow> T = table_of r"
| "touches (Update P f) T \<longleftrightarrow> (\<exists>r. table_of r = T \<and> P r)"
| "touches (Delete P) T \<longleftrightarrow> (\<exists>r. table_of r = T \<and> P r)"

definition frame :: "table set \<Rightarrow> tables \<Rightarrow> tables \<Rightarrow> bool" where
  "frame K t t' \<longleftrightarrow> (\<forall>k. key_table k \<notin> K \<longrightarrow> t' k = t k)"

definition at_home :: "tables \<Rightarrow> bool" where
  "at_home t \<longleftrightarrow> (\<forall>k r. t k = Some r \<longrightarrow> table_of r = key_table k)"

lemma at_home_keyed: "well_keyed t \<Longrightarrow> at_home t"
  by (metis at_home_def key_table_of well_keyed_def)

lemma frame_refl [simp, intro]: "frame K t t"
  by (simp add: frame_def)

lemma map_of_keys_None: "T \<notin> table_of ` set rs \<Longrightarrow> key_table k = T \<Longrightarrow>
    map_of (map (\<lambda>r. (key_of r, r)) rs) k = None"
  by (auto simp: map_of_eq_None_iff image_image)

text \<open>One key at a time: what holds of a key outside the touched tables.\<close>

lemma write_untouched:
  assumes "write_ok w t t'" and "\<not> touches w (key_table k)" and "\<forall>r. t k = Some r \<longrightarrow> table_of r = key_table k"
  shows "t' k = t k"
proof (cases w)
  case (Create rs)
  with assms(1) obtain rs' where rs': "list_all2 stored rs rs'" "t' = add_rows rs' t" by auto
  have "table_of ` set rs' = table_of ` set rs"
    using rs'(1) by (induction rule: list_all2_induct) (auto simp: table_of_stored)
  with assms(2) Create have "key_table k \<notin> table_of ` set rs'" by simp
  then show ?thesis
    using map_of_keys_None [of "key_table k" rs' k] by (simp add: rs'(2) add_rows_def map_add_def)
next
  case (Save r)
  with assms show ?thesis by auto
next
  case (Update P f)
  with assms show ?thesis
    by (auto simp: change_rows_def split: option.splits dest!: spec [of _ k])
next
  case (Delete P)
  with assms show ?thesis by (auto simp: drop_rows_def split: option.splits)
qed

lemma writes_untouched:
  "writes_ok ws t t' \<Longrightarrow> \<forall>w \<in> set ws. \<not> touches w (key_table k) \<Longrightarrow>
   \<forall>r. t k = Some r \<longrightarrow> table_of r = key_table k \<Longrightarrow> t' k = t k"
proof (induction ws arbitrary: t)
  case (Cons w ws)
  from Cons.prems(1) obtain t1 where t1: "write_ok w t t1" "writes_ok ws t1 t'" by auto
  with Cons.prems have "t1 k = t k" by (auto intro: write_untouched)
  with Cons.IH [OF t1(2)] Cons.prems show ?case by simp
qed simp

lemmas on_tables = projects_table [THEN on_iff]

text \<open>A write that stays within some tables, and changes nothing when it fails.\<close>

definition confined :: "('d \<Rightarrow> tables) \<Rightarrow> table set \<Rightarrow> ('d \<Rightarrow> (err + unit) \<times> 'd) \<Rightarrow> bool" where
  "confined tabs K w \<longleftrightarrow> (\<forall>d r d'. w d = (r, d') \<longrightarrow>
     frame K (tabs d) (tabs d') \<and> ((\<exists>e. r = Inl e) \<longrightarrow> tabs d' = tabs d))"

context gorm_api
begin

lemma exec_frame_write:
  assumes "exec G (Write w) d = (r, d')" and "\<And>T. touches w T \<Longrightarrow> T \<in> K"
  shows "frame K (tabs d) (tabs d')"
proof (cases r)
  case (Inl e)
  with assms(1) exec_err show ?thesis by (metis frame_refl)
next
  case (Inr u)
  with assms exec_write [of w d u d'] at_home_keyed [OF well_keyed_tabs, of d] show ?thesis
    by (auto simp: frame_def at_home_def intro: write_untouched)
qed

lemma exec_frame_writes:
  assumes "exec G (Transaction ws) d = (r, d')" and "\<And>w T. w \<in> set ws \<Longrightarrow> touches w T \<Longrightarrow> T \<in> K"
  shows "frame K (tabs d) (tabs d')"
proof (cases r)
  case (Inl e)
  with assms(1) exec_err show ?thesis by (metis frame_refl)
next
  case (Inr u)
  with assms exec_writes [of ws d u d'] at_home_keyed [OF well_keyed_tabs, of d] show ?thesis
    by (auto simp: frame_def at_home_def intro: writes_untouched)
qed

lemma exec_frame_first_or_create:
  assumes "exec G (FirstOrCreate P r) d = (res, d')"
  shows "frame {table_of r} (tabs d) (tabs d')"
proof (cases res)
  case (Inl e)
  with assms exec_err show ?thesis by (metis frame_refl)
next
  case (Inr u)
  with assms obtain x where "G (FirstOrCreate P r) d = (Inr x, d')" using exec_ok by blast
  from succeeded [OF this] consider "tabs d' = tabs d"
    | r' where "stored r r'" "tabs d' = (tabs d)(key_of r' \<mapsto> r')"
    by (auto split: if_splits)
  then show ?thesis
  proof cases
    case 2
    then show ?thesis using table_of_stored [OF 2(1)] by (auto simp: frame_def)
  qed simp
qed

text \<open>Each method of the store that writes, and the tables it is confined to.\<close>

lemma store_confined:
  "confined tabs {TGroup} (CreateGroup G g)"
  "confined tabs {TGroup} (UpdateGroup G g)"
  "confined tabs {TGroup, TTag, TMapping} (DeleteGroup G n)"
  "confined tabs {TTag} (SetGroupTags G n ts)"
  "confined tabs {TMapping} (AddGroupConfig G mp)"
  "confined tabs {TMapping} (RemoveGroupConfig G a b c)"
  "confined tabs {TPipeline} (CreatePipelineConfig G cfg)"
  "confined tabs {TPipeline} (UpdatePipelineConfig G now cfg)"
  "confined tabs {TPipeline, TMapping} (DeletePipelineConfig G n)"
  "confined tabs {TInstance} (CreateInstanceConfig G cfg)"
  "confined tabs {TInstance} (UpdateInstanceConfig G now cfg)"
  "confined tabs {TInstance, TMapping} (DeleteInstanceConfig G n)"
  "confined tabs {TOnetime} (CreateOnetimeCommand G cmd)"
  "confined tabs {TOnetime, TMapping} (DeleteOnetimeCommand G n)"
  "confined tabs {TCanary} (CreateCanary G cr)"
  "confined tabs {TCanary} (UpdateCanary G cr)"
  "confined tabs {TCanary} (DeleteCanary G n ct)"
  "confined tabs {TUser} (CreateUser G u)"
  "confined tabs {TUser} (UpdateUser G u)"
  "confined tabs {TUser} (DeleteUser G n)"
  "confined tabs {TRole} (CreateRole G ro)"
  "confined tabs {TRole} (UpdateRole G ro)"
  "confined tabs {TUser, TPerm, TRole} (DeleteRole G n)"
  "confined tabs {TPerm} (SetRolePermissions G n ps)"
  "confined tabs {THistory} (SaveConfigHistory G h)"
  "confined tabs {TAudit} (CreateAuditLog G al)"
  unfolding confined_def
  unfolding CreateGroup_def UpdateGroup_def DeleteGroup_def SetGroupTags_def
    AddGroupConfig_def RemoveGroupConfig_def CreatePipelineConfig_def UpdatePipelineConfig_def
    DeletePipelineConfig_def CreateInstanceConfig_def
    UpdateInstanceConfig_def DeleteInstanceConfig_def CreateOnetimeCommand_def DeleteOnetimeCommand_def
    CreateCanary_def UpdateCanary_def DeleteCanary_def CreateUser_def
    UpdateUser_def DeleteUser_def CreateRole_def UpdateRole_def DeleteRole_def SetRolePermissions_def
    SaveConfigHistory_def CreateAuditLog_def
  by (auto elim!: exec_frame_write exec_frame_writes dest: exec_frame_first_or_create exec_err
      simp: failr_def on_tables split: if_splits)

end

subsection \<open>Frames and what is read from the tables\<close>

lemma frame_row_at:
  "frame K t t' \<Longrightarrow> key_table k \<notin> K \<Longrightarrow> row_at p k t' = row_at p k t"
  by (simp add: frame_def row_at_def)

lemma frame_has: "frame K t t' \<Longrightarrow> table_of r \<notin> K \<Longrightarrow> has t' r = has t r"
  by (simp add: frame_def has_def)

lemma frame_assigned:
  assumes "frame K t t'" and "TGroup \<notin> K" "TTag \<notin> K" "TMapping \<notin> K"
  shows "assigned t' match ct n = assigned t match ct n"
  using assms by (simp add: assigned_def in_group_def shares_tag_def frame_has frame_row_at)

lemma frame_rolling: "frame K t t' \<Longrightarrow> TCanary \<notin> K \<Longrightarrow> rolling_canaries t' = rolling_canaries t"
  by (simp add: rolling_canaries_def frame_has)

subsection \<open>Keys\<close>

lemma prefix_keys [simp]:
  "prefixPipeline @ a \<noteq> prefixInstance @ b" "prefixPipeline @ a \<noteq> prefixOnetime @ b"
  "prefixInstance @ a \<noteq> prefixPipeline @ b" "prefixInstance @ a \<noteq> prefixOnetime @ b"
  "prefixOnetime @ a \<noteq> prefixPipeline @ b" "prefixOnetime @ a \<noteq> prefixInstance @ b"
  by (simp_all add: prefixPipeline_def prefixInstance_def prefixOnetime_def)

lemma length_le_bytes [simp]: "length (le_bytes k n) = k"
  by (induction k arbitrary: n) auto

lemma le_bytes_inj: "n < 256 ^ k \<Longrightarrow> n' < 256 ^ k \<Longrightarrow> le_bytes k n = le_bytes k n' \<Longrightarrow> n = n'"
proof (induction k arbitrary: n n')
  case (Suc k)
  have "n mod 256 = n' mod 256"
    using Suc.prems(3) arg_cong [of "char_of n" "char_of n'" "of_char :: char \<Rightarrow> nat"] by simp
  moreover have "n div 256 = n' div 256"
    using Suc.prems by (intro Suc.IH) (auto simp: less_mult_imp_div_less mult.commute)
  ultimately show ?case by (metis div_mult_mod_eq)
qed simp

lemma length_le64 [simp]: "length (le64 w) = 8"
  by (simp add: le64_def)

lemma le64_inj [simp]: "le64 v = le64 w \<longleftrightarrow> v = w"
proof
  assume "le64 v = le64 w"
  moreover have "unat u < 256 ^ 8" for u :: "64 word"
    using unsigned_less [of u, where ?'a = nat] by simp
  ultimately have "unat v = unat w" using le_bytes_inj unfolding le64_def by metis
  then show "v = w" by (rule unsigned_word_eqI)
qed simp

lemma resolve_key_inj [simp]: "le64 e @ le64 h = le64 e' @ le64 h' \<longleftrightarrow> e = e' \<and> h = h'"
  by (simp add: append_eq_append_conv)

lemma resolve_key_not_canaries [simp]:
  "le64 e @ le64 h \<noteq> keyResolveCanaries" "keyResolveCanaries \<noteq> le64 e @ le64 h"
proof -
  have "length (le64 e @ le64 h) \<noteq> length keyResolveCanaries" by (simp add: keyResolveCanaries_def)
  then show "le64 e @ le64 h \<noteq> keyResolveCanaries" "keyResolveCanaries \<noteq> le64 e @ le64 h"
    by metis+
qed

subsection \<open>The invariant of the caches\<close>

definition l1_entry_ok :: "tables \<Rightarrow> string \<Rightarrow> blob \<Rightarrow> bool" where
  "l1_entry_ok t k b \<longleftrightarrow>
     (\<exists>n c. k = prefixPipeline @ n \<and> b = JConfig c \<and> pipeline_at t n = Some c) \<or>
     (\<exists>n c. k = prefixInstance @ n \<and> b = JConfig c \<and> instance_at t n = Some c) \<or>
     (\<exists>n c. k = prefixOnetime @ n \<and> b = JOnetime (with_version c) \<and> onetime_at t n = Some c)"

definition resolved :: "tables \<Rightarrow> AgentMatchContext \<Rightarrow> agentConfigSet \<Rightarrow> bool" where
  "resolved t match s \<longleftrightarrow>
     set (set_pipeline s) = {n. pipeline_at t n \<noteq> None \<and> assigned t match ConfigTypePipeline n} \<and>
     set (set_instance s) = {n. instance_at t n \<noteq> None \<and> assigned t match ConfigTypeInstance n} \<and>
     set (set_onetime s) = {n. onetime_at t n \<noteq> None \<and> assigned t match ConfigTypeOnetime n}"

text \<open>\<open>asked\<close> is the set of agents that asked so far.\<close>

definition resolve_entry_ok ::
  "tables \<Rightarrow> 64 word \<Rightarrow> AgentMatchContext set \<Rightarrow> string \<Rightarrow> blob \<Rightarrow> bool" where
  "resolve_entry_ok t ep asked k b \<longleftrightarrow>
     (k = keyResolveCanaries \<and> (\<exists>crs. b = JCanaries crs \<and> set crs = rolling_canaries t)) \<or>
     (\<exists>e match s. match \<in> asked \<and> k = le64 e @ le64 (fnv64a (match_bytes match)) \<and> b = JSet s \<and>
        e \<le> ep \<and> (e = ep \<longrightarrow> resolved t match s))"

lemma resolve_canaries_entry:
  "resolve_entry_ok t ep A keyResolveCanaries b \<Longrightarrow>
   \<exists>crs. b = JCanaries crs \<and> set crs = rolling_canaries t"
  by (auto simp: resolve_entry_ok_def)

definition coherent ::
  "('d \<Rightarrow> tables) \<Rightarrow> ('f \<Rightarrow> string \<rightharpoonup> blob) \<Rightarrow> AgentMatchContext set \<Rightarrow> ('d, 'f, 'r) mgr \<Rightarrow> bool" where
  "coherent tabs view asked m \<longleftrightarrow>
     m_rdb m = None \<and>
     (\<forall>k b. view (m_l1 m) k = Some b \<longrightarrow> l1_entry_ok (tabs (m_db m)) k b) \<and>
     (\<forall>k b. view (m_resolve m) k = Some b \<longrightarrow> resolve_entry_ok (tabs (m_db m)) (m_epoch m) asked k b)"

lemma coherent_rdb: "coherent tabs view asked m \<Longrightarrow> m_rdb m = None"
  by (simp add: coherent_def)

lemma coherent_l1:
  assumes "coherent tabs view asked m" and "view (m_l1 m) k = Some b"
  shows "l1_entry_ok (tabs (m_db m)) k b"
  using assms by (simp add: coherent_def)

lemma l1_pipeline: "l1_entry_ok t (prefixPipeline @ n) b \<Longrightarrow> \<exists>c. b = JConfig c \<and> pipeline_at t n = Some c"
  by (auto simp: l1_entry_ok_def)

lemma l1_instance: "l1_entry_ok t (prefixInstance @ n) b \<Longrightarrow> \<exists>c. b = JConfig c \<and> instance_at t n = Some c"
  by (auto simp: l1_entry_ok_def)

lemma l1_onetime:
  "l1_entry_ok t (prefixOnetime @ n) b \<Longrightarrow> \<exists>c. b = JOnetime (with_version c) \<and> onetime_at t n = Some c"
  by (auto simp: l1_entry_ok_def)

text \<open>Two agents that group membership cannot tell apart.\<close>

definition same_identity :: "AgentMatchContext \<Rightarrow> AgentMatchContext \<Rightarrow> bool" where
  "same_identity a b \<longleftrightarrow>
     mc_ip a = mc_ip b \<and> mc_version a = mc_version b \<and>
     (\<lambda>t. (tag_name t, tag_value t)) ` set (mc_tags a) = (\<lambda>t. (tag_name t, tag_value t)) ` set (mc_tags b)"

definition collision_free :: "AgentMatchContext set \<Rightarrow> bool" where
  "collision_free A \<longleftrightarrow>
     (\<forall>a \<in> A. \<forall>b \<in> A. fnv64a (match_bytes a) = fnv64a (match_bytes b) \<longrightarrow> same_identity a b)"

lemma same_identity_shares:
  assumes "same_identity a b"
  shows "shares_tag t a g = shares_tag t b g"
proof -
  have *: "(\<exists>tg \<in> set (mc_tags m). n = tag_name tg \<and> v = tag_value tg) \<longleftrightarrow>
      (n, v) \<in> (\<lambda>t. (tag_name t, tag_value t)) ` set (mc_tags m)" for m n v
    by auto
  show ?thesis using assms unfolding shares_tag_def * by (simp add: same_identity_def)
qed

lemma same_identity_assigned: "same_identity a b \<Longrightarrow> assigned t a ct n = assigned t b ct n"
  using same_identity_shares [of a b t]
  by (simp add: assigned_def in_group_def ip_selected_def fails_version_def same_identity_def)

lemma same_identity_resolved: "same_identity a b \<Longrightarrow> resolved t a s = resolved t b s"
  by (simp add: resolved_def same_identity_assigned)

subsection \<open>Reads through the cache\<close>

text \<open>The manager over a database and a cache that keep their contracts.\<close>

locale cached_manager =
  gorm_api "gorm X" tabs + freecache_api "fc_get X" "fc_set X" "fc_del X" "fc_clear X" view
  for X :: "('d, 'f, 'r) services" and tabs :: "'d \<Rightarrow> tables" and view :: "'f \<Rightarrow> string \<rightharpoonup> blob"

lemma cached_manager_services: "services_ok X tabs view \<longleftrightarrow> cached_manager X tabs view"
  by (simp add: services_ok_def cached_manager_def)

interpretation memm: cached_manager mem_services mem_tabs map_of
  using mem_services_ok by (simp add: cached_manager_services)

text \<open>A step that leaves tables and epoch alone, and the invariant with it.\<close>

definition steady ::
  "('d \<Rightarrow> tables) \<Rightarrow> ('f \<Rightarrow> string \<rightharpoonup> blob) \<Rightarrow> AgentMatchContext set \<Rightarrow>
   ('d, 'f, 'r) mgr \<Rightarrow> ('d, 'f, 'r) mgr \<Rightarrow> bool" where
  "steady tabs view asked m m' \<longleftrightarrow>
     coherent tabs view asked m' \<and> tabs (m_db m') = tabs (m_db m) \<and> m_epoch m' = m_epoch m"

lemma steady_refl: "coherent tabs view asked m \<Longrightarrow> steady tabs view asked m m"
  by (simp add: steady_def)

lemma steady_coherent: "steady tabs view asked m m' \<Longrightarrow> coherent tabs view asked m'"
  by (simp add: steady_def)

lemma steady_trans [trans]:
  "steady tabs view asked m m1 \<Longrightarrow> steady tabs view asked m1 m2 \<Longrightarrow> steady tabs view asked m m2"
  by (simp add: steady_def)

context cached_manager
begin

abbreviation coh where "coh \<equiv> coherent tabs view"
abbreviation std where "std \<equiv> steady tabs view"

lemma on_db_steady:
  assumes "coh A m" and "keeps tabs f" and "on_db f m = (r, m')"
  shows "std A m m'" and "f (m_db m) = (r, m_db m')"
proof -
  from assms(3) have *: "f (m_db m) = (r, m_db m')" "m' = m\<lparr>m_db := m_db m'\<rparr>"
    by (auto simp: on_db_def split: prod.splits)
  then show "f (m_db m) = (r, m_db m')" by simp
  from keepsD [OF assms(2) *(1)] assms(1) show "std A m m'"
    by (subst *(2)) (simp add: steady_def coherent_def)
qed

lemma tier_lookup_ok:
  assumes "coh A m" and "tier_lookup X dec key m = (r, m')"
  shows "std A m m' \<and> (\<forall>x. r = Some x \<longrightarrow> (\<exists>b. l1_entry_ok (tabs (m_db m)) key b \<and> dec b = Some x))"
proof -
  obtain raw f' where g: "fc_get X key (m_l1 m) = (raw, f')" by (cases "fc_get X key (m_l1 m)")
  have m': "m' = m\<lparr>m_l1 := f'\<rparr>" "r = Option.bind raw dec"
    using assms coherent_rdb [OF assms(1)] g
    by (auto simp: tier_lookup_def l1_lookup_def split: option.splits prod.splits)
  have "coh A (m\<lparr>m_l1 := f'\<rparr>)"
    using assms(1) get_view [OF g] by (auto simp: coherent_def)
  moreover have "r = Some x \<longrightarrow> (\<exists>b. l1_entry_ok (tabs (m_db m)) key b \<and> dec b = Some x)" for x
    using coherent_l1 [OF assms(1)] get_hit [of key "m_l1 m"] g by (auto simp: m'(2) bind_eq_Some_conv)
  ultimately show ?thesis by (simp add: m'(1) steady_def)
qed

lemma backfill_ok:
  assumes "coh A m" and "l1_entry_ok (tabs (m_db m)) key b"
  shows "std A m (backfill X key b v m)"
proof -
  have "coh A (l1Set X key b m)"
    using assms set_view by (fastforce simp: coherent_def l1Set_def Let_def)
  moreover have "backfill X key b v m = l1Set X key b m"
    using coherent_rdb [OF assms(1)] by (simp add: backfill_def l1Set_def Let_def)
  ultimately show ?thesis by (simp add: steady_def l1Set_def Let_def)
qed

text \<open>\<open>reader\<close>: what a cached read promises of the table it reads.\<close>

definition reader ::
  "AgentMatchContext set \<Rightarrow> (string \<Rightarrow> ('d, 'f, 'r) mgr \<Rightarrow> (err + 'a) \<times> ('d, 'f, 'r) mgr) \<Rightarrow>
   (tables \<Rightarrow> string \<Rightarrow> 'a option) \<Rightarrow> bool" where
  "reader A get look \<longleftrightarrow> (\<forall>n m r m'. coh A m \<and> get n m = (r, m') \<longrightarrow>
     std A m m' \<and>
     (case r of Inr c \<Rightarrow> look (tabs (m_db m)) n = Some c
      | Inl e \<Rightarrow> is_not_found e \<longrightarrow> look (tabs (m_db m)) n = None))"

lemma readerD:
  assumes "reader A get look" and "coh A m" and "get n m = (r, m')"
  shows "std A m m'" and "r = Inr c \<Longrightarrow> look (tabs (m_db m)) n = Some c"
    and "r = Inl e \<Longrightarrow> is_not_found e \<Longrightarrow> look (tabs (m_db m)) n = None"
  using assms by (auto simp: reader_def split: sum.splits)

text \<open>The three reads have one shape: a tiered lookup, else the row, which is filled in.\<close>

lemma reader_tiered:
  assumes get: "\<And>n m. get n m = (case tier_lookup X dec (p @ n) m of
      (Some c, m1) \<Rightarrow> (Inr c, m1)
    | (None, m1) \<Rightarrow> (case on_db (load n) m1 of
        (Inl e, m2) \<Rightarrow> (Inl e, m2)
      | (Inr c, m2) \<Rightarrow> (Inr (f c), backfill X (p @ n) (enc (f c)) (ver (f c)) m2)))"
    and keeps: "\<And>n. keeps tabs (load n)"
    and load: "\<And>n d c d'. load n d = (Inr c, d') \<Longrightarrow> row (tabs d) n = Some c"
    and none: "\<And>n d e d'. load n d = (Inl e, d') \<Longrightarrow> is_not_found e \<Longrightarrow> row (tabs d) n = None"
    and hit: "\<And>t n b c. l1_entry_ok t (p @ n) b \<Longrightarrow> dec b = Some c \<Longrightarrow> look t n = Some c"
    and fill: "\<And>t n c. row t n = Some c \<Longrightarrow> l1_entry_ok t (p @ n) (enc (f c))"
    and look: "\<And>t n. look t n = map_option f (row t n)"
  shows "reader A get look"
  unfolding reader_def
proof (intro allI impI, elim conjE)
  fix n m r m' assume m: "coh A m" and g: "get n m = (r, m')"
  obtain q m1 where t: "tier_lookup X dec (p @ n) m = (q, m1)" by fastforce
  note T = tier_lookup_ok [OF m t]
  show "std A m m' \<and> (case r of Inr c \<Rightarrow> look (tabs (m_db m)) n = Some c
      | Inl e \<Rightarrow> is_not_found e \<longrightarrow> look (tabs (m_db m)) n = None)"
  proof (cases q)
    case (Some cfg)
    with T g t hit show ?thesis by (auto simp: get)
  next
    case None
    obtain s m2 where d: "on_db (load n) m1 = (s, m2)" by fastforce
    note D = on_db_steady [OF steady_coherent [OF conjunct1 [OF T]] keeps d]
    show ?thesis
    proof (cases s)
      case (Inl e)
      with None g t d D T none [of n "m_db m1" e "m_db m2"] show ?thesis
        by (auto simp: get steady_def look)
    next
      case (Inr c)
      with D(2) have c: "row (tabs (m_db m1)) n = Some c"
        using load [of n "m_db m1" c "m_db m2"] by simp
      with D(1) have "l1_entry_ok (tabs (m_db m2)) (p @ n) (enc (f c))"
        by (simp add: fill steady_def)
      from backfill_ok [OF steady_coherent [OF D(1)] this] None Inr g t d D T c show ?thesis
        by (auto simp: get steady_def look)
    qed
  qed
qed

lemma reader_pipeline: "reader A (GetPipelineConfig_m X) pipeline_at"
proof (rule reader_tiered [where row = pipeline_at and f = "\<lambda>c. c" and enc = JConfig and ver = cf_version
      and load = "GetPipelineConfig (gorm X)" and dec = decode_config and p = prefixPipeline])
qed (auto simp: GetPipelineConfig_m_def Let_def GetPipelineConfig_def option.map_ident l1_entry_ok_def
    dest!: l1_pipeline dest: table_get_ok [OF named_tables(1)] table_get_err [OF named_tables(1)])

lemma reader_instance: "reader A (GetInstanceConfig_m X) instance_at"
proof (rule reader_tiered [where row = instance_at and f = "\<lambda>c. c" and enc = JConfig and ver = cf_version
      and load = "GetInstanceConfig (gorm X)" and dec = decode_config and p = prefixInstance])
qed (auto simp: GetInstanceConfig_m_def Let_def GetInstanceConfig_def option.map_ident l1_entry_ok_def
    dest!: l1_instance dest: table_get_ok [OF named_tables(2)] table_get_err [OF named_tables(2)])

lemma reader_onetime:
  "reader A (GetOnetimeCommand_m X) (\<lambda>t n. map_option with_version (onetime_at t n))"
  unfolding GetOnetimeCommand_m_def Let_def
proof (rule reader_tiered [where row = onetime_at and f = with_version and enc = JOnetime
      and ver = onetimeCacheVersion and load = "GetOnetimeCommand (gorm X)" and dec = decode_onetime
      and p = prefixOnetime])
qed (auto simp: GetOnetimeCommand_def l1_entry_ok_def
    dest!: l1_onetime dest: table_get_ok [OF named_tables(3)] table_get_err [OF named_tables(3)])

subsection \<open>Resolution through the cache\<close>

lemma resolve_get_ok:
  assumes "coh A m" and "resolve_get X dec key m = (r, m')"
  shows "std A m m' \<and> (\<forall>x. r = Some x \<longrightarrow>
    (\<exists>b. resolve_entry_ok (tabs (m_db m)) (m_epoch m) A key b \<and> dec b = Some x))"
proof -
  obtain raw f' where g: "fc_get X key (m_resolve m) = (raw, f')" by (cases "fc_get X key (m_resolve m)")
  have m': "m' = m\<lparr>m_resolve := f'\<rparr>" "r = Option.bind raw dec"
    using assms(2) g by (auto simp: resolve_get_def)
  have "coh A (m\<lparr>m_resolve := f'\<rparr>)"
    using assms(1) get_view [OF g] by (auto simp: coherent_def)
  moreover have "r = Some x \<longrightarrow>
      (\<exists>b. resolve_entry_ok (tabs (m_db m)) (m_epoch m) A key b \<and> dec b = Some x)" for x
    using assms(1) get_hit [of key "m_resolve m"] g
    by (auto simp: m'(2) bind_eq_Some_conv coherent_def) blast
  ultimately show ?thesis by (simp add: m'(1) steady_def)
qed

lemma resolve_set_ok:
  assumes "coh A m" and "resolve_entry_ok (tabs (m_db m)) (m_epoch m) A key b"
  shows "std A m (resolve_set X key b ttl m)"
  using assms set_view by (fastforce simp: coherent_def resolve_set_def steady_def)

lemma getActiveCanaries_ok:
  assumes "coh A m" and "getActiveCanaries X m = (r, m')"
  shows "std A m m' \<and> (\<forall>crs. r = Inr crs \<longrightarrow> set crs = rolling_canaries (tabs (m_db m)))"
proof -
  obtain q m1 where t: "resolve_get X decode_canaries keyResolveCanaries m = (q, m1)" by fastforce
  note T = resolve_get_ok [OF assms(1) t]
  show ?thesis
  proof (cases q)
    case (Some crs)
    obtain b where b: "resolve_entry_ok (tabs (m_db m)) (m_epoch m) A keyResolveCanaries b"
        "decode_canaries b = Some crs" using conjunct2 [OF T, rule_format, OF Some] by blast
    from resolve_canaries_entry [OF b(1)] obtain crs' where
      "b = JCanaries crs'" "set crs' = rolling_canaries (tabs (m_db m))" by blast
    with b(2) have "set crs = rolling_canaries (tabs (m_db m))" by simp
    moreover have "r = Inr crs" "m' = m1"
      using assms(2) t Some by (simp_all add: getActiveCanaries_def)
    ultimately show ?thesis using conjunct1 [OF T] by simp
  next
    case None
    obtain s m2 where d: "on_db (ListCanaries (gorm X)) m1 = (s, m2)" by fastforce
    have "keeps tabs (ListCanaries (gorm X))" by (simp add: ListCanaries_def)
    note D = on_db_steady [OF steady_coherent [OF conjunct1 [OF T]] this d]
    show ?thesis
    proof (cases s)
      case (Inl e)
      with None t d D T assms(2) show ?thesis by (auto simp: getActiveCanaries_def steady_def)
    next
      case (Inr all)
      let ?active = "filter (\<lambda>cr. cr_status cr = CanaryStatusRolling) all"
      have "set ?active = rolling_canaries (tabs (m_db m1))"
        using D(2) Inr find_as_ok [OF projects_table(11), of "\<lambda>_. True" "m_db m1" all "m_db m2"]
        by (auto simp: ListCanaries_def rolling_canaries_def)
      then have a: "set ?active = rolling_canaries (tabs (m_db m2))" using D(1) by (simp add: steady_def)
      then have "resolve_entry_ok (tabs (m_db m2)) (m_epoch m2) A keyResolveCanaries (JCanaries ?active)"
        unfolding resolve_entry_ok_def by blast
      from resolve_set_ok [OF steady_coherent [OF D(1)] this] None Inr t d D T a assms(2) show ?thesis
        by (auto simp: getActiveCanaries_def steady_def Let_def)
    qed
  qed
qed

lemma hydrate_ok:
  assumes "reader A get look" and "coh A m" and "hydrate get adapt names m = (r, m')"
  shows "std A m m' \<and> (\<forall>out. r = Inr out \<longrightarrow>
    set out = {adapt n c | n c. n \<in> set names \<and> look (tabs (m_db m)) n = Some c})"
  using assms(2,3)
proof (induction names arbitrary: m r m')
  case Nil
  then show ?case by (auto simp: steady_refl)
next
  case (Cons n names)
  obtain q m1 where g: "get n m = (q, m1)" by fastforce
  note G = readerD [OF assms(1) Cons.prems(1) g]
  have m1: "coh A m1" "tabs (m_db m1) = tabs (m_db m)" using G(1) by (simp_all add: steady_def)
  obtain r2 m2 where h: "hydrate get adapt names m1 = (r2, m2)" by fastforce
  note IH = Cons.IH [OF m1(1) h]
  show ?case
  proof (cases q)
    case (Inl e)
    with G g h IH Cons.prems(2) m1 show ?thesis
      by (auto simp: steady_def split: if_splits)
  next
    case (Inr c)
    with G(2) have c: "look (tabs (m_db m)) n = Some c" by simp
    show ?thesis
    proof (cases r2)
      case (Inl e)
      with Inr G(1) g h IH Cons.prems(2) show ?thesis by (auto simp: steady_def)
    next
      case (Inr cs)
      with \<open>q = Inr c\<close> g h Cons.prems(2) have r: "r = Inr (adapt n c # cs)" "m' = m2" by simp_all
      have "set cs = {adapt n c | n c. n \<in> set names \<and> look (tabs (m_db m)) n = Some c}"
        using IH Inr m1 by simp
      then have "set (adapt n c # cs) =
          {adapt k c | k c. k \<in> set (n # names) \<and> look (tabs (m_db m)) k = Some c}"
        using c by auto
      then show ?thesis using IH G(1) r by (simp add: steady_def)
    qed
  qed
qed


lemma hydrate_set_ok:
  assumes m: "coh A m" and h: "hydrateAgentConfigSet X aset match m = (r, m')"
  shows "std A m m' \<and> (\<forall>ps xs os. r = Inr (ps, xs, os) \<longrightarrow>
    (\<exists>crs. set crs = rolling_canaries (tabs (m_db m)) \<and>
      set ps = {canary_version (crMap crs) ConfigTypePipeline match n c | n c.
        n \<in> set (set_pipeline aset) \<and> pipeline_at (tabs (m_db m)) n = Some c} \<and>
      set xs = {canary_version (crMap crs) ConfigTypeInstance match n c | n c.
        n \<in> set (set_instance aset) \<and> instance_at (tabs (m_db m)) n = Some c} \<and>
      set os = {with_version c | n c. n \<in> set (set_onetime aset) \<and> onetime_at (tabs (m_db m)) n = Some c}))"
proof -
  obtain q m1 where c: "getActiveCanaries X m = (q, m1)" by fastforce
  note C = getActiveCanaries_ok [OF m c]
  show ?thesis
  proof (cases q)
    case (Inl e)
    with c h C show ?thesis by (auto simp: hydrateAgentConfigSet_def bindr_def)
  next
    case (Inr crs)
    let ?p = "hydrate (GetPipelineConfig_m X) (canary_version (crMap crs) ConfigTypePipeline match)"
    let ?i = "hydrate (GetInstanceConfig_m X) (canary_version (crMap crs) ConfigTypeInstance match)"
    let ?o = "hydrate (GetOnetimeCommand_m X) (\<lambda>_ cmd. cmd)"
    obtain q2 m2 where p: "?p (set_pipeline aset) m1 = (q2, m2)" by fastforce
    note P = hydrate_ok [OF reader_pipeline steady_coherent [OF conjunct1 [OF C]] p]
    obtain q3 m3 where i: "?i (set_instance aset) m2 = (q3, m3)" by fastforce
    note I = hydrate_ok [OF reader_instance steady_coherent [OF conjunct1 [OF P]] i]
    obtain q4 m4 where o: "?o (set_onetime aset) m3 = (q4, m4)" by fastforce
    note O = hydrate_ok [OF reader_onetime steady_coherent [OF conjunct1 [OF I]] o]
    have t: "tabs (m_db m1) = tabs (m_db m)" "tabs (m_db m2) = tabs (m_db m)" "tabs (m_db m3) = tabs (m_db m)"
      using C P I by (simp_all add: steady_def)
    have std: "std A m m1" "std A m m2" "std A m m3" "std A m m4"
      using C P I O by (simp_all add: steady_def)
    have b: "hydrateAgentConfigSet X aset match m =
       (case q2 of Inl e \<Rightarrow> (Inl e, m2) | Inr ps \<Rightarrow>
        case q3 of Inl e \<Rightarrow> (Inl e, m3) | Inr xs \<Rightarrow>
        case q4 of Inl e \<Rightarrow> (Inl e, m4) | Inr os \<Rightarrow> (Inr (ps, xs, os), m4))"
      using c Inr p i o by (simp add: hydrateAgentConfigSet_def bindr_def Let_def retr_def split: sum.splits)
    have crs: "set crs = rolling_canaries (tabs (m_db m))" using C Inr by simp
    show ?thesis
    proof (cases "\<exists>ps xs os. q2 = Inr ps \<and> q3 = Inr xs \<and> q4 = Inr os")
      case False
      with b h std show ?thesis by (auto split: sum.splits)
    next
      case True
      then obtain ps xs os where q: "q2 = Inr ps" "q3 = Inr xs" "q4 = Inr os" by blast
      have r: "r = Inr (ps, xs, os)" "m' = m4" using b h q by simp_all
      have "set os = {with_version c | n c. n \<in> set (set_onetime aset) \<and> onetime_at (tabs (m_db m)) n = Some c}"
        using O q(3) t(3) by auto
      then show ?thesis using std(4) crs P I q t r by auto
    qed
  qed
qed

lemma canary_version_effective:
  assumes "set crs = rolling_canaries (tabs d)" and "plain_names (tabs d)" and "cf_name c = n"
  shows "canary_version (crMap crs) ct match n c = effective (tabs d) match ct c"
proof -
  have "canary_version (crMap crs) ct match n c = (case crMap crs (canary_key (cf_name c) ct) of
     None \<Rightarrow> c | Some cr \<Rightarrow> if CanaryEligible cr match (cf_name c) = Inr True then overlaid cr c else c)"
    using assms(3) by (auto simp: canary_version_def split: option.splits sum.splits)
  also have "\<dots> = effective (tabs d) match ct c"
    by (rule crMap_effective) (rule crMap_rolling [OF assms(1,2) well_keyed_tabs])
  finally show ?thesis .
qed

text \<open>The names of a resolution are those of the rows.\<close>

lemma resolution_names:
  assumes "GetConfigsForAgent (gorm X) match d = (Inr cfgs, d')"
  shows "resolved (tabs d) match (names_of cfgs)"
proof -
  obtain ps xs os ps' xs' crs d5 where f: "tabs d5 = tabs d" "tabs d' = tabs d"
    "set ps = {c. has (tabs d) (RPipeline c) \<and> assigned (tabs d) match ConfigTypePipeline (cf_name c)}"
    "set xs = {c. has (tabs d) (RInstance c) \<and> assigned (tabs d) match ConfigTypeInstance (cf_name c)}"
    "set os = {c. has (tabs d) (ROnetime c) \<and> assigned (tabs d) match ConfigTypeOnetime (oc_name c)}"
    and o: "canary_overlay crs match ps xs = Inr (ps', xs')" "cfgs = (ps', xs', os)"
    by (rule GetConfigsForAgent_parts [OF assms])
  have at: "pipeline_at (tabs d) n = Some c \<longleftrightarrow> has (tabs d) (RPipeline c) \<and> cf_name c = n"
      "instance_at (tabs d) n = Some c \<longleftrightarrow> has (tabs d) (RInstance c) \<and> cf_name c = n"
      "onetime_at (tabs d) n = Some c1 \<longleftrightarrow> has (tabs d) (ROnetime c1) \<and> oc_name c1 = n" for n c c1
    by (simp_all add: row_at_tabs [OF projects_table(3)] row_at_tabs [OF projects_table(4)]
        row_at_tabs [OF projects_table(5)])
  show ?thesis
    unfolding resolved_def o(2) names_of_def
    using canary_overlay_names [OF o(1)] f(3-5) by (auto simp: at image_iff)
qed


lemma coherent_mono: "coh A m \<Longrightarrow> A \<subseteq> B \<Longrightarrow> coh B m"
  unfolding coherent_def resolve_entry_ok_def by (intro conjI) blast+

end

text \<open>What an agent is given: the specification of the store, each command with its version.\<close>

definition delivered_spec :: "tables \<Rightarrow> AgentMatchContext \<Rightarrow> agent_configs \<Rightarrow> bool" where
  "delivered_spec t match out \<longleftrightarrow> (case out of (ps, xs, os) \<Rightarrow>
     set ps = {effective t match ConfigTypePipeline c | c.
       has t (RPipeline c) \<and> assigned t match ConfigTypePipeline (cf_name c)} \<and>
     set xs = {effective t match ConfigTypeInstance c | c.
       has t (RInstance c) \<and> assigned t match ConfigTypeInstance (cf_name c)} \<and>
     set os = {with_version c | c. has t (ROnetime c) \<and> assigned t match ConfigTypeOnetime (oc_name c)})"

context cached_manager
begin

lemma config_rows:
  "pipeline_at (tabs d) n = Some c \<longleftrightarrow> has (tabs d) (RPipeline c) \<and> cf_name c = n"
  "instance_at (tabs d) n = Some c \<longleftrightarrow> has (tabs d) (RInstance c) \<and> cf_name c = n"
  "onetime_at (tabs d) n = Some c1 \<longleftrightarrow> has (tabs d) (ROnetime c1) \<and> oc_name c1 = n"
  by (simp_all add: row_at_tabs [OF projects_table(3)] row_at_tabs [OF projects_table(4)]
      row_at_tabs [OF projects_table(5)])

lemma hydrated_delivered:
  assumes "coh A m" and "hydrateAgentConfigSet X aset match m = (Inr out, m')"
    and "resolved (tabs (m_db m)) match aset" and "plain_names (tabs (m_db m))"
  shows "delivered_spec (tabs (m_db m)) match out"
proof -
  obtain ps xs os where out: "out = (ps, xs, os)" by (cases out)
  let ?t = "tabs (m_db m)"
  from hydrate_set_ok [OF assms(1) assms(2)] out obtain crs where
    crs: "set crs = rolling_canaries ?t"
    and h: "set ps = {canary_version (crMap crs) ConfigTypePipeline match n c | n c.
        n \<in> set (set_pipeline aset) \<and> pipeline_at ?t n = Some c}"
      "set xs = {canary_version (crMap crs) ConfigTypeInstance match n c | n c.
        n \<in> set (set_instance aset) \<and> instance_at ?t n = Some c}"
      "set os = {with_version c | n c. n \<in> set (set_onetime aset) \<and> onetime_at ?t n = Some c}"
    by auto
  note ver = canary_version_effective [OF crs assms(4)]
  have "set ps = {effective ?t match ConfigTypePipeline c | c.
       has ?t (RPipeline c) \<and> assigned ?t match ConfigTypePipeline (cf_name c)}"
    unfolding h(1) using assms(3) by (force simp: resolved_def config_rows ver)
  moreover have "set xs = {effective ?t match ConfigTypeInstance c | c.
       has ?t (RInstance c) \<and> assigned ?t match ConfigTypeInstance (cf_name c)}"
    unfolding h(2) using assms(3) by (force simp: resolved_def config_rows ver)
  moreover have "set os = {with_version c | c.
      has ?t (ROnetime c) \<and> assigned ?t match ConfigTypeOnetime (oc_name c)}"
    unfolding h(3) using assms(3) by (force simp: resolved_def config_rows)
  ultimately show ?thesis by (simp add: delivered_spec_def out)
qed

lemma GetConfigsForAgent_m_ok:
  assumes m: "coh A m" and g: "GetConfigsForAgent_m X match m = (r, m')"
  shows "std (insert match A) m m' \<and> (\<forall>out. r = Inr out \<longrightarrow> collision_free (insert match A) \<longrightarrow>
    plain_names (tabs (m_db m)) \<longrightarrow> delivered_spec (tabs (m_db m)) match out)"
proof -
  let ?key = "resolveAgentKey match m" and ?B = "insert match A"
  have mB: "coh ?B m" using coherent_mono [OF m] by blast
  obtain q m1 where t: "resolve_get X decode_set ?key m = (q, m1)" by fastforce
  note T = resolve_get_ok [OF mB t]
  have m1: "coh ?B m1" "tabs (m_db m1) = tabs (m_db m)" "m_epoch m1 = m_epoch m"
    using T by (simp_all add: steady_def)
  show ?thesis
  proof (cases q)
    case (Some aset)
    from g t Some have h: "hydrateAgentConfigSet X aset match m1 = (r, m')"
      by (simp add: GetConfigsForAgent_m_def)
    note H = hydrate_set_ok [OF m1(1) h]
    have "delivered_spec (tabs (m_db m)) match out"
      if r: "r = Inr out" and cf: "collision_free ?B" and pn: "plain_names (tabs (m_db m))" for out
    proof -
      obtain b where "resolve_entry_ok (tabs (m_db m)) (m_epoch m) A ?key b" "decode_set b = Some aset"
        using resolve_get_ok [OF m t] Some by auto
      then obtain match' where a: "match' \<in> A" "resolved (tabs (m_db m)) match' aset"
        "fnv64a (match_bytes match') = fnv64a (match_bytes match)"
        by (auto simp: resolve_entry_ok_def resolveAgentKey_def)
      then have "same_identity match' match" using cf by (simp add: collision_free_def)
      with a(2) have "resolved (tabs (m_db m1)) match aset"
        using same_identity_resolved m1(2) by simp
      from hydrated_delivered [OF m1(1) h [unfolded r] this] pn m1(2) show ?thesis by simp
    qed
    with H m1 show ?thesis by (auto simp: steady_def)
  next
    case None
    obtain s m2 where d: "on_db (GetConfigsForAgent (gorm X) match) m1 = (s, m2)" by fastforce
    note D = on_db_steady [OF m1(1) keeps_GetConfigsForAgent d]
    show ?thesis
    proof (cases s)
      case (Inl e)
      with None g t d D m1 show ?thesis by (auto simp: GetConfigsForAgent_m_def steady_def)
    next
      case (Inr cfgs)
      let ?m3 = "resolve_set X ?key (JSet (names_of cfgs)) resolveTTL m2"
      from g t None d Inr have h: "hydrateAgentConfigSet X (names_of cfgs) match ?m3 = (r, m')"
        by (simp add: GetConfigsForAgent_m_def)
      have m2: "coh ?B m2" "tabs (m_db m2) = tabs (m_db m)" "m_epoch m2 = m_epoch m"
        using D(1) m1 by (simp_all add: steady_def)
      have rs: "resolved (tabs (m_db m)) match (names_of cfgs)"
        using resolution_names [of match "m_db m1" cfgs "m_db m2"] D(2) Inr m1(2) by simp
      then have "resolve_entry_ok (tabs (m_db m2)) (m_epoch m2) ?B ?key (JSet (names_of cfgs))"
        unfolding resolve_entry_ok_def resolveAgentKey_def m2(2,3) by blast
      from resolve_set_ok [OF m2(1) this] m2 have m3: "coh ?B ?m3" "tabs (m_db ?m3) = tabs (m_db m)"
        "m_epoch ?m3 = m_epoch m" by (simp_all add: steady_def)
      have "delivered_spec (tabs (m_db m)) match out"
        if r: "r = Inr out" and pn: "plain_names (tabs (m_db m))" for out
        using hydrated_delivered [OF m3(1) h [unfolded r]] rs pn m3(2) by simp
      with hydrate_set_ok [OF m3(1) h] m3 show ?thesis by (auto simp: steady_def)
    qed
  qed
qed

end

end
