(* ===== verification/Manager_Coherence.thy ===== *)
theory Manager_Coherence
  imports Manager_Laws
begin

section \<open>Every history of operations keeps the caches coherent\<close>

text \<open>
  The writes of the manager, then runs: \<open>mgr_op\<close> lists the operations, \<open>run_ops\<close> performs
  them one after the other, and the invariant \<open>coherent\<close> holds after each. The properties
  say what that means for the readers.
\<close>

subsection \<open>Writes\<close>

text \<open>What is left of the invariant when the tables change under the caches.\<close>

definition l1_ok :: "('f \<Rightarrow> string \<rightharpoonup> blob) \<Rightarrow> tables \<Rightarrow> 'f \<Rightarrow> bool" where
  "l1_ok view t f \<longleftrightarrow> (\<forall>k b. view f k = Some b \<longrightarrow> l1_entry_ok t k b)"

definition resolve_ok ::
  "('f \<Rightarrow> string \<rightharpoonup> blob) \<Rightarrow> tables \<Rightarrow> 64 word \<Rightarrow> AgentMatchContext set \<Rightarrow> 'f \<Rightarrow> bool" where
  "resolve_ok view t ep A f \<longleftrightarrow> (\<forall>k b. view f k = Some b \<longrightarrow> resolve_entry_ok t ep A k b)"

lemma coherent_parts:
  "coherent tabs view A m \<longleftrightarrow> m_rdb m = None \<and> l1_ok view (tabs (m_db m)) (m_l1 m) \<and>
     resolve_ok view (tabs (m_db m)) (m_epoch m) A (m_resolve m)"
  by (simp add: coherent_def l1_ok_def resolve_ok_def)

lemma resolve_entry_transfer:
  assumes "resolve_entry_ok t ep A k b" and "rolling_canaries t' = rolling_canaries t"
    and "\<And>match s. resolved t match s \<Longrightarrow> resolved t' match s"
  shows "resolve_entry_ok t' ep A k b"
  using assms unfolding resolve_entry_ok_def by metis

text \<open>After a bump of the epoch no entry is of the current epoch.\<close>

lemma unat_succ: "(ep :: 64 word) \<noteq> - 1 \<Longrightarrow> unat (ep + 1) = Suc (unat ep)"
  by (metis unatSuc add.commute add_eq_0_iff)

lemma word_less_succ: "(ep :: 64 word) \<noteq> - 1 \<Longrightarrow> e \<le> ep \<Longrightarrow> e < ep + 1"
  by (simp add: word_less_nat_alt word_le_nat_alt unat_succ)

lemma resolve_entry_bump:
  assumes "resolve_entry_ok t ep A k b" and "k \<noteq> keyResolveCanaries" and "ep \<noteq> - 1"
  shows "resolve_entry_ok t' (ep + 1) A k b"
  using assms word_less_succ [OF assms(3)] unfolding resolve_entry_ok_def
  by (metis order.strict_implies_not_eq order_less_imp_le)

context cached_manager
begin

lemma bump_ok:
  assumes "m_rdb m = None" and "l1_ok view (tabs (m_db m)) (m_l1 m)"
    and "resolve_ok view t (m_epoch m) A (m_resolve m)" and "m_epoch m \<noteq> - 1"
  shows "coh A (invalidateResolveCache X m)"
proof -
  have "resolve_ok view (tabs (m_db m)) (m_epoch m + 1) A (fc_del X keyResolveCanaries (m_resolve m))"
    using assms(3,4) del_view unfolding resolve_ok_def by (metis resolve_entry_bump)
  with assms(1,2) show ?thesis
    by (simp add: coherent_parts invalidateResolveCache_def bump_resolve_def Let_def)
qed

lemma l1_del_ok:
  assumes "l1_ok view t (m_l1 m)" and "\<And>k b. k \<noteq> key \<Longrightarrow> l1_entry_ok t k b \<Longrightarrow> l1_entry_ok t' k b"
  shows "l1_ok view t' (m_l1 (l1Del X key m))"
  using assms del_view [of key "m_l1 m"] by (auto simp: l1_ok_def l1Del_def)

lemma invalidate_local: "m_rdb m = None \<Longrightarrow> invalidate X key m = l1Del X key m"
  by (simp add: invalidate_def l1Del_def Let_def)

text \<open>
  A write that succeeds leaves the new tables \<open>t'\<close> under the old caches; what follows it must
  restore the invariant. One that fails changes nothing.
\<close>

lemma and_then_coherent:
  assumes m: "coh A m" and w: "confined tabs K w"
    and ok: "\<And>d' u. w (m_db m) = (Inr u, d') \<Longrightarrow> frame K (tabs (m_db m)) (tabs d') \<Longrightarrow>
      coh A (after (m\<lparr>m_db := d'\<rparr>))"
  shows "coh A (snd (and_then w after m))"
proof (cases "w (m_db m)")
  case (Pair r d')
  with w have d': "frame K (tabs (m_db m)) (tabs d')" "(\<exists>e. r = Inl e) \<longrightarrow> tabs d' = tabs (m_db m)"
    by (auto simp: confined_def)
  show ?thesis
  proof (cases r)
    case (Inl e)
    with Pair d' m show ?thesis by (simp add: and_then_def on_db_def coherent_def)
  next
    case (Inr u)
    with Pair ok d' show ?thesis by (simp add: and_then_def on_db_def)
  qed
qed

lemma l1_frame:
  assumes "frame K t t'" and "K \<inter> {TPipeline, TInstance, TOnetime} = {}"
  shows "l1_entry_ok t' k b = l1_entry_ok t k b"
  using assms by (auto simp: l1_entry_ok_def frame_row_at [OF assms(1)])

text \<open>Writes to groups, tags, mappings and canaries: a new epoch.\<close>

lemma structural_coherent:
  assumes "coh A m" and "confined tabs K w" and "K \<inter> {TPipeline, TInstance, TOnetime} = {}"
    and "m_epoch m \<noteq> - 1"
  shows "coh A (snd (and_then w (invalidateResolveCache X) m))"
proof (rule and_then_coherent [OF assms(1,2)])
  fix d' u assume f: "frame K (tabs (m_db m)) (tabs d')"
  show "coh A (invalidateResolveCache X (m\<lparr>m_db := d'\<rparr>))"
    using assms(1,4) l1_frame [OF f assms(3)]
    by (intro bump_ok [where t = "tabs (m_db m)"]) (simp_all add: coherent_parts l1_ok_def)
qed

text \<open>Writes to one configuration that also bump the epoch.\<close>

lemma drop_and_bump_coherent:
  assumes "coh A m" and "confined tabs K w" and "m_epoch m \<noteq> - 1"
    and l1: "\<And>d' u k b. w (m_db m) = (Inr u, d') \<Longrightarrow> frame K (tabs (m_db m)) (tabs d') \<Longrightarrow> k \<noteq> key \<Longrightarrow>
      l1_entry_ok (tabs (m_db m)) k b \<Longrightarrow> l1_entry_ok (tabs d') k b"
  shows "coh A (snd (and_then w (\<lambda>m. invalidateResolveCache X (invalidate X key m)) m))"
proof (rule and_then_coherent [OF assms(1,2)])
  fix d' u assume w: "w (m_db m) = (Inr u, d')" and f: "frame K (tabs (m_db m)) (tabs d')"
  let ?m = "l1Del X key (m\<lparr>m_db := d'\<rparr>)"
  have "l1_ok view (tabs (m_db ?m)) (m_l1 ?m)"
    using l1_del_ok [of "tabs (m_db m)" "m\<lparr>m_db := d'\<rparr>" key "tabs d'"] assms(1) l1 [OF w f]
    by (simp add: coherent_parts l1Del_def)
  then have "coh A (invalidateResolveCache X ?m)"
    using assms(1,3) by (intro bump_ok [where t = "tabs (m_db m)"]) (simp_all add: coherent_parts l1Del_def)
  then show "coh A (invalidateResolveCache X (invalidate X key (m\<lparr>m_db := d'\<rparr>)))"
    using assms(1) by (simp add: invalidate_local coherent_parts)
qed

text \<open>Writes to one configuration that do not: resolution must be unaffected.\<close>

lemma drop_coherent:
  assumes "coh A m" and "confined tabs K w" and "TCanary \<notin> K"
    and l1: "\<And>d' u k b. w (m_db m) = (Inr u, d') \<Longrightarrow> frame K (tabs (m_db m)) (tabs d') \<Longrightarrow> k \<noteq> key \<Longrightarrow>
      l1_entry_ok (tabs (m_db m)) k b \<Longrightarrow> l1_entry_ok (tabs d') k b"
    and res: "\<And>d' u match s. w (m_db m) = (Inr u, d') \<Longrightarrow> frame K (tabs (m_db m)) (tabs d') \<Longrightarrow>
      resolved (tabs (m_db m)) match s \<Longrightarrow> resolved (tabs d') match s"
  shows "coh A (snd (and_then w (invalidate X key) m))"
proof (rule and_then_coherent [OF assms(1,2)])
  fix d' u assume w: "w (m_db m) = (Inr u, d')" and f: "frame K (tabs (m_db m)) (tabs d')"
  let ?m = "l1Del X key (m\<lparr>m_db := d'\<rparr>)"
  have "l1_ok view (tabs (m_db ?m)) (m_l1 ?m)"
    using l1_del_ok [of "tabs (m_db m)" "m\<lparr>m_db := d'\<rparr>" key "tabs d'"] assms(1) l1 [OF w f]
    by (simp add: coherent_parts l1Del_def)
  moreover have "resolve_ok view (tabs d') (m_epoch m) A (m_resolve m)"
    using assms(1) resolve_entry_transfer [OF _ frame_rolling [OF f assms(3)] res [OF w f]]
    by (auto simp: coherent_parts resolve_ok_def)
  ultimately show "coh A (invalidate X key (m\<lparr>m_db := d'\<rparr>))"
    using assms(1) by (simp add: invalidate_local coherent_parts l1Del_def)
qed

text \<open>Writes to what is not cached.\<close>

lemma uncached_coherent:
  assumes "coh A m" and "confined tabs K w"
    and K: "K \<inter> {TGroup, TTag, TPipeline, TInstance, TOnetime, TMapping, TCanary} = {}"
  shows "coh A (snd (on_db w m))"
proof (cases "w (m_db m)")
  case (Pair r d')
  with assms(2) have f: "frame K (tabs (m_db m)) (tabs d')" by (auto simp: confined_def)
  have "resolved (tabs (m_db m)) match s \<Longrightarrow> resolved (tabs d') match s" for match s
    using K by (simp add: resolved_def frame_row_at [OF f] frame_assigned [OF f])
  moreover have "rolling_canaries (tabs d') = rolling_canaries (tabs (m_db m))"
    using frame_rolling [OF f] K by simp
  ultimately have "resolve_ok view (tabs d') (m_epoch m) A (m_resolve m)"
    using assms(1) resolve_entry_transfer unfolding coherent_parts resolve_ok_def by metis
  moreover have "l1_entry_ok (tabs d') k b = l1_entry_ok (tabs (m_db m)) k b" for k b
    using l1_frame [OF f] K by simp
  ultimately show ?thesis
    using assms(1) Pair by (simp add: coherent_parts l1_ok_def on_db_def)
qed

end

subsection \<open>Operations and histories\<close>

datatype mgr_op =
    ReadPipeline string
  | ReadInstance string
  | ReadOnetime string
  | Resolve AgentMatchContext
  | CreateGroupOp AgentGroup
  | UpdateGroupOp AgentGroup
  | DeleteGroupOp string
  | SetGroupTagsOp string "AgentGroupTag list"
  | AddGroupConfigOp GroupConfigMapping
  | RemoveGroupConfigOp string string string
  | CreatePipelineOp config_row
  | UpdatePipelineOp time config_row
  | DeletePipelineOp string
  | CreateInstanceOp config_row
  | UpdateInstanceOp time config_row
  | DeleteInstanceOp string
  | CreateOnetimeOp time OnetimeCommand
  | DeleteOnetimeOp string
  | CreateCanaryOp CanaryRelease
  | UpdateCanaryOp CanaryRelease
  | DeleteCanaryOp string string
  | CreateUserOp User
  | UpdateUserOp User
  | DeleteUserOp string
  | CreateRoleOp Role
  | UpdateRoleOp Role
  | DeleteRoleOp string
  | SetRolePermissionsOp string "RolePermission list"
  | SaveHistoryOp ConfigHistory
  | AuditOp AuditLog
  | UpsertAgentOp Agent
  | UpsertStatusOp time AgentConfigStatus
  | EvictOp time

fun run_op :: "('d, 'f, 'r) services \<Rightarrow> mgr_op \<Rightarrow> ('d, 'f, 'r) mgr \<Rightarrow> ('d, 'f, 'r) mgr" where
  "run_op X (ReadPipeline n) m = snd (GetPipelineConfig_m X n m)"
| "run_op X (ReadInstance n) m = snd (GetInstanceConfig_m X n m)"
| "run_op X (ReadOnetime n) m = snd (GetOnetimeCommand_m X n m)"
| "run_op X (Resolve a) m = snd (GetConfigsForAgent_m X a m)"
| "run_op X (CreateGroupOp g) m = snd (CreateGroup_m X g m)"
| "run_op X (UpdateGroupOp g) m = snd (UpdateGroup_m X g m)"
| "run_op X (DeleteGroupOp n) m = snd (DeleteGroup_m X n m)"
| "run_op X (SetGroupTagsOp n ts) m = snd (SetGroupTags_m X n ts m)"
| "run_op X (AddGroupConfigOp mp) m = snd (AddGroupConfig_m X mp m)"
| "run_op X (RemoveGroupConfigOp g n ct) m = snd (RemoveGroupConfig_m X g n ct m)"
| "run_op X (CreatePipelineOp c) m = snd (CreatePipelineConfig_m X c m)"
| "run_op X (UpdatePipelineOp now c) m = snd (UpdatePipelineConfig_m X now c m)"
| "run_op X (DeletePipelineOp n) m = snd (DeletePipelineConfig_m X n m)"
| "run_op X (CreateInstanceOp c) m = snd (CreateInstanceConfig_m X c m)"
| "run_op X (UpdateInstanceOp now c) m = snd (UpdateInstanceConfig_m X now c m)"
| "run_op X (DeleteInstanceOp n) m = snd (DeleteInstanceConfig_m X n m)"
| "run_op X (CreateOnetimeOp now c) m = snd (CreateOnetimeCommand_m X now c m)"
| "run_op X (DeleteOnetimeOp n) m = snd (DeleteOnetimeCommand_m X n m)"
| "run_op X (CreateCanaryOp cr) m = snd (CreateCanary_m X cr m)"
| "run_op X (UpdateCanaryOp cr) m = snd (UpdateCanary_m X cr m)"
| "run_op X (DeleteCanaryOp n ct) m = snd (DeleteCanary_m X n ct m)"
| "run_op X (CreateUserOp u) m = snd (CreateUser_m X u m)"
| "run_op X (UpdateUserOp u) m = snd (UpdateUser_m X u m)"
| "run_op X (DeleteUserOp n) m = snd (DeleteUser_m X n m)"
| "run_op X (CreateRoleOp r) m = snd (CreateRole_m X r m)"
| "run_op X (UpdateRoleOp r) m = snd (UpdateRole_m X r m)"
| "run_op X (DeleteRoleOp n) m = snd (DeleteRole_m X n m)"
| "run_op X (SetRolePermissionsOp n ps) m = snd (SetRolePermissions_m X n ps m)"
| "run_op X (SaveHistoryOp h) m = snd (SaveConfigHistory_m X h m)"
| "run_op X (AuditOp a) m = snd (CreateAuditLog_m X a m)"
| "run_op X (UpsertAgentOp a) m = snd (UpsertAgent_m X a m)"
| "run_op X (UpsertStatusOp now st) m = snd (UpsertAgentConfigStatus_m X now st m)"
| "run_op X (EvictOp now) m = evictStaleAgents X now m"

fun run_ops :: "('d, 'f, 'r) services \<Rightarrow> mgr_op list \<Rightarrow> ('d, 'f, 'r) mgr \<Rightarrow> ('d, 'f, 'r) mgr" where
  "run_ops X [] m = m"
| "run_ops X (q # qs) m = run_ops X qs (run_op X q m)"

text \<open>Who asks, and when an operation is safe: a configuration is created before it is mapped.\<close>

fun asks :: "mgr_op \<Rightarrow> AgentMatchContext set" where
  "asks (Resolve a) = {a}"
| "asks _ = {}"

fun op_safe :: "tables \<Rightarrow> mgr_op \<Rightarrow> bool" where
  "op_safe t (CreatePipelineOp c) \<longleftrightarrow> (\<forall>g. \<not> mapped t g (cf_name c) ConfigTypePipeline)"
| "op_safe t (CreateInstanceOp c) \<longleftrightarrow> (\<forall>g. \<not> mapped t g (cf_name c) ConfigTypeInstance)"
| "op_safe t _ \<longleftrightarrow> True"

fun ops_safe :: "('d, 'f, 'r) services \<Rightarrow> ('d \<Rightarrow> tables) \<Rightarrow> mgr_op list \<Rightarrow> ('d, 'f, 'r) mgr \<Rightarrow> bool" where
  "ops_safe X tabs [] m \<longleftrightarrow> True"
| "ops_safe X tabs (q # qs) m \<longleftrightarrow> op_safe (tabs (m_db m)) q \<and> ops_safe X tabs qs (run_op X q m)"

definition askers :: "mgr_op list \<Rightarrow> AgentMatchContext set" where
  "askers qs = (\<Union>q \<in> set qs. asks q)"

text \<open>The epoch grows by at most one.\<close>

definition epoch_step :: "('d, 'f, 'r) mgr \<Rightarrow> ('d, 'f, 'r) mgr \<Rightarrow> bool" where
  "epoch_step m m' \<longleftrightarrow> m_epoch m' = m_epoch m \<or> m_epoch m' = m_epoch m + 1"

lemma on_redis_epoch: "on_redis X c m = (r, m') \<Longrightarrow> m_epoch m' = m_epoch m"
  by (auto simp: on_redis_def split: option.splits prod.splits)

lemma redis_do_epoch [simp]: "m_epoch (redis_do X c m) = m_epoch m"
  using on_redis_epoch by (metis prod.collapse redis_do_def)

lemma invalidate_epoch [simp]: "m_epoch (invalidate X key m) = m_epoch m"
  by (auto simp: invalidate_def l1Del_def Let_def dest: on_redis_epoch split: option.splits prod.splits sum.splits)

lemma invalidate_resolve_epoch [simp]: "m_epoch (invalidateResolveCache X m) = m_epoch m + 1"
  by (simp add: invalidateResolveCache_def bump_resolve_def Let_def split: option.splits)

lemma and_then_epoch:
  "(\<And>m. epoch_step m (after m)) \<Longrightarrow> epoch_step m (snd (and_then w after m))"
  unfolding and_then_def on_db_def epoch_step_def
  by (auto split: prod.splits sum.splits) (metis mgr.select_convs(8) mgr.surjective mgr.update_convs(1))

lemma on_db_epoch [simp]: "m_epoch (snd (on_db w m)) = m_epoch m"
  by (simp add: on_db_def split: prod.splits)

text \<open>The registry's operations do not touch the caches.\<close>

definition cache_part where
  "cache_part m = (m_rdb m, m_db m, m_l1 m, m_resolve m, m_epoch m)"

lemma coherent_cache_part:
  "cache_part m' = cache_part m \<Longrightarrow> coherent tabs view A m' = coherent tabs view A m"
  by (simp add: cache_part_def coherent_def)

lemma cache_part_purge [simp]: "cache_part (purge_statuses p m) = cache_part m"
  by (simp add: cache_part_def purge_statuses_def)

lemma cache_part_register [simp]: "cache_part (register a m) = cache_part m"
  by (simp add: register_def evictOldestAgentLocked_def Let_def cache_part_def purge_statuses_def
      split: option.splits)

lemma cache_part_drop [simp]: "cache_part (drop_agents ids m) = cache_part m"
  by (induction ids arbitrary: m) (simp_all add: Let_def cache_part_def)

lemma cache_part_purge_all [simp]: "cache_part (purge_all ids m) = cache_part m"
  by (induction ids arbitrary: m) simp_all

lemma cache_part_put [simp]: "cache_part (put_status st m) = cache_part m"
  by (simp add: put_status_def Let_def cache_part_def)

lemma registry_cache_part:
  assumes "m_rdb m = None"
  shows "cache_part (snd (UpsertAgent_m X a m)) = cache_part m"
    and "cache_part (snd (UpsertAgentConfigStatus_m X now st m)) = cache_part m"
    and "cache_part (evictStaleAgents X now m) = cache_part m"
proof -
  have none: "cache_part m' = cache_part m \<Longrightarrow> m_rdb m' = None" for m'
    using assms by (simp add: cache_part_def)
  show "cache_part (snd (UpsertAgent_m X a m)) = cache_part m"
    using none [OF cache_part_register] by (simp add: UpsertAgent_m_def Let_def)
  show "cache_part (snd (UpsertAgentConfigStatus_m X now st m)) = cache_part m"
    using none [OF cache_part_put] by (simp add: UpsertAgentConfigStatus_m_def Let_def)
  have "cache_part (purge_all ids (drop_agents ids m)) = cache_part m" for ids by simp
  from none [OF this] show "cache_part (evictStaleAgents X now m) = cache_part m"
    by (simp add: evictStaleAgents_def Let_def)
qed

lemma run_op_epoch_step:
  "(\<forall>n. q \<noteq> ReadPipeline n) \<Longrightarrow> (\<forall>n. q \<noteq> ReadInstance n) \<Longrightarrow> (\<forall>n. q \<noteq> ReadOnetime n) \<Longrightarrow>
   (\<forall>a. q \<noteq> Resolve a) \<Longrightarrow> m_rdb m = None \<Longrightarrow> epoch_step m (run_op X q m)"
  using registry_cache_part [of m]
  by (cases q)
    (auto simp: CreateGroup_m_def UpdateGroup_m_def DeleteGroup_m_def SetGroupTags_m_def AddGroupConfig_m_def
      RemoveGroupConfig_m_def CreatePipelineConfig_m_def UpdatePipelineConfig_m_def DeletePipelineConfig_m_def
      CreateInstanceConfig_m_def UpdateInstanceConfig_m_def DeleteInstanceConfig_m_def
      CreateOnetimeCommand_m_def DeleteOnetimeCommand_m_def CreateCanary_m_def UpdateCanary_m_def
      DeleteCanary_m_def InvalidatePipelineConfig_def InvalidateInstanceConfig_def Let_def
      CreateUser_m_def UpdateUser_m_def DeleteUser_m_def CreateRole_m_def UpdateRole_m_def DeleteRole_m_def
      SetRolePermissions_m_def SaveConfigHistory_m_def CreateAuditLog_m_def cache_part_def
      epoch_step_def [of m, symmetric] intro!: and_then_epoch | simp add: epoch_step_def)+

context cached_manager
begin

text \<open>Entries of L1 under other keys survive a write to one configuration.\<close>

lemma l1_pipeline_others:
  assumes "frame K t t'" "TInstance \<notin> K" "TOnetime \<notin> K"
    and "\<And>m. m \<noteq> n \<Longrightarrow> pipeline_at t' m = pipeline_at t m"
    and "k \<noteq> prefixPipeline @ n" "l1_entry_ok t k b"
  shows "l1_entry_ok t' k b"
  using assms(4-6) by (auto simp: l1_entry_ok_def frame_row_at [OF assms(1)] assms(2,3))

lemma l1_instance_others:
  assumes "frame K t t'" "TPipeline \<notin> K" "TOnetime \<notin> K"
    and "\<And>m. m \<noteq> n \<Longrightarrow> instance_at t' m = instance_at t m"
    and "k \<noteq> prefixInstance @ n" "l1_entry_ok t k b"
  shows "l1_entry_ok t' k b"
  using assms(4-6) by (auto simp: l1_entry_ok_def frame_row_at [OF assms(1)] assms(2,3))

lemma l1_onetime_others:
  assumes "frame K t t'" "TPipeline \<notin> K" "TInstance \<notin> K"
    and "\<And>m. m \<noteq> n \<Longrightarrow> onetime_at t' m = onetime_at t m"
    and "k \<noteq> prefixOnetime @ n" "l1_entry_ok t k b"
  shows "l1_entry_ok t' k b"
  using assms(4-6) by (auto simp: l1_entry_ok_def frame_row_at [OF assms(1)] assms(2,3))

text \<open>Resolution survives if the same names exist, or the new name is mapped nowhere.\<close>

lemma resolved_transfer:
  assumes "frame K t t'" "TGroup \<notin> K" "TTag \<notin> K" "TMapping \<notin> K"
    and "\<And>n. assigned t match ConfigTypePipeline n \<Longrightarrow>
      (pipeline_at t' n \<noteq> None) = (pipeline_at t n \<noteq> None)"
    and "\<And>n. assigned t match ConfigTypeInstance n \<Longrightarrow>
      (instance_at t' n \<noteq> None) = (instance_at t n \<noteq> None)"
    and "TOnetime \<notin> K" and "resolved t match s"
  shows "resolved t' match s"
proof -
  have "{n. pipeline_at t' n \<noteq> None \<and> assigned t match ConfigTypePipeline n} =
      {n. pipeline_at t n \<noteq> None \<and> assigned t match ConfigTypePipeline n}"
    using assms(5) by blast
  moreover have "{n. instance_at t' n \<noteq> None \<and> assigned t match ConfigTypeInstance n} =
      {n. instance_at t n \<noteq> None \<and> assigned t match ConfigTypeInstance n}"
    using assms(6) by blast
  ultimately show ?thesis
    using assms(7,8) unfolding resolved_def frame_assigned [OF assms(1-4)]
    by (simp add: frame_row_at [OF assms(1)])
qed

lemma unmapped_unassigned: "(\<And>g. \<not> mapped t g n ct) \<Longrightarrow> \<not> assigned t m ct n"
  by (simp add: assigned_def)

lemma create_pipeline_coherent:
  assumes "coh A m" and "op_safe (tabs (m_db m)) (CreatePipelineOp c)"
  shows "coh A (run_op X (CreatePipelineOp c) m)"
  unfolding run_op.simps CreatePipelineConfig_m_def InvalidatePipelineConfig_def
proof (rule drop_coherent [OF assms(1) store_confined(7)])
  fix d' u assume "CreatePipelineConfig (gorm X) c (m_db m) = (Inr u, d')"
    and f: "frame {TPipeline} (tabs (m_db m)) (tabs d')"
  then obtain c' where "pipeline_at (tabs d') = (pipeline_at (tabs (m_db m)))(cf_name c \<mapsto> c')"
    using pipelines.create_ok by blast
  from fun_cong [OF this] have p: "pipeline_at (tabs d') x =
      (if x = cf_name c then Some c' else pipeline_at (tabs (m_db m)) x)" for x
    by simp
  show "k \<noteq> prefixPipeline @ cf_name c \<Longrightarrow> l1_entry_ok (tabs (m_db m)) k b \<Longrightarrow> l1_entry_ok (tabs d') k b" for k b
    by (rule l1_pipeline_others [OF f]) (simp_all add: p)
  have free: "\<not> assigned (tabs (m_db m)) a ConfigTypePipeline (cf_name c)" for a
    using assms(2) by (intro unmapped_unassigned) simp
  show "resolved (tabs (m_db m)) match s \<Longrightarrow> resolved (tabs d') match s" for match s
    by (rule resolved_transfer [OF f]) (use free in \<open>auto simp: p frame_row_at [OF f]\<close>)
qed simp

lemma create_instance_coherent:
  assumes "coh A m" and "op_safe (tabs (m_db m)) (CreateInstanceOp c)"
  shows "coh A (run_op X (CreateInstanceOp c) m)"
  unfolding run_op.simps CreateInstanceConfig_m_def InvalidateInstanceConfig_def
proof (rule drop_coherent [OF assms(1) store_confined(10)])
  fix d' u assume "CreateInstanceConfig (gorm X) c (m_db m) = (Inr u, d')"
    and f: "frame {TInstance} (tabs (m_db m)) (tabs d')"
  then obtain c' where "instance_at (tabs d') = (instance_at (tabs (m_db m)))(cf_name c \<mapsto> c')"
    using instances.create_ok by blast
  from fun_cong [OF this] have p: "instance_at (tabs d') x =
      (if x = cf_name c then Some c' else instance_at (tabs (m_db m)) x)" for x
    by simp
  show "k \<noteq> prefixInstance @ cf_name c \<Longrightarrow> l1_entry_ok (tabs (m_db m)) k b \<Longrightarrow> l1_entry_ok (tabs d') k b" for k b
    by (rule l1_instance_others [OF f]) (simp_all add: p)
  have free: "\<not> assigned (tabs (m_db m)) a ConfigTypeInstance (cf_name c)" for a
    using assms(2) by (intro unmapped_unassigned) simp
  show "resolved (tabs (m_db m)) match s \<Longrightarrow> resolved (tabs d') match s" for match s
    by (rule resolved_transfer [OF f]) (use free in \<open>auto simp: p frame_row_at [OF f]\<close>)
qed simp

lemma rel_option_None: "rel_option P a b \<Longrightarrow> (b \<noteq> None) = (a \<noteq> None)"
  by (cases a; cases b) auto

lemma update_pipeline_coherent:
  assumes "coh A m"
  shows "coh A (run_op X (UpdatePipelineOp now c) m)"
  unfolding run_op.simps UpdatePipelineConfig_m_def InvalidatePipelineConfig_def
proof (rule drop_coherent [OF assms(1) store_confined(8)])
  fix d' u assume "UpdatePipelineConfig (gorm X) now c (m_db m) = (Inr u, d')"
    and f: "frame {TPipeline} (tabs (m_db m)) (tabs d')"
  note p = pipelines.update_ok [OF this(1), rule_format]
  show "k \<noteq> prefixPipeline @ cf_name c \<Longrightarrow> l1_entry_ok (tabs (m_db m)) k b \<Longrightarrow> l1_entry_ok (tabs d') k b" for k b
    by (rule l1_pipeline_others [OF f]) (use p in \<open>auto split: if_splits\<close>)
  have "(pipeline_at (tabs d') n \<noteq> None) = (pipeline_at (tabs (m_db m)) n \<noteq> None)" for n
    using p [of n] by (cases "n = cf_name c") (simp_all add: rel_option_None del: not_None_eq)
  then show "resolved (tabs (m_db m)) match s \<Longrightarrow> resolved (tabs d') match s" for match s
    by (intro resolved_transfer [OF f]) (simp_all add: frame_row_at [OF f])
qed simp

lemma update_instance_coherent:
  assumes "coh A m"
  shows "coh A (run_op X (UpdateInstanceOp now c) m)"
  unfolding run_op.simps UpdateInstanceConfig_m_def InvalidateInstanceConfig_def
proof (rule drop_coherent [OF assms(1) store_confined(11)])
  fix d' u assume "UpdateInstanceConfig (gorm X) now c (m_db m) = (Inr u, d')"
    and f: "frame {TInstance} (tabs (m_db m)) (tabs d')"
  note p = instances.update_ok [OF this(1), rule_format]
  show "k \<noteq> prefixInstance @ cf_name c \<Longrightarrow> l1_entry_ok (tabs (m_db m)) k b \<Longrightarrow> l1_entry_ok (tabs d') k b" for k b
    by (rule l1_instance_others [OF f]) (use p in \<open>auto split: if_splits\<close>)
  have "(instance_at (tabs d') n \<noteq> None) = (instance_at (tabs (m_db m)) n \<noteq> None)" for n
    using p [of n] by (cases "n = cf_name c") (simp_all add: rel_option_None del: not_None_eq)
  then show "resolved (tabs (m_db m)) match s \<Longrightarrow> resolved (tabs d') match s" for match s
    by (intro resolved_transfer [OF f]) (simp_all add: frame_row_at [OF f])
qed simp

text \<open>What deleting or creating leaves of the other names.\<close>

lemma delete_others:
  "DeletePipelineConfig (gorm X) n d = (Inr u, d') \<Longrightarrow> x \<noteq> n \<Longrightarrow> pipeline_at (tabs d') x = pipeline_at (tabs d) x"
  "DeleteInstanceConfig (gorm X) n d = (Inr u, d') \<Longrightarrow> x \<noteq> n \<Longrightarrow> instance_at (tabs d') x = instance_at (tabs d) x"
  "DeleteOnetimeCommand (gorm X) n d = (Inr u, d') \<Longrightarrow> x \<noteq> n \<Longrightarrow> onetime_at (tabs d') x = onetime_at (tabs d) x"
proof -
  show "DeletePipelineConfig (gorm X) n d = (Inr u, d') \<Longrightarrow> x \<noteq> n \<Longrightarrow> pipeline_at (tabs d') x = pipeline_at (tabs d) x"
    by (drule pipelines.delete_ok, drule fun_cong [where x = x]) simp
  show "DeleteInstanceConfig (gorm X) n d = (Inr u, d') \<Longrightarrow> x \<noteq> n \<Longrightarrow> instance_at (tabs d') x = instance_at (tabs d) x"
    by (drule instances.delete_ok, drule fun_cong [where x = x]) simp
  show "DeleteOnetimeCommand (gorm X) n d = (Inr u, d') \<Longrightarrow> x \<noteq> n \<Longrightarrow> onetime_at (tabs d') x = onetime_at (tabs d) x"
    unfolding DeleteOnetimeCommand_def
    by (drule table_delete_ok(1) [OF named_tables(3)], drule fun_cong [where x = x]) simp
qed

lemma delete_config_coherent:
  assumes "coh A m" and "m_epoch m \<noteq> - 1"
  shows "coh A (run_op X (DeletePipelineOp n) m)" and "coh A (run_op X (DeleteInstanceOp n) m)"
    and "coh A (run_op X (DeleteOnetimeOp n) m)"
proof -
  show "coh A (run_op X (DeletePipelineOp n) m)"
    unfolding run_op.simps DeletePipelineConfig_m_def InvalidatePipelineConfig_def
    by (rule drop_and_bump_coherent [OF assms(1) store_confined(9) assms(2)], erule l1_pipeline_others)
      (auto simp: delete_others)
  show "coh A (run_op X (DeleteInstanceOp n) m)"
    unfolding run_op.simps DeleteInstanceConfig_m_def InvalidateInstanceConfig_def
    by (rule drop_and_bump_coherent [OF assms(1) store_confined(12) assms(2)], erule l1_instance_others)
      (auto simp: delete_others)
  show "coh A (run_op X (DeleteOnetimeOp n) m)"
    unfolding run_op.simps DeleteOnetimeCommand_m_def
    by (rule drop_and_bump_coherent [OF assms(1) store_confined(14) assms(2)], erule l1_onetime_others)
      (auto simp: delete_others)
qed

lemma stored_onetime: "stored (ROnetime c) r' \<Longrightarrow> \<exists>y. r' = ROnetime y \<and> True"
  by (cases r') (simp_all add: stored_def)

lemma create_onetime_others:
  assumes "CreateOnetimeCommand (gorm X) c d = (Inr u, d')" and "x \<noteq> oc_name c"
  shows "onetime_at (tabs d') x = onetime_at (tabs d) x"
proof -
  obtain c' where "onetime_at (tabs d') = (onetime_at (tabs d))(oc_name c \<mapsto> c')"
    using table_create_ok [OF named_tables(3) assms(1) [unfolded CreateOnetimeCommand_def],
        where R = "\<lambda>_ _. True"] stored_onetime by blast
  from fun_cong [OF this, of x] assms(2) show ?thesis by simp
qed

lemma create_onetime_coherent:
  assumes "coh A m" and "m_epoch m \<noteq> - 1"
  shows "coh A (run_op X (CreateOnetimeOp now c) m)"
  unfolding run_op.simps CreateOnetimeCommand_m_def Let_def
  by (rule drop_and_bump_coherent [OF assms(1) store_confined(13) assms(2)], erule l1_onetime_others)
    (auto simp: create_onetime_others)

lemma reader_snd: "reader A get look \<Longrightarrow> coh A m \<Longrightarrow> std A m (snd (get n m))"
  by (cases "get n m") (auto dest: readerD(1))

lemma run_op_coherent:
  assumes "coh A m" and "op_safe (tabs (m_db m)) q" and "m_epoch m \<noteq> - 1"
  shows "coh (A \<union> asks q) (run_op X q m)"
proof -
  note S = structural_coherent [OF assms(1) _ _ assms(3)] and U = uncached_coherent [OF assms(1)]
  note C = store_confined
  note R = coherent_cache_part [OF registry_cache_part(1) [OF coherent_rdb [OF assms(1)]]]
    coherent_cache_part [OF registry_cache_part(2) [OF coherent_rdb [OF assms(1)]]]
    coherent_cache_part [OF registry_cache_part(3) [OF coherent_rdb [OF assms(1)]]]
  note rd = reader_snd [OF reader_pipeline assms(1), THEN steady_coherent]
    reader_snd [OF reader_instance assms(1), THEN steady_coherent]
    reader_snd [OF reader_onetime assms(1), THEN steady_coherent]
  show ?thesis
  proof (cases q)
    case (Resolve a)
    obtain r m' where "GetConfigsForAgent_m X a m = (r, m')" by fastforce
    with GetConfigsForAgent_m_ok [OF assms(1) this] Resolve show ?thesis by (simp add: steady_def)
  qed (use assms create_pipeline_coherent create_instance_coherent update_pipeline_coherent
      update_instance_coherent delete_config_coherent create_onetime_coherent rd in
      \<open>simp_all add: R CreateGroup_m_def UpdateGroup_m_def DeleteGroup_m_def SetGroupTags_m_def AddGroupConfig_m_def
        RemoveGroupConfig_m_def CreateCanary_m_def UpdateCanary_m_def DeleteCanary_m_def
        CreateUser_m_def UpdateUser_m_def DeleteUser_m_def CreateRole_m_def UpdateRole_m_def DeleteRole_m_def
        SetRolePermissions_m_def SaveConfigHistory_m_def CreateAuditLog_m_def
        S [OF C(1)] S [OF C(2)] S [OF C(3)] S [OF C(4)] S [OF C(5)] S [OF C(6)]
        S [OF C(15)] S [OF C(16)] S [OF C(17)] U [OF C(18)] U [OF C(19)] U [OF C(20)] U [OF C(21)]
        U [OF C(22)] U [OF C(23)] U [OF C(24)] U [OF C(25)] U [OF C(26)]
        del: op_safe.simps\<close>)
qed


lemma run_op_epoch:
  assumes "coh A m" and "m_epoch m \<noteq> - 1"
  shows "unat (m_epoch (run_op X q m)) \<le> Suc (unat (m_epoch m))"
proof -
  have "epoch_step m (run_op X q m)"
  proof (cases q)
    case (Resolve a)
    obtain r m' where "GetConfigsForAgent_m X a m = (r, m')" by fastforce
    with GetConfigsForAgent_m_ok [OF assms(1) this] Resolve show ?thesis
      by (simp add: steady_def epoch_step_def)
  qed (use reader_snd [OF reader_pipeline assms(1)] reader_snd [OF reader_instance assms(1)]
      reader_snd [OF reader_onetime assms(1)] run_op_epoch_step [of q m X] coherent_rdb [OF assms(1)] in
      \<open>simp_all add: steady_def epoch_step_def\<close>)
  then show ?thesis using unat_succ [OF assms(2)] by (auto simp: epoch_step_def)
qed

lemma run_ops_coherent:
  assumes "coh A m" and "ops_safe X tabs qs m" and "unat (m_epoch m) + length qs < 2 ^ 64"
  shows "coh (A \<union> askers qs) (run_ops X qs m)"
  using assms
proof (induction qs arbitrary: A m)
  case (Cons q qs)
  have e: "m_epoch m \<noteq> - 1"
  proof
    assume "m_epoch m = - 1"
    then have "unat (m_epoch m) = 2 ^ 64 - 1" by (simp add: unsigned_minus_1_eq_mask mask_eq_exp_minus_1)
    with Cons.prems(3) show False by simp
  qed
  have "coh (A \<union> asks q) (run_op X q m)" using run_op_coherent Cons.prems(1,2) e by simp
  from Cons.IH [OF this] Cons.prems run_op_epoch [OF Cons.prems(1) e, of q]
  have "coh (A \<union> asks q \<union> askers qs) (run_ops X qs (run_op X q m))" by simp
  then show ?case by (simp add: askers_def Un_assoc)
qed (simp add: askers_def)

end

end

