(* ===== verification/Registry_Laws.thy ===== *)
theory Registry_Laws
  imports Manager_Coherence
begin

section \<open>What the registry of agents guarantees\<close>

text \<open>
  The registry's invariant \<open>registry_ok\<close>, kept by every operation of the manager in either
  mode; the registry as the \<open>maxAgents\<close> most recently seen agents (an equivalence with a
  reference definition); eviction; and listing by pages.
\<close>

subsection \<open>The invariant\<close>

definition registry_ok :: "('d, 'f, 'r) mgr \<Rightarrow> bool" where
  "registry_ok m \<longleftrightarrow>
     distinct (m_lru m) \<and> set (m_lru m) = m_idx m \<and> m_idx m = fst ` set (m_agents m) \<and>
     distinct (map fst (m_agents m)) \<and> length (m_agents m) \<le> maxAgents \<and>
     (\<forall>(i, a) \<in> set (m_agents m). a_instance a = i) \<and>
     distinct (map fst (m_statuses m)) \<and> length (m_statuses m) \<le> maxStatuses"

definition reg_part where
  "reg_part m = (m_agents m, m_lru m, m_idx m, m_statuses m)"

lemma registry_ok_reg_part: "reg_part m' = reg_part m \<Longrightarrow> registry_ok m' = registry_ok m"
  by (simp add: reg_part_def registry_ok_def)

lemma registry_ok_New: "registry_ok (New st l1 res rdb t1 t2 h)"
  by (simp add: registry_ok_def New_def)

subsection \<open>Operations outside the registry leave it alone\<close>

definition reg_keeps where
  "reg_keeps f \<longleftrightarrow> (\<forall>m. reg_part (snd (f m)) = reg_part m)"

named_theorems reg_simps

lemma reg_on_db [reg_simps]: "reg_part (snd (on_db w m)) = reg_part m"
  by (simp add: reg_part_def on_db_def split: prod.splits)

lemma reg_on_redis [reg_simps]: "reg_part (snd (on_redis X c m)) = reg_part m"
  by (simp add: reg_part_def on_redis_def split: prod.splits option.splits)

lemma reg_redis_do [reg_simps]: "reg_part (redis_do X c m) = reg_part m"
  by (simp add: redis_do_def reg_on_redis)

lemma reg_caches [reg_simps]:
  "reg_part (l1Set X k b m) = reg_part m" "reg_part (l1Del X k m) = reg_part m"
  "reg_part (resolve_set X k b ttl m) = reg_part m" "reg_part (bump_resolve X m) = reg_part m"
  by (simp_all add: reg_part_def l1Set_def l1Del_def resolve_set_def bump_resolve_def Let_def)

lemma reg_snd: "reg_part (snd p) = reg_part m \<Longrightarrow> p = (r, m') \<Longrightarrow> reg_part m' = reg_part m"
  by simp

lemma reg_lookups [reg_simps]:
  "reg_part (snd (l1_lookup X dec k m)) = reg_part m" "reg_part (snd (resolve_get X dec k m)) = reg_part m"
  by (simp_all add: reg_part_def l1_lookup_def resolve_get_def split: prod.splits)

lemma reg_l2 [reg_simps]: "reg_part (snd (l2_lookup X dec k m)) = reg_part m"
  using reg_on_redis [of X "RGet k" m]
  by (auto simp: l2_lookup_def reg_caches split: prod.splits sum.splits redis_reply.splits option.splits)

lemma reg_tier [reg_simps]: "reg_part (snd (tier_lookup X dec k m)) = reg_part m"
  using reg_lookups(1) [of X dec k m]
  by (auto simp: tier_lookup_def reg_l2 split: prod.splits option.splits)

lemma reg_backfill [reg_simps]: "reg_part (backfill X k b v m) = reg_part m"
  by (simp add: backfill_def Let_def reg_simps split: option.splits)

lemma reg_invalidate [reg_simps]:
  "reg_part (invalidate X k m) = reg_part m" "reg_part (invalidateResolveCache X m) = reg_part m"
proof -
  have "on_redis X c m1 = (r, m2) \<Longrightarrow> reg_part m2 = reg_part m1" for c m1 r m2
    using reg_on_redis by (metis snd_conv)
  then show "reg_part (invalidate X k m) = reg_part m"
    by (auto simp: invalidate_def Let_def reg_simps split: option.splits prod.splits sum.splits)
  show "reg_part (invalidateResolveCache X m) = reg_part m"
    by (simp add: invalidateResolveCache_def Let_def reg_simps split: option.splits)
qed

lemma reg_and_then: "(\<And>m. reg_part (after m) = reg_part m) \<Longrightarrow> reg_part (snd (and_then w after m)) = reg_part m"
  using reg_on_db [of w m] by (auto simp: and_then_def split: prod.splits sum.splits)

lemma reg_tiered:
  "reg_part (snd (case tier_lookup X dec k m of
      (Some c, m1) \<Rightarrow> (Inr c, m1)
    | (None, m1) \<Rightarrow> (case on_db load m1 of
        (Inl e, m2) \<Rightarrow> (Inl e, m2)
      | (Inr c, m2) \<Rightarrow> (Inr (f c), backfill X k (enc (f c)) (ver (f c)) m2)))) = reg_part m"
proof -
  obtain q m1 where t: "tier_lookup X dec k m = (q, m1)" by fastforce
  obtain s m2 where d: "on_db load m1 = (s, m2)" by fastforce
  from reg_tier [of X dec k m] reg_on_db [of load m1] t d show ?thesis
    by (cases q; cases s) (simp_all add: reg_backfill)
qed

lemma reg_reads [reg_simps]:
  "reg_part (snd (GetPipelineConfig_m X n m)) = reg_part m"
  "reg_part (snd (GetInstanceConfig_m X n m)) = reg_part m"
  "reg_part (snd (GetOnetimeCommand_m X n m)) = reg_part m"
  unfolding GetPipelineConfig_m_def GetInstanceConfig_m_def GetOnetimeCommand_m_def Let_def
  by (rule reg_tiered)+

lemma reg_keeps_bindr: "reg_keeps f \<Longrightarrow> (\<And>x. reg_keeps (g x)) \<Longrightarrow> reg_keeps (bindr f g)"
  by (auto simp: reg_keeps_def bindr_def split: prod.splits sum.splits) (metis snd_conv)+

lemma reg_keeps_hydrate:
  assumes "\<And>n. reg_keeps (get n)"
  shows "reg_keeps (hydrate get adapt names)"
proof -
  have "reg_part (snd (hydrate get adapt names m)) = reg_part m" for m
  proof (induction names arbitrary: m)
    case (Cons n names)
    obtain q m1 where g: "get n m = (q, m1)" by fastforce
    with assms have "reg_part m1 = reg_part m" by (metis reg_keeps_def snd_conv)
    with g Cons.IH [of m1] show ?case by (auto split: sum.splits prod.splits)
  qed simp
  then show ?thesis by (simp add: reg_keeps_def)
qed

lemma reg_keeps_canaries: "reg_keeps (getActiveCanaries X)"
  unfolding reg_keeps_def
proof
  fix m
  obtain q m1 where t: "resolve_get X decode_canaries keyResolveCanaries m = (q, m1)" by fastforce
  obtain s m2 where d: "on_db (ListCanaries (gorm X)) m1 = (s, m2)" by fastforce
  from reg_lookups(2) [of X decode_canaries keyResolveCanaries m] reg_on_db [of "ListCanaries (gorm X)" m1] t d
  show "reg_part (snd (getActiveCanaries X m)) = reg_part m"
    by (cases q; cases s) (simp_all add: getActiveCanaries_def Let_def reg_caches)
qed

lemma reg_resolve [reg_simps]: "reg_part (snd (GetConfigsForAgent_m X a m)) = reg_part m"
proof -
  have h: "reg_keeps (hydrateAgentConfigSet X s a)" for s
    unfolding hydrateAgentConfigSet_def Let_def
    by (intro reg_keeps_bindr reg_keeps_canaries reg_keeps_hydrate)
      (simp_all add: reg_keeps_def reg_reads retr_def)
  obtain q m1 where t: "resolve_get X decode_set (resolveAgentKey a m) m = (q, m1)" by fastforce
  obtain s m2 where d: "on_db (GetConfigsForAgent (gorm X) a) m1 = (s, m2)" by fastforce
  from h reg_lookups(2) [of X decode_set "resolveAgentKey a m" m]
    reg_on_db [of "GetConfigsForAgent (gorm X) a" m1] t d
  show ?thesis
    by (cases q; cases s) (simp_all add: GetConfigsForAgent_m_def reg_keeps_def reg_caches)
qed

fun registry_op :: "mgr_op \<Rightarrow> bool" where
  "registry_op (UpsertAgentOp _) = True"
| "registry_op (UpsertStatusOp _ _) = True"
| "registry_op (EvictOp _) = True"
| "registry_op _ = False"

lemma reg_other_ops: "\<not> registry_op q \<Longrightarrow> reg_part (run_op X q m) = reg_part m"
  by (cases q)
    (simp_all add: reg_simps reg_and_then CreateGroup_m_def UpdateGroup_m_def DeleteGroup_m_def SetGroupTags_m_def
      AddGroupConfig_m_def RemoveGroupConfig_m_def CreatePipelineConfig_m_def UpdatePipelineConfig_m_def
      DeletePipelineConfig_m_def CreateInstanceConfig_m_def UpdateInstanceConfig_m_def
      DeleteInstanceConfig_m_def CreateOnetimeCommand_m_def DeleteOnetimeCommand_m_def CreateCanary_m_def
      UpdateCanary_m_def DeleteCanary_m_def InvalidatePipelineConfig_def InvalidateInstanceConfig_def
      CreateUser_m_def UpdateUser_m_def DeleteUser_m_def CreateRole_m_def UpdateRole_m_def DeleteRole_m_def
      SetRolePermissions_m_def SaveConfigHistory_m_def CreateAuditLog_m_def Let_def)

subsection \<open>The registry's own operations\<close>

lemma update_set: "x \<in> set (AList.update k v al) \<Longrightarrow> x = (k, v) \<or> x \<in> set al"
  by (induction al) (auto split: if_splits)

lemma delete_set: "x \<in> set (AList.delete k al) \<Longrightarrow> x \<in> set al"
  by (auto simp: AList.delete_eq)

lemma length_update: "length (AList.update k v al) = (if k \<in> fst ` set al then length al else Suc (length al))"
  using arg_cong [OF AList.update_keys [of k v al], of length] by simp

lemma fst_update: "fst ` set (AList.update k v al) = insert k (fst ` set al)"
  using arg_cong [OF AList.update_keys [of k v al], of set] by (auto simp flip: set_map)

lemma fst_delete: "fst ` set (AList.delete k al) = fst ` set al - {k}"
  using arg_cong [OF AList.delete_keys [of k al], of set] by (simp flip: set_map)

lemma length_delete: "distinct (map fst al) \<Longrightarrow> k \<in> fst ` set al \<Longrightarrow> Suc (length (AList.delete k al)) = length al"
proof -
  assume d: "distinct (map fst al)" and k: "k \<in> fst ` set al"
  have "length (AList.delete k al) = length (removeAll k (map fst al))"
    using AList.delete_keys [of k al] by (metis length_map)
  also have "removeAll k (map fst al) = remove1 k (map fst al)"
    using d by (simp add: distinct_remove1_removeAll)
  finally show ?thesis using k by (simp add: length_remove1) (metis Suc_pred length_pos_if_in_set length_map imageE)
qed

lemma distinct_update: "distinct (map fst al) \<Longrightarrow> distinct (map fst (AList.update k v al))"
  by (rule AList.distinct_update)

lemma distinct_delete: "distinct (map fst al) \<Longrightarrow> distinct (map fst (AList.delete k al))"
  by (rule AList.distinct_delete)

text \<open>The two maps of the registry, apart.\<close>

definition agents_ok :: "(string \<times> Agent) list \<Rightarrow> string list \<Rightarrow> string set \<Rightarrow> bool" where
  "agents_ok ags lru idx \<longleftrightarrow>
     distinct lru \<and> set lru = idx \<and> idx = fst ` set ags \<and> distinct (map fst ags) \<and>
     (\<forall>(i, a) \<in> set ags. a_instance a = i)"

definition statuses_ok :: "(string \<times> AgentConfigStatus) list \<Rightarrow> bool" where
  "statuses_ok sts \<longleftrightarrow> distinct (map fst sts) \<and> length sts \<le> maxStatuses"

lemma registry_parts:
  "registry_ok m \<longleftrightarrow> agents_ok (m_agents m) (m_lru m) (m_idx m) \<and> length (m_agents m) \<le> maxAgents \<and>
     statuses_ok (m_statuses m)"
  by (auto simp: registry_ok_def agents_ok_def statuses_ok_def)

lemma agents_ok_remove:
  assumes "agents_ok ags lru idx"
  shows "agents_ok (AList.delete i ags) (remove1 i lru) (idx - {i})"
  using assms unfolding agents_ok_def
  by (auto simp: fst_delete distinct_delete dest: delete_set)

lemma agents_ok_touch:
  assumes "agents_ok ags lru idx" and "i \<in> idx" and "a_instance a = i"
  shows "agents_ok (AList.update i a ags) (i # remove1 i lru) idx"
  using assms unfolding agents_ok_def
  by (auto simp: fst_update distinct_update dest: update_set)

lemma agents_ok_insert:
  assumes "agents_ok ags lru idx" and "i \<notin> idx" and "a_instance a = i"
  shows "agents_ok (AList.update i a ags) (i # lru) (insert i idx)"
  using assms unfolding agents_ok_def
  by (auto simp: fst_update distinct_update dest: update_set)

lemma butlast_remove1: "distinct xs \<Longrightarrow> xs \<noteq> [] \<Longrightarrow> butlast xs = remove1 (last xs) xs"
  by (metis append_butlast_last_id distinct_butlast not_distinct_conv_prefix remove1.simps(2)
      remove1_append snoc_eq_iff_butlast append.right_neutral remove1.simps(1))

text \<open>Eviction of the oldest agent, on a registry that is well formed.\<close>

lemma evictOldest_eq:
  assumes "agents_ok (m_agents m) (m_lru m) (m_idx m)" and "m_lru m \<noteq> []"
  shows "evictOldestAgentLocked m =
    purge_statuses (last (m_lru m) @ [CHR 0x00])
      (m\<lparr>m_lru := remove1 (last (m_lru m)) (m_lru m), m_idx := m_idx m - {last (m_lru m)},
         m_agents := AList.delete (last (m_lru m)) (m_agents m)\<rparr>)"
proof -
  have "last (m_lru m) \<in> fst ` set (m_agents m)"
    using assms last_in_set by (fastforce simp: agents_ok_def)
  then obtain a where "map_of (m_agents m) (last (m_lru m)) = Some a"
    by (metis map_of_eq_None_iff not_None_eq)
  moreover have "butlast (m_lru m) = remove1 (last (m_lru m)) (m_lru m)"
    by (rule butlast_remove1) (use assms in \<open>simp_all add: agents_ok_def\<close>)
  ultimately show ?thesis
    using assms(2) by (simp add: evictOldestAgentLocked_def Let_def)
qed

lemma statuses_filter: "statuses_ok sts \<Longrightarrow> statuses_ok (filter P sts)"
  by (auto simp: statuses_ok_def distinct_map_filter intro: order_trans [OF length_filter_le])

lemma lru_length: "agents_ok ags lru idx \<Longrightarrow> length lru = length ags"
  by (metis agents_ok_def distinct_card length_map list.set_map)

lemma register_ok:
  assumes "registry_ok m"
  shows "registry_ok (register a m)"
proof -
  let ?i = "a_instance a"
  have ok: "agents_ok (m_agents m) (m_lru m) (m_idx m)" "length (m_agents m) \<le> maxAgents"
    "statuses_ok (m_statuses m)" using assms by (simp_all add: registry_parts)
  show ?thesis
  proof (cases "?i \<in> m_idx m")
    case True
    then have "?i \<in> fst ` set (m_agents m)" using ok(1) by (simp add: agents_ok_def)
    with True agents_ok_touch [OF ok(1) True refl] ok(2,3) show ?thesis
      by (simp add: register_def registry_parts Let_def length_update)
  next
    case new: False
    then have notin: "?i \<notin> fst ` set (m_agents m)" using ok(1) by (simp add: agents_ok_def)
    show ?thesis
    proof (cases "length (m_agents m) \<ge> maxAgents")
      case False
      with new notin agents_ok_insert [OF ok(1) new refl] ok(2,3) show ?thesis
        by (simp add: register_def registry_parts Let_def length_update)
    next
      case True
      let ?j = "last (m_lru m)"
      have ne: "m_lru m \<noteq> []" using True lru_length [OF ok(1)] by (auto simp: maxAgents_def)
      have j: "?j \<in> fst ` set (m_agents m)" using ok(1) last_in_set [OF ne] by (simp add: agents_ok_def)
      note rm = agents_ok_remove [OF ok(1), of ?j]
      have "?i \<notin> m_idx m - {?j}" using new by simp
      note ins = agents_ok_insert [OF rm this refl]
      have "length (AList.update ?i a (AList.delete ?j (m_agents m))) \<le> maxAgents"
        using length_delete [OF _ j] ok(1,2) notin by (simp add: length_update fst_delete agents_ok_def)
      with True new ins ok(3) ne evictOldest_eq [OF ok(1) ne] show ?thesis
        by (simp add: register_def registry_parts Let_def purge_statuses_def statuses_filter)
    qed
  qed
qed

lemma put_status_ok: "registry_ok m \<Longrightarrow> registry_ok (put_status st m)"
  by (auto simp: put_status_def Let_def registry_parts statuses_ok_def length_update distinct_update)

lemma purge_statuses_ok: "registry_ok m \<Longrightarrow> registry_ok (purge_statuses p m)"
  by (simp add: purge_statuses_def registry_parts statuses_filter)

lemma drop_agents_ok: "registry_ok m \<Longrightarrow> registry_ok (drop_agents ids m)"
proof (induction ids arbitrary: m)
  case (Cons i ids)
  let ?m = "m\<lparr>m_agents := AList.delete i (m_agents m)\<rparr>"
  have ok: "agents_ok (m_agents m) (m_lru m) (m_idx m)" "length (m_agents m) \<le> maxAgents"
    "statuses_ok (m_statuses m)" using Cons.prems by (simp_all add: registry_parts)
  have len: "length (AList.delete i (m_agents m)) \<le> maxAgents"
    using ok(2) AList.length_delete_le [of i "m_agents m"] by simp
  have "registry_ok (if i \<in> m_idx ?m then ?m\<lparr>m_lru := remove1 i (m_lru ?m), m_idx := m_idx ?m - {i}\<rparr> else ?m)"
  proof (cases "i \<in> m_idx m")
    case True
    with agents_ok_remove [OF ok(1), of i] ok len show ?thesis by (simp add: registry_parts)
  next
    case False
    then have "i \<notin> fst ` set (m_agents m)" using ok(1) by (simp add: agents_ok_def)
    then have "AList.delete i (m_agents m) = m_agents m" by (simp add: AList.delete_idem)
    with False Cons.prems show ?thesis by simp
  qed
  from Cons.IH [OF this] show ?case by (simp add: Let_def)
qed simp

lemma purge_all_ok: "registry_ok m \<Longrightarrow> registry_ok (purge_all ids m)"
  by (induction ids arbitrary: m) (simp_all add: purge_statuses_ok)

lemma redis_drop_reg: "reg_part (redis_drop_agents X ids m) = reg_part m"
  by (induction ids arbitrary: m) (simp_all add: reg_redis_do)

lemma evictStale_ok: "registry_ok m \<Longrightarrow> registry_ok (evictStaleAgents X now m)"
  by (auto simp: evictStaleAgents_def Let_def purge_all_ok drop_agents_ok registry_ok_reg_part [OF redis_drop_reg]
      split: option.splits)

lemma run_op_registry: "registry_ok m \<Longrightarrow> registry_ok (run_op X q m)"
proof (cases "registry_op q")
  case True
  moreover assume "registry_ok m"
  ultimately show ?thesis
    by (cases q) (auto simp: UpsertAgent_m_def UpsertAgentConfigStatus_m_def Let_def register_ok put_status_ok
        evictStale_ok registry_ok_reg_part [OF reg_redis_do] split: option.splits)
next
  case False
  moreover assume "registry_ok m"
  ultimately show ?thesis using registry_ok_reg_part [OF reg_other_ops] by blast
qed

lemma run_ops_registry: "registry_ok m \<Longrightarrow> registry_ok (run_ops X qs m)"
  by (induction qs arbitrary: m) (simp_all add: run_op_registry)

subsection \<open>The most recently seen agents\<close>

text \<open>\<open>recent\<close> lists the ids of a history, the latest first, each once.\<close>

fun recent :: "string list \<Rightarrow> string list" where
  "recent [] = []"
| "recent (i # is) = i # filter (\<lambda>j. j \<noteq> i) (recent is)"

lemma recent_distinct [simp]: "distinct (recent is)" "set (recent is) = set is"
  by (induction "is") auto

lemma take_recent_step:
  assumes "n > 0"
  shows "take n (recent (i # is)) =
    (let L = take n (recent is) in
     if i \<in> set L then i # remove1 i L else i # (if length L \<ge> n then butlast L else L))"
proof -
  let ?R = "recent is" and ?L = "take n (recent is)"
  obtain k where n: "n = Suc k" using assms by (cases n) auto
  have filt: "filter (\<lambda>j. j \<noteq> i) xs = remove1 i xs" if "distinct xs" for xs
    using that by (auto simp: distinct_remove1_removeAll removeAll_filter_not_eq intro: filter_cong)
  show ?thesis
  proof (cases "i \<in> set ?L")
    case True
    have "?R = ?L @ drop n ?R" by simp
    then have "remove1 i ?R = remove1 i ?L @ drop n ?R"
      using True by (metis remove1_append)
    moreover have "length (remove1 i ?L) = k \<or> drop n ?R = []"
      using True n by (cases "length ?R \<le> n") (simp_all add: length_remove1)
    moreover have "length (remove1 i ?L) \<le> k"
      using True n by (simp add: length_remove1)
    ultimately have "take k (remove1 i ?R) = remove1 i ?L" by auto
    with True show ?thesis by (simp add: n filt Let_def)
  next
    case False
    have "take k (remove1 i ?R) = (if length ?L \<ge> n then butlast ?L else ?L)"
    proof (cases "length ?L \<ge> n")
      case True
      then have len: "length ?R \<ge> n" by simp
      have "?R = take k ?R @ drop k ?R" by simp
      moreover have "i \<notin> set (take k ?R)" using False n set_take_subset_set_take [of k n ?R] by auto
      ultimately have "remove1 i ?R = take k ?R @ remove1 i (drop k ?R)" by (metis remove1_append)
      moreover have "length (take k ?R) = k" using len n by simp
      ultimately have "take k (remove1 i ?R) = take k ?R" by simp
      moreover have "butlast ?L = take k ?R" using len n by (simp add: butlast_take)
      ultimately show ?thesis using True by simp
    next
      case short: False
      then have "?L = ?R" "i \<notin> set ?R" "length ?R \<le> k" using False n by auto
      then show ?thesis using short by (simp add: remove1_idem)
    qed
    with False show ?thesis by (simp add: n filt Let_def)
  qed
qed

definition register_all :: "Agent list \<Rightarrow> ('d, 'f, 'r) mgr \<Rightarrow> ('d, 'f, 'r) mgr" where
  "register_all as m = foldl (\<lambda>m a. register a m) m as"

lemma register_all_snoc: "register_all (as @ [a]) m = register a (register_all as m)"
  by (simp add: register_all_def)

lemma register_all_ok: "registry_ok m \<Longrightarrow> registry_ok (register_all as m)"
  by (induction "as" rule: rev_induct) (simp_all add: register_all_snoc register_ok, simp add: register_all_def)

text \<open>The last report of each agent.\<close>

definition latest :: "Agent list \<Rightarrow> string \<rightharpoonup> Agent" where
  "latest as i = find (\<lambda>a. a_instance a = i) (rev as)"

lemma registry_recent:
  assumes "m0 = New st l1 res rdb t1 t2 h" and "m = register_all as m0"
  shows "m_lru m = take maxAgents (recent (rev (map a_instance as))) \<and>
    map_of (m_agents m) = (latest as) |` set (m_lru m)"
  using assms(2)
proof (induction "as" arbitrary: m rule: rev_induct)
  case Nil
  then show ?case by (auto simp: register_all_def assms(1) New_def)
next
  case (snoc a as)
  let ?m = "register_all as m0" and ?i = "a_instance a"
  have IH: "m_lru ?m = take maxAgents (recent (rev (map a_instance as)))"
    "map_of (m_agents ?m) = (latest as) |` set (m_lru ?m)"
    using snoc.IH by simp_all
  have "registry_ok ?m" by (simp add: register_all_ok registry_ok_New assms(1))
  then have ok: "agents_ok (m_agents ?m) (m_lru ?m) (m_idx ?m)" by (simp add: registry_parts)
  have m: "m = register a ?m" using snoc.prems by (simp add: register_all_snoc)
  have len: "length (m_agents ?m) = length (m_lru ?m)" using lru_length [OF ok] by simp
  have idx: "m_idx ?m = set (m_lru ?m)" using ok by (simp add: agents_ok_def)
  have late: "latest (as @ [a]) j = (if j = ?i then Some a else latest as j)" for j
    by (simp add: latest_def)
  have step: "m_lru m = (if ?i \<in> set (m_lru ?m) then ?i # remove1 ?i (m_lru ?m)
      else ?i # (if length (m_lru ?m) \<ge> maxAgents then butlast (m_lru ?m) else m_lru ?m)) \<and>
    map_of (m_agents m) = (\<lambda>j. if j = ?i then Some a else
      if j \<in> set (m_lru m) then map_of (m_agents ?m) j else None)"
  proof (cases "?i \<in> m_idx ?m")
    case True
    have "j \<notin> set (m_lru ?m) \<Longrightarrow> map_of (m_agents ?m) j = None" for j by (simp add: IH(2))
    with True show ?thesis
      unfolding m by (auto simp: register_def Let_def idx AList.update_conv' fun_eq_iff)
  next
    case new: False
    show ?thesis
    proof (cases "length (m_agents ?m) \<ge> maxAgents")
      case False
      have "j \<notin> set (m_lru ?m) \<Longrightarrow> map_of (m_agents ?m) j = None" for j by (simp add: IH(2))
      with new False len show ?thesis
        unfolding m by (auto simp: register_def Let_def idx AList.update_conv' fun_eq_iff)
    next
      case True
      have ne: "m_lru ?m \<noteq> []" using True len by (auto simp: maxAgents_def)
      have d: "distinct (m_lru ?m)" using ok by (simp add: agents_ok_def)
      have bl: "butlast (m_lru ?m) = remove1 (last (m_lru ?m)) (m_lru ?m)"
        by (rule butlast_remove1 [OF d ne])
      have "j \<notin> set (m_lru ?m) \<Longrightarrow> map_of (m_agents ?m) j = None" for j by (simp add: IH(2))
      with new True len d show ?thesis
        unfolding m by (auto simp: register_def Let_def idx AList.update_conv' AList.delete_conv' fun_eq_iff
            evictOldest_eq [OF ok ne] purge_statuses_def bl)
    qed
  qed
  have "m_lru m = take maxAgents (recent (?i # rev (map a_instance as)))"
    using step IH(1) take_recent_step [of maxAgents ?i "rev (map a_instance as)"]
    by (simp add: maxAgents_def Let_def)
  moreover have "map_of (m_agents m) = (latest (as @ [a])) |` set (m_lru m)"
  proof
    fix j
    have sub: "set (m_lru m) \<subseteq> insert ?i (set (m_lru ?m))"
      using step by (auto dest: in_set_butlastD notin_set_remove1)
    have "?i \<in> set (m_lru m)" using step by auto
    then show "map_of (m_agents m) j = ((latest (as @ [a])) |` set (m_lru m)) j"
      using step IH(2) sub by (auto simp: restrict_map_def late)
  qed
  ultimately show ?case by simp
qed

subsection \<open>Eviction by age\<close>

lemma drop_agents_fields:
  "m_agents (drop_agents ids m) = filter (\<lambda>(i, _). i \<notin> set ids) (m_agents m) \<and>
   m_statuses (drop_agents ids m) = m_statuses m \<and> m_rdb (drop_agents ids m) = m_rdb m"
proof (induction ids arbitrary: m)
  case (Cons i ids)
  have "filter P (AList.delete i ags) = filter (\<lambda>x. P x \<and> fst x \<noteq> i) ags" for P and ags :: "(string \<times> Agent) list"
    by (auto simp: AList.delete_eq intro: filter_cong)
  with Cons.IH show ?case by (auto simp: Let_def intro!: filter_cong)
qed (simp add: split_beta)

lemma purge_all_fields:
  "m_statuses (purge_all ids m) = filter (\<lambda>(k, _). \<forall>i \<in> set ids. \<not> has_prefix k (i @ '':'')) (m_statuses m) \<and>
   m_agents (purge_all ids m) = m_agents m \<and> m_rdb (purge_all ids m) = m_rdb m"
  by (induction ids arbitrary: m) (auto simp: purge_statuses_def intro!: filter_cong)

definition stale_ids :: "time \<Rightarrow> ('d, 'f, 'r) mgr \<Rightarrow> string list" where
  "stale_ids now m = map fst (filter (\<lambda>(_, a). is_stale now a) (m_agents m))"

lemma evictStale_fields:
  assumes "registry_ok m"
  shows "m_agents (evictStaleAgents X now m) = filter (\<lambda>(_, a). \<not> is_stale now a) (m_agents m)"
    and "m_statuses (evictStaleAgents X now m) =
      filter (\<lambda>(k, _). \<forall>i \<in> set (stale_ids now m). \<not> has_prefix k (i @ '':'')) (m_statuses m)"
proof -
  let ?ids = "stale_ids now m"
  have d: "distinct (map fst (m_agents m))" using assms by (simp add: registry_ok_def)
  have "i \<notin> set ?ids \<longleftrightarrow> \<not> is_stale now a" if "(i, a) \<in> set (m_agents m)" for i a
    using that d by (force simp: stale_ids_def dest: eq_key_imp_eq_value)
  then have keep: "filter (\<lambda>(i, _). i \<notin> set ?ids) (m_agents m) = filter (\<lambda>(_, a). \<not> is_stale now a) (m_agents m)"
    by (intro filter_cong) auto
  have reg: "reg_part (evictStaleAgents X now m) =
      (if ?ids = [] then reg_part (drop_agents ?ids m) else reg_part (purge_all ?ids (drop_agents ?ids m)))"
    by (simp add: evictStaleAgents_def stale_ids_def Let_def redis_drop_reg split: option.splits)
  show "m_agents (evictStaleAgents X now m) = filter (\<lambda>(_, a). \<not> is_stale now a) (m_agents m)"
    using reg keep by (simp add: reg_part_def drop_agents_fields purge_all_fields split: if_splits)
  show "m_statuses (evictStaleAgents X now m) =
      filter (\<lambda>(k, _). \<forall>i \<in> set ?ids. \<not> has_prefix k (i @ '':'')) (m_statuses m)"
    using reg by (simp add: reg_part_def drop_agents_fields purge_all_fields split_beta split: if_splits)
qed

subsection \<open>Pages\<close>

lemma page_of_plain:
  assumes "1 \<le> page" and "1 \<le> sz" and "page * sz < 2 ^ 63"
  shows "page_of page sz xs =
    Some (take (nat sz) (drop (nat ((page - 1) * sz)) xs), int (length xs))"
proof -
  have le: "page \<le> page * sz" "sz \<le> page * sz"
    using assms mult_left_mono [of 1 sz page] mult_right_mono [of 1 page sz] by simp_all
  have eq: "(page - 1) * sz + sz = page * sz" by (simp add: algebra_simps)
  have nn: "0 \<le> (page - 1) * sz" using assms by simp
  have "in_int64 (page - 1)" "in_int64 ((page - 1) * sz)" "in_int64 ((page - 1) * sz + sz)"
    using le nn assms eq unfolding in_int64_def by linarith+
  then have w: "wrap64 (page - 1) = page - 1" "wrap64 ((page - 1) * sz) = (page - 1) * sz"
    "wrap64 ((page - 1) * sz + sz) = (page - 1) * sz + sz"
    by simp_all
  let ?s = "(page - 1) * sz"
  show ?thesis
  proof (cases "?s \<ge> int (length xs)")
    case True
    then have "drop (nat ?s) xs = []" using nn by simp
    with True show ?thesis by (simp add: page_of_def w Let_def)
  next
    case False
    have "take (nat (min (?s + sz) (int (length xs))) - nat ?s) (drop (nat ?s) xs) =
        take (nat sz) (drop (nat ?s) xs)"
      using nn assms(2) False by (cases "?s + sz \<le> int (length xs)") (auto simp: min_def nat_add_distrib nat_diff_distrib)
    moreover have "(if ?s + sz > int (length xs) then int (length xs) else ?s + sz) =
        min (?s + sz) (int (length xs))" by simp
    ultimately show ?thesis using False nn assms(2)
      by (simp add: page_of_def w Let_def min_def)
  qed
qed

text \<open>Cutting a list into pages and putting them together again.\<close>

lemma concat_pages: "k * n \<ge> length xs \<Longrightarrow> concat (map (\<lambda>p. take n (drop (p * n) xs)) [0..<k]) = xs"
proof -
  have "concat (map (\<lambda>p. take n (drop (p * n) xs)) [0..<k]) = take (k * n) xs" for k
  proof (induction k)
    case (Suc k)
    have "take (Suc k * n) xs = take (k * n) xs @ take n (drop (k * n) xs)"
      using take_add [of "k * n" n xs] by (simp add: add.commute)
    with Suc show ?case by simp
  qed simp
  moreover assume "k * n \<ge> length xs"
  ultimately show ?thesis by simp
qed

end
