(* ===== verification/Agent_Laws.thy ===== *)
theory Agent_Laws
  imports Agent_Handler Manager_Coherence Registry_Laws
begin

section \<open>The heartbeat protocol\<close>

text \<open>
  What an agent does with a response, what it should hold, and the lemmas that connect the
  handlers with the manager: the index of reported names, the effect of the updates, the
  states a heartbeat goes through, one-time commands and their generation, reported tags, and what a fetch replies to each
  name it is asked about.
\<close>

subsection \<open>What an agent holds\<close>

type_synonym holding = "string \<rightharpoonup> int \<times> bytes"

text \<open>An agent removes a configuration of version -1 and installs any other.\<close>

definition outcome :: "ConfigDetail \<Rightarrow> (int \<times> bytes) option" where
  "outcome u = (if cd_version u = - 1 then None else Some (cd_version u, cd_detail u))"

definition apply_updates :: "ConfigDetail list \<Rightarrow> holding \<Rightarrow> holding" where
  "apply_updates us h = foldl (\<lambda>h u. h(cd_name u := outcome u)) h us"

lemma apply_updates_simps [simp]:
  "apply_updates [] h = h"
  "apply_updates (u # us) h = apply_updates us (h(cd_name u := outcome u))"
  by (simp_all add: apply_updates_def)

lemma apply_updates_other: "n \<notin> cd_name ` set us \<Longrightarrow> apply_updates us h n = h n"
  by (induction us arbitrary: h) auto

lemma apply_updates_all:
  "n \<in> cd_name ` set us \<Longrightarrow> (\<And>u. u \<in> set us \<Longrightarrow> cd_name u = n \<Longrightarrow> outcome u = r) \<Longrightarrow>
   apply_updates us h n = r"
proof (induction us arbitrary: h)
  case (Cons u us)
  show ?case
  proof (cases "n \<in> cd_name ` set us")
    case True
    with Cons.IH [OF True] Cons.prems(2) show ?thesis by simp
  next
    case False
    with Cons.prems have "cd_name u = n" by auto
    with Cons.prems(2) apply_updates_other [OF False] show ?thesis by simp
  qed
qed simp

text \<open>The versions a request reports: of a repeated name the last one.\<close>

definition reported :: "ConfigInfo list \<Rightarrow> string \<rightharpoonup> int" where
  "reported infos = map_of (rev (map (\<lambda>c. (ci_name c, ci_version c)) infos))"

lemma index_facts:
  "map_of (indexConfigInfos cfgs) = reported cfgs"
  "set (map fst (indexConfigInfos cfgs)) = ci_name ` set cfgs"
  "distinct (map fst (indexConfigInfos cfgs))"
proof (induction cfgs rule: rev_induct)
  case Nil
  { case 1 show ?case by (simp add: indexConfigInfos_def reported_def) next
    case 2 show ?case by (simp add: indexConfigInfos_def) next
    case 3 show ?case by (simp add: indexConfigInfos_def) }
next
  case (snoc c cfgs)
  have step: "indexConfigInfos (cfgs @ [c]) = AList.update (ci_name c) (ci_version c) (indexConfigInfos cfgs)"
    by (simp add: indexConfigInfos_def)
  { case 1 show ?case using snoc(1) by (simp add: step update_conv' reported_def) next
    case 2 show ?case using snoc(2) by (simp add: step fst_update) next
    case 3 show ?case using snoc(3) by (simp add: step AList.distinct_update) }
qed

lemma reported_dom: "reported cfgs n \<noteq> None \<longleftrightarrow> n \<in> ci_name ` set cfgs"
  using index_facts(2) [of cfgs] by (metis index_facts(1) list.set_map map_of_eq_None_iff)

subsection \<open>The updates of one type of configuration\<close>

text \<open>The lists of the server as what the agent should hold.\<close>

definition offered :: "config_row list \<Rightarrow> holding" where
  "offered cs = map_of (map (\<lambda>c. (cf_name c, (cf_version c, cf_detail c))) (filter (\<lambda>c. cf_detail c \<noteq> []) cs))"

definition name_determines :: "config_row list \<Rightarrow> bool" where
  "name_determines cs \<longleftrightarrow> (\<forall>a \<in> set cs. \<forall>b \<in> set cs. cf_name a = cf_name b \<longrightarrow> a = b)"

text \<open>Equal versions mean equal contents, and no offered version is the deletion marker.\<close>

definition versions_identify :: "holding \<Rightarrow> holding \<Rightarrow> bool" where
  "versions_identify held want \<longleftrightarrow>
     (\<forall>n v d d'. held n = Some (v, d) \<longrightarrow> want n = Some (v, d') \<longrightarrow> d = d') \<and>
     (\<forall>n d. want n \<noteq> Some (- 1, d))"

definition reports_held :: "ConfigInfo list \<Rightarrow> holding \<Rightarrow> bool" where
  "reports_held infos held \<longleftrightarrow> (\<forall>n. reported infos n = map_option fst (held n))"

definition reorders :: "(string list \<Rightarrow> string list) \<Rightarrow> bool" where
  "reorders ord \<longleftrightarrow> (\<forall>ns. set (ord ns) = set ns)"

lemma offered_Some:
  assumes "name_determines cs" and "c \<in> set cs" and "cf_name c = n" and "cf_detail c \<noteq> []"
  shows "offered cs n = Some (cf_version c, cf_detail c)"
proof -
  have "(n, (cf_version c, cf_detail c)) \<in>
      set (map (\<lambda>c. (cf_name c, (cf_version c, cf_detail c))) (filter (\<lambda>c. cf_detail c \<noteq> []) cs))"
    using assms(2-4) by force
  then have "offered cs n \<noteq> None" unfolding offered_def by (auto simp: map_of_eq_None_iff image_iff)
  then obtain v d where o: "offered cs n = Some (v, d)" by auto
  then obtain b where "b \<in> set cs" "cf_name b = n" "v = cf_version b" "d = cf_detail b"
    using map_of_SomeD [OF o [unfolded offered_def]] by auto
  moreover from this(1,2) assms(1-3) have "b = c" unfolding name_determines_def by blast
  ultimately show ?thesis using o by simp
qed

lemma offered_None: "offered cs n = None \<longleftrightarrow> n \<notin> cf_name ` set (filter (\<lambda>c. cf_detail c \<noteq> []) cs)"
  by (simp add: offered_def map_of_eq_None_iff image_image del: set_filter)

lemma updates_converge:
  assumes det: "name_determines cs" and idx: "map_of idx = reported infos" and ord: "reorders ord"
    and held: "reports_held infos held" and ver: "versions_identify held (offered cs)"
  shows "apply_updates (config_updates full idx cs @ config_deletions ord idx cs) held = offered cs"
proof
  fix n
  let ?us = "config_updates full idx cs" and ?ds = "config_deletions ord idx cs"
  have idx_dom: "n \<in> set (ord (map fst idx)) \<longleftrightarrow> held n \<noteq> None" for n
  proof -
    have "n \<in> set (ord (map fst idx)) \<longleftrightarrow> map_of idx n \<noteq> None"
      using ord by (simp add: reorders_def map_of_eq_None_iff)
    then show ?thesis using held by (simp add: idx reports_held_def)
  qed
  have ups: "u \<in> set ?us \<longleftrightarrow> (\<exists>c \<in> set cs. u = config_detail c \<and> cf_detail c \<noteq> [] \<and>
      (full \<or> map_option fst (held (cf_name c)) \<noteq> Some (cf_version c)))" for u
    using held by (auto simp: config_updates_def idx reports_held_def)
  have dels: "u \<in> set ?ds \<longleftrightarrow> (\<exists>k. u = \<lparr>cd_name = k, cd_version = - 1, cd_detail = []\<rparr> \<and>
      offered cs k = None \<and> held k \<noteq> None)" for u
    using idx_dom by (auto simp: config_deletions_def Let_def offered_None)
  show "apply_updates (?us @ ?ds) held n = offered cs n"
  proof (cases "offered cs n")
    case None
    then have no: "\<And>u. u \<in> set ?us \<Longrightarrow> cd_name u \<noteq> n"
      by (auto simp: ups config_detail_def offered_None)
    show ?thesis
    proof (cases "held n")
      case None
      have "n \<notin> cd_name ` set ?us" "n \<notin> cd_name ` set ?ds" using no None by (auto simp: dels)
      then have "n \<notin> cd_name ` set (?us @ ?ds)" by auto
      with apply_updates_other None \<open>offered cs n = None\<close> show ?thesis by metis
    next
      case (Some x)
      have "\<lparr>cd_name = n, cd_version = - 1, cd_detail = []\<rparr> \<in> set ?ds"
        unfolding dels using Some \<open>offered cs n = None\<close> by simp
      then have "n \<in> cd_name ` set (?us @ ?ds)" by (intro rev_image_eqI) auto
      moreover have "outcome u = None" if "u \<in> set (?us @ ?ds)" "cd_name u = n" for u
        using that no by (auto simp: dels outcome_def)
      ultimately have "apply_updates (?us @ ?ds) held n = None" by (rule apply_updates_all)
      with \<open>offered cs n = None\<close> show ?thesis by (simp only:)
    qed
  next
    case (Some w)
    then obtain c where c: "c \<in> set cs" "cf_name c = n" "cf_detail c \<noteq> []"
      using offered_None [of cs n] by auto
    have w: "offered cs n = Some (cf_version c, cf_detail c)" by (rule offered_Some [OF det c(1,2,3)])
    have same: "outcome u = Some (cf_version c, cf_detail c)" if "u \<in> set (?us @ ?ds)" "cd_name u = n" for u
    proof -
      have "u \<in> set ?us" using that Some by (auto simp: dels)
      then obtain b where "b \<in> set cs" "u = config_detail b" by (auto simp: ups)
      moreover from this that(2) c det have "b = c" by (simp add: name_determines_def config_detail_def)
      moreover have "cf_version c \<noteq> - 1" using ver w by (auto simp: versions_identify_def)
      ultimately show ?thesis by (simp add: outcome_def config_detail_def)
    qed
    show ?thesis
    proof (cases "n \<in> cd_name ` set (?us @ ?ds)")
      case True
      then show ?thesis using apply_updates_all [OF True same] w by simp
    next
      case False
      then have "config_detail c \<notin> set ?us" using c(2) by (force simp: config_detail_def)
      then have "map_option fst (held n) = Some (cf_version c)" using c by (auto simp: ups)
      then obtain d where "held n = Some (cf_version c, d)" by auto
      moreover from this w ver have "d = cf_detail c" by (auto simp: versions_identify_def)
      ultimately show ?thesis using apply_updates_other [OF False] w by simp
    qed
  qed
qed

lemma updates_quiet:
  assumes det: "name_determines cs" and idx: "map_of idx = reported infos" and ord: "reorders ord"
  shows "config_updates False idx cs @ config_deletions ord idx cs = [] \<longleftrightarrow>
    reported infos = map_option fst \<circ> offered cs"
proof -
  have dels: "config_deletions ord idx cs = [] \<longleftrightarrow> (\<forall>n. reported infos n \<noteq> None \<longrightarrow> offered cs n \<noteq> None)"
  proof -
    have "n \<in> set (ord (map fst idx)) \<longleftrightarrow> reported infos n \<noteq> None" for n
      using ord by (simp add: reorders_def map_of_eq_None_iff flip: idx)
    then show ?thesis by (auto simp: config_deletions_def Let_def offered_None filter_empty_conv)
  qed
  have ups: "config_updates False idx cs = [] \<longleftrightarrow>
      (\<forall>n v d. offered cs n = Some (v, d) \<longrightarrow> reported infos n = Some v)"
  proof -
    have "config_updates False idx cs = [] \<longleftrightarrow>
        (\<forall>c \<in> set cs. cf_detail c \<noteq> [] \<longrightarrow> reported infos (cf_name c) = Some (cf_version c))"
      by (auto simp: config_updates_def filter_empty_conv idx)
    also have "\<dots> \<longleftrightarrow> (\<forall>n v d. offered cs n = Some (v, d) \<longrightarrow> reported infos n = Some v)"
    proof (intro iffI allI impI ballI)
      fix n v d assume *: "\<forall>c \<in> set cs. cf_detail c \<noteq> [] \<longrightarrow> reported infos (cf_name c) = Some (cf_version c)"
        and o: "offered cs n = Some (v, d)"
      obtain c where "c \<in> set cs" "cf_detail c \<noteq> []" "cf_name c = n" "v = cf_version c"
        using map_of_SomeD [OF o [unfolded offered_def]] by auto
      with * show "reported infos n = Some v" by auto
    next
      fix c assume "\<forall>n v d. offered cs n = Some (v, d) \<longrightarrow> reported infos n = Some v"
        and "c \<in> set cs" "cf_detail c \<noteq> []"
      with offered_Some [OF det this(2) refl this(3)] show "reported infos (cf_name c) = Some (cf_version c)"
        by blast
    qed
    finally show ?thesis .
  qed
  have "(\<forall>n. reported infos n \<noteq> None \<longrightarrow> offered cs n \<noteq> None) \<and>
      (\<forall>n v d. offered cs n = Some (v, d) \<longrightarrow> reported infos n = Some v) \<longleftrightarrow>
      (\<forall>n. reported infos n = map_option fst (offered cs n))"
    (is "?P \<and> ?Q \<longleftrightarrow> ?R")
  proof (intro iffI conjI allI impI)
    fix n assume "?P \<and> ?Q"
    then show "reported infos n = map_option fst (offered cs n)"
      by (cases "offered cs n") (auto simp del: split_paired_All)
  qed simp_all
  with dels ups show ?thesis by (auto simp: fun_eq_iff)
qed

subsection \<open>What an agent should hold\<close>

definition wanted ::
  "tables \<Rightarrow> (tables \<Rightarrow> string \<rightharpoonup> config_row) \<Rightarrow> string \<Rightarrow> AgentMatchContext \<Rightarrow> holding" where
  "wanted t look ct match n =
     Option.bind (look t n) (\<lambda>c.
       let e = effective t match ct c
       in if assigned t match ct n \<and> cf_detail e \<noteq> [] then Some (cf_version e, cf_detail e) else None)"

lemma offered_wanted:
  assumes rows: "\<And>n c. look t n = Some c \<longleftrightarrow> R c \<and> cf_name c = n"
    and cs: "set cs = {effective t match ct c | c. R c \<and> assigned t match ct (cf_name c)}"
  shows "name_determines cs \<and> offered cs = wanted t look ct match"
proof -
  have uniq: "R a \<Longrightarrow> R b \<Longrightarrow> cf_name a = cf_name b \<Longrightarrow> a = b" for a b
    using rows [of "cf_name a" a] rows [of "cf_name a" b] by simp
  have det: "name_determines cs"
    unfolding name_determines_def cs by clarsimp (metis uniq)
  have "offered cs n = wanted t look ct match n" for n
  proof (cases "wanted t look ct match n")
    case (Some w)
    then obtain c where c: "R c" "cf_name c = n" "assigned t match ct n" "cf_detail (effective t match ct c) \<noteq> []"
      "w = (cf_version (effective t match ct c), cf_detail (effective t match ct c))"
      by (auto simp: wanted_def bind_eq_Some_conv rows Let_def split: if_splits)
    then have "effective t match ct c \<in> set cs" by (auto simp: cs)
    from offered_Some [OF det this _ c(4), of n] c Some show ?thesis by simp
  next
    case None
    have "n \<notin> cf_name ` set (filter (\<lambda>c. cf_detail c \<noteq> []) cs)"
    proof
      assume "n \<in> cf_name ` set (filter (\<lambda>c. cf_detail c \<noteq> []) cs)"
      then obtain c where c: "R c" "assigned t match ct n" "cf_name c = n" "cf_detail (effective t match ct c) \<noteq> []"
        by (auto simp: cs)
      moreover from this have "look t n = Some c" by (simp add: rows)
      ultimately show False using None by (simp add: wanted_def Let_def)
    qed
    with None show ?thesis by (simp add: offered_None)
  qed
  with det show ?thesis by blast
qed

subsection \<open>The states of a heartbeat\<close>

definition status_ops :: "time \<Rightarrow> string \<Rightarrow> ConfigInfo list \<Rightarrow> string \<Rightarrow> mgr_op list" where
  "status_ops now i cfgs ct = map (\<lambda>ci. UpsertStatusOp now (info_status i ct ci)) cfgs"

definition report_ops :: "time \<Rightarrow> HeartbeatRequest \<Rightarrow> mgr_op list" where
  "report_ops now req =
     (let i = hb_instance_id req
      in UpsertAgentOp (buildAgent now req) #
         status_ops now i (hb_pipelines req) ConfigTypePipeline @
         status_ops now i (hb_instances req) ConfigTypeInstance @
         status_ops now i (hb_onetimes req) ConfigTypeOnetime)"

abbreviation agent_context :: "time \<Rightarrow> HeartbeatRequest \<Rightarrow> AgentMatchContext" where
  "agent_context now req \<equiv> match_context (buildAgent now req) req"

lemma run_ops_append: "run_ops X (ps @ qs) m = run_ops X qs (run_ops X ps m)"
  by (induction ps arbitrary: m) simp_all

lemma saveStatusList_ops: "saveStatusList X now i cfgs ct m = run_ops X (status_ops now i cfgs ct) m"
  by (induction cfgs arbitrary: m) (simp_all add: status_ops_def)

lemma registry_ops_cache_part:
  "\<forall>q \<in> set qs. registry_op q \<Longrightarrow> m_rdb m = None \<Longrightarrow> cache_part (run_ops X qs m) = cache_part m"
proof (induction qs arbitrary: m)
  case (Cons q qs)
  have q: "cache_part (run_op X q m) = cache_part m"
    using Cons.prems(1) registry_cache_part [OF Cons.prems(2)] by (cases q) auto
  moreover from this have "m_rdb (run_op X q m) = None" using Cons.prems(2) by (simp add: cache_part_def)
  ultimately show ?case using Cons.IH [of "run_op X q m"] Cons.prems(1) by simp
qed simp

lemma report_ops_cache_part:
  "m_rdb m = None \<Longrightarrow> cache_part (run_ops X (report_ops now req) m) = cache_part m"
  by (rule registry_ops_cache_part) (auto simp: report_ops_def status_ops_def Let_def)

lemma GetAgent_local: "m_rdb m = None \<Longrightarrow> snd (GetAgent_m X i m) = m"
  by (simp add: GetAgent_m_def split: option.splits)

definition asks_full_state :: "HeartbeatRequest \<Rightarrow> ('d, 'f, 'r) mgr \<Rightarrow> bool" where
  "asks_full_state req m \<longleftrightarrow>
     (case map_of (m_agents m) (hb_instance_id req) of
        None \<Rightarrow> False
      | Some a \<Rightarrow> a_seq a = 0 \<and> hb_sequence_num req > 1)"

lemma heartbeat_steps:
  assumes "m_rdb m = None"
  shows "heartbeat ord X now req m =
    (case GetConfigsForAgent_m X (agent_context now req) (run_ops X (report_ops now req) m) of
       (Inl e, m') \<Rightarrow> (buildErrHBResp (hb_request_id req) 1 ''internal error'', m')
     | (Inr cfgs, m') \<Rightarrow> (build_response ord now (asks_full_state req m) req cfgs, m'))"
proof -
  obtain q where q: "GetAgent_m X (hb_instance_id req) m = (q, m)"
    using GetAgent_local [OF assms] by (metis prod.collapse)
  have "(case q of Inl _ \<Rightarrow> False | Inr a \<Rightarrow> a_seq a = 0 \<and> hb_sequence_num req > 1) = asks_full_state req m"
    using q assms by (auto simp: GetAgent_m_def asks_full_state_def split: option.splits)
  then show ?thesis
    using q by (simp add: heartbeat_def Let_def report_ops_def run_ops_append saveConfigStatuses_def
        saveStatusList_ops split: prod.splits sum.splits)
qed

text \<open>A heartbeat is a history of the manager's operations, so histories may contain heartbeats.\<close>

lemma heartbeat_history:
  "m_rdb m = None \<Longrightarrow>
   snd (heartbeat ord X now req m) = run_ops X (report_ops now req @ [Resolve (agent_context now req)]) m"
  by (simp add: heartbeat_steps run_ops_append split: prod.splits sum.splits)

lemma redis_do_agents: "m_agents (redis_do X c m) = m_agents m"
  using reg_redis_do [of X c m] by (simp add: reg_part_def)

lemma report_keeps_agents:
  "\<forall>q \<in> set qs. (\<exists>t st. q = UpsertStatusOp t st) \<or> (\<exists>a. q = Resolve a) \<Longrightarrow>
   m_agents (run_ops X qs m) = m_agents m"
proof (induction qs arbitrary: m)
  case (Cons q qs)
  have "m_agents (run_op X q m) = m_agents m"
  proof -
    consider t st where "q = UpsertStatusOp t st" | a where "q = Resolve a" using Cons.prems by auto
    then show ?thesis
    proof cases
      case 1
      then show ?thesis
        by (auto simp: UpsertAgentConfigStatus_m_def put_status_def redis_do_agents Let_def split: option.splits)
    next
      case 2
      with reg_resolve [of X a m] show ?thesis by (simp add: reg_part_def)
    qed
  qed
  with Cons show ?case by simp
qed simp

lemma registered_agent:
  "m_rdb m = None \<Longrightarrow>
   map_of (m_agents (run_op X (UpsertAgentOp a) m)) (a_instance a) = Some a"
proof -
  have "m_rdb (register a m) = m_rdb m"
    using cache_part_register [of a m] by (simp add: cache_part_def)
  moreover have "map_of (m_agents (register a m)) (a_instance a) = Some a"
    by (simp add: register_def Let_def update_conv')
  moreover assume "m_rdb m = None"
  ultimately show ?thesis by (simp add: UpsertAgent_m_def Let_def)
qed

subsection \<open>Stripping\<close>

lemma strip_small: "total_bytes (fst (strip_details f us fl)) \<le> maxInlineDetailBytes"
  by (auto simp: strip_details_def total_bytes_def comp_def)

definition pipeline_updates where
  "pipeline_updates ord req cs =
     config_updates (hb_flags req AND RequestFlags_FullState \<noteq> 0) (indexConfigInfos (hb_pipelines req)) cs
     @ config_deletions (ord ConfigTypePipeline) (indexConfigInfos (hb_pipelines req)) cs"

definition instance_updates where
  "instance_updates ord req cs =
     config_updates (hb_flags req AND RequestFlags_FullState \<noteq> 0) (indexConfigInfos (hb_instances req)) cs
     @ config_deletions (ord ConfigTypeInstance) (indexConfigInfos (hb_instances req)) cs"

definition inline :: "ConfigDetail list \<Rightarrow> ConfigDetail list" where
  "inline us = (if total_bytes us > maxInlineDetailBytes then map (cd_detail_update (\<lambda>_. [])) us else us)"

lemma response_parts:
  fixes ord now full req ps xs os
  defines "resp \<equiv> build_response ord now full req (ps, xs, os)"
  shows "hr_common resp = ok_response"
    and "hr_pipelines resp = inline (pipeline_updates ord req ps)"
    and "hr_instances resp = inline (instance_updates ord req xs)"
    and "hr_onetimes resp = onetime_cancellations (ord ConfigTypeOnetime) (indexConfigInfos (hb_onetimes req)) os
      @ onetime_deliveries (hb_flags req AND RequestFlags_FullState \<noteq> 0) now (indexConfigInfos (hb_onetimes req)) os"
    and "hr_flags resp AND ResponseFlags_ReportFullState = 0 \<longleftrightarrow> \<not> full"
    and "hr_flags resp AND ResponseFlags_FetchContinuousPipelineConfigDetail = 0 \<longleftrightarrow>
      total_bytes (pipeline_updates ord req ps) \<le> maxInlineDetailBytes"
    and "hr_flags resp AND ResponseFlags_FetchInstanceConfigDetail = 0 \<longleftrightarrow>
      total_bytes (instance_updates ord req xs) \<le> maxInlineDetailBytes"
    and "hr_request_id resp = hb_request_id req"
  unfolding resp_def build_response_def strip_details_def Let_def
  by (simp_all add: pipeline_updates_def instance_updates_def inline_def ResponseFlags_ReportFullState_def
      ResponseFlags_FetchContinuousPipelineConfigDetail_def ResponseFlags_FetchInstanceConfigDetail_def)

lemma heartbeat_response_cases:
  obtains e where "fst (heartbeat ord X now req m) = buildErrHBResp (hb_request_id req) 1 e"
    | full ps xs os where "fst (heartbeat ord X now req m) = build_response ord now full req (ps, xs, os)"
proof -
  obtain q m1 where q: "GetAgent_m X (hb_instance_id req) m = (q, m1)" by fastforce
  obtain r m4 where r: "GetConfigsForAgent_m X (agent_context now req)
      (saveConfigStatuses X now req (hb_instance_id req) (snd (UpsertAgent_m X (buildAgent now req) m1))) = (r, m4)"
    by fastforce
  show ?thesis
  proof (cases r)
    case (Inl e)
    with q r that(1) show ?thesis by (simp add: heartbeat_def Let_def)
  next
    case (Inr out)
    with q r that(2) show ?thesis by (cases out) (simp add: heartbeat_def Let_def)
  qed
qed

subsection \<open>The generation of a one-time command\<close>

text \<open>A function whose result contains its argument at a fixed place.\<close>

definition contextual :: "(string \<Rightarrow> string) \<Rightarrow> bool" where
  "contextual f \<longleftrightarrow> (\<exists>a b. \<forall>s. f s = a @ s @ b)"

lemma contextual_inj: "contextual f \<Longrightarrow> f s = f t \<Longrightarrow> s = t"
  by (auto simp: contextual_def)

lemma contextual_comp: "contextual f \<Longrightarrow> contextual g \<Longrightarrow> contextual (\<lambda>s. f (g s))"
  unfolding contextual_def by (metis append.assoc)

lemma contextual_wrap: "contextual (\<lambda>s. a @ s @ b)"
  by (auto simp: contextual_def)

lemma contextual_join: "contextual (\<lambda>s. join (pre @ s # post) sep)"
proof (induction pre)
  case Nil
  show ?case by (cases post) (auto simp: contextual_def intro: exI [of _ "[]"])
next
  case (Cons x pre)
  have "(\<lambda>s. join ((x # pre) @ s # post) sep) = (\<lambda>s. (x @ sep) @ join (pre @ s # post) sep @ [])"
    by (cases pre) auto
  then show ?case
    using contextual_comp [OF contextual_wrap [of "x @ sep" "[]"] Cons.IH] by simp
qed

lemma put_member_split: "\<exists>pre post. \<forall>v. put_member k v kvs = pre @ (k, v) # post"
proof (induction kvs)
  case (Cons kv kvs)
  obtain k' v' where kv: "kv = (k', v')" by (cases kv)
  from Cons obtain pre post where ih: "\<forall>v. put_member k v kvs = pre @ (k, v) # post" by auto
  consider "k = k'" | "k \<noteq> k'" "k < k'" | "k \<noteq> k'" "\<not> k < k'" by blast
  then show ?case
  proof cases
    case 1 then show ?thesis by (intro exI [of _ "[]"] exI [of _ kvs]) (simp add: kv)
  next
    case 2 then show ?thesis by (intro exI [of _ "[]"] exI [of _ "(k', v') # kvs"]) (simp add: kv)
  next
    case 3 then show ?thesis by (intro exI [of _ "(k', v') # pre"] exI [of _ post]) (simp add: kv ih)
  qed
qed (auto intro: exI [of _ "[]"])

lemma itoa_inject: "itoa m = itoa n \<Longrightarrow> m = n"
proof -
  have sign: "show_nat k \<noteq> ''-'' @ s" for k s
    using hd_show_nat_digit [of k, THEN digit_not_sign] by auto
  assume "itoa m = itoa n"
  moreover have "show_nat (nat a) = show_nat (nat b) \<Longrightarrow> nat a = nat b" for a b
    by (metis dec_val_show_nat)
  ultimately show "m = n" using sign sign [symmetric] by (fastforce simp: itoa_def split: if_splits)
qed

text \<open>Printing an object with a member put in contains the print of the member's value.\<close>

lemma print_put_member:
  "\<exists>f. contextual f \<and> (\<forall>v. json_print (JObj (put_member k v kvs)) = f (json_print v))"
proof -
  obtain pre post where s: "\<forall>v. put_member k v kvs = pre @ (k, v) # post" using put_member_split by blast
  let ?f = "\<lambda>t. ''{'' @ join (map print_member pre @ (quote k @ '':'' @ t @ []) # map print_member post) '','' @ ''}''"
  have "contextual (\<lambda>t. (quote k @ '':'') @ t @ [])" by (rule contextual_wrap)
  from contextual_comp [OF contextual_wrap [of "''{''" "''}''"] contextual_comp [OF contextual_join this]]
  have "contextual ?f" by simp
  moreover have "\<forall>v. json_print (JObj (put_member k v kvs)) = ?f (json_print v)"
    by (simp add: s json_print_obj print_member_def del: json_print.simps)
  ultimately show ?thesis by blast
qed

lemma generation_printed:
  assumes "json_print (JObj (put_generation g doc)) = json_print (JObj (put_generation h doc))"
  shows "g = h"
proof -
  let ?global = "case map_of doc ''global'' of Some (JObj g) \<Rightarrow> g | _ \<Rightarrow> []"
  obtain f1 where f1: "contextual f1"
    "\<forall>v. json_print (JObj (put_member ''global'' v doc)) = f1 (json_print v)"
    using print_put_member by blast
  obtain f2 where f2: "contextual f2"
    "\<forall>v. json_print (JObj (put_member onetimeGenerationKey v ?global)) = f2 (json_print v)"
    using print_put_member by blast
  have "json_print (JObj (put_generation g doc)) = f1 (f2 (itoa g))" for g
    using f1(2) f2(2) by (simp add: put_generation_def Let_def del: json_print.simps(6))
  with assms have "itoa g = itoa h"
    using contextual_inj [OF f1(1)] contextual_inj [OF f2(1)] by metis
  then show "g = h" by (rule itoa_inject)
qed

subsection \<open>Reported tags\<close>

text \<open>The tags of an agent as a map: the last value of a name counts.\<close>

definition tag_map :: "ProtoTag list \<Rightarrow> string \<rightharpoonup> string" where
  "tag_map tags = map_of (rev (map (\<lambda>t. (pt_name t, pt_value t)) tags))"

definition tag_entry :: "ProtoTag \<Rightarrow> agentTagEntry" where
  "tag_entry t = \<lparr>te_name = pt_name t, te_value = pt_value t\<rparr>"

lemma fill_tag: "fill_struct fill_tag_entry (tag_json t) = Some (tag_entry t)"
proof -
  have "fold_name ''name'' \<noteq> fold_name ''value''" by code_simp
  then show ?thesis by (auto simp: tag_json_def fill_tag_entry_def members_def tag_entry_def)
qed

lemma agentTagSet_map: "agentTagSet (map tag_entry tags) = tag_map tags"
  by (induction tags rule: rev_induct) (simp_all add: agentTagSet_def tag_map_def tag_entry_def)

lemma tags_json_parse:
  assumes "\<forall>t \<in> set tags. ascii (pt_name t) \<and> ascii (pt_value t)"
  shows "parse_tag_entries (tags_json tags) = Some (map tag_entry tags)"
proof -
  have plain: "json_plain (if tags = [] then JNull else JArr (map tag_json tags))"
    using assms by (auto simp: tag_json_def byte_def)
  have "tags_json tags \<noteq> []"
    by (simp add: tags_json_def)
  moreover have "all_some (map (fill_struct fill_tag_entry) (map tag_json tags)) = Some (map tag_entry tags)"
    by (simp add: comp_def fill_tag)
  ultimately show ?thesis
    using json_roundtrip [OF plain] by (simp add: parse_tag_entries_def tags_json_def del: json_print.simps)
qed

subsection \<open>Fetching\<close>

text \<open>What a fetch answers about one configuration, and about one command, from its row.\<close>

definition fetch_reply :: "(string \<rightharpoonup> config_row) \<Rightarrow> ConfigInfo \<Rightarrow> ConfigDetail option" where
  "fetch_reply rows ci =
     (case rows (ci_name ci) of
        None \<Rightarrow> Some \<lparr>cd_name = ci_name ci, cd_version = - 1, cd_detail = []\<rparr>
      | Some c \<Rightarrow> if cf_detail c \<noteq> [] \<and> cf_version c \<noteq> ci_version ci then Some (config_detail c) else None)"

definition command_reply :: "time \<Rightarrow> (string \<rightharpoonup> OnetimeCommand) \<Rightarrow> ConfigInfo \<Rightarrow> CommandDetail option" where
  "command_reply now rows ci =
     (case rows (ci_name ci) of
        None \<Rightarrow> None
      | Some c \<Rightarrow> if expired now c then None else Some (command_detail c))"

text \<open>
  The reads a request makes, one after the other, and the entries whose read does not fail: to
  find no row is an answer, any other error is a failure of the database.
\<close>

fun reads_of :: "(string \<Rightarrow> 's \<Rightarrow> (err + 'c) \<times> 's) \<Rightarrow> ConfigInfo list \<Rightarrow> 's \<Rightarrow> (err + 'c) list \<times> 's" where
  "reads_of get [] m = ([], m)"
| "reads_of get (ci # cfgs) m =
     (case get (ci_name ci) m of (r, m1) \<Rightarrow> (case reads_of get cfgs m1 of (rs, m2) \<Rightarrow> (r # rs, m2)))"

definition read_failed :: "err + 'c \<Rightarrow> bool" where
  "read_failed r \<longleftrightarrow> (case r of Inl e \<Rightarrow> \<not> is_not_found e | Inr _ \<Rightarrow> False)"

definition served :: "ConfigInfo list \<Rightarrow> (err + 'c) list \<Rightarrow> ConfigInfo list" where
  "served cfgs rs = map fst (filter (\<lambda>(ci, r). \<not> read_failed r) (zip cfgs rs))"

lemma served_simps [simp]:
  "served [] rs = []"
  "served (ci # cfgs) (r # rs) = (if read_failed r then served cfgs rs else ci # served cfgs rs)"
  by (simp_all add: served_def)

lemma reads_of_length: "reads_of get cfgs m = (rs, m') \<Longrightarrow> length rs = length cfgs"
  by (induction cfgs arbitrary: m rs) (auto split: prod.splits)

lemma served_all:
  assumes "\<forall>r \<in> set rs. \<not> read_failed r" and "length rs = length cfgs"
  shows "served cfgs rs = cfgs"
  using assms(2,1) by (induction rs cfgs rule: list_induct2) simp_all

context cached_manager
begin

lemma fetch_updates_ok:
  assumes "reader A get look" and "coh A m" and "fetch_updates get cfgs m = (us, m')"
    and "reads_of get cfgs m = (rs, m'')"
  shows "coh A m' \<and> tabs (m_db m') = tabs (m_db m) \<and> m'' = m' \<and>
    us = List.map_filter (fetch_reply (look (tabs (m_db m)))) (served cfgs rs)"
  using assms(2-)
proof (induction cfgs arbitrary: m us rs)
  case (Cons ci cfgs)
  obtain r m1 where g: "get (ci_name ci) m = (r, m1)" by fastforce
  obtain vs where f: "fetch_updates get cfgs m1 = (vs, m')"
    using Cons.prems(2) g by (auto split: prod.splits)
  obtain qs where q: "reads_of get cfgs m1 = (qs, m'')" "rs = r # qs"
    using Cons.prems(3) g by (auto split: prod.splits)
  have m1: "coh A m1" "tabs (m_db m1) = tabs (m_db m)"
    using readerD(1) [OF assms(1) Cons.prems(1) g] by (simp_all add: steady_def)
  note ih = Cons.IH [OF m1(1) f q(1)]
  show ?case
    using ih m1(2) q(2) Cons.prems(2) g f readerD(2,3) [OF assms(1) Cons.prems(1) g]
    by (auto simp: fetch_reply_def read_failed_def List.map_filter_simps split: sum.splits if_splits)
qed (simp add: List.map_filter_simps)

lemma fetch_commands_ok:
  assumes "coh A m" and "fetch_commands X now cfgs m = (us, m')"
    and "reads_of (GetOnetimeCommand_m X) cfgs m = (rs, m'')"
  shows "coh A m' \<and> tabs (m_db m') = tabs (m_db m) \<and> m'' = m' \<and>
    us = List.map_filter (command_reply now (\<lambda>n. map_option with_version (onetime_at (tabs (m_db m)) n))) (served cfgs rs)"
  using assms
proof (induction cfgs arbitrary: m us rs)
  case (Cons ci cfgs)
  obtain r m1 where g: "GetOnetimeCommand_m X (ci_name ci) m = (r, m1)" by fastforce
  obtain vs where f: "fetch_commands X now cfgs m1 = (vs, m')"
    using Cons.prems(2) g by (auto split: prod.splits)
  obtain qs where q: "reads_of (GetOnetimeCommand_m X) cfgs m1 = (qs, m'')" "rs = r # qs"
    using Cons.prems(3) g by (auto split: prod.splits)
  note R = readerD [OF reader_onetime Cons.prems(1) g]
  have m1: "coh A m1" "tabs (m_db m1) = tabs (m_db m)"
    using R(1) by (simp_all add: steady_def)
  note ih = Cons.IH [OF m1(1) f q(1)]
  show ?case
    using ih m1(2) q(2) Cons.prems(2) g f R(2,3)
    by (auto simp: command_reply_def read_failed_def List.map_filter_simps split: sum.splits if_splits)
qed (simp add: List.map_filter_simps)

lemma delivered_offered:
  assumes "delivered_spec (tabs d) a (ps, xs, os)"
  shows "name_determines ps \<and> offered ps = wanted (tabs d) pipeline_at ConfigTypePipeline a"
    and "name_determines xs \<and> offered xs = wanted (tabs d) instance_at ConfigTypeInstance a"
  using assms unfolding delivered_spec_def
  by (intro offered_wanted [where R = "\<lambda>c. has (tabs d) (RPipeline c)"]
      offered_wanted [where R = "\<lambda>c. has (tabs d) (RInstance c)"]; simp add: config_rows)+

end

end
