(* ===== verification/Manager_Props.thy ===== *)
theory Manager_Props
  imports Manager_Coherence Registry_Laws "HOL-Library.Multiset"
begin

section \<open>The manager's contract with its callers\<close>

text \<open>
  The properties of the cache manager and of its registry, in all-in-one mode. The first two
  say that caching is invisible: after any history of operations from an empty cache, a read
  of a configuration and the resolution for an agent give what the database holds. Then the
  registry: it never holds more than \<open>maxAgents\<close> agents and its three parts agree; a page
  is a slice of the agents by falling heartbeat, and the pages partition them where no two
  heartbeats are equal; and what the code's own comments promise but do not deliver.
\<close>

subsection \<open>Caching is invisible\<close>

definition agrees :: "'a option \<Rightarrow> err + 'a \<Rightarrow> bool" where
  "agrees row r \<longleftrightarrow> (case r of Inr c \<Rightarrow> row = Some c | Inl e \<Rightarrow> is_not_found e \<longrightarrow> row = None)"

text \<open>The history from an empty cache on a database.\<close>

definition empty_caches :: "('f \<Rightarrow> string \<rightharpoonup> blob) \<Rightarrow> 'f \<Rightarrow> 'f \<Rightarrow> bool" where
  "empty_caches view l1 res \<longleftrightarrow> view l1 = Map.empty \<and> view res = Map.empty"

lemma fresh_coherent: "empty_caches view l1 res \<Longrightarrow> coherent tabs view {} (New st l1 res None t1 t2 h)"
  by (simp add: empty_caches_def coherent_def New_def)

context cached_manager
begin

lemma history_coherent:
  assumes "empty_caches view l1 res" and "ops_safe X tabs qs (New st l1 res None t1 t2 h)"
    and "length qs < 2 ^ 64"
  shows "coherent tabs view (askers qs) (run_ops X qs (New st l1 res None t1 t2 h))"
  using run_ops_coherent [OF fresh_coherent [OF assms(1)] assms(2)] assms(3) by (simp add: New_def)

lemma reader_agrees: "reader A get look \<Longrightarrow> coherent tabs view A m \<Longrightarrow> agrees (look (tabs (m_db m)) n) (fst (get n m))"
  by (cases "get n m") (auto simp: agrees_def split: sum.splits dest: readerD(2,3))

end

text \<open>
  C9. Reading a configuration through the cache agrees with the database, whatever happened
  before: after any sequence of operations from empty caches (in which no configuration is
  created after it was mapped to a group), a successful read of a pipeline configuration, an
  instance configuration or a one-time command returns the row in the database (the command
  with its derived version), and a not-found error means that there is no such row.
\<close>

theorem cached_reads_agree:
  assumes "services_ok X tabs view" and "empty_caches view l1 res"
    and "ops_safe X tabs qs (New st l1 res None t1 t2 h)" and "length qs < 2 ^ 64"
    and "m = run_ops X qs (New st l1 res None t1 t2 h)"
  shows "agrees (pipeline_at (tabs (m_db m)) n) (fst (GetPipelineConfig_m X n m)) \<and>
    agrees (instance_at (tabs (m_db m)) n) (fst (GetInstanceConfig_m X n m)) \<and>
    agrees (map_option with_version (onetime_at (tabs (m_db m)) n)) (fst (GetOnetimeCommand_m X n m))"
proof -
  have X: "cached_manager X tabs view" using assms(1) by (simp add: cached_manager_services)
  note agree = cached_manager.reader_agrees [OF X _ cached_manager.history_coherent [OF X assms(2-4)]]
  show ?thesis
    unfolding assms(5)
    by (intro conjI agree cached_manager.reader_pipeline cached_manager.reader_instance
        cached_manager.reader_onetime X)
qed

definition sample_start :: "(memdb, memcache, unit) mgr" where
  "sample_start = New sample_db [] [] None (300 * second) 0 False"

definition sample_history :: "mgr_op list" where
  "sample_history =
     [ReadPipeline ''p1'',
      UpdatePipelineOp 5 \<lparr>cf_name = ''p1'', cf_version = 8, cf_detail = ''a: 2'', cf_created = 0, cf_updated = 0\<rparr>]"

lemma sample_history_safe: "ops_safe mem_services mem_tabs sample_history sample_start"
  by (simp add: sample_history_def)

theorem cached_reads_agree_witness:
  "\<exists>c. fst (GetPipelineConfig_m mem_services ''p1'' (run_ops mem_services sample_history sample_start)) = Inr c \<and>
     cf_version c = 8 \<and>
     pipeline_at (mem_tabs (m_db (run_ops mem_services sample_history sample_start))) ''p1'' = Some c"
proof -
  let ?m = "run_ops mem_services sample_history sample_start"
  have "\<exists>c. fst (GetPipelineConfig_m mem_services ''p1'' ?m) = Inr c \<and> cf_version c = 8"
  proof (intro exI conjI)
    show "fst (GetPipelineConfig_m mem_services ''p1'' ?m) =
      Inr \<lparr>cf_name = ''p1'', cf_version = 8, cf_detail = ''a: 2'', cf_created = 1, cf_updated = 5\<rparr>"
      by code_simp
  qed simp
  moreover have "agrees (pipeline_at (mem_tabs (m_db ?m)) ''p1'') (fst (GetPipelineConfig_m mem_services ''p1'' ?m))"
    using cached_reads_agree [OF mem_services_ok, of "[]" "[]" sample_history sample_db "300 * second" 0 False ?m "''p1''"]
      sample_history_safe by (simp add: sample_start_def empty_caches_def sample_history_def)
  ultimately show ?thesis by (auto simp: agrees_def)
qed

text \<open>
  C2. Resolution through the cache delivers what the specification says, whatever happened
  before: after any such history, an agent that asks is given exactly the configurations
  assigned to its groups as the database stands, each in its effective (canary or stable)
  version, provided that no two different agents of the history collide in the 64-bit hash.
\<close>

theorem cached_resolution_agrees:
  assumes "services_ok X tabs view" and "empty_caches view l1 res"
    and "ops_safe X tabs qs (New st l1 res None t1 t2 h)" and "length qs < 2 ^ 64"
    and "m = run_ops X qs (New st l1 res None t1 t2 h)"
    and "collision_free (insert match (askers qs))" and "plain_names (tabs (m_db m))"
  shows "case fst (GetConfigsForAgent_m X match m) of
      Inr out \<Rightarrow> delivered_spec (tabs (m_db m)) match out
    | Inl e \<Rightarrow> True"
proof -
  have X: "cached_manager X tabs view" using assms(1) by (simp add: cached_manager_services)
  have c: "coherent tabs view (askers qs) m"
    using cached_manager.history_coherent [OF X assms(2-4)] assms(5) by simp
  obtain r m' where g: "GetConfigsForAgent_m X match m = (r, m')" by fastforce
  from cached_manager.GetConfigsForAgent_m_ok [OF X c g] assms(6,7) g show ?thesis
    by (auto split: sum.splits)
qed

lemma sample_resolution:
  "fst (GetConfigsForAgent mem_gorm sample_match sample_db) =
     Inr ([\<lparr>cf_name = ''p1'', cf_version = 7, cf_detail = ''a: 1'', cf_created = 1, cf_updated = 1\<rparr>], [], [])"
  "snd (GetConfigsForAgent mem_gorm sample_match sample_db) = sample_db"
  by code_simp+

theorem cached_resolution_agrees_witness:
  "\<exists>out. fst (GetConfigsForAgent_m mem_services sample_match sample_start) = Inr out \<and>
     map cf_name (fst out) = [''p1''] \<and> delivered_spec (mem_tabs sample_db) sample_match out"
proof -
  let ?p1 = "\<lparr>cf_name = ''p1'', cf_version = 7, cf_detail = ''a: 1'', cf_created = 1, cf_updated = 1\<rparr>"
  have reads: "ListCanaries mem_gorm sample_db = (Inr [], sample_db)"
    "GetPipelineConfig mem_gorm ''p1'' sample_db = (Inr ?p1, sample_db)"
    by code_simp+
  have res: "GetConfigsForAgent mem_gorm sample_match sample_db = (Inr ([?p1], [], []), sample_db)"
    using sample_resolution by (metis prod.collapse)
  have "fst (GetConfigsForAgent_m mem_services sample_match sample_start) = Inr ([?p1], [], [])"
    using reads res
    by (simp add: GetConfigsForAgent_m_def resolve_get_def resolve_set_def on_db_def sample_start_def New_def
        mem_services_def mem_get_def mem_set_def resolveAgentKey_def names_of_def hydrateAgentConfigSet_def
        bindr_def retr_def getActiveCanaries_def GetPipelineConfig_m_def tier_lookup_def l1_lookup_def Let_def
        crMap_def canary_version_def)
  moreover have "delivered_spec (mem_tabs sample_db) sample_match ([?p1], [], [])"
    using calculation sample_plain
      cached_resolution_agrees [OF mem_services_ok, of "[]" "[]" "[]" sample_db "300 * second" 0 False
        sample_start sample_match]
    by (simp add: sample_start_def empty_caches_def collision_free_def same_identity_def New_def askers_def)
  ultimately show ?thesis by simp
qed

subsection \<open>The registry\<close>

text \<open>
  C17. The registry of agents stays well formed in every history, with or without Redis: the list
  of instance ids has no duplicates and contains exactly the ids of the index and of the map;
  an agent sits under its own id; there are never more than \<open>maxAgents\<close> agents and
  \<open>maxStatuses\<close> statuses, each under one key.
\<close>

theorem registry_invariant:
  "registry_ok (run_ops X qs (New st l1 res rdb t1 t2 h))"
  by (rule run_ops_registry) (rule registry_ok_New)

text \<open>
  C18. The registry holds the \<open>maxAgents\<close> most recently seen agents: after any sequence of
  reports the list is the reference list of distinct ids, latest first, cut at the capacity,
  and the map gives for each of them its last report, and nothing for any other id.
\<close>

theorem registry_is_most_recent:
  "m_lru (register_all as (New st l1 res rdb t1 t2 h)) = take maxAgents (recent (rev (map a_instance as))) \<and>
   map_of (m_agents (register_all as (New st l1 res rdb t1 t2 h))) =
     (latest as) |` set (take maxAgents (recent (rev (map a_instance as))))"
  using registry_recent [OF refl refl] by metis

text \<open>
  C26. Eviction by age removes exactly the agents whose last heartbeat is more than \<open>agentTTL\<close>
  old, keeps the order of the others, and removes exactly the statuses whose key starts with
  the id of a removed agent and a colon.
\<close>

theorem stale_eviction_exact:
  assumes "m = run_ops X qs (New st l1 res rdb t1 t2 h)"
  shows "m_agents (evictStaleAgents X now m) =
      filter (\<lambda>(_, a). a_last_heartbeat a \<ge> now - agentTTL) (m_agents m) \<and>
    m_statuses (evictStaleAgents X now m) =
      filter (\<lambda>(k, _). \<forall>i \<in> fst ` set (m_agents m) - fst ` set (m_agents (evictStaleAgents X now m)).
        \<not> has_prefix k (i @ '':'')) (m_statuses m) \<and>
    registry_ok (evictStaleAgents X now m)"
proof -
  have ok: "registry_ok m" unfolding assms by (rule run_ops_registry) (rule registry_ok_New)
  have ags: "m_agents (evictStaleAgents X now m) = filter (\<lambda>(_, a). a_last_heartbeat a \<ge> now - agentTTL) (m_agents m)"
    using evictStale_fields(1) [OF ok] by (simp add: is_stale_def not_less)
  have "distinct (map fst (m_agents m))" using ok by (simp add: registry_ok_def)
  then have "set (stale_ids now m) =
      fst ` set (m_agents m) - fst ` set (m_agents (evictStaleAgents X now m))"
    unfolding ags by (force simp: stale_ids_def is_stale_def dest: eq_key_imp_eq_value)
  with evictStale_fields(2) [OF ok] ags evictStale_ok [OF ok] show ?thesis by simp
qed

definition sample_agent :: "string \<Rightarrow> time \<Rightarrow> Agent" where
  "sample_agent i hb = \<lparr>a_instance = i, a_type = ''t'', a_ip = ''10.0.0.1'', a_hostname = i, a_hostid = '''',
     a_version = ''1.0'', a_attributes_json = '''', a_tags_json = '''', a_running_status = '''', a_startup = 0,
     a_seq = 0, a_capabilities = 0, a_last_heartbeat = hb, a_created = 0, a_updated = 0\<rparr>"

definition sample_status :: "string \<Rightarrow> string \<Rightarrow> AgentConfigStatus" where
  "sample_status i n = \<lparr>st_instance = i, st_config = n, st_type = ''pipeline'', st_status = 2,
     st_message = '''', st_updated = 0\<rparr>"

definition sample_reports :: "mgr_op list" where
  "sample_reports =
     [UpsertAgentOp (sample_agent ''old'' 0), UpsertStatusOp 0 (sample_status ''old'' ''p1''),
      UpsertAgentOp (sample_agent ''new'' (2 * agentTTL)), UpsertStatusOp 0 (sample_status ''new'' ''p1'')]"

lemma sample_reports_state:
  "m_agents (run_ops mem_services sample_reports sample_start) =
     [(''old'', sample_agent ''old'' 0), (''new'', sample_agent ''new'' (2 * agentTTL))]"
  "map fst (m_statuses (run_ops mem_services sample_reports sample_start)) =
     [''old:p1:pipeline'', ''new:p1:pipeline'']"
  "m_rdb (run_ops mem_services sample_reports sample_start) = None"
  by (simp_all add: sample_reports_def sample_start_def New_def UpsertAgent_m_def UpsertAgentConfigStatus_m_def
      register_def put_status_def agentStatusKey_def sample_agent_def sample_status_def maxAgents_def
      maxStatuses_def Let_def)

theorem stale_eviction_exact_witness:
  "m_agents (evictStaleAgents mem_services (2 * agentTTL) (run_ops mem_services sample_reports sample_start)) =
     [(''new'', sample_agent ''new'' (2 * agentTTL))] \<and>
   map fst (m_statuses (evictStaleAgents mem_services (2 * agentTTL)
     (run_ops mem_services sample_reports sample_start))) = [''new:p1:pipeline'']"
proof -
  let ?m = "run_ops mem_services sample_reports sample_start"
  note E = stale_eviction_exact [of ?m mem_services sample_reports sample_db "[]" "[]" None "300 * second" 0 False
      "2 * agentTTL", unfolded sample_start_def, OF refl, folded sample_start_def]
  have a: "m_agents (evictStaleAgents mem_services (2 * agentTTL) ?m) = [(''new'', sample_agent ''new'' (2 * agentTTL))]"
    using E by (simp add: sample_reports_state sample_agent_def agentTTL_def second_def)
  obtain s1 s2 where "m_statuses ?m = [(''old:p1:pipeline'', s1), (''new:p1:pipeline'', s2)]"
    using sample_reports_state(2) by (auto simp: Cons_eq_map_conv)
  moreover have "{''old'', ''new''} - {''new''} = {''old''}" by auto
  ultimately show ?thesis using E a by (simp add: sample_reports_state has_prefix_def)
qed

subsection \<open>Listing\<close>

text \<open>The agents that match a search, and the order in which one request puts them.\<close>

definition matching :: "(string \<Rightarrow> string) \<Rightarrow> string \<Rightarrow> ('d, 'f, 'r) mgr \<Rightarrow> Agent list" where
  "matching lower search m = filter (\<lambda>a. agentMatchesSearch lower a search) (map snd (m_agents m))"

definition arranged ::
  "(string \<Rightarrow> string) \<Rightarrow> (Agent list \<Rightarrow> Agent list) \<Rightarrow> string \<Rightarrow> ('d, 'f, 'r) mgr \<Rightarrow> Agent list" where
  "arranged lower ord search m =
     sort_slice ord (filter (\<lambda>a. agentMatchesSearch lower a search) (ord (map snd (m_agents m))))"

lemma arranged_facts:
  assumes "\<And>xs. mset (ord xs) = mset xs"
  shows "mset (arranged lower ord search m) = mset (matching lower search m)"
    and "sorted_wrt (\<lambda>a b. a_last_heartbeat b \<le> a_last_heartbeat a) (arranged lower ord search m)"
  using assms sorted_sort_key [of "\<lambda>a. - a_last_heartbeat a"]
  by (simp_all add: arranged_def sort_slice_def matching_def sorted_map)

lemma arranged_unique:
  assumes "\<And>xs. mset (ord xs) = mset xs" and "\<And>xs. mset (ord' xs) = mset xs"
    and "distinct (map a_last_heartbeat (matching lower search m))"
  shows "arranged lower ord search m = arranged lower ord' search m"
proof -
  let ?in = "\<lambda>ord. ord (filter (\<lambda>a. agentMatchesSearch lower a search) (ord (map snd (m_agents m))))"
  have *: "mset (?in ord) = mset (matching lower search m)" "mset (?in ord') = mset (matching lower search m)"
    using assms(1,2) by (simp_all add: matching_def)
  then have "set (?in ord) = set (matching lower search m)" by (metis mset_eq_setD)
  with assms(3) have "inj_on (\<lambda>a. - a_last_heartbeat a) (set (?in ord))"
    by (auto simp: distinct_map inj_on_def)
  with * show ?thesis unfolding arranged_def sort_slice_def by (intro sort_key_eq_sort_key) simp_all
qed

lemma arranged_strict:
  assumes "\<And>xs. mset (ord xs) = mset xs" and "distinct (map a_last_heartbeat (matching lower search m))"
  shows "sorted_wrt (\<lambda>a b. a_last_heartbeat b < a_last_heartbeat a) (arranged lower ord search m)"
proof -
  have "mset (map a_last_heartbeat (arranged lower ord search m)) = mset (map a_last_heartbeat (matching lower search m))"
    using arranged_facts(1) [of ord lower search m, OF assms(1)] by simp
  then have "distinct (map a_last_heartbeat (arranged lower ord search m))"
    using assms(2) mset_eq_imp_distinct_iff by blast
  with arranged_facts(2) [of ord lower search m, OF assms(1)] show ?thesis
    by (auto simp: sorted_wrt_iff_nth_less distinct_conv_nth order.strict_iff_order)
qed

text \<open>
  C27. The agent list, in pages: without Redis and for all agents or the default group, each
  request (each with an order of its own, in which Go ranges over the map and sorts the ties)
  is answered by a slice, at the place its page has, of some arrangement of exactly the
  registered agents that match the search, newest heartbeat first, with the total length, for
  pages in the range of a 64-bit int. If no two of these agents have the same heartbeat, it is
  one arrangement for all requests, so that the pages partition it: every agent is on exactly
  one page. (With equal heartbeats they need not: \<open>tied_pages_overlap\<close>.)
\<close>

theorem list_agents_pages:
  fixes ord :: "nat \<Rightarrow> Agent list \<Rightarrow> Agent list"
  assumes "m_rdb m = None" and "\<And>i xs. mset (ord i xs) = mset xs" and "grp = [] \<or> grp = DefaultGroupName"
    and "1 \<le> sz"
  shows "(\<forall>i page. 1 \<le> page \<and> page * sz < 2 ^ 63 \<longrightarrow>
      (\<exists>all. mset all = mset (matching lower search m) \<and>
        sorted_wrt (\<lambda>a b. a_last_heartbeat b \<le> a_last_heartbeat a) all \<and>
        ListAgentsPaged_m lower (ord i) X grp page sz search m =
          (Inr (Some (take (nat sz) (drop (nat ((page - 1) * sz)) all), int (length all))), m))) \<and>
    (distinct (map a_last_heartbeat (matching lower search m)) \<longrightarrow>
      (\<exists>all. mset all = mset (matching lower search m) \<and>
        sorted_wrt (\<lambda>a b. a_last_heartbeat b < a_last_heartbeat a) all \<and>
        (\<forall>i page. 1 \<le> page \<and> page * sz < 2 ^ 63 \<longrightarrow>
          ListAgentsPaged_m lower (ord i) X grp page sz search m =
            (Inr (Some (take (nat sz) (drop (nat ((page - 1) * sz)) all), int (length all))), m))))"
proof -
  let ?all = "\<lambda>i. arranged lower (ord i) search m"
  have g: "\<not> (grp \<noteq> [] \<and> grp \<noteq> DefaultGroupName)" using assms(3) by blast
  have "ListAgentsPaged_m lower (ord i) X grp page sz search m = (Inr (page_of page sz (?all i)), m)" for i page
    using g assms(1) by (auto simp: ListAgentsPaged_m_def ListAgents_m_def agentMatchesGroup_def arranged_def)
  then have page: "1 \<le> page \<and> page * sz < 2 ^ 63 \<Longrightarrow> ListAgentsPaged_m lower (ord i) X grp page sz search m =
      (Inr (Some (take (nat sz) (drop (nat ((page - 1) * sz)) (?all i)), int (length (?all i)))), m)" for i page
    using page_of_plain [of page sz "?all i"] assms(4) by simp
  have one: "?all i = ?all 0" if "distinct (map a_last_heartbeat (matching lower search m))" for i
    using arranged_unique [of "ord i" "ord 0", OF assms(2) assms(2) that] .
  show ?thesis
    using page one arranged_facts [of "ord i" lower search m for i, OF assms(2)]
      arranged_strict [of "ord 0" lower search m, OF assms(2)] by metis
qed

theorem list_agents_pages_witness:
  "\<exists>all. set all = {sample_agent ''old'' 0, sample_agent ''new'' (2 * agentTTL)} \<and> length all = 2 \<and>
     fst (ListAgentsPaged_m id rev mem_services [] 1 1 [] (run_ops mem_services sample_reports sample_start)) =
       Inr (Some (take 1 all, 2)) \<and>
     fst (ListAgentsPaged_m id id mem_services [] 2 1 [] (run_ops mem_services sample_reports sample_start)) =
       Inr (Some (drop 1 all, 2))"
proof -
  let ?m = "run_ops mem_services sample_reports sample_start" and ?ord = "\<lambda>i :: nat. if i = 0 then id else rev"
  have match: "matching id [] ?m = [sample_agent ''old'' 0, sample_agent ''new'' (2 * agentTTL)]"
    by (simp add: matching_def sample_reports_state agentMatchesSearch_def)
  have "distinct (map a_last_heartbeat (matching id [] ?m))"
    by (simp add: match sample_agent_def agentTTL_def second_def)
  moreover have "\<And>i xs. mset (?ord i xs) = mset xs" by simp
  ultimately obtain all where a: "mset all = mset (matching id [] ?m)"
    "\<forall>i page. 1 \<le> page \<and> page * 1 < 2 ^ 63 \<longrightarrow> ListAgentsPaged_m id (?ord i) mem_services [] page 1 [] ?m =
      (Inr (Some (take (nat 1) (drop (nat ((page - 1) * 1)) all), int (length all))), ?m)"
    using list_agents_pages [of ?m ?ord "[]" 1 id "[]" mem_services, OF sample_reports_state(3)] by blast
  have "length all = 2" "set all = {sample_agent ''old'' 0, sample_agent ''new'' (2 * agentTTL)}"
    using arg_cong [OF a(1), of size] arg_cong [OF a(1), of set_mset] by (simp_all add: match insert_commute flip: size_mset)
  moreover from this have "take 1 (drop 1 all) = drop 1 all" by simp
  ultimately show ?thesis using a(2) [THEN spec, of 1, THEN spec, of 1] a(2) [THEN spec, of 0, THEN spec, of 2] by auto
qed

text \<open>
  Two agents with the same heartbeat: the first page of one request and the second page of the
  next show the same agent, and neither shows the other.
\<close>

definition tied_reports :: "mgr_op list" where
  "tied_reports = [UpsertAgentOp (sample_agent ''x'' 0), UpsertAgentOp (sample_agent ''y'' 0)]"

definition putting_first :: "string \<Rightarrow> Agent list \<Rightarrow> Agent list" where
  "putting_first i as = filter (\<lambda>a. a_instance a = i) as @ filter (\<lambda>a. a_instance a \<noteq> i) as"

lemma putting_first_mset: "mset (putting_first i as) = mset as"
  by (simp add: putting_first_def)

lemma tied_pages_overlap:
  "fst (ListAgentsPaged_m id (putting_first ''x'') mem_services [] 1 1 []
     (run_ops mem_services tied_reports sample_start)) = Inr (Some ([sample_agent ''x'' 0], 2)) \<and>
   fst (ListAgentsPaged_m id (putting_first ''y'') mem_services [] 2 1 []
     (run_ops mem_services tied_reports sample_start)) = Inr (Some ([sample_agent ''x'' 0], 2))"
  by (simp add: ListAgentsPaged_m_def ListAgents_m_def tied_reports_def sample_start_def New_def UpsertAgent_m_def
      register_def sample_agent_def maxAgents_def agentMatchesGroup_def agentMatchesSearch_def putting_first_def
      sort_slice_def page_of_def wrap64_def Let_def)

subsection \<open>Statuses\<close>

text \<open>
  Evicting the oldest agent to make room leaves its statuses behind: the purge looks for keys
  that start with the id and a NUL byte, but keys are built with colons, so that as long as
  no key contains a NUL byte, the map of statuses does not change.
\<close>

theorem evicted_agent_keeps_statuses:
  assumes "\<forall>k \<in> fst ` set (m_statuses m). CHR 0x00 \<notin> set k"
  shows "m_statuses (evictOldestAgentLocked m) = m_statuses m"
proof -
  have "\<not> has_prefix k (i @ [CHR 0x00])" if "k \<in> fst ` set (m_statuses m)" for k i
    using assms that set_mono_prefix [of "i @ [CHR 0x00]" k] by (auto simp: has_prefix_def)
  then have "filter (\<lambda>(k, _). \<not> has_prefix k (i @ [CHR 0x00])) (m_statuses m) = m_statuses m" for i
    by (intro filter_True ballI) (simp add: image_iff split_beta, metis)
  then show ?thesis
    by (simp add: evictOldestAgentLocked_def purge_statuses_def Let_def split: option.splits)
qed

theorem evicted_agent_keeps_statuses_witness:
  "map fst (m_agents (evictOldestAgentLocked (run_ops mem_services sample_reports sample_start))) = [''new''] \<and>
   map fst (m_statuses (evictOldestAgentLocked (run_ops mem_services sample_reports sample_start))) =
     [''old:p1:pipeline'', ''new:p1:pipeline'']"
proof
  let ?m = "run_ops mem_services sample_reports sample_start"
  have "\<forall>k \<in> fst ` set (m_statuses ?m). CHR 0x00 \<notin> set k"
    using arg_cong [OF sample_reports_state(2), of set] by auto
  from evicted_agent_keeps_statuses [OF this]
  show "map fst (m_statuses (evictOldestAgentLocked ?m)) = [''old:p1:pipeline'', ''new:p1:pipeline'']"
    by (simp add: sample_reports_state)
  have "m_lru ?m = [''new'', ''old'']"
    by (simp add: sample_reports_def sample_start_def New_def UpsertAgent_m_def UpsertAgentConfigStatus_m_def
        register_def put_status_def agentStatusKey_def sample_agent_def sample_status_def maxAgents_def
        maxStatuses_def Let_def)
  then show "map fst (m_agents (evictOldestAgentLocked ?m)) = [''new'']"
    by (simp add: evictOldestAgentLocked_def sample_reports_state purge_statuses_def Let_def)
qed

end
