(* ===== verification/Agent_Props.thy ===== *)
theory Agent_Props
  imports Agent_Laws Manager_Props
begin

section \<open>The contract of the agent endpoints\<close>

text \<open>
  The properties of \<open>Heartbeat\<close> and \<open>FetchConfig\<close>: an agent that applies a response holds
  what the database assigns to it; nothing is sent that it has; contents beyond the limit are
  replaced by a flag; when one-time commands are offered and cancelled; and what a heartbeat
  leaves in the registry. They are about the manager without Redis, after any history of
  operations from empty caches; by \<open>heartbeat_history\<close> a heartbeat is itself such a history.
\<close>

subsection \<open>A sample\<close>

definition sample_request :: HeartbeatRequest where
  "sample_request = \<lparr>hb_request_id = ''r1'', hb_sequence_num = 5, hb_capabilities = 7,
     hb_instance_id = ''i-1'', hb_agent_type = ''t'',
     hb_attributes = Some \<lparr>at_version = ''1.2.0'', at_ip = '''', at_hostname = ''h'', at_hostid = ''''\<rparr>,
     hb_tags = [\<lparr>pt_name = ''env'', pt_value = ''prod''\<rparr>], hb_running_status = '''', hb_startup_time = 0,
     hb_pipelines = [\<lparr>ci_name = ''p1'', ci_version = 6, ci_status = 2, ci_message = ''''\<rparr>,
       \<lparr>ci_name = ''gone'', ci_version = 2, ci_status = 2, ci_message = ''''\<rparr>],
     hb_instances = [], hb_onetimes = [], hb_flags = 0\<rparr>"

definition sample_held :: holding where
  "sample_held = [''p1'' \<mapsto> (6, ''a: 0''), ''gone'' \<mapsto> (2, ''c: 0'')]"

definition keep_order :: "string \<Rightarrow> string list \<Rightarrow> string list" where
  "keep_order ct ns = ns"

lemma keep_order_reorders: "reorders (keep_order ct)"
  by (simp add: reorders_def keep_order_def)

lemma sample_context: "agent_context now sample_request = sample_match"
  by (simp add: match_context_def buildAgent_def sample_request_def sample_match_def attr_def protoTagsToModel_def)

abbreviation sample_p1 :: config_row where
  "sample_p1 \<equiv> \<lparr>cf_name = ''p1'', cf_version = 7, cf_detail = ''a: 1'', cf_created = 1, cf_updated = 1\<rparr>"

lemma sample_resolves:
  assumes "cache_part m = cache_part sample_start"
  shows "fst (GetConfigsForAgent_m mem_services sample_match m) = Inr ([sample_p1], [], [])"
proof -
  have reads: "ListCanaries mem_gorm sample_db = (Inr [], sample_db)"
    "GetPipelineConfig mem_gorm ''p1'' sample_db = (Inr sample_p1, sample_db)"
    by code_simp+
  have res: "GetConfigsForAgent mem_gorm sample_match sample_db = (Inr ([sample_p1], [], []), sample_db)"
    using sample_resolution by (metis prod.collapse)
  show ?thesis
    using reads res assms
    by (simp add: GetConfigsForAgent_m_def resolve_get_def resolve_set_def on_db_def sample_start_def New_def
        mem_services_def mem_get_def mem_set_def resolveAgentKey_def names_of_def hydrateAgentConfigSet_def
        bindr_def retr_def getActiveCanaries_def GetPipelineConfig_m_def tier_lookup_def l1_lookup_def Let_def
        crMap_def canary_version_def cache_part_def)
qed

lemma sample_heartbeat:
  "fst (heartbeat keep_order mem_services now sample_request sample_start) =
     build_response keep_order now False sample_request ([sample_p1], [], [])"
proof -
  have "m_rdb sample_start = None" by (simp add: sample_start_def New_def)
  moreover from report_ops_cache_part [OF this]
  have "fst (GetConfigsForAgent_m mem_services sample_match
      (run_ops mem_services (report_ops now sample_request) sample_start)) = Inr ([sample_p1], [], [])"
    by (rule sample_resolves)
  moreover have "\<not> asks_full_state sample_request sample_start"
    by (simp add: asks_full_state_def sample_start_def New_def)
  ultimately show ?thesis
    by (auto simp: heartbeat_steps sample_context split: prod.splits sum.splits)
qed

subsection \<open>Convergence\<close>

text \<open>One heartbeat of an agent: the caches stay right, and the lists offered are those of the database.\<close>

context cached_manager
begin

lemma beat_ok:
  assumes c: "coherent tabs view A m" and beat: "heartbeat ord X now req m = (resp, m')"
    and ident: "collision_free (insert (agent_context now req) A)" "plain_names (tabs (m_db m))"
  shows "steady tabs view (insert (agent_context now req) A) m m' \<and>
    (resp = buildErrHBResp (hb_request_id req) 1 ''internal error'' \<or>
     (\<exists>ps xs os. resp = build_response ord now (asks_full_state req m) req (ps, xs, os) \<and>
        name_determines ps \<and> offered ps = wanted (tabs (m_db m)) pipeline_at ConfigTypePipeline (agent_context now req) \<and>
        name_determines xs \<and> offered xs = wanted (tabs (m_db m)) instance_at ConfigTypeInstance (agent_context now req)))"
proof -
  let ?a = "agent_context now req" and ?m = "run_ops X (report_ops now req) m"
  have cp: "cache_part ?m = cache_part m" by (rule report_ops_cache_part [OF coherent_rdb [OF c]])
  then have db: "m_db ?m = m_db m" "m_epoch ?m = m_epoch m" by (simp_all add: cache_part_def)
  have c': "coherent tabs view A ?m" using c coherent_cache_part [OF cp] by blast
  obtain r m4 where g: "GetConfigsForAgent_m X ?a ?m = (r, m4)" by fastforce
  note G = GetConfigsForAgent_m_ok [OF c' g]
  note resp = beat [unfolded heartbeat_steps [OF coherent_rdb [OF c]] g]
  have "steady tabs view (insert ?a A) m m'"
    using G resp db by (auto simp: steady_def split: sum.splits)
  moreover have "resp = buildErrHBResp (hb_request_id req) 1 ''internal error''" if "r = Inl e" for e
    using resp that by simp
  moreover have "\<exists>ps xs os. resp = build_response ord now (asks_full_state req m) req (ps, xs, os) \<and>
        name_determines ps \<and> offered ps = wanted (tabs (m_db m)) pipeline_at ConfigTypePipeline ?a \<and>
        name_determines xs \<and> offered xs = wanted (tabs (m_db m)) instance_at ConfigTypeInstance ?a"
    if "r = Inr out" for out
  proof -
    obtain ps xs os where out: "out = (ps, xs, os)" by (cases out)
    have "delivered_spec (tabs (m_db m)) ?a (ps, xs, os)" using G that out ident db by simp
    from delivered_offered [OF this] show ?thesis using resp that out by auto
  qed
  ultimately show ?thesis by (cases r) auto
qed

end

lemma response_converges:
  assumes "resp = build_response ord now full req (ps, xs, os)"
    and "name_determines ps" and "name_determines xs" and "\<And>ct. reorders (ord ct)"
    and "reports_held (hb_pipelines req) pipes" and "reports_held (hb_instances req) insts"
  shows "hr_flags resp AND ResponseFlags_FetchContinuousPipelineConfigDetail = 0 \<Longrightarrow>
      versions_identify pipes (offered ps) \<Longrightarrow> apply_updates (hr_pipelines resp) pipes = offered ps"
    and "hr_flags resp AND ResponseFlags_FetchInstanceConfigDetail = 0 \<Longrightarrow>
      versions_identify insts (offered xs) \<Longrightarrow> apply_updates (hr_instances resp) insts = offered xs"
  using updates_converge [OF assms(2) index_facts(1) assms(4,5)] updates_converge [OF assms(3) index_facts(1) assms(4,6)]
  by (simp_all add: assms(1) response_parts inline_def pipeline_updates_def instance_updates_def)

text \<open>
  C3. Heartbeats converge: after any history of operations, an agent that reports what it holds
  and applies a successful response (with contents inline) holds exactly the non-empty
  configurations assigned to its groups in the database, each in its effective (canary or
  stable) version, and nothing else; an unsuccessful response changes nothing. This is for
  agents whose identities do not collide in the hash, when equal versions have equal contents
  and no version is the deletion marker -1.
\<close>

theorem heartbeat_converges:
  assumes X: "services_ok X tabs view" and empty: "empty_caches view l1 res"
    and safe: "ops_safe X tabs qs (New st l1 res None t1 t2 h)" "length qs < 2 ^ 64"
    and m: "m = run_ops X qs (New st l1 res None t1 t2 h)"
    and beat: "heartbeat ord X now req m = (resp, m')"
    and ident: "collision_free (insert (agent_context now req) (askers qs))" "plain_names (tabs (m_db m))"
    and ord: "\<And>ct. reorders (ord ct)"
    and held: "reports_held (hb_pipelines req) pipes" "reports_held (hb_instances req) insts"
    and ver: "versions_identify pipes (wanted (tabs (m_db m)) pipeline_at ConfigTypePipeline (agent_context now req))"
      "versions_identify insts (wanted (tabs (m_db m)) instance_at ConfigTypeInstance (agent_context now req))"
  shows "if co_status (hr_common resp) = 0 then
      (hr_flags resp AND ResponseFlags_FetchContinuousPipelineConfigDetail = 0 \<longrightarrow>
        apply_updates (hr_pipelines resp) pipes =
          wanted (tabs (m_db m)) pipeline_at ConfigTypePipeline (agent_context now req)) \<and>
      (hr_flags resp AND ResponseFlags_FetchInstanceConfigDetail = 0 \<longrightarrow>
        apply_updates (hr_instances resp) insts =
          wanted (tabs (m_db m)) instance_at ConfigTypeInstance (agent_context now req))
    else hr_pipelines resp = [] \<and> hr_instances resp = [] \<and> hr_onetimes resp = []"
proof -
  have M: "cached_manager X tabs view" using X by (simp add: cached_manager_services)
  let ?a = "agent_context now req"
  have c: "coherent tabs view (askers qs) m"
    using cached_manager.history_coherent [OF M empty safe] m by simp
  from cached_manager.beat_ok [OF M c beat ident] consider
    (failed) "resp = buildErrHBResp (hb_request_id req) 1 ''internal error''"
  | (answered) ps xs os where "resp = build_response ord now (asks_full_state req m) req (ps, xs, os)"
      "name_determines ps" "offered ps = wanted (tabs (m_db m)) pipeline_at ConfigTypePipeline ?a"
      "name_determines xs" "offered xs = wanted (tabs (m_db m)) instance_at ConfigTypeInstance ?a" by blast
  then show ?thesis
  proof cases
    case failed
    then show ?thesis by (simp add: buildErrHBResp_def)
  next
    case answered
    with response_converges [OF answered(1,2,4) ord held] ver
    show ?thesis by (simp add: answered(1) response_parts ok_response_def)
  qed
qed

lemma sample_wanted:
  "wanted (mem_tabs sample_db) pipeline_at ConfigTypePipeline sample_match = [''p1'' \<mapsto> (7, ''a: 1'')]"
  "wanted (mem_tabs sample_db) instance_at ConfigTypeInstance sample_match = Map.empty"
proof -
  have M: "cached_manager mem_services mem_tabs map_of"
    using mem_services_ok by (simp add: cached_manager_services)
  have c: "coherent mem_tabs map_of {} sample_start"
    unfolding sample_start_def by (rule fresh_coherent) (simp add: empty_caches_def)
  obtain m' where "GetConfigsForAgent_m mem_services sample_match sample_start = (Inr ([sample_p1], [], []), m')"
    using sample_resolves [OF refl] by (metis prod.collapse)
  from cached_manager.GetConfigsForAgent_m_ok [OF M c this]
  have "delivered_spec (mem_tabs sample_db) sample_match ([sample_p1], [], [])"
    by (simp add: sample_plain collision_free_def same_identity_def sample_start_def New_def)
  from cached_manager.delivered_offered [OF M this]
  show "wanted (mem_tabs sample_db) pipeline_at ConfigTypePipeline sample_match = [''p1'' \<mapsto> (7, ''a: 1'')]"
    "wanted (mem_tabs sample_db) instance_at ConfigTypeInstance sample_match = Map.empty"
    by (simp_all add: offered_def)
qed

theorem heartbeat_converges_witness:
  "apply_updates (hr_pipelines (fst (heartbeat keep_order mem_services 100 sample_request sample_start))) sample_held =
     [''p1'' \<mapsto> (7, ''a: 1'')]"
proof -
  obtain resp m' where b: "heartbeat keep_order mem_services 100 sample_request sample_start = (resp, m')"
    by fastforce
  have resp: "resp = build_response keep_order 100 False sample_request ([sample_p1], [], [])"
    using sample_heartbeat [of 100] b by simp
  note parts = response_parts [of keep_order 100 False sample_request "[sample_p1]" "[]" "[]", folded resp]
  have small: "total_bytes (pipeline_updates keep_order sample_request [sample_p1]) \<le> maxInlineDetailBytes"
    by (simp add: pipeline_updates_def config_updates_def config_deletions_def total_bytes_def maxInlineDetailBytes_def
        sample_request_def indexConfigInfos_def keep_order_def config_detail_def)
  have held: "reports_held (hb_pipelines sample_request) sample_held" "reports_held (hb_instances sample_request) Map.empty"
    by (simp_all add: reports_held_def reported_def sample_request_def sample_held_def)
  have db: "m_db sample_start = sample_db" by (simp add: sample_start_def New_def)
  have "versions_identify sample_held [''p1'' \<mapsto> (7, ''a: 1'')]" "versions_identify Map.empty Map.empty"
    by (simp_all add: versions_identify_def sample_held_def)
  from heartbeat_converges [OF mem_services_ok, of "[]" "[]" "[]" sample_db "300 * second" 0 False sample_start
      keep_order 100 sample_request resp m' sample_held Map.empty] this held parts small b
  show ?thesis
    by (simp add: sample_start_def [symmetric] empty_caches_def collision_free_def same_identity_def askers_def
        sample_plain keep_order_reorders sample_context sample_wanted db ok_response_def)
qed

text \<open>
  C28. A heartbeat is quiet exactly when the agent is up to date: if the request does not ask for
  full state, the response to an agent has no pipeline update if and only if the names and
  versions the agent reports are those of the non-empty pipeline configurations resolved for
  it, and the same for instance configurations.
\<close>

theorem heartbeat_quiet:
  assumes "resp = build_response ord now full req (ps, xs, os)"
    and "hb_flags req AND RequestFlags_FullState = 0"
    and "name_determines ps" and "name_determines xs" and "\<And>ct. reorders (ord ct)"
  shows "(hr_pipelines resp = [] \<longleftrightarrow> reported (hb_pipelines req) = map_option fst \<circ> offered ps) \<and>
    (hr_instances resp = [] \<longleftrightarrow> reported (hb_instances req) = map_option fst \<circ> offered xs)"
proof -
  have "inline us = [] \<longleftrightarrow> us = []" for us by (auto simp: inline_def)
  then show ?thesis
    using updates_quiet [OF assms(3) index_facts(1) assms(5)] updates_quiet [OF assms(4) index_facts(1) assms(5)] assms(2)
    by (simp add: assms(1) response_parts pipeline_updates_def instance_updates_def)
qed

theorem heartbeat_quiet_witness:
  "hr_pipelines (build_response keep_order 100 False
     (sample_request\<lparr>hb_pipelines := [\<lparr>ci_name = ''p1'', ci_version = 7, ci_status = 2, ci_message = ''''\<rparr>]\<rparr>)
     ([sample_p1], [], [])) = []"
  (is "hr_pipelines (build_response _ _ _ ?req _) = _")
proof -
  have "reported (hb_pipelines ?req) = map_option fst \<circ> offered [sample_p1]"
    by (rule ext) (simp add: reported_def offered_def)
  with heartbeat_quiet [OF refl, of ?req "[sample_p1]" "[]" keep_order 100 False "[]"]
  show ?thesis by (simp add: sample_request_def name_determines_def keep_order_reorders)
qed

subsection \<open>Contents\<close>

text \<open>
  C29. The contents in a response are bounded: whatever is configured, and in every state, the
  details of the pipeline updates take at most 256 KiB, and those of the instance updates as
  well; when the flag tells the agent to fetch the details, none is in the response.
\<close>

theorem inline_details_bounded:
  "total_bytes (hr_pipelines (fst (heartbeat ord X now req m))) \<le> maxInlineDetailBytes \<and>
   total_bytes (hr_instances (fst (heartbeat ord X now req m))) \<le> maxInlineDetailBytes \<and>
   (hr_flags (fst (heartbeat ord X now req m)) AND ResponseFlags_FetchContinuousPipelineConfigDetail = 0 \<or>
     total_bytes (hr_pipelines (fst (heartbeat ord X now req m))) = 0) \<and>
   (hr_flags (fst (heartbeat ord X now req m)) AND ResponseFlags_FetchInstanceConfigDetail = 0 \<or>
     total_bytes (hr_instances (fst (heartbeat ord X now req m))) = 0)"
proof -
  have inline: "total_bytes (inline us) \<le> maxInlineDetailBytes"
    "total_bytes us \<le> maxInlineDetailBytes \<or> total_bytes (inline us) = 0" for us
    by (auto simp: inline_def total_bytes_def comp_def)
  consider e where "fst (heartbeat ord X now req m) = buildErrHBResp (hb_request_id req) 1 e"
    | full ps xs os where "fst (heartbeat ord X now req m) = build_response ord now full req (ps, xs, os)"
    by (rule heartbeat_response_cases)
  then show ?thesis
  proof cases
    case 1
    then show ?thesis by (simp add: buildErrHBResp_def total_bytes_def)
  next
    case (2 full ps xs os)
    show ?thesis unfolding 2 response_parts using inline by auto
  qed
qed

text \<open>
  C30. \<open>FetchConfig\<close> answers from the database, and answers everything: after any history, the
  configurations in the response are, in the order of the request, the replies to the names it
  asks about, each from the row of that name as it is in the database: a deletion if there is
  none; the row's version and content if the content is not empty and the version differs from
  the one asked about; nothing otherwise. A command is sent exactly if it exists and its deadline
  has not passed. Left out are only the names whose read fails with an error other than "not
  found"; if no read fails, none is left out. (So the canary version is never sent, and asking
  with the version a stripped heartbeat named is never answered with the content.)
\<close>

theorem fetch_answers_database:
  assumes X: "services_ok X tabs view" and empty: "empty_caches view l1 res"
    and safe: "ops_safe X tabs qs (New st l1 res None t1 t2 h)" "length qs < 2 ^ 64"
    and m: "m = run_ops X qs (New st l1 res None t1 t2 h)"
    and f: "fetch_config X now req m = (resp, m')"
    and reads: "reads_of (GetPipelineConfig_m X) (fq_pipelines req) m = (ps, m1)"
      "reads_of (GetInstanceConfig_m X) (fq_instances req) m1 = (is, m2)"
      "reads_of (GetOnetimeCommand_m X) (fq_onetimes req) m2 = (os, m3)"
    and t: "t = tabs (m_db m)"
    and commands: "commands = (\<lambda>n. map_option with_version (onetime_at t n))"
  shows "fr_pipelines resp = List.map_filter (fetch_reply (pipeline_at t)) (served (fq_pipelines req) ps) \<and>
    fr_instances resp = List.map_filter (fetch_reply (instance_at t)) (served (fq_instances req) is) \<and>
    fr_onetimes resp = List.map_filter (command_reply now commands) (served (fq_onetimes req) os) \<and>
    ((\<forall>r \<in> set ps \<union> set is. \<not> read_failed r) \<and> (\<forall>r \<in> set os. \<not> read_failed r) \<longrightarrow>
      fr_pipelines resp = List.map_filter (fetch_reply (pipeline_at t)) (fq_pipelines req) \<and>
      fr_instances resp = List.map_filter (fetch_reply (instance_at t)) (fq_instances req) \<and>
      fr_onetimes resp = List.map_filter (command_reply now commands) (fq_onetimes req))"
proof -
  have M: "cached_manager X tabs view" using X by (simp add: cached_manager_services)
  have c: "coherent tabs view (askers qs) m"
    using cached_manager.history_coherent [OF M empty safe] m by simp
  obtain us n1 where 1: "fetch_updates (GetPipelineConfig_m X) (fq_pipelines req) m = (us, n1)" by fastforce
  note F1 = cached_manager.fetch_updates_ok [OF M cached_manager.reader_pipeline [OF M] c 1 reads(1)]
  obtain vs n2 where 2: "fetch_updates (GetInstanceConfig_m X) (fq_instances req) m1 = (vs, n2)" by fastforce
  have c1: "coherent tabs view (askers qs) m1" using F1 by simp
  note F2 = cached_manager.fetch_updates_ok [OF M cached_manager.reader_instance [OF M] c1 2 reads(2)]
  obtain ws n3 where 3: "fetch_commands X now (fq_onetimes req) m2 = (ws, n3)" by fastforce
  have c2: "coherent tabs view (askers qs) m2" using F2 by simp
  note F3 = cached_manager.fetch_commands_ok [OF M c2 3 reads(3)]
  have "fr_pipelines resp = us" "fr_instances resp = vs" "fr_onetimes resp = ws"
    using f 1 2 3 F1 F2 by (auto simp: fetch_config_def)
  with F1 F2 F3 show ?thesis
    by (simp add: t commands served_all reads [THEN reads_of_length])
qed

text \<open>
  An agent asks about a configuration of which it has an old version, about a name there is no
  more, and about a command there is none of.
\<close>

definition sample_fetch :: FetchConfigRequest where
  "sample_fetch = \<lparr>fq_request_id = [], fq_instance_id = ''i-1'', fq_pipelines =
     [\<lparr>ci_name = ''p1'', ci_version = 3, ci_status = 0, ci_message = []\<rparr>,
      \<lparr>ci_name = ''gone'', ci_version = 1, ci_status = 0, ci_message = []\<rparr>], fq_instances = [],
     fq_onetimes = [\<lparr>ci_name = ''none'', ci_version = 1, ci_status = 0, ci_message = []\<rparr>]\<rparr>"

theorem fetch_answers_database_witness:
  "fr_pipelines (fst (fetch_config mem_services 100 sample_fetch sample_start)) =
     [config_detail sample_p1, \<lparr>cd_name = ''gone'', cd_version = - 1, cd_detail = []\<rparr>] \<and>
   fr_onetimes (fst (fetch_config mem_services 100 sample_fetch sample_start)) = []"
proof -
  obtain resp m' where f: "fetch_config mem_services 100 sample_fetch sample_start = (resp, m')" by fastforce
  obtain ps m1 where 1: "reads_of (GetPipelineConfig_m mem_services) (fq_pipelines sample_fetch) sample_start = (ps, m1)"
    by fastforce
  obtain xs m2 where 2: "reads_of (GetInstanceConfig_m mem_services) (fq_instances sample_fetch) m1 = (xs, m2)"
    by fastforce
  obtain os m3 where 3: "reads_of (GetOnetimeCommand_m mem_services) (fq_onetimes sample_fetch) m2 = (os, m3)"
    by fastforce
  have "list_all (\<lambda>r. \<not> read_failed r) (fst (reads_of (GetPipelineConfig_m mem_services) (fq_pipelines sample_fetch) sample_start))"
    by code_simp
  moreover have "list_all (\<lambda>r. \<not> read_failed r) (fst (reads_of (GetOnetimeCommand_m mem_services) (fq_onetimes sample_fetch)
      (snd (reads_of (GetPipelineConfig_m mem_services) (fq_pipelines sample_fetch) sample_start))))"
    by code_simp
  moreover have none: "xs = []" "m2 = m1" using 2 by (simp_all add: sample_fetch_def)
  ultimately have ok: "\<forall>r \<in> set ps \<union> set xs. \<not> read_failed r" "\<forall>r \<in> set os. \<not> read_failed r"
    using 1 3 by (simp_all add: list_all_iff)
  have row: "pipeline_at (mem_tabs sample_db) ''p1'' = Some sample_p1" "pipeline_at (mem_tabs sample_db) ''gone'' = None"
      "onetime_at (mem_tabs sample_db) ''none'' = None" "m_db sample_start = sample_db"
    by (simp_all add: sample_start_def New_def row_at_def has_def mem_tabs_def sample_db_def)
  from fetch_answers_database [OF mem_services_ok, of "[]" "[]" "[]" sample_db "300 * second" 0 False sample_start
      100 sample_fetch resp m' ps m1 xs m2 os m3, OF _ _ _ _ f 1 2 3 refl refl] ok
  have "fr_pipelines resp = List.map_filter (fetch_reply (pipeline_at (mem_tabs sample_db))) (fq_pipelines sample_fetch)"
    "fr_onetimes resp = List.map_filter
       (command_reply 100 (\<lambda>n. map_option with_version (onetime_at (mem_tabs sample_db) n))) (fq_onetimes sample_fetch)"
    unfolding row(4) by (simp_all only: sample_start_def [symmetric] empty_caches_def ops_safe.simps run_ops.simps, auto)
  then show ?thesis using row(1-3)
    by (simp add: f) (simp add: sample_fetch_def List.map_filter_simps fetch_reply_def command_reply_def)
qed

subsection \<open>One-time commands\<close>

text \<open>
  C31. When one-time commands are cancelled and delivered: the response cancels a name exactly if
  the agent reports it and no command of that name is assigned to it any more (not when the
  delivery deadline has passed), and it delivers an assigned command exactly if its deadline
  has not passed and the agent has not reported it, reported other content, or asks for full
  state; for commands whose expiry is not the cancellation marker -1. A deadline is a number of
  seconds: one given in milliseconds, as the README documents it, that passed \<open>now\<close> long ago is
  still to come for the server, which goes on delivering the command.
\<close>

theorem onetime_rules:
  assumes "resp = build_response ord now full req (ps, xs, os)" and "\<And>ct. reorders (ord ct)"
    and "\<forall>c \<in> set os. oc_expire c \<noteq> - 1"
  shows "((\<exists>u \<in> set (hr_onetimes resp). cmd_name u = n \<and> cmd_expire u = - 1) \<longleftrightarrow>
      n \<in> ci_name ` set (hb_onetimes req) \<and> n \<notin> oc_name ` set os) \<and>
    (c \<in> set os \<longrightarrow> (command_detail c \<in> set (hr_onetimes resp) \<longleftrightarrow> \<not> expired now c \<and>
      (hb_flags req AND RequestFlags_FullState \<noteq> 0 \<or>
       reported (hb_onetimes req) (oc_name c) \<noteq> Some (onetimeContentHash (onetimeDetailWithGeneration c))))) \<and>
    (c \<in> set os \<and> oc_expire c = 1000 * d \<and> d < unix_sec now \<and> unix_sec now \<le> 1000 * d \<and>
      oc_name c \<notin> ci_name ` set (hb_onetimes req) \<longrightarrow> command_detail c \<in> set (hr_onetimes resp))"
    (is "?cancel \<and> ?deliver \<and> ?overdue")
proof -
  let ?idx = "indexConfigInfos (hb_onetimes req)" and ?full = "hb_flags req AND RequestFlags_FullState \<noteq> 0"
  have onetimes: "hr_onetimes resp = onetime_cancellations (ord ConfigTypeOnetime) ?idx os @
      onetime_deliveries ?full now ?idx os"
    by (simp add: assms(1) response_parts)
  have cancelled: "u \<in> set (onetime_cancellations (ord ConfigTypeOnetime) ?idx os) \<longleftrightarrow>
      (\<exists>k. u = \<lparr>cmd_name = k, cmd_detail = [], cmd_expire = - 1\<rparr> \<and>
        k \<in> ci_name ` set (hb_onetimes req) \<and> k \<notin> oc_name ` set os)" for u
    using assms(2) index_facts(2) [of "hb_onetimes req"]
    by (auto simp: onetime_cancellations_def reorders_def)
  have delivered: "u \<in> set (onetime_deliveries ?full now ?idx os) \<longleftrightarrow>
      (\<exists>c \<in> set os. u = command_detail c \<and> \<not> expired now c \<and> (?full \<or>
        reported (hb_onetimes req) (oc_name c) \<noteq> Some (onetimeContentHash (onetimeDetailWithGeneration c))))" for u
    by (auto simp: onetime_deliveries_def index_facts(1) split: option.splits)
  have expire: "u = command_detail c \<Longrightarrow> c \<in> set os \<Longrightarrow> cmd_expire u \<noteq> - 1" for u c
    using assms(3) by (simp add: command_detail_def)
  have same: "command_detail c = command_detail b \<Longrightarrow> oc_name c = oc_name b \<and>
      onetimeDetailWithGeneration c = onetimeDetailWithGeneration b \<and> expired now c = expired now b" for b
    by (auto simp: command_detail_def expired_def)
  have "command_detail c \<in> set (hr_onetimes resp) \<longleftrightarrow> \<not> expired now c \<and> (?full \<or>
      reported (hb_onetimes req) (oc_name c) \<noteq> Some (onetimeContentHash (onetimeDetailWithGeneration c)))"
    if c: "c \<in> set os"
  proof -
    have "command_detail c \<in> set (hr_onetimes resp) \<longleftrightarrow>
        command_detail c \<in> set (onetime_deliveries ?full now ?idx os)"
      unfolding onetimes using expire [OF refl c] by (auto simp: cancelled)
    then show ?thesis using c same unfolding delivered by (metis (no_types, lifting))
  qed
  moreover have "u \<in> set (hr_onetimes resp) \<and> cmd_expire u = - 1 \<longleftrightarrow>
      u \<in> set (onetime_cancellations (ord ConfigTypeOnetime) ?idx os)" for u
    unfolding onetimes set_append Un_iff delivered using expire by (auto simp: cancelled)
  then have "(\<exists>u \<in> set (hr_onetimes resp). cmd_name u = n \<and> cmd_expire u = - 1) \<longleftrightarrow>
      (\<exists>u. u \<in> set (onetime_cancellations (ord ConfigTypeOnetime) ?idx os) \<and> cmd_name u = n)" by blast
  moreover have "(\<exists>u. u \<in> set (onetime_cancellations (ord ConfigTypeOnetime) ?idx os) \<and> cmd_name u = n) \<longleftrightarrow>
      n \<in> ci_name ` set (hb_onetimes req) \<and> n \<notin> oc_name ` set os"
    unfolding cancelled by (metis CommandDetail.select_convs(1))
  ultimately have ?cancel ?deliver by blast+
  moreover from this(2) have ?overdue
    using reported_dom [of "hb_onetimes req" "oc_name c"] by (auto simp: expired_def)
  ultimately show ?thesis by blast
qed

definition sample_command :: "time \<Rightarrow> OnetimeCommand" where
  "sample_command created = \<lparr>oc_name = ''c1'', oc_version = 1, oc_detail = [CHR ''{'', CHR ''}''],
     oc_expire = 50, oc_created = created\<rparr>"

theorem onetime_rules_witness:
  "\<not> (\<exists>u \<in> set (hr_onetimes (build_response keep_order (100 * second) False
      (sample_request\<lparr>hb_onetimes := [\<lparr>ci_name = ''c1'', ci_version = 9, ci_status = 2, ci_message = ''''\<rparr>]\<rparr>)
      ([], [], [sample_command 1]))). cmd_name u = ''c1'' \<and> cmd_expire u = - 1) \<and>
   command_detail (sample_command 1) \<notin> set (hr_onetimes (build_response keep_order (100 * second) False
      (sample_request\<lparr>hb_onetimes := [\<lparr>ci_name = ''c1'', ci_version = 9, ci_status = 2, ci_message = ''''\<rparr>]\<rparr>)
      ([], [], [sample_command 1])))"
  (is "\<not> (\<exists>u \<in> set (hr_onetimes (build_response _ _ _ ?req _)). _) \<and> _")
proof -
  have "expired (100 * second) (sample_command 1)"
    by (simp add: expired_def sample_command_def unix_sec_def wrap64_def second_def)
  with onetime_rules [where resp = "build_response keep_order (100 * second) False ?req ([], [], [sample_command 1])"
      and ord = keep_order and os = "[sample_command 1]" and n = "''c1''" and c = "sample_command 1", OF refl]
  show ?thesis by (simp add: keep_order_reorders sample_command_def)
qed

text \<open>
  C32. A command that is deleted and created again is never mistaken for the old one by its content:
  if two commands have the same content, a JSON object, and different creation times (in the
  range of \<open>UnixNano\<close>, after 1970), then what is delivered for them differs.
\<close>

theorem recreated_command_differs:
  assumes "oc_detail a = oc_detail b" and "json_decode_first (oc_detail a) = Some (JObj kvs)"
    and "unix_nano (oc_created a) > 0" and "unix_nano (oc_created b) > 0"
    and "unix_nano (oc_created a) \<noteq> unix_nano (oc_created b)"
  shows "onetimeDetailWithGeneration a \<noteq> onetimeDetailWithGeneration b"
proof -
  obtain doc where "go_value (JObj kvs) = JObj doc" by simp
  with assms(1-4) have "onetimeDetailWithGeneration c = json_print (JObj (put_generation (unix_nano (oc_created c)) doc))"
    if "c = a \<or> c = b" for c
    using that by (auto simp: onetimeDetailWithGeneration_def Let_def simp del: json_print.simps)
  with assms(5) show ?thesis by (metis generation_printed)
qed

theorem recreated_command_differs_witness:
  "onetimeDetailWithGeneration (sample_command 1) \<noteq> onetimeDetailWithGeneration (sample_command 2)"
proof (rule recreated_command_differs)
  show "json_decode_first (oc_detail (sample_command 1)) = Some (JObj [])" by code_simp
qed (simp_all add: sample_command_def unix_nano_def wrap64_def)

text \<open>
  The content hash of a command is the standard library's 64-bit FNV-1a without its top bit, a
  non-negative \<open>int64\<close>.
\<close>

theorem onetimeContentHash_fnv:
  "onetimeContentHash detail = uint (fnv64a detail) mod 2 ^ 63 \<and>
   0 \<le> onetimeContentHash detail \<and> onetimeContentHash detail < 2 ^ 63"
proof -
  have "(0x7FFFFFFFFFFFFFFF :: 64 word) = mask 63" by (simp add: mask_eq_decr_exp)
  moreover have "fnv64_step = (\<lambda>h b. (h XOR of_nat (of_char b)) * 1099511628211)"
    by (intro ext) (simp add: fnv64_step_def)
  ultimately have "onetimeContentHash detail = uint (take_bit 63 (fnv64a detail))"
    by (simp add: onetimeContentHash_def fnv64a_def take_bit_eq_mask)
  also have "\<dots> = take_bit 63 (uint (fnv64a detail))" by (simp add: unsigned_take_bit_eq)
  also have "\<dots> = uint (fnv64a detail) mod 2 ^ 63" by (simp only: take_bit_eq_mod)
  finally show ?thesis by simp
qed

subsection \<open>The registry\<close>

text \<open>
  C33. The tags an agent reports are the tags it is listed under: the JSON text stored for its tags
  reads back, so that the admin's group filter selects it exactly if the group has no tags or
  one of the group's tags has the value the agent last gave for its name (an absent tag
  counting as empty); for ASCII tags.
\<close>

theorem reported_tags_filter:
  assumes "\<forall>t \<in> set (hb_tags req). ascii (pt_name t) \<and> ascii (pt_value t)"
  shows "agentMatchesGroup (buildAgent now req) gts \<longleftrightarrow> gts = [] \<or>
    (\<exists>g \<in> set gts. tag_lookup (tag_map (hb_tags req)) (tag_name g) = tag_value g)"
proof -
  have "any_group_tag tm gts \<longleftrightarrow> (\<exists>g \<in> set gts. tag_lookup tm (tag_name g) = tag_value g)" for tm
    by (induction gts) auto
  then show ?thesis
    using tags_json_parse [OF assms]
    by (simp add: agentMatchesGroup_def buildAgent_def agentTagSet_map)
qed

theorem reported_tags_filter_witness:
  "agentMatchesGroup (buildAgent 100 sample_request)
     [\<lparr>tag_id = 1, tag_group = ''web'', tag_name = ''env'', tag_value = ''prod''\<rparr>] \<and>
   \<not> agentMatchesGroup (buildAgent 100 sample_request)
     [\<lparr>tag_id = 1, tag_group = ''web'', tag_name = ''env'', tag_value = ''test''\<rparr>]"
  using reported_tags_filter [of sample_request 100]
  by (simp add: sample_request_def ascii_def byte_def tag_lookup_def tag_map_def)

text \<open>
  C34. A heartbeat registers its agent: afterwards the agent can be read back as it was reported,
  with the time of the heartbeat, and the server asks an agent for its full state only if it is
  registered with sequence number 0; so a server that has lost its registry, which the code
  means to detect, never asks.
\<close>

theorem heartbeat_registers:
  assumes "m_rdb m = None"
  shows "fst (GetAgent_m X (hb_instance_id req) (snd (heartbeat ord X now req m))) = Inr (buildAgent now req) \<and>
    (hr_flags (fst (heartbeat ord X now req m)) AND ResponseFlags_ReportFullState = 0 \<or>
     (\<exists>a. map_of (m_agents m) (hb_instance_id req) = Some a \<and> a_seq a = 0))"
proof
  let ?ops = "status_ops now (hb_instance_id req) (hb_pipelines req) ConfigTypePipeline @
      status_ops now (hb_instance_id req) (hb_instances req) ConfigTypeInstance @
      status_ops now (hb_instance_id req) (hb_onetimes req) ConfigTypeOnetime @ [Resolve (agent_context now req)]"
  let ?m1 = "run_op X (UpsertAgentOp (buildAgent now req)) m"
  have inst: "a_instance (buildAgent now req) = hb_instance_id req" by (simp add: buildAgent_def)
  have agents: "m_agents (run_ops X qs m1) = m_agents m1"
    if "\<forall>q \<in> set qs. (\<exists>t st. q = UpsertStatusOp t st) \<or> (\<exists>a. q = Resolve a)" for qs and m1
    using that by (rule report_keeps_agents)
  have ops: "\<forall>q \<in> set ?ops. (\<exists>t st. q = UpsertStatusOp t st) \<or> (\<exists>a. q = Resolve a)"
    by (auto simp: status_ops_def)
  have "m_agents (snd (heartbeat ord X now req m)) = m_agents ?m1"
    using agents [OF ops, of ?m1] by (simp add: heartbeat_history [OF assms] report_ops_def Let_def)
  moreover have "map_of (m_agents ?m1) (hb_instance_id req) = Some (buildAgent now req)"
    using registered_agent [OF assms, of X "buildAgent now req"] by (simp only: inst)
  ultimately show "fst (GetAgent_m X (hb_instance_id req) (snd (heartbeat ord X now req m))) = Inr (buildAgent now req)"
    by (simp add: GetAgent_m_def)
  show "hr_flags (fst (heartbeat ord X now req m)) AND ResponseFlags_ReportFullState = 0 \<or>
     (\<exists>a. map_of (m_agents m) (hb_instance_id req) = Some a \<and> a_seq a = 0)"
  proof (cases "asks_full_state req m")
    case True
    then show ?thesis by (auto simp: asks_full_state_def split: option.splits)
  next
    case False
    then have "hr_flags (fst (heartbeat ord X now req m)) AND ResponseFlags_ReportFullState = 0"
      by (auto simp: heartbeat_steps [OF assms] response_parts buildErrHBResp_def split: prod.splits sum.splits)
    then show ?thesis ..
  qed
qed

theorem heartbeat_registers_witness:
  "fst (GetAgent_m mem_services ''i-1'' (snd (heartbeat keep_order mem_services 100 sample_request sample_start))) =
     Inr (buildAgent 100 sample_request)"
  using heartbeat_registers [of sample_start mem_services sample_request keep_order 100]
  by (simp add: sample_start_def New_def sample_request_def)

end
