(* ===== verification/Agent_Sync.thy ===== *)
theory Agent_Sync
  imports Agent_Props
begin

section \<open>An agent that keeps sending heartbeats\<close>

text \<open>
  The agent is not part of this program; what is assumed of it is what the protocol asks: it
  reports what it holds and applies the updates it is sent. A run interleaves its heartbeats with
  any other operations of the server (heartbeats of other agents among them). As long as what is
  assigned to the agent stays the same, its heartbeats settle: one response brings it up to date
  and every later one is empty.
\<close>

subsection \<open>Runs\<close>

datatype event =
    Serve mgr_op
  | Beat time HeartbeatRequest

type_synonym ('d, 'f, 'r) session = "('d, 'f, 'r) mgr \<times> holding \<times> holding"

text \<open>The responses to the heartbeats of a run, and the state it ends in.\<close>

fun sync_run ::
  "(string \<Rightarrow> string list \<Rightarrow> string list) \<Rightarrow> ('d, 'f, 'r) services \<Rightarrow> event list \<Rightarrow> ('d, 'f, 'r) session \<Rightarrow>
   HeartbeatResponse list \<times> ('d, 'f, 'r) session" where
  "sync_run ord X [] s = ([], s)"
| "sync_run ord X (Serve q # es) (m, p, i) = sync_run ord X es (run_op X q m, p, i)"
| "sync_run ord X (Beat now req # es) (m, p, i) =
     (case heartbeat ord X now req m of
        (resp, m') \<Rightarrow>
          (case sync_run ord X es (m', apply_updates (hr_pipelines resp) p, apply_updates (hr_instances resp) i) of
             (resps, s) \<Rightarrow> (resp # resps, s)))"

text \<open>What is assigned to the agent: the pipelines and the instance configurations.\<close>

definition assignment :: "tables \<Rightarrow> AgentMatchContext \<Rightarrow> holding \<times> holding" where
  "assignment t a = (wanted t pipeline_at ConfigTypePipeline a, wanted t instance_at ConfigTypeInstance a)"

definition inline_flags :: "HeartbeatResponse \<Rightarrow> bool" where
  "inline_flags resp \<longleftrightarrow>
     hr_flags resp AND ResponseFlags_FetchContinuousPipelineConfigDetail = 0 \<and>
     hr_flags resp AND ResponseFlags_FetchInstanceConfigDetail = 0"

text \<open>
  A run of the agent \<open>a\<close> that nobody disturbs: the other operations leave its assignment as it
  is and create no configuration that is already mapped; the agent reports what it holds, without
  asking for full state, and the contents it is sent fit in the response.
\<close>

fun undisturbed ::
  "(string \<Rightarrow> string list \<Rightarrow> string list) \<Rightarrow> ('d, 'f, 'r) services \<Rightarrow> ('d \<Rightarrow> tables) \<Rightarrow> AgentMatchContext \<Rightarrow>
   event list \<Rightarrow> ('d, 'f, 'r) session \<Rightarrow> bool" where
  "undisturbed ord X tabs a [] s \<longleftrightarrow> True"
| "undisturbed ord X tabs a (Serve q # es) (m, p, i) \<longleftrightarrow>
     op_safe (tabs (m_db m)) q \<and>
     assignment (tabs (m_db (run_op X q m))) a = assignment (tabs (m_db m)) a \<and>
     plain_names (tabs (m_db (run_op X q m))) \<and>
     undisturbed ord X tabs a es (run_op X q m, p, i)"
| "undisturbed ord X tabs a (Beat now req # es) (m, p, i) \<longleftrightarrow>
     agent_context now req = a \<and> hb_flags req AND RequestFlags_FullState = 0 \<and>
     reports_held (hb_pipelines req) p \<and> reports_held (hb_instances req) i \<and>
     inline_flags (fst (heartbeat ord X now req m)) \<and>
     undisturbed ord X tabs a es
       (snd (heartbeat ord X now req m),
        apply_updates (hr_pipelines (fst (heartbeat ord X now req m))) p,
        apply_updates (hr_instances (fst (heartbeat ord X now req m))) i)"

text \<open>The agents that are resolved in a run.\<close>

definition resolved_by :: "event list \<Rightarrow> AgentMatchContext set" where
  "resolved_by es = (\<Union>e \<in> set es. case e of Serve q \<Rightarrow> asks q | Beat now req \<Rightarrow> {agent_context now req})"

lemma resolved_by_simps [simp]:
  "resolved_by [] = {}"
  "resolved_by (Serve q # es) = asks q \<union> resolved_by es"
  "resolved_by (Beat now req # es) = insert (agent_context now req) (resolved_by es)"
  by (simp_all add: resolved_by_def)

definition succeeded :: "HeartbeatResponse \<Rightarrow> bool" where
  "succeeded resp \<longleftrightarrow> co_status (hr_common resp) = 0"

definition carries_updates :: "HeartbeatResponse \<Rightarrow> bool" where
  "carries_updates resp \<longleftrightarrow> hr_pipelines resp \<noteq> [] \<or> hr_instances resp \<noteq> []"

subsection \<open>One heartbeat\<close>

lemma response_quiet:
  assumes "resp = build_response ord now full req (ps, xs, os)" and "hb_flags req AND RequestFlags_FullState = 0"
    and "name_determines ps" and "name_determines xs" and "\<And>ct. reorders (ord ct)"
    and "reports_held (hb_pipelines req) (offered ps)" and "reports_held (hb_instances req) (offered xs)"
  shows "\<not> carries_updates resp \<and> inline_flags resp"
proof -
  have "reported infos = map_option fst \<circ> held" if "reports_held infos held" for infos held
    using that by (simp add: reports_held_def fun_eq_iff)
  with assms(6,7) have "reported (hb_pipelines req) = map_option fst \<circ> offered ps"
    "reported (hb_instances req) = map_option fst \<circ> offered xs" by blast+
  then have "pipeline_updates ord req ps = []" "instance_updates ord req xs = []"
    using updates_quiet [OF assms(3) index_facts(1) assms(5)] updates_quiet [OF assms(4) index_facts(1) assms(5)]
      assms(2) by (simp_all add: pipeline_updates_def instance_updates_def)
  then show ?thesis
    by (simp add: carries_updates_def inline_flags_def assms(1) response_parts inline_def total_bytes_def)
qed

lemma failed_response:
  "inline_flags (buildErrHBResp i 1 e)" "\<not> carries_updates (buildErrHBResp i 1 e)" "\<not> succeeded (buildErrHBResp i 1 e)"
  "apply_updates (hr_pipelines (buildErrHBResp i 1 e)) p = p"
  "apply_updates (hr_instances (buildErrHBResp i 1 e)) p = p"
  by (simp_all add: carries_updates_def succeeded_def inline_flags_def buildErrHBResp_def)

text \<open>What the agent holds, as the run goes on: what it started with, or all it is assigned.\<close>

definition in_sync :: "tables \<Rightarrow> AgentMatchContext \<Rightarrow> holding \<Rightarrow> holding \<Rightarrow> bool" where
  "in_sync t a p i \<longleftrightarrow> (p, i) = assignment t a"

definition distinguishes :: "tables \<Rightarrow> AgentMatchContext \<Rightarrow> holding \<Rightarrow> holding \<Rightarrow> bool" where
  "distinguishes t a p i \<longleftrightarrow> versions_identify p (fst (assignment t a)) \<and> versions_identify i (snd (assignment t a))"

lemma in_sync_distinguishes:
  "distinguishes t a p i \<Longrightarrow> in_sync t a p' i' \<Longrightarrow> distinguishes t a p' i'"
  by (cases "assignment t a") (simp add: in_sync_def distinguishes_def versions_identify_def)

context cached_manager
begin

lemma beat_cases:
  assumes "coherent tabs view A m" and "heartbeat ord X now req m = (resp, m')"
    and "collision_free (insert (agent_context now req) A)" and "plain_names (tabs (m_db m))"
  obtains (failed) "resp = buildErrHBResp (hb_request_id req) 1 ''internal error''"
  | (answered) ps xs os where "resp = build_response ord now (asks_full_state req m) req (ps, xs, os)"
      "name_determines ps" "name_determines xs"
      "(offered ps, offered xs) = assignment (tabs (m_db m)) (agent_context now req)" "succeeded resp"
  using beat_ok [OF assms]
  by (auto simp: assignment_def succeeded_def response_parts ok_response_def)

lemma beat_quiet:
  assumes "coherent tabs view A m" and "heartbeat ord X now req m = (resp, m')"
    and "collision_free (insert (agent_context now req) A)" and "plain_names (tabs (m_db m))"
    and "hb_flags req AND RequestFlags_FullState = 0" and "reports_held (hb_pipelines req) p"
    and "reports_held (hb_instances req) i" and "\<And>ct. reorders (ord ct)"
    and "in_sync (tabs (m_db m)) (agent_context now req) p i"
  shows "\<not> carries_updates resp \<and> inline_flags resp"
proof (cases rule: beat_cases [OF assms(1-4)])
  case 1
  then show ?thesis by (simp add: failed_response)
next
  case (2 ps xs os)
  with assms(9) have "p = offered ps" "i = offered xs" by (auto simp: in_sync_def prod_eq_iff)
  with assms(6,7) response_quiet [OF 2(1) assms(5) 2(2,3) assms(8)] show ?thesis by simp
qed

lemma beat_step:
  assumes c: "coherent tabs view A m" and beat: "heartbeat ord X now req m = (resp, m')"
    and ident: "collision_free (insert (agent_context now req) A)" "plain_names (tabs (m_db m))"
    and req: "hb_flags req AND RequestFlags_FullState = 0" "reports_held (hb_pipelines req) p"
      "reports_held (hb_instances req) i"
    and ver: "distinguishes (tabs (m_db m)) (agent_context now req) p i"
    and ord: "\<And>ct. reorders (ord ct)" and small: "inline_flags resp"
  shows "(if succeeded resp then
        in_sync (tabs (m_db m)) (agent_context now req)
          (apply_updates (hr_pipelines resp) p) (apply_updates (hr_instances resp) i) \<and>
        (in_sync (tabs (m_db m)) (agent_context now req) p i \<longrightarrow> \<not> carries_updates resp)
      else apply_updates (hr_pipelines resp) p = p \<and> apply_updates (hr_instances resp) i = i \<and>
        \<not> carries_updates resp)"
proof (cases rule: beat_cases [OF c beat ident])
  case 1
  then show ?thesis by (simp add: failed_response)
next
  case (2 ps xs os)
  have "assignment (tabs (m_db m)) (agent_context now req) = (offered ps, offered xs)" using 2(4) by simp
  with response_converges [OF 2(1,2,3) ord req(2,3)] ver small
  have "in_sync (tabs (m_db m)) (agent_context now req)
      (apply_updates (hr_pipelines resp) p) (apply_updates (hr_instances resp) i)"
    by (simp add: in_sync_def distinguishes_def inline_flags_def)
  with 2(5) beat_quiet [OF c beat ident req ord] show ?thesis by simp
qed

subsection \<open>Runs settle\<close>

lemma epoch_top: "unat (ep :: 64 word) + Suc n < 2 ^ 64 \<Longrightarrow> ep \<noteq> - 1"
  by (auto simp: unsigned_minus_1_eq_mask mask_eq_exp_minus_1)

lemma run_ops_epoch:
  assumes "coherent tabs view A m" and "ops_safe X tabs qs m" and "unat (m_epoch m) + length qs < 2 ^ 64"
  shows "unat (m_epoch (run_ops X qs m)) \<le> unat (m_epoch m) + length qs"
  using assms
proof (induction qs arbitrary: A m)
  case (Cons q qs)
  have e: "m_epoch m \<noteq> - 1" using Cons.prems(3) epoch_top by simp
  have "unat (m_epoch (run_op X q m)) \<le> Suc (unat (m_epoch m))" by (rule run_op_epoch [OF Cons.prems(1) e])
  moreover have "coherent tabs view (A \<union> asks q) (run_op X q m)"
    using run_op_coherent [OF Cons.prems(1) _ e] Cons.prems(2) by simp
  ultimately show ?case using Cons.IH [of "A \<union> asks q" "run_op X q m"] Cons.prems(2,3) by simp
qed simp

lemma run_settles:
  assumes "coherent tabs view A m" and "undisturbed ord X tabs a es (m, p, i)" and "plain_names (tabs (m_db m))"
    and "collision_free (insert a (A \<union> resolved_by es))" and "unat (m_epoch m) + length es < 2 ^ 64"
    and "distinguishes (tabs (m_db m)) a p i" and "\<And>ct. reorders (ord ct)"
    and "sync_run ord X es (m, p, i) = (resps, m', p', i')"
  shows "length (filter carries_updates resps) \<le> (if in_sync (tabs (m_db m)) a p i then 0 else 1) \<and>
    (in_sync (tabs (m_db m)) a p i \<or> (\<exists>r \<in> set resps. succeeded r) \<longrightarrow> in_sync (tabs (m_db m)) a p' i')"
  using assms(1-6,8)
proof (induction es arbitrary: A m p i resps)
  case Nil
  then show ?case by simp
next
  case (Cons e es)
  show ?case
  proof (cases e)
    case (Serve q)
    have len: "m_epoch m \<noteq> - 1" using Cons.prems(5) epoch_top by simp
    let ?m = "run_op X q m"
    have same: "assignment (tabs (m_db ?m)) a = assignment (tabs (m_db m)) a"
      and q: "op_safe (tabs (m_db m)) q" "undisturbed ord X tabs a es (?m, p, i)" "plain_names (tabs (m_db ?m))"
      using Cons.prems(2) Serve by simp_all
    have "coherent tabs view (A \<union> asks q) ?m" by (rule run_op_coherent [OF Cons.prems(1) q(1) len])
    moreover have "unat (m_epoch ?m) + length es < 2 ^ 64"
      using run_op_epoch [OF Cons.prems(1) len, of q] Cons.prems(5) by simp
    moreover have "collision_free (insert a (A \<union> asks q \<union> resolved_by es))"
      using Cons.prems(4) Serve by (simp add: Un_assoc)
    ultimately show ?thesis
      using Cons.IH [OF _ q(2,3)] Cons.prems(6,7) Serve same by (simp add: in_sync_def distinguishes_def)
  next
    case (Beat now req)
    obtain resp m1 where b: "heartbeat ord X now req m = (resp, m1)" by fastforce
    let ?p = "apply_updates (hr_pipelines resp) p" and ?i = "apply_updates (hr_instances resp) i"
    have u: "agent_context now req = a" "hb_flags req AND RequestFlags_FullState = 0"
      "reports_held (hb_pipelines req) p" "reports_held (hb_instances req) i" "inline_flags resp"
      "undisturbed ord X tabs a es (m1, ?p, ?i)"
      using Cons.prems(2) by (simp_all add: Beat b)
    obtain rs where rs: "sync_run ord X es (m1, ?p, ?i) = (rs, m', p', i')" "resps = resp # rs"
      using Cons.prems(7) by (auto simp: Beat b split: prod.splits)
    have cf: "collision_free (insert a A)" "collision_free (insert a (insert a A \<union> resolved_by es))"
      using Cons.prems(4) by (auto simp: Beat collision_free_def)
    have s: "coherent tabs view (insert a A) m1" "tabs (m_db m1) = tabs (m_db m)" "m_epoch m1 = m_epoch m"
      using beat_ok [OF Cons.prems(1) b] cf(1) Cons.prems(3) u(1) by (simp_all add: steady_def)
    note step = beat_step [OF Cons.prems(1) b _ Cons.prems(3) u(2-4) _ assms(7) u(5), unfolded u(1), OF cf(1) Cons.prems(6)]
    have d: "distinguishes (tabs (m_db m1)) a ?p ?i"
      using step Cons.prems(6) in_sync_distinguishes by (auto simp: s(2) split: if_splits)
    note ih = Cons.IH [OF s(1) u(6) _ cf(2) _ d rs(1), unfolded s(2,3), OF Cons.prems(3)]
    from ih Cons.prems(5) step show ?thesis by (auto simp: rs(2) split: if_splits)
  qed
qed

end

text \<open>
  C4. Heartbeats settle: in any run of an agent whose assignment nobody changes (whatever else the
  server does in between), at most one response carries configuration updates, and as soon as one
  heartbeat has succeeded the agent holds exactly what the database assigns to it, for the rest of
  the run. Failed heartbeats change nothing.
\<close>

theorem heartbeats_settle:
  assumes X: "services_ok X tabs view" and empty: "empty_caches view l1 res"
    and safe: "ops_safe X tabs qs (New st l1 res None t1 t2 h)" "length qs + length es < 2 ^ 64"
    and m: "m = run_ops X qs (New st l1 res None t1 t2 h)"
    and run: "undisturbed ord X tabs a es (m, p, i)" "plain_names (tabs (m_db m))"
    and ident: "collision_free (insert a (askers qs \<union> resolved_by es))"
    and ver: "distinguishes (tabs (m_db m)) a p i" and ord: "\<And>ct. reorders (ord ct)"
    and out: "sync_run ord X es (m, p, i) = (resps, m', p', i')"
  shows "length (filter carries_updates resps) \<le> 1 \<and>
    ((\<exists>r \<in> set resps. succeeded r) \<longrightarrow> (p', i') = assignment (tabs (m_db m)) a)"
proof -
  have M: "cached_manager X tabs view" using X by (simp add: cached_manager_services)
  have len: "length qs < 2 ^ 64" using safe(2) by simp
  have c: "coherent tabs view (askers qs) m"
    using cached_manager.history_coherent [OF M empty safe(1) len] m by simp
  have "unat (m_epoch m) \<le> length qs"
    using cached_manager.run_ops_epoch [OF M fresh_coherent [OF empty] safe(1)] len by (simp add: m New_def)
  then have "unat (m_epoch m) + length es < 2 ^ 64" using safe(2) by simp
  from cached_manager.run_settles [OF M c run ident this ver ord out]
  show ?thesis by (auto simp: in_sync_def split: if_splits)
qed

text \<open>The sample agent sends a first heartbeat, applies the update, and sends a second one.\<close>

definition second_request :: HeartbeatRequest where
  "second_request = sample_request\<lparr>hb_sequence_num := 6,
     hb_pipelines := [\<lparr>ci_name = ''p1'', ci_version = 7, ci_status = 2, ci_message = ''''\<rparr>]\<rparr>"

definition sample_events :: "event list" where
  "sample_events = [Beat 100 sample_request, Beat 110 second_request]"

theorem heartbeats_settle_witness:
  "\<exists>resps m' p' i'. sync_run keep_order mem_services sample_events (sample_start, sample_held, Map.empty) =
     (resps, m', p', i') \<and> length resps = 2 \<and> length (filter carries_updates resps) = 1 \<and>
     p' = [''p1'' \<mapsto> (7, ''a: 1'')] \<and> i' = Map.empty"
proof -
  have M: "cached_manager mem_services mem_tabs map_of"
    using mem_services_ok by (simp add: cached_manager_services)
  let ?want = "[''p1'' \<mapsto> (7, ''a: 1'')] :: holding"
  have db: "m_db sample_start = sample_db" and epoch: "m_epoch sample_start = 0"
    by (simp_all add: sample_start_def New_def)
  have c: "coherent mem_tabs map_of {} sample_start"
    unfolding sample_start_def by (rule fresh_coherent) (simp add: empty_caches_def)
  have ctx: "agent_context now second_request = sample_match" for now
    using sample_context [of now] by (simp add: second_request_def match_context_def buildAgent_def sample_request_def
        attr_def)
  have want: "assignment (mem_tabs sample_db) sample_match = (?want, Map.empty)"
    by (simp add: assignment_def sample_wanted)
  have cf: "collision_free {sample_match}" by (simp add: collision_free_def same_identity_def)
  obtain resp m1 where b: "heartbeat keep_order mem_services 100 sample_request sample_start = (resp, m1)" by fastforce
  have resp: "resp = build_response keep_order 100 False sample_request ([sample_p1], [], [])"
    using sample_heartbeat [of 100] b by simp
  have ups: "pipeline_updates keep_order sample_request [sample_p1] =
      [\<lparr>cd_name = ''p1'', cd_version = 7, cd_detail = ''a: 1''\<rparr>, \<lparr>cd_name = ''gone'', cd_version = - 1, cd_detail = []\<rparr>]"
    "instance_updates keep_order sample_request [] = []"
    by (simp_all add: pipeline_updates_def instance_updates_def config_updates_def config_deletions_def
        sample_request_def indexConfigInfos_def keep_order_def config_detail_def)
  then have first: "hr_pipelines resp = [\<lparr>cd_name = ''p1'', cd_version = 7, cd_detail = ''a: 1''\<rparr>,
      \<lparr>cd_name = ''gone'', cd_version = - 1, cd_detail = []\<rparr>]" "hr_instances resp = []" "inline_flags resp" "succeeded resp"
    by (simp_all add: resp response_parts inline_flags_def inline_def total_bytes_def maxInlineDetailBytes_def
        succeeded_def ok_response_def)
  have held1: "apply_updates (hr_pipelines resp) sample_held = ?want" "apply_updates (hr_instances resp) Map.empty = Map.empty"
    by (auto simp: first sample_held_def outcome_def)
  have s: "coherent mem_tabs map_of {sample_match} m1" "mem_tabs (m_db m1) = mem_tabs sample_db"
    using cached_manager.beat_ok [OF M c b] cf sample_plain by (simp_all add: steady_def sample_context db)
  obtain resp2 m2 where b2: "heartbeat keep_order mem_services 110 second_request m1 = (resp2, m2)" by fastforce
  have held: "reports_held (hb_pipelines sample_request) sample_held" "reports_held (hb_instances sample_request) Map.empty"
    "reports_held (hb_pipelines second_request) ?want" "reports_held (hb_instances second_request) Map.empty"
    by (simp_all add: reports_held_def reported_def sample_request_def second_request_def sample_held_def)
  have flags: "hb_flags sample_request AND RequestFlags_FullState = 0" "hb_flags second_request AND RequestFlags_FullState = 0"
    by (simp_all add: sample_request_def second_request_def)
  have quiet: "\<not> carries_updates resp2 \<and> inline_flags resp2"
    using cached_manager.beat_quiet [OF M s(1) b2 _ _ flags(2) held(3,4) keep_order_reorders] cf sample_plain
    by (simp add: ctx s(2) in_sync_def want)
  have run: "undisturbed keep_order mem_services mem_tabs sample_match sample_events (sample_start, sample_held, Map.empty)"
    by (simp add: sample_events_def b b2 held flags first(3) quiet held1 sample_context ctx)
  have dist: "distinguishes (mem_tabs sample_db) sample_match sample_held Map.empty"
    by (simp add: distinguishes_def want versions_identify_def sample_held_def)
  obtain p' i' where out: "sync_run keep_order mem_services sample_events (sample_start, sample_held, Map.empty) =
      ([resp, resp2], m2, p', i')"
    by (simp add: sample_events_def b b2)
  have "resolved_by sample_events = {sample_match}" by (simp add: sample_events_def sample_context ctx)
  with heartbeats_settle [OF mem_services_ok, of "[]" "[]" "[]" sample_db "300 * second" 0 False sample_events
      sample_start keep_order sample_match sample_held Map.empty "[resp, resp2]" m2 p' i'] run dist out cf sample_plain first(4)
  have "(p', i') = (?want, Map.empty)"
    by (simp add: sample_start_def [symmetric] empty_caches_def askers_def keep_order_reorders db want sample_events_def)
  moreover have "length (filter carries_updates [resp, resp2]) = 1"
    using quiet first(1) by (simp add: carries_updates_def)
  ultimately show ?thesis using out by simp
qed

end
