(* ===== verification/Redis_Api.thy ===== *)
theory Redis_Api
  imports Cache_Api
begin

section \<open>What the program relies on of Redis\<close>

text \<open>
  Redis is shared by the replicas and not part of the program. The keys it holds, with their
  values and the time they have left, are seen through \<open>keys\<close>; \<open>wait d\<close> is the passing of the
  time \<open>d\<close>. The locale \<open>redis_api\<close> holds under faults: a command may fail, and then it may still
  have been carried out. \<open>reliable_redis\<close> adds what commands do when none fails. \<open>mem_redis\<close> is a
  small Redis in memory that satisfies both; witnesses run on it.
\<close>

type_synonym key_space = "string \<rightharpoonup> blob \<times> int"

subsection \<open>Scripts\<close>

fun apply_act :: "script_act \<Rightarrow> (blob \<times> int) option \<Rightarrow> (blob \<times> int) option" where
  "apply_act Keep cur = cur"
| "apply_act (Put v ttlSec) cur = Some (v, ttlSec * second)"
| "apply_act (Renew ttl) cur = map_option (\<lambda>(v, _). (v, ttl)) cur"
| "apply_act Drop cur = None"

fun act_reply :: "script_act \<Rightarrow> (blob \<times> int) option \<Rightarrow> int" where
  "act_reply Keep cur = 0"
| "act_reply (Put v ttlSec) cur = 1"
| "act_reply (Renew ttl) cur = (if cur = None then 0 else 1)"
| "act_reply Drop cur = (if cur = None then 0 else 1)"

definition run_script :: "string \<Rightarrow> (blob option \<Rightarrow> script_act) \<Rightarrow> key_space \<Rightarrow> key_space" where
  "run_script k f ks = ks(k := apply_act (f (map_option fst (ks k))) (ks k))"

definition script_reply :: "string \<Rightarrow> (blob option \<Rightarrow> script_act) \<Rightarrow> key_space \<Rightarrow> int" where
  "script_reply k f ks = act_reply (f (map_option fst (ks k))) (ks k)"

subsection \<open>Keys\<close>

text \<open>The keys a command may change.\<close>

fun cmd_keys :: "redis_cmd \<Rightarrow> string set" where
  "cmd_keys (RGet k) = {}"
| "cmd_keys (RSet k v ttl) = {k}"
| "cmd_keys (RDel k) = {k}"
| "cmd_keys (RExpire k ttl) = {k}"
| "cmd_keys (RPublish ch msg) = {}"
| "cmd_keys (REval k f) = {k}"
| "cmd_keys (RSetNX k v ttl) = {k}"
| "cmd_keys (RHSet k field v) = {k}"
| "cmd_keys (RHExpire k ttl field) = {k}"
| "cmd_keys (RHGetAll k) = {}"
| "cmd_keys (RScan pat) = {}"
| "cmd_keys (RExec cs) = (\<Union>c \<in> set cs. cmd_keys c)"

definition aged :: "int \<Rightarrow> (blob \<times> int) option \<Rightarrow> (blob \<times> int) option" where
  "aged d cur = (case cur of None \<Rightarrow> None | Some (v, ttl) \<Rightarrow> if ttl > d then Some (v, ttl - d) else None)"

text \<open>A glob without special characters, as the prefixes of the program are.\<close>

definition plain_glob :: "string \<Rightarrow> bool" where
  "plain_glob p \<longleftrightarrow> list_all (\<lambda>c. c \<notin> {CHR ''*'', CHR ''?'', CHR ''['', CHR 0x5C}) p"

locale redis_api =
  fixes redis :: "'r redis"
    and keys :: "'r \<Rightarrow> key_space"
    and wait :: "int \<Rightarrow> 'r \<Rightarrow> 'r"
  assumes setnx: "redis (RSetNX k v ttl) r = (x, r') \<Longrightarrow>
      (case x of
         Inr y \<Rightarrow> y = ReplyBool (keys r k = None) \<and>
           keys r' = (if keys r k = None then (keys r)(k \<mapsto> (v, ttl)) else keys r)
       | Inl e \<Rightarrow> keys r' = keys r \<or> (keys r k = None \<and> keys r' = (keys r)(k \<mapsto> (v, ttl))))"
    and eval: "redis (REval k f) r = (x, r') \<Longrightarrow>
      (case x of
         Inr y \<Rightarrow> y = ReplyInt (script_reply k f (keys r)) \<and> keys r' = run_script k f (keys r)
       | Inl e \<Rightarrow> keys r' = keys r \<or> keys r' = run_script k f (keys r))"
    and frame: "redis c r = (x, r') \<Longrightarrow> k \<notin> cmd_keys c \<Longrightarrow> keys r' k = keys r k"
    and scan_matches: "redis (RScan (p @ ''*'')) r = (Inr (ReplyKeys ks), r') \<Longrightarrow> plain_glob p \<Longrightarrow>
      k \<in> set ks \<Longrightarrow> has_prefix k p"
    and waited: "0 \<le> d \<Longrightarrow> keys (wait d r) k = aged d (keys r k)"

locale reliable_redis = redis_api +
  assumes get_exact: "keys r k = Some (v, ttl) \<Longrightarrow> \<exists>r'. redis (RGet k) r = (Inr (ReplyBlob v), r')"
    and del_exact: "redis (RDel k) r = (x, r') \<Longrightarrow> (\<exists>y. x = Inr y) \<and> keys r' = (keys r)(k := None)"
    and scan_exact: "plain_glob p \<Longrightarrow> \<exists>ks r'. redis (RScan (p @ ''*'')) r = (Inr (ReplyKeys ks), r') \<and>
      (\<forall>k. has_prefix k p \<and> keys r k \<noteq> None \<longrightarrow> k \<in> set ks)"
begin

lemma unchanged: "redis c r = (x, r') \<Longrightarrow> cmd_keys c = {} \<Longrightarrow> keys r' = keys r"
  using frame [of c r x r'] by (simp add: fun_eq_iff)

end

subsection \<open>A Redis in memory\<close>

type_synonym memredis = "(string \<times> blob \<times> int) list"

definition mem_put :: "string \<Rightarrow> (blob \<times> int) option \<Rightarrow> memredis \<Rightarrow> memredis" where
  "mem_put k cur r = (case cur of None \<Rightarrow> AList.delete k r | Some x \<Rightarrow> AList.update k x r)"

lemma mem_put_keys [simp]: "map_of (mem_put k cur r) = (map_of r)(k := cur)"
  by (auto simp: mem_put_def delete_conv' update_conv' split: option.splits)

definition glob_prefix :: "string \<Rightarrow> string" where
  "glob_prefix pat = butlast pat"

fun mem_redis :: "memredis redis" where
  "mem_redis (RGet k) r =
     ((case map_of r k of None \<Rightarrow> Inl (ErrDriver ''redis: nil'') | Some (v, _) \<Rightarrow> Inr (ReplyBlob v)), r)"
| "mem_redis (RSet k v ttl) r = (Inr ReplyOK, mem_put k (Some (v, ttl)) r)"
| "mem_redis (RDel k) r = (Inr ReplyOK, mem_put k None r)"
| "mem_redis (RSetNX k v ttl) r =
     (Inr (ReplyBool (map_of r k = None)), if map_of r k = None then mem_put k (Some (v, ttl)) r else r)"
| "mem_redis (REval k f) r =
     (Inr (ReplyInt (script_reply k f (map_of r))),
      mem_put k (apply_act (f (map_option fst (map_of r k))) (map_of r k)) r)"
| "mem_redis (RScan pat) r = (Inr (ReplyKeys (filter (\<lambda>k. has_prefix k (glob_prefix pat)) (map fst r))), r)"
| "mem_redis (RPublish ch msg) r = (Inr ReplyOK, r)"
| "mem_redis c r = (Inl (ErrDriver ''unsupported''), r)"

definition mem_wait :: "int \<Rightarrow> memredis \<Rightarrow> memredis" where
  "mem_wait d r = foldr (\<lambda>k r'. mem_put k (aged d (map_of r k)) r') (remdups (map fst r)) []"

lemma fold_put: "map_of (foldr (\<lambda>k. mem_put k (g k)) ks s) k = (if k \<in> set ks then g k else map_of s k)"
  by (induction ks) auto

lemma mem_wait_keys: "map_of (mem_wait d r) k = aged d (map_of r k)"
  by (auto simp: mem_wait_def fold_put aged_def map_of_eq_None_iff [symmetric] split: option.splits)

interpretation memr: reliable_redis mem_redis map_of mem_wait
proof
  fix k v ttl r x r'
  assume "mem_redis (RSetNX k v ttl) r = (x, r')"
  then show "case x of
      Inr y \<Rightarrow> y = ReplyBool (map_of r k = None) \<and>
        map_of r' = (if map_of r k = None then (map_of r)(k \<mapsto> (v, ttl)) else map_of r)
    | Inl e \<Rightarrow> map_of r' = map_of r \<or> (map_of r k = None \<and> map_of r' = (map_of r)(k \<mapsto> (v, ttl)))"
    by auto
next
  fix k f r x r'
  assume "mem_redis (REval k f) r = (x, r')"
  then show "case x of
      Inr y \<Rightarrow> y = ReplyInt (script_reply k f (map_of r)) \<and> map_of r' = run_script k f (map_of r)
    | Inl e \<Rightarrow> map_of r' = map_of r \<or> map_of r' = run_script k f (map_of r)"
    by (auto simp: run_script_def)
next
  fix c r x r' k
  assume "mem_redis c r = (x, r')" and "k \<notin> cmd_keys c"
  then show "map_of r' k = map_of r k" by (cases c) (auto split: if_splits)
next
  fix p r ks r' k
  assume "mem_redis (RScan (p @ ''*'')) r = (Inr (ReplyKeys ks), r')" and "k \<in> set ks"
  then show "has_prefix k p" by (auto simp: glob_prefix_def butlast_append)
next
  fix d r k
  show "map_of (mem_wait d r) k = aged d (map_of r k)" by (rule mem_wait_keys)
next
  fix p and r :: memredis
  have "k \<in> set (filter (\<lambda>k. has_prefix k (glob_prefix (p @ ''*''))) (map fst r))"
    if "has_prefix k p" "map_of r k \<noteq> None" for k
    using that by (auto simp: glob_prefix_def butlast_append map_of_eq_None_iff)
  then show "\<exists>ks r'. mem_redis (RScan (p @ ''*'')) r = (Inr (ReplyKeys ks), r') \<and>
      (\<forall>k. has_prefix k p \<and> map_of r k \<noteq> None \<longrightarrow> k \<in> set ks)" by simp
qed (auto split: option.splits)

end
