(* ===== verification/Reconcile_Laws.thy ===== *)
theory Reconcile_Laws
  imports Redis_Api Manager_Coherence Agent_Registry
begin

section \<open>What the reconciler does to the shared cache\<close>

text \<open>
  The reconciler touches the entries of configurations only: its lock, sessions and the registry
  are out of its reach. When nothing fails, every entry that is left in L2 has the version of the
  database. \<open>keyspace\<close> is what a manager's Redis holds.
\<close>

definition keyspace :: "('r \<Rightarrow> key_space) \<Rightarrow> ('d, 'f, 'r) mgr \<Rightarrow> key_space" where
  "keyspace keys m = (case m_rdb m of None \<Rightarrow> Map.empty | Some r \<Rightarrow> keys r)"

definition config_prefixes :: "string list" where
  "config_prefixes = [prefixPipeline, prefixInstance, prefixOnetime]"

lemma plain_prefixes: "plain_glob prefixPipeline" "plain_glob prefixInstance" "plain_glob prefixOnetime"
  by (simp_all add: plain_glob_def prefixPipeline_def prefixInstance_def prefixOnetime_def)

lemma lock_not_config: "\<not> has_prefix reconcileLockName p" if "p \<in> set config_prefixes"
  using that by (auto simp: config_prefixes_def has_prefix_def reconcileLockName_def prefixPipeline_def
      prefixInstance_def prefixOnetime_def)

lemma prefixes_apart:
  "has_prefix k prefixPipeline \<Longrightarrow> \<not> has_prefix k prefixInstance \<and> \<not> has_prefix k prefixOnetime"
  "has_prefix k prefixInstance \<Longrightarrow> \<not> has_prefix k prefixOnetime"
  by (auto simp: has_prefix_def prefix_def prefixPipeline_def prefixInstance_def prefixOnetime_def)

lemma trim_own: "trim_prefix (p @ n) p = n"
  by (simp add: trim_prefix_def)

lemma has_own [simp]: "has_prefix (p @ n) p"
  by (simp add: has_prefix_def)

lemma keyspace_db [simp]: "keyspace keys (snd (on_db f m)) = keyspace keys m"
  by (simp add: on_db_def keyspace_def split: prod.split)

lemma keyspace_upd [simp]: "keyspace keys (m\<lparr>m_l1 := f\<rparr>) = keyspace keys m" "keyspace keys (m\<lparr>m_db := d\<rparr>) = keyspace keys m"
  by (simp_all add: keyspace_def)

lemma keyspace_l1Del [simp]: "keyspace keys (l1Del X key m) = keyspace keys m"
  by (simp add: l1Del_def)

lemma on_redis_has: "m_rdb (snd (on_redis X c m)) = None \<longleftrightarrow> m_rdb m = None"
  by (simp add: on_redis_def split: option.split prod.split)

lemma map_le_None: "m \<subseteq>\<^sub>m m' \<Longrightarrow> m' k = None \<Longrightarrow> m k = None"
  by (cases "m k") (auto dest: map_leD)

subsection \<open>The keys out of reach\<close>

locale cluster_redis = redis_api "redis X" keys wait
  for X :: "('d, 'f, 'r) services" and keys :: "'r \<Rightarrow> key_space" and wait :: "int \<Rightarrow> 'r \<Rightarrow> 'r"
begin

abbreviation space :: "('d, 'f, 'r) mgr \<Rightarrow> key_space" where "space \<equiv> keyspace keys"

lemma on_redis_frame: "on_redis X c m = (x, m') \<Longrightarrow> k \<notin> cmd_keys c \<Longrightarrow> space m' k = space m k"
  using frame by (auto simp: on_redis_def keyspace_def split: option.splits prod.splits)

lemma redis_do_frame: "k \<notin> cmd_keys c \<Longrightarrow> space (redis_do X c m) k = space m k"
  using on_redis_frame by (metis prod.collapse redis_do_def)

lemma invalidate_frame:
  assumes "k \<noteq> key"
  shows "space (invalidate X key m) k = space m k"
proof (cases "m_rdb (l1Del X key m)")
  case None
  then show ?thesis by (simp add: invalidate_def Let_def)
next
  case (Some r)
  obtain x m1 where d: "on_redis X (RDel key) (l1Del X key m) = (x, m1)" by fastforce
  have "space m1 k = space m k" using on_redis_frame [OF d, of k] assms by simp
  with assms show ?thesis
    by (auto simp: invalidate_def Let_def Some d redis_do_frame split: sum.split)
qed

lemma reconcile_entry_frame:
  assumes "k \<noteq> key"
  shows "space (reconcile_entry X dec ver key v m) k = space m k"
proof -
  obtain x m1 where g: "on_redis X (RGet key) m = (x, m1)" by fastforce
  from on_redis_frame [OF g, of k] invalidate_frame [OF assms, of m1] show ?thesis
    by (simp add: reconcile_entry_def g split: sum.split redis_reply.split option.split)
qed

lemma reconcile_entries_frame:
  "k \<notin> fst ` set es \<Longrightarrow> space (reconcile_entries X dec ver es m) k = space m k"
  by (induction es arbitrary: m) (auto simp: reconcile_entry_frame)

lemma drop_deleted_frame: "k \<notin> set ks \<Longrightarrow> space (drop_deleted X p names ks m) k = space m k"
  by (induction ks arbitrary: m) (simp_all add: invalidate_frame)

lemma scan_prefix:
  assumes "on_redis X (RScan (p @ ''*'')) m = (Inr (ReplyKeys ks), m')" and "plain_glob p" and "k \<in> set ks"
  shows "has_prefix k p"
proof -
  from assms(1) obtain r r' where "redis X (RScan (p @ ''*'')) r = (Inr (ReplyKeys ks), r')"
    by (auto simp: on_redis_def split: option.splits prod.splits)
  then show ?thesis using assms(2,3) by (rule scan_matches)
qed

lemma cleanup_frame:
  assumes "plain_glob p" and "\<not> has_prefix k p"
  shows "space (cleanupDeletedConfigCacheKeys X p names m) k = space m k"
proof -
  obtain x m1 where s: "on_redis X (RScan (p @ ''*'')) m = (x, m1)" by fastforce
  have m1: "space m1 k = space m k" using on_redis_frame [OF s, of k] by simp
  have "space (drop_deleted X p names ks m1) k = space m k" if "x = Inr (ReplyKeys ks)" for ks
  proof -
    have "k \<notin> set ks" using scan_prefix s that assms by blast
    with m1 show ?thesis by (simp add: drop_deleted_frame)
  qed
  with m1 show ?thesis
    by (simp add: cleanupDeletedConfigCacheKeys_def s split: sum.split redis_reply.split)
qed

lemma clean_if_listed_frame:
  "plain_glob p \<Longrightarrow> \<not> has_prefix k p \<Longrightarrow> space (clean_if_listed X r p name_of m) k = space m k"
  by (simp add: clean_if_listed_def cleanup_frame split: sum.split)

lemma reconcileCache_frame:
  assumes "\<And>p. p \<in> set config_prefixes \<Longrightarrow> \<not> has_prefix k p"
  shows "space (reconcileCache X now m) k = space m k"
proof -
  have no: "\<not> has_prefix k prefixPipeline" "\<not> has_prefix k prefixInstance" "\<not> has_prefix k prefixOnetime"
    using assms by (simp_all add: config_prefixes_def)
  then have "k \<notin> fst ` set (map (\<lambda>c. (prefixPipeline @ n c, v c)) xs)"
    "k \<notin> fst ` set (map (\<lambda>c. (prefixInstance @ n c, v c)) xs)"
    "k \<notin> fst ` set (map (\<lambda>c. (prefixOnetime @ n' c, v' c)) ys)" for n v n' v' xs ys
    by auto
  note entries = this [THEN reconcile_entries_frame]
  obtain ps m1 where 1: "on_db (ListPipelineConfigs (gorm X)) m = (ps, m1)" by fastforce
  obtain xs m2 where 2: "on_db (ListInstanceConfigs (gorm X)) m1 = (xs, m2)" by fastforce
  obtain b m3 where 3: "on_db (BackfillOnetimeCommandVersions (gorm X) now) m2 = (b, m3)" by fastforce
  obtain os m4 where 4: "on_db (ListOnetimeCommands (gorm X)) m3 = (os, m4)" by fastforce
  have "space m4 = space m" using 1 2 3 4 keyspace_db by (metis snd_conv)
  then show ?thesis
    by (simp add: reconcileCache_def 1 2 3 4 Let_def entries clean_if_listed_frame plain_prefixes no)
qed

lemma reconcileCache_lock: "space (reconcileCache X now m) reconcileLockName = space m reconcileLockName"
  by (rule reconcileCache_frame) (rule lock_not_config)

end

subsection \<open>What is left in the shared cache\<close>

text \<open>An entry of L2 that agrees with the database: its configuration exists and has its version.\<close>

definition current_entry :: "tables \<Rightarrow> string \<Rightarrow> blob \<Rightarrow> bool" where
  "current_entry t k b \<longleftrightarrow>
     (\<forall>n. k = prefixPipeline @ n \<longrightarrow> (\<exists>row. pipeline_at t n = Some row \<and>
        (\<forall>c. decode_config b = Some c \<longrightarrow> cf_version c = cf_version row))) \<and>
     (\<forall>n. k = prefixInstance @ n \<longrightarrow> (\<exists>row. instance_at t n = Some row \<and>
        (\<forall>c. decode_config b = Some c \<longrightarrow> cf_version c = cf_version row))) \<and>
     (\<forall>n. k = prefixOnetime @ n \<longrightarrow> (\<exists>row. onetime_at t n = Some row \<and>
        (\<forall>c. decode_onetime b = Some c \<longrightarrow> onetimeCacheVersion c = onetimeCacheVersion row)))"

text \<open>The queries of a run succeed (the back-fill of versions may fail).\<close>

definition succeeds :: "err + 'a \<Rightarrow> bool" where
  "succeeds r \<longleftrightarrow> (case r of Inl _ \<Rightarrow> False | Inr _ \<Rightarrow> True)"

lemma succeeds_iff: "succeeds r \<longleftrightarrow> (\<exists>x. r = Inr x)"
  by (cases r) (simp_all add: succeeds_def)

definition lists_all :: "('d, 'f, 'r) services \<Rightarrow> time \<Rightarrow> ('d, 'f, 'r) mgr \<Rightarrow> bool" where
  "lists_all X now m \<longleftrightarrow>
     (case on_db (ListPipelineConfigs (gorm X)) m of (ps, m1) \<Rightarrow>
     (case on_db (ListInstanceConfigs (gorm X)) m1 of (xs, m2) \<Rightarrow>
     (case on_db (BackfillOnetimeCommandVersions (gorm X) now) m2 of (_, m3) \<Rightarrow>
     (case on_db (ListOnetimeCommands (gorm X)) m3 of (os, m4) \<Rightarrow>
        succeeds ps \<and> succeeds xs \<and> succeeds os))))"

lemma on_redis_db: "m_db (snd (on_redis X c m)) = m_db m"
  by (simp add: on_redis_def split: option.split prod.split)

lemma redis_do_db: "m_db (redis_do X c m) = m_db m"
  by (simp add: redis_do_def on_redis_db)

lemma invalidate_db: "m_db (invalidate X key m) = m_db m"
proof -
  obtain x m1 where d: "on_redis X (RDel key) (l1Del X key m) = (x, m1)" by fastforce
  have l1: "m_db (l1Del X key m) = m_db m" by (simp add: l1Del_def)
  then have "m_db m1 = m_db m" using on_redis_db [of X "RDel key" "l1Del X key m"] d by simp
  with l1 show ?thesis
    by (simp add: invalidate_def Let_def d redis_do_db split: option.split sum.split)
qed

lemma entry_db: "m_db (reconcile_entry X dec ver key v m) = m_db m"
  using on_redis_db [of X "RGet key" m]
  by (auto simp: reconcile_entry_def invalidate_db split: prod.split sum.split redis_reply.split option.split)

lemma drop_deleted_db: "m_db (drop_deleted X p names ks m) = m_db m"
  by (induction ks arbitrary: m) (simp_all add: invalidate_db)

lemma reconcile_db:
  "m_db (reconcile_entries X dec ver es m) = m_db m"
  "m_db (clean_if_listed X r p name_of m) = m_db m"
proof -
  show "m_db (reconcile_entries X dec ver es m) = m_db m"
    by (induction es arbitrary: m) (auto simp: entry_db)
  show "m_db (clean_if_listed X r p name_of m) = m_db m"
    using on_redis_db [of X "RScan (p @ ''*'')" m]
    by (auto simp: clean_if_listed_def cleanupDeletedConfigCacheKeys_def drop_deleted_db
        split: prod.split sum.split redis_reply.split)
qed

locale reliable_cluster =
  cluster_redis X keys wait + reliable_redis "redis X" keys wait + database: gorm_api "gorm X" tabs
  for X :: "('d, 'f, 'r) services" and keys :: "'r \<Rightarrow> key_space" and wait :: "int \<Rightarrow> 'r \<Rightarrow> 'r"
    and tabs :: "'d \<Rightarrow> tables"
begin

lemma silent: "on_redis X c m = (x, m') \<Longrightarrow> cmd_keys c = {} \<Longrightarrow> space m' = space m"
  using on_redis_frame [of c m x m'] by (simp add: fun_eq_iff)

lemma invalidate_space: "space (invalidate X key m) = (space m)(key := None)"
proof (cases "m_rdb m")
  case None
  then show ?thesis by (simp add: invalidate_def l1Del_def Let_def keyspace_def)
next
  case (Some r)
  obtain x r1 where d: "redis X (RDel key) r = (x, r1)" by fastforce
  obtain y where y: "x = Inr y" "keys r1 = (keys r)(key := None)" using del_exact [OF d] by blast
  have "on_redis X (RDel key) (l1Del X key m) = (Inr y, (l1Del X key m)\<lparr>m_rdb := Some r1\<rparr>)"
    by (simp add: on_redis_def l1Del_def Some d y(1))
  moreover have "space (redis_do X (RPublish ch key) m') = space m'" for ch m'
    using silent [of "RPublish ch key" m'] by (metis cmd_keys.simps(5) prod.collapse redis_do_def)
  ultimately show ?thesis
    by (simp add: invalidate_def Let_def Some l1Del_def) (simp add: keyspace_def Some y(2))
qed

lemma entry_repaired:
  defines "m' \<equiv> \<lambda>dec ver key v m. reconcile_entry X dec ver key v m"
  shows "space (m' dec ver key v m) \<subseteq>\<^sub>m space m"
    and "space (m' dec ver key v m) key = Some (b, ttl) \<Longrightarrow> dec b = Some c \<Longrightarrow> ver c = v"
proof -
  obtain x m1 where g: "on_redis X (RGet key) m = (x, m1)" by fastforce
  have m1: "space m1 = space m" using silent [OF g] by simp
  have inv: "space (invalidate X key m1) \<subseteq>\<^sub>m space m" by (simp add: invalidate_space m1 map_le_def)
  then show "space (m' dec ver key v m) \<subseteq>\<^sub>m space m"
    using m1 by (simp add: m'_def reconcile_entry_def g split: sum.split redis_reply.split option.split)
  assume e: "space (m' dec ver key v m) key = Some (b, ttl)" and c: "dec b = Some c"
  have "space m key = Some (b, ttl)"
    using \<open>space (m' dec ver key v m) \<subseteq>\<^sub>m space m\<close> e by (metis domI map_le_def)
  then obtain r where r: "m_rdb m = Some r" "keys r key = Some (b, ttl)"
    by (auto simp: keyspace_def split: option.splits)
  from get_exact [OF r(2)] g r(1) have x: "x = Inr (ReplyBlob b)" by (auto simp: on_redis_def)
  show "ver c = v"
  proof (rule ccontr)
    assume "ver c \<noteq> v"
    then have "m' dec ver key v m = invalidate X key m1" by (simp add: m'_def reconcile_entry_def g x c)
    with e show False by (simp add: invalidate_space)
  qed
qed

lemma entries_repaired:
  "space (reconcile_entries X dec ver es m) \<subseteq>\<^sub>m space m \<and>
   (\<forall>(key, v) \<in> set es. \<forall>b ttl c. space (reconcile_entries X dec ver es m) key = Some (b, ttl) \<longrightarrow>
      dec b = Some c \<longrightarrow> ver c = v)"
proof (induction es arbitrary: m)
  case (Cons e es)
  obtain key v where e: "e = (key, v)" by fastforce
  let ?m = "reconcile_entry X dec ver key v m"
  from Cons.IH [of ?m] entry_repaired(1) [of dec ver key v m]
  have "space (reconcile_entries X dec ver es ?m) \<subseteq>\<^sub>m space m" using map_le_trans by blast
  moreover have "ver c = v" if "space (reconcile_entries X dec ver es ?m) key = Some (b, ttl)" "dec b = Some c" for b ttl c
    using entry_repaired(2) [of dec ver key v m b ttl c] Cons.IH [of ?m] that map_leD by metis
  ultimately show ?case using Cons.IH [of ?m] by (auto simp: e)
qed simp

lemma drop_deleted_space:
  "space (drop_deleted X p names ks m) \<subseteq>\<^sub>m space m \<and>
   (\<forall>k \<in> set ks. trim_prefix k p \<notin> set names \<longrightarrow> space (drop_deleted X p names ks m) k = None)"
proof (induction ks arbitrary: m)
  case (Cons k ks)
  let ?m = "if trim_prefix k p \<in> set names then m else invalidate X k m"
  have le: "space ?m \<subseteq>\<^sub>m space m" by (simp add: invalidate_space map_le_def)
  from Cons.IH [of ?m] le have "space (drop_deleted X p names ks ?m) \<subseteq>\<^sub>m space m" using map_le_trans by blast
  moreover have "space (drop_deleted X p names ks ?m) k = None" if "trim_prefix k p \<notin> set names"
  proof -
    have "space ?m k = None" using that by (simp add: invalidate_space)
    moreover have "space (drop_deleted X p names ks ?m) \<subseteq>\<^sub>m space ?m" using Cons.IH [of ?m] by blast
    ultimately show ?thesis by (rule map_le_None [rotated])
  qed
  ultimately show ?case using Cons.IH [of ?m] by simp
qed simp

lemma cleanup_space:
  assumes "plain_glob p"
  shows "space (cleanupDeletedConfigCacheKeys X p names m) \<subseteq>\<^sub>m space m \<and>
    (\<forall>n. n \<notin> set names \<longrightarrow> space (cleanupDeletedConfigCacheKeys X p names m) (p @ n) = None)"
proof (cases "m_rdb m")
  case None
  then show ?thesis
    by (simp add: cleanupDeletedConfigCacheKeys_def on_redis_def keyspace_def)
next
  case (Some r)
  obtain ks r' where s: "redis X (RScan (p @ ''*'')) r = (Inr (ReplyKeys ks), r')"
    and all: "\<And>k. has_prefix k p \<Longrightarrow> keys r k \<noteq> None \<Longrightarrow> k \<in> set ks"
    using scan_exact [OF assms, of r] by blast
  let ?m = "m\<lparr>m_rdb := Some r'\<rparr>"
  have o: "on_redis X (RScan (p @ ''*'')) m = (Inr (ReplyKeys ks), ?m)" by (simp add: on_redis_def Some s)
  have m1: "space ?m = space m" using silent [OF o] by simp
  have r: "cleanupDeletedConfigCacheKeys X p names m = drop_deleted X p names ks ?m"
    by (simp add: cleanupDeletedConfigCacheKeys_def o)
  have "space (drop_deleted X p names ks ?m) (p @ n) = None" if "n \<notin> set names" for n
  proof (cases "p @ n \<in> set ks")
    case True
    with drop_deleted_space [of p names ks ?m] that show ?thesis by (simp add: trim_own)
  next
    case False
    then have "keys r (p @ n) = None" using all [OF has_own] by blast
    then have "space m (p @ n) = None" by (simp add: keyspace_def Some)
    moreover have "space (drop_deleted X p names ks ?m) \<subseteq>\<^sub>m space m" using drop_deleted_space m1 by metis
    ultimately show ?thesis by (rule map_le_None [rotated])
  qed
  with drop_deleted_space [of p names ks ?m] m1 show ?thesis by (simp add: r)
qed

lemma stage_repaired:
  fixes xs :: "'x list"
  assumes "space m' \<subseteq>\<^sub>m space (reconcile_entries X dec ver (map (\<lambda>c. (p @ name_of c, ver' c)) xs) m1)"
    and "space m' \<subseteq>\<^sub>m space (clean_if_listed X (Inr xs :: err + 'x list) p name_of m2)" and "plain_glob p"
    and "space m' (p @ n) = Some (b, ttl)"
  shows "\<exists>row \<in> set xs. name_of row = n \<and> (\<forall>c. dec b = Some c \<longrightarrow> ver c = ver' row)"
proof -
  have "space (clean_if_listed X (Inr xs :: err + 'x list) p name_of m2) (p @ n) = Some (b, ttl)"
    by (rule map_leD [OF assms(2,4)])
  then have "n \<in> name_of ` set xs"
    using cleanup_space [OF assms(3), of "map name_of xs" m2] by (auto simp: clean_if_listed_def)
  then obtain row where row: "row \<in> set xs" "name_of row = n" by blast
  have "space (reconcile_entries X dec ver (map (\<lambda>c. (p @ name_of c, ver' c)) xs) m1) (p @ n) = Some (b, ttl)"
    by (rule map_leD [OF assms(1,4)])
  moreover have "(p @ n, ver' row) \<in> set (map (\<lambda>c. (p @ name_of c, ver' c)) xs)" using row by force
  ultimately have "\<forall>c. dec b = Some c \<longrightarrow> ver c = ver' row"
    using entries_repaired [of dec ver "map (\<lambda>c. (p @ name_of c, ver' c)) xs" m1] by fast
  with row show ?thesis by blast
qed

lemma clean_shrinks: "plain_glob p \<Longrightarrow> space (clean_if_listed X r p name_of m) \<subseteq>\<^sub>m space m"
  using cleanup_space by (simp add: clean_if_listed_def split: sum.split)

lemma listed_rows:
  assumes "projects p C" and "find_as (gorm X) p (\<lambda>_. True) d = (Inr xs, d')"
  shows "tabs d' = tabs d" and "row \<in> set xs \<longleftrightarrow> has (tabs d) (C row)"
  using database.find_as_ok [OF assms] by simp_all

lemma backfill_frame:
  "BackfillOnetimeCommandVersions (gorm X) now d = (r, d') \<Longrightarrow> frame {TOnetime} (tabs d) (tabs d')"
proof -
  have loop: "backfill_versions (gorm X) now cmds d = (r, d') \<Longrightarrow> frame {TOnetime} (tabs d) (tabs d')" for cmds d r d'
  proof (induction cmds arbitrary: d)
    case (Cons cmd cmds)
    let ?w = "Write (Update (on as_onetime (\<lambda>c. oc_name c = oc_name cmd \<and> oc_version c = 0))
        (setting as_onetime ROnetime (\<lambda>c. c\<lparr>oc_version := if unix_nano (oc_created cmd) \<le> 0 then unix_nano now
           else unix_nano (oc_created cmd)\<rparr>)))"
    obtain x d1 where w: "exec (gorm X) ?w d = (x, d1)" by fastforce
    have f1: "frame {TOnetime} (tabs d) (tabs d1)"
      by (rule database.exec_frame_write [OF w]) (auto simp: on_tables)
    show ?case
    proof (cases x)
      case (Inl e)
      with Cons.prems w f1 show ?thesis by (simp add: bindr_def Let_def)
    next
      case (Inr u)
      with Cons.prems w have "backfill_versions (gorm X) now cmds d1 = (r, d')" by (simp add: bindr_def Let_def)
      from Cons.IH [OF this] f1 show ?thesis by (simp add: frame_def)
    qed
  qed (simp add: retr_def)
  assume b: "BackfillOnetimeCommandVersions (gorm X) now d = (r, d')"
  obtain x d1 where f: "find_as (gorm X) as_onetime (\<lambda>c. oc_version c = 0) d = (x, d1)" by fastforce
  have "tabs d1 = tabs d" by (rule keepsD [OF database.keeps_reads(1) f])
  moreover have "frame {TOnetime} (tabs d1) (tabs d')" if "x = Inr cmds" for cmds
    using b f that by (simp add: BackfillOnetimeCommandVersions_def bindr_def loop)
  moreover have "d' = d1" if "x = Inl e" for e
    using b f that by (simp add: BackfillOnetimeCommandVersions_def bindr_def)
  ultimately show ?thesis by (cases x) auto
qed

lemma reconcile_repairs:
  assumes "lists_all X now m"
  shows "space (reconcileCache X now m) \<subseteq>\<^sub>m space m \<and>
    (\<forall>k b ttl. space (reconcileCache X now m) k = Some (b, ttl) \<longrightarrow>
      current_entry (tabs (m_db (reconcileCache X now m))) k b)"
proof -
  obtain ps m1 where 1: "on_db (ListPipelineConfigs (gorm X)) m = (Inr ps, m1)"
    and "lists_all X now m" using assms by (auto simp: lists_all_def succeeds_iff split: prod.splits)
  then obtain xs m2 where 2: "on_db (ListInstanceConfigs (gorm X)) m1 = (Inr xs, m2)"
    by (auto simp: lists_all_def succeeds_iff split: prod.splits)
  obtain r m3 where 3: "on_db (BackfillOnetimeCommandVersions (gorm X) now) m2 = (r, m3)" by fastforce
  obtain os m4 where 4: "on_db (ListOnetimeCommands (gorm X)) m3 = (Inr os, m4)"
    using assms 1 2 3 by (auto simp: lists_all_def succeeds_iff split: prod.splits)
  let ?t = "tabs (m_db m4)"
  have t1: "tabs (m_db m1) = tabs (m_db m)" and ps: "row \<in> set ps \<longleftrightarrow> has (tabs (m_db m)) (RPipeline row)" for row
    using listed_rows [OF projects_table(3), of "m_db m" ps] 1
    by (auto simp: on_db_def ListPipelineConfigs_def split: prod.splits)
  have t2: "tabs (m_db m2) = tabs (m_db m1)" and xs: "row \<in> set xs \<longleftrightarrow> has (tabs (m_db m1)) (RInstance row)" for row
    using listed_rows [OF projects_table(4), of "m_db m1" xs] 2
    by (auto simp: on_db_def ListInstanceConfigs_def split: prod.splits)
  have t3: "frame {TOnetime} (tabs (m_db m2)) (tabs (m_db m3))"
    using backfill_frame [of now "m_db m2"] 3 by (auto simp: on_db_def split: prod.splits)
  have t4: "tabs (m_db m4) = tabs (m_db m3)" and os: "row \<in> set os \<longleftrightarrow> has (tabs (m_db m3)) (ROnetime row)" for row
    using listed_rows [OF projects_table(5), of "m_db m3" os] 4
    by (auto simp: on_db_def ListOnetimeCommands_def split: prod.splits)
  have at: "pipeline_at (tabs d) n = Some c \<longleftrightarrow> has (tabs d) (RPipeline c) \<and> cf_name c = n"
    "instance_at (tabs d) n = Some c \<longleftrightarrow> has (tabs d) (RInstance c) \<and> cf_name c = n"
    "onetime_at (tabs d) n = Some o1 \<longleftrightarrow> has (tabs d) (ROnetime o1) \<and> oc_name o1 = n" for d n c o1
    by (simp_all add: database.row_at_tabs [OF projects_table(3)] database.row_at_tabs [OF projects_table(4)]
        database.row_at_tabs [OF projects_table(5)])
  have same: "pipeline_at ?t n = pipeline_at (tabs (m_db m)) n" "instance_at ?t n = instance_at (tabs (m_db m1)) n" for n
    by (simp_all add: frame_row_at [OF t3] t1 t2 t4)
  have s: "space m4 = space m" using 1 2 3 4 keyspace_db by (metis snd_conv)
  define m5 where "m5 = reconcile_entries X decode_config cf_version
      (map (\<lambda>c. (prefixPipeline @ cf_name c, cf_version c)) ps) m4"
  define m6 where "m6 = reconcile_entries X decode_config cf_version
      (map (\<lambda>c. (prefixInstance @ cf_name c, cf_version c)) xs) m5"
  define m7 where "m7 = reconcile_entries X decode_onetime onetimeCacheVersion
      (map (\<lambda>c. (prefixOnetime @ oc_name c, onetimeCacheVersion c)) os) m6"
  define m8 where "m8 = clean_if_listed X (Inr ps :: err + _) prefixPipeline cf_name m7"
  define m9 where "m9 = clean_if_listed X (Inr xs :: err + _) prefixInstance cf_name m8"
  define mz where "mz = clean_if_listed X (Inr os :: err + _) prefixOnetime oc_name m9"
  have z: "reconcileCache X now m = mz"
    by (simp add: reconcileCache_def 1 2 3 4 Let_def listed_def m5_def m6_def m7_def m8_def m9_def mz_def)
  have db: "m_db mz = m_db m4" by (simp add: m5_def m6_def m7_def m8_def m9_def mz_def reconcile_db)
  have c5: "space m5 \<subseteq>\<^sub>m space m4" "space m6 \<subseteq>\<^sub>m space m5" "space m7 \<subseteq>\<^sub>m space m6"
    unfolding m5_def m6_def m7_def by (rule entries_repaired [THEN conjunct1])+
  have c8: "space m8 \<subseteq>\<^sub>m space m7" "space m9 \<subseteq>\<^sub>m space m8" "space mz \<subseteq>\<^sub>m space m9"
    unfolding m8_def m9_def mz_def by (rule clean_shrinks plain_prefixes)+
  have le: "space mz \<subseteq>\<^sub>m space m9" "space mz \<subseteq>\<^sub>m space m8" "space mz \<subseteq>\<^sub>m space m7" "space mz \<subseteq>\<^sub>m space m6"
    "space mz \<subseteq>\<^sub>m space m5" "space mz \<subseteq>\<^sub>m space m4"
    using c5 c8 by (blast intro: map_le_trans)+
  have self: "space mz \<subseteq>\<^sub>m space (clean_if_listed X (Inr os :: err + _) prefixOnetime oc_name m9)"
    by (simp add: mz_def)
  note st = stage_repaired [OF le(5) [unfolded m5_def] le(2) [unfolded m8_def] plain_prefixes(1)]
    stage_repaired [OF le(4) [unfolded m6_def] le(1) [unfolded m9_def] plain_prefixes(2)]
    stage_repaired [OF le(3) [unfolded m7_def] self plain_prefixes(3)]
  have "current_entry ?t k b" if e: "space mz k = Some (b, ttl)" for k b ttl
    unfolding current_entry_def
  proof (intro conjI allI impI)
    fix n assume "k = prefixPipeline @ n"
    with st(1) [of n b ttl] e ps show "\<exists>row. pipeline_at ?t n = Some row \<and>
        (\<forall>c. decode_config b = Some c \<longrightarrow> cf_version c = cf_version row)"
      unfolding same at by blast
  next
    fix n assume "k = prefixInstance @ n"
    with st(2) [of n b ttl] e xs show "\<exists>row. instance_at ?t n = Some row \<and>
        (\<forall>c. decode_config b = Some c \<longrightarrow> cf_version c = cf_version row)"
      unfolding same at by blast
  next
    fix n assume "k = prefixOnetime @ n"
    with st(3) [of n b ttl] e os show "\<exists>row. onetime_at ?t n = Some row \<and>
        (\<forall>c. decode_onetime b = Some c \<longrightarrow> onetimeCacheVersion c = onetimeCacheVersion row)"
      unfolding t4 at by blast
  qed
  with le(6) s show ?thesis by (simp add: z db)
qed

end

end
