(* ===== verification/Admin_Http.thy ===== *)
theory Admin_Http
  imports Agent_Registry
begin

section \<open>Requests, replies and sessions of the admin server (internal/server/admin)\<close>

text \<open>
  What the handlers of the admin API share: the request they read, the reply they write, the
  state they act on (the manager and the stores of sessions, pending OTP logins and reset
  tokens), and the libraries they call, gathered in the record \<open>world\<close>: the clock reading
  and the random bytes of one request, \<open>bcrypt\<close>, TOTP, QR codes, the mailer, YAML, the texts
  of times (RFC 3339, in replies and in JSON) and of errors, the Unicode tables behind \<open>%q\<close>
  and \<open>strings.ToLower\<close>, the ids the database gives to new rows, and the order in which Go
  iterates over a map. A handler runs on a request and the state; it replies, or panics
  (\<open>net/http\<close> recovers and drops the connection). Logging is not modelled.
\<close>

subsection \<open>Requests and replies\<close>

record userCtx =
  uc_name :: string
  uc_admin :: bool

text \<open>
  The path of a request is held as its segments, each decoded, as the mux matches them;
  \<open>r.URL.Path\<close> is \<open>rq_path\<close>.
\<close>

record hreq =
  rq_method :: string
  rq_segments :: "string list"
  rq_uri :: string
  rq_remote :: string
  rq_vars :: "string \<Rightarrow> string"
  rq_query :: "string \<Rightarrow> string"
  rq_header :: "string \<Rightarrow> string"
  rq_cookies :: "string \<rightharpoonup> string"
  rq_body :: "bytes \<times> bool"
  rq_user :: "userCtx option"

definition rq_path :: "hreq \<Rightarrow> string" where
  "rq_path req = concat (map (\<lambda>part. ''/'' @ part) (rq_segments req))"

record set_cookie =
  sc_name :: string
  sc_value :: string
  sc_max_age :: int
  sc_http_only :: bool

record reply =
  rs_status :: nat
  rs_code :: int
  rs_message :: string
  rs_data :: "json option"
  rs_cookies :: "set_cookie list"

text \<open>What the web UI and the metrics are answered with: a page, its header in the order it was set.\<close>

record page =
  pg_status :: nat
  pg_header :: "(string \<times> string) list"
  pg_body :: bytes

datatype outcome =
    Reply reply
  | Page page
  | Panicked

definition writeJSON :: "nat \<Rightarrow> int \<Rightarrow> string \<Rightarrow> json option \<Rightarrow> outcome" where
  "writeJSON status code msg data =
     Reply \<lparr>rs_status = status, rs_code = code, rs_message = msg, rs_data = data, rs_cookies = []\<rparr>"

definition ok_h :: "json option \<Rightarrow> outcome" where "ok_h data = writeJSON 200 0 ''ok'' data"
definition badRequest :: "string \<Rightarrow> outcome" where "badRequest msg = writeJSON 400 1 msg None"
definition conflict :: "string \<Rightarrow> outcome" where "conflict msg = writeJSON 409 1 msg None"
definition notFound :: outcome where "notFound = writeJSON 404 1 ''not found'' None"
definition internalError :: outcome where "internalError = writeJSON 500 1 ''internal error'' None"

text \<open>\<open>http.SetCookie\<close> before the reply is written; no handler sets a cookie before a page.\<close>

definition with_cookies :: "set_cookie list \<Rightarrow> outcome \<Rightarrow> outcome" where
  "with_cookies cs out =
     (case out of
        Reply r \<Rightarrow> Reply (r\<lparr>rs_cookies := cs @ rs_cookies r\<rparr>)
      | Page p \<Rightarrow> Page p
      | Panicked \<Rightarrow> Panicked)"

definition str_map :: "(string \<times> string) list \<Rightarrow> json option" where
  "str_map kvs = Some (JObj (map (\<lambda>(k, v). (k, JStr v)) kvs))"

subsection \<open>Libraries\<close>

record mail =
  ml_to :: string
  ml_message :: bytes

record world =
  w_now :: time
  w_random :: "nat \<Rightarrow> bytes"
  w_hash :: "string \<Rightarrow> err + string"
  w_check :: "string \<Rightarrow> string \<Rightarrow> bool"
  w_totp_generate :: "string \<Rightarrow> err + (string \<times> string)"
  w_totp_check :: "string \<Rightarrow> string \<Rightarrow> bool"
  w_qr :: "string \<Rightarrow> string"
  w_smtp_host :: string
  w_smtp_from :: string
  w_public_url :: string
  w_send_mail :: "mail \<Rightarrow> bool"
  w_yaml :: "bytes \<Rightarrow> err + bool"
  w_time_text :: "time \<Rightarrow> string"
  w_time_json :: "time \<Rightarrow> string"
  w_time_parse :: "string \<Rightarrow> time option"
  w_quote :: "string \<Rightarrow> string"
  w_lower :: "string \<Rightarrow> string"
  w_new_id :: "nat \<Rightarrow> nat"
  w_agent_order :: "Agent list \<Rightarrow> Agent list"
  w_status_order :: "AgentConfigStatus list \<Rightarrow> AgentConfigStatus list"
  w_error_text :: "err \<Rightarrow> string"
  w_json_error :: "bytes \<Rightarrow> string"

subsection \<open>State\<close>

text \<open>A store of tokens in memory, a Go map: the user of a token and when it expires.\<close>

record token_entry =
  te_user :: string
  te_expires :: time

type_synonym token_map = "(string \<times> token_entry) list"

record ('d, 'f, 'r) adm =
  s_mgr :: "('d, 'f, 'r) mgr"
  s_sessions :: token_map
  s_pending :: token_map
  s_resets :: token_map
  s_outbox :: "mail list"

text \<open>
  A step of a handler returns a value and goes on, or ends the handler with an outcome (the
  early return after a reply was written).
\<close>

type_synonym ('s, 'a) step = "'s \<Rightarrow> (outcome + 'a) \<times> 's"

definition reth :: "'a \<Rightarrow> ('s, 'a) step" where
  "reth x s = (Inr x, s)"

definition stop :: "outcome \<Rightarrow> ('s, 'a) step" where
  "stop out s = (Inl out, s)"

definition bindh :: "('s, 'a) step \<Rightarrow> ('a \<Rightarrow> ('s, 'b) step) \<Rightarrow> ('s, 'b) step" where
  "bindh f g s =
     (case f s of
        (Inl out, s1) \<Rightarrow> (Inl out, s1)
      | (Inr x, s1) \<Rightarrow> g x s1)"

definition stop_if :: "bool \<Rightarrow> outcome \<Rightarrow> ('s, unit) step" where
  "stop_if b out = (if b then stop out else reth ())"

definition finish :: "('s, outcome) step \<Rightarrow> 's \<Rightarrow> outcome \<times> 's" where
  "finish f s = (case f s of (Inl out, s1) \<Rightarrow> (out, s1) | (Inr out, s1) \<Rightarrow> (out, s1))"

text \<open>A method of the manager, its error as a value or as the end of the handler.\<close>

definition attempt :: "(('d, 'f, 'r) mgr \<Rightarrow> (err + 'a) \<times> ('d, 'f, 'r) mgr) \<Rightarrow> (('d, 'f, 'r) adm, err + 'a) step" where
  "attempt f s = (case f (s_mgr s) of (r, m) \<Rightarrow> (Inr r, s\<lparr>s_mgr := m\<rparr>))"

definition need ::
  "(err \<Rightarrow> outcome) \<Rightarrow> (('d, 'f, 'r) mgr \<Rightarrow> (err + 'a) \<times> ('d, 'f, 'r) mgr) \<Rightarrow> (('d, 'f, 'r) adm, 'a) step" where
  "need on_err f = bindh (attempt f) (\<lambda>r. case r of Inl e \<Rightarrow> stop (on_err e) | Inr x \<Rightarrow> reth x)"

text \<open>A row that may be absent (a nil pointer), and what to answer then.\<close>

definition present :: "outcome \<Rightarrow> 'a option \<Rightarrow> ('s, 'a) step" where
  "present out x = (case x of None \<Rightarrow> stop out | Some y \<Rightarrow> reth y)"

subsection \<open>Reading the body\<close>

text \<open>
  \<open>decodeJSON\<close> reads one JSON value from the first MiB of the body, \<open>readJSON\<close> the whole of
  it; \<open>fill\<close> says how an object fills the anonymous struct of the handler. (A read error of the
  connection is seen by \<open>readJSON\<close>; the decoder only sees it as an incomplete value.)
\<close>

definition json_limit :: nat where "json_limit = 2 ^ 20"

definition decodeJSON :: "world \<Rightarrow> (json \<Rightarrow> 'a option) \<Rightarrow> hreq \<Rightarrow> ('s, 'a) step" where
  "decodeJSON w fill req =
     (let body = take json_limit (fst (rq_body req))
      in case Option.bind (json_decode_first body) fill of
           None \<Rightarrow> stop (badRequest (w_json_error w body))
         | Some x \<Rightarrow> reth x)"

definition readJSON :: "world \<Rightarrow> (json \<Rightarrow> 'a option) \<Rightarrow> hreq \<Rightarrow> ('s, 'a) step" where
  "readJSON w fill req =
     (case rq_body req of (sent, fails) \<Rightarrow>
        if fails \<and> length sent < json_limit then stop (badRequest (w_json_error w sent))
        else
          let body = take json_limit sent
          in case Option.bind (json_parse body) fill of
               None \<Rightarrow> stop (badRequest (w_json_error w body))
             | Some x \<Rightarrow> reth x)"

text \<open>A struct of string fields, in their order.\<close>

definition string_fields :: "string list \<Rightarrow> json \<Rightarrow> string list option" where
  "string_fields names = fill_struct (\<lambda>kvs. all_some (map (\<lambda>n. fill_string [] (members n kvs)) names))"

definition string_field :: "string \<Rightarrow> json \<Rightarrow> string option" where
  "string_field name = fill_struct (\<lambda>kvs. fill_string [] (members name kvs))"

subsection \<open>Tokens (auth.go, otp.go, email.go)\<close>

definition sessionCookieName :: string where "sessionCookieName = ''cs_session''"
definition csrfCookieName :: string where "csrfCookieName = ''cs_csrf''"
definition sessionRedisPrefix :: string where "sessionRedisPrefix = ''cs_session:''"
definition pendingOTPPrefix :: string where "pendingOTPPrefix = ''cs_otp_pending:''"
definition resetTokenRedisPrefix :: string where "resetTokenRedisPrefix = ''cs_reset:''"
definition sessionTTL :: int where "sessionTTL = 28800 * second"
definition pendingOTPTTL :: int where "pendingOTPTTL = 300 * second"
definition resetTokenTTL :: int where "resetTokenTTL = 1800 * second"

definition hex_encode :: "bytes \<Rightarrow> string" where
  "hex_encode bs = concat (map (\<lambda>b. [hex_digit (byte b div 16), hex_digit (byte b mod 16)]) bs)"

text \<open>
  The stores in memory: \<open>put_token\<close> for \<open>create\<close> and \<open>issue\<close>, \<open>find_token\<close> for \<open>get\<close>, and
  \<open>consume\<close>, which removes the token whether or not it has expired.
\<close>

definition put_token :: "string \<Rightarrow> string \<Rightarrow> time \<Rightarrow> token_map \<Rightarrow> token_map" where
  "put_token tok user expires ts = AList.update tok \<lparr>te_user = user, te_expires = expires\<rparr> ts"

definition find_token :: "time \<Rightarrow> string \<Rightarrow> token_map \<Rightarrow> string option" where
  "find_token now tok ts =
     (case map_of ts tok of
        None \<Rightarrow> None
      | Some e \<Rightarrow> if now > te_expires e then None else Some (te_user e))"

definition consume_token :: "time \<Rightarrow> string \<Rightarrow> token_map \<Rightarrow> string option \<times> token_map" where
  "consume_token now tok ts =
     (case map_of ts tok of
        None \<Rightarrow> (None, ts)
      | Some e \<Rightarrow> (if now > te_expires e then None else Some (te_user e), AList.delete tok ts))"

text \<open>
  With Redis the stores are keys of Redis. The keys under these prefixes only ever hold user
  names. GET and DEL run in one transaction; its reply stands for the GET's.
\<close>

definition redis_issue ::
  "('d, 'f, 'r) services \<Rightarrow> string \<Rightarrow> string \<Rightarrow> int \<Rightarrow> ('d, 'f, 'r) mgr \<Rightarrow> ('d, 'f, 'r) mgr" where
  "redis_issue X key user ttl m = redis_do X (RSet key (JRaw user) ttl) m"

definition redis_user :: "err + redis_reply \<Rightarrow> string option" where
  "redis_user r =
     (case r of Inr (ReplyBlob (JRaw user)) \<Rightarrow> if user = [] then None else Some user | _ \<Rightarrow> None)"

definition redis_consume ::
  "('d, 'f, 'r) services \<Rightarrow> string \<Rightarrow> ('d, 'f, 'r) mgr \<Rightarrow> string option \<times> ('d, 'f, 'r) mgr" where
  "redis_consume X key m =
     (case on_redis X (RExec [RGet key, RDel key]) m of (r, m1) \<Rightarrow> (redis_user r, m1))"

definition sessions_create ::
  "('d, 'f, 'r) services \<Rightarrow> world \<Rightarrow> string \<Rightarrow> ('d, 'f, 'r) adm \<Rightarrow> string \<times> ('d, 'f, 'r) adm" where
  "sessions_create X w user s =
     (let token = hex_encode (w_random w 16)
      in case m_rdb (s_mgr s) of
           None \<Rightarrow> (token, s\<lparr>s_sessions := put_token token user (w_now w + sessionTTL) (s_sessions s)\<rparr>)
         | Some _ \<Rightarrow> (token, s\<lparr>s_mgr := redis_issue X (sessionRedisPrefix @ token) user sessionTTL (s_mgr s)\<rparr>))"

definition sessions_get ::
  "('d, 'f, 'r) services \<Rightarrow> world \<Rightarrow> string \<Rightarrow> ('d, 'f, 'r) adm \<Rightarrow> string option \<times> ('d, 'f, 'r) adm" where
  "sessions_get X w token s =
     (case m_rdb (s_mgr s) of
        None \<Rightarrow> (find_token (w_now w) token (s_sessions s), s)
      | Some _ \<Rightarrow>
          (case on_redis X (RGet (sessionRedisPrefix @ token)) (s_mgr s) of
             (r, m1) \<Rightarrow> (redis_user r, s\<lparr>s_mgr := m1\<rparr>)))"

definition sessions_delete ::
  "('d, 'f, 'r) services \<Rightarrow> string \<Rightarrow> ('d, 'f, 'r) adm \<Rightarrow> ('d, 'f, 'r) adm" where
  "sessions_delete X token s =
     (case m_rdb (s_mgr s) of
        None \<Rightarrow> s\<lparr>s_sessions := AList.delete token (s_sessions s)\<rparr>
      | Some _ \<Rightarrow> s\<lparr>s_mgr := redis_do X (RDel (sessionRedisPrefix @ token)) (s_mgr s)\<rparr>)"

definition pendingOTP_issue ::
  "('d, 'f, 'r) services \<Rightarrow> world \<Rightarrow> string \<Rightarrow> ('d, 'f, 'r) adm \<Rightarrow> string \<times> ('d, 'f, 'r) adm" where
  "pendingOTP_issue X w user s =
     (let token = hex_encode (w_random w 16)
      in case m_rdb (s_mgr s) of
           None \<Rightarrow> (token, s\<lparr>s_pending := put_token token user (w_now w + pendingOTPTTL) (s_pending s)\<rparr>)
         | Some _ \<Rightarrow> (token, s\<lparr>s_mgr := redis_issue X (pendingOTPPrefix @ token) user pendingOTPTTL (s_mgr s)\<rparr>))"

definition pendingOTP_consume ::
  "('d, 'f, 'r) services \<Rightarrow> world \<Rightarrow> string \<Rightarrow> ('d, 'f, 'r) adm \<Rightarrow> string option \<times> ('d, 'f, 'r) adm" where
  "pendingOTP_consume X w token s =
     (case m_rdb (s_mgr s) of
        None \<Rightarrow>
          (case consume_token (w_now w) token (s_pending s) of (u, ts) \<Rightarrow> (u, s\<lparr>s_pending := ts\<rparr>))
      | Some _ \<Rightarrow>
          (case redis_consume X (pendingOTPPrefix @ token) (s_mgr s) of (u, m1) \<Rightarrow> (u, s\<lparr>s_mgr := m1\<rparr>)))"

definition resetTokens_issue ::
  "('d, 'f, 'r) services \<Rightarrow> world \<Rightarrow> string \<Rightarrow> ('d, 'f, 'r) adm \<Rightarrow> string \<times> ('d, 'f, 'r) adm" where
  "resetTokens_issue X w user s =
     (let token = hex_encode (w_random w 32)
      in case m_rdb (s_mgr s) of
           None \<Rightarrow> (token, s\<lparr>s_resets := put_token token user (w_now w + resetTokenTTL) (s_resets s)\<rparr>)
         | Some _ \<Rightarrow>
             (token, s\<lparr>s_mgr := redis_issue X (resetTokenRedisPrefix @ token) user resetTokenTTL (s_mgr s)\<rparr>))"

definition resetTokens_consume ::
  "('d, 'f, 'r) services \<Rightarrow> world \<Rightarrow> string \<Rightarrow> ('d, 'f, 'r) adm \<Rightarrow> string option \<times> ('d, 'f, 'r) adm" where
  "resetTokens_consume X w token s =
     (case m_rdb (s_mgr s) of
        None \<Rightarrow>
          (case consume_token (w_now w) token (s_resets s) of (u, ts) \<Rightarrow> (u, s\<lparr>s_resets := ts\<rparr>))
      | Some _ \<Rightarrow>
          (case redis_consume X (resetTokenRedisPrefix @ token) (s_mgr s) of (u, m1) \<Rightarrow> (u, s\<lparr>s_mgr := m1\<rparr>)))"

definition newSessionCookie :: "string \<Rightarrow> set_cookie" where
  "newSessionCookie token =
     \<lparr>sc_name = sessionCookieName, sc_value = token, sc_max_age = sessionTTL div second, sc_http_only = True\<rparr>"

definition newCSRFCookie :: "string \<Rightarrow> set_cookie" where
  "newCSRFCookie token =
     \<lparr>sc_name = csrfCookieName, sc_value = token, sc_max_age = sessionTTL div second, sc_http_only = False\<rparr>"

text \<open>A step that only changes the state, such as issuing or consuming a token.\<close>

definition act :: "('s \<Rightarrow> 'a \<times> 's) \<Rightarrow> ('s, 'a) step" where
  "act f s = (case f s of (x, s1) \<Rightarrow> (Inr x, s1))"

end
