(* ===== verification/Go_Time.thy ===== *)
theory Go_Time
  imports Go_Prelude
begin

section \<open>time.Duration as text\<close>

text \<open>
  \<open>time.ParseDuration\<close> and \<open>Duration.String\<close> of Go's package \<open>time\<close>, which the configuration
  and the metrics use, with their rounding and their overflows. A duration is its nanoseconds,
  a signed 64-bit integer. An error of \<open>ParseDuration\<close> is only ever logged: it is None.
\<close>

subsection \<open>Rounding to float64\<close>

text \<open>
  The fractional digits of a duration go through \<open>float64\<close>. \<open>to_double p q\<close> is the double
  nearest to the positive fraction \<open>p / q\<close>, ties to even, again as a fraction; the exponents
  met here are far from the limits of the format.
\<close>

fun bit_len :: "int \<Rightarrow> nat" where
  "bit_len n = (if n \<le> 0 then 0 else Suc (bit_len (n div 2)))"

declare bit_len.simps [simp del]

definition nearest_even :: "int \<Rightarrow> int \<Rightarrow> int" where
  "nearest_even p q =
     (let m = p div q; r = p mod q
      in if 2 * r > q \<or> (2 * r = q \<and> odd m) then m + 1 else m)"

definition to_double :: "int \<Rightarrow> int \<Rightarrow> int \<times> int" where
  "to_double p q =
     (if p \<le> 0 then (0, 1)
      else
        let scaled = (\<lambda>e. if e \<ge> 0 then (p, q * 2 ^ nat e) else (p * 2 ^ nat (- e), q));
            e0 = int (bit_len p) - int (bit_len q) - 53;
            e = (if fst (scaled e0) \<ge> 2 ^ 53 * snd (scaled e0) then e0 + 1 else e0);
            m = nearest_even (fst (scaled e)) (snd (scaled e))
        in if e \<ge> 0 then (m * 2 ^ nat e, 1) else (m, 2 ^ nat (- e)))"

subsection \<open>time.ParseDuration\<close>

definition nanosecond :: int where "nanosecond = 1"
definition microsecond :: int where "microsecond = 1000"
definition millisecond :: int where "millisecond = 1000000"
definition minute :: int where "minute = 60 * second"
definition hour :: int where "hour = 60 * minute"

definition unit_map :: "string \<rightharpoonup> int" where
  "unit_map = map_of
     [(''ns'', nanosecond), (''us'', microsecond),
      ([CHR 0xC2, CHR 0xB5, CHR ''s''], microsecond), ([CHR 0xCE, CHR 0xBC, CHR ''s''], microsecond),
      (''ms'', millisecond), (''s'', second), (''m'', minute), (''h'', hour)]"

fun leading_int :: "int \<Rightarrow> string \<Rightarrow> (int \<times> string) option" where
  "leading_int x [] = Some (x, [])"
| "leading_int x (c # s) =
     (if \<not> is_digit c then Some (x, c # s)
      else if x > 2 ^ 63 div 10 then None
      else
        let y = x * 10 + int (digit_val c)
        in if y > 2 ^ 63 then None else leading_int y s)"

text \<open>Digits beyond the precision are read and dropped.\<close>

fun leading_fraction :: "bool \<Rightarrow> int \<Rightarrow> int \<Rightarrow> string \<Rightarrow> int \<times> int \<times> string" where
  "leading_fraction overflow x scale [] = (x, scale, [])"
| "leading_fraction overflow x scale (c # s) =
     (if \<not> is_digit c then (x, scale, c # s)
      else if overflow \<or> x > (2 ^ 63 - 1) div 10 then leading_fraction True x scale s
      else
        let y = x * 10 + int (digit_val c)
        in if y > 2 ^ 63 then leading_fraction True x scale s
           else leading_fraction False y (scale * 10) s)"

definition unit_char :: "char \<Rightarrow> bool" where
  "unit_char c \<longleftrightarrow> c \<noteq> CHR ''.'' \<and> \<not> is_digit c"

text \<open>One number with its unit: its nanoseconds (at most \<open>2^63\<close>) and the rest of the text.\<close>

definition parse_part :: "string \<Rightarrow> (int \<times> string) option" where
  "parse_part s =
     (if s = [] \<or> \<not> (hd s = CHR ''.'' \<or> is_digit (hd s)) then None
      else
        case leading_int 0 s of
          None \<Rightarrow> None
        | Some (v, s1) \<Rightarrow>
            let pre = length s \<noteq> length s1;
                dot = (s1 \<noteq> [] \<and> hd s1 = CHR ''.'');
                (f, scale, s2) = (if dot then leading_fraction False 0 1 (tl s1) else (0, 1, s1));
                post = (dot \<and> length (tl s1) \<noteq> length s2);
                u = takeWhile unit_char s2; s3 = dropWhile unit_char s2
            in if \<not> pre \<and> \<not> post \<or> u = [] then None
               else
                 case unit_map u of
                   None \<Rightarrow> None
                 | Some unit \<Rightarrow>
                     if v > 2 ^ 63 div unit then None
                     else
                       let (fn, fd) = to_double f 1; (un, ud) = to_double unit scale;
                           (pn, pd) = to_double (fn * un) (fd * ud);
                           v1 = (if f > 0 then v * unit + pn div pd else v * unit)
                       in if v1 > 2 ^ 63 then None else Some (v1, s3))"

lemma leading_int_length: "leading_int x s = Some (v, s1) \<Longrightarrow> length s1 \<le> length s"
  by (induction s arbitrary: x) (auto simp: Let_def split: if_splits intro: le_SucI)

lemma leading_fraction_length: "leading_fraction b x n s = (f, k, s1) \<Longrightarrow> length s1 \<le> length s"
  by (induction b x n s rule: leading_fraction.induct) (auto simp: Let_def split: if_splits intro: le_SucI)

lemma parse_part_shorter: "parse_part s = Some (v, s3) \<Longrightarrow> length s3 < length s"
proof -
  assume p: "parse_part s = Some (v, s3)"
  obtain x s1 where i: "leading_int 0 s = Some (x, s1)"
    using p by (auto simp: parse_part_def split: if_splits option.splits)
  obtain f k s2 where q: "(if s1 \<noteq> [] \<and> hd s1 = CHR ''.'' then leading_fraction False 0 1 (tl s1) else (0, 1, s1)) = (f, k, s2)"
    by (metis prod_cases3)
  have "length s2 \<le> length s1"
    using q by (auto split: if_splits dest!: leading_fraction_length)
  moreover have "length s1 \<le> length s" using i by (rule leading_int_length)
  moreover have "takeWhile unit_char s2 \<noteq> []" "s3 = dropWhile unit_char s2"
    using p i q by (auto simp: parse_part_def Let_def split: if_splits option.splits prod.splits)
  moreover from this have "length s3 < length s2"
    by (metis add.commute length_append length_greater_0_conv less_add_same_cancel1 takeWhile_dropWhile_id)
  ultimately show ?thesis by linarith
qed

text \<open>The sum is an unsigned 64-bit integer, checked after each part.\<close>

function parse_parts :: "int \<Rightarrow> string \<Rightarrow> int option" where
  "parse_parts d s =
     (if s = [] then Some d
      else
        case parse_part s of
          None \<Rightarrow> None
        | Some (v, s1) \<Rightarrow>
            let d1 = (d + v) mod 2 ^ 64
            in if d1 > 2 ^ 63 then None else parse_parts d1 s1)"
  by pat_completeness auto
termination
  by (relation "measure (\<lambda>(d, s). length s)") (auto dest: parse_part_shorter)

declare parse_parts.simps [simp del]

definition parse_duration :: "string \<Rightarrow> int option" where
  "parse_duration s =
     (let neg = (s \<noteq> [] \<and> hd s = CHR ''-'');
          body = (if s \<noteq> [] \<and> (hd s = CHR ''-'' \<or> hd s = CHR ''+'') then tl s else s)
      in if body = ''0'' then Some 0
         else if body = [] then None
         else
           case parse_parts 0 body of
             None \<Rightarrow> None
           | Some d \<Rightarrow>
               if neg then Some (wrap64 (- wrap64 d))
               else if d > 2 ^ 63 - 1 then None
               else Some d)"

subsection \<open>Duration.String\<close>

text \<open>\<open>fmtFrac\<close>: the fraction \<open>v / 10^prec\<close> without trailing zeros, nothing if it is 0.\<close>

fun frac_digits :: "nat \<Rightarrow> int \<Rightarrow> bool \<Rightarrow> string \<Rightarrow> string" where
  "frac_digits 0 v print acc = (if print then CHR ''.'' # acc else acc)"
| "frac_digits (Suc n) v print acc =
     (let d = v mod 10; print1 = (print \<or> d \<noteq> 0)
      in frac_digits n (v div 10) print1 (if print1 then digit_char (nat d) # acc else acc))"

definition fmt_frac :: "int \<Rightarrow> nat \<Rightarrow> string" where
  "fmt_frac v prec = frac_digits prec v False []"

definition show_int :: "int \<Rightarrow> string" where
  "show_int n = show_nat (nat n)"

definition duration_string :: "int \<Rightarrow> string" where
  "duration_string d =
     (let u = \<bar>d\<bar>;
          text =
            (if u = 0 then ''0s''
             else if u < microsecond then show_int u @ ''ns''
             else if u < millisecond then show_int (u div 1000) @ fmt_frac u 3 @ [CHR 0xC2, CHR 0xB5, CHR ''s'']
             else if u < second then show_int (u div 1000000) @ fmt_frac u 6 @ ''ms''
             else
               let secs = u div second; mins = secs div 60; hours = mins div 60
               in (if hours > 0 then show_int hours @ ''h'' else []) @
                  (if mins > 0 then show_int (mins mod 60) @ ''m'' else []) @
                  show_int (secs mod 60) @ fmt_frac u 9 @ ''s'')
      in if d < 0 then CHR ''-'' # text else text)"

subsection \<open>What the text of a duration means\<close>

lemma leading_int_nonneg: "leading_int x s = Some (v, s1) \<Longrightarrow> 0 \<le> x \<Longrightarrow> 0 \<le> v"
  by (induction s arbitrary: x) (auto simp: Let_def split: if_splits)

text \<open>A parsed duration is a 64-bit integer.\<close>

lemma parse_parts_bound: "parse_parts d s = Some e \<Longrightarrow> 0 \<le> d \<Longrightarrow> d \<le> 2 ^ 63 \<Longrightarrow> 0 \<le> e \<and> e \<le> 2 ^ 63"
proof (induction d s rule: parse_parts.induct)
  case (1 d s)
  show ?case
  proof (cases "s = []")
    case True
    with 1(2-4) show ?thesis by (simp add: parse_parts.simps)
  next
    case False
    then obtain v s1 where v: "parse_part s = Some (v, s1)" "\<not> (d + v) mod 2 ^ 64 > 2 ^ 63"
        "parse_parts ((d + v) mod 2 ^ 64) s1 = Some e"
      using 1(2) by (subst (asm) parse_parts.simps) (auto simp: Let_def split: option.splits if_splits)
    show ?thesis
      by (rule 1(1) [OF False v(1) refl refl v(2,3)]) (use v(2) in simp_all)
  qed
qed

lemma parse_duration_in_int64: "parse_duration s = Some d \<Longrightarrow> in_int64 d"
  by (auto simp: parse_duration_def Let_def in_int64_def [of 0] split: if_splits option.splits
      dest!: parse_parts_bound) (auto simp: in_int64_def)

end
