(* ===== verification/Metrics_Collector.thy ===== *)
theory Metrics_Collector
  imports Admin_Http Go_Time
begin

section \<open>Metrics\<close>

text \<open>
  \<open>internal/metrics/collector.go\<close>: a snapshot of the agents and of their configuration
  statuses, as Prometheus text for a scrape and as time series for a push, and the push under a
  lease in Redis. The wire format of a push (protobuf, snappy, HTTP) is a parameter. The list
  of the manager holds no nil entry. \<open>unixMilli\<close> and \<open>runningStatusValue\<close> are never called and
  left out.
\<close>

type_synonym labelPair = "string \<times> string"

subsection \<open>Labels\<close>

definition label_char :: "char \<Rightarrow> bool" where
  "label_char c \<longleftrightarrow> (let b = byte c in b = 95 \<or> (65 \<le> b \<and> b < 91) \<or> (97 \<le> b \<and> b < 123)) \<or> is_digit c"

text \<open>\<open>nonAlnum.ReplaceAllString(s, "_")\<close>: one underscore for each rune that is not allowed.\<close>

function sanitise :: "string \<Rightarrow> string" where
  "sanitise s =
     (case s of
        [] \<Rightarrow> []
      | c # r \<Rightarrow>
          if label_char c then c # sanitise r
          else CHR ''_'' # sanitise (drop (utf8_len s - 1) r))"
  by pat_completeness auto
termination
  by (relation "measure length") auto

declare sanitise.simps [simp del]

definition tag_label :: "string \<Rightarrow> string" where
  "tag_label name =
     (let s = sanitise name
      in ''tag_'' @ (if s \<noteq> [] \<and> is_digit (hd s) then CHR ''_'' # s else s))"

fun tag_pairs :: "string list \<Rightarrow> agentTagEntry list \<Rightarrow> labelPair list" where
  "tag_pairs seen [] = []"
| "tag_pairs seen (e # es) =
     (if te_name e = [] \<or> tag_label (te_name e) \<in> set seen then tag_pairs seen es
      else (tag_label (te_name e), te_value e) # tag_pairs (tag_label (te_name e) # seen) es)"

definition parseTagsJSON :: "string \<Rightarrow> labelPair list" where
  "parseTagsJSON tagsJSON =
     (case parse_tag_entries tagsJSON of None \<Rightarrow> [] | Some entries \<Rightarrow> tag_pairs [] entries)"

text \<open>\<open>q\<close> is the verb \<open>%q\<close>.\<close>

definition formatLabels :: "(string \<Rightarrow> string) \<Rightarrow> labelPair list \<Rightarrow> string" where
  "formatLabels q labels = join (map (\<lambda>(name, value). name @ ''='' @ q value) labels) '',''"

definition agentLabelValue :: "Agent option \<Rightarrow> (Agent \<Rightarrow> string) \<Rightarrow> string" where
  "agentLabelValue agent getter = (case agent of None \<Rightarrow> [] | Some a \<Rightarrow> getter a)"

subsection \<open>Counting\<close>

text \<open>\<open>t.Sub(u)\<close> saturates.\<close>

definition time_sub :: "time \<Rightarrow> time \<Rightarrow> int" where
  "time_sub t u = max (- (2 ^ 63)) (min (2 ^ 63 - 1) (t - u))"

definition agentOnlineValue :: "time \<Rightarrow> time \<Rightarrow> int \<Rightarrow> int" where
  "agentOnlineValue now lastHeartbeat onlineWindow =
     (if lastHeartbeat = time_zero then 0
      else if time_sub now lastHeartbeat \<le> onlineWindow then 1 else 0)"

text \<open>\<open>counts[key]++\<close>, unless the key is empty; a Go map of counters.\<close>

definition count_key :: "string \<Rightarrow> (string \<times> nat) list \<Rightarrow> (string \<times> nat) list" where
  "count_key key m =
     (if key = [] then m else AList.update key (Suc (case map_of m key of None \<Rightarrow> 0 | Some n \<Rightarrow> n)) m)"

definition sortedKeys :: "(string \<times> nat) list \<Rightarrow> string list" where
  "sortedKeys m = sort (map fst m)"

definition counter :: "(string \<times> nat) list \<Rightarrow> string \<Rightarrow> nat" where
  "counter m key = (case map_of m key of None \<Rightarrow> 0 | Some n \<Rightarrow> n)"

record fleet_counts =
  fl_total :: nat
  fl_online :: nat
  fl_status :: "(string \<times> nat) list"
  fl_type :: "(string \<times> nat) list"
  fl_by_id :: "(string \<times> Agent) list"

text \<open>The loop over the agents with which both collectors begin.\<close>

definition count_agent :: "time \<Rightarrow> int \<Rightarrow> Agent \<Rightarrow> fleet_counts \<Rightarrow> fleet_counts" where
  "count_agent now onlineWindow a f =
     \<lparr>fl_total = Suc (fl_total f),
      fl_online = (if time_sub now (a_last_heartbeat a) \<le> onlineWindow then Suc (fl_online f) else fl_online f),
      fl_status = count_key (a_running_status a) (fl_status f),
      fl_type = count_key (a_type a) (fl_type f),
      fl_by_id = AList.update (a_instance a) a (fl_by_id f)\<rparr>"

definition count_agents :: "time \<Rightarrow> int \<Rightarrow> Agent list \<Rightarrow> fleet_counts" where
  "count_agents now onlineWindow agents =
     fold (count_agent now onlineWindow) agents
       \<lparr>fl_total = 0, fl_online = 0, fl_status = [], fl_type = [], fl_by_id = []\<rparr>"

definition agent_labels :: "Agent \<Rightarrow> labelPair list" where
  "agent_labels a =
     [(''type'', a_type a), (''uuid'', a_instance a), (''ip'', a_ip a), (''hostname'', a_hostname a),
      (''version'', a_version a)] @ parseTagsJSON (a_tags_json a)"

definition config_labels :: "Agent option \<Rightarrow> AgentConfigStatus \<Rightarrow> labelPair list" where
  "config_labels agent st =
     [(''config_name'', st_config st), (''config_type'', st_type st),
      (''agent_type'', agentLabelValue agent a_type), (''agent_uuid'', st_instance st),
      (''agent_ip'', agentLabelValue agent a_ip), (''agent_hostname'', agentLabelValue agent a_hostname),
      (''agent_version'', agentLabelValue agent a_version)]"

subsection \<open>The text for a scrape\<close>

text \<open>The text is a list of lines, each ended by a newline.\<close>

definition writeMetric :: "(string \<Rightarrow> string) \<Rightarrow> string \<Rightarrow> string \<Rightarrow> string \<Rightarrow> (string \<times> string) list \<Rightarrow> nat \<Rightarrow> string list" where
  "writeMetric q name typ help labels val =
     [''# HELP '' @ name @ '' '' @ help, ''# TYPE '' @ name @ '' '' @ typ] @
     (if labels = [] then [name @ '' '' @ show_nat val]
      else [name @ ''{'' @ join (sort (map (\<lambda>(k, v). k @ ''='' @ q v) labels)) '','' @ ''} '' @ show_nat val])"

definition collect_lines :: "(string \<Rightarrow> string) \<Rightarrow> time \<Rightarrow> int \<Rightarrow> Agent list \<Rightarrow> AgentConfigStatus list \<Rightarrow> string list" where
  "collect_lines q now onlineWindow agents statuses =
     (let f = count_agents now onlineWindow agents
      in writeMetric q ''configserver_agents_total'' ''gauge''
           ''Total number of agents registered since the last server start.'' [] (fl_total f) @
         writeMetric q ''configserver_agents_online_total'' ''gauge''
           (''Agents whose last heartbeat was within '' @ duration_string onlineWindow @ ''.'') [] (fl_online f) @
         [''# HELP configserver_agents_by_status Number of agents grouped by running_status.'',
          ''# TYPE configserver_agents_by_status gauge''] @
         map (\<lambda>status. ''configserver_agents_by_status{status='' @ q status @ ''} '' @
                show_nat (counter (fl_status f) status)) (sortedKeys (fl_status f)) @
         [''# HELP configserver_agents_by_type Number of agents grouped by agent_type.'',
          ''# TYPE configserver_agents_by_type gauge''] @
         map (\<lambda>typ. ''configserver_agents_by_type{agent_type='' @ q typ @ ''} '' @
                show_nat (counter (fl_type f) typ)) (sortedKeys (fl_type f)) @
         [''# HELP agent_hearbeat Agent online heartbeat by agent labels. Value is 1 when LastHeartbeat is '' @
            ''within the online window, otherwise 0.'',
          ''# TYPE agent_hearbeat gauge'',
          ''# HELP agent_last_heartbeat_timestamp_seconds Last heartbeat Unix timestamp by agent labels.'',
          ''# TYPE agent_last_heartbeat_timestamp_seconds gauge''] @
         concat (map (\<lambda>a.
           if a_last_heartbeat a = time_zero then []
           else
             let labels = formatLabels q (agent_labels a)
             in [''agent_hearbeat{'' @ labels @ ''} '' @ itoa (agentOnlineValue now (a_last_heartbeat a) onlineWindow),
                 ''agent_last_heartbeat_timestamp_seconds{'' @ labels @ ''} '' @ itoa (unix_sec (a_last_heartbeat a))])
           agents) @
         [''# HELP agent_config Agent config apply status by config and agent labels.'',
          ''# TYPE agent_config gauge'',
          ''# HELP agent_config_updated_timestamp_seconds Last config status update Unix timestamp by '' @
            ''config and agent labels.'',
          ''# TYPE agent_config_updated_timestamp_seconds gauge''] @
         concat (map (\<lambda>s.
           if st_updated s = time_zero then []
           else
             let labels = formatLabels q (config_labels (map_of (fl_by_id f) (st_instance s)) s)
             in [''agent_config{'' @ labels @ ''} '' @ itoa (st_status s),
                 ''agent_config_updated_timestamp_seconds{'' @ labels @ ''} '' @ itoa (unix_sec (st_updated s))])
           statuses))"

text \<open>Both collectors list the agents and the statuses first.\<close>

definition read_fleet ::
  "('d, 'f, 'r) services \<Rightarrow> world \<Rightarrow> ('d, 'f, 'r) mgr \<Rightarrow>
   (err + Agent list \<times> AgentConfigStatus list) \<times> ('d, 'f, 'r) mgr" where
  "read_fleet X w m =
     (case ListAgents_m (w_agent_order w) X m of
        (Inl e, m1) \<Rightarrow> (Inl (ErrWrap ''list agents'' e), m1)
      | (Inr agents, m1) \<Rightarrow>
          (case ListAgentConfigStatuses_m (w_status_order w) X m1 of
             (Inl e, m2) \<Rightarrow> (Inl (ErrWrap ''list agent config statuses'' e), m2)
           | (Inr statuses, m2) \<Rightarrow> (Inr (agents, statuses), m2)))"

definition newline_char :: char where "newline_char = CHR 0x0A"

definition Collect_text ::
  "('d, 'f, 'r) services \<Rightarrow> world \<Rightarrow> int \<Rightarrow> ('d, 'f, 'r) mgr \<Rightarrow> (err + string) \<times> ('d, 'f, 'r) mgr" where
  "Collect_text X w onlineWindow m =
     (case read_fleet X w m of
        (Inl e, m1) \<Rightarrow> (Inl e, m1)
      | (Inr (agents, statuses), m1) \<Rightarrow>
          (Inr (concat (map (\<lambda>l. l @ [newline_char])
             (collect_lines (w_quote w) (w_now w) onlineWindow agents statuses))), m1))"

subsection \<open>The series of a push\<close>

text \<open>A series carries one sample; its value is a float64, here always an integer.\<close>

record TimeSeries =
  se_labels :: "labelPair list"
  se_value :: int
  se_timestamp :: int

text \<open>
  \<open>addMetric\<close>: the map of labels with the name of the metric, sorted. The names of the labels
  differ, so neither the order of the map nor the unstable sort shows.
\<close>

definition addMetric :: "int \<Rightarrow> string \<Rightarrow> (string \<times> string) list \<Rightarrow> int \<Rightarrow> int \<Rightarrow> TimeSeries" where
  "addMetric ts name labels val timestamp =
     \<lparr>se_labels = sort_key fst ((''__name__'', name) # labels), se_value = as_double val,
      se_timestamp = (if timestamp = 0 then ts else timestamp)\<rparr>"

text \<open>A Go map literal, and the tags put into it one by one.\<close>

definition label_map :: "labelPair list \<Rightarrow> (string \<times> string) list" where
  "label_map pairs = fold (\<lambda>(k, v). AList.update k v) pairs []"

definition collect_series :: "time \<Rightarrow> int \<Rightarrow> Agent list \<Rightarrow> AgentConfigStatus list \<Rightarrow> TimeSeries list" where
  "collect_series now onlineWindow agents statuses =
     (let f = count_agents now onlineWindow agents;
          ts = unix_milli now
      in [addMetric ts ''configserver_agents_total'' [] (int (fl_total f)) 0,
          addMetric ts ''configserver_agents_online_total'' [] (int (fl_online f)) 0] @
         map (\<lambda>status. addMetric ts ''configserver_agents_by_status'' (label_map [(''status'', status)])
                (int (counter (fl_status f) status)) 0) (sortedKeys (fl_status f)) @
         map (\<lambda>typ. addMetric ts ''configserver_agents_by_type'' (label_map [(''agent_type'', typ)])
                (int (counter (fl_type f) typ)) 0) (sortedKeys (fl_type f)) @
         concat (map (\<lambda>a.
           if a_last_heartbeat a = time_zero then []
           else
             let lbls = label_map (agent_labels a)
             in [addMetric ts ''agent_hearbeat'' lbls (agentOnlineValue now (a_last_heartbeat a) onlineWindow) 0,
                 addMetric ts ''agent_last_heartbeat_timestamp_seconds'' lbls (unix_sec (a_last_heartbeat a)) 0])
           agents) @
         concat (map (\<lambda>s.
           if st_updated s = time_zero then []
           else
             let lbls = label_map (config_labels (map_of (fl_by_id f) (st_instance s)) s)
             in [addMetric ts ''agent_config'' lbls (st_status s) 0,
                 addMetric ts ''agent_config_updated_timestamp_seconds'' lbls (unix_sec (st_updated s)) 0])
           statuses))"

definition CollectProto ::
  "('d, 'f, 'r) services \<Rightarrow> world \<Rightarrow> int \<Rightarrow> ('d, 'f, 'r) mgr \<Rightarrow> (err + TimeSeries list) \<times> ('d, 'f, 'r) mgr" where
  "CollectProto X w onlineWindow m =
     (case read_fleet X w m of
        (Inl e, m1) \<Rightarrow> (Inl e, m1)
      | (Inr (agents, statuses), m1) \<Rightarrow> (Inr (collect_series (w_now w) onlineWindow agents statuses), m1))"

subsection \<open>Serving and pushing\<close>

definition NewCollector :: "int \<Rightarrow> int" where
  "NewCollector onlineWindow = (if onlineWindow \<le> 0 then 5 * minute else onlineWindow)"

text \<open>The reply to \<open>GET /metrics\<close>: status, content type and body.\<close>

definition MetricsHandler ::
  "('d, 'f, 'r) services \<Rightarrow> world \<Rightarrow> int \<Rightarrow> ('d, 'f, 'r) mgr \<Rightarrow> (nat \<times> string \<times> bytes) \<times> ('d, 'f, 'r) mgr" where
  "MetricsHandler X w onlineWindow m =
     (case Collect_text X w onlineWindow m of
        (Inl e, m1) \<Rightarrow>
          ((500, ''text/plain; charset=utf-8'', ''collect metrics: '' @ w_error_text w e @ [newline_char]), m1)
      | (Inr text, m1) \<Rightarrow> ((200, ''text/plain; version=0.0.4; charset=utf-8'', text), m1))"

text \<open>
  \<open>post\<close> marshals, compresses and posts the series, with Basic Auth if there are credentials;
  it returns the status and the body of the reply. \<open>'h\<close> is the state of the remote end.
\<close>

type_synonym 'h post = "string \<Rightarrow> (string \<times> string) option \<Rightarrow> TimeSeries list \<Rightarrow> 'h \<Rightarrow> (err + nat \<times> string) \<times> 'h"

definition push ::
  "('d, 'f, 'r) services \<Rightarrow> world \<Rightarrow> int \<Rightarrow> 'h post \<Rightarrow> string \<Rightarrow> string \<Rightarrow> string \<Rightarrow>
   ('d, 'f, 'r) mgr \<times> 'h \<Rightarrow> err option \<times> ('d, 'f, 'r) mgr \<times> 'h" where
  "push X w onlineWindow post url username password =
     (\<lambda>(m, h).
       case CollectProto X w onlineWindow m of
         (Inl e, m1) \<Rightarrow> (Some (ErrWrap ''collect proto'' e), m1, h)
       | (Inr series, m1) \<Rightarrow>
           if series = [] then (None, m1, h)
           else
             case post url (if username \<noteq> [] \<or> password \<noteq> [] then Some (username, password) else None) series h of
               (Inl e, h1) \<Rightarrow> (Some e, m1, h1)
             | (Inr (status, body), h1) \<Rightarrow>
                 (if status \<ge> 300
                  then Some (ErrMsg (''remote returned HTTP '' @ show_nat status @ '': '' @ body))
                  else None, m1, h1))"

definition pushLockName :: string where "pushLockName = ''configserver:metrics:push_lock''"

definition metricsPushLockReleaseScript :: "string \<Rightarrow> blob option \<Rightarrow> script_act" where
  "metricsPushLockReleaseScript token cur = (if cur = Some (JRaw token) then Drop else Keep)"

definition pushWithLease ::
  "('d, 'f, 'r) services \<Rightarrow> world \<Rightarrow> int \<Rightarrow> 'h post \<Rightarrow> string \<Rightarrow> string \<Rightarrow> string \<Rightarrow> int \<Rightarrow>
   ('d, 'f, 'r) mgr \<times> 'h \<Rightarrow> err option \<times> ('d, 'f, 'r) mgr \<times> 'h" where
  "pushWithLease X w onlineWindow post url username password interval =
     (\<lambda>(m, h).
       if m_rdb m = None then push X w onlineWindow post url username password (m, h)
       else
         let token = hex_encode (w_random w 16);
             ttl = (if wrap64 (interval * 2) < minute then minute else wrap64 (interval * 2))
         in case on_redis X (RSetNX pushLockName (JRaw token) ttl) m of
              (Inr (ReplyBool True), m1) \<Rightarrow>
                (case push X w onlineWindow post url username password (m1, h) of
                   (e, m2, h2) \<Rightarrow>
                     (e, redis_do X (REval pushLockName (metricsPushLockReleaseScript token)) m2, h2))
            | (Inl e, m1) \<Rightarrow> (Some (ErrWrap ''acquire metrics push lock'' e), m1, h)
            | (_, m1) \<Rightarrow> (None, m1, h))"

end
