(* ===== verification/Background.thy ===== *)
theory Background
  imports Reconcile_Laws Metrics_Collector "HOL-Library.Stream"
begin

section \<open>The background jobs (StartGC, StartReconciler, renewReconcileLock, StartPush)\<close>

text \<open>
  Each job is a goroutine that waits in a \<open>select\<close> for its context to end or for the next tick
  (for the subscription: for the next message). What it wakes up for is a stream of events; the
  loop may run for ever, so its result is an option: \<open>None\<close> is a loop that never returns. The
  tick of a job gets what it reads of the outside world: the clock, random bytes.
\<close>

datatype 'e wakeup = Done | Tick 'e

partial_function (option) ticker_loop ::
  "('e \<Rightarrow> 's \<Rightarrow> bool \<times> 's) \<Rightarrow> 'e wakeup stream \<Rightarrow> 's \<Rightarrow> 's option" where
  "ticker_loop body es s =
     (case shd es of
        Done \<Rightarrow> Some s
      | Tick e \<Rightarrow>
          (case body e s of (quit, s1) \<Rightarrow> if quit then Some s1 else ticker_loop body (stl es) s1))"

subsection \<open>The jobs\<close>

definition gc_loop ::
  "('d, 'f, 'r) services \<Rightarrow> time wakeup stream \<Rightarrow> ('d, 'f, 'r) mgr \<Rightarrow> ('d, 'f, 'r) mgr option" where
  "gc_loop X es m = ticker_loop (\<lambda>now m. (False, evictStaleAgents X now m)) es m"

definition StartReconciler ::
  "('d, 'f, 'r) services \<Rightarrow> (string \<times> time) wakeup stream \<Rightarrow> ('d, 'f, 'r) mgr \<Rightarrow> ('d, 'f, 'r) mgr option" where
  "StartReconciler X es m = ticker_loop (\<lambda>(token, now) m. (False, reconcile_tick X token now m)) es m"

text \<open>The goroutines that \<open>StartGC\<close> starts.\<close>

datatype goroutine = EvictLoop | ReconcileLoop

definition StartGC :: "('d, 'f, 'r) mgr \<Rightarrow> goroutine list" where
  "StartGC m = EvictLoop # (case m_rdb m of None \<Rightarrow> [] | Some _ \<Rightarrow> [ReconcileLoop])"

text \<open>The renewal of the lock: the flag says whether it has cancelled the job.\<close>

definition renewReconcileLock ::
  "('d, 'f, 'r) services \<Rightarrow> string \<Rightarrow> unit wakeup stream \<Rightarrow> ('d, 'f, 'r) mgr \<Rightarrow> (bool \<times> ('d, 'f, 'r) mgr) option" where
  "renewReconcileLock X token es m =
     ticker_loop
       (\<lambda>_ (_, m). case renew_lock X token m of (held, m1) \<Rightarrow> (\<not> held, (\<not> held, m1)))
       es (False, m)"

text \<open>The subscription has no context to end it.\<close>

definition subscribeInvalidations ::
  "('d, 'f, 'r) services \<Rightarrow> (err + string) stream \<Rightarrow> ('d, 'f, 'r) mgr \<Rightarrow> ('d, 'f, 'r) mgr option" where
  "subscribeInvalidations X msgs m =
     ticker_loop (\<lambda>msg m. (False, subscribeInvalidations_step X msg m)) (smap Tick msgs) m"

definition StartPush ::
  "('d, 'f, 'r) services \<Rightarrow> int \<Rightarrow> 'h post \<Rightarrow> string \<Rightarrow> string \<Rightarrow> string \<Rightarrow> int \<Rightarrow> world wakeup stream \<Rightarrow>
   ('d, 'f, 'r) mgr \<times> 'h \<Rightarrow> (('d, 'f, 'r) mgr \<times> 'h) option" where
  "StartPush X onlineWindow post pushURL username password interval es s =
     (if pushURL = [] then Some s
      else ticker_loop
        (\<lambda>w s. case pushWithLease X w onlineWindow post pushURL username password interval s of
           (_, m, h) \<Rightarrow> (False, (m, h))) es s)"

subsection \<open>When a loop returns\<close>

fun run_ticks :: "('e \<Rightarrow> 's \<Rightarrow> bool \<times> 's) \<Rightarrow> 'e list \<Rightarrow> 's \<Rightarrow> bool \<times> 's" where
  "run_ticks body [] s = (False, s)"
| "run_ticks body (e # es) s =
     (case body e s of (quit, s1) \<Rightarrow> if quit then (True, s1) else run_ticks body es s1)"

lemma ticker_loop_done: "run_ticks body xs s = (False, s') \<Longrightarrow> ticker_loop body (map Tick xs @- Done ## es) s = Some s'"
proof (induction xs arbitrary: s)
  case Nil
  then show ?case by (simp add: ticker_loop.simps)
next
  case (Cons x xs)
  then show ?case
    by (subst ticker_loop.simps) (auto split: prod.splits if_splits)
qed

lemma ticker_loop_stop: "run_ticks body xs s = (True, s') \<Longrightarrow> ticker_loop body (map Tick xs @- es) s = Some s'"
proof (induction xs arbitrary: s)
  case (Cons x xs)
  then show ?case
    by (subst ticker_loop.simps) (auto split: prod.splits if_splits)
qed simp

lemma ticker_loop_result:
  assumes "ticker_loop body es s = Some s'"
  shows "(\<exists>xs es'. es = map Tick xs @- Done ## es' \<and> run_ticks body xs s = (False, s')) \<or>
    (\<exists>xs es'. es = map Tick xs @- es' \<and> run_ticks body xs s = (True, s'))"
proof (rule ticker_loop.raw_induct [OF _ assms], goal_cases)
  case step: (1 loop body es s s')
  show ?case
  proof (cases "shd es")
    case Done
    with step(2) have "s' = s" by simp
    moreover have "es = map Tick [] @- Done ## stl es" using Done by (simp add: stream.expand)
    ultimately show ?thesis by (metis run_ticks.simps(1))
  next
    case (Tick e)
    then have es: "es = Tick e ## stl es" by (simp add: stream.expand)
    obtain quit s1 where b: "body e s = (quit, s1)" by fastforce
    show ?thesis
    proof (cases quit)
      case True
      with step(2) Tick b have "s' = s1" by simp
      moreover have "es = map Tick [e] @- stl es" using es by simp
      moreover have "run_ticks body [e] s = (True, s1)" using b True by simp
      ultimately show ?thesis by metis
    next
      case False
      with step(2) Tick b have "loop body (stl es) s1 = Some s'" by simp
      from step(1) [OF this] consider
        xs es' where "stl es = map Tick xs @- Done ## es'" "run_ticks body xs s1 = (False, s')"
      | xs es' where "stl es = map Tick xs @- es'" "run_ticks body xs s1 = (True, s')" by blast
      then show ?thesis
      proof cases
        case (1 xs es')
        then have "es = map Tick (e # xs) @- Done ## es'" "run_ticks body (e # xs) s = (False, s')"
          using es b False by auto
        then show ?thesis by blast
      next
        case (2 xs es')
        then have "es = map Tick (e # xs) @- es'" "run_ticks body (e # xs) s = (True, s')"
          using es b False by auto
        then show ?thesis by blast
      qed
    qed
  qed
qed

text \<open>A job that never stops by itself returns exactly when it is told to, after its ticks.\<close>

lemma run_ticks_steady:
  "(\<And>e s. body e s = (False, f e s)) \<Longrightarrow> run_ticks body xs s = (False, fold f xs s)"
  by (induction xs arbitrary: s) simp_all

lemma steady_loop:
  assumes "\<And>e s. body e s = (False, f e s)"
  shows "ticker_loop body es s = Some s' \<longleftrightarrow> (\<exists>xs es'. es = map Tick xs @- Done ## es' \<and> s' = fold f xs s)"
proof
  assume "ticker_loop body es s = Some s'"
  from ticker_loop_result [OF this] run_ticks_steady [of body f, OF assms]
  show "\<exists>xs es'. es = map Tick xs @- Done ## es' \<and> s' = fold f xs s" by auto
next
  assume "\<exists>xs es'. es = map Tick xs @- Done ## es' \<and> s' = fold f xs s"
  with ticker_loop_done run_ticks_steady [of body f, OF assms] show "ticker_loop body es s = Some s'" by metis
qed

lemma ticks_never_done: "smap Tick xs \<noteq> map Tick ys @- Done ## es"
proof
  assume "smap Tick xs = map Tick ys @- Done ## es"
  then have "Done \<in> sset (smap Tick xs)" by simp
  then show False unfolding stream.set_map by auto
qed

end
