(* ===== verification/Reconcile_Lock.thy ===== *)
theory Reconcile_Lock
  imports Background
begin

section \<open>The reconciler's lock among the replicas\<close>

text \<open>
  Several replicas share one Redis. Each runs the reconciler: it takes the lock under a fresh
  token, works, renews the lock while it works, and releases it; or it loses the lock, or crashes.
  \<open>lock_step\<close> interleaves these with everything else that uses Redis and with the passing of
  time; every step of the protocol is the code's own definition, on a manager connected to the
  shared Redis. \<open>Running token age\<close> is a job that believes to hold the lock, renewed \<open>age\<close> ago;
  \<open>Stopping token\<close> one that was cancelled. Redis may fail at any command.
\<close>

datatype job =
    Idle
  | Running string int
  | Stopping string

type_synonym ('i, 'r) replicas = "'r \<times> ('i \<Rightarrow> job)"

fun token_of :: "job \<Rightarrow> string option" where
  "token_of Idle = None"
| "token_of (Running tok age) = Some tok"
| "token_of (Stopping tok) = Some tok"

fun older :: "int \<Rightarrow> job \<Rightarrow> job" where
  "older d (Running tok age) = Running tok (age + d)"
| "older d j = j"

definition linked :: "'r \<Rightarrow> ('d, 'f, 'r) mgr \<Rightarrow> ('d, 'f, 'r) mgr \<Rightarrow> 'r \<Rightarrow> bool" where
  "linked r m m' r' \<longleftrightarrow> m_rdb m = Some r \<and> m_rdb m' = Some r'"

definition lock_at :: "('r \<Rightarrow> key_space) \<Rightarrow> 'r \<Rightarrow> (blob \<times> int) option" where
  "lock_at keys r = keys r reconcileLockName"

text \<open>
  The step takes time \<open>d\<close> only if it is the passing of time. A running job is renewed in time: its
  ticker fires every third of the lock's life, so the lock never gets as old as its life while the
  job runs; that is the one assumption about scheduling.
\<close>

inductive lock_step ::
  "('d, 'f, 'r) services \<Rightarrow> (int \<Rightarrow> 'r \<Rightarrow> 'r) \<Rightarrow> ('i, 'r) replicas \<Rightarrow> int \<Rightarrow> ('i, 'r) replicas \<Rightarrow> bool"
  for X :: "('d, 'f, 'r) services" and wait :: "int \<Rightarrow> 'r \<Rightarrow> 'r"
where
  take: "js i = Idle \<Longrightarrow> (\<And>j. token_of (js j) \<noteq> Some tok) \<Longrightarrow>
    acquireReconcileLock X tok m = (acquired, m') \<Longrightarrow> linked r m m' r' \<Longrightarrow>
    lock_step X wait (r, js) 0 (r', if acquired then js(i := Running tok 0) else js)"
| renew: "js i = Running tok age \<Longrightarrow> renew_lock X tok m = (held, m') \<Longrightarrow> linked r m m' r' \<Longrightarrow>
    lock_step X wait (r, js) 0 (r', js(i := if held then Running tok 0 else Stopping tok))"
| work: "js i = Running tok age \<Longrightarrow> reconcileCache X now m = m' \<Longrightarrow> linked r m m' r' \<Longrightarrow>
    lock_step X wait (r, js) 0 (r', js)"
| release: "token_of (js i) = Some tok \<Longrightarrow> release_lock X tok m = m' \<Longrightarrow> linked r m m' r' \<Longrightarrow>
    lock_step X wait (r, js) 0 (r', js(i := Idle))"
| crash: "lock_step X wait (r, js) 0 (r, js(i := Idle))"
| other: "redis X c r = (x, r') \<Longrightarrow> reconcileLockName \<notin> cmd_keys c \<Longrightarrow> lock_step X wait (r, js) 0 (r', js)"
| pass: "0 \<le> d \<Longrightarrow> (\<And>i tok age. js i = Running tok age \<Longrightarrow> age + d < reconcileLockTTL) \<Longrightarrow>
    lock_step X wait (r, js) d (wait d r, older d \<circ> js)"

inductive lock_run ::
  "('d, 'f, 'r) services \<Rightarrow> (int \<Rightarrow> 'r \<Rightarrow> 'r) \<Rightarrow> ('i, 'r) replicas \<Rightarrow> ('i, 'r) replicas \<Rightarrow> bool"
  for X :: "('d, 'f, 'r) services" and wait :: "int \<Rightarrow> 'r \<Rightarrow> 'r"
where
  start: "lock_run X wait s s"
| step: "lock_run X wait s s1 \<Longrightarrow> lock_step X wait s1 d s2 \<Longrightarrow> lock_run X wait s s2"

text \<open>
  A stretch of time in which no job runs and no request sets the lock (which a request that fails
  on the way back may do).
\<close>

definition nobody_runs :: "('i, 'r) replicas \<Rightarrow> bool" where
  "nobody_runs s \<longleftrightarrow> (\<forall>i tok age. snd s i \<noteq> Running tok age)"

inductive idle_run ::
  "('d, 'f, 'r) services \<Rightarrow> ('r \<Rightarrow> key_space) \<Rightarrow> (int \<Rightarrow> 'r \<Rightarrow> 'r) \<Rightarrow> ('i, 'r) replicas \<Rightarrow> int \<Rightarrow>
   ('i, 'r) replicas \<Rightarrow> bool"
  for X :: "('d, 'f, 'r) services" and keys :: "'r \<Rightarrow> key_space" and wait :: "int \<Rightarrow> 'r \<Rightarrow> 'r"
where
  idle_start: "nobody_runs s \<Longrightarrow> idle_run X keys wait s 0 s"
| idle_step: "idle_run X keys wait s elapsed s1 \<Longrightarrow> lock_step X wait s1 d s2 \<Longrightarrow> nobody_runs s2 \<Longrightarrow>
    (lock_at keys (fst s1) = None \<longrightarrow> lock_at keys (fst s2) = None) \<Longrightarrow> idle_run X keys wait s (elapsed + d) s2"

definition lock_bounded :: "('r \<Rightarrow> key_space) \<Rightarrow> int \<Rightarrow> 'r \<Rightarrow> bool" where
  "lock_bounded keys most r \<longleftrightarrow> (\<forall>v ttl. lock_at keys r = Some (v, ttl) \<longrightarrow> 0 < ttl \<and> ttl \<le> most)"

subsection \<open>What each command does to the lock\<close>

lemma ttl_exact: "reconcileLockTTL div 1000000 * 1000000 = reconcileLockTTL"
  by (simp add: reconcileLockTTL_def second_def)

lemma ttl_positive: "0 < reconcileLockTTL"
  by (simp add: reconcileLockTTL_def second_def)

context cluster_redis
begin

abbreviation lock :: "'r \<Rightarrow> (blob \<times> int) option" where "lock \<equiv> lock_at keys"

lemma on_linked:
  assumes "on_redis X c m = (x, m')" and "linked r m m' r'"
  shows "redis X c r = (x, r')"
  using assms by (auto simp: on_redis_def linked_def split: prod.splits)

lemma acquire_result:
  assumes "acquireReconcileLock X tok m = (acquired, m')" and "linked r m m' r'"
  shows "if acquired then lock r = None \<and> lock r' = Some (JRaw tok, reconcileLockTTL)
    else lock r' = lock r \<or> (lock r = None \<and> lock r' = Some (JRaw tok, reconcileLockTTL) \<and>
      (\<exists>e. fst (redis X (RSetNX reconcileLockName (JRaw tok) reconcileLockTTL) r) = Inl e))"
proof -
  obtain x m1 where o: "on_redis X (RSetNX reconcileLockName (JRaw tok) reconcileLockTTL) m = (x, m1)" by fastforce
  then have "m1 = m'" using assms(1)
    by (auto simp: acquireReconcileLock_def split: sum.splits redis_reply.splits)
  with o assms(2) have r: "redis X (RSetNX reconcileLockName (JRaw tok) reconcileLockTTL) r = (x, r')"
    by (auto intro: on_linked)
  from setnx [OF r] assms(1) o show ?thesis
    by (auto simp: acquireReconcileLock_def lock_at_def r split: sum.splits if_splits)
qed

lemma script_result:
  assumes "on_redis X (REval reconcileLockName f) m = (x, m')" and "linked r m m' r'"
  shows "lock r' = lock r \<or> lock r' = apply_act (f (map_option fst (lock r))) (lock r)"
    and "x = Inr y \<Longrightarrow> y = ReplyInt (act_reply (f (map_option fst (lock r))) (lock r)) \<and>
      lock r' = apply_act (f (map_option fst (lock r))) (lock r)"
  using eval [OF on_linked [OF assms]]
  by (auto simp: lock_at_def run_script_def script_reply_def split: sum.splits)

lemma renew_result:
  assumes "renew_lock X tok m = (held, m')" and "linked r m m' r'"
  shows "if held then (\<exists>ttl. lock r = Some (JRaw tok, ttl)) \<and> lock r' = Some (JRaw tok, reconcileLockTTL)
    else lock r' = lock r \<or> lock r' = Some (JRaw tok, reconcileLockTTL) \<and> (\<exists>ttl. lock r = Some (JRaw tok, ttl))"
proof -
  let ?f = "reconcileLockRenewScript tok (reconcileLockTTL div 1000000)"
  obtain x m1 where o: "on_redis X (REval reconcileLockName ?f) m = (x, m1)" by fastforce
  then have "m1 = m'" using assms(1)
    by (auto simp: renew_lock_def Let_def split: sum.splits redis_reply.splits)
  note S = script_result [OF o [unfolded this] assms(2)]
  have f: "apply_act (?f (map_option fst (lock r))) (lock r) =
      (if map_option fst (lock r) = Some (JRaw tok) then Some (JRaw tok, reconcileLockTTL) else lock r)"
    by (auto simp: reconcileLockRenewScript_def ttl_exact)
  have n: "act_reply (?f (map_option fst (lock r))) (lock r) = (if map_option fst (lock r) = Some (JRaw tok) then 1 else 0)"
    by (auto simp: reconcileLockRenewScript_def)
  show ?thesis
  proof (cases held)
    case True
    then obtain k where "x = Inr (ReplyInt k)" "k = 1"
      using assms(1) o by (auto simp: renew_lock_def Let_def split: sum.splits redis_reply.splits)
    with S(2) f n True show ?thesis by (auto split: if_splits)
  next
    case False
    with S(1) f show ?thesis by (auto split: if_splits)
  qed
qed

lemma release_result:
  assumes "release_lock X tok m = m'" and "linked r m m' r'"
  shows "lock r' = lock r \<or> (lock r' = None \<and> (\<exists>ttl. lock r = Some (JRaw tok, ttl)))"
proof -
  obtain x m1 where o: "on_redis X (REval reconcileLockName (reconcileLockReleaseScript tok)) m = (x, m1)" by fastforce
  then have "m1 = m'" using assms(1) by (simp add: release_lock_def redis_do_def)
  from script_result(1) [OF o [unfolded this] assms(2)] show ?thesis
    by (auto simp: reconcileLockReleaseScript_def split: if_splits)
qed

lemma work_result: "reconcileCache X now m = m' \<Longrightarrow> linked r m m' r' \<Longrightarrow> lock r' = lock r"
  using reconcileCache_lock [of now m] by (auto simp: keyspace_def linked_def lock_at_def)

lemma other_result: "redis X c r = (x, r') \<Longrightarrow> reconcileLockName \<notin> cmd_keys c \<Longrightarrow> lock r' = lock r"
  using frame by (simp add: lock_at_def)

lemma pass_result: "0 \<le> d \<Longrightarrow> lock (wait d r) = aged d (lock r)"
  by (simp add: lock_at_def waited)

subsection \<open>The invariant\<close>

text \<open>
  Live jobs have different tokens, and a running job holds the lock: it is there under the job's
  token, with at least the time left that a renewal \<open>age\<close> ago gave it.
\<close>

definition lock_inv :: "('i, 'r) replicas \<Rightarrow> bool" where
  "lock_inv s \<longleftrightarrow>
     (\<forall>i j tok. token_of (snd s i) = Some tok \<longrightarrow> token_of (snd s j) = Some tok \<longrightarrow> i = j) \<and>
     (\<forall>i tok age. snd s i = Running tok age \<longrightarrow> 0 \<le> age \<and> age < reconcileLockTTL \<and>
        (\<exists>ttl. lock (fst s) = Some (JRaw tok, ttl) \<and> reconcileLockTTL - age \<le> ttl))"

lemma lock_invD:
  assumes "lock_inv (r, js)"
  shows "token_of (js i) = Some tok \<Longrightarrow> token_of (js j) = Some tok \<Longrightarrow> i = j"
    and "js i = Running tok age \<Longrightarrow> 0 \<le> age \<and> age < reconcileLockTTL \<and>
      (\<exists>ttl. lock r = Some (JRaw tok, ttl) \<and> reconcileLockTTL - age \<le> ttl)"
  using assms by (auto simp: lock_inv_def)

lemma lock_invI:
  assumes "\<And>i j tok. token_of (js i) = Some tok \<Longrightarrow> token_of (js j) = Some tok \<Longrightarrow> i = j"
    and "\<And>i tok age. js i = Running tok age \<Longrightarrow> 0 \<le> age \<and> age < reconcileLockTTL \<and>
      (\<exists>ttl. lock r = Some (JRaw tok, ttl) \<and> reconcileLockTTL - age \<le> ttl)"
  shows "lock_inv (r, js)"
  using assms by (simp add: lock_inv_def)

lemma lock_inv_keep:
  assumes "lock_inv (r, js)" and "lock r' = lock r" and "\<And>j. j \<noteq> i \<Longrightarrow> js' j = js j"
    and "js' i = js i \<or> js' i = Idle \<or> (\<exists>tok. token_of (js i) = Some tok \<and> js' i = Stopping tok)"
  shows "lock_inv (r', js')"
proof (rule lock_invI)
  have tok: "token_of (js' k) = Some t \<Longrightarrow> token_of (js k) = Some t" for k t
    using assms(3,4) by (cases "k = i") auto
  fix k j t assume "token_of (js' k) = Some t" "token_of (js' j) = Some t"
  with tok lock_invD(1) [OF assms(1)] show "k = j" by blast
next
  fix k t age assume "js' k = Running t age"
  then have "js k = Running t age" using assms(3,4) by (cases "k = i") auto
  with lock_invD(2) [OF assms(1)] assms(2) show "0 \<le> age \<and> age < reconcileLockTTL \<and>
      (\<exists>ttl. lock r' = Some (JRaw t, ttl) \<and> reconcileLockTTL - age \<le> ttl)" by simp
qed

lemma lock_inv_held:
  assumes "lock_inv (r, js)" and "lock r' = Some (JRaw tok, reconcileLockTTL)"
    and "\<And>j t age. js j = Running t age \<Longrightarrow> j = i" and "\<And>j. j \<noteq> i \<Longrightarrow> token_of (js j) \<noteq> Some tok"
    and "j' = Running tok 0 \<or> j' = Stopping tok"
  shows "lock_inv (r', js(i := j'))"
proof (rule lock_invI)
  fix k j t assume "token_of ((js(i := j')) k) = Some t" "token_of ((js(i := j')) j) = Some t"
  with assms(4,5) lock_invD(1) [OF assms(1)] show "k = j" by (auto split: if_splits)
next
  fix k t age assume k: "(js(i := j')) k = Running t age"
  then have "k = i" using assms(3) by (auto split: if_splits)
  with k assms(2,5) ttl_positive show "0 \<le> age \<and> age < reconcileLockTTL \<and>
      (\<exists>ttl. lock r' = Some (JRaw t, ttl) \<and> reconcileLockTTL - age \<le> ttl)" by auto
qed

lemma lock_step_inv:
  assumes "lock_step X wait s d s'" and "lock_inv s"
  shows "lock_inv s'"
  using assms
proof (induction rule: lock_step.induct)
  case (take js i tok m acquired m' r r')
  note A = acquire_result [OF take(3,4)]
  show ?case
  proof (cases "lock r' = lock r")
    case True
    with A have "\<not> acquired" by auto
    with lock_inv_keep [OF take(5) True, of i js] show ?thesis by simp
  next
    case False
    with A have free: "lock r = None" "lock r' = Some (JRaw tok, reconcileLockTTL)" by (auto split: if_splits)
    have none: "js j \<noteq> Running t age" for j t age using lock_invD(2) [OF take(5), of j t age] free(1) by auto
    show ?thesis
    proof (cases acquired)
      case True
      with lock_inv_held [OF take(5) free(2), of i "Running tok 0"] none take(2) show ?thesis by simp
    next
      case False
      then show ?thesis using none lock_invD(1) [OF take(5)] by (auto intro!: lock_invI)
    qed
  qed
next
  case (renew js i tok age m held m' r r')
  note R = renew_result [OF renew(2,3)]
  from lock_invD(2) [OF renew(4,1)] obtain ttl where mine: "lock r = Some (JRaw tok, ttl)" by blast
  have only: "j = i" if "js j = Running t age'" for j t age'
  proof -
    from lock_invD(2) [OF renew(4) that] mine have "t = tok" by auto
    with lock_invD(1) [OF renew(4), of j tok i] that renew(1) show ?thesis by simp
  qed
  have apart: "token_of (js j) \<noteq> Some tok" if "j \<noteq> i" for j
    using lock_invD(1) [OF renew(4), of j tok i] that renew(1) by auto
  show ?case
  proof (cases "lock r' = lock r \<and> \<not> held")
    case True
    with lock_inv_keep [OF renew(4), of r' i "js(i := Stopping tok)"] renew(1) show ?thesis by simp
  next
    case False
    with R have "lock r' = Some (JRaw tok, reconcileLockTTL)" by (auto split: if_splits)
    from lock_inv_held [OF renew(4) this only apart] show ?thesis by simp
  qed
next
  case (work js i tok age now m m' r r')
  with lock_inv_keep [OF work(4) work_result [OF work(2,3)], of i js] show ?case by simp
next
  case (release js i tok m m' r r')
  note R = release_result [OF release(2,3)]
  show ?case
  proof (cases "lock r' = lock r")
    case True
    with lock_inv_keep [OF release(4) True, of i "js(i := Idle)"] show ?thesis by simp
  next
    case False
    with R obtain ttl where mine: "lock r = Some (JRaw tok, ttl)" by blast
    have "j = i" if "js j = Running t age" for j t age
    proof -
      from lock_invD(2) [OF release(4) that] mine have "t = tok" by auto
      with lock_invD(1) [OF release(4), of j tok i] that release(1) show ?thesis by simp
    qed
    then show ?thesis using lock_invD(1) [OF release(4)] by (auto intro!: lock_invI split: if_splits)
  qed
next
  case (crash r js i)
  with lock_inv_keep [OF crash refl, of i "js(i := Idle)"] show ?case by simp
next
  case (other c r x r' js)
  with lock_inv_keep [OF other(3) other_result [OF other(1,2)], of undefined js] show ?case by simp
next
  case (pass d js r)
  have tok: "token_of ((older d \<circ> js) k) = token_of (js k)" for k by (cases "js k") auto
  show ?case
  proof (rule lock_invI)
    fix k j t assume "token_of ((older d \<circ> js) k) = Some t" "token_of ((older d \<circ> js) j) = Some t"
    with lock_invD(1) [OF pass(3)] show "k = j" unfolding tok by blast
  next
    fix k t age assume "(older d \<circ> js) k = Running t age"
    then obtain a where a: "js k = Running t a" "age = a + d" by (cases "js k") auto
    from lock_invD(2) [OF pass(3) a(1)] pass(1,2) a show "0 \<le> age \<and> age < reconcileLockTTL \<and>
        (\<exists>ttl. lock (wait d r) = Some (JRaw t, ttl) \<and> reconcileLockTTL - age \<le> ttl)"
      by (fastforce simp: pass_result aged_def)
  qed
qed

lemma lock_run_inv: "lock_run X wait s s' \<Longrightarrow> lock_inv s \<Longrightarrow> lock_inv s'"
  by (induction rule: lock_run.induct) (auto dest: lock_step_inv)

lemma lock_inv_start: "lock_inv (r, \<lambda>_. Idle)"
  by (simp add: lock_inv_def)

lemma lock_inv_exclusive:
  assumes "lock_inv (r, js)" and "js i = Running t a" and "js j = Running u b"
  shows "i = j"
proof -
  from lock_invD(2) [OF assms(1)] assms(2,3) have "t = u" by (metis Pair_inject blob.inject(7) option.inject)
  with lock_invD(1) [OF assms(1), of i t j] assms(2,3) show ?thesis by simp
qed

subsection \<open>The lock expires\<close>

lemma step_bounded:
  assumes "lock_step X wait s d s'" and "lock_bounded keys reconcileLockTTL (fst s)"
  shows "lock_bounded keys reconcileLockTTL (fst s')"
  using assms
proof (induction rule: lock_step.induct)
  case (take js i tok m acquired m' r r')
  from acquire_result [OF take(3,4)] have "lock r' = lock r \<or> lock r' = Some (JRaw tok, reconcileLockTTL)"
    by (auto split: if_splits)
  with take(5) ttl_positive show ?case by (auto simp: lock_bounded_def)
next
  case (renew js i tok age m held m' r r')
  from renew_result [OF renew(2,3)] have "lock r' = lock r \<or> lock r' = Some (JRaw tok, reconcileLockTTL)"
    by (auto split: if_splits)
  with renew(4) ttl_positive show ?case by (auto simp: lock_bounded_def)
next
  case (pass d js r)
  then show ?case by (auto simp: lock_bounded_def pass_result aged_def split: option.splits prod.splits if_splits)
next
  case (work js i tok age now m m' r r')
  from work_result [OF work(2,3)] work(4) show ?case by (simp add: lock_bounded_def)
next
  case (release js i tok m m' r r')
  from release_result [OF release(2,3)] release(4) show ?case by (auto simp: lock_bounded_def)
qed (auto simp: lock_bounded_def dest: other_result)

lemma run_bounded:
  "lock_run X wait s s' \<Longrightarrow> lock_bounded keys reconcileLockTTL (fst s) \<Longrightarrow> lock_bounded keys reconcileLockTTL (fst s')"
  by (induction rule: lock_run.induct) (auto dest: step_bounded)

lemma idle_bounded:
  assumes "idle_run X keys wait s elapsed s'" and "lock_bounded keys most (fst s)"
  shows "lock_bounded keys (most - elapsed) (fst s')"
  using assms
proof (induction rule: idle_run.induct)
  case (idle_step s elapsed s1 d s2)
  have idle: "nobody_runs s1" using idle_step(1) by (cases rule: idle_run.cases) auto
  have b: "lock_bounded keys (most - elapsed) (fst s1)" by (rule idle_step.IH [OF idle_step.prems])
  from idle_step(2) idle_step(3,4) idle b have "lock_bounded keys (most - elapsed - d) (fst s2)"
  proof (induction rule: lock_step.induct)
    case (take js i tok m acquired m' r r')
    have "\<not> acquired"
      using take(5) by (metis fun_upd_same nobody_runs_def snd_conv)
    with acquire_result [OF take(3,4)] take(6) have "lock r' = lock r" by auto
    with take(8) show ?case by (simp add: lock_bounded_def)
  next
    case (release js i tok m m' r r')
    from release_result [OF release(2,3)] release(7) show ?case by (auto simp: lock_bounded_def)
  next
    case (other c r x r' js)
    from other_result [OF other(1,2)] other(6) show ?case by (simp add: lock_bounded_def)
  next
    case (pass d js r)
    then show ?case by (auto simp: lock_bounded_def pass_result aged_def split: option.splits prod.splits if_splits)
  qed (auto simp: nobody_runs_def)
  then show ?case by (simp add: diff_diff_eq)
qed simp

lemma idle_lock_free:
  assumes "idle_run X keys wait s elapsed s'" and "lock_bounded keys reconcileLockTTL (fst s)"
    and "reconcileLockTTL \<le> elapsed"
  shows "lock (fst s') = None"
  using idle_bounded [OF assms(1,2)] assms(3) by (cases "lock (fst s')") (force simp: lock_bounded_def)+

lemma free_lock_taken:
  assumes "lock r = None" and "acquireReconcileLock X tok m = (acquired, m')" and "linked r m m' r'"
    and "fst (redis X (RSetNX reconcileLockName (JRaw tok) reconcileLockTTL) r) = Inr y"
  shows "acquired \<and> lock r' = Some (JRaw tok, reconcileLockTTL)"
proof -
  obtain x m1 where o: "on_redis X (RSetNX reconcileLockName (JRaw tok) reconcileLockTTL) m = (x, m1)" by fastforce
  then have "m1 = m'" using assms(2)
    by (auto simp: acquireReconcileLock_def split: sum.splits redis_reply.splits)
  with o assms(3) have r: "redis X (RSetNX reconcileLockName (JRaw tok) reconcileLockTTL) r = (x, r')"
    by (auto intro: on_linked)
  from setnx [OF r] assms(1,2,4) o show ?thesis
    by (auto simp: acquireReconcileLock_def lock_at_def r)
qed

end

end
