(* ===== verification/Background_Props.thy ===== *)
theory Background_Props
  imports Reconcile_Lock Manager_Props
begin

section \<open>The contract of the background jobs\<close>

text \<open>
  What the reconciler leaves in the shared cache, who may run it, what happens to the lock of a
  replica that died, and when the goroutines end. The witnesses run on a Redis in memory.
\<close>

definition cluster_services :: "(memdb, memcache, memredis) services" where
  "cluster_services = \<lparr>gorm = mem_gorm, fc_get = mem_get, fc_set = mem_set, fc_del = mem_del,
     fc_clear = mem_clear, redis = mem_redis\<rparr>"

lemma cluster_fields: "gorm cluster_services = mem_gorm" "redis cluster_services = mem_redis"
  by (simp_all add: cluster_services_def)

interpretation memcl: cluster_redis cluster_services map_of mem_wait
  unfolding cluster_redis_def cluster_fields by (rule memr.redis_api_axioms)

interpretation memrel: reliable_cluster cluster_services map_of mem_wait mem_tabs
  unfolding reliable_cluster_def cluster_fields
  using memcl.cluster_redis_axioms memr.reliable_redis_axioms mem.gorm_api_axioms by simp

subsection \<open>The shared cache\<close>

text \<open>
  C16. A run of the reconciler repairs the shared cache: if no command fails, every configuration
  entry that is left in Redis belongs to a configuration that exists in the database and has its
  version, and no entry was added; so an entry that went stale because an invalidation was lost
  does not outlive the next run.
\<close>

theorem reconcile_repairs_shared_cache:
  assumes "reliable_redis (redis X) keys wait" and "gorm_api (gorm X) tabs" and "lists_all X now m" and "reconcileCache X now m = m'"
  shows "keyspace keys m' \<subseteq>\<^sub>m keyspace keys m \<and>
    (\<forall>k b ttl. keyspace keys m' k = Some (b, ttl) \<longrightarrow> current_entry (tabs (m_db m')) k b)"
proof -
  have "reliable_cluster X keys wait tabs"
    using assms(1,2) reliable_redis.axioms(1) [OF assms(1)] by (simp add: reliable_cluster_def cluster_redis_def)
  from reliable_cluster.reconcile_repairs [OF this assms(3)] show ?thesis by (simp add: assms(4))
qed

text \<open>An outdated pipeline and one that is gone from the database leave the cache.\<close>

definition stale_row :: config_row where
  "stale_row = \<lparr>cf_name = ''p1'', cf_version = 3, cf_detail = ''old'', cf_created = 1, cf_updated = 1\<rparr>"

definition stale_redis :: memredis where
  "stale_redis = [(''cfg:pipeline:p1'', JConfig stale_row, 100), (''cfg:pipeline:zz'', JConfig stale_row, 100),
     (''other'', JRaw ''x'', 100)]"

definition cluster_start :: "(memdb, memcache, memredis) mgr" where
  "cluster_start = New sample_db [] [] (Some stale_redis) (300 * second) 0 False"

theorem reconcile_repairs_shared_cache_witness:
  "keyspace map_of (reconcileCache cluster_services 100 cluster_start) = [''other'' \<mapsto> (JRaw ''x'', 100)]"
proof -
  let ?m = "reconcileCache cluster_services 100 cluster_start"
  have lists: "lists_all cluster_services 100 cluster_start" by code_simp
  note R = reconcile_repairs_shared_cache [OF memrel.reliable_redis_axioms memrel.database.gorm_api_axioms lists refl]
  have "\<not> has_prefix ''other'' p" if "p \<in> set config_prefixes" for p
    using that by (auto simp: config_prefixes_def has_prefix_def prefixPipeline_def prefixInstance_def prefixOnetime_def)
  then have "keyspace map_of ?m ''other'' = keyspace map_of cluster_start ''other''"
    by (rule memcl.reconcileCache_frame)
  also have "\<dots> = Some (JRaw ''x'', 100)" by (simp add: keyspace_def cluster_start_def New_def stale_redis_def)
  finally have "keyspace map_of ?m ''other'' = Some (JRaw ''x'', 100)" .
  moreover have "keyspace map_of ?m k = None" if "k \<noteq> ''other''" for k
  proof (rule ccontr)
    assume "keyspace map_of ?m k \<noteq> None"
    then obtain b ttl where e: "keyspace map_of ?m k = Some (b, ttl)" by auto
    then have "keyspace map_of cluster_start k = Some (b, ttl)" by (rule map_leD [OF R [THEN conjunct1]])
    then have k: "b = JConfig stale_row" "k = prefixPipeline @ ''p1'' \<or> k = prefixPipeline @ ''zz''"
      using that by (auto simp: keyspace_def cluster_start_def New_def stale_redis_def prefixPipeline_def split: if_splits)
    have rows: "map_option cf_version (pipeline_at (mem_tabs (m_db ?m)) ''p1'') = Some 7"
      "pipeline_at (mem_tabs (m_db ?m)) ''zz'' = None" by code_simp+
    from R e have "current_entry (mem_tabs (m_db ?m)) k b" by blast
    with k rows show False by (auto simp: current_entry_def stale_row_def)
  qed
  ultimately show ?thesis by (auto simp: fun_eq_iff)
qed

subsection \<open>The lock\<close>

text \<open>
  C10. At most one replica reconciles: however takes, renewals, releases, crashes, failures of Redis
  and other traffic interleave, two replicas never run the reconciler at the same time, as long as
  a running job's renewal is never as late as the life of the lock.
\<close>

theorem one_reconciler:
  assumes "redis_api (redis X) keys wait" and "lock_run X wait (r0, \<lambda>_. Idle) (r, js)"
    and "js i = Running t a" and "js j = Running u b"
  shows "i = j"
proof -
  have C: "cluster_redis X keys wait" using assms(1) by (simp add: cluster_redis_def)
  from cluster_redis.lock_run_inv [OF C assms(2) cluster_redis.lock_inv_start [OF C]]
  have "cluster_redis.lock_inv keys (r, js)" .
  from cluster_redis.lock_inv_exclusive [OF C this assms(3,4)] show ?thesis .
qed

definition idle_mgr :: "memredis \<Rightarrow> (memdb, memcache, memredis) mgr" where
  "idle_mgr r = New sample_db [] [] (Some r) (300 * second) 0 False"

definition locked :: memredis where
  "locked = [(reconcileLockName, JRaw ''t1'', reconcileLockTTL)]"

lemma first_takes:
  "acquireReconcileLock cluster_services ''t1'' (idle_mgr []) = (True, idle_mgr locked)"
  by (simp add: acquireReconcileLock_def on_redis_def idle_mgr_def New_def cluster_fields mem_put_def locked_def)

lemma second_fails:
  "acquireReconcileLock cluster_services ''t2'' (idle_mgr locked) = (False, idle_mgr locked)"
  by (simp add: acquireReconcileLock_def on_redis_def idle_mgr_def New_def cluster_fields locked_def)

lemma linked_idle: "linked r (idle_mgr r) (idle_mgr r') r'"
  by (simp add: linked_def idle_mgr_def New_def)

text \<open>Replica 0 takes the lock; replica 1 tries and does not get it.\<close>

definition sample_jobs :: "nat \<Rightarrow> job" where
  "sample_jobs = (\<lambda>_. Idle)(0 := Running ''t1'' 0)"

lemma sample_lock_run: "lock_run cluster_services mem_wait ([], \<lambda>_. Idle) (locked, sample_jobs)"
proof -
  have "lock_step cluster_services mem_wait ([], \<lambda>_. Idle) 0 (locked, sample_jobs)"
    using lock_step.take [OF _ _ first_takes linked_idle, of "\<lambda>_. Idle" "0 :: nat"] by (simp add: sample_jobs_def)
  moreover have "lock_step cluster_services mem_wait (locked, sample_jobs) 0 (locked, sample_jobs)"
    using lock_step.take [OF _ _ second_fails linked_idle, of sample_jobs "1 :: nat"] by (simp add: sample_jobs_def)
  ultimately show ?thesis by (metis lock_run.start lock_run.step)
qed

theorem one_reconciler_witness:
  "sample_jobs 0 = Running ''t1'' 0 \<and> sample_jobs 1 = Idle \<and>
   lock_run cluster_services mem_wait ([], \<lambda>_. Idle) (locked, sample_jobs)"
proof (intro conjI)
  show zero: "sample_jobs 0 = Running ''t1'' 0" by (simp add: sample_jobs_def)
  have "sample_jobs 1 \<noteq> Running t a" for t a
    using one_reconciler [OF memcl.redis_api_axioms sample_lock_run zero, of 1] by auto
  then show "sample_jobs 1 = Idle" by (simp add: sample_jobs_def)
qed (rule sample_lock_run)

text \<open>
  C19. A dead replica does not stop the reconciler for long: whatever happened before, once no job
  has run (and no lost reply has set the lock) for the life of the lock, ten minutes, the lock is
  free, and the next replica that tries, and whose request does not fail, gets it.
\<close>

theorem lock_of_the_dead_expires:
  assumes "redis_api (redis X) keys wait" and "lock_run X wait (r0, \<lambda>_. Idle) s"
    and "lock_bounded keys reconcileLockTTL r0"
    and "idle_run X keys wait s elapsed (r, js)" and "reconcileLockTTL \<le> elapsed"
    and "acquireReconcileLock X tok m = (acquired, m')" and "linked r m m' r'"
    and "fst (redis X (RSetNX reconcileLockName (JRaw tok) reconcileLockTTL) r) = Inr y"
  shows "acquired \<and> lock_at keys r' = Some (JRaw tok, reconcileLockTTL)"
proof -
  have C: "cluster_redis X keys wait" using assms(1) by (simp add: cluster_redis_def)
  have "lock_bounded keys reconcileLockTTL (fst s)"
    using cluster_redis.run_bounded [OF C assms(2)] assms(3) by simp
  from cluster_redis.idle_lock_free [OF C assms(4) this assms(5)] have "lock_at keys r = None" by simp
  from cluster_redis.free_lock_taken [OF C this assms(6-8)] show ?thesis .
qed

text \<open>Replica 0 crashes while it holds the lock; ten minutes later replica 1 takes it.\<close>

lemma expired: "mem_wait reconcileLockTTL locked = []"
  by (simp add: mem_wait_def locked_def aged_def mem_put_def)

theorem lock_of_the_dead_expires_witness:
  "fst (acquireReconcileLock cluster_services ''t2'' (idle_mgr (mem_wait reconcileLockTTL locked))) = True"
proof -
  let ?dead = "(locked, \<lambda>_ :: nat. Idle)"
  have "sample_jobs(0 := Idle) = (\<lambda>_. Idle)" by (auto simp: sample_jobs_def)
  with lock_step.crash [of cluster_services mem_wait locked sample_jobs 0]
  have "lock_step cluster_services mem_wait (locked, sample_jobs) 0 ?dead" by simp
  with sample_lock_run have run: "lock_run cluster_services mem_wait ([], \<lambda>_. Idle) ?dead"
    by (rule lock_run.step)
  have "lock_step cluster_services mem_wait ?dead reconcileLockTTL ([], older reconcileLockTTL \<circ> (\<lambda>_. Idle))"
    using lock_step.pass [of reconcileLockTTL "\<lambda>_ :: nat. Idle" cluster_services mem_wait locked] ttl_positive
    by (simp add: expired)
  moreover have "older reconcileLockTTL \<circ> (\<lambda>_ :: nat. Idle) = (\<lambda>_. Idle)" by (simp add: fun_eq_iff)
  ultimately have "idle_run cluster_services map_of mem_wait ?dead (0 + reconcileLockTTL) ([], \<lambda>_. Idle)"
    by (intro idle_run.idle_step [OF idle_run.idle_start]) (simp_all add: nobody_runs_def lock_at_def)
  then have idle: "idle_run cluster_services map_of mem_wait ?dead reconcileLockTTL ([], \<lambda>_. Idle)" by simp
  have bounded: "lock_bounded map_of reconcileLockTTL []" by (simp add: lock_bounded_def lock_at_def)
  obtain acquired m' where a: "acquireReconcileLock cluster_services ''t2'' (idle_mgr []) = (acquired, m')" by fastforce
  have "\<exists>r'. linked [] (idle_mgr []) m' r'"
    using a by (auto simp: acquireReconcileLock_def on_redis_def idle_mgr_def New_def linked_def cluster_fields)
  then obtain r' where l: "linked [] (idle_mgr []) m' r'" by blast
  have "fst (redis cluster_services (RSetNX reconcileLockName (JRaw ''t2'') reconcileLockTTL) []) = Inr (ReplyBool True)"
    by (simp add: cluster_fields)
  from lock_of_the_dead_expires [OF memcl.redis_api_axioms run bounded idle order_refl a l this]
  show ?thesis by (simp add: expired a)
qed

subsection \<open>When the goroutines end\<close>

text \<open>What the renewal has done after \<open>n\<close> ticks, or up to the renewal that failed.\<close>

fun renewals :: "('d, 'f, 'r) services \<Rightarrow> string \<Rightarrow> nat \<Rightarrow> ('d, 'f, 'r) mgr \<Rightarrow> bool \<times> ('d, 'f, 'r) mgr" where
  "renewals X token 0 m = (False, m)"
| "renewals X token (Suc n) m =
     (case renew_lock X token m of (held, m1) \<Rightarrow> if held then renewals X token n m1 else (True, m1))"

lemma run_renewals:
  "run_ticks (\<lambda>_ (_, m). case renew_lock X token m of (held, m1) \<Rightarrow> (\<not> held, (\<not> held, m1))) us (False, m) =
     (case renewals X token (length us) m of (cancelled, m') \<Rightarrow> (cancelled, (cancelled, m')))"
proof (induction us arbitrary: m)
  case (Cons u us)
  obtain held m1 where r: "renew_lock X token m = (held, m1)" by fastforce
  with Cons.IH [of m1] show ?case by simp
qed simp

lemma units: "map Tick us = replicate (length us) (Tick ())"
  by (induction us) simp_all

lemma renewal_result:
  "renewReconcileLock X token us m = Some (cancelled, m') \<longleftrightarrow>
     (\<exists>n us'. us = replicate n (Tick ()) @- (if cancelled then us' else Done ## us') \<and>
        renewals X token n m = (cancelled, m'))"
  (is "?returns \<longleftrightarrow> ?shape")
proof
  let ?b = "\<lambda>_ (_, m). case renew_lock X token m of (held, m1) \<Rightarrow> (\<not> held, (\<not> held, m1))"
  have run: "run_ticks ?b xs (False, m) = (quit, (cancelled, m')) \<Longrightarrow>
      quit = cancelled \<and> renewals X token (length xs) m = (cancelled, m')" for xs quit
    by (cases "renewals X token (length xs) m") (simp add: run_renewals)
  assume ?returns
  from ticker_loop_result [OF this [unfolded renewReconcileLock_def]] show ?shape
  proof (elim disjE exE conjE)
    fix xs us' assume us: "us = map Tick xs @- Done ## us'" and r: "run_ticks ?b xs (False, m) = (False, (cancelled, m'))"
    from run [OF r] show ?shape
      by (intro exI [of _ "length xs"] exI [of _ us']) (simp add: us units)
  next
    fix xs us' assume us: "us = map Tick xs @- us'" and r: "run_ticks ?b xs (False, m) = (True, (cancelled, m'))"
    from run [OF r] show ?shape
      by (intro exI [of _ "length xs"] exI [of _ us']) (simp add: us units)
  qed
next
  assume ?shape
  then obtain n us' where us: "us = replicate n (Tick ()) @- (if cancelled then us' else Done ## us')"
    and r: "renewals X token n m = (cancelled, m')" by blast
  let ?b = "\<lambda>_ (_, m). case renew_lock X token m of (held, m1) \<Rightarrow> (\<not> held, (\<not> held, m1))"
  have "run_ticks ?b (replicate n ()) (False, m) = (cancelled, (cancelled, m'))"
    unfolding run_renewals by (simp add: r)
  then show ?returns
    unfolding renewReconcileLock_def us
    using ticker_loop_done [of ?b "replicate n ()"] ticker_loop_stop [of ?b "replicate n ()"]
    by (cases cancelled) (simp_all add: map_replicate)
qed

text \<open>
  C20. The goroutines end when they are told to, and only then: eviction, reconciler and push return
  exactly if their context is cancelled, after the ticks before that, whatever these did; the
  renewal returns if its job has ended, or at the first renewal that fails, and only then has it
  cancelled the job; the subscription to invalidations never returns.
\<close>

theorem background_loops_return:
  "(gc_loop X es m = Some m' \<longleftrightarrow>
      (\<exists>xs es'. es = map Tick xs @- Done ## es' \<and> m' = fold (evictStaleAgents X) xs m)) \<and>
   (StartReconciler X ts m = Some m' \<longleftrightarrow>
      (\<exists>xs ts'. ts = map Tick xs @- Done ## ts' \<and> m' = fold (\<lambda>(token, now). reconcile_tick X token now) xs m)) \<and>
   (StartPush X window post url user pass interval ws (m, h) = Some s' \<longleftrightarrow>
      (if url = [] then s' = (m, h)
       else \<exists>xs ws'. ws = map Tick xs @- Done ## ws' \<and>
         s' = fold (\<lambda>w s. snd (pushWithLease X w window post url user pass interval s)) xs (m, h))) \<and>
   (renewReconcileLock X token us m = Some (cancelled, m') \<longleftrightarrow>
      (\<exists>n us'. us = replicate n (Tick ()) @- (if cancelled then us' else Done ## us') \<and>
         renewals X token n m = (cancelled, m'))) \<and>
   subscribeInvalidations X msgs m = None"
proof (intro conjI)
  show "gc_loop X es m = Some m' \<longleftrightarrow>
      (\<exists>xs es'. es = map Tick xs @- Done ## es' \<and> m' = fold (evictStaleAgents X) xs m)"
    unfolding gc_loop_def by (rule steady_loop) simp
  have "ticker_loop (\<lambda>(token, now) m. (False, reconcile_tick X token now m)) ts m = Some m' \<longleftrightarrow>
      (\<exists>xs ts'. ts = map Tick xs @- Done ## ts' \<and> m' = fold (\<lambda>e. case e of (token, now) \<Rightarrow> reconcile_tick X token now) xs m)"
    by (rule steady_loop) (simp split: prod.split)
  then show "StartReconciler X ts m = Some m' \<longleftrightarrow>
      (\<exists>xs ts'. ts = map Tick xs @- Done ## ts' \<and> m' = fold (\<lambda>(token, now). reconcile_tick X token now) xs m)"
    by (simp add: StartReconciler_def)
  have "ticker_loop (\<lambda>w s. case pushWithLease X w window post url user pass interval s of (_, m, h) \<Rightarrow> (False, (m, h)))
      ws (m, h) = Some s' \<longleftrightarrow> (\<exists>xs ws'. ws = map Tick xs @- Done ## ws' \<and>
         s' = fold (\<lambda>w s. snd (pushWithLease X w window post url user pass interval s)) xs (m, h))"
    by (rule steady_loop) (simp split: prod.split)
  then show "StartPush X window post url user pass interval ws (m, h) = Some s' \<longleftrightarrow>
      (if url = [] then s' = (m, h)
       else \<exists>xs ws'. ws = map Tick xs @- Done ## ws' \<and>
         s' = fold (\<lambda>w s. snd (pushWithLease X w window post url user pass interval s)) xs (m, h))"
    by (auto simp: StartPush_def)
  show "renewReconcileLock X token us m = Some (cancelled, m') \<longleftrightarrow>
      (\<exists>n us'. us = replicate n (Tick ()) @- (if cancelled then us' else Done ## us') \<and>
         renewals X token n m = (cancelled, m'))"
    by (rule renewal_result)
  have "subscribeInvalidations X msgs m \<noteq> Some y" for y
    unfolding subscribeInvalidations_def
    using steady_loop [of "\<lambda>msg m. (False, subscribeInvalidations_step X msg m)" "subscribeInvalidations_step X"
        "smap Tick msgs" m y, OF refl] ticks_never_done by metis
  then show "subscribeInvalidations X msgs m = None" by (cases "subscribeInvalidations X msgs m") auto
qed

end
