(* ===== verification/Admin_Auth.thy ===== *)
theory Admin_Auth
  imports Admin_Http
begin

section \<open>Authentication (internal/server/admin/auth.go, otp.go, reset.go, email.go)\<close>

text \<open>
  The middleware that guards the API and the handlers for logging in and out, passwords, the
  TOTP second factor, password resets by mail and email addresses. Each handler has its Go
  name with the suffix \<open>_h\<close>, takes the services \<open>X\<close>, the libraries \<open>w\<close> and the request.
  JSON objects made from Go maps list their keys in sorted order, as the encoder does.
\<close>

type_synonym ('d, 'f, 'r) handler = "hreq \<Rightarrow> ('d, 'f, 'r) adm \<Rightarrow> outcome \<times> ('d, 'f, 'r) adm"

subsection \<open>Permissions\<close>

definition ResourcePipelineConfigs :: string where "ResourcePipelineConfigs = ''pipeline_configs''"
definition ResourceInstanceConfigs :: string where "ResourceInstanceConfigs = ''instance_configs''"
definition ResourceOnetimeCommands :: string where "ResourceOnetimeCommands = ''onetime_commands''"
definition ResourceAgentGroups :: string where "ResourceAgentGroups = ''agent_groups''"
definition ResourceAgents :: string where "ResourceAgents = ''agents''"

definition routeToPermission :: "string \<Rightarrow> string \<Rightarrow> string \<times> string" where
  "routeToPermission method path =
     (let trimmed = trim_prefix path ''/api/v1/'';
          res = (if has_prefix trimmed ''pipeline-configs'' then ResourcePipelineConfigs
                 else if has_prefix trimmed ''instance-configs'' then ResourceInstanceConfigs
                 else if has_prefix trimmed ''onetime-commands'' then ResourceOnetimeCommands
                 else if has_prefix trimmed ''groups'' then ResourceAgentGroups
                 else if has_prefix trimmed ''agents'' then ResourceAgents
                 else []);
          act = (if method = ''GET'' \<or> method = ''HEAD'' then ''read''
                 else if method = ''POST'' then ''create''
                 else if method = ''PUT'' \<or> method = ''PATCH'' then ''update''
                 else if method = ''DELETE'' then ''delete''
                 else [])
      in if res = [] \<or> act = [] then ([], []) else (res, act))"

fun permitted :: "string \<Rightarrow> string \<Rightarrow> RolePermission list \<Rightarrow> bool" where
  "permitted resource action [] = False"
| "permitted resource action (p # perms) =
     (if rp_resource p = resource then
        (if action = ''create'' then rp_create p
         else if action = ''read'' then rp_read p
         else if action = ''update'' then rp_update p
         else if action = ''delete'' then rp_delete p
         else permitted resource action perms)
      else permitted resource action perms)"

definition hasPermission ::
  "('d, 'f, 'r) services \<Rightarrow> string \<Rightarrow> string \<Rightarrow> string \<Rightarrow> ('d, 'f, 'r) mgr \<Rightarrow> (err + bool) \<times> ('d, 'f, 'r) mgr" where
  "hasPermission X username resource action =
     bindr (GetUser_m X username) (\<lambda>user.
       case user of
         None \<Rightarrow> retr False
       | Some u \<Rightarrow>
           if us_role u = [] then retr False
           else bindr (GetRolePermissions_m X (us_role u)) (\<lambda>perms. retr (permitted resource action perms)))"

subsection \<open>The middleware\<close>

definition authPublicPaths :: "string list" where
  "authPublicPaths =
     [''/api/v1/auth/status'', ''/api/v1/auth/init'', ''/api/v1/auth/login'', ''/api/v1/auth/login/otp'',
      ''/api/v1/auth/logout'', ''/api/v1/auth/forgot-password'', ''/api/v1/auth/reset-password'']"

definition csrfSafeMethods :: "string list" where
  "csrfSafeMethods = [''GET'', ''HEAD'', ''OPTIONS'']"

definition csrf_ok :: "hreq \<Rightarrow> bool" where
  "csrf_ok req \<longleftrightarrow>
     rq_method req \<in> set csrfSafeMethods \<or>
     (rq_header req ''X-CSRF-Token'' \<noteq> [] \<and> rq_cookies req csrfCookieName = Some (rq_header req ''X-CSRF-Token''))"

definition unauthorized :: outcome where "unauthorized = writeJSON 401 401 ''unauthorized'' None"

text \<open>The checks for a protected path: the caller, or the reply that turns the request away.\<close>

definition authenticate ::
  "('d, 'f, 'r) services \<Rightarrow> world \<Rightarrow> hreq \<Rightarrow> (('d, 'f, 'r) adm, userCtx) step" where
  "authenticate X w req =
     bindh (present unauthorized (rq_cookies req sessionCookieName)) (\<lambda>token.
     bindh (act (sessions_get X w token)) (\<lambda>found.
     bindh (present unauthorized found) (\<lambda>username.
     bindh (stop_if (\<not> csrf_ok req) (writeJSON 403 403 ''CSRF validation failed'' None)) (\<lambda>_.
     bindh (need (\<lambda>_. unauthorized) (GetUser_m X username)) (\<lambda>row.
     bindh (present unauthorized row) (\<lambda>user.
     let uc = \<lparr>uc_name = username, uc_admin = us_is_admin user\<rparr>;
         route = routeToPermission (rq_method req) (rq_path req)
     in if uc_admin uc \<or> fst route = [] then reth uc
        else
          bindh (need (\<lambda>_. writeJSON 403 403 ''permission denied'' None)
                  (hasPermission X username (fst route) (snd route))) (\<lambda>allowed.
          bindh (stop_if (\<not> allowed) (writeJSON 403 403 ''permission denied'' None)) (\<lambda>_.
            reth uc))))))))"

definition protected_path :: "string \<Rightarrow> bool" where
  "protected_path path \<longleftrightarrow> has_prefix path ''/api/v1/'' \<and> path \<notin> set authPublicPaths"

definition requireAuth ::
  "('d, 'f, 'r) services \<Rightarrow> world \<Rightarrow> ('d, 'f, 'r) handler \<Rightarrow> ('d, 'f, 'r) handler" where
  "requireAuth X w nxt req s =
     (if \<not> protected_path (rq_path req) then nxt req s
      else
        (case authenticate X w req s of
           (Inl out, s1) \<Rightarrow> (out, s1)
         | (Inr uc, s1) \<Rightarrow> nxt (req\<lparr>rq_user := Some uc\<rparr>) s1))"

definition requireAdmin :: "('d, 'f, 'r) handler \<Rightarrow> ('d, 'f, 'r) handler" where
  "requireAdmin nxt req s =
     (case rq_user req of
        None \<Rightarrow> (writeJSON 403 403 ''admin access required'' None, s)
      | Some uc \<Rightarrow>
          if uc_admin uc then nxt req s else (writeJSON 403 403 ''admin access required'' None, s))"

text \<open>\<open>uc, _ := userFromCtx(ctx)\<close>: the zero user if there is none.\<close>

definition user_of :: "hreq \<Rightarrow> userCtx" where
  "user_of req = (case rq_user req of None \<Rightarrow> \<lparr>uc_name = [], uc_admin = False\<rparr> | Some uc \<Rightarrow> uc)"

subsection \<open>Logging in and out\<close>

definition error_500 :: "world \<Rightarrow> err \<Rightarrow> outcome" where
  "error_500 w e = writeJSON 500 500 (w_error_text w e) None"

definition AuthStatus_h :: "('d, 'f, 'r) services \<Rightarrow> world \<Rightarrow> ('d, 'f, 'r) handler" where
  "AuthStatus_h X w req = finish
     (bindh (need (error_500 w) (AdminExists_m X)) (\<lambda>initialized.
      bindh (case rq_cookies req sessionCookieName of
               None \<Rightarrow> reth None
             | Some token \<Rightarrow> act (sessions_get X w token)) (\<lambda>found.
      reth (ok_h (Some (JObj [(''initialized'', JBool initialized), (''logged_in'', JBool (found \<noteq> None))]))))))"

definition new_user :: "string \<Rightarrow> string \<Rightarrow> bool \<Rightarrow> string \<Rightarrow> User" where
  "new_user name hash admin role =
     \<lparr>us_name = name, us_password_hash = hash, us_is_admin = admin, us_role = role, us_email = [],
      us_totp_secret = [], us_totp_enabled = False, us_updated = time_zero\<rparr>"

definition AuthInit_h :: "('d, 'f, 'r) services \<Rightarrow> world \<Rightarrow> ('d, 'f, 'r) handler" where
  "AuthInit_h X w req = finish
     (bindh (need (error_500 w) (AdminExists_m X)) (\<lambda>alreadyInit.
      bindh (stop_if alreadyInit (badRequest ''admin account already initialized'')) (\<lambda>_.
      bindh (decodeJSON w (string_fields [''password'', ''confirm_password'']) req) (\<lambda>body.
      let password = body ! 0; confirm = body ! 1
      in bindh (stop_if (password = []) (badRequest ''password is required'')) (\<lambda>_.
         bindh (stop_if (password \<noteq> confirm) (badRequest ''passwords do not match'')) (\<lambda>_.
         bindh (stop_if (length password < 8) (badRequest ''password must be at least 8 characters'')) (\<lambda>_.
         (case w_hash w password of
            Inl e \<Rightarrow> stop (writeJSON 500 500 (''hash password: '' @ w_error_text w e) None)
          | Inr hash \<Rightarrow>
              bindh (need (error_500 w) (CreateUser_m X (new_user ''admin'' hash True []))) (\<lambda>_.
              reth (ok_h (str_map [(''message'', ''admin account initialized'')])))))))))))"

definition invalid_credentials :: outcome where
  "invalid_credentials = writeJSON 401 401 ''invalid credentials'' None"

text \<open>The end of both login flows: a session and its two cookies.\<close>

definition start_session ::
  "('d, 'f, 'r) services \<Rightarrow> world \<Rightarrow> string \<Rightarrow> User \<Rightarrow> (('d, 'f, 'r) adm, outcome) step" where
  "start_session X w username user =
     bindh (act (sessions_create X w username)) (\<lambda>token.
     reth (with_cookies [newSessionCookie token, newCSRFCookie token]
       (ok_h (Some (JObj [(''is_admin'', JBool (us_is_admin user)), (''message'', JStr ''login successful''),
                          (''username'', JStr username)])))))"

definition AuthLogin_h :: "('d, 'f, 'r) services \<Rightarrow> world \<Rightarrow> ('d, 'f, 'r) handler" where
  "AuthLogin_h X w req = finish
     (bindh (decodeJSON w (string_fields [''username'', ''password'']) req) (\<lambda>body.
      let username = (if body ! 0 = [] then ''admin'' else body ! 0); password = body ! 1
      in bindh (need (error_500 w) (GetUser_m X username)) (\<lambda>row.
         bindh (present invalid_credentials row) (\<lambda>user.
         bindh (stop_if (\<not> w_check w (us_password_hash user) password) invalid_credentials) (\<lambda>_.
         if us_totp_enabled user then
           bindh (act (pendingOTP_issue X w username)) (\<lambda>token.
           reth (ok_h (Some (JObj [(''otp_required'', JBool True), (''pending_token'', JStr token)]))))
         else start_session X w username user)))))"

definition expired_cookie :: "string \<Rightarrow> bool \<Rightarrow> set_cookie" where
  "expired_cookie name http_only =
     \<lparr>sc_name = name, sc_value = [], sc_max_age = - 1, sc_http_only = http_only\<rparr>"

definition AuthLogout_h :: "('d, 'f, 'r) services \<Rightarrow> ('d, 'f, 'r) handler" where
  "AuthLogout_h X req s =
     (with_cookies [expired_cookie sessionCookieName True, expired_cookie csrfCookieName False]
        (ok_h (str_map [(''message'', ''logged out'')])),
      (case rq_cookies req sessionCookieName of
         None \<Rightarrow> s
       | Some token \<Rightarrow> sessions_delete X token s))"

definition AuthChangePassword_h :: "('d, 'f, 'r) services \<Rightarrow> world \<Rightarrow> ('d, 'f, 'r) handler" where
  "AuthChangePassword_h X w req = finish
     (bindh (decodeJSON w (string_fields [''current_password'', ''new_password'', ''confirm_password'']) req) (\<lambda>body.
      let current = body ! 0; new = body ! 1; confirm = body ! 2
      in bindh (stop_if (new = []) (badRequest ''new password is required'')) (\<lambda>_.
         bindh (stop_if (length new < 8) (badRequest ''password must be at least 8 characters'')) (\<lambda>_.
         bindh (stop_if (new \<noteq> confirm) (badRequest ''passwords do not match'')) (\<lambda>_.
         bindh (need (error_500 w) (GetUser_m X (uc_name (user_of req)))) (\<lambda>row.
         bindh (present (writeJSON 401 401 ''user not found'' None) row) (\<lambda>user.
         bindh (stop_if (\<not> w_check w (us_password_hash user) current)
                  (writeJSON 401 401 ''current password is incorrect'' None)) (\<lambda>_.
         (case w_hash w new of
            Inl e \<Rightarrow> stop (writeJSON 500 500 (''hash password: '' @ w_error_text w e) None)
          | Inr hash \<Rightarrow>
              bindh (need (error_500 w) (UpdateUser_m X (user\<lparr>us_password_hash := hash\<rparr>))) (\<lambda>_.
              reth (ok_h (str_map [(''message'', ''password changed'')]))))))))))))"

subsection \<open>The second factor\<close>

definition OTPSetup_h :: "('d, 'f, 'r) services \<Rightarrow> world \<Rightarrow> ('d, 'f, 'r) handler" where
  "OTPSetup_h X w req = finish
     (let name = uc_name (user_of req)
      in bindh (need (\<lambda>_. internalError) (GetUser_m X name)) (\<lambda>row.
         bindh (present internalError row) (\<lambda>user.
         bindh (stop_if (us_totp_enabled user) (badRequest ''OTP is already enabled; disable it first'')) (\<lambda>_.
         (case w_totp_generate w name of
            Inl e \<Rightarrow> stop internalError
          | Inr (secret, url) \<Rightarrow>
              bindh (need (\<lambda>_. internalError)
                      (UpdateUser_m X (user\<lparr>us_totp_secret := secret, us_totp_enabled := False\<rparr>))) (\<lambda>_.
              reth (ok_h (str_map
                [(''provisioning_uri'', url), (''qr_code'', w_qr w url), (''secret'', secret)]))))))))"

definition OTPEnable_h :: "('d, 'f, 'r) services \<Rightarrow> world \<Rightarrow> ('d, 'f, 'r) handler" where
  "OTPEnable_h X w req = finish
     (bindh (decodeJSON w (string_field ''otp_code'') req) (\<lambda>code.
      bindh (stop_if (code = []) (badRequest ''otp_code is required'')) (\<lambda>_.
      bindh (need (\<lambda>_. internalError) (GetUser_m X (uc_name (user_of req)))) (\<lambda>row.
      bindh (present internalError row) (\<lambda>user.
      bindh (stop_if (us_totp_secret user = []) (badRequest ''call /api/v1/auth/otp/setup first'')) (\<lambda>_.
      bindh (stop_if (us_totp_enabled user) (badRequest ''OTP is already enabled'')) (\<lambda>_.
      bindh (stop_if (\<not> w_totp_check w code (us_totp_secret user))
               (writeJSON 401 401 ''invalid OTP code'' None)) (\<lambda>_.
      bindh (need (\<lambda>_. internalError) (UpdateUser_m X (user\<lparr>us_totp_enabled := True\<rparr>))) (\<lambda>_.
      reth (ok_h (str_map [(''message'', ''OTP enabled'')])))))))))))"

definition OTPDisable_h :: "('d, 'f, 'r) services \<Rightarrow> world \<Rightarrow> ('d, 'f, 'r) handler" where
  "OTPDisable_h X w req = finish
     (bindh (decodeJSON w (string_field ''current_password'') req) (\<lambda>current.
      bindh (stop_if (current = []) (badRequest ''current_password is required'')) (\<lambda>_.
      bindh (need (\<lambda>_. internalError) (GetUser_m X (uc_name (user_of req)))) (\<lambda>row.
      bindh (present internalError row) (\<lambda>user.
      bindh (stop_if (\<not> w_check w (us_password_hash user) current)
               (writeJSON 401 401 ''current password is incorrect'' None)) (\<lambda>_.
      bindh (need (\<lambda>_. internalError)
              (UpdateUser_m X (user\<lparr>us_totp_secret := [], us_totp_enabled := False\<rparr>))) (\<lambda>_.
      reth (ok_h (str_map [(''message'', ''OTP disabled'')])))))))))"

definition OTPLoginStep_h :: "('d, 'f, 'r) services \<Rightarrow> world \<Rightarrow> ('d, 'f, 'r) handler" where
  "OTPLoginStep_h X w req = finish
     (bindh (decodeJSON w (string_fields [''pending_token'', ''otp_code'']) req) (\<lambda>body.
      let pending = body ! 0; code = body ! 1
      in bindh (stop_if (pending = [] \<or> code = []) (badRequest ''pending_token and otp_code are required'')) (\<lambda>_.
         bindh (act (pendingOTP_consume X w pending)) (\<lambda>found.
         bindh (present (writeJSON 401 401 ''pending token is invalid or has expired'' None) found) (\<lambda>username.
         bindh (need (\<lambda>_. writeJSON 401 401 ''user not found'' None) (GetUser_m X username)) (\<lambda>row.
         bindh (present (writeJSON 401 401 ''user not found'' None) row) (\<lambda>user.
         bindh (stop_if (\<not> w_totp_check w code (us_totp_secret user))
                  (writeJSON 401 401 ''invalid OTP code'' None)) (\<lambda>_.
         start_session X w username user))))))))"

subsection \<open>Password reset by mail\<close>

definition crlf :: string where "crlf = [CHR 0x0D, CHR 0x0A]"

definition trim_slashes :: "string \<Rightarrow> string" where
  "trim_slashes s = rev (dropWhile (\<lambda>c. c = CHR ''/'') (rev s))"

definition buildResetEmailBody :: "string \<Rightarrow> string \<Rightarrow> string \<Rightarrow> string" where
  "buildResetEmailBody username token publicURL =
     ''Hello '' @ username @ '','' @ crlf @ crlf @
     ''We received a request to reset your ConfigServer password.'' @ crlf @ crlf @
     (if publicURL \<noteq> [] then
        ''Click the link below to set a new password (valid for 30 minutes):'' @ crlf @
        trim_slashes publicURL @ ''/reset-password?token='' @ token @ crlf @ crlf @
        ''Or copy-paste the reset token into the password-reset form:'' @ crlf
      else
        ''Use the following reset token in the password-reset form (valid for 30 minutes):'' @ crlf) @
     token @ crlf @ crlf @
     ''If you did not request this, please ignore this email.'' @ crlf"

definition buildMessage :: "string \<Rightarrow> string \<Rightarrow> string \<Rightarrow> string \<Rightarrow> bytes" where
  "buildMessage from to subject body =
     ''From: '' @ from @ crlf @ ''To: '' @ to @ crlf @ ''Subject: '' @ subject @ crlf @
     ''MIME-Version: 1.0'' @ crlf @ ''Content-Type: text/plain; charset=UTF-8'' @ crlf @ crlf @ body"

definition sendMail ::
  "world \<Rightarrow> string \<Rightarrow> string \<Rightarrow> string \<Rightarrow> ('d, 'f, 'r) adm \<Rightarrow> bool \<times> ('d, 'f, 'r) adm" where
  "sendMail w to subject body s =
     (if w_smtp_host w = [] then (False, s)
      else
        let m = \<lparr>ml_to = to, ml_message = buildMessage (w_smtp_from w) to subject body\<rparr>
        in if w_send_mail w m then (True, s\<lparr>s_outbox := s_outbox s @ [m]\<rparr>) else (False, s))"

definition reset_subject :: string where
  "reset_subject = ''ConfigServer '' @ [CHR 0xE2, CHR 0x80, CHR 0x94] @ '' password reset request''"

definition forgot_generic :: outcome where
  "forgot_generic = ok_h (str_map [(''message'',
     ''If that account exists and has an email address on file, a reset link has been sent.'')])"

definition ForgotPassword_h :: "('d, 'f, 'r) services \<Rightarrow> world \<Rightarrow> ('d, 'f, 'r) handler" where
  "ForgotPassword_h X w req = finish
     (bindh (decodeJSON w (string_field ''username'') req) (\<lambda>name.
      let username = trim_space name
      in bindh (stop_if (username = []) (badRequest ''username is required'')) (\<lambda>_.
         bindh (need (\<lambda>_. forgot_generic) (GetUser_m X username)) (\<lambda>row.
         bindh (present forgot_generic row) (\<lambda>user.
         bindh (stop_if (us_email user = [] \<or> w_smtp_host w = []) forgot_generic) (\<lambda>_.
         bindh (act (resetTokens_issue X w username)) (\<lambda>token.
         bindh (act (sendMail w (us_email user) reset_subject
                  (buildResetEmailBody username token (w_public_url w)))) (\<lambda>_.
         reth forgot_generic))))))))"

definition ResetPassword_h :: "('d, 'f, 'r) services \<Rightarrow> world \<Rightarrow> ('d, 'f, 'r) handler" where
  "ResetPassword_h X w req = finish
     (bindh (decodeJSON w (string_fields [''token'', ''new_password'', ''confirm_password'']) req) (\<lambda>body.
      let token = body ! 0; new = body ! 1; confirm = body ! 2
      in bindh (stop_if (token = []) (badRequest ''token is required'')) (\<lambda>_.
         bindh (stop_if (new = []) (badRequest ''new_password is required'')) (\<lambda>_.
         bindh (stop_if (length new < 8) (badRequest ''password must be at least 8 characters'')) (\<lambda>_.
         bindh (stop_if (new \<noteq> confirm) (badRequest ''passwords do not match'')) (\<lambda>_.
         bindh (act (resetTokens_consume X w token)) (\<lambda>found.
         bindh (present (writeJSON 401 401 ''reset token is invalid or has expired'' None) found) (\<lambda>username.
         bindh (need (\<lambda>_. writeJSON 500 500 ''user not found'' None) (GetUser_m X username)) (\<lambda>row.
         bindh (present (writeJSON 500 500 ''user not found'' None) row) (\<lambda>user.
         (case w_hash w new of
            Inl e \<Rightarrow> stop internalError
          | Inr hash \<Rightarrow>
              bindh (need (\<lambda>_. internalError) (UpdateUser_m X (user\<lparr>us_password_hash := hash\<rparr>))) (\<lambda>_.
              reth (ok_h (str_map [(''message'', ''password has been reset'')]))))))))))))))"

subsection \<open>Email addresses\<close>

definition SetMyEmail_h :: "('d, 'f, 'r) services \<Rightarrow> world \<Rightarrow> ('d, 'f, 'r) handler" where
  "SetMyEmail_h X w req = finish
     (bindh (decodeJSON w (string_field ''email'') req) (\<lambda>email.
      bindh (need (\<lambda>_. internalError) (GetUser_m X (uc_name (user_of req)))) (\<lambda>row.
      bindh (present internalError row) (\<lambda>user.
      bindh (need (\<lambda>_. internalError) (UpdateUser_m X (user\<lparr>us_email := trim_space email\<rparr>))) (\<lambda>_.
      reth (ok_h (str_map [(''message'', ''email updated'')])))))))"

text \<open>A missing user is a nil pointer, not an error: assigning its field panics.\<close>

definition SetUserEmail_h :: "('d, 'f, 'r) services \<Rightarrow> world \<Rightarrow> ('d, 'f, 'r) handler" where
  "SetUserEmail_h X w req = finish
     (bindh (decodeJSON w (string_field ''email'') req) (\<lambda>email.
      bindh (need (\<lambda>e. if is_not_found e then notFound else internalError)
              (GetUser_m X (rq_vars req ''username''))) (\<lambda>row.
      bindh (present Panicked row) (\<lambda>user.
      bindh (need (\<lambda>_. internalError) (UpdateUser_m X (user\<lparr>us_email := trim_space email\<rparr>))) (\<lambda>_.
      reth (ok_h (str_map [(''message'', ''email updated'')])))))))"

end
