(* ===== verification/Admin_Users.thy ===== *)
theory Admin_Users
  imports Admin_Auth
begin

section \<open>Users and roles (internal/server/admin/handler.go)\<close>

text \<open>
  The handlers for the current user, for user accounts and for roles with their permissions.
  The routes of all but \<open>GetMe\<close> are wrapped in \<open>requireAdmin\<close>.
\<close>

subsection \<open>JSON of permissions\<close>

definition perm_json :: "RolePermission \<Rightarrow> json" where
  "perm_json p =
     JObj [(''role_name'', JStr (rp_role p)), (''resource'', JStr (rp_resource p)),
           (''can_create'', JBool (rp_create p)), (''can_read'', JBool (rp_read p)),
           (''can_update'', JBool (rp_update p)), (''can_delete'', JBool (rp_delete p))]"

fun fill_bool :: "bool \<Rightarrow> json list \<Rightarrow> bool option" where
  "fill_bool cur [] = Some cur"
| "fill_bool cur (JBool b # vs) = fill_bool b vs"
| "fill_bool cur (JNull # vs) = fill_bool cur vs"
| "fill_bool cur (_ # vs) = None"

definition fill_perm :: "(string \<times> json) list \<Rightarrow> RolePermission option" where
  "fill_perm kvs =
     (case (fill_string [] (members ''role_name'' kvs), fill_string [] (members ''resource'' kvs),
            fill_bool False (members ''can_create'' kvs), fill_bool False (members ''can_read'' kvs),
            fill_bool False (members ''can_update'' kvs), fill_bool False (members ''can_delete'' kvs)) of
        (Some ro, Some re, Some c, Some r, Some u, Some d) \<Rightarrow>
          Some \<lparr>rp_role = ro, rp_resource = re, rp_create = c, rp_read = r, rp_update = u, rp_delete = d\<rparr>
      | _ \<Rightarrow> None)"

text \<open>A list of pointers: \<open>null\<close> is a nil pointer.\<close>

definition fill_pointer :: "((string \<times> json) list \<Rightarrow> 'a option) \<Rightarrow> json \<Rightarrow> 'a option option" where
  "fill_pointer f j =
     (case j of
        JNull \<Rightarrow> Some None
      | JObj kvs \<Rightarrow> map_option Some (f kvs)
      | _ \<Rightarrow> None)"

subsection \<open>The current user\<close>

definition GetMe_h :: "('d, 'f, 'r) services \<Rightarrow> ('d, 'f, 'r) handler" where
  "GetMe_h X req = finish
     (let uc = user_of req;
          me = (\<lambda>role perms. ok_h (Some (JObj [(''username'', JStr (uc_name uc)), (''is_admin'', JBool (uc_admin uc)),
                 (''role_name'', JStr role), (''permissions'', perms)])))
      in if uc_admin uc then reth (me [] JNull)
         else
           bindh (need (\<lambda>_. internalError) (GetUser_m X (uc_name uc))) (\<lambda>row.
           case row of
             None \<Rightarrow> reth (me [] JNull)
           | Some user \<Rightarrow>
               if us_role user = [] then reth (me [] JNull)
               else
                 bindh (need (\<lambda>_. internalError) (GetRolePermissions_m X (us_role user))) (\<lambda>perms.
                 reth (me (us_role user) (JArr (map perm_json perms))))))"

subsection \<open>Users\<close>

definition user_json :: "world \<Rightarrow> User \<Rightarrow> json" where
  "user_json w u =
     JObj [(''username'', JStr (us_name u)), (''is_admin'', JBool (us_is_admin u)),
           (''role_name'', JStr (us_role u)), (''updated_at'', JStr (w_time_text w (us_updated u)))]"

definition ListUsers_h :: "('d, 'f, 'r) services \<Rightarrow> world \<Rightarrow> ('d, 'f, 'r) handler" where
  "ListUsers_h X w req = finish
     (bindh (need (\<lambda>_. internalError) (ListUsers_m X)) (\<lambda>users.
      reth (ok_h (Some (JArr (map (user_json w) users))))))"

text \<open>The check of a role name, where one is given.\<close>

definition known_role :: "('d, 'f, 'r) services \<Rightarrow> string \<Rightarrow> (('d, 'f, 'r) adm, unit) step" where
  "known_role X role =
     (if role = [] then reth ()
      else
        bindh (need (\<lambda>_. internalError) (GetRole_m X role)) (\<lambda>row.
        bindh (present (badRequest ''role not found'') row) (\<lambda>_. reth ())))"

definition short_password :: outcome where
  "short_password = badRequest ''password must be at least 8 characters''"

definition CreateUser_h :: "('d, 'f, 'r) services \<Rightarrow> world \<Rightarrow> ('d, 'f, 'r) handler" where
  "CreateUser_h X w req = finish
     (bindh (decodeJSON w (string_fields [''username'', ''password'', ''role_name'']) req) (\<lambda>body.
      let username = body ! 0; password = body ! 1; role = body ! 2
      in bindh (stop_if (username = []) (badRequest ''username is required'')) (\<lambda>_.
         bindh (stop_if (username = ''admin'') (badRequest ''reserved username'')) (\<lambda>_.
         bindh (stop_if (length password < 8) short_password) (\<lambda>_.
         bindh (need (\<lambda>_. internalError) (GetUser_m X username)) (\<lambda>row.
         bindh (stop_if (row \<noteq> None) (writeJSON 409 1 ''username already exists'' None)) (\<lambda>_.
         bindh (known_role X role) (\<lambda>_.
         (case w_hash w password of
            Inl e \<Rightarrow> stop internalError
          | Inr hash \<Rightarrow>
              bindh (need (\<lambda>_. internalError) (CreateUser_m X (new_user username hash False role))) (\<lambda>_.
              reth (ok_h (str_map [(''username'', username)]))))))))))))"

definition DeleteUser_h :: "('d, 'f, 'r) services \<Rightarrow> ('d, 'f, 'r) handler" where
  "DeleteUser_h X req = finish
     (let username = rq_vars req ''username''
      in bindh (stop_if (username = ''admin'') (badRequest ''cannot delete the admin account'')) (\<lambda>_.
         bindh (need (\<lambda>_. internalError) (DeleteUser_m X username)) (\<lambda>_.
         reth (ok_h None))))"

definition ResetUserPassword_h :: "('d, 'f, 'r) services \<Rightarrow> world \<Rightarrow> ('d, 'f, 'r) handler" where
  "ResetUserPassword_h X w req = finish
     (let username = rq_vars req ''username''
      in bindh (stop_if (case rq_user req of None \<Rightarrow> False | Some uc \<Rightarrow> uc_name uc = username)
                 (writeJSON 403 403
                   ''cannot reset your own password via this endpoint; use Change Password instead'' None)) (\<lambda>_.
         bindh (decodeJSON w (string_field ''password'') req) (\<lambda>password.
         bindh (stop_if (length password < 8) short_password) (\<lambda>_.
         bindh (need (\<lambda>_. internalError) (GetUser_m X username)) (\<lambda>row.
         bindh (present notFound row) (\<lambda>user.
         (case w_hash w password of
            Inl e \<Rightarrow> stop internalError
          | Inr hash \<Rightarrow>
              bindh (need (\<lambda>_. internalError) (UpdateUser_m X (user\<lparr>us_password_hash := hash\<rparr>))) (\<lambda>_.
              reth (ok_h None)))))))))"

definition AssignUserRole_h :: "('d, 'f, 'r) services \<Rightarrow> world \<Rightarrow> ('d, 'f, 'r) handler" where
  "AssignUserRole_h X w req = finish
     (let username = rq_vars req ''username''
      in bindh (stop_if (username = ''admin'') (badRequest ''cannot change role for the admin account'')) (\<lambda>_.
         bindh (decodeJSON w (string_field ''role_name'') req) (\<lambda>role.
         bindh (need (\<lambda>_. internalError) (GetUser_m X username)) (\<lambda>row.
         bindh (present notFound row) (\<lambda>user.
         bindh (known_role X role) (\<lambda>_.
         bindh (need (\<lambda>_. internalError) (UpdateUser_m X (user\<lparr>us_role := role\<rparr>))) (\<lambda>_.
         reth (ok_h None))))))))"

subsection \<open>Roles\<close>

definition role_json :: "world \<Rightarrow> Role \<Rightarrow> json" where
  "role_json w r =
     JObj [(''name'', JStr (ro_name r)), (''description'', JStr (ro_description r)),
           (''updated_at'', JStr (w_time_text w (ro_updated r)))]"

definition ListRoles_h :: "('d, 'f, 'r) services \<Rightarrow> world \<Rightarrow> ('d, 'f, 'r) handler" where
  "ListRoles_h X w req = finish
     (bindh (need (\<lambda>_. internalError) (ListRoles_m X)) (\<lambda>roles.
      reth (ok_h (Some (JArr (map (role_json w) roles))))))"

definition CreateRole_h :: "('d, 'f, 'r) services \<Rightarrow> world \<Rightarrow> ('d, 'f, 'r) handler" where
  "CreateRole_h X w req = finish
     (bindh (decodeJSON w (string_fields [''name'', ''description'']) req) (\<lambda>body.
      let name = body ! 0; description = body ! 1
      in bindh (stop_if (name = []) (badRequest ''name is required'')) (\<lambda>_.
         bindh (need (\<lambda>_. internalError) (GetRole_m X name)) (\<lambda>row.
         bindh (stop_if (row \<noteq> None) (writeJSON 409 1 ''role already exists'' None)) (\<lambda>_.
         bindh (need (\<lambda>_. internalError)
                 (CreateRole_m X \<lparr>ro_name = name, ro_description = description, ro_updated = time_zero\<rparr>)) (\<lambda>_.
         reth (writeJSON 201 0 ''created'' (str_map [(''name'', name)]))))))))"

definition DeleteRole_h :: "('d, 'f, 'r) services \<Rightarrow> ('d, 'f, 'r) handler" where
  "DeleteRole_h X req = finish
     (bindh (need (\<lambda>_. internalError) (DeleteRole_m X (rq_vars req ''name''))) (\<lambda>_.
      reth (ok_h None)))"

definition GetRolePermissions_h :: "('d, 'f, 'r) services \<Rightarrow> ('d, 'f, 'r) handler" where
  "GetRolePermissions_h X req = finish
     (bindh (need (\<lambda>_. internalError) (GetRolePermissions_m X (rq_vars req ''name''))) (\<lambda>perms.
      reth (ok_h (Some (JArr (map perm_json perms))))))"

text \<open>A \<open>null\<close> in the list is a nil pointer: setting its role panics.\<close>

definition SetRolePermissions_h :: "('d, 'f, 'r) services \<Rightarrow> world \<Rightarrow> ('d, 'f, 'r) handler" where
  "SetRolePermissions_h X w req = finish
     (let name = rq_vars req ''name''
      in bindh (decodeJSON w (\<lambda>j. fill_list (fill_pointer fill_perm) [] [j]) req) (\<lambda>perms.
         bindh (present Panicked (those perms)) (\<lambda>ps.
         bindh (need (\<lambda>_. internalError)
                 (SetRolePermissions_m X name (map (\<lambda>p. p\<lparr>rp_role := name\<rparr>) ps))) (\<lambda>_.
         reth (ok_h None)))))"

end
