(* ===== verification/Admin_Configs.thy ===== *)
theory Admin_Configs
  imports Admin_Users
begin

section \<open>Configurations over the admin API (internal/server/admin/handler.go)\<close>

text \<open>
  The handlers of pipeline and instance configurations and of one-time commands, with the
  history entry and the audit entry each change leaves behind. The code of pipeline and
  instance configurations differs only in the methods of the manager it calls and in one word
  of its messages: it is stated once, over a record of these, and instantiated twice.
\<close>

subsection \<open>History and audit entries\<close>

definition saveHistory ::
  "('d, 'f, 'r) services \<Rightarrow> world \<Rightarrow> hreq \<Rightarrow> string \<Rightarrow> string \<Rightarrow> string \<Rightarrow> int \<Rightarrow> bytes \<Rightarrow>
   (('d, 'f, 'r) adm, unit) step" where
  "saveHistory X w req resourceType resourceName action version detail =
     bindh (attempt (SaveConfigHistory_m X
       \<lparr>ch_id = 0, ch_resource_type = resourceType, ch_resource_name = resourceName, ch_version = version,
        ch_action = action, ch_detail = detail, ch_changed_by = uc_name (user_of req), ch_changed_at = w_now w\<rparr>))
       (\<lambda>_. reth ())"

text \<open>\<open>strings.IndexByte\<close> and \<open>bytealg.LastIndexByteString\<close>; \<open>net.SplitHostPort\<close>, its host only.\<close>

fun index_byte :: "char \<Rightarrow> string \<Rightarrow> nat option" where
  "index_byte c [] = None"
| "index_byte c (d # s) = (if d = c then Some 0 else map_option Suc (index_byte c s))"

definition last_index_byte :: "char \<Rightarrow> string \<Rightarrow> nat option" where
  "last_index_byte c s = map_option (\<lambda>i. length s - 1 - i) (index_byte c (rev s))"

definition split_host :: "string \<Rightarrow> string option" where
  "split_host hostport =
     (case last_index_byte (CHR '':'') hostport of
        None \<Rightarrow> None
      | Some i \<Rightarrow>
          if hd hostport = CHR ''['' then
            (case index_byte (CHR '']'') hostport of
               None \<Rightarrow> None
             | Some e \<Rightarrow>
                 if e + 1 \<noteq> i then None
                 else if CHR ''['' \<in> set (drop 1 hostport) \<or> CHR '']'' \<in> set (drop (e + 1) hostport) then None
                 else Some (take (e - 1) (drop 1 hostport)))
          else if CHR '':'' \<in> set (take i hostport) then None
          else if CHR ''['' \<in> set hostport \<or> CHR '']'' \<in> set hostport then None
          else Some (take i hostport))"

definition realClientIP :: "hreq \<Rightarrow> string" where
  "realClientIP req =
     (let xff = rq_header req ''X-Forwarded-For'';
          first = trim_space (case index_byte (CHR '','') xff of None \<Rightarrow> xff | Some i \<Rightarrow> take i xff);
          xri = trim_space (rq_header req ''X-Real-IP'')
      in if xff \<noteq> [] \<and> first \<noteq> [] then first
         else if xri \<noteq> [] then xri
         else
           (case split_host (rq_remote req) of
              Some host \<Rightarrow> host
            | None \<Rightarrow> rq_remote req))"

definition newline :: string where "newline = [CHR 0x0A]"

definition logAudit ::
  "('d, 'f, 'r) services \<Rightarrow> world \<Rightarrow> hreq \<Rightarrow> nat \<Rightarrow> string \<Rightarrow> string \<Rightarrow> string \<Rightarrow> string \<Rightarrow>
   (('d, 'f, 'r) adm, unit) step" where
  "logAudit X w req statusCode action resourceType resourceName detail =
     bindh (attempt (CreateAuditLog_m X
       \<lparr>al_id = 0, al_username = uc_name (user_of req), al_action = action, al_resource_type = resourceType,
        al_resource_name = resourceName,
        al_detail = rq_method req @ '' '' @ rq_uri req @ ''  status='' @ show_nat statusCode @
          (if detail \<noteq> [] then newline @ detail else []),
        al_client_ip = realClientIP req, al_created = w_now w\<rparr>))
       (\<lambda>_. reth ())"

text \<open>Both entries, as every handler writes them that has made a change.\<close>

definition record_change ::
  "('d, 'f, 'r) services \<Rightarrow> world \<Rightarrow> hreq \<Rightarrow> nat \<Rightarrow> string \<Rightarrow> string \<Rightarrow> string \<Rightarrow> int \<Rightarrow> bytes \<Rightarrow> string \<Rightarrow>
   (('d, 'f, 'r) adm, unit) step" where
  "record_change X w req statusCode action resourceType name version old summary =
     bindh (saveHistory X w req resourceType name action version old) (\<lambda>_.
     logAudit X w req statusCode action resourceType name summary)"

subsection \<open>Replies and validation\<close>

text \<open>\<open>pipelineToResp\<close> and \<open>instanceToResp\<close>.\<close>

definition config_resp :: "world \<Rightarrow> config_row \<Rightarrow> json" where
  "config_resp w c =
     JObj [(''name'', JStr (cf_name c)), (''version'', JNum (itoa (cf_version c))), (''detail'', JStr (cf_detail c)),
           (''created_at'', JStr (w_time_text w (cf_created c))), (''updated_at'', JStr (w_time_text w (cf_updated c)))]"

definition onetimeToResp :: "world \<Rightarrow> OnetimeCommand \<Rightarrow> json" where
  "onetimeToResp w c =
     JObj [(''name'', JStr (oc_name c)), (''version'', JNum (itoa (oc_version c))), (''detail'', JStr (oc_detail c)),
           (''expire_time'', JNum (itoa (oc_expire c))), (''created_at'', JStr (w_time_text w (oc_created c)))]"

text \<open>The message of the error, if there is one. \<open>w_yaml\<close> says whether the value is non-nil.\<close>

definition validateYAML :: "world \<Rightarrow> bytes \<Rightarrow> string option" where
  "validateYAML w content =
     (if content = [] then Some ''detail must not be empty''
      else
        (case w_yaml w content of
           Inl e \<Rightarrow> Some (''invalid YAML: '' @ w_error_text w e)
         | Inr non_nil \<Rightarrow> if non_nil then None else Some ''detail must not be empty''))"

definition need_valid :: "string option \<Rightarrow> ('s, unit) step" where
  "need_valid problem = (case problem of None \<Rightarrow> reth () | Some msg \<Rightarrow> stop (badRequest msg))"

text \<open>The usual answers to a failed lookup.\<close>

definition lookup_failed :: "err \<Rightarrow> outcome" where
  "lookup_failed e = (if is_not_found e then notFound else internalError)"

subsection \<open>Pipeline and instance configurations\<close>

record ('d, 'f, 'r) config_kind =
  ck_type :: string
  ck_list :: "('d, 'f, 'r) mgr \<Rightarrow> (err + config_row list) \<times> ('d, 'f, 'r) mgr"
  ck_get :: "string \<Rightarrow> ('d, 'f, 'r) mgr \<Rightarrow> (err + config_row) \<times> ('d, 'f, 'r) mgr"
  ck_create :: "config_row \<Rightarrow> ('d, 'f, 'r) mwrite"
  ck_update :: "time \<Rightarrow> config_row \<Rightarrow> ('d, 'f, 'r) mwrite"
  ck_delete :: "string \<Rightarrow> ('d, 'f, 'r) mwrite"

definition pipeline_kind :: "('d, 'f, 'r) services \<Rightarrow> ('d, 'f, 'r) config_kind" where
  "pipeline_kind X =
     \<lparr>ck_type = ''pipeline'', ck_list = ListPipelineConfigs_m X, ck_get = GetPipelineConfig_m X,
      ck_create = CreatePipelineConfig_m X, ck_update = UpdatePipelineConfig_m X,
      ck_delete = DeletePipelineConfig_m X\<rparr>"

definition instance_kind :: "('d, 'f, 'r) services \<Rightarrow> ('d, 'f, 'r) config_kind" where
  "instance_kind X =
     \<lparr>ck_type = ''instance'', ck_list = ListInstanceConfigs_m X, ck_get = GetInstanceConfig_m X,
      ck_create = CreateInstanceConfig_m X, ck_update = UpdateInstanceConfig_m X,
      ck_delete = DeleteInstanceConfig_m X\<rparr>"

definition list_configs :: "world \<Rightarrow> ('d, 'f, 'r) config_kind \<Rightarrow> ('d, 'f, 'r) handler" where
  "list_configs w K req = finish
     (bindh (need (\<lambda>_. internalError) (ck_list K)) (\<lambda>cfgs.
      reth (ok_h (Some (JArr (map (config_resp w) cfgs))))))"

text \<open>The answer when the name is taken: the existing row if it is the one asked for.\<close>

definition already_exists :: "world \<Rightarrow> string \<Rightarrow> string \<Rightarrow> bool \<Rightarrow> json \<Rightarrow> outcome" where
  "already_exists w what name same resp =
     (if same then ok_h (Some resp) else conflict (what @ '' '' @ w_quote w name @ '' already exists''))"

text \<open>GORM fills the two times of the row it creates, in the struct as well.\<close>

definition create_config ::
  "('d, 'f, 'r) services \<Rightarrow> world \<Rightarrow> ('d, 'f, 'r) config_kind \<Rightarrow> ('d, 'f, 'r) handler" where
  "create_config X w K req = finish
     (bindh (readJSON w (string_fields [''name'', ''detail'']) req) (\<lambda>body.
      let name = body ! 0; detail = body ! 1;
          taken = (\<lambda>c. already_exists w (ck_type K @ '' config'') name (cf_detail c = detail) (config_resp w c));
          cfg = \<lparr>cf_name = name, cf_version = unix_milli (w_now w), cf_detail = detail,
                 cf_created = time_zero, cf_updated = time_zero\<rparr>
      in bindh (stop_if (name = []) (badRequest ''name is required'')) (\<lambda>_.
         bindh (need_valid (validateYAML w detail)) (\<lambda>_.
         bindh (attempt (ck_get K name)) (\<lambda>found.
         (case found of
            Inr c \<Rightarrow> stop (taken c)
          | Inl e \<Rightarrow>
              bindh (stop_if (\<not> is_not_found e) internalError) (\<lambda>_.
              bindh (attempt (ck_create K cfg)) (\<lambda>done.
              (case done of
                 Inl _ \<Rightarrow>
                   bindh (attempt (ck_get K name)) (\<lambda>again.
                   (case again of Inr c \<Rightarrow> stop (taken c) | Inl _ \<Rightarrow> stop internalError))
               | Inr _ \<Rightarrow>
                   bindh (record_change X w req 201 ''create'' (ck_type K) name (cf_version cfg) detail detail) (\<lambda>_.
                   reth (writeJSON 201 0 ''created''
                     (Some (config_resp w (cfg\<lparr>cf_created := w_now w, cf_updated := w_now w\<rparr>))))))))))))))"

definition get_config :: "world \<Rightarrow> ('d, 'f, 'r) config_kind \<Rightarrow> ('d, 'f, 'r) handler" where
  "get_config w K req = finish
     (bindh (need lookup_failed (ck_get K (rq_vars req ''name''))) (\<lambda>cfg.
      reth (ok_h (Some (config_resp w cfg)))))"

definition update_config ::
  "('d, 'f, 'r) services \<Rightarrow> world \<Rightarrow> ('d, 'f, 'r) config_kind \<Rightarrow> ('d, 'f, 'r) handler" where
  "update_config X w K req = finish
     (bindh (readJSON w (string_field ''detail'') req) (\<lambda>detail.
      bindh (need_valid (validateYAML w detail)) (\<lambda>_.
      bindh (need lookup_failed (ck_get K (rq_vars req ''name''))) (\<lambda>cfg0.
      bindh (stop_if (cf_detail cfg0 = detail) (ok_h (Some (config_resp w cfg0)))) (\<lambda>_.
      let cfg = cfg0\<lparr>cf_detail := detail, cf_version := unix_milli (w_now w)\<rparr>
      in bindh (need (\<lambda>_. internalError) (ck_update K (w_now w) cfg)) (\<lambda>_.
         bindh (record_change X w req 200 ''update'' (ck_type K) (cf_name cfg) (cf_version cfg)
                  (cf_detail cfg0) detail) (\<lambda>_.
         reth (ok_h (Some (config_resp w cfg))))))))))"

definition delete_config ::
  "('d, 'f, 'r) services \<Rightarrow> world \<Rightarrow> ('d, 'f, 'r) config_kind \<Rightarrow> ('d, 'f, 'r) handler" where
  "delete_config X w K req = finish
     (let name = rq_vars req ''name''
      in bindh (need (\<lambda>e. if is_not_found e then ok_h None else internalError) (ck_get K name)) (\<lambda>cfg.
         bindh (need (\<lambda>_. internalError) (ck_delete K name)) (\<lambda>_.
         bindh (record_change X w req 200 ''delete'' (ck_type K) name 0 (cf_detail cfg) []) (\<lambda>_.
         reth (ok_h None)))))"

definition ListPipelineConfigs_h where "ListPipelineConfigs_h X w = list_configs w (pipeline_kind X)"
definition CreatePipelineConfig_h where "CreatePipelineConfig_h X w = create_config X w (pipeline_kind X)"
definition GetPipelineConfig_h where "GetPipelineConfig_h X w = get_config w (pipeline_kind X)"
definition UpdatePipelineConfig_h where "UpdatePipelineConfig_h X w = update_config X w (pipeline_kind X)"
definition DeletePipelineConfig_h where "DeletePipelineConfig_h X w = delete_config X w (pipeline_kind X)"

definition ListInstanceConfigs_h where "ListInstanceConfigs_h X w = list_configs w (instance_kind X)"
definition CreateInstanceConfig_h where "CreateInstanceConfig_h X w = create_config X w (instance_kind X)"
definition GetInstanceConfig_h where "GetInstanceConfig_h X w = get_config w (instance_kind X)"
definition UpdateInstanceConfig_h where "UpdateInstanceConfig_h X w = update_config X w (instance_kind X)"
definition DeleteInstanceConfig_h where "DeleteInstanceConfig_h X w = delete_config X w (instance_kind X)"

subsection \<open>One-time commands\<close>

definition ListOnetimeCommands_h :: "('d, 'f, 'r) services \<Rightarrow> world \<Rightarrow> ('d, 'f, 'r) handler" where
  "ListOnetimeCommands_h X w req = finish
     (bindh (need (\<lambda>_. internalError) (ListOnetimeCommands_m X)) (\<lambda>cmds.
      reth (ok_h (Some (JArr (map (onetimeToResp w) cmds))))))"

definition fill_onetime :: "json \<Rightarrow> (string \<times> string \<times> int) option" where
  "fill_onetime = fill_struct (\<lambda>kvs.
     (case (fill_string [] (members ''name'' kvs), fill_string [] (members ''detail'' kvs),
            fill_int 0 (members ''expire_time'' kvs)) of
        (Some n, Some d, Some e) \<Rightarrow> Some (n, d, e)
      | _ \<Rightarrow> None))"

definition CreateOnetimeCommand_h :: "('d, 'f, 'r) services \<Rightarrow> world \<Rightarrow> ('d, 'f, 'r) handler" where
  "CreateOnetimeCommand_h X w req = finish
     (bindh (readJSON w fill_onetime req) (\<lambda>(name, detail, expire).
      let taken = (\<lambda>c. already_exists w ''onetime command'' name (oc_detail c = detail \<and> oc_expire c = expire)
                         (onetimeToResp w c));
          cmd = \<lparr>oc_name = name, oc_version = unix_milli (w_now w), oc_detail = detail, oc_expire = expire,
                 oc_created = time_zero\<rparr>
      in bindh (stop_if (name = []) (badRequest ''name is required'')) (\<lambda>_.
         bindh (attempt (GetOnetimeCommand_m X name)) (\<lambda>found.
         (case found of
            Inr c \<Rightarrow> stop (taken c)
          | Inl e \<Rightarrow>
              bindh (stop_if (\<not> is_not_found e) internalError) (\<lambda>_.
              bindh (attempt (CreateOnetimeCommand_m X (w_now w) cmd)) (\<lambda>done.
              (case done of
                 Inl _ \<Rightarrow>
                   bindh (attempt (GetOnetimeCommand_m X name)) (\<lambda>again.
                   (case again of Inr c \<Rightarrow> stop (taken c) | Inl _ \<Rightarrow> stop internalError))
               | Inr _ \<Rightarrow>
                   bindh (record_change X w req 201 ''create'' ''onetime'' name 0 detail detail) (\<lambda>_.
                   reth (writeJSON 201 0 ''created'' (Some (onetimeToResp w (cmd\<lparr>oc_created := w_now w\<rparr>)))))))))))))"

definition GetOnetimeCommand_h :: "('d, 'f, 'r) services \<Rightarrow> world \<Rightarrow> ('d, 'f, 'r) handler" where
  "GetOnetimeCommand_h X w req = finish
     (bindh (need lookup_failed (GetOnetimeCommand_m X (rq_vars req ''name''))) (\<lambda>cmd.
      reth (ok_h (Some (onetimeToResp w cmd)))))"

text \<open>The snapshot a rollback restores the command from.\<close>

definition onetime_snapshot :: "OnetimeCommand \<Rightarrow> json" where
  "onetime_snapshot c = JObj [(''detail'', JStr (oc_detail c)), (''expire_time'', JNum (itoa (oc_expire c)))]"

definition DeleteOnetimeCommand_h :: "('d, 'f, 'r) services \<Rightarrow> world \<Rightarrow> ('d, 'f, 'r) handler" where
  "DeleteOnetimeCommand_h X w req = finish
     (let name = rq_vars req ''name''
      in bindh (need (\<lambda>e. if is_not_found e then ok_h None else internalError) (GetOnetimeCommand_m X name)) (\<lambda>cmd.
         bindh (need (\<lambda>_. internalError) (DeleteOnetimeCommand_m X name)) (\<lambda>_.
         bindh (record_change X w req 200 ''delete'' ''onetime'' name 0 (json_print (onetime_snapshot cmd)) []) (\<lambda>_.
         reth (ok_h None)))))"

end
