(* ===== verification/Admin_Groups.thy ===== *)
theory Admin_Groups
  imports Admin_Configs IP_Selector
begin

section \<open>Groups and agents over the admin API (internal/server/admin/handler.go)\<close>

text \<open>
  The handlers of agent groups: their tags, IP selectors, version constraints and assigned
  configurations, and the two handlers that read the agent registry. The structs of the data
  model carry no JSON names of their own, so their members are named as the Go fields are.
\<close>

subsection \<open>JSON of the data model\<close>

definition parse_uint :: "string \<Rightarrow> nat option" where
  "parse_uint s =
     (if s = [] \<or> \<not> list_all is_digit s then None
      else if dec_val s < 2 ^ 64 then Some (dec_val s) else None)"

fun fill_uint :: "nat \<Rightarrow> json list \<Rightarrow> nat option" where
  "fill_uint cur [] = Some cur"
| "fill_uint cur (JNum t # vs) = (case parse_uint t of None \<Rightarrow> None | Some n \<Rightarrow> fill_uint n vs)"
| "fill_uint cur (JNull # vs) = fill_uint cur vs"
| "fill_uint cur (_ # vs) = None"

fun fill_time :: "world \<Rightarrow> time \<Rightarrow> json list \<Rightarrow> time option" where
  "fill_time w cur [] = Some cur"
| "fill_time w cur (JStr s # vs) = (case w_time_parse w s of None \<Rightarrow> None | Some t \<Rightarrow> fill_time w t vs)"
| "fill_time w cur (JNull # vs) = fill_time w cur vs"
| "fill_time w cur (_ # vs) = None"

definition fill_group :: "world \<Rightarrow> json \<Rightarrow> AgentGroup option" where
  "fill_group w = fill_struct (\<lambda>kvs.
     (case (fill_string [] (members ''Name'' kvs), fill_string [] (members ''Description'' kvs),
            fill_string [] (members ''IPSelectorJSON'' kvs), fill_string [] (members ''VersionConstraint'' kvs),
            fill_time w time_zero (members ''CreatedAt'' kvs), fill_time w time_zero (members ''UpdatedAt'' kvs)) of
        (Some n, Some d, Some ip, Some v, Some c, Some u) \<Rightarrow>
          Some \<lparr>ag_name = n, ag_description = d, ag_ip_selector = ip, ag_version_constraint = v,
                ag_created = c, ag_updated = u\<rparr>
      | _ \<Rightarrow> None))"

definition fill_tag :: "(string \<times> json) list \<Rightarrow> AgentGroupTag option" where
  "fill_tag kvs =
     (case (fill_uint 0 (members ''ID'' kvs), fill_string [] (members ''GroupName'' kvs),
            fill_string [] (members ''TagName'' kvs), fill_string [] (members ''TagValue'' kvs)) of
        (Some i, Some g, Some n, Some v) \<Rightarrow> Some \<lparr>tag_id = i, tag_group = g, tag_name = n, tag_value = v\<rparr>
      | _ \<Rightarrow> None)"

definition fill_mapping :: "(string \<times> json) list \<Rightarrow> GroupConfigMapping option" where
  "fill_mapping kvs =
     (case (fill_string [] (members ''GroupName'' kvs), fill_string [] (members ''ConfigName'' kvs),
            fill_string [] (members ''ConfigType'' kvs)) of
        (Some g, Some n, Some t) \<Rightarrow> Some \<lparr>mp_group = g, mp_config = n, mp_type = t\<rparr>
      | _ \<Rightarrow> None)"

definition group_json :: "world \<Rightarrow> AgentGroup \<Rightarrow> json" where
  "group_json w g =
     JObj [(''Name'', JStr (ag_name g)), (''Description'', JStr (ag_description g)),
           (''IPSelectorJSON'', JStr (ag_ip_selector g)), (''VersionConstraint'', JStr (ag_version_constraint g)),
           (''CreatedAt'', JStr (w_time_json w (ag_created g))), (''UpdatedAt'', JStr (w_time_json w (ag_updated g)))]"

definition tag_row_json :: "AgentGroupTag \<Rightarrow> json" where
  "tag_row_json t =
     JObj [(''ID'', JNum (show_nat (tag_id t))), (''GroupName'', JStr (tag_group t)),
           (''TagName'', JStr (tag_name t)), (''TagValue'', JStr (tag_value t))]"

definition mapping_json :: "GroupConfigMapping \<Rightarrow> json" where
  "mapping_json m =
     JObj [(''GroupName'', JStr (mp_group m)), (''ConfigName'', JStr (mp_config m)),
           (''ConfigType'', JStr (mp_type m))]"

text \<open>A slice that is nil after an error is \<open>null\<close>.\<close>

definition slice_json :: "('a \<Rightarrow> json) \<Rightarrow> err + 'a list \<Rightarrow> json" where
  "slice_json f r = (case r of Inl _ \<Rightarrow> JNull | Inr xs \<Rightarrow> JArr (map f xs))"

subsection \<open>Groups\<close>

definition ListGroups_h :: "('d, 'f, 'r) services \<Rightarrow> world \<Rightarrow> ('d, 'f, 'r) handler" where
  "ListGroups_h X w req = finish
     (bindh (need (\<lambda>_. internalError) (ListGroups_m X)) (\<lambda>groups.
      reth (ok_h (Some (JArr (map (group_json w) groups))))))"

text \<open>
  An IP selector given with the group is normalised. Its second error is dropped by the
  code; it cannot occur, since the selector was just parsed. GORM fills the times that are
  zero.
\<close>

definition normal_selector :: "world \<Rightarrow> string \<Rightarrow> string + string" where
  "normal_selector w raw =
     (if raw = [] then Inr []
      else
        (case ParseIPSelectorJSON raw of
           Inl e \<Rightarrow> Inl (w_error_text w e)
         | Inr selector \<Rightarrow> Inr (case MarshalIPSelector selector of Inl _ \<Rightarrow> [] | Inr s \<Rightarrow> s)))"

definition version_problem :: "world \<Rightarrow> string \<Rightarrow> string option" where
  "version_problem w c =
     map_option (\<lambda>e. ''invalid version_constraint: '' @ w_error_text w e) (ValidateVersionConstraint c)"

definition created_now :: "world \<Rightarrow> AgentGroup \<Rightarrow> AgentGroup" where
  "created_now w g =
     g\<lparr>ag_created := (if ag_created g = time_zero then w_now w else ag_created g),
       ag_updated := (if ag_updated g = time_zero then w_now w else ag_updated g)\<rparr>"

definition CreateGroup_h :: "('d, 'f, 'r) services \<Rightarrow> world \<Rightarrow> ('d, 'f, 'r) handler" where
  "CreateGroup_h X w req = finish
     (bindh (readJSON w (fill_group w) req) (\<lambda>g0.
      bindh (stop_if (ag_name g0 = []) (badRequest ''name is required'')) (\<lambda>_.
      bindh (stop_if (ag_name g0 = DefaultGroupName)
               (badRequest (w_quote w DefaultGroupName @ '' is a reserved built-in group''))) (\<lambda>_.
      (case normal_selector w (ag_ip_selector g0) of
         Inl msg \<Rightarrow> stop (badRequest msg)
       | Inr ip \<Rightarrow>
           let g = g0\<lparr>ag_ip_selector := ip\<rparr>
           in bindh (need_valid (version_problem w (ag_version_constraint g))) (\<lambda>_.
              bindh (need (\<lambda>_. internalError) (CreateGroup_m X g)) (\<lambda>_.
              bindh (record_change X w req 201 ''create'' ''group'' (ag_name g) 0 []
                       (''description='' @ w_quote w (ag_description g))) (\<lambda>_.
              reth (writeJSON 201 0 ''created'' (Some (group_json w (created_now w g))))))))))))"

definition GetGroup_h :: "('d, 'f, 'r) services \<Rightarrow> world \<Rightarrow> ('d, 'f, 'r) handler" where
  "GetGroup_h X w req = finish
     (bindh (need lookup_failed (GetGroup_m X (rq_vars req ''name''))) (\<lambda>g.
      reth (ok_h (Some (group_json w g)))))"

text \<open>\<open>Save\<close> sets the time of the update in the struct.\<close>

definition touched :: "world \<Rightarrow> AgentGroup \<Rightarrow> AgentGroup" where
  "touched w g = g\<lparr>ag_updated := w_now w\<rparr>"

definition UpdateGroup_h :: "('d, 'f, 'r) services \<Rightarrow> world \<Rightarrow> ('d, 'f, 'r) handler" where
  "UpdateGroup_h X w req = finish
     (let name = rq_vars req ''name''
      in bindh (readJSON w (string_field ''description'') req) (\<lambda>description.
         bindh (need lookup_failed (GetGroup_m X name)) (\<lambda>g0.
         let g = g0\<lparr>ag_description := description\<rparr>
         in bindh (need (\<lambda>_. internalError) (UpdateGroup_m X g)) (\<lambda>_.
            bindh (record_change X w req 200 ''update'' ''group'' name 0 []
                     (''description='' @ w_quote w description)) (\<lambda>_.
            reth (ok_h (Some (group_json w (touched w g)))))))))"

text \<open>The snapshot of a deleted group; what could not be read is left out.\<close>

definition group_snapshot :: "err + AgentGroup \<Rightarrow> err + AgentGroupTag list \<Rightarrow> err + GroupConfigMapping list \<Rightarrow> json" where
  "group_snapshot g tags cfgs =
     (let (description, ip, constraint) =
            (case g of
               Inl _ \<Rightarrow> ([], [], [])
             | Inr r \<Rightarrow> (ag_description r, ag_ip_selector r, ag_version_constraint r))
      in JObj [(''description'', JStr description), (''ip_selector_json'', JStr ip),
               (''version_constraint'', JStr constraint), (''tags'', slice_json tag_row_json tags),
               (''configs'', slice_json mapping_json cfgs)])"

definition DeleteGroup_h :: "('d, 'f, 'r) services \<Rightarrow> world \<Rightarrow> ('d, 'f, 'r) handler" where
  "DeleteGroup_h X w req = finish
     (let name = rq_vars req ''name''
      in bindh (stop_if (name = DefaultGroupName)
                 (badRequest (w_quote w DefaultGroupName @ '' is a built-in group and cannot be deleted''))) (\<lambda>_.
         bindh (attempt (GetGroup_m X name)) (\<lambda>g.
         bindh (attempt (GetGroupTags_m X name)) (\<lambda>tags.
         bindh (attempt (GetGroupConfigs_m X name)) (\<lambda>cfgs.
         bindh (need (\<lambda>_. internalError) (DeleteGroup_m X name)) (\<lambda>_.
         bindh (record_change X w req 200 ''delete'' ''group'' name 0
                  (json_print (group_snapshot g tags cfgs)) []) (\<lambda>_.
         reth (ok_h None))))))))"

subsection \<open>IP selectors and version constraints\<close>

definition GetGroupIPSelector_h :: "('d, 'f, 'r) services \<Rightarrow> world \<Rightarrow> ('d, 'f, 'r) handler" where
  "GetGroupIPSelector_h X w req = finish
     (bindh (need lookup_failed (GetGroup_m X (rq_vars req ''name''))) (\<lambda>g.
      (case ParseIPSelectorJSON (ag_ip_selector g) of
         Inl _ \<Rightarrow> stop internalError
       | Inr selector \<Rightarrow> reth (ok_h (Some (ip_selector_json selector))))))"

text \<open>
  The rules of the request, and whether the slice is nil (no member, or \<open>null\<close> in the last
  one), as the reply echoes it.
\<close>

definition fill_selector_request :: "json \<Rightarrow> (AgentGroupIPSelector \<times> json) option" where
  "fill_selector_request = fill_struct (\<lambda>kvs.
     map_option (\<lambda>selector.
         (selector, if members ''ips'' kvs = [] \<or> last (members ''ips'' kvs) = JNull then JObj [(''ips'', JNull)]
                    else ip_selector_json selector))
       (fill_ip_selector kvs))"

definition or_cleared :: "string \<Rightarrow> string" where
  "or_cleared s = (if s = [] then ''(cleared)'' else s)"

definition SetGroupIPSelector_h :: "('d, 'f, 'r) services \<Rightarrow> world \<Rightarrow> ('d, 'f, 'r) handler" where
  "SetGroupIPSelector_h X w req = finish
     (let name = rq_vars req ''name''
      in bindh (readJSON w fill_selector_request req) (\<lambda>(selector, echo).
         (case MarshalIPSelector selector of
            Inl e \<Rightarrow> stop (badRequest (w_error_text w e))
          | Inr selectorJSON \<Rightarrow>
              bindh (need lookup_failed (GetGroup_m X name)) (\<lambda>g.
              bindh (need (\<lambda>_. internalError) (UpdateGroup_m X (g\<lparr>ag_ip_selector := selectorJSON\<rparr>))) (\<lambda>_.
              bindh (record_change X w req 200 ''set_ip_selector'' ''group'' name 0 (ag_ip_selector g)
                       (or_cleared selectorJSON)) (\<lambda>_.
              reth (ok_h (Some echo))))))))"

definition DeleteGroupIPSelector_h :: "('d, 'f, 'r) services \<Rightarrow> world \<Rightarrow> ('d, 'f, 'r) handler" where
  "DeleteGroupIPSelector_h X w req = finish
     (let name = rq_vars req ''name''
      in bindh (need lookup_failed (GetGroup_m X name)) (\<lambda>g.
         bindh (need (\<lambda>_. internalError) (UpdateGroup_m X (g\<lparr>ag_ip_selector := []\<rparr>))) (\<lambda>_.
         bindh (record_change X w req 200 ''set_ip_selector'' ''group'' name 0 (ag_ip_selector g) ''(cleared)'') (\<lambda>_.
         reth (ok_h (Some (ip_selector_json \<lparr>IPs = []\<rparr>)))))))"

definition SetGroupVersionConstraint_h :: "('d, 'f, 'r) services \<Rightarrow> world \<Rightarrow> ('d, 'f, 'r) handler" where
  "SetGroupVersionConstraint_h X w req = finish
     (let name = rq_vars req ''name''
      in bindh (readJSON w (string_field ''version_constraint'') req) (\<lambda>constraint.
         bindh (need_valid (version_problem w constraint)) (\<lambda>_.
         bindh (need lookup_failed (GetGroup_m X name)) (\<lambda>g0.
         let g = g0\<lparr>ag_version_constraint := constraint\<rparr>
         in bindh (need (\<lambda>_. internalError) (UpdateGroup_m X g)) (\<lambda>_.
            bindh (record_change X w req 200 ''set_version_constraint'' ''group'' name 0
                     (ag_version_constraint g0) constraint) (\<lambda>_.
            reth (ok_h (Some (group_json w (touched w g))))))))))"

subsection \<open>Tags\<close>

definition GetGroupTags_h :: "('d, 'f, 'r) services \<Rightarrow> ('d, 'f, 'r) handler" where
  "GetGroupTags_h X req = finish
     (bindh (need (\<lambda>_. internalError) (GetGroupTags_m X (rq_vars req ''name''))) (\<lambda>tags.
      reth (ok_h (Some (JArr (map tag_row_json tags))))))"

text \<open>A list of pointers to tags. The store dereferences each: \<open>null\<close> panics in its
  transaction, which is rolled back: to panic before it is the same.\<close>

definition fill_tags :: "json \<Rightarrow> AgentGroupTag option list option" where
  "fill_tags j = fill_list (fill_pointer fill_tag) [] [j]"

definition set_tags ::
  "('d, 'f, 'r) services \<Rightarrow> string \<Rightarrow> AgentGroupTag option list \<Rightarrow> (('d, 'f, 'r) adm, AgentGroupTag list) step" where
  "set_tags X name ts =
     bindh (present Panicked (those ts)) (\<lambda>tags.
     bindh (need (\<lambda>_. internalError) (SetGroupTags_m X name tags)) (\<lambda>_.
     reth tags))"

text \<open>The structs the store has filled in: the group, and the ids of the new rows.\<close>

definition stored_tags :: "world \<Rightarrow> string \<Rightarrow> AgentGroupTag list \<Rightarrow> AgentGroupTag list" where
  "stored_tags w name ts =
     map (\<lambda>(i, t). t\<lparr>tag_group := name, tag_id := (if tag_id t = 0 then w_new_id w i else tag_id t)\<rparr>)
       (enumerate 0 ts)"

definition tags_summary :: "AgentGroupTag list \<Rightarrow> string" where
  "tags_summary ts = or_cleared (join (map (\<lambda>t. tag_name t @ ''='' @ tag_value t) ts) '', '')"

text \<open>The reply echoes the list; JSON \<open>null\<close> is a nil slice.\<close>

definition SetGroupTags_h :: "('d, 'f, 'r) services \<Rightarrow> world \<Rightarrow> ('d, 'f, 'r) handler" where
  "SetGroupTags_h X w req = finish
     (let name = rq_vars req ''name''
      in bindh (readJSON w (\<lambda>j. map_option (\<lambda>ts. (ts, j = JNull)) (fill_tags j)) req) (\<lambda>(ts, is_nil).
         bindh (attempt (GetGroupTags_m X name)) (\<lambda>old.
         bindh (set_tags X name ts) (\<lambda>tags.
         bindh (record_change X w req 200 ''set_tags'' ''group'' name 0
                  (json_print (slice_json tag_row_json old)) (tags_summary tags)) (\<lambda>_.
         reth (ok_h (Some (if is_nil then JNull
                           else JArr (map tag_row_json (stored_tags w name tags))))))))))"

subsection \<open>Assigned configurations\<close>

definition GetGroupConfigs_h :: "('d, 'f, 'r) services \<Rightarrow> ('d, 'f, 'r) handler" where
  "GetGroupConfigs_h X req = finish
     (bindh (need (\<lambda>_. internalError) (GetGroupConfigs_m X (rq_vars req ''name''))) (\<lambda>cfgs.
      reth (ok_h (Some (JArr (map mapping_json cfgs))))))"

definition AddGroupConfig_h :: "('d, 'f, 'r) services \<Rightarrow> world \<Rightarrow> ('d, 'f, 'r) handler" where
  "AddGroupConfig_h X w req = finish
     (let grp = rq_vars req ''name''; ct = rq_vars req ''type''; config = rq_vars req ''configName'';
          detailRef = ct @ ''/'' @ config
      in bindh (stop_if (ct \<noteq> ConfigTypePipeline \<and> ct \<noteq> ConfigTypeInstance \<and> ct \<noteq> ConfigTypeOnetime)
                 (badRequest ''type must be pipeline, instance, or onetime'')) (\<lambda>_.
         bindh (need (\<lambda>_. internalError)
                 (AddGroupConfig_m X \<lparr>mp_group = grp, mp_config = config, mp_type = ct\<rparr>)) (\<lambda>_.
         bindh (record_change X w req 200 ''add_config'' ''group'' grp 0 detailRef detailRef) (\<lambda>_.
         reth (ok_h None)))))"

definition RemoveGroupConfig_h :: "('d, 'f, 'r) services \<Rightarrow> world \<Rightarrow> ('d, 'f, 'r) handler" where
  "RemoveGroupConfig_h X w req = finish
     (let grp = rq_vars req ''name''; ct = rq_vars req ''type''; config = rq_vars req ''configName'';
          detailRef = ct @ ''/'' @ config
      in bindh (need (\<lambda>_. internalError) (RemoveGroupConfig_m X grp config ct)) (\<lambda>_.
         bindh (record_change X w req 200 ''remove_config'' ''group'' grp 0 detailRef detailRef) (\<lambda>_.
         reth (ok_h None))))"

subsection \<open>Agents\<close>

definition agent_json :: "world \<Rightarrow> Agent \<Rightarrow> json" where
  "agent_json w a =
     JObj [(''InstanceID'', JStr (a_instance a)), (''AgentType'', JStr (a_type a)), (''IP'', JStr (a_ip a)),
           (''Hostname'', JStr (a_hostname a)), (''Hostid'', JStr (a_hostid a)), (''Version'', JStr (a_version a)),
           (''AttributesJSON'', JStr (a_attributes_json a)), (''TagsJSON'', JStr (a_tags_json a)),
           (''RunningStatus'', JStr (a_running_status a)), (''StartupTime'', JNum (itoa (a_startup a))),
           (''SequenceNum'', JNum (show_nat (a_seq a))), (''Capabilities'', JNum (show_nat (a_capabilities a))),
           (''LastHeartbeat'', JStr (w_time_json w (a_last_heartbeat a))),
           (''CreatedAt'', JStr (w_time_json w (a_created a))), (''UpdatedAt'', JStr (w_time_json w (a_updated a)))]"

definition status_json :: "world \<Rightarrow> AgentConfigStatus \<Rightarrow> json" where
  "status_json w st =
     JObj [(''InstanceID'', JStr (st_instance st)), (''ConfigName'', JStr (st_config st)),
           (''ConfigType'', JStr (st_type st)), (''Status'', JNum (itoa (st_status st))),
           (''Message'', JStr (st_message st)), (''UpdatedAt'', JStr (w_time_json w (st_updated st)))]"

text \<open>The page and its size from the query; a failed \<open>Atoi\<close> leaves its value.\<close>

definition query_page :: "hreq \<Rightarrow> int" where
  "query_page req = (let page = fst (atoi (rq_query req ''page'')) in if page < 1 then 1 else page)"

definition query_page_size :: "hreq \<Rightarrow> int" where
  "query_page_size req =
     (let size = fst (atoi (rq_query req ''page_size'')) in if size < 1 \<or> size > 500 then 50 else size)"

definition ListAgents_h :: "('d, 'f, 'r) services \<Rightarrow> world \<Rightarrow> ('d, 'f, 'r) handler" where
  "ListAgents_h X w req = finish
     (bindh (need (\<lambda>_. internalError)
         (ListAgentsPaged_m (w_lower w) (w_agent_order w) X (rq_query req ''group'') (query_page req)
            (query_page_size req) (rq_query req ''search''))) (\<lambda>result.
      bindh (present Panicked result) (\<lambda>(agents, total).
      reth (ok_h (Some (JObj
        [(''agents'', JArr (map (agent_json w) agents)), (''total'', JNum (itoa total)),
         (''page'', JNum (itoa (query_page req))), (''page_size'', JNum (itoa (query_page_size req)))]))))))"

text \<open>In memory the slice of statuses stays nil when there are none.\<close>

definition statuses_json :: "world \<Rightarrow> bool \<Rightarrow> err + AgentConfigStatus list \<Rightarrow> json" where
  "statuses_json w in_memory r =
     (if in_memory \<and> r = Inr [] then JNull else slice_json (status_json w) r)"

definition GetAgent_h :: "('d, 'f, 'r) services \<Rightarrow> world \<Rightarrow> ('d, 'f, 'r) handler" where
  "GetAgent_h X w req s = finish
     (let i = rq_vars req ''instanceID''
      in bindh (need lookup_failed (GetAgent_m X i)) (\<lambda>agent.
         bindh (attempt (GetAgentConfigStatuses_m (w_status_order w) X i)) (\<lambda>statuses.
         reth (ok_h (Some (JObj
           [(''agent'', agent_json w agent),
            (''config_statuses'', statuses_json w (m_rdb (s_mgr s) = None) statuses)])))))) s"

end
