(* ===== verification/Admin_History.thy ===== *)
theory Admin_History
  imports Admin_Groups
begin

section \<open>History, rollback and audit log (internal/server/admin/handler.go)\<close>

text \<open>
  Listing the history of a resource and the recycle bin, restoring an entry of the history,
  and listing the audit log. A rollback reads its snapshot from the history entry: the
  content of a configuration, or JSON for groups, tags and one-time commands.
\<close>

subsection \<open>Listing\<close>

definition history_json :: "world \<Rightarrow> ConfigHistory \<Rightarrow> json" where
  "history_json w h =
     JObj [(''id'', JNum (show_nat (ch_id h))), (''resource_type'', JStr (ch_resource_type h)),
           (''resource_name'', JStr (ch_resource_name h)), (''version'', JNum (itoa (ch_version h))),
           (''action'', JStr (ch_action h)), (''detail'', JStr (ch_detail h)),
           (''changed_by'', JStr (ch_changed_by h)), (''changed_at'', JStr (w_time_text w (ch_changed_at h)))]"

definition ListConfigHistory_h :: "('d, 'f, 'r) services \<Rightarrow> world \<Rightarrow> ('d, 'f, 'r) handler" where
  "ListConfigHistory_h X w req = finish
     (bindh (need (\<lambda>_. internalError) (ListConfigHistory_m X (rq_vars req ''type'') (rq_vars req ''name''))) (\<lambda>hs.
      reth (ok_h (Some (JArr (map (history_json w) hs))))))"

definition ListDeletedHistory_h :: "('d, 'f, 'r) services \<Rightarrow> world \<Rightarrow> ('d, 'f, 'r) handler" where
  "ListDeletedHistory_h X w req = finish
     (bindh (need (\<lambda>_. internalError) (ListDeletedConfigs_m X (rq_vars req ''type''))) (\<lambda>hs.
      reth (ok_h (Some (JArr (map (history_json w) hs))))))"

definition audit_json :: "world \<Rightarrow> AuditLog \<Rightarrow> json" where
  "audit_json w a =
     JObj [(''id'', JNum (show_nat (al_id a))), (''username'', JStr (al_username a)), (''action'', JStr (al_action a)),
           (''resource_type'', JStr (al_resource_type a)), (''resource_name'', JStr (al_resource_name a)),
           (''detail'', JStr (al_detail a)), (''client_ip'', JStr (al_client_ip a)),
           (''created_at'', JStr (w_time_text w (al_created a)))]"

text \<open>The offset is an \<open>int\<close> and wraps; GORM leaves out an offset that is not positive.\<close>

definition ListAuditLogs_h :: "('d, 'f, 'r) services \<Rightarrow> world \<Rightarrow> ('d, 'f, 'r) handler" where
  "ListAuditLogs_h X w req = finish
     (let page = query_page req; pageSize = query_page_size req;
          offset = wrap64 (wrap64 (page - 1) * pageSize)
      in bindh (need (\<lambda>_. internalError) (ListAuditLogs_m X (nat pageSize) (nat offset))) (\<lambda>(logs, total).
         reth (ok_h (Some (JObj
           [(''logs'', JArr (map (audit_json w) logs)), (''page'', JNum (itoa page)),
            (''page_size'', JNum (itoa pageSize)), (''total'', JNum (show_nat total))])))))"

subsection \<open>Snapshots\<close>

text \<open>\<open>strings.SplitN(s, "/", 2)\<close> where it gives two parts.\<close>

definition split_ref :: "string \<Rightarrow> (string \<times> string) option" where
  "split_ref s = map_option (\<lambda>i. (take i s, drop (i + 1) s)) (index_byte (CHR ''/'') s)"

record groupSnapshot =
  gs_description :: string
  gs_ip_selector :: string
  gs_version_constraint :: string
  gs_tags :: "AgentGroupTag option list"
  gs_configs :: "GroupConfigMapping option list"

definition fill_snapshot :: "json \<Rightarrow> groupSnapshot option" where
  "fill_snapshot = fill_struct (\<lambda>kvs.
     (case (fill_string [] (members ''description'' kvs), fill_string [] (members ''ip_selector_json'' kvs),
            fill_string [] (members ''version_constraint'' kvs),
            fill_list (fill_pointer fill_tag) [] (members ''tags'' kvs),
            fill_list (fill_pointer fill_mapping) [] (members ''configs'' kvs)) of
        (Some d, Some ip, Some v, Some ts, Some cs) \<Rightarrow>
          Some \<lparr>gs_description = d, gs_ip_selector = ip, gs_version_constraint = v, gs_tags = ts, gs_configs = cs\<rparr>
      | _ \<Rightarrow> None))"

definition fill_onetime_snapshot :: "json \<Rightarrow> (string \<times> int) option" where
  "fill_onetime_snapshot = fill_struct (\<lambda>kvs.
     (case (fill_string [] (members ''detail'' kvs), fill_int 0 (members ''expire_time'' kvs)) of
        (Some d, Some e) \<Rightarrow> Some (d, e)
      | _ \<Rightarrow> None))"

text \<open>\<open>json.Unmarshal\<close> of a snapshot, its error reported after \<open>what\<close>.\<close>

definition unmarshal :: "world \<Rightarrow> string \<Rightarrow> (json \<Rightarrow> 'a option) \<Rightarrow> bytes \<Rightarrow> ('s, 'a) step" where
  "unmarshal w what fill raw =
     (case Option.bind (json_parse raw) fill of
        None \<Rightarrow> stop (badRequest (''cannot parse '' @ what @ '': '' @ w_json_error w raw))
      | Some x \<Rightarrow> reth x)"

subsection \<open>Rollback\<close>

text \<open>Each branch returns \<open>oldDetail\<close>, what the history entry of the rollback will hold.\<close>

definition rollback_config ::
  "world \<Rightarrow> ('d, 'f, 'r) config_kind \<Rightarrow> string \<Rightarrow> ConfigHistory \<Rightarrow> (('d, 'f, 'r) adm, bytes) step" where
  "rollback_config w K name entry =
     bindh (attempt (ck_get K name)) (\<lambda>found.
     (case found of
        Inl e \<Rightarrow>
          if \<not> is_not_found e then stop internalError
          else
            bindh (need (\<lambda>_. internalError) (ck_create K
              \<lparr>cf_name = name, cf_version = unix_milli (w_now w), cf_detail = ch_detail entry,
               cf_created = time_zero, cf_updated = time_zero\<rparr>)) (\<lambda>_. reth [])
      | Inr cfg \<Rightarrow>
          bindh (need (\<lambda>_. internalError) (ck_update K (w_now w)
            (cfg\<lparr>cf_detail := ch_detail entry, cf_version := unix_milli (w_now w)\<rparr>))) (\<lambda>_. reth (cf_detail cfg))))"

definition rollback_group_field ::
  "('d, 'f, 'r) services \<Rightarrow> string \<Rightarrow> (AgentGroup \<Rightarrow> string) \<Rightarrow> (AgentGroup \<Rightarrow> AgentGroup) \<Rightarrow>
   (('d, 'f, 'r) adm, unit) step \<Rightarrow> (('d, 'f, 'r) adm, bytes) step" where
  "rollback_group_field X name field change check =
     bindh (need lookup_failed (GetGroup_m X name)) (\<lambda>g.
     bindh check (\<lambda>_.
     bindh (need (\<lambda>_. internalError) (UpdateGroup_m X (change g))) (\<lambda>_.
     reth (field g))))"

text \<open>The assignments are removed and restored one by one, errors ignored.\<close>

fun remove_mappings ::
  "('d, 'f, 'r) services \<Rightarrow> string \<Rightarrow> GroupConfigMapping list \<Rightarrow> (('d, 'f, 'r) adm, unit) step" where
  "remove_mappings X name [] = reth ()"
| "remove_mappings X name (c # cs) =
     bindh (attempt (RemoveGroupConfig_m X name (mp_config c) (mp_type c))) (\<lambda>_. remove_mappings X name cs)"

fun add_mappings ::
  "('d, 'f, 'r) services \<Rightarrow> string \<Rightarrow> GroupConfigMapping option list \<Rightarrow> (('d, 'f, 'r) adm, unit) step" where
  "add_mappings X name [] = reth ()"
| "add_mappings X name (c # cs) =
     bindh (present Panicked c) (\<lambda>m.
     bindh (attempt (AddGroupConfig_m X (m\<lparr>mp_group := name\<rparr>))) (\<lambda>_. add_mappings X name cs))"

definition restore_group ::
  "('d, 'f, 'r) services \<Rightarrow> string \<Rightarrow> groupSnapshot \<Rightarrow> (('d, 'f, 'r) adm, unit) step" where
  "restore_group X name snap =
     bindh (attempt (GetGroup_m X name)) (\<lambda>found.
     bindh (case found of
              Inl e \<Rightarrow>
                if \<not> is_not_found e then stop internalError
                else need (\<lambda>_. internalError) (CreateGroup_m X
                  \<lparr>ag_name = name, ag_description = gs_description snap, ag_ip_selector = gs_ip_selector snap,
                   ag_version_constraint = gs_version_constraint snap, ag_created = time_zero,
                   ag_updated = time_zero\<rparr>)
            | Inr g \<Rightarrow>
                bindh (need (\<lambda>_. internalError) (UpdateGroup_m X
                  (g\<lparr>ag_description := gs_description snap, ag_ip_selector := gs_ip_selector snap,
                     ag_version_constraint := gs_version_constraint snap\<rparr>))) (\<lambda>_.
                bindh (attempt (GetGroupConfigs_m X name)) (\<lambda>current.
                (case current of
                   Inl _ \<Rightarrow> reth ()
                 | Inr cs \<Rightarrow> remove_mappings X name cs)))) (\<lambda>_.
     bindh (if gs_tags snap = [] then reth [] else set_tags X name (gs_tags snap)) (\<lambda>_.
     add_mappings X name (gs_configs snap))))"

definition rollback_group ::
  "('d, 'f, 'r) services \<Rightarrow> world \<Rightarrow> string \<Rightarrow> ConfigHistory \<Rightarrow> (('d, 'f, 'r) adm, bytes) step" where
  "rollback_group X w name entry =
     (let detail = ch_detail entry; action = ch_action entry
      in if action = ''set_version_constraint'' then
           rollback_group_field X name ag_version_constraint (ag_version_constraint_update (\<lambda>_. detail)) (reth ())
         else if action = ''set_ip_selector'' then
           rollback_group_field X name ag_ip_selector (ag_ip_selector_update (\<lambda>_. detail))
             (if detail = [] then reth ()
              else
                (case ParseIPSelectorJSON detail of
                   Inl e \<Rightarrow> stop (badRequest (''cannot parse stored ip selector: '' @ w_error_text w e))
                 | Inr _ \<Rightarrow> reth ()))
         else if action = ''set_tags'' then
           bindh (unmarshal w ''stored tags'' fill_tags detail) (\<lambda>ts.
           bindh (attempt (GetGroupTags_m X name)) (\<lambda>current.
           bindh (set_tags X name ts) (\<lambda>_.
           reth (json_print (slice_json tag_row_json current)))))
         else if action = ''add_config'' then
           bindh (present (badRequest ''invalid add_config detail'') (split_ref detail)) (\<lambda>(ct, config).
           bindh (need (\<lambda>_. internalError) (RemoveGroupConfig_m X name config ct)) (\<lambda>_.
           reth detail))
         else if action = ''remove_config'' then
           bindh (present (badRequest ''invalid remove_config detail'') (split_ref detail)) (\<lambda>(ct, config).
           bindh (need (\<lambda>_. internalError)
                   (AddGroupConfig_m X \<lparr>mp_group = name, mp_config = config, mp_type = ct\<rparr>)) (\<lambda>_.
           reth detail))
         else if action = ''delete'' then
           bindh (unmarshal w ''group snapshot'' fill_snapshot detail) (\<lambda>snap.
           bindh (restore_group X name snap) (\<lambda>_.
           reth detail))
         else stop (badRequest (''rollback not supported for group action: '' @ action)))"

definition rollback_onetime ::
  "('d, 'f, 'r) services \<Rightarrow> world \<Rightarrow> string \<Rightarrow> ConfigHistory \<Rightarrow> (('d, 'f, 'r) adm, bytes) step" where
  "rollback_onetime X w name entry =
     (if ch_action entry \<noteq> ''delete'' then
        stop (badRequest (''rollback not supported for onetime action: '' @ ch_action entry))
      else
        bindh (unmarshal w ''onetime snapshot'' fill_onetime_snapshot (ch_detail entry)) (\<lambda>(detail, expire).
        bindh (attempt (GetOnetimeCommand_m X name)) (\<lambda>found.
        bindh (case found of
                 Inl _ \<Rightarrow> reth ()
               | Inr _ \<Rightarrow> need (\<lambda>_. internalError) (DeleteOnetimeCommand_m X name)) (\<lambda>_.
        bindh (need (\<lambda>_. internalError) (CreateOnetimeCommand_m X (w_now w)
                 \<lparr>oc_name = name, oc_version = unix_milli (w_now w), oc_detail = detail, oc_expire = expire,
                  oc_created = time_zero\<rparr>)) (\<lambda>_.
        reth [])))))"

definition rollback_of ::
  "('d, 'f, 'r) services \<Rightarrow> world \<Rightarrow> string \<Rightarrow> string \<Rightarrow> ConfigHistory \<Rightarrow> (('d, 'f, 'r) adm, bytes) step" where
  "rollback_of X w resourceType name entry =
     (if resourceType = ''pipeline'' then rollback_config w (pipeline_kind X) name entry
      else if resourceType = ''instance'' then rollback_config w (instance_kind X) name entry
      else if resourceType = ''group'' then rollback_group X w name entry
      else if resourceType = ''onetime'' then rollback_onetime X w name entry
      else stop (badRequest (''rollback not supported for type: '' @ resourceType)))"

definition RollbackConfig_h :: "('d, 'f, 'r) services \<Rightarrow> world \<Rightarrow> ('d, 'f, 'r) handler" where
  "RollbackConfig_h X w req = finish
     (let resourceType = rq_vars req ''type''; name = rq_vars req ''name''
      in bindh (present (badRequest ''invalid id'') (parse_uint (rq_vars req ''id''))) (\<lambda>i.
         bindh (need (\<lambda>_. internalError) (GetConfigHistoryByID_m X i)) (\<lambda>entry.
         bindh (stop_if (ch_resource_type entry \<noteq> resourceType \<or> ch_resource_name entry \<noteq> name) notFound) (\<lambda>_.
         bindh (stop_if (ch_detail entry = []) (badRequest ''cannot rollback to a deleted version'')) (\<lambda>_.
         bindh (rollback_of X w resourceType name entry) (\<lambda>oldDetail.
         bindh (record_change X w req 200 ''rollback'' resourceType name (unix_milli (w_now w)) oldDetail
                  (''to_history_id='' @ show_nat i @ newline @ ch_detail entry)) (\<lambda>_.
         reth (ok_h None))))))))"

end
