(* ===== verification/Admin_Canary.thy ===== *)
theory Admin_Canary
  imports Admin_History Canary_Rules
begin

section \<open>Canary releases over the admin API (internal/server/admin/handler.go)\<close>

text \<open>
  The life of a canary release: created rolling, paused and resumed, its content and targeting
  changed, and in the end promoted into the stable configuration or aborted; and two views of
  which agents receive it.
\<close>

subsection \<open>Replies\<close>

definition canary_tag_json :: "CanaryTag \<Rightarrow> json" where
  "canary_tag_json t = JObj [(''name'', JStr (ct_name t)), (''value'', JStr (ct_value t))]"

definition selector_ips :: "CanaryRelease \<Rightarrow> string list" where
  "selector_ips cr =
     (if cr_ip_selector cr = [] then []
      else (case ParseIPSelectorJSON (cr_ip_selector cr) of Inl _ \<Rightarrow> [] | Inr sel \<Rightarrow> IPs sel))"

definition selector_tags :: "CanaryRelease \<Rightarrow> CanaryTag list" where
  "selector_tags cr =
     (if cr_tag_selector cr = [] then []
      else
        (case Option.bind (json_parse (cr_tag_selector cr)) (fill_struct fill_tag_selector) of
           None \<Rightarrow> []
         | Some sel \<Rightarrow> cts_tags sel))"

text \<open>The members marked \<open>omitempty\<close>.\<close>

definition unless_empty :: "'a list \<Rightarrow> string \<Rightarrow> json \<Rightarrow> (string \<times> json) list" where
  "unless_empty xs name j = (if xs = [] then [] else [(name, j)])"

definition canaryToResp :: "world \<Rightarrow> CanaryRelease \<Rightarrow> json" where
  "canaryToResp w cr =
     JObj ([(''config_name'', JStr (cr_config cr)), (''config_type'', JStr (cr_type cr)),
            (''canary_detail'', JStr (cr_detail cr)), (''canary_version'', JNum (itoa (cr_version cr))),
            (''rollout_percent'', JNum (itoa (cr_percent cr)))] @
           unless_empty (cr_version_constraint cr) ''version_constraint'' (JStr (cr_version_constraint cr)) @
           unless_empty (selector_ips cr) ''ip_selector'' (JArr (map JStr (selector_ips cr))) @
           unless_empty (selector_tags cr) ''tag_selector'' (JArr (map canary_tag_json (selector_tags cr))) @
           [(''status'', JStr (cr_status cr))] @
           unless_empty (cr_created_by cr) ''created_by'' (JStr (cr_created_by cr)) @
           [(''created_at'', JStr (w_time_text w (cr_created cr))),
            (''updated_at'', JStr (w_time_text w (cr_updated cr)))])"

definition configTypeFromPath :: "string \<Rightarrow> string option" where
  "configTypeFromPath raw =
     (if raw = ''pipeline'' then Some ConfigTypePipeline
      else if raw = ''instance'' then Some ConfigTypeInstance
      else None)"

definition need_type :: "hreq \<Rightarrow> ('s, string) step" where
  "need_type req =
     present (badRequest (''type must be '' @ [CHR 0x27] @ ''pipeline'' @ [CHR 0x27] @ '' or '' @
       [CHR 0x27] @ ''instance'' @ [CHR 0x27])) (configTypeFromPath (rq_vars req ''type''))"

definition sq :: "string \<Rightarrow> string" where
  "sq s = [CHR 0x27] @ s @ [CHR 0x27]"

subsection \<open>The body of a canary\<close>

record canary_body =
  cb_detail :: string
  cb_percent :: int
  cb_version_constraint :: string
  cb_ips :: "string list"
  cb_tags :: "CanaryTag list"

definition fill_canary :: "json \<Rightarrow> canary_body option" where
  "fill_canary = fill_struct (\<lambda>kvs.
     (case (fill_string [] (members ''canary_detail'' kvs), fill_int 0 (members ''rollout_percent'' kvs),
            fill_string [] (members ''version_constraint'' kvs),
            fill_list string_elem [] (members ''ip_selector'' kvs),
            fill_list (fill_struct fill_canary_tag) [] (members ''tag_selector'' kvs)) of
        (Some d, Some p, Some v, Some ips, Some ts) \<Rightarrow>
          Some \<lparr>cb_detail = d, cb_percent = p, cb_version_constraint = v, cb_ips = ips, cb_tags = ts\<rparr>
      | _ \<Rightarrow> None))"

definition percent_ok :: "int \<Rightarrow> ('s, unit) step" where
  "percent_ok p = stop_if (p < 0 \<or> p > 100) (badRequest ''rollout_percent must be between 0 and 100'')"

definition read_canary :: "world \<Rightarrow> hreq \<Rightarrow> ('s, canary_body) step" where
  "read_canary w req =
     bindh (readJSON w fill_canary req) (\<lambda>body.
     bindh (percent_ok (cb_percent body)) (\<lambda>_.
     bindh (need_valid (map_option (\<lambda>msg. ''canary_detail: '' @ msg) (validateYAML w (cb_detail body)))) (\<lambda>_.
     reth body)))"

definition ip_selector_of :: "world \<Rightarrow> canary_body \<Rightarrow> ('s, string) step" where
  "ip_selector_of w body =
     (if cb_ips body = [] then reth []
      else
        (case NormalizeIPSelector \<lparr>IPs = cb_ips body\<rparr> of
           Inl e \<Rightarrow> stop (badRequest (''ip_selector: '' @ w_error_text w e))
         | Inr normalized \<Rightarrow>
             (case MarshalIPSelector normalized of
                Inl _ \<Rightarrow> stop internalError
              | Inr raw \<Rightarrow> reth raw)))"

definition tag_selector_of :: "canary_body \<Rightarrow> ('s, string) step" where
  "tag_selector_of body =
     (if cb_tags body = [] then reth []
      else
        bindh (stop_if (\<exists>t \<in> set (cb_tags body). ct_name t = [])
                 (badRequest ''tag_selector: tag name must not be empty'')) (\<lambda>_.
        reth (json_print (JObj [(''tags'', JArr (map canary_tag_json (cb_tags body)))]))))"

definition sameCanaryPayload :: "CanaryRelease \<Rightarrow> canary_body \<Rightarrow> string \<Rightarrow> string \<Rightarrow> bool" where
  "sameCanaryPayload cr body ipSelectorJSON tagSelectorJSON \<longleftrightarrow>
     cr_detail cr = cb_detail body \<and> cr_percent cr = cb_percent body \<and>
     cr_version_constraint cr = cb_version_constraint body \<and>
     cr_ip_selector cr = ipSelectorJSON \<and> cr_tag_selector cr = tagSelectorJSON"

subsection \<open>Creating and changing\<close>

definition ListCanaries_h :: "('d, 'f, 'r) services \<Rightarrow> world \<Rightarrow> ('d, 'f, 'r) handler" where
  "ListCanaries_h X w req = finish
     (bindh (need (\<lambda>_. internalError) (ListCanaries_m X)) (\<lambda>crs.
      reth (ok_h (Some (JArr (map (canaryToResp w) crs))))))"

definition canary_exists :: "world \<Rightarrow> string \<Rightarrow> CanaryRelease \<Rightarrow> bool \<Rightarrow> outcome" where
  "canary_exists w name cr same =
     (if cr_status cr = CanaryStatusRolling \<and> same then ok_h (Some (canaryToResp w cr))
      else conflict (''a canary release for '' @ sq name @ '' already exists (status: '' @ cr_status cr @
             ''); abort or promote it before creating a new one''))"

definition new_canary ::
  "world \<Rightarrow> hreq \<Rightarrow> string \<Rightarrow> string \<Rightarrow> canary_body \<Rightarrow> string \<Rightarrow> string \<Rightarrow> CanaryRelease" where
  "new_canary w req name ct body ipSelectorJSON tagSelectorJSON =
     \<lparr>cr_config = name, cr_type = ct, cr_detail = cb_detail body, cr_version = unix_milli (w_now w),
      cr_percent = cb_percent body, cr_version_constraint = cb_version_constraint body,
      cr_ip_selector = ipSelectorJSON, cr_tag_selector = tagSelectorJSON, cr_status = CanaryStatusRolling,
      cr_created_by = uc_name (user_of req), cr_created = time_zero, cr_updated = time_zero\<rparr>"

definition CreateCanary_h :: "('d, 'f, 'r) services \<Rightarrow> world \<Rightarrow> ('d, 'f, 'r) handler" where
  "CreateCanary_h X w req = finish
     (bindh (need_type req) (\<lambda>ct.
      let name = rq_vars req ''name''
      in bindh (read_canary w req) (\<lambda>body.
         bindh (ip_selector_of w body) (\<lambda>ipSel.
         bindh (tag_selector_of body) (\<lambda>tagSel.
         let cr = new_canary w req name ct body ipSel tagSel;
             taken = (\<lambda>c. canary_exists w name c (sameCanaryPayload c body ipSel tagSel))
         in bindh (need (\<lambda>_. internalError) (GetCanary_m X name ct)) (\<lambda>found.
            (case found of
               Some c \<Rightarrow> stop (taken c)
             | None \<Rightarrow>
                 bindh (attempt (CreateCanary_m X cr)) (\<lambda>done.
                 (case done of
                    Inl _ \<Rightarrow>
                      bindh (attempt (GetCanary_m X name ct)) (\<lambda>again.
                      (case again of Inr (Some c) \<Rightarrow> stop (taken c) | _ \<Rightarrow> stop internalError))
                  | Inr _ \<Rightarrow>
                      bindh (logAudit X w req 201 ''canary-create'' ct name (cb_detail body)) (\<lambda>_.
                      reth (writeJSON 201 0 ''created''
                        (Some (canaryToResp w (cr\<lparr>cr_created := w_now w, cr_updated := w_now w\<rparr>))))))))))))))"

definition saved_canary :: "world \<Rightarrow> CanaryRelease \<Rightarrow> json" where
  "saved_canary w cr = canaryToResp w (cr\<lparr>cr_updated := w_now w\<rparr>)"

definition UpdateCanary_h :: "('d, 'f, 'r) services \<Rightarrow> world \<Rightarrow> ('d, 'f, 'r) handler" where
  "UpdateCanary_h X w req = finish
     (bindh (need_type req) (\<lambda>ct.
      let name = rq_vars req ''name''
      in bindh (read_canary w req) (\<lambda>body.
         bindh (need (\<lambda>_. internalError) (GetCanary_m X name ct)) (\<lambda>row.
         bindh (present notFound row) (\<lambda>cr0.
         bindh (stop_if (cr_status cr0 \<noteq> CanaryStatusRolling \<and> cr_status cr0 \<noteq> CanaryStatusPaused)
                  (badRequest ''only rolling or paused canaries can be updated'')) (\<lambda>_.
         bindh (ip_selector_of w body) (\<lambda>ipSel.
         bindh (tag_selector_of body) (\<lambda>tagSel.
         bindh (stop_if (sameCanaryPayload cr0 body ipSel tagSel) (ok_h (Some (canaryToResp w cr0)))) (\<lambda>_.
         let cr = cr0\<lparr>cr_version := (if cr_detail cr0 \<noteq> cb_detail body then unix_milli (w_now w) else cr_version cr0),
                      cr_detail := cb_detail body, cr_percent := cb_percent body,
                      cr_version_constraint := cb_version_constraint body,
                      cr_ip_selector := ipSel, cr_tag_selector := tagSel\<rparr>
         in bindh (need (\<lambda>_. internalError) (UpdateCanary_m X cr)) (\<lambda>_.
            bindh (logAudit X w req 200 ''canary-update'' ct name (cb_detail body)) (\<lambda>_.
            reth (ok_h (Some (saved_canary w cr))))))))))))))"

definition status_promoted :: outcome where
  "status_promoted = ok_h (str_map [(''status'', ''promoted'')])"

definition status_aborted :: outcome where
  "status_aborted = ok_h (str_map [(''status'', ''aborted'')])"

definition GetCanary_h :: "('d, 'f, 'r) services \<Rightarrow> world \<Rightarrow> ('d, 'f, 'r) handler" where
  "GetCanary_h X w req = finish
     (bindh (need_type req) (\<lambda>ct.
      bindh (need (\<lambda>_. internalError) (GetCanary_m X (rq_vars req ''name'') ct)) (\<lambda>row.
      (case row of
         None \<Rightarrow> reth status_promoted
       | Some cr \<Rightarrow> reth (ok_h (Some (canaryToResp w cr)))))))"

definition fill_percent :: "json \<Rightarrow> int option" where
  "fill_percent = fill_struct (\<lambda>kvs. fill_int 0 (members ''rollout_percent'' kvs))"

definition SetCanaryPercent_h :: "('d, 'f, 'r) services \<Rightarrow> world \<Rightarrow> ('d, 'f, 'r) handler" where
  "SetCanaryPercent_h X w req = finish
     (bindh (need_type req) (\<lambda>ct.
      let name = rq_vars req ''name''
      in bindh (readJSON w fill_percent req) (\<lambda>percent.
         bindh (percent_ok percent) (\<lambda>_.
         bindh (need (\<lambda>_. internalError) (GetCanary_m X name ct)) (\<lambda>row.
         bindh (present notFound row) (\<lambda>cr0.
         bindh (stop_if (cr_status cr0 \<noteq> CanaryStatusRolling)
                  (badRequest (''canary is not in rolling status (current: '' @ cr_status cr0 @ '')''))) (\<lambda>_.
         bindh (stop_if (cr_percent cr0 = percent) (ok_h (Some (canaryToResp w cr0)))) (\<lambda>_.
         let cr = cr0\<lparr>cr_percent := percent\<rparr>
         in bindh (need (\<lambda>_. internalError) (UpdateCanary_m X cr)) (\<lambda>_.
            bindh (logAudit X w req 200 ''canary-set-percent'' ct name (itoa percent)) (\<lambda>_.
            reth (ok_h (Some (saved_canary w cr)))))))))))))"

subsection \<open>Pausing, promoting, aborting\<close>

definition setCanaryStatus ::
  "('d, 'f, 'r) services \<Rightarrow> world \<Rightarrow> string \<Rightarrow> string \<Rightarrow> string \<Rightarrow> ('d, 'f, 'r) handler" where
  "setCanaryStatus X w requiredCurrent newStatus auditAction req = finish
     (bindh (need_type req) (\<lambda>ct.
      let name = rq_vars req ''name''
      in bindh (need (\<lambda>_. internalError) (GetCanary_m X name ct)) (\<lambda>row.
         bindh (present notFound row) (\<lambda>cr0.
         bindh (stop_if (cr_status cr0 = newStatus) (ok_h (Some (canaryToResp w cr0)))) (\<lambda>_.
         bindh (stop_if (cr_status cr0 \<noteq> requiredCurrent)
                  (badRequest (''canary must be in '' @ sq requiredCurrent @
                     '' status to perform this action (current: '' @ cr_status cr0 @ '')''))) (\<lambda>_.
         let cr = cr0\<lparr>cr_status := newStatus\<rparr>
         in bindh (need (\<lambda>_. internalError) (UpdateCanary_m X cr)) (\<lambda>_.
            bindh (logAudit X w req 200 auditAction ct name []) (\<lambda>_.
            reth (ok_h (Some (saved_canary w cr)))))))))))"

definition PauseCanary_h :: "('d, 'f, 'r) services \<Rightarrow> world \<Rightarrow> ('d, 'f, 'r) handler" where
  "PauseCanary_h X w = setCanaryStatus X w CanaryStatusRolling CanaryStatusPaused ''canary-pause''"

definition ResumeCanary_h :: "('d, 'f, 'r) services \<Rightarrow> world \<Rightarrow> ('d, 'f, 'r) handler" where
  "ResumeCanary_h X w = setCanaryStatus X w CanaryStatusPaused CanaryStatusRolling ''canary-resume''"

text \<open>One branch of the promotion; a missing configuration is an error of the lookup.\<close>

definition promote_into ::
  "('d, 'f, 'r) services \<Rightarrow> world \<Rightarrow> hreq \<Rightarrow> ('d, 'f, 'r) config_kind \<Rightarrow> string \<Rightarrow> CanaryRelease \<Rightarrow>
   (('d, 'f, 'r) adm, unit) step" where
  "promote_into X w req K name cr =
     bindh (need (\<lambda>_. internalError) (ck_get K name)) (\<lambda>cfg0.
     if cf_detail cfg0 = cr_detail cr then reth ()
     else
       let cfg = cfg0\<lparr>cf_detail := cr_detail cr, cf_version := unix_milli (w_now w)\<rparr>
       in bindh (need (\<lambda>_. internalError) (ck_update K (w_now w) cfg)) (\<lambda>_.
          saveHistory X w req (ck_type K) name ''promote'' (cf_version cfg) (cf_detail cfg0)))"

definition kind_of :: "('d, 'f, 'r) services \<Rightarrow> string \<Rightarrow> ('d, 'f, 'r) config_kind" where
  "kind_of X ct = (if ct = ConfigTypePipeline then pipeline_kind X else instance_kind X)"

definition PromoteCanary_h :: "('d, 'f, 'r) services \<Rightarrow> world \<Rightarrow> ('d, 'f, 'r) handler" where
  "PromoteCanary_h X w req = finish
     (bindh (need_type req) (\<lambda>ct.
      let name = rq_vars req ''name''
      in bindh (need (\<lambda>_. internalError) (GetCanary_m X name ct)) (\<lambda>row.
         bindh (present status_promoted row) (\<lambda>cr.
         bindh (promote_into X w req (kind_of X ct) name cr) (\<lambda>_.
         bindh (attempt (DeleteCanary_m X name ct)) (\<lambda>_.
         bindh (logAudit X w req 200 ''canary-promote'' ct name (cr_detail cr)) (\<lambda>_.
         reth status_promoted)))))))"

definition AbortCanary_h :: "('d, 'f, 'r) services \<Rightarrow> world \<Rightarrow> ('d, 'f, 'r) handler" where
  "AbortCanary_h X w req = finish
     (bindh (need_type req) (\<lambda>ct.
      let name = rq_vars req ''name''
      in bindh (need (\<lambda>_. internalError) (GetCanary_m X name ct)) (\<lambda>row.
         bindh (present status_aborted row) (\<lambda>_.
         bindh (need (\<lambda>_. internalError) (DeleteCanary_m X name ct)) (\<lambda>_.
         bindh (logAudit X w req 200 ''canary-abort'' ct name []) (\<lambda>_.
         reth status_aborted))))))"

subsection \<open>Which agents receive it\<close>

text \<open>
  The tags an agent has reported, read back from the registry; text that does not parse gives
  none. (Where only an element does not fit, Go keeps what did; the registry's text is always
  written by \<open>buildAgent\<close>.)
\<close>

definition agent_context :: "Agent \<Rightarrow> AgentMatchContext" where
  "agent_context a =
     \<lparr>mc_instance = a_instance a, mc_ip = a_ip a, mc_hostid = a_hostid a, mc_hostname = a_hostname a,
      mc_version = a_version a,
      mc_tags = (case parse_tag_entries (a_tags_json a) of
                   None \<Rightarrow> []
                 | Some es \<Rightarrow>
                     map (\<lambda>e. \<lparr>tag_id = 0, tag_group = [], tag_name = te_name e, tag_value = te_value e\<rparr>) es)\<rparr>"

datatype canary_class = InCanary | InStable | NotTargeted | UnknownAgent

definition classify :: "CanaryRelease \<Rightarrow> string \<Rightarrow> Agent \<Rightarrow> err + canary_class" where
  "classify cr name a =
     (let m = agent_context a
      in case CanaryBucket m name of
           None \<Rightarrow> Inr UnknownAgent
         | Some bucket \<Rightarrow>
             (case CanaryTargeted cr m of
                Inl e \<Rightarrow> Inl e
              | Inr targeted \<Rightarrow>
                  Inr (if \<not> targeted then NotTargeted
                       else if int bucket < cr_percent cr then InCanary else InStable)))"

text \<open>The loops end the handler at the first error.\<close>

fun classify_all :: "CanaryRelease \<Rightarrow> string \<Rightarrow> Agent list \<Rightarrow> (Agent \<times> canary_class) list option" where
  "classify_all cr name [] = Some []"
| "classify_all cr name (a # as) =
     (case classify cr name a of
        Inl _ \<Rightarrow> None
      | Inr c \<Rightarrow> map_option (Cons (a, c)) (classify_all cr name as))"

definition canary_view ::
  "('d, 'f, 'r) services \<Rightarrow> world \<Rightarrow> hreq \<Rightarrow>
   (('d, 'f, 'r) adm, string \<times> CanaryRelease \<times> (Agent \<times> canary_class) list) step" where
  "canary_view X w req =
     bindh (need_type req) (\<lambda>ct.
     let name = rq_vars req ''name''
     in bindh (need (\<lambda>_. internalError) (GetCanary_m X name ct)) (\<lambda>row.
        bindh (present notFound row) (\<lambda>cr.
        bindh (need (\<lambda>_. internalError) (ListAgents_m (w_agent_order w) X)) (\<lambda>agents.
        bindh (present internalError (classify_all cr name agents)) (\<lambda>cs.
        reth (ct, cr, cs))))))"

definition count_class :: "canary_class \<Rightarrow> (Agent \<times> canary_class) list \<Rightarrow> nat" where
  "count_class c cs = length (filter (\<lambda>(_, c'). c' = c) cs)"

definition GetCanaryStats_h :: "('d, 'f, 'r) services \<Rightarrow> world \<Rightarrow> ('d, 'f, 'r) handler" where
  "GetCanaryStats_h X w req = finish
     (bindh (canary_view X w req) (\<lambda>(ct, cr, cs).
      let canary = count_class InCanary cs; stable = count_class InStable cs;
          untargeted = count_class NotTargeted cs; unknown = count_class UnknownAgent cs
      in reth (ok_h (Some (JObj
        [(''canary_agents'', JNum (show_nat canary)), (''config_name'', JStr (rq_vars req ''name'')),
         (''config_type'', JStr ct), (''not_targeted'', JNum (show_nat untargeted)),
         (''rollout_percent'', JNum (itoa (cr_percent cr))), (''stable_agents'', JNum (show_nat stable)),
         (''status'', JStr (cr_status cr)),
         (''total_agents'', JNum (show_nat (canary + stable + untargeted + unknown))),
         (''unknown_agents'', JNum (show_nat unknown))])))))"

fun class_name :: "canary_class \<Rightarrow> string" where
  "class_name InCanary = ''canary''"
| "class_name InStable = ''stable''"
| "class_name NotTargeted = ''not_targeted''"
| "class_name UnknownAgent = ''unknown''"

definition tag_entry_json :: "agentTagEntry \<Rightarrow> json" where
  "tag_entry_json e = JObj [(''name'', JStr (te_name e)), (''value'', JStr (te_value e))]"

text \<open>The parsed tags as they were read: nil for no text, for \<open>null\<close> and for text that does not parse.\<close>

definition reported_tags_json :: "Agent \<Rightarrow> json" where
  "reported_tags_json a =
     (case parse_tag_entries (a_tags_json a) of
        None \<Rightarrow> JNull
      | Some es \<Rightarrow>
          if a_tags_json a = [] \<or> json_parse (a_tags_json a) = Some JNull then JNull
          else JArr (map tag_entry_json es))"

definition canary_agent_json :: "Agent \<times> canary_class \<Rightarrow> json" where
  "canary_agent_json ac =
     (case ac of (a, c) \<Rightarrow>
        JObj [(''instance_id'', JStr (a_instance a)), (''agent_type'', JStr (a_type a)), (''ip'', JStr (a_ip a)),
              (''hostname'', JStr (a_hostname a)), (''version'', JStr (a_version a)),
              (''tags'', reported_tags_json a), (''bucket'', JStr (class_name c))])"

definition GetCanaryAgents_h :: "('d, 'f, 'r) services \<Rightarrow> world \<Rightarrow> ('d, 'f, 'r) handler" where
  "GetCanaryAgents_h X w req = finish
     (bindh (canary_view X w req) (\<lambda>(ct, cr, cs).
      reth (ok_h (Some (JArr (map canary_agent_json cs))))))"

end
