(* ===== verification/Admin_Routes.thy ===== *)
theory Admin_Routes
  imports Admin_Canary
begin

section \<open>The routes of the admin API (RegisterAdminRoutes)\<close>

text \<open>
  \<open>RegisterAdminRoutes\<close> and the way \<open>http.ServeMux\<close> dispatches a request: a pattern is a
  method and a path whose segments in braces match any one non-empty segment, and a pattern for
  GET also serves HEAD. The whole mux is wrapped in \<open>requireAuth\<close>. What else the mux serves
  is the parameter \<open>other\<close>: theory \<open>Admin_Server\<close> gives it (the web UI, the metrics, the 404 and
  405 replies); the redirects of paths that are not clean are left out.
\<close>

type_synonym ('d, 'f, 'r) route = "string \<times> string \<times> ('d, 'f, 'r) handler"

definition is_wildcard :: "string \<Rightarrow> bool" where
  "is_wildcard part \<longleftrightarrow> part \<noteq> [] \<and> hd part = CHR ''{''"

definition wildcard_name :: "string \<Rightarrow> string" where
  "wildcard_name part = butlast (tl part)"

text \<open>The wildcards of a pattern with the segments they match, if the path matches.\<close>

fun match_segments :: "string list \<Rightarrow> string list \<Rightarrow> (string \<times> string) list option" where
  "match_segments [] [] = Some []"
| "match_segments (p # ps) (part # parts) =
     (if is_wildcard p then
        (if part = [] then None else map_option (Cons (wildcard_name p, part)) (match_segments ps parts))
      else if p = part then match_segments ps parts
      else None)"
| "match_segments _ _ = None"

definition pattern_segments :: "string \<Rightarrow> string list" where
  "pattern_segments path = split (tl path) ''/''"

definition method_matches :: "string \<Rightarrow> string \<Rightarrow> bool" where
  "method_matches pattern_method method \<longleftrightarrow>
     pattern_method = method \<or> (pattern_method = ''GET'' \<and> method = ''HEAD'')"

definition path_values :: "(string \<times> string) list \<Rightarrow> string \<Rightarrow> string" where
  "path_values vars name = (case map_of vars name of None \<Rightarrow> [] | Some v \<Rightarrow> v)"

definition route_matches :: "('d, 'f, 'r) route \<Rightarrow> hreq \<Rightarrow> bool" where
  "route_matches r req \<longleftrightarrow>
     method_matches (fst r) (rq_method req) \<and>
     match_segments (pattern_segments (fst (snd r))) (rq_segments req) \<noteq> None"

definition routes :: "('d, 'f, 'r) services \<Rightarrow> world \<Rightarrow> ('d, 'f, 'r) route list" where
  "routes X w =
     [
      (''GET'', ''/api/v1/pipeline-configs'', ListPipelineConfigs_h X w),
      (''POST'', ''/api/v1/pipeline-configs'', CreatePipelineConfig_h X w),
      (''GET'', ''/api/v1/pipeline-configs/{name}'', GetPipelineConfig_h X w),
      (''PUT'', ''/api/v1/pipeline-configs/{name}'', UpdatePipelineConfig_h X w),
      (''DELETE'', ''/api/v1/pipeline-configs/{name}'', DeletePipelineConfig_h X w),
      (''GET'', ''/api/v1/instance-configs'', ListInstanceConfigs_h X w),
      (''POST'', ''/api/v1/instance-configs'', CreateInstanceConfig_h X w),
      (''GET'', ''/api/v1/instance-configs/{name}'', GetInstanceConfig_h X w),
      (''PUT'', ''/api/v1/instance-configs/{name}'', UpdateInstanceConfig_h X w),
      (''DELETE'', ''/api/v1/instance-configs/{name}'', DeleteInstanceConfig_h X w),
      (''GET'', ''/api/v1/groups'', ListGroups_h X w),
      (''POST'', ''/api/v1/groups'', CreateGroup_h X w),
      (''GET'', ''/api/v1/groups/{name}'', GetGroup_h X w),
      (''PUT'', ''/api/v1/groups/{name}'', UpdateGroup_h X w),
      (''DELETE'', ''/api/v1/groups/{name}'', DeleteGroup_h X w),
      (''GET'', ''/api/v1/groups/{name}/tags'', GetGroupTags_h X),
      (''PUT'', ''/api/v1/groups/{name}/tags'', SetGroupTags_h X w),
      (''GET'', ''/api/v1/groups/{name}/ip-selector'', GetGroupIPSelector_h X w),
      (''PUT'', ''/api/v1/groups/{name}/ip-selector'', SetGroupIPSelector_h X w),
      (''DELETE'', ''/api/v1/groups/{name}/ip-selector'', DeleteGroupIPSelector_h X w),
      (''PUT'', ''/api/v1/groups/{name}/version-constraint'', SetGroupVersionConstraint_h X w),
      (''GET'', ''/api/v1/groups/{name}/configs'', GetGroupConfigs_h X),
      (''PUT'', ''/api/v1/groups/{name}/configs/{type}/{configName}'', AddGroupConfig_h X w),
      (''DELETE'', ''/api/v1/groups/{name}/configs/{type}/{configName}'', RemoveGroupConfig_h X w),
      (''GET'', ''/api/v1/agents'', ListAgents_h X w),
      (''GET'', ''/api/v1/agents/{instanceID}'', GetAgent_h X w),
      (''GET'', ''/api/v1/onetime-commands'', ListOnetimeCommands_h X w),
      (''POST'', ''/api/v1/onetime-commands'', CreateOnetimeCommand_h X w),
      (''GET'', ''/api/v1/onetime-commands/{name}'', GetOnetimeCommand_h X w),
      (''DELETE'', ''/api/v1/onetime-commands/{name}'', DeleteOnetimeCommand_h X w),
      (''GET'', ''/api/v1/auth/status'', AuthStatus_h X w),
      (''POST'', ''/api/v1/auth/init'', AuthInit_h X w),
      (''POST'', ''/api/v1/auth/login'', AuthLogin_h X w),
      (''POST'', ''/api/v1/auth/logout'', AuthLogout_h X),
      (''POST'', ''/api/v1/auth/forgot-password'', ForgotPassword_h X w),
      (''POST'', ''/api/v1/auth/reset-password'', ResetPassword_h X w),
      (''POST'', ''/api/v1/auth/login/otp'', OTPLoginStep_h X w),
      (''POST'', ''/api/v1/auth/change-password'', AuthChangePassword_h X w),
      (''POST'', ''/api/v1/auth/otp/setup'', OTPSetup_h X w),
      (''POST'', ''/api/v1/auth/otp/enable'', OTPEnable_h X w),
      (''POST'', ''/api/v1/auth/otp/disable'', OTPDisable_h X w),
      (''GET'', ''/api/v1/me'', GetMe_h X),
      (''PUT'', ''/api/v1/me/email'', SetMyEmail_h X w),
      (''GET'', ''/api/v1/users'', requireAdmin (ListUsers_h X w)),
      (''POST'', ''/api/v1/users'', requireAdmin (CreateUser_h X w)),
      (''DELETE'', ''/api/v1/users/{username}'', requireAdmin (DeleteUser_h X)),
      (''PUT'', ''/api/v1/users/{username}/password'', requireAdmin (ResetUserPassword_h X w)),
      (''PUT'', ''/api/v1/users/{username}/role'', requireAdmin (AssignUserRole_h X w)),
      (''PUT'', ''/api/v1/users/{username}/email'', requireAdmin (SetUserEmail_h X w)),
      (''GET'', ''/api/v1/roles'', requireAdmin (ListRoles_h X w)),
      (''POST'', ''/api/v1/roles'', requireAdmin (CreateRole_h X w)),
      (''DELETE'', ''/api/v1/roles/{name}'', requireAdmin (DeleteRole_h X)),
      (''GET'', ''/api/v1/roles/{name}/permissions'', requireAdmin (GetRolePermissions_h X)),
      (''PUT'', ''/api/v1/roles/{name}/permissions'', requireAdmin (SetRolePermissions_h X w)),
      (''GET'', ''/api/v1/history/{type}/{name}'', ListConfigHistory_h X w),
      (''GET'', ''/api/v1/deleted-history/{type}'', ListDeletedHistory_h X w),
      (''POST'', ''/api/v1/history/{type}/{name}/{id}/rollback'', RollbackConfig_h X w),
      (''GET'', ''/api/v1/audit-logs'', ListAuditLogs_h X w),
      (''GET'', ''/api/v1/canaries'', ListCanaries_h X w),
      (''POST'', ''/api/v1/configs/{type}/{name}/canary'', CreateCanary_h X w),
      (''PUT'', ''/api/v1/configs/{type}/{name}/canary'', UpdateCanary_h X w),
      (''GET'', ''/api/v1/configs/{type}/{name}/canary'', GetCanary_h X w),
      (''PUT'', ''/api/v1/configs/{type}/{name}/canary/percent'', SetCanaryPercent_h X w),
      (''POST'', ''/api/v1/configs/{type}/{name}/canary/pause'', PauseCanary_h X w),
      (''POST'', ''/api/v1/configs/{type}/{name}/canary/resume'', ResumeCanary_h X w),
      (''POST'', ''/api/v1/configs/{type}/{name}/canary/promote'', PromoteCanary_h X w),
      (''POST'', ''/api/v1/configs/{type}/{name}/canary/abort'', AbortCanary_h X w),
      (''GET'', ''/api/v1/configs/{type}/{name}/canary/stats'', GetCanaryStats_h X w),
      (''GET'', ''/api/v1/configs/{type}/{name}/canary/agents'', GetCanaryAgents_h X w)]"

text \<open>At most one pattern matches a request, so the order of the table does not matter.\<close>

definition dispatch ::
  "('d, 'f, 'r) services \<Rightarrow> world \<Rightarrow> ('d, 'f, 'r) handler \<Rightarrow> ('d, 'f, 'r) handler" where
  "dispatch X w other req s =
     (case find (\<lambda>r. route_matches r req) (routes X w) of
        None \<Rightarrow> other req s
      | Some (_, path, h) \<Rightarrow>
          h (req\<lparr>rq_vars := path_values (the (match_segments (pattern_segments path) (rq_segments req)))\<rparr>) s)"

definition serve ::
  "('d, 'f, 'r) services \<Rightarrow> world \<Rightarrow> ('d, 'f, 'r) handler \<Rightarrow> ('d, 'f, 'r) handler" where
  "serve X w other = requireAuth X w (dispatch X w other)"

end
