(* ===== verification/Step_Frames.thy ===== *)
theory Step_Frames
  imports Admin_Routes Manager_Laws
begin

section \<open>What a handler leaves alone\<close>

text \<open>
  A handler is built from steps by a few combinators. For a reflexive and transitive relation
  on states (the locale \<open>step_relation\<close>) the rules \<open>step_intros\<close> take such a construction
  apart: the handler stays within the relation if every call it makes does, and its outcome
  has a property if every reply it may send has. The instance here is \<open>calm\<close>: only the given
  tables change, and no session, token or mail. The rules for the calls come with it, one for
  each method of the manager, with the tables it may write.
\<close>

subsection \<open>The rules\<close>

named_theorems step_intros

definition steps :: "('s \<Rightarrow> 's \<Rightarrow> bool) \<Rightarrow> (outcome \<Rightarrow> bool) \<Rightarrow> ('s, 'a) step \<Rightarrow> bool" where
  "steps R Ob f \<longleftrightarrow> (\<forall>s. R s (snd (f s)) \<and> (\<forall>out. fst (f s) = Inl out \<longrightarrow> Ob out))"

definition ends :: "('s \<Rightarrow> 's \<Rightarrow> bool) \<Rightarrow> (outcome \<Rightarrow> bool) \<Rightarrow> ('s, outcome) step \<Rightarrow> bool" where
  "ends R Ob f \<longleftrightarrow> (\<forall>s. R s (snd (f s)) \<and> (\<forall>out. fst (f s) = Inl out \<or> fst (f s) = Inr out \<longrightarrow> Ob out))"

definition handles :: "('s \<Rightarrow> 's \<Rightarrow> bool) \<Rightarrow> (outcome \<Rightarrow> bool) \<Rightarrow> (hreq \<Rightarrow> 's \<Rightarrow> outcome \<times> 's) \<Rightarrow> bool" where
  "handles R Ob h \<longleftrightarrow> (\<forall>req s. R s (snd (h req s)) \<and> Ob (fst (h req s)))"

lemma handles_finish [step_intros]:
  "(\<And>req. ends R Ob (f req)) \<Longrightarrow> handles R Ob (\<lambda>req. finish (f req))"
  by (simp add: handles_def ends_def finish_def split_beta split: sum.split)

lemma handlesD: "handles R Ob h \<Longrightarrow> h req s = (out, s') \<Longrightarrow> R s s' \<and> Ob out"
  unfolding handles_def by (metis fst_conv snd_conv)

lemma handles_mono: "handles R Ob h \<Longrightarrow> (\<And>out. Ob out \<Longrightarrow> Ob' out) \<Longrightarrow> handles R Ob' h"
  by (auto simp: handles_def)

text \<open>Branching, for a step in the middle and for the rest of a handler.\<close>

lemma steps_cases [step_intros]:
  "\<lbrakk>b \<Longrightarrow> steps R Ob f; \<not> b \<Longrightarrow> steps R Ob g\<rbrakk> \<Longrightarrow> steps R Ob (if b then f else g)"
  "\<lbrakk>\<And>e. steps R Ob (f1 e); \<And>x. steps R Ob (g1 x)\<rbrakk> \<Longrightarrow> steps R Ob (case r of Inl e \<Rightarrow> f1 e | Inr x \<Rightarrow> g1 x)"
  "\<lbrakk>steps R Ob f; \<And>x. steps R Ob (g2 x)\<rbrakk> \<Longrightarrow> steps R Ob (case y of None \<Rightarrow> f | Some x \<Rightarrow> g2 x)"
  "(\<And>a b. steps R Ob (h a b)) \<Longrightarrow> steps R Ob (case p of (a, b) \<Rightarrow> h a b)"
  by (auto split: sum.splits option.splits prod.splits)

lemma ends_cases [step_intros]:
  "\<lbrakk>b \<Longrightarrow> ends R Ob f; \<not> b \<Longrightarrow> ends R Ob g\<rbrakk> \<Longrightarrow> ends R Ob (if b then f else g)"
  "\<lbrakk>\<And>e. ends R Ob (f1 e); \<And>x. ends R Ob (g1 x)\<rbrakk> \<Longrightarrow> ends R Ob (case r of Inl e \<Rightarrow> f1 e | Inr x \<Rightarrow> g1 x)"
  "\<lbrakk>ends R Ob f; \<And>x. ends R Ob (g2 x)\<rbrakk> \<Longrightarrow> ends R Ob (case y of None \<Rightarrow> f | Some x \<Rightarrow> g2 x)"
  "(\<And>a b. ends R Ob (h a b)) \<Longrightarrow> ends R Ob (case p of (a, b) \<Rightarrow> h a b)"
  by (auto split: sum.splits option.splits prod.splits)

locale step_relation =
  fixes R :: "('d, 'f, 'r) adm \<Rightarrow> ('d, 'f, 'r) adm \<Rightarrow> bool"
  assumes refl [intro, simp]: "R s s"
    and trans: "R s s1 \<Longrightarrow> R s1 s2 \<Longrightarrow> R s s2"
begin

definition quiet :: "(('d, 'f, 'r) mgr \<Rightarrow> 'x \<times> ('d, 'f, 'r) mgr) \<Rightarrow> bool" where
  "quiet f \<longleftrightarrow> (\<forall>s. R s (s\<lparr>s_mgr := snd (f (s_mgr s))\<rparr>))"

lemma leaves [step_intros]:
  "steps R Ob (reth x)"
  "Ob out \<Longrightarrow> steps R Ob (stop out)"
  "Ob out \<Longrightarrow> steps R Ob (stop_if b out)"
  "Ob out \<Longrightarrow> steps R Ob (present out y)"
  "(\<And>s. R s (snd (act0 s))) \<Longrightarrow> steps R Ob (act act0)"
  by (simp_all add: steps_def reth_def stop_def stop_if_def present_def act_def split_beta split: option.splits)

lemma final [step_intros]:
  "Ob out \<Longrightarrow> ends R Ob (reth out)"
  "Ob out \<Longrightarrow> ends R Ob (stop out)"
  by (auto simp: ends_def reth_def stop_def)

lemma steps_bindh [step_intros]:
  "steps R Ob f \<Longrightarrow> (\<And>x. steps R Ob (g x)) \<Longrightarrow> steps R Ob (bindh f g)"
  unfolding steps_def bindh_def by (auto simp: split_beta split: sum.splits intro: trans)

lemma ends_bindh [step_intros]:
  "steps R Ob f \<Longrightarrow> (\<And>x. ends R Ob (g x)) \<Longrightarrow> ends R Ob (bindh f g)"
  unfolding steps_def ends_def bindh_def
  by (auto simp: split_beta split: sum.splits intro: trans)

lemma attempt_quiet [step_intros]: "quiet f \<Longrightarrow> steps R Ob (attempt f)"
  by (simp add: steps_def quiet_def attempt_def split_beta)

lemma need_quiet [step_intros]:
  "quiet f \<Longrightarrow> (\<And>e. Ob (on_err e)) \<Longrightarrow> steps R Ob (need on_err f)"
  unfolding need_def by (intro step_intros)

lemma body [step_intros]:
  "(\<And>msg. Ob (badRequest msg)) \<Longrightarrow> steps R Ob (decodeJSON w fill req)"
  "(\<And>msg. Ob (badRequest msg)) \<Longrightarrow> steps R Ob (readJSON w fill req)"
  unfolding decodeJSON_def readJSON_def Let_def by (intro step_intros; assumption)+

end

subsection \<open>Replies\<close>

definition replies :: "outcome \<Rightarrow> bool" where
  "replies out \<longleftrightarrow> out \<noteq> Panicked"

lemma replies_simps [simp]:
  "replies (writeJSON a b c d)" "replies (ok_h j)" "replies (badRequest m)" "replies (conflict m)"
  "replies notFound" "replies internalError" "replies (lookup_failed e)" "\<not> replies Panicked"
  "replies (already_exists w what name same resp)" "replies (error_500 w e)"
  "replies (with_cookies cs out) = replies out" "replies unauthorized"
  by (auto simp: replies_def writeJSON_def ok_h_def badRequest_def conflict_def notFound_def
      internalError_def lookup_failed_def already_exists_def error_500_def with_cookies_def
      unauthorized_def split: outcome.splits)

subsection \<open>Only some tables change\<close>

definition calm :: "('d \<Rightarrow> tables) \<Rightarrow> table set \<Rightarrow> ('d, 'f, 'r) adm \<Rightarrow> ('d, 'f, 'r) adm \<Rightarrow> bool" where
  "calm tabs K s s' \<longleftrightarrow>
     frame K (tabs (m_db (s_mgr s))) (tabs (m_db (s_mgr s'))) \<and>
     (m_rdb (s_mgr s') = None \<longleftrightarrow> m_rdb (s_mgr s) = None) \<and>
     s_sessions s' = s_sessions s \<and> s_pending s' = s_pending s \<and> s_resets s' = s_resets s \<and>
     s_outbox s' = s_outbox s"

lemma frame_trans: "frame K t t1 \<Longrightarrow> frame K t1 t2 \<Longrightarrow> frame K t t2"
  by (simp add: frame_def)

lemma frame_mono: "frame K t t' \<Longrightarrow> K \<subseteq> L \<Longrightarrow> frame L t t'"
  by (auto simp: frame_def)

interpretation calm: step_relation "calm tabs K" for tabs K
  by unfold_locales (auto simp: calm_def intro: frame_trans)

text \<open>The caches: these operations leave the database alone, and whether there is a Redis.\<close>

named_theorems cache_ops

lemma redis_ops [cache_ops]:
  "m_db (snd (on_redis X c m)) = m_db m" "m_rdb (snd (on_redis X c m)) = None \<longleftrightarrow> m_rdb m = None"
  "m_db (redis_do X c m) = m_db m" "m_rdb (redis_do X c m) = None \<longleftrightarrow> m_rdb m = None"
  by (simp_all add: on_redis_def redis_do_def split_beta split: option.split)

lemma l1_ops [cache_ops]:
  "m_db (l1Set X k b m) = m_db m" "m_rdb (l1Set X k b m) = m_rdb m"
  "m_db (l1Del X k m) = m_db m" "m_rdb (l1Del X k m) = m_rdb m"
  "m_db (snd (l1_lookup X dec k m)) = m_db m" "m_rdb (snd (l1_lookup X dec k m)) = m_rdb m"
  by (simp_all add: l1Set_def l1Del_def l1_lookup_def Let_def split_beta)

lemma on_redis_parts:
  assumes "on_redis X c m = (r, m1)"
  shows "m_db m1 = m_db m" "m_rdb m1 = None \<longleftrightarrow> m_rdb m = None"
  using redis_ops(1,2) [of X c m] assms by simp_all

lemma tier_ops [cache_ops]:
  "m_db (snd (tier_lookup X dec k m)) = m_db m"
  "m_rdb (snd (tier_lookup X dec k m)) = None \<longleftrightarrow> m_rdb m = None"
proof -
  have l2: "m_db (snd (l2_lookup X dec k m1)) = m_db m1 \<and>
      (m_rdb (snd (l2_lookup X dec k m1)) = None \<longleftrightarrow> m_rdb m1 = None)" for m1
    unfolding l2_lookup_def
    by (auto simp: cache_ops dest: on_redis_parts split: prod.splits sum.splits redis_reply.splits option.splits)
  obtain r m1 where l1: "l1_lookup X dec k m = (r, m1)" by fastforce
  with l1_ops(5,6) [of X dec k m] have "m_db m1 = m_db m" "m_rdb m1 = m_rdb m" by simp_all
  with l2 [of m1] show "m_db (snd (tier_lookup X dec k m)) = m_db m"
    "m_rdb (snd (tier_lookup X dec k m)) = None \<longleftrightarrow> m_rdb m = None"
    by (auto simp: tier_lookup_def l1 split: option.split)
qed

lemma fill_ops [cache_ops]:
  "m_db (backfill X k b v m) = m_db m" "m_rdb (backfill X k b v m) = None \<longleftrightarrow> m_rdb m = None"
  "m_db (invalidate X k m) = m_db m" "m_rdb (invalidate X k m) = None \<longleftrightarrow> m_rdb m = None"
  "m_db (bump_resolve X m) = m_db m" "m_rdb (bump_resolve X m) = m_rdb m"
  "m_db (invalidateResolveCache X m) = m_db m"
  "m_rdb (invalidateResolveCache X m) = None \<longleftrightarrow> m_rdb m = None"
  by (auto simp: backfill_def invalidate_def bump_resolve_def invalidateResolveCache_def Let_def cache_ops
      simp del: not_None_eq dest: on_redis_parts split: option.split prod.split sum.split)

text \<open>Operations of the manager, by what they do to the database.\<close>

lemma quiet_tidy:
  "(\<And>m. m_db (snd (f m)) = m_db m \<and> (m_rdb (snd (f m)) = None \<longleftrightarrow> m_rdb m = None)) \<Longrightarrow> calm.quiet tabs K f"
  by (simp add: calm.quiet_def calm_def)

lemma quiet_keeps: "keeps tabs f \<Longrightarrow> calm.quiet tabs K (on_db f)"
  by (simp add: calm.quiet_def calm_def on_db_def keeps_def split_beta)

lemma quiet_confined:
  assumes "confined tabs T w" and "T \<subseteq> K"
  shows "calm.quiet tabs K (on_db w)"
    and "(\<And>m. m_db (after m) = m_db m \<and> (m_rdb (after m) = None \<longleftrightarrow> m_rdb m = None)) \<Longrightarrow>
      calm.quiet tabs K (and_then w after)"
proof -
  have w: "frame K (tabs d) (tabs (snd (w d)))" for d
    using assms frame_mono unfolding confined_def by (metis surjective_pairing)
  then show "calm.quiet tabs K (on_db w)"
    by (simp add: calm.quiet_def calm_def on_db_def split_beta)
  show "calm.quiet tabs K (and_then w after)"
    if "\<And>m. m_db (after m) = m_db m \<and> (m_rdb (after m) = None \<longleftrightarrow> m_rdb m = None)"
    using w that by (simp add: calm.quiet_def calm_def and_then_def on_db_def split_beta split: sum.split)
qed

end
