(* ===== verification/Auth_Laws.thy ===== *)
theory Auth_Laws
  imports Admin_Users
begin

section \<open>Reasoning about the admin handlers\<close>

text \<open>
  \<open>run f s Q R\<close>: from state \<open>s\<close> the step \<open>f\<close> either goes on with a value and state that satisfy
  \<open>Q\<close>, or ends the handler with an outcome and state that satisfy \<open>R\<close>. Its equations push it
  through a handler; at a call of the store, a rule of the locale \<open>account_store\<close> says what the
  call does to the accounts, and leaves what may happen if the database fails.
\<close>

subsection \<open>Running a handler\<close>

definition run :: "('s, 'a) step \<Rightarrow> 's \<Rightarrow> ('a \<Rightarrow> 's \<Rightarrow> bool) \<Rightarrow> (outcome \<Rightarrow> 's \<Rightarrow> bool) \<Rightarrow> bool" where
  "run f s Q R \<longleftrightarrow> (case f s of (Inl out, s1) \<Rightarrow> R out s1 | (Inr x, s1) \<Rightarrow> Q x s1)"

named_theorems run_simps

lemma run_bindh [run_simps]: "run (bindh f g) s Q R = run f s (\<lambda>x s1. run (g x) s1 Q R) R"
  by (simp add: run_def bindh_def split: prod.splits sum.splits)

lemma run_reth [run_simps]: "run (reth x) s Q R = Q x s"
  by (simp add: run_def reth_def)

lemma run_stop [run_simps]: "run (stop out) s Q R = R out s"
  by (simp add: run_def stop_def)

lemma run_stop_if [run_simps]: "run (stop_if b out) s Q R = (if b then R out s else Q () s)"
  by (simp add: stop_if_def run_simps)

lemma run_present [run_simps]:
  "run (present out x) s Q R = (case x of None \<Rightarrow> R out s | Some y \<Rightarrow> Q y s)"
  by (simp add: present_def run_simps split: option.splits)

lemma run_act [run_simps]: "run (act f) s Q R = (case f s of (x, s1) \<Rightarrow> Q x s1)"
  by (simp add: run_def act_def split: prod.splits)

lemma run_decodeJSON [run_simps]:
  "run (decodeJSON w fill req) s Q R =
     (case Option.bind (json_decode_first (take json_limit (fst (rq_body req)))) fill of
        None \<Rightarrow> R (badRequest (w_json_error w (take json_limit (fst (rq_body req))))) s
      | Some x \<Rightarrow> Q x s)"
  by (simp add: decodeJSON_def Let_def run_simps split: option.splits)

lemma run_need:
  "run (need on_err f) s Q R =
     (case f (s_mgr s) of
        (Inl e, m) \<Rightarrow> R (on_err e) (s\<lparr>s_mgr := m\<rparr>)
      | (Inr x, m) \<Rightarrow> Q x (s\<lparr>s_mgr := m\<rparr>))"
  by (simp add: need_def attempt_def run_simps run_def stop_def reth_def bindh_def split: prod.splits sum.splits)

lemma run_attempt: "run (attempt f) s Q R = (case f (s_mgr s) of (r, m) \<Rightarrow> Q r (s\<lparr>s_mgr := m\<rparr>))"
  by (simp add: run_def attempt_def split: prod.split)

lemma run_readJSON:
  assumes "\<And>msg. R (badRequest msg) s"
    and "\<And>x. Option.bind (json_parse (take json_limit (fst (rq_body req)))) fill = Some x \<Longrightarrow> Q x s"
  shows "run (readJSON w fill req) s Q R"
  using assms by (auto simp: readJSON_def run_simps Let_def split: option.split prod.split)

lemma run_mono:
  "run f s Q R \<Longrightarrow> (\<And>x s1. Q x s1 \<Longrightarrow> Q' x s1) \<Longrightarrow> (\<And>out s1. R out s1 \<Longrightarrow> R' out s1) \<Longrightarrow> run f s Q' R'"
  by (auto simp: run_def split: prod.splits sum.splits)

lemma finish_run: "finish f s = (out, s1) \<Longrightarrow> run f s P P \<Longrightarrow> P out s1"
  by (auto simp: finish_def run_def split: prod.splits sum.splits)

subsection \<open>The accounts in the database\<close>

abbreviation user_at where "user_at t n \<equiv> row_at as_user (KUser n) t"
abbreviation role_at where "role_at t n \<equiv> row_at as_role (KRole n) t"

definition set_db :: "'d \<Rightarrow> ('d, 'f, 'r) adm \<Rightarrow> ('d, 'f, 'r) adm" where
  "set_db d s = s\<lparr>s_mgr := (s_mgr s)\<lparr>m_db := d\<rparr>\<rparr>"

lemma set_db_fields [simp]:
  "s_sessions (set_db d s) = s_sessions s" "s_pending (set_db d s) = s_pending s"
  "s_resets (set_db d s) = s_resets s" "s_outbox (set_db d s) = s_outbox s"
  "m_db (s_mgr (set_db d s)) = d" "m_rdb (s_mgr (set_db d s)) = m_rdb (s_mgr s)"
  "set_db d (set_db d' s) = set_db d s"
  by (simp_all add: set_db_def)

lemma set_db_inj [simp]: "set_db d s = set_db d' s \<longleftrightarrow> d = d'"
  by (metis set_db_fields(5))

lemma set_db_tokens [simp]:
  "m_db (s_mgr (s\<lparr>s_sessions := a\<rparr>)) = m_db (s_mgr s)"
  "m_db (s_mgr (s\<lparr>s_pending := a\<rparr>)) = m_db (s_mgr s)"
  "m_db (s_mgr (s\<lparr>s_resets := a\<rparr>)) = m_db (s_mgr s)"
  by simp_all

text \<open>GORM sets the time of the last update; otherwise a user is stored as given.\<close>

lemma stored_user_row:
  assumes "stored (RUser u) r"
  shows "\<exists>x. r = RUser (u\<lparr>us_updated := x\<rparr>)"
proof (cases r)
  case (RUser v)
  with assms have "v\<lparr>us_updated := 0\<rparr> = u\<lparr>us_updated := 0\<rparr>" by (simp add: stored_def)
  then have "(v\<lparr>us_updated := 0\<rparr>)\<lparr>us_updated := us_updated v\<rparr> = (u\<lparr>us_updated := 0\<rparr>)\<lparr>us_updated := us_updated v\<rparr>"
    by simp
  then have "v = u\<lparr>us_updated := us_updated v\<rparr>" by simp
  with RUser show ?thesis by blast
qed (use assms in \<open>simp_all add: stored_def\<close>)

text \<open>Writes that leave users and roles alone, and the effect on them of those that do not.\<close>

definition same_users :: "tables \<Rightarrow> tables \<Rightarrow> bool" where
  "same_users t t' \<longleftrightarrow> (\<forall>n. user_at t' n = user_at t n)"

definition user_stored :: "User \<Rightarrow> tables \<Rightarrow> tables \<Rightarrow> bool" where
  "user_stored u t t' \<longleftrightarrow> (\<exists>x. t' = t(KUser (us_name u) \<mapsto> RUser (u\<lparr>us_updated := x\<rparr>)))"

lemma user_stored_at:
  assumes "user_stored u t t'"
  shows "\<exists>x. user_at t' n = (if n = us_name u then Some (u\<lparr>us_updated := x\<rparr>) else user_at t n)"
    and "role_at t' n = role_at t n"
  using assms by (auto simp: user_stored_def row_at_def)

locale account_store =
  fixes X :: "('d, 'f, 'r) services" and tabs :: "'d \<Rightarrow> tables"
  assumes database: "gorm_api (gorm X) tabs"
begin

abbreviation db where "db s \<equiv> tabs (m_db (s_mgr s))"

lemma on_db_need:
  assumes "\<And>x d'. f (m_db (s_mgr s)) = (Inr x, d') \<Longrightarrow> Q x (set_db d' s)"
    and "\<And>e d'. f (m_db (s_mgr s)) = (Inl e, d') \<Longrightarrow> R (on_err e) (set_db d' s)"
  shows "run (need on_err (on_db f)) s Q R"
  using assms by (auto simp: run_need on_db_def set_db_def split: prod.splits sum.splits)

lemma first_row_need:
  assumes p: "projects p C" "\<And>x. key_of (C x) = K (nm x)" "\<And>a b. K a = K b \<longleftrightarrow> a = b"
    and Q: "\<And>d'. tabs d' = db s \<Longrightarrow> Q (row_at p (K n) (db s)) (set_db d' s)"
    and R: "\<And>e d'. tabs d' = db s \<Longrightarrow> \<not> is_not_found e \<Longrightarrow> R (on_err e) (set_db d' s)"
  shows "run (need on_err (on_db (or_nil (first_as (gorm X) p (\<lambda>x. nm x = n))))) s Q R"
proof (rule on_db_need)
  fix x d' assume g: "or_nil (first_as (gorm X) p (\<lambda>x. nm x = n)) (m_db (s_mgr s)) = (Inr x, d')"
  have "tabs d' = db s \<and> x = row_at p (K n) (db s)"
  proof (cases x)
    case None
    with g obtain e where "first_as (gorm X) p (\<lambda>x. nm x = n) (m_db (s_mgr s)) = (Inl e, d')" "is_not_found e"
      by (auto simp: or_nil_def split: prod.splits sum.splits if_splits)
    note absent = gorm_api.first_as_err [OF database p(1) this(1)] this(2)
    have "row_at p (K n) (db s) \<noteq> Some a" for a
      using absent p(2,3) gorm_api.row_at_tabs [OF database p(1), of "K n" "m_db (s_mgr s)" a] by auto
    then have "row_at p (K n) (db s) = None" by (cases "row_at p (K n) (db s)") blast+
    with absent None show ?thesis by simp
  next
    case (Some u)
    with g have "first_as (gorm X) p (\<lambda>x. nm x = n) (m_db (s_mgr s)) = (Inr u, d')"
      by (auto simp: or_nil_def split: prod.splits sum.splits if_splits)
    from gorm_api.first_as_ok [OF database p(1) this] Some p(2) show ?thesis
      using gorm_api.row_at_tabs [OF database p(1), of "K n" "m_db (s_mgr s)" u] by simp
  qed
  with Q show "Q x (set_db d' s)" by simp
next
  fix e d' assume "or_nil (first_as (gorm X) p (\<lambda>x. nm x = n)) (m_db (s_mgr s)) = (Inl e, d')"
  then have "first_as (gorm X) p (\<lambda>x. nm x = n) (m_db (s_mgr s)) = (Inl e, d')" "\<not> is_not_found e"
    by (auto simp: or_nil_def split: prod.splits sum.splits if_splits)
  with gorm_api.first_as_err [OF database p(1) this(1)] R show "R (on_err e) (set_db d' s)" by simp
qed

lemma run_GetUser:
  "(\<And>d'. tabs d' = db s \<Longrightarrow> Q (user_at (db s) n) (set_db d' s)) \<Longrightarrow>
   (\<And>e d'. tabs d' = db s \<Longrightarrow> \<not> is_not_found e \<Longrightarrow> R (on_err e) (set_db d' s)) \<Longrightarrow>
   run (need on_err (GetUser_m X n)) s Q R"
  unfolding GetUser_m_def GetUser_def by (rule first_row_need [where C = RUser]) auto

lemma run_GetRole:
  "(\<And>d'. tabs d' = db s \<Longrightarrow> Q (role_at (db s) n) (set_db d' s)) \<Longrightarrow>
   (\<And>e d'. tabs d' = db s \<Longrightarrow> \<not> is_not_found e \<Longrightarrow> R (on_err e) (set_db d' s)) \<Longrightarrow>
   run (need on_err (GetRole_m X n)) s Q R"
  unfolding GetRole_m_def GetRole_def by (rule first_row_need [where C = RRole]) auto

text \<open>A write either does its effect or fails and changes nothing.\<close>

lemma exec_need:
  assumes "\<And>d'. exec (gorm X) q (m_db (s_mgr s)) = (Inr (), d') \<Longrightarrow> Q () (set_db d' s)"
    and "\<And>e d'. tabs d' = db s \<Longrightarrow> R (on_err e) (set_db d' s)"
  shows "run (need on_err (on_db (exec (gorm X) q))) s Q R"
  using assms gorm_api.exec_err [OF database] by (intro on_db_need) auto

lemma run_UpdateUser:
  assumes "\<And>d'. user_stored u (db s) (tabs d') \<Longrightarrow> Q () (set_db d' s)"
    and "\<And>e d'. tabs d' = db s \<Longrightarrow> R (on_err e) (set_db d' s)"
  shows "run (need on_err (UpdateUser_m X u)) s Q R"
  unfolding UpdateUser_m_def UpdateUser_def
proof (rule exec_need)
  fix d' assume "exec (gorm X) (Write (Save (RUser u))) (m_db (s_mgr s)) = (Inr (), d')"
  from gorm_api.exec_write [OF database this] have "user_stored u (db s) (tabs d')"
    by (auto simp: user_stored_def dest!: stored_user_row)
  then show "Q () (set_db d' s)" by (rule assms(1))
qed (rule assms(2))

lemma run_CreateUser:
  assumes "\<And>d'. user_stored u (db s) (tabs d') \<Longrightarrow> user_at (db s) (us_name u) = None \<Longrightarrow> Q () (set_db d' s)"
    and "\<And>e d'. tabs d' = db s \<Longrightarrow> R (on_err e) (set_db d' s)"
  shows "run (need on_err (CreateUser_m X u)) s Q R"
  unfolding CreateUser_m_def CreateUser_def
proof (rule exec_need)
  fix d' assume "exec (gorm X) (Write (Create [RUser u])) (m_db (s_mgr s)) = (Inr (), d')"
  from gorm_api.exec_write [OF database this]
  obtain x where "tabs d' = (db s)(KUser (us_name u) \<mapsto> RUser (u\<lparr>us_updated := x\<rparr>))" "db s (KUser (us_name u)) = None"
    by (auto simp: list_all2_Cons1 add_rows_def dest!: stored_user_row)
  then show "Q () (set_db d' s)" by (intro assms(1)) (auto simp: user_stored_def row_at_def)
qed (rule assms(2))

lemma run_DeleteUser:
  assumes "\<And>d'. (\<And>k. user_at (tabs d') k = (if k = n then None else user_at (db s) k)) \<Longrightarrow>
      (\<And>k. (\<forall>m. k \<noteq> KUser m) \<Longrightarrow> tabs d' k = db s k) \<Longrightarrow> Q () (set_db d' s)"
    and "\<And>e d'. tabs d' = db s \<Longrightarrow> R (on_err e) (set_db d' s)"
  shows "run (need on_err (DeleteUser_m X n)) s Q R"
  unfolding DeleteUser_m_def DeleteUser_def
proof (rule exec_need)
  fix d' assume "exec (gorm X) (Write (Delete (on as_user (\<lambda>u. us_name u = n)))) (m_db (s_mgr s)) = (Inr (), d')"
  from gorm_api.exec_write [OF database this]
  have t: "tabs d' = drop_rows (on as_user (\<lambda>u. us_name u = n)) (db s)" by simp
  show "Q () (set_db d' s)"
  proof (rule assms(1))
    note drop = row_at_drop [OF projects_table(12) gorm_api.well_keyed_tabs [OF database]]
    show "user_at (tabs d') k = (if k = n then None else user_at (db s) k)" for k
    proof (cases "user_at (db s) k")
      case (Some u)
      then have "us_name u = k"
        using gorm_api.row_at_tabs [OF database projects_table(12), of "KUser k" "m_db (s_mgr s)" u] by simp
      with Some show ?thesis by (simp add: t drop)
    qed (simp add: t drop)
    show "tabs d' k = db s k" if "\<forall>m. k \<noteq> KUser m" for k
    proof (cases "db s k")
      case (Some r)
      then have "\<not> on as_user (\<lambda>u. us_name u = n) r"
        using gorm_api.keyed [OF database, of "m_db (s_mgr s)" k r] that by (cases r) (auto simp: on_def)
      with Some show ?thesis by (simp add: t drop_rows_def)
    qed (simp add: t drop_rows_def)
  qed
qed (rule assms(2))

lemma run_AdminExists:
  assumes "\<And>b d'. tabs d' = db s \<Longrightarrow> (b \<Longrightarrow> \<exists>u. has (db s) (RUser u) \<and> us_is_admin u) \<Longrightarrow>
      (\<not> b \<Longrightarrow> finite (ran (db s)) \<Longrightarrow> \<nexists>u. has (db s) (RUser u) \<and> us_is_admin u) \<Longrightarrow> Q b (set_db d' s)"
    and "\<And>e d'. tabs d' = db s \<Longrightarrow> R (on_err e) (set_db d' s)"
  shows "run (need on_err (AdminExists_m X)) s Q R"
  unfolding AdminExists_m_def
proof (rule on_db_need)
  let ?S = "{r \<in> ran (db s). on as_user us_is_admin r}"
  have mem: "?S = {} \<longleftrightarrow> (\<nexists>u. has (db s) (RUser u) \<and> us_is_admin u)"
    by (auto simp: gorm_api.has_ran [OF database] on_iff [OF projects_table(12)])
  fix b d' assume "AdminExists (gorm X) (m_db (s_mgr s)) = (Inr b, d')"
  then obtain y k where "gorm X (Count (on as_user us_is_admin)) (m_db (s_mgr s)) = (Inr y, d')" "b \<longleftrightarrow> k > 0"
      "y = Num k \<or> (\<forall>j. y \<noteq> Num j)"
    by (auto simp: AdminExists_def bindr_def retr_def count_as_def split: prod.splits sum.splits db_result.splits)
  with gorm_api.succeeded [OF database this(1)] have "tabs d' = db s" "b \<longleftrightarrow> card ?S > 0" by auto
  then show "Q b (set_db d' s)"
    using mem by (intro assms(1)) (auto simp: card_gt_0_iff)
next
  fix e d' assume "AdminExists (gorm X) (m_db (s_mgr s)) = (Inl e, d')"
  then have "gorm X (Count (on as_user us_is_admin)) (m_db (s_mgr s)) = (Inl e, d')"
    by (auto simp: AdminExists_def bindr_def retr_def count_as_def split: prod.splits sum.splits db_result.splits)
  then show "R (on_err e) (set_db d' s)"
    using gorm_api.failed [OF database] by (intro assms(2)) auto
qed

end

interpretation mema: account_store mem_services mem_tabs
  by (rule account_store.intro) (use mem_services_ok in \<open>simp add: services_ok_def\<close>)

end
