(* ===== verification/Admin_Frames.thy ===== *)
theory Admin_Frames
  imports Step_Frames Auth_Laws
begin

section \<open>The frames of the admin handlers\<close>

text \<open>
  For every handler outside of accounts and sessions: it writes only the tables of the fleet
  (groups, configurations, canaries, history, audit log; canaries only where it is about them), touches no session, token or mail,
  and, but for the few named ones, replies to every request.
\<close>

definition fleet :: "table set" where
  "fleet = {T. T \<notin> {TUser, TRole, TPerm}}"

lemma fleet_simps [simp]:
  "TGroup \<in> fleet" "TTag \<in> fleet" "TPipeline \<in> fleet" "TInstance \<in> fleet" "TOnetime \<in> fleet"
  "TMapping \<in> fleet" "TAgent \<in> fleet" "TStatus \<in> fleet" "THistory \<in> fleet" "TAudit \<in> fleet"
  "TCanary \<in> fleet" "TUser \<notin> fleet" "TRole \<notin> fleet" "TPerm \<notin> fleet"
  by (simp_all add: fleet_def)

text \<open>Of these, all but the canary releases, which only their own handlers write.\<close>

definition plain :: "table set" where
  "plain = fleet - {TCanary}"

lemma plain_simps [simp]:
  "TGroup \<in> plain" "TTag \<in> plain" "TPipeline \<in> plain" "TInstance \<in> plain" "TOnetime \<in> plain"
  "TMapping \<in> plain" "TAgent \<in> plain" "TStatus \<in> plain" "THistory \<in> plain" "TAudit \<in> plain"
  "TCanary \<notin> plain" "TUser \<notin> plain" "TRole \<notin> plain" "TPerm \<notin> plain"
  by (simp_all add: plain_def)

lemma calm_mono: "calm tabs K s s' \<Longrightarrow> K \<subseteq> L \<Longrightarrow> calm tabs L s s'"
  by (auto simp: calm_def elim: frame_mono)

lemma handles_fleet: "handles (calm tabs plain) Ob h \<Longrightarrow> handles (calm tabs fleet) Ob h"
  unfolding handles_def by (blast intro: calm_mono [of _ plain _ _ fleet] dest: DiffD1 [of _ fleet "{TCanary}", folded plain_def])

context account_store
begin

lemmas store_reads = gorm_api.keeps_reads [OF database]
lemmas store_writes = gorm_api.store_confined [OF database]

subsection \<open>The methods of the manager\<close>

lemma quiet_reads [step_intros]:
  "calm.quiet tabs K (GetGroup_m X n)" "calm.quiet tabs K (ListGroups_m X)"
  "calm.quiet tabs K (GetGroupTags_m X n)" "calm.quiet tabs K (GetGroupConfigs_m X n)"
  "calm.quiet tabs K (ListPipelineConfigs_m X)" "calm.quiet tabs K (ListInstanceConfigs_m X)"
  "calm.quiet tabs K (ListOnetimeCommands_m X)" "calm.quiet tabs K (GetCanary_m X n ct)"
  "calm.quiet tabs K (ListCanaries_m X)" "calm.quiet tabs K (GetUser_m X n)"
  "calm.quiet tabs K (ListUsers_m X)" "calm.quiet tabs K (GetRole_m X n)"
  "calm.quiet tabs K (ListRoles_m X)" "calm.quiet tabs K (GetRolePermissions_m X n)"
  "calm.quiet tabs K (ListConfigHistory_m X rt n)" "calm.quiet tabs K (ListDeletedConfigs_m X rt)"
  "calm.quiet tabs K (GetConfigHistoryByID_m X i)" "calm.quiet tabs K (ListAuditLogs_m X l off)"
  "calm.quiet tabs K (AdminExists_m X)"
  unfolding GetGroup_m_def ListGroups_m_def GetGroupTags_m_def GetGroupConfigs_m_def
    ListPipelineConfigs_m_def ListInstanceConfigs_m_def ListOnetimeCommands_m_def GetCanary_m_def
    ListCanaries_m_def GetUser_m_def ListUsers_m_def GetRole_m_def ListRoles_m_def GetRolePermissions_m_def
    ListConfigHistory_m_def ListDeletedConfigs_m_def GetConfigHistoryByID_m_def ListAuditLogs_m_def
    AdminExists_m_def
    GetGroup_def ListGroups_def GetGroupTags_def GetGroupConfigs_def existing_def
    ListPipelineConfigs_def ListInstanceConfigs_def ListOnetimeCommands_def GetCanary_def
    ListCanaries_def GetUser_def ListUsers_def GetRole_def ListRoles_def GetRolePermissions_def
    ListConfigHistory_def ListDeletedConfigs_def GetConfigHistoryByID_def ListAuditLogs_def
    AdminExists_def
  by (intro quiet_keeps keeps_bindr keeps_or_nil keeps_if keeps_retr store_reads)+

lemma quiet_groups [step_intros]:
  "TGroup \<in> K \<Longrightarrow> calm.quiet tabs K (CreateGroup_m X g)"
  "TGroup \<in> K \<Longrightarrow> calm.quiet tabs K (UpdateGroup_m X g)"
  "TGroup \<in> K \<Longrightarrow> TTag \<in> K \<Longrightarrow> TMapping \<in> K \<Longrightarrow> calm.quiet tabs K (DeleteGroup_m X n)"
  "TTag \<in> K \<Longrightarrow> calm.quiet tabs K (SetGroupTags_m X n ts)"
  "TMapping \<in> K \<Longrightarrow> calm.quiet tabs K (AddGroupConfig_m X mp)"
  "TMapping \<in> K \<Longrightarrow> calm.quiet tabs K (RemoveGroupConfig_m X a b c)"
  unfolding CreateGroup_m_def UpdateGroup_m_def DeleteGroup_m_def SetGroupTags_m_def AddGroupConfig_m_def
    RemoveGroupConfig_m_def
  by (rule quiet_confined(2), rule store_writes, simp, simp add: cache_ops)+

lemma quiet_configs [step_intros]:
  "TPipeline \<in> K \<Longrightarrow> calm.quiet tabs K (CreatePipelineConfig_m X cfg)"
  "TPipeline \<in> K \<Longrightarrow> calm.quiet tabs K (UpdatePipelineConfig_m X now cfg)"
  "TPipeline \<in> K \<Longrightarrow> TMapping \<in> K \<Longrightarrow> calm.quiet tabs K (DeletePipelineConfig_m X n)"
  "TInstance \<in> K \<Longrightarrow> calm.quiet tabs K (CreateInstanceConfig_m X cfg)"
  "TInstance \<in> K \<Longrightarrow> calm.quiet tabs K (UpdateInstanceConfig_m X now cfg)"
  "TInstance \<in> K \<Longrightarrow> TMapping \<in> K \<Longrightarrow> calm.quiet tabs K (DeleteInstanceConfig_m X n)"
  "TOnetime \<in> K \<Longrightarrow> calm.quiet tabs K (CreateOnetimeCommand_m X now cmd)"
  "TOnetime \<in> K \<Longrightarrow> TMapping \<in> K \<Longrightarrow> calm.quiet tabs K (DeleteOnetimeCommand_m X n)"
  "TCanary \<in> K \<Longrightarrow> calm.quiet tabs K (CreateCanary_m X cr)"
  "TCanary \<in> K \<Longrightarrow> calm.quiet tabs K (UpdateCanary_m X cr)"
  "TCanary \<in> K \<Longrightarrow> calm.quiet tabs K (DeleteCanary_m X n ct)"
  unfolding CreatePipelineConfig_m_def UpdatePipelineConfig_m_def DeletePipelineConfig_m_def
    CreateInstanceConfig_m_def UpdateInstanceConfig_m_def DeleteInstanceConfig_m_def
    CreateOnetimeCommand_m_def DeleteOnetimeCommand_m_def CreateCanary_m_def UpdateCanary_m_def
    DeleteCanary_m_def InvalidatePipelineConfig_def InvalidateInstanceConfig_def Let_def
  by (rule quiet_confined(2), rule store_writes, simp, simp add: cache_ops)+

lemma quiet_logs [step_intros]:
  "THistory \<in> K \<Longrightarrow> calm.quiet tabs K (SaveConfigHistory_m X h)"
  "TAudit \<in> K \<Longrightarrow> calm.quiet tabs K (CreateAuditLog_m X al)"
  unfolding SaveConfigHistory_m_def CreateAuditLog_m_def
  by (rule quiet_confined(1), rule store_writes, simp)+

lemma quiet_tiered:
  assumes "keeps tabs f"
  shows "calm.quiet tabs K (\<lambda>m. case tier_lookup X dec key m of
       (Some cfg, m1) \<Rightarrow> (Inr cfg, m1)
     | (None, m1) \<Rightarrow>
         (case on_db f m1 of
            (Inl e, m2) \<Rightarrow> (Inl e, m2)
          | (Inr cfg, m2) \<Rightarrow> (Inr (g cfg), backfill X key (b cfg) (v cfg) m2)))"
proof -
  have "tabs (snd (f d)) = tabs d" for d using assms by (simp add: keeps_def)
  then show ?thesis
    using tier_ops [of X dec key]
    by (simp add: calm.quiet_def calm_def on_db_def split_beta cache_ops split: sum.split option.split)
qed

lemma quiet_cached_reads [step_intros]:
  "calm.quiet tabs K (GetPipelineConfig_m X n)"
  "calm.quiet tabs K (GetInstanceConfig_m X n)"
  "calm.quiet tabs K (GetOnetimeCommand_m X n)"
  unfolding GetPipelineConfig_m_def GetInstanceConfig_m_def GetOnetimeCommand_m_def Let_def
    GetPipelineConfig_def GetInstanceConfig_def GetOnetimeCommand_def
  by (intro quiet_tiered store_reads)+

lemma fetch_agents_ops:
  "m_db (snd (fetch_agents X keys m)) = m_db m \<and> (m_rdb (snd (fetch_agents X keys m)) = None \<longleftrightarrow> m_rdb m = None)"
proof (induction keys arbitrary: m)
  case (Cons key keys)
  obtain r m1 where r: "on_redis X (RGet key) m = (r, m1)" by fastforce
  from on_redis_parts [OF this] Cons.IH [of m1] show ?case
    by (simp add: r split_beta split: sum.split redis_reply.split)
qed simp

lemma quiet_registry [step_intros]:
  "calm.quiet tabs K (GetAgent_m X i)"
  "calm.quiet tabs K (ListAgents_m ord X)"
  "calm.quiet tabs K (ListAgentsPaged_m lower ord X grp page pageSize search)"
  "calm.quiet tabs K (GetAgentConfigStatuses_m ord' X i)"
proof -
  have agents: "m_db (snd (ListAgents_m ord X m)) = m_db m \<and>
      (m_rdb (snd (ListAgents_m ord X m)) = None \<longleftrightarrow> m_rdb m = None)" for m
  proof -
    obtain r m1 where r: "on_redis X (RScan (prefixAgent @ ''*'')) m = (r, m1)" by fastforce
    from on_redis_parts [OF this] fetch_agents_ops [of _ m1] show ?thesis
      by (auto simp: ListAgents_m_def listAgentsFromRedis_def r split_beta simp del: not_None_eq
          split: option.split sum.split redis_reply.split)
  qed
  then show "calm.quiet tabs K (ListAgents_m ord X)" by (rule quiet_tidy)
  show "calm.quiet tabs K (GetAgent_m X i)"
    by (rule quiet_tidy) (auto simp: GetAgent_m_def simp del: not_None_eq dest: on_redis_parts
        split: option.split prod.split sum.split redis_reply.split)
  show "calm.quiet tabs K (GetAgentConfigStatuses_m ord' X i)"
    by (rule quiet_tidy) (auto simp: GetAgentConfigStatuses_m_def simp del: not_None_eq dest: on_redis_parts
        split: option.split prod.split sum.split redis_reply.split)
  have tags: "calm.quiet tabs K (GetGroupTags_m X grp :: ('d, 'f, 'r) mgr \<Rightarrow> _)" by (rule quiet_reads)
  show "calm.quiet tabs K (ListAgentsPaged_m lower ord X grp page pageSize search)"
    unfolding calm.quiet_def
  proof
    fix s :: "('d, 'f, 'r) adm"
    let ?first = "if grp \<noteq> [] \<and> grp \<noteq> DefaultGroupName then GetGroupTags_m X grp (s_mgr s) else (Inr [], s_mgr s)"
    obtain q m1 where f: "?first = (q, m1)" by fastforce
    have "calm tabs K s (s\<lparr>s_mgr := snd ?first\<rparr>)" using tags by (simp add: calm.quiet_def)
    then show "calm tabs K s (s\<lparr>s_mgr := snd (ListAgentsPaged_m lower ord X grp page pageSize search (s_mgr s))\<rparr>)"
      using agents [of m1] unfolding ListAgentsPaged_m_def f
      by (simp add: calm_def Let_def split_beta split: sum.split)
  qed
qed

subsection \<open>Steps the handlers share\<close>

lemma calm_attempts [step_intros]:
  "THistory \<in> K \<Longrightarrow> steps (calm tabs K) Ob (saveHistory X w req rt n a v d)"
  "TAudit \<in> K \<Longrightarrow> steps (calm tabs K) Ob (logAudit X w req st a rt n d)"
  unfolding saveHistory_def logAudit_def by (intro step_intros; assumption)+

lemma calm_record [step_intros]:
  "THistory \<in> K \<Longrightarrow> TAudit \<in> K \<Longrightarrow> steps (calm tabs K) Ob (record_change X w req st a rt n v old sm)"
  unfolding record_change_def by (intro step_intros)

lemma calm_checks [step_intros]:
  "(\<And>msg. Ob (badRequest msg)) \<Longrightarrow> steps (calm tabs K) Ob (need_valid problem)"
  "(\<And>msg. Ob (badRequest msg)) \<Longrightarrow> steps (calm tabs K) Ob (need_type req)"
  "(\<And>msg. Ob (badRequest msg)) \<Longrightarrow> steps (calm tabs K) Ob (percent_ok p)"
  "(\<And>msg. Ob (badRequest msg)) \<Longrightarrow> steps (calm tabs K) Ob (unmarshal w what fill raw)"
  unfolding need_valid_def need_type_def percent_ok_def unmarshal_def
  by (intro step_intros; simp)+

subsection \<open>Configurations\<close>

lemma calm_listing [step_intros]:
  "handles (calm tabs plain) replies (ListPipelineConfigs_h X w)"
  "handles (calm tabs plain) replies (ListInstanceConfigs_h X w)"
  "handles (calm tabs plain) replies (GetPipelineConfig_h X w)"
  "handles (calm tabs plain) replies (GetInstanceConfig_h X w)"
  "handles (calm tabs plain) replies (ListOnetimeCommands_h X w)"
  "handles (calm tabs plain) replies (GetOnetimeCommand_h X w)"
  unfolding ListPipelineConfigs_h_def ListInstanceConfigs_h_def GetPipelineConfig_h_def GetInstanceConfig_h_def
    list_configs_def get_config_def pipeline_kind_def instance_kind_def config_kind.simps
    ListOnetimeCommands_h_def GetOnetimeCommand_h_def Let_def
  by (intro step_intros; simp)+

lemma calm_config_kind:
  assumes "K = pipeline_kind X \<or> K = instance_kind X"
  shows "handles (calm tabs plain) replies (create_config X w K)"
    and "handles (calm tabs plain) replies (update_config X w K)"
    and "handles (calm tabs plain) replies (delete_config X w K)"
proof -
  have K: "calm.quiet tabs plain (ck_get K n)" "calm.quiet tabs plain (ck_create K c)"
    "calm.quiet tabs plain (ck_update K now c)" "calm.quiet tabs plain (ck_delete K n)" for n c now
    using assms by (auto simp: pipeline_kind_def instance_kind_def intro: quiet_cached_reads intro!: quiet_configs)
  show "handles (calm tabs plain) replies (create_config X w K)"
    unfolding create_config_def Let_def by (intro step_intros K; simp)
  show "handles (calm tabs plain) replies (update_config X w K)"
    unfolding update_config_def Let_def by (intro step_intros K; simp)
  show "handles (calm tabs plain) replies (delete_config X w K)"
    unfolding delete_config_def Let_def by (intro step_intros K; simp)
qed

lemma calm_changes [step_intros]:
  "handles (calm tabs plain) replies (CreatePipelineConfig_h X w)"
  "handles (calm tabs plain) replies (UpdatePipelineConfig_h X w)"
  "handles (calm tabs plain) replies (DeletePipelineConfig_h X w)"
  "handles (calm tabs plain) replies (CreateInstanceConfig_h X w)"
  "handles (calm tabs plain) replies (UpdateInstanceConfig_h X w)"
  "handles (calm tabs plain) replies (DeleteInstanceConfig_h X w)"
  unfolding CreatePipelineConfig_h_def UpdatePipelineConfig_h_def DeletePipelineConfig_h_def
    CreateInstanceConfig_h_def UpdateInstanceConfig_h_def DeleteInstanceConfig_h_def
  by (intro calm_config_kind; simp)+

lemma calm_onetime [step_intros]:
  "handles (calm tabs plain) replies (CreateOnetimeCommand_h X w)"
  "handles (calm tabs plain) replies (DeleteOnetimeCommand_h X w)"
  unfolding CreateOnetimeCommand_h_def DeleteOnetimeCommand_h_def Let_def
  by (intro step_intros; simp)+

subsection \<open>Groups and agents\<close>

lemma calm_groups [step_intros]:
  "handles (calm tabs plain) replies (ListGroups_h X w)"
  "handles (calm tabs plain) replies (CreateGroup_h X w)"
  "handles (calm tabs plain) replies (GetGroup_h X w)"
  "handles (calm tabs plain) replies (UpdateGroup_h X w)"
  "handles (calm tabs plain) replies (DeleteGroup_h X w)"
  "handles (calm tabs plain) replies (GetGroupIPSelector_h X w)"
  "handles (calm tabs plain) replies (SetGroupIPSelector_h X w)"
  "handles (calm tabs plain) replies (DeleteGroupIPSelector_h X w)"
  "handles (calm tabs plain) replies (SetGroupVersionConstraint_h X w)"
  "handles (calm tabs plain) replies (GetGroupTags_h X)"
  "handles (calm tabs plain) replies (GetGroupConfigs_h X)"
  "handles (calm tabs plain) replies (AddGroupConfig_h X w)"
  "handles (calm tabs plain) replies (RemoveGroupConfig_h X w)"
  unfolding ListGroups_h_def CreateGroup_h_def GetGroup_h_def UpdateGroup_h_def DeleteGroup_h_def
    GetGroupIPSelector_h_def SetGroupIPSelector_h_def DeleteGroupIPSelector_h_def
    SetGroupVersionConstraint_h_def GetGroupTags_h_def GetGroupConfigs_h_def AddGroupConfig_h_def
    RemoveGroupConfig_h_def Let_def
  by (intro step_intros; simp)+

lemma calm_agent [step_intros]: "handles (calm tabs plain) replies (GetAgent_h X w)"
proof -
  have "ends (calm tabs plain) replies
    (bindh (need lookup_failed (GetAgent_m X i)) (\<lambda>agent.
     bindh (attempt (GetAgentConfigStatuses_m (w_status_order w) X i)) (\<lambda>statuses. reth (ok_h (j agent statuses)))))"
    for i and j :: "Agent \<Rightarrow> err + AgentConfigStatus list \<Rightarrow> json option"
    by (intro step_intros; simp)
  then show ?thesis
    unfolding GetAgent_h_def Let_def
    by (simp add: handles_def ends_def finish_def split_beta split: sum.split)
qed

text \<open>A page number that overflows and a \<open>null\<close> tag panic.\<close>

lemma calm_set_tags [step_intros]:
  "steps (calm tabs plain) (\<lambda>_. True) (set_tags X n ts)"
  unfolding set_tags_def by (intro step_intros; simp)

lemma calm_panicking:
  "handles (calm tabs plain) (\<lambda>_. True) (ListAgents_h X w)"
  "handles (calm tabs plain) (\<lambda>_. True) (SetGroupTags_h X w)"
  unfolding ListAgents_h_def SetGroupTags_h_def Let_def
  by (intro step_intros; simp)+

subsection \<open>History\<close>

lemma calm_history [step_intros]:
  "handles (calm tabs plain) replies (ListConfigHistory_h X w)"
  "handles (calm tabs plain) replies (ListDeletedHistory_h X w)"
  "handles (calm tabs plain) replies (ListAuditLogs_h X w)"
  unfolding ListConfigHistory_h_def ListDeletedHistory_h_def ListAuditLogs_h_def Let_def
  by (intro step_intros; simp)+

lemma calm_mappings [step_intros]:
  "steps (calm tabs plain) Ob (remove_mappings X n ms)"
  "Ob Panicked \<Longrightarrow> steps (calm tabs plain) Ob (add_mappings X n cs)"
  by (induction ms, simp_all only: remove_mappings.simps, (intro step_intros; simp)+)
    (induction cs, simp_all only: add_mappings.simps, (intro step_intros; simp)+)

lemma calm_restore [step_intros]: "steps (calm tabs plain) (\<lambda>_. True) (restore_group X n snap)"
  unfolding restore_group_def by (intro step_intros; simp)

lemma calm_rollback_config [step_intros]:
  "steps (calm tabs plain) replies (rollback_config w (pipeline_kind X) n h)"
  "steps (calm tabs plain) replies (rollback_config w (instance_kind X) n h)"
  unfolding rollback_config_def pipeline_kind_def instance_kind_def config_kind.simps
  by (intro step_intros; simp)+

lemma steps_any: "steps R replies f \<Longrightarrow> steps R (\<lambda>_. True) f"
  by (simp add: steps_def)

lemma calm_rollback_field:
  "steps (calm tabs plain) (\<lambda>_. True) check \<Longrightarrow>
   steps (calm tabs plain) (\<lambda>_. True) (rollback_group_field X n field change check)"
  unfolding rollback_group_field_def by (intro step_intros; simp)

lemma calm_rollback_group [step_intros]: "steps (calm tabs plain) (\<lambda>_. True) (rollback_group X w n h)"
  unfolding rollback_group_def Let_def by (intro step_intros calm_rollback_field; simp)

lemma calm_rollback_onetime [step_intros]: "steps (calm tabs plain) replies (rollback_onetime X w n h)"
  unfolding rollback_onetime_def by (intro step_intros; simp)

lemma calm_rollback:
  "handles (calm tabs plain) (\<lambda>_. True) (RollbackConfig_h X w)"
  unfolding RollbackConfig_h_def rollback_of_def Let_def
  by (intro step_intros calm_rollback_config [THEN steps_any] calm_rollback_onetime [THEN steps_any]; simp)

subsection \<open>Canaries\<close>

lemma calm_canary_steps [step_intros]:
  "steps (calm tabs fleet) replies (read_canary w req)"
  "steps (calm tabs fleet) replies (ip_selector_of w body)"
  "steps (calm tabs fleet) replies (tag_selector_of body)"
  "steps (calm tabs fleet) replies (canary_view X w req)"
  "steps (calm tabs fleet) replies (promote_into X w req (kind_of X ct) n cr)"
  unfolding read_canary_def ip_selector_of_def tag_selector_of_def canary_view_def Let_def
      apply (intro step_intros; simp)+
  unfolding promote_into_def kind_of_def Let_def
  apply (cases "ct = ConfigTypePipeline")
   apply (simp_all only: if_True if_False pipeline_kind_def instance_kind_def config_kind.simps)
   apply (intro step_intros; simp)+
  done

lemma replies_canary [simp]: "replies (canary_exists w n cr same)" "replies status_promoted" "replies status_aborted"
  by (simp_all add: canary_exists_def status_promoted_def status_aborted_def)

lemma calm_status: "handles (calm tabs fleet) replies (setCanaryStatus X w a b audit)"
  unfolding setCanaryStatus_def Let_def by (intro step_intros; simp)

lemma calm_canaries [step_intros]:
  "handles (calm tabs fleet) replies (ListCanaries_h X w)"
  "handles (calm tabs fleet) replies (CreateCanary_h X w)"
  "handles (calm tabs fleet) replies (UpdateCanary_h X w)"
  "handles (calm tabs fleet) replies (GetCanary_h X w)"
  "handles (calm tabs fleet) replies (SetCanaryPercent_h X w)"
  "handles (calm tabs fleet) replies (PauseCanary_h X w)"
  "handles (calm tabs fleet) replies (ResumeCanary_h X w)"
  "handles (calm tabs fleet) replies (PromoteCanary_h X w)"
  "handles (calm tabs fleet) replies (AbortCanary_h X w)"
  "handles (calm tabs fleet) replies (GetCanaryStats_h X w)"
  "handles (calm tabs fleet) replies (GetCanaryAgents_h X w)"
  unfolding ListCanaries_h_def CreateCanary_h_def UpdateCanary_h_def GetCanary_h_def SetCanaryPercent_h_def
    PauseCanary_h_def ResumeCanary_h_def PromoteCanary_h_def AbortCanary_h_def GetCanaryStats_h_def
    GetCanaryAgents_h_def Let_def
  by (intro step_intros calm_status; simp)+

end

end
