(* ===== verification/Route_Laws.thy ===== *)
theory Route_Laws
  imports Admin_Frames
begin

section \<open>Which handler serves a request\<close>

text \<open>
  What the table of routes gives for any request: the handler it reaches, whether the path
  was guarded by \<open>requireAuth\<close>, and, for the routes that are not about accounts, the frame of
  the handler.
\<close>

subsection \<open>Patterns and protected paths\<close>

text \<open>
  A pattern without wildcards matches its own path only; in a pattern with wildcards the
  third segment is a literal other than \<open>auth\<close>, so no path it matches is a public one.
\<close>

definition path_of :: "string list \<Rightarrow> string" where
  "path_of parts = concat (map (\<lambda>part. ''/'' @ part) parts)"

fun guarded_segments :: "string list \<Rightarrow> bool" where
  "guarded_segments (a # b # c # parts) =
     (a = ''api'' \<and> b = ''v1'' \<and> \<not> is_wildcard c \<and> CHR ''/'' \<notin> set c \<and> c \<noteq> ''auth'')"
| "guarded_segments _ = False"

definition sound_pattern :: "string \<Rightarrow> bool" where
  "sound_pattern p \<longleftrightarrow>
     (if \<exists>part \<in> set (pattern_segments p). is_wildcard part
      then guarded_segments (pattern_segments p) \<and> p \<notin> set authPublicPaths
      else path_of (pattern_segments p) = p \<and> has_prefix p ''/api/v1/'')"

lemma match_literal:
  "match_segments ps parts \<noteq> None \<Longrightarrow> \<forall>p \<in> set ps. \<not> is_wildcard p \<Longrightarrow> parts = ps"
  by (induction ps parts rule: match_segments.induct) (auto split: if_splits)

lemma match_length: "match_segments ps parts \<noteq> None \<Longrightarrow> length parts = length ps"
  by (induction ps parts rule: match_segments.induct) (auto split: if_splits)

lemma match_head:
  "match_segments (p # ps) parts \<noteq> None \<Longrightarrow> \<not> is_wildcard p \<Longrightarrow>
   \<exists>rest. parts = p # rest \<and> match_segments ps rest \<noteq> None"
  by (cases parts) (auto split: if_splits)

lemma third_segment:
  assumes "CHR ''/'' \<notin> set c" and "CHR ''/'' \<notin> set d" and "c @ x = d @ y"
    and "x = [] \<or> hd x = CHR ''/''" and "y = [] \<or> hd y = CHR ''/''"
  shows "c = d"
  using assms by (auto simp: append_eq_append_conv2 Cons_eq_append_conv) (metis hd_append2 hd_in_set append_Nil2 append_self_conv)+

lemma public_paths: "p \<in> set authPublicPaths \<Longrightarrow> \<exists>y. p = ''/api/v1/'' @ ''auth'' @ CHR ''/'' # y"
  by (auto simp: authPublicPaths_def)

lemma path_of_head: "path_of parts = [] \<or> hd (path_of parts) = CHR ''/''"
  by (cases parts) (auto simp: path_of_def)

lemma guarded_path:
  assumes "match_segments ps (rq_segments req) \<noteq> None" and "guarded_segments ps"
  shows "protected_path (rq_path req)"
proof -
  from assms(2) obtain c ps' where ps: "ps = ''api'' # ''v1'' # c # ps'" "\<not> is_wildcard c"
      "CHR ''/'' \<notin> set c" "c \<noteq> ''auth''"
    by (cases ps rule: guarded_segments.cases) auto
  have lit: "\<not> is_wildcard ''api''" "\<not> is_wildcard ''v1''" by (simp_all add: is_wildcard_def)
  from match_head [OF assms(1) [unfolded ps(1)] lit(1)] obtain r1 where
    r1: "rq_segments req = ''api'' # r1" "match_segments (''v1'' # c # ps') r1 \<noteq> None" by blast
  from match_head [OF r1(2) lit(2)] obtain r2 where
    r2: "r1 = ''v1'' # r2" "match_segments (c # ps') r2 \<noteq> None" by blast
  from match_head [OF r2(2) ps(2)] obtain rest where "r2 = c # rest" by blast
  with r1 r2 have r: "rq_segments req = ''api'' # ''v1'' # c # rest" by simp
  then have path: "rq_path req = ''/api/v1/'' @ c @ path_of rest"
    by (simp add: rq_path_def path_of_def)
  have "rq_path req \<notin> set authPublicPaths"
  proof
    assume "rq_path req \<in> set authPublicPaths"
    then obtain y where "rq_path req = ''/api/v1/'' @ ''auth'' @ CHR ''/'' # y" using public_paths by blast
    with path have "c @ path_of rest = ''auth'' @ CHR ''/'' # y" by simp
    then have "c = ''auth''"
      using third_segment [OF ps(3), of "''auth''" "path_of rest" "CHR ''/'' # y"] path_of_head by simp
    with ps(4) show False ..
  qed
  then show ?thesis by (simp add: protected_path_def has_prefix_def path)
qed

lemma sound_protected:
  assumes "sound_pattern p" and "match_segments (pattern_segments p) (rq_segments req) \<noteq> None"
  shows "protected_path (rq_path req) \<longleftrightarrow> p \<notin> set authPublicPaths"
proof (cases "\<exists>part \<in> set (pattern_segments p). is_wildcard part")
  case True
  with assms guarded_path show ?thesis by (auto simp: sound_pattern_def)
next
  case False
  with assms(2) have "rq_segments req = pattern_segments p" using match_literal by blast
  with False assms(1) have "rq_path req = p" "has_prefix p ''/api/v1/''"
    by (auto simp: sound_pattern_def rq_path_def path_of_def)
  then show ?thesis by (simp add: protected_path_def)
qed

lemma routes_sound: "list_all (\<lambda>r. sound_pattern (fst (snd r))) (routes X w)"
  unfolding routes_def list.pred_inject prod.sel
  by (intro conjI TrueI; code_simp)

text \<open>The route that serves a request, if there is one.\<close>

definition route_of :: "('d, 'f, 'r) services \<Rightarrow> world \<Rightarrow> hreq \<Rightarrow> ('d, 'f, 'r) route option" where
  "route_of X w req = find (\<lambda>r. route_matches r req) (routes X w)"

lemma route_of_protected:
  assumes "route_of X w req = Some r"
  shows "r \<in> set (routes X w)" and "protected_path (rq_path req) \<longleftrightarrow> fst (snd r) \<notin> set authPublicPaths"
proof -
  show r: "r \<in> set (routes X w)" using assms find_Some_mem by (fastforce simp: route_of_def)
  have "route_matches r req" using assms find_Some_mem by (fastforce simp: route_of_def)
  with r routes_sound [of X w] show "protected_path (rq_path req) \<longleftrightarrow> fst (snd r) \<notin> set authPublicPaths"
    by (intro sound_protected) (auto simp: list_all_iff route_matches_def)
qed

end
