(* ===== verification/Auth_Effects.thy ===== *)
theory Auth_Effects
  imports Route_Laws
begin

section \<open>What each request may do to accounts, roles and tokens\<close>

text \<open>
  \<open>lawful\<close> says, of a request and the states before and after it, who may have changed which
  account and why a session or token exists. Every handler is lawful, and what is lawful keeps
  the invariant \<open>accounts_ok\<close>. The states are those of a manager without Redis; with one, the
  tokens are keys of Redis.
\<close>

subsection \<open>More calls of the store\<close>

lemma run_need_bindr:
  "run (need on_err (bindr f g)) s Q R = run (need on_err f) s (\<lambda>x s1. run (need on_err (g x)) s1 Q R) R"
  by (simp add: run_need bindr_def split: prod.splits sum.splits)

lemma run_need_retr: "run (need on_err (retr x)) s Q R = Q x s"
  by (simp add: run_need retr_def)

lemma set_db_self: "s\<lparr>s_mgr := s_mgr s\<rparr> = s"
  by simp

context account_store
begin

lemma find_need:
  assumes p: "projects p C"
    and Q: "\<And>xs d'. tabs d' = db s \<Longrightarrow> distinct xs \<Longrightarrow> set xs = {x. has (db s) (C x) \<and> P x} \<Longrightarrow>
      Q xs (set_db d' s)"
    and R: "\<And>e d'. tabs d' = db s \<Longrightarrow> R (on_err e) (set_db d' s)"
  shows "run (need on_err (on_db (find_as (gorm X) p P))) s Q R"
proof (rule on_db_need)
  fix xs d' assume "find_as (gorm X) p P (m_db (s_mgr s)) = (Inr xs, d')"
  from gorm_api.find_as_ok [OF database p this] show "Q xs (set_db d' s)" by (intro Q) auto
next
  fix e d' assume "find_as (gorm X) p P (m_db (s_mgr s)) = (Inl e, d')"
  from keepsD [OF gorm_api.keeps_reads(1) [OF database] this] show "R (on_err e) (set_db d' s)" by (rule R)
qed

lemma run_GetRolePermissions:
  "(\<And>ps d'. tabs d' = db s \<Longrightarrow> distinct ps \<Longrightarrow> set ps = {p. has (db s) (RPerm p) \<and> rp_role p = n} \<Longrightarrow>
      Q ps (set_db d' s)) \<Longrightarrow>
   (\<And>e d'. tabs d' = db s \<Longrightarrow> R (on_err e) (set_db d' s)) \<Longrightarrow>
   run (need on_err (GetRolePermissions_m X n)) s Q R"
  unfolding GetRolePermissions_m_def GetRolePermissions_def by (rule find_need [OF projects_table(14)]) auto

text \<open>Writes of roles and permissions.\<close>

lemma run_confined:
  assumes "confined tabs K w"
    and "\<And>d'. frame K (db s) (tabs d') \<Longrightarrow> w (m_db (s_mgr s)) = (Inr (), d') \<Longrightarrow> Q () (set_db d' s)"
    and "\<And>e d'. tabs d' = db s \<Longrightarrow> R (on_err e) (set_db d' s)"
  shows "run (need on_err (on_db w)) s Q R"
proof (rule on_db_need)
  fix x :: unit and d' assume w: "w (m_db (s_mgr s)) = (Inr x, d')"
  with assms(1) have "frame K (db s) (tabs d')" by (auto simp: confined_def)
  with w assms(2) show "Q x (set_db d' s)" by simp
next
  fix e d' assume "w (m_db (s_mgr s)) = (Inl e, d')"
  with assms(1) have "tabs d' = db s" by (auto simp: confined_def)
  then show "R (on_err e) (set_db d' s)" by (rule assms(3))
qed

lemma run_SetRolePermissions:
  "(\<And>d'. frame {TPerm} (db s) (tabs d') \<Longrightarrow> Q () (set_db d' s)) \<Longrightarrow>
   (\<And>e d'. tabs d' = db s \<Longrightarrow> R (on_err e) (set_db d' s)) \<Longrightarrow>
   run (need on_err (SetRolePermissions_m X n ps)) s Q R"
  unfolding SetRolePermissions_m_def
  by (rule run_confined [OF gorm_api.store_confined(24) [OF database]]) auto

lemma run_CreateRole:
  assumes "\<And>d'. frame {TRole} (db s) (tabs d') \<Longrightarrow>
      (\<And>n. role_at (db s) n \<noteq> None \<Longrightarrow> role_at (tabs d') n = role_at (db s) n) \<Longrightarrow> Q () (set_db d' s)"
    and "\<And>e d'. tabs d' = db s \<Longrightarrow> R (on_err e) (set_db d' s)"
  shows "run (need on_err (CreateRole_m X ro)) s Q R"
  unfolding CreateRole_m_def
proof (rule run_confined [OF gorm_api.store_confined(21) [OF database]])
  fix d' assume f: "frame {TRole} (db s) (tabs d')" and "CreateRole (gorm X) ro (m_db (s_mgr s)) = (Inr (), d')"
  from gorm_api.exec_write [OF database this(2) [unfolded CreateRole_def]]
  have "write_ok (Create [RRole ro]) (db s) (tabs d')" .
  from write_create_single [OF this] obtain r' where
    "db s (KRole (ro_name ro)) = None" "tabs d' = (db s)(KRole (ro_name ro) \<mapsto> r')" by auto
  then show "Q () (set_db d' s)" by (intro assms(1) f) (auto simp: row_at_def)
qed (rule assms(2))

text \<open>Deleting a role clears it from its users, and keeps everything else of them.\<close>

definition role_cleared :: "string \<Rightarrow> User \<Rightarrow> User \<Rightarrow> bool" where
  "role_cleared n u u' \<longleftrightarrow> u' = u \<or> (us_role u = n \<and> (\<exists>x. u' = u\<lparr>us_role := [], us_updated := x\<rparr>))"

lemma run_DeleteRole:
  assumes Q: "\<And>d'. frame {TUser, TPerm, TRole} (db s) (tabs d') \<Longrightarrow>
      (\<And>k. rel_option (role_cleared n) (user_at (db s) k) (user_at (tabs d') k)) \<Longrightarrow>
      (\<And>k u. user_at (tabs d') k = Some u \<Longrightarrow> us_role u = n \<Longrightarrow> n = []) \<Longrightarrow>
      (\<And>k. role_at (tabs d') k = (if k = n then None else role_at (db s) k)) \<Longrightarrow> Q () (set_db d' s)"
    and "\<And>e d'. tabs d' = db s \<Longrightarrow> R (on_err e) (set_db d' s)"
  shows "run (need on_err (DeleteRole_m X n)) s Q R"
  unfolding DeleteRole_m_def
proof (rule run_confined [OF gorm_api.store_confined(23) [OF database]])
  fix d' assume f: "frame {TUser, TPerm, TRole} (db s) (tabs d')"
    and "DeleteRole (gorm X) n (m_db (s_mgr s)) = (Inr (), d')"
  from gorm_api.exec_writes [OF database this(2) [unfolded DeleteRole_def]]
  obtain t1 where t1: "change_rows (on as_user (\<lambda>u. us_role u = n))
      (setting as_user RUser (\<lambda>u. u\<lparr>us_role := []\<rparr>)) (db s) t1"
    and t: "tabs d' = drop_rows (on as_role (\<lambda>r. ro_name r = n)) (drop_rows (on as_perm (\<lambda>p. rp_role p = n)) t1)"
    by auto
  have user: "user_at (tabs d') k = user_at t1 k" for k
    by (simp add: t row_at_drop_other [OF projects_table(12) projects_table(14)]
        row_at_drop_other [OF projects_table(12) projects_table(13)])
  have auto_user: "\<exists>u'. r' = RUser u' \<and> (\<exists>x. u' = u\<lparr>us_updated := x\<rparr>)" if "stored (RUser u) r'" for u r'
    using stored_user_row [OF that] by blast
  note look = update_rows_look [where k = "KUser k" and R = "\<lambda>u u'. \<exists>x. u' = u\<lparr>us_updated := x\<rparr>" for k,
      OF projects_table(12) t1 auto_user]
  have cleared: "rel_option (role_cleared n) (user_at (db s) k) (user_at t1 k) \<and>
      (\<forall>u. user_at t1 k = Some u \<longrightarrow> us_role u = n \<longrightarrow> n = [])" for k
  proof (cases "user_at (db s) k")
    case None
    with look(1) [of k] show ?thesis by simp
  next
    case (Some u)
    show ?thesis
    proof (cases "us_role u = n")
      case True
      from look(2) [OF _ Some True] obtain x where "user_at t1 k = Some ((u\<lparr>us_role := []\<rparr>)\<lparr>us_updated := x\<rparr>)" by blast
      with Some True show ?thesis by (auto simp: role_cleared_def)
    next
      case False
      from look(3) [OF _ Some False] have "user_at t1 k = Some u" by blast
      with Some False show ?thesis by (simp add: role_cleared_def)
    qed
  qed
  have role: "role_at (tabs d') k = (if k = n then None else role_at (db s) k)" for k
  proof -
    have keyed: "db s (KRole k) = Some r \<Longrightarrow> \<exists>ro. r = RRole ro \<and> ro_name ro = k" for r
      using gorm_api.keyed [OF database, of "m_db (s_mgr s)" "KRole k" r] by (cases r) auto
    have at_k: "case db s (KRole k) of None \<Rightarrow> t1 (KRole k) = None
      | Some r \<Rightarrow> \<exists>r'. t1 (KRole k) = Some r' \<and> (if on as_user (\<lambda>u. us_role u = n) r
          then stored (setting as_user RUser (\<lambda>u. u\<lparr>us_role := []\<rparr>) r) r' else r' = r)"
      using t1 by (simp add: change_rows_def)
    have "t1 (KRole k) = db s (KRole k)"
    proof (cases "db s (KRole k)")
      case (Some r)
      with keyed obtain ro where "r = RRole ro" by blast
      with at_k Some show ?thesis by (simp add: on_def)
    qed (use at_k in simp)
    with keyed show ?thesis
      by (cases "db s (KRole k)") (auto simp: t row_at_def drop_rows_def on_def)
  qed
  show "Q () (set_db d' s)"
    using cleared user role by (intro Q f) auto
qed (rule assms(2))

end

subsection \<open>What is lawful\<close>

text \<open>The string fields of the body, as \<open>decodeJSON\<close> hands them to a handler.\<close>

definition fields_of :: "string list \<Rightarrow> hreq \<Rightarrow> string list option" where
  "fields_of names req =
     Option.bind (json_decode_first (take json_limit (fst (rq_body req)))) (string_fields names)"

definition by_admin :: "hreq \<Rightarrow> bool" where
  "by_admin req \<longleftrightarrow> (\<exists>uc. rq_user req = Some uc \<and> uc_admin uc)"

definition no_admin :: "tables \<Rightarrow> bool" where
  "no_admin t \<longleftrightarrow> (\<nexists>u. has t (RUser u) \<and> us_is_admin u)"

text \<open>Who may change the account \<open>n\<close>: an administrator, its owner, the holder of its reset
  token, and whoever creates \<open>admin\<close> on a server that has no administrator.\<close>

definition may_change :: "world \<Rightarrow> hreq \<Rightarrow> token_map \<Rightarrow> tables \<Rightarrow> string \<Rightarrow> bool" where
  "may_change w req resets t n \<longleftrightarrow>
     by_admin req \<or>
     (\<exists>uc. rq_user req = Some uc \<and> uc_name uc = n) \<or>
     (\<exists>b. fields_of [''token'', ''new_password'', ''confirm_password''] req = Some b \<and>
        find_token (w_now w) (b ! 0) resets = Some n) \<or>
     (n = ''admin'' \<and> user_at t ''admin'' = None \<and> no_admin t)"

definition password_shown :: "world \<Rightarrow> hreq \<Rightarrow> string \<Rightarrow> User \<Rightarrow> bool" where
  "password_shown w req n u \<longleftrightarrow>
     (\<exists>b. fields_of [''username'', ''password''] req = Some b \<and>
        n = (if b ! 0 = [] then ''admin'' else b ! 0) \<and> w_check w (us_password_hash u) (b ! 1))"

definition code_shown :: "world \<Rightarrow> hreq \<Rightarrow> token_map \<Rightarrow> string \<Rightarrow> User \<Rightarrow> bool" where
  "code_shown w req pending n u \<longleftrightarrow>
     (\<exists>b. fields_of [''pending_token'', ''otp_code''] req = Some b \<and>
        find_token (w_now w) (b ! 0) pending = Some n \<and> w_totp_check w (b ! 1) (us_totp_secret u))"

text \<open>Why a new session, pending login or reset token exists.\<close>

definition session_earned :: "world \<Rightarrow> hreq \<Rightarrow> token_map \<Rightarrow> tables \<Rightarrow> token_entry \<Rightarrow> bool" where
  "session_earned w req pending t e \<longleftrightarrow>
     te_expires e = w_now w + sessionTTL \<and>
     (\<exists>u. user_at t (te_user e) = Some u \<and>
        (password_shown w req (te_user e) u \<and> \<not> us_totp_enabled u \<or> code_shown w req pending (te_user e) u))"

definition pending_earned :: "world \<Rightarrow> hreq \<Rightarrow> tables \<Rightarrow> token_entry \<Rightarrow> bool" where
  "pending_earned w req t e \<longleftrightarrow>
     te_expires e = w_now w + pendingOTPTTL \<and>
     (\<exists>u. user_at t (te_user e) = Some u \<and> password_shown w req (te_user e) u \<and> us_totp_enabled u)"

definition reset_earned :: "world \<Rightarrow> tables \<Rightarrow> token_entry \<Rightarrow> bool" where
  "reset_earned w t e \<longleftrightarrow>
     te_expires e = w_now w + resetTokenTTL \<and> (\<exists>u. user_at t (te_user e) = Some u \<and> us_email u \<noteq> [])"

definition grows :: "(token_entry \<Rightarrow> bool) \<Rightarrow> token_map \<Rightarrow> token_map \<Rightarrow> bool" where
  "grows P ts ts' \<longleftrightarrow> (\<forall>tok e. map_of ts' tok = Some e \<longrightarrow> map_of ts tok = Some e \<or> P e)"

text \<open>An account before and after: a new one, and one that was there.\<close>

definition same_rank :: "hreq \<Rightarrow> tables \<Rightarrow> string \<Rightarrow> User option \<Rightarrow> User \<Rightarrow> bool" where
  "same_rank req t n before u \<longleftrightarrow>
     (case before of
        None \<Rightarrow> (us_is_admin u \<longleftrightarrow> n = ''admin'') \<and> (us_is_admin u \<longrightarrow> no_admin t)
      | Some v \<Rightarrow> us_is_admin u = us_is_admin v \<and> (us_role u \<noteq> us_role v \<longrightarrow> by_admin req))"

definition roles_exist :: "tables \<Rightarrow> bool" where
  "roles_exist t \<longleftrightarrow> (\<forall>n u. user_at t n = Some u \<longrightarrow> us_role u = [] \<or> role_at t (us_role u) \<noteq> None)"

definition lawful_tables :: "world \<Rightarrow> hreq \<Rightarrow> token_map \<Rightarrow> tables \<Rightarrow> tables \<Rightarrow> bool" where
  "lawful_tables w req resets t t' \<longleftrightarrow>
     (\<forall>n. user_at t' n \<noteq> user_at t n \<longrightarrow> may_change w req resets t n) \<and>
     (\<forall>n u. user_at t' n = Some u \<longrightarrow> same_rank req t n (user_at t n) u) \<and>
     (user_at t ''admin'' \<noteq> None \<longrightarrow> user_at t' ''admin'' \<noteq> None) \<and>
     (\<forall>k. key_table k \<in> {TRole, TPerm} \<longrightarrow> t' k \<noteq> t k \<longrightarrow> by_admin req) \<and>
     (roles_exist t \<longrightarrow> roles_exist t')"

definition lawful :: "('d \<Rightarrow> tables) \<Rightarrow> world \<Rightarrow> hreq \<Rightarrow> ('d, 'f, 'r) adm \<Rightarrow> ('d, 'f, 'r) adm \<Rightarrow> bool" where
  "lawful tabs w req s s' \<longleftrightarrow>
     (let t = tabs (m_db (s_mgr s)); t' = tabs (m_db (s_mgr s')) in
        lawful_tables w req (s_resets s) t t' \<and>
        grows (session_earned w req (s_pending s) t) (s_sessions s) (s_sessions s') \<and>
        grows (pending_earned w req t) (s_pending s) (s_pending s') \<and>
        grows (reset_earned w t) (s_resets s) (s_resets s') \<and>
        (m_rdb (s_mgr s') = None \<longleftrightarrow> m_rdb (s_mgr s) = None))"

subsection \<open>Ways to be lawful\<close>

lemma grows_refl [simp]: "grows P ts ts"
  by (simp add: grows_def)

lemma grows_delete [simp]: "grows P ts (AList.delete tok ts)"
  by (auto simp: grows_def delete_conv' split: if_splits)

lemma grows_consume: "consume_token now tok ts = (r, ts') \<Longrightarrow> grows P ts ts'"
  by (auto simp: consume_token_def split: option.splits if_splits)

lemma consume_find: "consume_token now tok ts = (Some n, ts') \<Longrightarrow> find_token now tok ts = Some n"
  by (auto simp: consume_token_def find_token_def split: option.splits if_splits)

lemma grows_put: "P \<lparr>te_user = u, te_expires = x\<rparr> \<Longrightarrow> grows P ts (put_token tok u x ts)"
  by (auto simp: grows_def put_token_def update_conv' split: if_splits)

lemma same_rank_refl [simp]: "same_rank req t n (Some u) u"
  by (simp add: same_rank_def)

lemma lawful_tables_refl [simp]: "lawful_tables w req resets t t"
  by (auto simp: lawful_tables_def)

lemma lawful_kept:
  "tabs (m_db (s_mgr s')) = tabs (m_db (s_mgr s)) \<Longrightarrow> m_rdb (s_mgr s') = m_rdb (s_mgr s) \<Longrightarrow>
   grows (session_earned w req (s_pending s) (tabs (m_db (s_mgr s)))) (s_sessions s) (s_sessions s') \<Longrightarrow>
   grows (pending_earned w req (tabs (m_db (s_mgr s)))) (s_pending s) (s_pending s') \<Longrightarrow>
   grows (reset_earned w (tabs (m_db (s_mgr s)))) (s_resets s) (s_resets s') \<Longrightarrow> lawful tabs w req s s'"
  by (simp add: lawful_def)

text \<open>Storing one account.\<close>

lemma stored_lawful:
  assumes "user_stored u t t'" and "may_change w req resets t (us_name u)"
    and "same_rank req t (us_name u) (user_at t (us_name u)) u"
    and "us_role u = [] \<or> role_at t (us_role u) \<noteq> None \<or>
      (\<exists>v. user_at t (us_name u) = Some v \<and> us_role v = us_role u)"
  shows "lawful_tables w req resets t t'"
proof -
  from assms(1) obtain x where t': "t' = t(KUser (us_name u) \<mapsto> RUser (u\<lparr>us_updated := x\<rparr>))"
    by (auto simp: user_stored_def)
  have at: "user_at t' n = (if n = us_name u then Some (u\<lparr>us_updated := x\<rparr>) else user_at t n)"
      "role_at t' n = role_at t n" for n
    by (simp_all add: t' row_at_def)
  have "same_rank req t n (user_at t n) v" if "user_at t' n = Some v" for n v
    using that assms(3) by (cases "n = us_name u") (auto simp: at same_rank_def split: option.splits)
  moreover have "roles_exist t'" if "roles_exist t"
    using that assms(4) unfolding roles_exist_def at by (fastforce split: if_splits)
  moreover have "by_admin req" if "key_table k \<in> {TRole, TPerm}" "t' k \<noteq> t k" for k
    using that by (auto simp: t' split: if_splits)
  ultimately show ?thesis
    using assms(2) by (auto simp: lawful_tables_def at)
qed
subsection \<open>Every account handler is lawful\<close>

abbreviation lawfully where
  "lawfully tabs w req s f \<equiv> run f s (\<lambda>_. lawful tabs w req s) (\<lambda>_. lawful tabs w req s)"

lemma lawful_finish: "finish f s = (out, s') \<Longrightarrow> lawfully tabs w req s f \<Longrightarrow> lawful tabs w req s s'"
  by (erule finish_run)

context account_store
begin

lemma finite_admins: "finite (ran (db s)) \<Longrightarrow> no_admin (db s) \<longleftrightarrow> \<not> (\<exists>u. has (db s) (RUser u) \<and> us_is_admin u)"
  by (simp add: no_admin_def)

lemma lawful_same [simp]:
  "lawful tabs w req s s" "tabs d' = db s \<Longrightarrow> lawful tabs w req s (set_db d' s)"
  by (simp_all add: lawful_def)

lemma lawful_stored:
  assumes "user_stored u (db s) (tabs d')" and "may_change w req (s_resets s) (db s) (us_name u)"
    and "same_rank req (db s) (us_name u) (user_at (db s) (us_name u)) u"
    and "us_role u = [] \<or> role_at (db s) (us_role u) \<noteq> None \<or>
      (\<exists>v. user_at (db s) (us_name u) = Some v \<and> us_role v = us_role u)"
  shows "lawful tabs w req s (set_db d' s)"
  using stored_lawful [OF assms] by (simp add: lawful_def)

lemma user_named: "user_at (db s) n = Some u \<Longrightarrow> us_name u = n"
  using gorm_api.row_at_tabs [OF database projects_table(12), of "KUser n" "m_db (s_mgr s)" u] by simp

lemma update_lawful:
  assumes "user_stored u (db s) t'" and v: "user_at (db s) n = Some v"
    and u: "us_name u = us_name v" "us_is_admin u = us_is_admin v"
    and role: "us_role u = us_role v \<or> by_admin req \<and> (us_role u = [] \<or> role_at (db s) (us_role u) \<noteq> None)"
    and "may_change w req resets (db s) n"
  shows "lawful_tables w req resets (db s) t'"
proof -
  have n: "us_name u = n" using u(1) user_named [OF v] by simp
  show ?thesis
    by (rule stored_lawful [OF assms(1)]) (use assms(6) u(2) role in \<open>auto simp: n v same_rank_def\<close>)
qed

lemma lawful_update:
  "user_stored u (db s) (tabs d') \<Longrightarrow> user_at (db s) n = Some v \<Longrightarrow>
   us_name u = us_name v \<Longrightarrow> us_is_admin u = us_is_admin v \<Longrightarrow>
   us_role u = us_role v \<or> by_admin req \<and> (us_role u = [] \<or> role_at (db s) (us_role u) \<noteq> None) \<Longrightarrow>
   may_change w req (s_resets s) (db s) n \<Longrightarrow> lawful tabs w req s (set_db d' s)"
  using update_lawful [of u s "tabs d'" n v req w "s_resets s"] by (simp add: lawful_def)

text \<open>The account of the caller.\<close>

lemma own_account: "rq_user req = Some uc \<Longrightarrow> may_change w req resets t (uc_name uc)"
  by (simp add: may_change_def)

lemmas own_run = run_simps Let_def user_of_def

lemma lawful_own:
  assumes "rq_user req = Some uc"
  shows "AuthChangePassword_h X w req s = (out, s') \<Longrightarrow> lawful tabs w req s s'"
    and "OTPSetup_h X w req s = (out, s') \<Longrightarrow> lawful tabs w req s s'"
    and "OTPEnable_h X w req s = (out, s') \<Longrightarrow> lawful tabs w req s s'"
    and "OTPDisable_h X w req s = (out, s') \<Longrightarrow> lawful tabs w req s s'"
    and "SetMyEmail_h X w req s = (out, s') \<Longrightarrow> lawful tabs w req s s'"
  unfolding AuthChangePassword_h_def OTPSetup_h_def OTPEnable_h_def OTPDisable_h_def SetMyEmail_h_def
  by (erule lawful_finish, simp add: own_run assms split: option.split,
      auto simp: own_run assms own_account [OF assms]
        intro!: run_GetUser run_UpdateUser elim!: lawful_update split: option.split sum.split)+

text \<open>An administrator's requests.\<close>

lemma admin_change: "by_admin req \<Longrightarrow> may_change w req resets t n"
  by (simp add: may_change_def)

lemma run_known_role:
  assumes "\<And>d'. tabs d' = db s \<Longrightarrow> role = [] \<or> role_at (db s) role \<noteq> None \<Longrightarrow> Q () (set_db d' s)"
    and "\<And>out d'. tabs d' = db s \<Longrightarrow> R out (set_db d' s)"
  shows "run (known_role X role) s Q R"
proof (cases "role = []")
  case True
  have "set_db (m_db (s_mgr s)) s = s" by (simp add: set_db_def)
  with assms(1) [of "m_db (s_mgr s)"] True show ?thesis by (simp add: known_role_def run_simps)
next
  case False
  then show ?thesis
    using assms by (auto simp: known_role_def run_simps intro!: run_GetRole split: option.split)
qed

lemma lawful_by_admin:
  assumes "by_admin req"
  shows "CreateUser_h X w req s = (out, s') \<Longrightarrow> lawful tabs w req s s'"
    and "ResetUserPassword_h X w req s = (out, s') \<Longrightarrow> lawful tabs w req s s'"
    and "AssignUserRole_h X w req s = (out, s') \<Longrightarrow> lawful tabs w req s s'"
    and "SetUserEmail_h X w req s = (out, s') \<Longrightarrow> lawful tabs w req s s'"
  unfolding CreateUser_h_def ResetUserPassword_h_def AssignUserRole_h_def SetUserEmail_h_def
  apply (erule lawful_finish, simp add: run_simps Let_def split: option.split)
  subgoal
    apply (auto simp: run_simps assms new_user_def same_rank_def admin_change [OF assms]
      intro!: run_GetUser run_CreateUser run_known_role elim!: lawful_stored split: option.split sum.split)
    done
  by (erule lawful_finish, simp add: run_simps Let_def split: option.split,
      auto simp: run_simps assms admin_change [OF assms]
        intro!: run_GetUser run_UpdateUser run_known_role elim!: lawful_update split: option.split sum.split)+

text \<open>Requests that change roles or remove an account.\<close>

lemma lawful_frame:
  assumes "frame K (db s) (tabs d')" and "TUser \<notin> K" and "K \<inter> {TRole, TPerm} \<noteq> {} \<longrightarrow> by_admin req"
    and "\<And>n. role_at (db s) n \<noteq> None \<Longrightarrow> role_at (tabs d') n \<noteq> None"
  shows "lawful tabs w req s (set_db d' s)"
proof -
  have "user_at (tabs d') n = user_at (db s) n" for n
    using frame_row_at [OF assms(1), of "KUser n" as_user] assms(2) by simp
  moreover have "tabs d' k = db s k" if "key_table k \<in> {TRole, TPerm}" "\<not> by_admin req" for k
    using assms(1,3) that by (auto simp: frame_def)
  moreover have "roles_exist (tabs d')" if "roles_exist (db s)"
    using that assms(4) calculation(1) unfolding roles_exist_def by metis
  ultimately show ?thesis by (auto simp: lawful_def lawful_tables_def Let_def)
qed

lemma lawful_perms: "frame {TPerm} (db s) (tabs d') \<Longrightarrow> by_admin req \<Longrightarrow> lawful tabs w req s (set_db d' s)"
  by (rule lawful_frame) (auto simp: frame_row_at)

text \<open>Everything that is not about accounts, and the handlers that only read them.\<close>

lemma lawful_calm: "calm tabs fleet s s' \<Longrightarrow> lawful tabs w req s s'"
proof -
  assume c: "calm tabs fleet s s'"
  then have t: "tabs (m_db (s_mgr s')) k = db s k" if "key_table k \<notin> fleet" for k
    using that by (simp add: calm_def frame_def)
  then have "user_at (tabs (m_db (s_mgr s'))) n = user_at (db s) n"
      "role_at (tabs (m_db (s_mgr s'))) n = role_at (db s) n" for n
    by (simp_all add: row_at_def)
  moreover have "tabs (m_db (s_mgr s')) k = db s k" if "key_table k \<in> {TRole, TPerm}" for k
    using that by (intro t) auto
  ultimately show ?thesis
    using c by (auto simp: lawful_def lawful_tables_def roles_exist_def calm_def Let_def)
qed

lemma lawful_role_deleted:
  assumes "by_admin req"
    and "frame {TUser, TPerm, TRole} (db s) (tabs d')"
    and users: "\<And>k. rel_option (role_cleared n) (user_at (db s) k) (user_at (tabs d') k)"
    and gone: "\<And>k u. user_at (tabs d') k = Some u \<Longrightarrow> us_role u = n \<Longrightarrow> n = []"
    and roles: "\<And>k. role_at (tabs d') k = (if k = n then None else role_at (db s) k)"
  shows "lawful tabs w req s (set_db d' s)"
proof -
  have old: "\<exists>v. user_at (db s) k = Some v \<and> role_cleared n v u" if "user_at (tabs d') k = Some u" for k u
    using users [of k] that by (auto simp: option_rel_Some2)
  have rank: "same_rank req (db s) k (user_at (db s) k) u" if "user_at (tabs d') k = Some u" for k u
    using old [OF that] assms(1) by (auto simp: same_rank_def role_cleared_def)
  have exist: "us_role u = [] \<or> role_at (tabs d') (us_role u) \<noteq> None"
    if "roles_exist (db s)" "user_at (tabs d') k = Some u" for k u
    using old [OF that(2)] that gone [OF that(2)] by (auto simp: roles_exist_def role_cleared_def roles)
  have "user_at (tabs d') ''admin'' \<noteq> None" if "user_at (db s) ''admin'' \<noteq> None"
    using users [of "''admin''"] that by (auto simp: option_rel_Some1)
  with rank exist assms(1) show ?thesis
    by (simp add: lawful_def lawful_tables_def admin_change roles_exist_def)
qed

lemma lawful_user_deleted:
  assumes "by_admin req" and "n \<noteq> ''admin''"
    and "\<And>k. user_at (tabs d') k = (if k = n then None else user_at (db s) k)"
    and others: "\<And>k. (\<forall>m. k \<noteq> KUser m) \<Longrightarrow> tabs d' k = db s k"
  shows "lawful tabs w req s (set_db d' s)"
proof -
  have "role_at (tabs d') k = role_at (db s) k" for k
    using others [of "KRole k"] by (simp add: row_at_def)
  then show ?thesis
    using assms(1-3) by (auto simp: lawful_def lawful_tables_def admin_change roles_exist_def)
qed

lemma lawful_by_admin2:
  assumes "by_admin req"
  shows "DeleteUser_h X req s = (out, s') \<Longrightarrow> lawful tabs w req s s'"
    and "CreateRole_h X w req s = (out, s') \<Longrightarrow> lawful tabs w req s s'"
    and "DeleteRole_h X req s = (out, s') \<Longrightarrow> lawful tabs w req s s'"
    and "SetRolePermissions_h X w req s = (out, s') \<Longrightarrow> lawful tabs w req s s'"
  unfolding DeleteUser_h_def CreateRole_h_def DeleteRole_h_def SetRolePermissions_h_def
  subgoal
    by (erule lawful_finish) (auto simp: run_simps Let_def assms intro!: run_DeleteUser intro: lawful_user_deleted)
  subgoal
    by (erule lawful_finish, simp add: run_simps Let_def split: option.split,
        auto simp: run_simps assms intro!: run_GetRole run_CreateRole elim!: lawful_frame)
  subgoal
    by (erule lawful_finish) (auto simp: run_simps assms intro!: run_DeleteRole intro: lawful_role_deleted)
  subgoal
    by (erule lawful_finish, simp add: run_simps Let_def split: option.split,
        auto simp: run_simps assms intro!: run_SetRolePermissions intro: lawful_perms)
  done

text \<open>
  Logging in, and the holders of tokens. \<open>finite\<close> is what a real database is; without it an
  administrator could exist and not be counted.
\<close>

lemma lawful_init:
  assumes "AuthInit_h X w req s = (out, s')" and "finite (ran (db s))"
  shows "lawful tabs w req s s'"
  using assms(1) unfolding AuthInit_h_def
  apply (rule lawful_finish)
  apply (rule run_bindh [THEN iffD2], rule run_AdminExists)
   apply (auto simp: run_simps Let_def new_user_def same_rank_def may_change_def no_admin_def assms(2)
      intro!: run_CreateUser elim!: lawful_stored split: option.split sum.split)
  done

text \<open>The stores in memory; a token issued or consumed changes nothing else.\<close>

lemmas token_run = run_simps Let_def sessions_create_def sessions_delete_def pendingOTP_issue_def
  pendingOTP_consume_def resetTokens_issue_def resetTokens_consume_def

lemmas earned = lawful_def session_earned_def pending_earned_def reset_earned_def password_shown_def
  code_shown_def fields_of_def

lemma lawful_login:
  assumes "AuthLogin_h X w req s = (out, s')" and "m_rdb (s_mgr s) = None"
  shows "lawful tabs w req s s'"
  using assms(1) unfolding AuthLogin_h_def start_session_def
  by (rule lawful_finish, simp add: token_run split: option.split,
      auto simp: token_run assms(2) intro!: run_GetUser split: option.split)
    (auto simp: earned intro!: grows_put)

lemma lawful_logout:
  assumes "AuthLogout_h X req s = (out, s')" and "m_rdb (s_mgr s) = None"
  shows "lawful tabs w req s s'"
  using assms by (auto simp: AuthLogout_h_def sessions_delete_def earned Let_def split: option.splits)

lemma lawful_otp_login:
  assumes "OTPLoginStep_h X w req s = (out, s')" and "m_rdb (s_mgr s) = None"
  shows "lawful tabs w req s s'"
  using assms(1) unfolding OTPLoginStep_h_def start_session_def
  apply (rule lawful_finish)
  apply (simp add: token_run assms(2) split: option.split prod.split)
  apply (auto simp: token_run assms(2) intro!: run_GetUser split: option.split)
        apply (auto simp: earned grows_consume intro!: grows_put dest: consume_find)
  done

lemma lawful_forgot:
  assumes "ForgotPassword_h X w req s = (out, s')" and "m_rdb (s_mgr s) = None"
  shows "lawful tabs w req s s'"
  using assms(1) unfolding ForgotPassword_h_def sendMail_def
  apply (rule lawful_finish)
  apply (simp add: token_run split: option.split)
  apply (auto simp: token_run assms(2) intro!: run_GetUser split: option.split)
     apply (auto simp: earned intro!: grows_put)
  done

lemma lawful_reset:
  assumes "ResetPassword_h X w req s = (out, s')" and "m_rdb (s_mgr s) = None"
  shows "lawful tabs w req s s'"
  using assms(1) unfolding ResetPassword_h_def
  apply (rule lawful_finish)
  apply (simp add: token_run assms(2) split: option.split prod.split)
  apply (auto simp: token_run assms(2) intro!: run_GetUser run_UpdateUser split: option.split sum.split)
       apply (auto simp: earned grows_consume may_change_def intro!: update_lawful dest: consume_find)
  done

end

end
