(* ===== verification/Serve_Laws.thy ===== *)
theory Serve_Laws
  imports Auth_Effects
begin

section \<open>The laws of every request\<close>

text \<open>
  The middleware lets a request through exactly for an authorised caller, and whatever handler
  it then reaches is lawful: \<open>serve_lawful\<close> covers every request to the admin API.
\<close>

subsection \<open>Who is let through\<close>

definition signed_in :: "world \<Rightarrow> hreq \<Rightarrow> token_map \<Rightarrow> string \<Rightarrow> bool" where
  "signed_in w req sessions n \<longleftrightarrow>
     (\<exists>tok. rq_cookies req sessionCookieName = Some tok \<and> find_token (w_now w) tok sessions = Some n) \<and>
     csrf_ok req"

definition allows :: "string \<Rightarrow> RolePermission \<Rightarrow> bool" where
  "allows action p \<longleftrightarrow>
     (action = ''create'' \<and> rp_create p) \<or> (action = ''read'' \<and> rp_read p) \<or>
     (action = ''update'' \<and> rp_update p) \<or> (action = ''delete'' \<and> rp_delete p)"

definition granted :: "tables \<Rightarrow> string \<Rightarrow> string \<Rightarrow> string \<Rightarrow> bool" where
  "granted t role resource action \<longleftrightarrow>
     (\<exists>p. has t (RPerm p) \<and> rp_role p = role \<and> rp_resource p = resource \<and> allows action p)"

definition authorised :: "world \<Rightarrow> hreq \<Rightarrow> token_map \<Rightarrow> tables \<Rightarrow> userCtx \<Rightarrow> bool" where
  "authorised w req sessions t uc \<longleftrightarrow>
     signed_in w req sessions (uc_name uc) \<and>
     (\<exists>u. user_at t (uc_name uc) = Some u \<and> uc_admin uc = us_is_admin u \<and>
        (us_is_admin u \<or>
         (case routeToPermission (rq_method req) (rq_path req) of (resource, action) \<Rightarrow>
            resource = [] \<or> us_role u \<noteq> [] \<and> granted t (us_role u) resource action)))"

definition turned_away :: "outcome \<Rightarrow> bool" where
  "turned_away out \<longleftrightarrow> (\<exists>r. out = Reply r \<and> rs_status r \<in> {401, 403} \<and> rs_cookies r = [])"

definition actions :: "string list" where
  "actions = [''create'', ''read'', ''update'', ''delete'']"

lemma permitted_Cons:
  assumes "action \<in> set actions"
  shows "permitted resource action (p # ps) \<longleftrightarrow>
    (if rp_resource p = resource then allows action p else permitted resource action ps)"
proof -
  consider "action = ''create''" | "action = ''read''" | "action = ''update''" | "action = ''delete''"
    using assms by (auto simp: actions_def)
  then show ?thesis by cases (simp_all add: allows_def)
qed

lemma permitted_Some:
  assumes "distinct (map rp_resource ps)" and "action \<in> set actions"
  shows "permitted resource action ps \<longleftrightarrow> (\<exists>p \<in> set ps. rp_resource p = resource \<and> allows action p)"
  using assms(1)
proof (induction ps)
  case (Cons p ps)
  have "\<forall>q \<in> set ps. rp_resource q \<noteq> rp_resource p"
    using Cons.prems by (metis distinct.simps(2) image_eqI list.set_map list.simps(9))
  with Cons show ?case by (auto simp: permitted_Cons [OF assms(2)] simp del: permitted.simps(2))
qed simp

lemma permission_actions:
  assumes "fst (routeToPermission m p) \<noteq> []"
  shows "snd (routeToPermission m p) \<in> set actions"
proof -
  have pair: "fst (if r = [] \<or> a = [] then ([], []) else (r, a)) \<noteq> [] \<Longrightarrow> a \<in> insert [] S \<Longrightarrow>
      snd (if r = [] \<or> a = [] then ([], []) else (r, a)) \<in> S" for r a :: string and S
    by (auto split: if_splits)
  have choice: "x \<in> S \<Longrightarrow> y \<in> S \<Longrightarrow> (if c then x else y) \<in> S" for x y :: string and S c by simp
  show ?thesis
    using assms unfolding routeToPermission_def Let_def
    by (rule pair) (intro choice; simp add: actions_def)
qed

text \<open>What a lawful request did, clause by clause.\<close>

lemma lawfulD:
  assumes "lawful tabs w req s s'"
  defines "t \<equiv> tabs (m_db (s_mgr s))" and "t' \<equiv> tabs (m_db (s_mgr s'))"
  shows lawful_change: "user_at t' n \<noteq> user_at t n \<Longrightarrow> may_change w req (s_resets s) t n"
    and lawful_rank: "user_at t' n = Some u \<Longrightarrow> same_rank req t n (user_at t n) u"
    and lawful_admin: "user_at t ''admin'' \<noteq> None \<Longrightarrow> user_at t' ''admin'' \<noteq> None"
    and lawful_roles: "key_table k \<in> {TRole, TPerm} \<Longrightarrow> t' k \<noteq> t k \<Longrightarrow> by_admin req"
    and lawful_exist: "roles_exist t \<Longrightarrow> roles_exist t'"
    and lawful_redis: "m_rdb (s_mgr s') = None \<longleftrightarrow> m_rdb (s_mgr s) = None"
  using assms(1) unfolding lawful_def lawful_tables_def Let_def t_def [symmetric] t'_def [symmetric]
  by blast+

text \<open>
  While a read of the tables works the middleware decides exactly \<open>authorised\<close>; a read that
  fails turns the request away.
\<close>

definition reads_work :: "('d, 'f, 'r) services \<Rightarrow> ('d \<Rightarrow> tables) \<Rightarrow> tables \<Rightarrow> bool" where
  "reads_work X tabs t \<longleftrightarrow> (\<forall>P d e d'. tabs d = t \<longrightarrow>
     gorm X (Find P) d \<noteq> (Inl e, d') \<and> (gorm X (First P) d = (Inl e, d') \<longrightarrow> is_not_found e))"

context account_store
begin

lemma permitted_granted:
  assumes "distinct ps" and "set ps = {p. has (db s) (RPerm p) \<and> rp_role p = role}"
    and "action \<in> set actions"
  shows "permitted resource action ps \<longleftrightarrow> granted (db s) role resource action"
proof -
  have "inj_on rp_resource (set ps)"
    using assms(2) by (auto simp: inj_on_def has_def)
  then have "distinct (map rp_resource ps)" using assms(1) by (simp add: distinct_map)
  from permitted_Some [OF this assms(3)] show ?thesis
    using assms(2) by (auto simp: granted_def)
qed

lemma find_works: "reads_work X tabs (db s) \<Longrightarrow> find_as (gorm X) p P (m_db (s_mgr s)) \<noteq> (Inl e, d')"
  by (auto simp: reads_work_def find_as_def split: prod.splits sum.splits db_result.splits)

lemma first_works:
  assumes "reads_work X tabs (db s)" and p: "projects p C"
  shows "or_nil (first_as (gorm X) p P) (m_db (s_mgr s)) \<noteq> (Inl e, d')"
proof
  assume "or_nil (first_as (gorm X) p P) (m_db (s_mgr s)) = (Inl e, d')"
  then have f: "first_as (gorm X) p P (m_db (s_mgr s)) = (Inl e, d')" "\<not> is_not_found e"
    by (auto simp: or_nil_def split: prod.splits sum.splits if_splits)
  obtain res d1 where g: "gorm X (First (on p P)) (m_db (s_mgr s)) = (res, d1)" by fastforce
  show False
  proof (cases res)
    case (Inl e')
    with f g assms(1) show False by (auto simp: first_as_def reads_work_def)
  next
    case (Inr x)
    from gorm_api.first_row [OF database g [unfolded Inr]] obtain r where "x = Rows [r]" "on p P r" by blast
    with f(1) g Inr show False by (auto simp: first_as_def on_def split: option.splits)
  qed
qed

lemma need_works:
  assumes "run (need on_err (on_db f)) s Q R" and "\<And>e d'. f (m_db (s_mgr s)) \<noteq> (Inl e, d')"
  shows "run (need on_err (on_db f)) s Q R'"
  using assms by (auto simp: run_need on_db_def split: prod.splits sum.splits)

lemma run_GetUser_works:
  assumes "\<And>d'. tabs d' = db s \<Longrightarrow> Q (user_at (db s) n) (set_db d' s)"
    and "\<And>e d'. tabs d' = db s \<Longrightarrow> \<not> reads_work X tabs (db s) \<Longrightarrow> R (on_err e) (set_db d' s)"
  shows "run (need on_err (GetUser_m X n)) s Q R"
proof (cases "reads_work X tabs (db s)")
  case True
  have "run (need on_err (GetUser_m X n)) s Q (\<lambda>_ _. True)" by (rule run_GetUser) (use assms(1) in auto)
  then show ?thesis
    unfolding GetUser_m_def GetUser_def by (rule need_works) (rule first_works [OF True projects_table(12)])
next
  case False
  then show ?thesis by (intro run_GetUser) (use assms in auto)
qed

lemma run_GetRolePermissions_works:
  assumes "\<And>ps d'. tabs d' = db s \<Longrightarrow> distinct ps \<Longrightarrow> set ps = {p. has (db s) (RPerm p) \<and> rp_role p = n} \<Longrightarrow>
      Q ps (set_db d' s)"
    and "\<And>e d'. tabs d' = db s \<Longrightarrow> \<not> reads_work X tabs (db s) \<Longrightarrow> R (on_err e) (set_db d' s)"
  shows "run (need on_err (GetRolePermissions_m X n)) s Q R"
proof (cases "reads_work X tabs (db s)")
  case True
  have "run (need on_err (GetRolePermissions_m X n)) s Q (\<lambda>_ _. True)"
    by (rule run_GetRolePermissions) (use assms(1) in auto)
  then show ?thesis
    unfolding GetRolePermissions_m_def GetRolePermissions_def by (rule need_works) (rule find_works [OF True])
next
  case False
  then show ?thesis by (intro run_GetRolePermissions) (use assms in auto)
qed

lemma run_authenticate:
  assumes "m_rdb (s_mgr s) = None"
  shows "run (authenticate X w req) s
    (\<lambda>uc s1. \<exists>d. s1 = set_db d s \<and> tabs d = db s \<and> authorised w req (s_sessions s) (db s) uc)
    (\<lambda>out s1. \<exists>d. s1 = set_db d s \<and> tabs d = db s \<and> turned_away out \<and>
      (reads_work X tabs (db s) \<longrightarrow> (\<nexists>uc. authorised w req (s_sessions s) (db s) uc)))"
proof -
  have self: "\<exists>d. s = set_db d s \<and> tabs d = db s"
    by (rule exI [of _ "m_db (s_mgr s)"]) (simp add: set_db_def)
  have away: "turned_away (writeJSON 401 c msg data)" "turned_away (writeJSON 403 c msg data)"
    "turned_away unauthorized" for c msg data
    by (simp_all add: turned_away_def writeJSON_def unauthorized_def)
  note act = permission_actions [of "rq_method req" "rq_path req"]
  show ?thesis
    unfolding authenticate_def hasPermission_def
    apply (simp add: run_simps Let_def sessions_get_def assms away split: option.split)
    apply (auto simp: run_simps run_need_bindr run_need_retr Let_def authorised_def signed_in_def away self split_beta
        permitted_granted act intro!: run_GetUser_works run_GetRolePermissions_works split: option.split)
    done
qed

subsection \<open>Every route is lawful\<close>

lemma calm_sessions: "steps (calm tabs K) Ob (act (sessions_get X w tok))"
proof -
  have "calm tabs K s (snd (sessions_get X w tok s))" for s :: "('d, 'f, 'r) adm"
    using redis_ops(1,2) [of X "RGet (sessionRedisPrefix @ tok)" "s_mgr s"]
    by (auto simp: sessions_get_def calm_def split_beta simp del: not_None_eq split: option.split)
  then show ?thesis by (rule calm.leaves)
qed

lemma calm_account_reads:
  "handles (calm tabs fleet) replies (AuthStatus_h X w)"
  "handles (calm tabs fleet) replies (GetMe_h X)"
  "handles (calm tabs fleet) replies (ListUsers_h X w)"
  "handles (calm tabs fleet) replies (ListRoles_h X w)"
  "handles (calm tabs fleet) replies (GetRolePermissions_h X)"
  unfolding AuthStatus_h_def GetMe_h_def ListUsers_h_def ListRoles_h_def GetRolePermissions_h_def Let_def
  by (intro step_intros calm_sessions; simp)+

definition lawful_handler :: "world \<Rightarrow> bool \<Rightarrow> ('d, 'f, 'r) handler \<Rightarrow> bool" where
  "lawful_handler w guarded h \<longleftrightarrow>
     (\<forall>req s out s'. h req s = (out, s') \<longrightarrow> (guarded \<longrightarrow> rq_user req \<noteq> None) \<longrightarrow>
        m_rdb (s_mgr s) = None \<longrightarrow> finite (ran (db s)) \<longrightarrow> lawful tabs w req s s')"

lemma lawful_handlerD:
  "lawful_handler w g h \<Longrightarrow> h req s = (out, s') \<Longrightarrow> (g \<Longrightarrow> rq_user req \<noteq> None) \<Longrightarrow>
   m_rdb (s_mgr s) = None \<Longrightarrow> finite (ran (db s)) \<Longrightarrow> lawful tabs w req s s'"
  by (simp add: lawful_handler_def)

lemma lawful_handler_calm: "handles (calm tabs fleet) Ob h \<Longrightarrow> lawful_handler w g h"
  unfolding lawful_handler_def by (blast dest: handlesD intro: lawful_calm)

lemma lawful_handler_admin:
  "(\<And>req s out s'. by_admin req \<Longrightarrow> h req s = (out, s') \<Longrightarrow> lawful tabs w req s s') \<Longrightarrow>
   lawful_handler w g (requireAdmin h)"
  by (auto simp: lawful_handler_def requireAdmin_def by_admin_def split: option.splits if_splits)

lemma lawful_handler_admin_calm: "handles (calm tabs fleet) Ob h \<Longrightarrow> lawful_handler w g (requireAdmin h)"
  by (rule lawful_handler_admin) (blast dest: handlesD intro: lawful_calm)

lemma lawful_handler_own:
  "(\<And>req uc s out s'. rq_user req = Some uc \<Longrightarrow> h req s = (out, s') \<Longrightarrow> lawful tabs w req s s') \<Longrightarrow>
   g \<Longrightarrow> lawful_handler w g h"
  by (auto simp: lawful_handler_def)

lemma lawful_handler_open:
  "(\<And>req s out s'. h req s = (out, s') \<Longrightarrow> m_rdb (s_mgr s) = None \<Longrightarrow> finite (ran (db s)) \<Longrightarrow> lawful tabs w req s s') \<Longrightarrow>
   lawful_handler w g h"
  by (auto simp: lawful_handler_def)

lemmas lawful_routes =
  calm_listing [THEN handles_fleet, THEN lawful_handler_calm] calm_changes [THEN handles_fleet, THEN lawful_handler_calm]
  calm_onetime [THEN handles_fleet, THEN lawful_handler_calm] calm_groups [THEN handles_fleet, THEN lawful_handler_calm]
  calm_agent [THEN handles_fleet, THEN lawful_handler_calm] calm_panicking [THEN handles_fleet, THEN lawful_handler_calm]
  calm_history [THEN handles_fleet, THEN lawful_handler_calm] calm_rollback [THEN handles_fleet, THEN lawful_handler_calm]
  calm_canaries [THEN lawful_handler_calm] calm_account_reads(1,2) [THEN lawful_handler_calm]
  calm_account_reads(3-5) [THEN lawful_handler_admin_calm]

lemma lawful_own_routes:
  "g \<Longrightarrow> lawful_handler w g (AuthChangePassword_h X w)" "g \<Longrightarrow> lawful_handler w g (OTPSetup_h X w)"
  "g \<Longrightarrow> lawful_handler w g (OTPEnable_h X w)" "g \<Longrightarrow> lawful_handler w g (OTPDisable_h X w)"
  "g \<Longrightarrow> lawful_handler w g (SetMyEmail_h X w)"
  by (rule lawful_handler_own, erule lawful_own, assumption, assumption)+

lemma lawful_open_routes:
  "lawful_handler w g (AuthInit_h X w)" "lawful_handler w g (AuthLogin_h X w)"
  "lawful_handler w g (AuthLogout_h X)" "lawful_handler w g (OTPLoginStep_h X w)"
  "lawful_handler w g (ForgotPassword_h X w)" "lawful_handler w g (ResetPassword_h X w)"
  by (rule lawful_handler_open, erule lawful_init lawful_login lawful_logout lawful_otp_login
      lawful_forgot lawful_reset, assumption)+

lemma lawful_admin_routes:
  "lawful_handler w g (requireAdmin (CreateUser_h X w))" "lawful_handler w g (requireAdmin (DeleteUser_h X))"
  "lawful_handler w g (requireAdmin (ResetUserPassword_h X w))"
  "lawful_handler w g (requireAdmin (AssignUserRole_h X w))"
  "lawful_handler w g (requireAdmin (SetUserEmail_h X w))"
  "lawful_handler w g (requireAdmin (CreateRole_h X w))" "lawful_handler w g (requireAdmin (DeleteRole_h X))"
  "lawful_handler w g (requireAdmin (SetRolePermissions_h X w))"
  by (rule lawful_handler_admin, erule lawful_by_admin lawful_by_admin2, assumption)+

lemma routes_lawful:
  "list_all (\<lambda>r. lawful_handler w (fst (snd r) \<notin> set authPublicPaths) (snd (snd r))) (routes X w)"
  unfolding routes_def list.pred_inject prod.sel
  by (intro conjI TrueI lawful_routes lawful_own_routes lawful_open_routes lawful_admin_routes; simp add: authPublicPaths_def)

subsection \<open>A request from end to end\<close>

lemma route_matches_user [simp]: "route_matches r (req\<lparr>rq_user := u\<rparr>) = route_matches r req"
  by (simp add: route_matches_def)

lemma dispatch_route:
  "dispatch X w other req s = (case route_of X w req of
      None \<Rightarrow> other req s
    | Some r \<Rightarrow> snd (snd r) (req\<lparr>rq_vars := path_values (the (match_segments
          (pattern_segments (fst (snd r))) (rq_segments req)))\<rparr>) s)"
  by (simp add: dispatch_def route_of_def split: option.split prod.split)

lemma route_of_user [simp]: "route_of X w (req\<lparr>rq_user := u\<rparr>) = route_of X w req"
  by (simp add: route_of_def)

lemma vars_irrelevant [simp]:
  "by_admin (req\<lparr>rq_vars := v\<rparr>) = by_admin req" "fields_of ns (req\<lparr>rq_vars := v\<rparr>) = fields_of ns req"
  "may_change w (req\<lparr>rq_vars := v\<rparr>) = may_change w req" "same_rank (req\<lparr>rq_vars := v\<rparr>) = same_rank req"
  "session_earned w (req\<lparr>rq_vars := v\<rparr>) = session_earned w req"
  "pending_earned w (req\<lparr>rq_vars := v\<rparr>) = pending_earned w req"
proof -
  show admin: "by_admin (req\<lparr>rq_vars := v\<rparr>) = by_admin req" by (simp add: by_admin_def)
  show fs: "fields_of ns (req\<lparr>rq_vars := v\<rparr>) = fields_of ns req" for ns by (simp add: fields_of_def)
  show "may_change w (req\<lparr>rq_vars := v\<rparr>) = may_change w req" "same_rank (req\<lparr>rq_vars := v\<rparr>) = same_rank req"
    "session_earned w (req\<lparr>rq_vars := v\<rparr>) = session_earned w req"
    "pending_earned w (req\<lparr>rq_vars := v\<rparr>) = pending_earned w req"
    by (simp_all add: fun_eq_iff may_change_def same_rank_def session_earned_def pending_earned_def
        password_shown_def code_shown_def admin fs split: option.split)
qed

lemma lawful_vars [simp]: "lawful tabs w (req\<lparr>rq_vars := v\<rparr>) s s' = lawful tabs w req s s'"
  by (simp add: lawful_def lawful_tables_def)

lemma lawful_from: "tabs d = db s \<Longrightarrow> lawful tabs w req (set_db d s) s' = lawful tabs w req s s'"
  by (simp add: lawful_def)

lemma requireAuth_cases:
  assumes "requireAuth X w nxt req s = (out, s')" and "m_rdb (s_mgr s) = None"
  obtains (public) "\<not> protected_path (rq_path req)" "nxt req s = (out, s')"
    | (away) d where "protected_path (rq_path req)" "turned_away out" "s' = set_db d s" "tabs d = db s"
        "reads_work X tabs (db s) \<longrightarrow> (\<nexists>uc. authorised w req (s_sessions s) (db s) uc)"
    | (through) uc d where "protected_path (rq_path req)" "authorised w req (s_sessions s) (db s) uc"
        "tabs d = db s" "nxt (req\<lparr>rq_user := Some uc\<rparr>) (set_db d s) = (out, s')"
proof (cases "protected_path (rq_path req)")
  case False
  with assms(1) public show ?thesis by (simp add: requireAuth_def)
next
  case True
  obtain r s1 where a: "authenticate X w req s = (r, s1)" by fastforce
  note run = run_authenticate [OF assms(2), of w req, unfolded run_def a prod.case]
  show ?thesis
  proof (cases r)
    case (Inl out')
    with assms(1) True a have "out = out'" "s' = s1" by (simp_all add: requireAuth_def)
    with run Inl True away show ?thesis by auto
  next
    case (Inr uc)
    with run obtain d where d: "s1 = set_db d s" "tabs d = db s" "authorised w req (s_sessions s) (db s) uc" by auto
    with assms(1) True a Inr have "nxt (req\<lparr>rq_user := Some uc\<rparr>) (set_db d s) = (out, s')"
      by (simp add: requireAuth_def)
    with through True d show ?thesis by blast
  qed
qed

lemma dispatch_lawful:
  assumes "dispatch X w other req s = (out, s')" and "handles (calm tabs fleet) Ob other"
    and "m_rdb (s_mgr s) = None" and "finite (ran (db s))"
    and "protected_path (rq_path req) \<longrightarrow> rq_user req \<noteq> None"
  shows "lawful tabs w req s s'"
proof (cases "route_of X w req")
  case None
  with assms(1) have "other req s = (out, s')" by (simp add: dispatch_route)
  with assms(2) show ?thesis by (blast dest: handlesD intro: lawful_calm)
next
  case (Some r)
  let ?req = "req\<lparr>rq_vars := path_values (the (match_segments (pattern_segments (fst (snd r))) (rq_segments req)))\<rparr>"
  have "lawful_handler w (fst (snd r) \<notin> set authPublicPaths) (snd (snd r))"
    using routes_lawful [of w] route_of_protected(1) [OF Some] by (auto simp: list_all_iff)
  moreover have "snd (snd r) ?req s = (out, s')"
    using assms(1) Some by (simp add: dispatch_route)
  ultimately have "lawful tabs w ?req s s'"
    by (rule lawful_handlerD) (use assms(3-5) route_of_protected(2) [OF Some] in auto)
  then show ?thesis by simp
qed

lemma serve_lawful:
  assumes "serve X w other req s = (out, s')" and "handles (calm tabs fleet) Ob other"
    and "m_rdb (s_mgr s) = None" and "finite (ran (db s))"
  obtains (public) "lawful tabs w req s s'" "\<not> protected_path (rq_path req)"
    | (caller) uc where "authorised w req (s_sessions s) (db s) uc" "lawful tabs w (req\<lparr>rq_user := Some uc\<rparr>) s s'"
    | (away) d where "s' = set_db d s" "tabs d = db s" "turned_away out"
  using assms(1,3) unfolding serve_def
proof (cases rule: requireAuth_cases)
  case public
  with dispatch_lawful [OF public(2) assms(2-4)] that(1) show ?thesis by blast
next
  case (away d)
  with that(3) show ?thesis by blast
next
  case (through uc d)
  have "rq_path (req\<lparr>rq_user := Some uc\<rparr>) = rq_path req" by (simp add: rq_path_def)
  from dispatch_lawful [OF through(4) assms(2)] assms(3,4) through(3)
  have "lawful tabs w (req\<lparr>rq_user := Some uc\<rparr>) (set_db d s) s'" by simp
  with that(2) through show ?thesis by (simp add: lawful_from)
qed

end

end
