(* ===== verification/Auth_Props.thy ===== *)
theory Auth_Props
  imports Serve_Laws
begin

section \<open>Who may do what: the guarantees of authentication\<close>

text \<open>
  The properties of the admin API as a whole, for every request to \<open>serve\<close>, on a server
  without Redis: who is let through, who can change an account, where sessions come from, and
  the invariant of the accounts over any history of requests. The witnesses run on the database
  in memory.
\<close>

subsection \<open>A server to run the witnesses on\<close>

definition sample_user :: "string \<Rightarrow> bool \<Rightarrow> string \<Rightarrow> User" where
  "sample_user n admin role =
     \<lparr>us_name = n, us_password_hash = ''h:'' @ n, us_is_admin = admin, us_role = role, us_email = [],
      us_totp_secret = [], us_totp_enabled = False, us_updated = 0\<rparr>"

definition sample_rows :: "row list" where
  "sample_rows =
     [RUser (sample_user ''admin'' True []), RUser (sample_user ''bob'' False ''ops''),
      RRole \<lparr>ro_name = ''ops'', ro_description = [], ro_updated = 0\<rparr>,
      RPerm \<lparr>rp_role = ''ops'', rp_resource = ''agents'', rp_create = False, rp_read = True,
        rp_update = False, rp_delete = False\<rparr>]"

definition sample_state :: "(memdb, memcache, unit) adm" where
  "sample_state =
     \<lparr>s_mgr = New \<lparr>mem_rows = sample_rows, mem_faults = []\<rparr> [] [] None (300 * second) 0 False,
      s_sessions = [(''t1'', \<lparr>te_user = ''bob'', te_expires = 1000\<rparr>)], s_pending = [], s_resets = [],
      s_outbox = []\<rparr>"

definition sample_world :: world where
  "sample_world =
     \<lparr>w_now = 10, w_random = (\<lambda>n. replicate n (CHR ''r'')), w_hash = (\<lambda>p. Inr (''h:'' @ p)),
      w_check = (\<lambda>h p. h = ''h:'' @ p), w_totp_generate = (\<lambda>n. Inr (''s'', ''u'')), w_totp_check = (\<lambda>c s. c = s),
      w_qr = (\<lambda>u. u), w_smtp_host = [], w_smtp_from = [], w_public_url = [], w_send_mail = (\<lambda>m. True),
      w_yaml = (\<lambda>b. Inr True), w_time_text = (\<lambda>t. ''t''), w_time_json = (\<lambda>t. ''t''),
      w_time_parse = (\<lambda>s. Some 0), w_quote = (\<lambda>s. s), w_lower = (\<lambda>s. s), w_new_id = (\<lambda>n. n),
      w_agent_order = (\<lambda>l. l), w_status_order = (\<lambda>l. l), w_error_text = (\<lambda>e. ''e''),
      w_json_error = (\<lambda>b. ''j'')\<rparr>"

definition sample_request :: "string \<Rightarrow> string list \<Rightarrow> (string \<rightharpoonup> string) \<Rightarrow> string \<Rightarrow> bytes \<Rightarrow> hreq" where
  "sample_request method parts cookies csrf body =
     \<lparr>rq_method = method, rq_segments = parts, rq_uri = [], rq_remote = ''1.2.3.4:5'', rq_vars = (\<lambda>_. []),
      rq_query = (\<lambda>_. []), rq_header = (\<lambda>h. if h = ''X-CSRF-Token'' then csrf else []), rq_cookies = cookies,
      rq_body = (body, False), rq_user = None\<rparr>"

definition sample_other :: "(memdb, memcache, unit) handler" where
  "sample_other req s = (notFound, s)"

definition email_request :: hreq where
  "email_request = sample_request ''PUT'' [''api'', ''v1'', ''me'', ''email'']
     [sessionCookieName \<mapsto> ''t1'', csrfCookieName \<mapsto> ''t1''] ''t1''
     (''{'' @ [CHR 0x22] @ ''email'' @ [CHR 0x22] @ '':'' @ [CHR 0x22] @ ''b@x'' @ [CHR 0x22] @ ''}'')"


lemma route_matches_if:
  "route_matches r req \<longleftrightarrow>
     (if method_matches (fst r) (rq_method req)
      then match_segments (pattern_segments (fst (snd r))) (rq_segments req) \<noteq> None else False)"
  by (simp add: route_matches_def)

lemma email_route: "route_of X w email_request = Some (''PUT'', ''/api/v1/me/email'', SetMyEmail_h X w)"
  by (simp add: route_of_def routes_def route_matches_if method_matches_def email_request_def sample_request_def
      pattern_segments_def split_def split_acc.simps is_wildcard_def)


lemma email_body:
  "Option.bind (json_decode_first (take json_limit (fst (rq_body email_request)))) (string_field ''email'') = Some ''b@x''"
proof -
  have "take json_limit (fst (rq_body email_request)) = fst (rq_body email_request)"
    by (simp add: json_limit_def email_request_def sample_request_def)
  moreover have "Option.bind (json_decode_first (fst (rq_body email_request))) (string_field ''email'') = Some ''b@x''"
    by code_simp
  ultimately show ?thesis by simp
qed

lemma email_caller:
  "authenticate mem_services sample_world email_request sample_state = (Inr \<lparr>uc_name = ''bob'', uc_admin = False\<rparr>, sample_state)"
  by code_simp

lemma email_user:
  "GetUser_m mem_services ''bob'' (s_mgr sample_state) = (Inr (Some (sample_user ''bob'' False ''ops'')), s_mgr sample_state)"
  by code_simp


definition email_result :: "outcome \<times> (memdb, memcache, unit) adm" where
  "email_result = SetMyEmail_h mem_services sample_world
     (email_request\<lparr>rq_user := Some \<lparr>uc_name = ''bob'', uc_admin = False\<rparr>, rq_vars := path_values []\<rparr>) sample_state"

lemma email_served: "serve mem_services sample_world sample_other email_request sample_state = email_result"
proof -
  have "protected_path (rq_path email_request)" by code_simp
  moreover have "match_segments (pattern_segments ''/api/v1/me/email'') (rq_segments email_request) = Some []"
    by code_simp
  ultimately show ?thesis
    by (simp add: serve_def requireAuth_def email_caller account_store.dispatch_route [OF mema.account_store_axioms]
        account_store.route_of_user [OF mema.account_store_axioms] email_route email_result_def)
qed

lemma email_changed: "map_option us_email (user_at (mem_tabs (m_db (s_mgr (snd email_result)))) ''bob'') = Some ''b@x''"
proof -
  let ?u = "(sample_user ''bob'' False ''ops'')\<lparr>us_email := trim_space ''b@x''\<rparr>"
  obtain r m where u: "UpdateUser_m mem_services ?u (s_mgr sample_state) = (r, m)" by fastforce
  have "map_option us_email (user_at (mem_tabs (m_db (snd (UpdateUser_m mem_services ?u (s_mgr sample_state)))))
      ''bob'') = Some ''b@x''" by code_simp
  then show ?thesis
    using email_body
    by (cases r) (simp_all add: u email_result_def SetMyEmail_h_def finish_def bindh_def decodeJSON_def Let_def
        user_of_def need_def attempt_def email_user reth_def present_def stop_def)
qed

subsection \<open>The guarantees\<close>

abbreviation tables_of :: "('d \<Rightarrow> tables) \<Rightarrow> ('d, 'f, 'r) adm \<Rightarrow> tables" where
  "tables_of tabs s \<equiv> tabs (m_db (s_mgr s))"

text \<open>What the mux serves besides the API: it touches no account, role or token.\<close>

abbreviation harmless :: "('d \<Rightarrow> tables) \<Rightarrow> ('d, 'f, 'r) handler \<Rightarrow> bool" where
  "harmless tabs other \<equiv> handles (calm tabs fleet) (\<lambda>_. True) other"

text \<open>
  C5. For a protected path \<open>requireAuth\<close> runs the handler, with the caller attached, only if the
  caller holds a live session, passed the CSRF check, has an account, and is an administrator or
  asks for nothing a role must grant or for something the caller's role grants. Otherwise it
  answers 401 or 403, sets no cookie and changes neither tables nor tokens; and unless a read of
  the database failed, it only does so to requests that are not authorised.
\<close>

theorem requests_are_authorised:
  assumes "gorm_api (gorm X) tabs" and "m_rdb (s_mgr s) = None" and "protected_path (rq_path req)"
    and "requireAuth X w nxt req s = (out, s')"
  shows "(\<exists>uc d. authorised w req (s_sessions s) (tables_of tabs s) uc \<and> tabs d = tables_of tabs s \<and>
      nxt (req\<lparr>rq_user := Some uc\<rparr>) (set_db d s) = (out, s')) \<or>
    (turned_away out \<and> (\<exists>d. s' = set_db d s \<and> tabs d = tables_of tabs s) \<and>
      (reads_work X tabs (tables_of tabs s) \<longrightarrow>
        (\<nexists>uc. authorised w req (s_sessions s) (tables_of tabs s) uc)))"
  using account_store.intro [OF assms(1)] assms(4,2)
  by (rule account_store.requireAuth_cases) (use assms(3) in blast)+

text \<open>The handler of the witness replies 200; a request without its CSRF token is turned away.\<close>

theorem requests_are_authorised_witness:
  "\<exists>s'. requireAuth mem_services sample_world sample_other (email_request\<lparr>rq_cookies := Map.empty\<rparr>) sample_state =
      (unauthorized, s') \<and> turned_away unauthorized \<and> tables_of mem_tabs s' = tables_of mem_tabs sample_state"
proof -
  let ?req = "email_request\<lparr>rq_cookies := Map.empty\<rparr>"
  obtain out s' where r: "requireAuth mem_services sample_world sample_other ?req sample_state = (out, s')"
    by fastforce
  have path: "protected_path (rq_path ?req)" by code_simp
  have none: "m_rdb (s_mgr sample_state) = None" by (simp add: sample_state_def New_def)
  have "\<nexists>uc. authorised sample_world ?req (s_sessions sample_state) (tables_of mem_tabs sample_state) uc"
    by (simp add: authorised_def signed_in_def)
  with requests_are_authorised [OF mema.database none path r]
  have "turned_away out" "tables_of mem_tabs s' = tables_of mem_tabs sample_state" by auto
  moreover have "out = unauthorized"
    using r path by (auto simp: requireAuth_def authenticate_def bindh_def present_def stop_def)
  ultimately show ?thesis using r by auto
qed

text \<open>
  C14. Whoever changes, creates or removes the account of \<open>n\<close> is an authorised administrator, or
  the authorised owner of the account, or presents a live reset token of that account; or the
  account is \<open>admin\<close>, which was not there, on a server that had no administrator: the
  initialisation, for which no one needs to be signed in.
\<close>

theorem account_changes_authorised:
  assumes "gorm_api (gorm X) tabs" and "serve X w other req s = (out, s')" and "harmless tabs other"
    and "rq_user req = None" and "m_rdb (s_mgr s) = None" and "finite (ran (tables_of tabs s))"
    and "user_at (tables_of tabs s') n \<noteq> user_at (tables_of tabs s) n"
  shows "(\<exists>uc. authorised w req (s_sessions s) (tables_of tabs s) uc \<and> (uc_admin uc \<or> uc_name uc = n)) \<or>
    (\<exists>b. fields_of [''token'', ''new_password'', ''confirm_password''] req = Some b \<and>
       find_token (w_now w) (b ! 0) (s_resets s) = Some n) \<or>
    (n = ''admin'' \<and> user_at (tables_of tabs s) ''admin'' = None \<and> no_admin (tables_of tabs s))"
proof -
  have change: "may_change w req' (s_resets s) (tables_of tabs s) n" if "lawful tabs w req' s s'" for req'
    using lawful_change [OF that assms(7)] .
  show ?thesis
  proof (rule account_store.serve_lawful [OF account_store.intro [OF assms(1)] assms(2,3,5,6)])
    assume "lawful tabs w req s s'"
    from change [OF this] assms(4) show ?thesis by (simp add: may_change_def by_admin_def)
  next
    fix uc assume uc: "authorised w req (s_sessions s) (tables_of tabs s) uc"
      and "lawful tabs w (req\<lparr>rq_user := Some uc\<rparr>) s s'"
    from change [OF this(2)] uc show ?thesis
      by (auto simp: may_change_def by_admin_def fields_of_def)
  qed (use assms(7) in simp)
qed

text \<open>Bob, with a session, changes his email address.\<close>

theorem account_changes_authorised_witness:
  "user_at (tables_of mem_tabs (snd email_result)) ''bob'' \<noteq> user_at (tables_of mem_tabs sample_state) ''bob'' \<and>
   (\<exists>uc. authorised sample_world email_request (s_sessions sample_state) (tables_of mem_tabs sample_state) uc \<and>
      (uc_admin uc \<or> uc_name uc = ''bob''))"
proof -
  obtain out s' where r: "email_result = (out, s')" by fastforce
  have none: "m_rdb (s_mgr sample_state) = None" by (simp add: sample_state_def New_def)
  have other: "harmless mem_tabs sample_other" by (simp add: handles_def sample_other_def)
  have "map_option us_email (user_at (tables_of mem_tabs sample_state) ''bob'') = Some []" by code_simp
  then have change: "user_at (tables_of mem_tabs s') ''bob'' \<noteq> user_at (tables_of mem_tabs sample_state) ''bob''"
    using email_changed unfolding r snd_conv by auto
  have fin: "finite (ran (tables_of mem_tabs sample_state))" by (simp add: mem_tabs_def)
  have user: "rq_user email_request = None" by (simp add: email_request_def sample_request_def)
  have "find_token (w_now sample_world) tok (s_resets sample_state) \<noteq> Some ''bob''" for tok
    by (simp add: sample_state_def find_token_def)
  with account_changes_authorised [OF mema.database email_served [unfolded r] other user none fin change] change
  show ?thesis unfolding r by auto
qed

text \<open>
  C15. Nobody but an administrator changes what accounts may do: no request makes an existing
  account an administrator or takes that away, only an administrator's request changes the role
  of an account, a role or a permission, and a new administrator account is the account
  \<open>admin\<close>, on a server that had no administrator.
\<close>

theorem privileges_from_administrators:
  assumes "gorm_api (gorm X) tabs" and "serve X w other req s = (out, s')" and "harmless tabs other"
    and "rq_user req = None" and "m_rdb (s_mgr s) = None" and "finite (ran (tables_of tabs s))"
  shows "(\<forall>n u v. user_at (tables_of tabs s) n = Some u \<and> user_at (tables_of tabs s') n = Some v \<longrightarrow>
      us_is_admin v = us_is_admin u \<and>
      (us_role v \<noteq> us_role u \<longrightarrow>
         (\<exists>uc. authorised w req (s_sessions s) (tables_of tabs s) uc \<and> uc_admin uc))) \<and>
    (\<forall>n v. user_at (tables_of tabs s) n = None \<and> user_at (tables_of tabs s') n = Some v \<and> us_is_admin v \<longrightarrow>
      n = ''admin'' \<and> no_admin (tables_of tabs s)) \<and>
    (\<forall>k. key_table k \<in> {TRole, TPerm} \<and> tables_of tabs s' k \<noteq> tables_of tabs s k \<longrightarrow>
      (\<exists>uc. authorised w req (s_sessions s) (tables_of tabs s) uc \<and> uc_admin uc))"
    (is "?rank \<and> ?new \<and> ?roles")
proof -
  have law: "us_is_admin v = us_is_admin u \<and> (us_role v \<noteq> us_role u \<longrightarrow> by_admin req')"
    if "lawful tabs w req' s s'" "user_at (tables_of tabs s) n = Some u" "user_at (tables_of tabs s') n = Some v"
    for req' n u v
    using lawful_rank [OF that(1,3)] that(2) by (simp add: same_rank_def)
  have new: "n = ''admin'' \<and> no_admin (tables_of tabs s)"
    if "lawful tabs w req' s s'" "user_at (tables_of tabs s) n = None" "user_at (tables_of tabs s') n = Some v"
      "us_is_admin v" for req' n v
    using lawful_rank [OF that(1,3)] that(2,4) by (simp add: same_rank_def)
  note roles = lawful_roles
  show ?thesis
  proof (rule account_store.serve_lawful [OF account_store.intro [OF assms(1)] assms(2,3,5,6)])
    assume l: "lawful tabs w req s s'"
    have "\<not> by_admin req" using assms(4) by (simp add: by_admin_def)
    with law [OF l] new [OF l] roles [OF l] show ?thesis by blast
  next
    fix uc assume uc: "authorised w req (s_sessions s) (tables_of tabs s) uc"
      and l: "lawful tabs w (req\<lparr>rq_user := Some uc\<rparr>) s s'"
    have "by_admin (req\<lparr>rq_user := Some uc\<rparr>) \<longleftrightarrow> uc_admin uc" by (simp add: by_admin_def)
    with uc law [OF l] new [OF l] roles [OF l] show ?thesis by blast
  qed auto
qed

text \<open>Bob's change of address leaves his rank as it was.\<close>

theorem privileges_from_administrators_witness:
  "\<exists>u v. user_at (tables_of mem_tabs sample_state) ''bob'' = Some u \<and>
     user_at (tables_of mem_tabs (snd email_result)) ''bob'' = Some v \<and> u \<noteq> v \<and>
     us_is_admin v = us_is_admin u \<and> \<not> us_is_admin u"
proof -
  obtain out s' where r: "email_result = (out, s')" by fastforce
  have none: "m_rdb (s_mgr sample_state) = None" by (simp add: sample_state_def New_def)
  have other: "harmless mem_tabs sample_other" by (simp add: handles_def sample_other_def)
  have fin: "finite (ran (tables_of mem_tabs sample_state))" by (simp add: mem_tabs_def)
  have user: "rq_user email_request = None" by (simp add: email_request_def sample_request_def)
  have "map_option us_is_admin (user_at (tables_of mem_tabs sample_state) ''bob'') = Some False"
    "map_option us_email (user_at (tables_of mem_tabs sample_state) ''bob'') = Some []" by code_simp+
  then obtain u where u: "user_at (tables_of mem_tabs sample_state) ''bob'' = Some u" "\<not> us_is_admin u" "us_email u = []"
    by auto
  from email_changed obtain v where v: "user_at (tables_of mem_tabs s') ''bob'' = Some v" "us_email v = ''b@x''"
    unfolding r snd_conv by auto
  with u privileges_from_administrators [OF mema.database email_served [unfolded r] other user none fin] r
  show ?thesis by (metis list.distinct(1) snd_conv)
qed

text \<open>
  C12. A session, a pending login or a reset token that a request leaves behind was there before,
  or was earned by it: a session by the account's password where no second factor is enabled, or
  by a live pending token of the account with a valid code; a pending login by the password of an
  account with the second factor; a reset token by naming an account with an email address. Each
  gets its own life time.
\<close>

theorem sessions_are_earned:
  assumes "gorm_api (gorm X) tabs" and "serve X w other req s = (out, s')" and "harmless tabs other"
    and "rq_user req = None" and "m_rdb (s_mgr s) = None" and "finite (ran (tables_of tabs s))"
  shows "(\<forall>tok e. map_of (s_sessions s') tok = Some e \<longrightarrow>
      map_of (s_sessions s) tok = Some e \<or> session_earned w req (s_pending s) (tables_of tabs s) e) \<and>
    (\<forall>tok e. map_of (s_pending s') tok = Some e \<longrightarrow>
      map_of (s_pending s) tok = Some e \<or> pending_earned w req (tables_of tabs s) e) \<and>
    (\<forall>tok e. map_of (s_resets s') tok = Some e \<longrightarrow>
      map_of (s_resets s) tok = Some e \<or> reset_earned w (tables_of tabs s) e)"
proof (rule account_store.serve_lawful [OF account_store.intro [OF assms(1)] assms(2,3,5,6)])
  fix uc assume "lawful tabs w (req\<lparr>rq_user := Some uc\<rparr>) s s'"
  moreover have "session_earned w (req\<lparr>rq_user := Some uc\<rparr>) p t e = session_earned w req p t e"
    "pending_earned w (req\<lparr>rq_user := Some uc\<rparr>) t e = pending_earned w req t e" for p t e
    by (simp_all add: session_earned_def pending_earned_def password_shown_def code_shown_def fields_of_def)
  ultimately show ?thesis by (simp add: lawful_def Let_def grows_def)
qed (auto simp: lawful_def Let_def grows_def)

text \<open>Bob logs in.\<close>

definition login_request :: hreq where
  "login_request = sample_request ''POST'' [''api'', ''v1'', ''auth'', ''login''] Map.empty []
     (''{'' @ [CHR 0x22] @ ''username'' @ [CHR 0x22] @ '':'' @ [CHR 0x22] @ ''bob'' @ [CHR 0x22] @ '','' @
      [CHR 0x22] @ ''password'' @ [CHR 0x22] @ '':'' @ [CHR 0x22] @ ''bob'' @ [CHR 0x22] @ ''}'')"

lemma login_route: "route_of X w login_request = Some (''POST'', ''/api/v1/auth/login'', AuthLogin_h X w)"
  by (simp add: route_of_def routes_def route_matches_if method_matches_def login_request_def sample_request_def
      pattern_segments_def split_def split_acc.simps is_wildcard_def)

lemma login_body:
  "Option.bind (json_decode_first (take json_limit (fst (rq_body login_request))))
     (string_fields [''username'', ''password'']) = Some [''bob'', ''bob'']"
proof -
  have "take json_limit (fst (rq_body login_request)) = fst (rq_body login_request)"
    by (simp add: json_limit_def login_request_def sample_request_def)
  moreover have "Option.bind (json_decode_first (fst (rq_body login_request)))
      (string_fields [''username'', ''password'']) = Some [''bob'', ''bob'']"
    by code_simp
  ultimately show ?thesis by simp
qed

definition bobs_session :: token_entry where
  "bobs_session = \<lparr>te_user = ''bob'', te_expires = 10 + sessionTTL\<rparr>"

definition login_token :: string where
  "login_token = hex_encode (replicate 16 (CHR ''r''))"

lemma login_served:
  "snd (serve mem_services sample_world sample_other login_request sample_state) =
     sample_state\<lparr>s_sessions := AList.update login_token bobs_session (s_sessions sample_state)\<rparr>"
proof -
  have "\<not> protected_path (rq_path login_request)" by code_simp
  moreover have "match_segments (pattern_segments ''/api/v1/auth/login'') (rq_segments login_request) = Some []"
    by code_simp
  moreover have "m_rdb (s_mgr sample_state) = None" by (simp add: sample_state_def New_def)
  moreover have "w_check sample_world (us_password_hash (sample_user ''bob'' False ''ops'')) ''bob''"
    "\<not> us_totp_enabled (sample_user ''bob'' False ''ops'')" "w_now sample_world = 10"
    "w_random sample_world 16 = replicate 16 (CHR ''r'')"
    by (simp_all add: sample_world_def sample_user_def)
  ultimately show ?thesis
    using login_body email_user
    by (simp add: serve_def requireAuth_def account_store.dispatch_route [OF mema.account_store_axioms] login_route
        AuthLogin_h_def finish_def bindh_def decodeJSON_def Let_def need_def attempt_def reth_def present_def
        stop_def stop_if_def start_session_def act_def sessions_create_def put_token_def login_token_def
        bobs_session_def)
qed

lemma new_session:
  "map_of (s_sessions (snd (serve mem_services sample_world sample_other login_request sample_state))) login_token =
     Some bobs_session"
  by (simp add: login_served update_conv')

lemma bob_not_in: "map_of (s_sessions sample_state) login_token \<noteq> Some bobs_session"
  by (simp add: sample_state_def bobs_session_def sessionTTL_def second_def)

theorem sessions_are_earned_witness:
  "\<exists>s'. snd (serve mem_services sample_world sample_other login_request sample_state) = s' \<and>
     map_of (s_sessions s') login_token = Some bobs_session \<and>
     session_earned sample_world login_request (s_pending sample_state) (tables_of mem_tabs sample_state) bobs_session"
proof -
  obtain out s' where r: "serve mem_services sample_world sample_other login_request sample_state = (out, s')"
    by fastforce
  have none: "m_rdb (s_mgr sample_state) = None" by (simp add: sample_state_def New_def)
  have other: "harmless mem_tabs sample_other" by (simp add: handles_def sample_other_def)
  have fin: "finite (ran (tables_of mem_tabs sample_state))" by (simp add: mem_tabs_def)
  have user: "rq_user login_request = None" by (simp add: login_request_def sample_request_def)
  have new: "map_of (s_sessions s') login_token = Some bobs_session"
    using new_session r by simp
  with sessions_are_earned [OF mema.database r other user none fin] bob_not_in r show ?thesis by auto
qed

text \<open>
  The invariant of the accounts: the administrator is the account \<open>admin\<close> and no other, and
  the role of an account exists. \<open>history\<close> is any sequence of requests, each with its own clock
  and random bytes.
\<close>

definition accounts_ok :: "tables \<Rightarrow> bool" where
  "accounts_ok t \<longleftrightarrow> (\<forall>n u. user_at t n = Some u \<longrightarrow> (us_is_admin u \<longleftrightarrow> n = ''admin'')) \<and> roles_exist t"

inductive history :: "('d, 'f, 'r) services \<Rightarrow> ('d, 'f, 'r) handler \<Rightarrow> ('d, 'f, 'r) adm \<Rightarrow> ('d, 'f, 'r) adm \<Rightarrow> bool"
  for X :: "('d, 'f, 'r) services" and other :: "('d, 'f, 'r) handler"
where
  nothing: "history X other s s"
| request: "history X other s s1 \<Longrightarrow> serve X w other req s1 = (out, s2) \<Longrightarrow> rq_user req = None \<Longrightarrow>
    history X other s s2"

lemma request_keeps_accounts:
  assumes "gorm_api (gorm X) tabs" and "serve X w other req s = (out, s')" and "harmless tabs other"
    and "m_rdb (s_mgr s) = None" and "finite (ran (tables_of tabs s))"
  shows "(accounts_ok (tables_of tabs s) \<longrightarrow> accounts_ok (tables_of tabs s')) \<and>
    (user_at (tables_of tabs s) ''admin'' \<noteq> None \<longrightarrow> user_at (tables_of tabs s') ''admin'' \<noteq> None) \<and>
    m_rdb (s_mgr s') = None"
proof -
  have law: "?thesis" if l: "lawful tabs w req' s s'" for req'
  proof -
    have "accounts_ok (tables_of tabs s')" if "accounts_ok (tables_of tabs s)"
      unfolding accounts_ok_def
    proof (intro conjI allI impI)
      fix n u assume "user_at (tables_of tabs s') n = Some u"
      from lawful_rank [OF l this] that show "us_is_admin u \<longleftrightarrow> n = ''admin''"
        by (cases "user_at (tables_of tabs s) n") (auto simp: same_rank_def accounts_ok_def)
    qed (use that lawful_exist [OF l] in \<open>simp add: accounts_ok_def\<close>)
    with lawful_admin [OF l] lawful_redis [OF l] assms(4) show ?thesis by blast
  qed
  show ?thesis
  proof (rule account_store.serve_lawful [OF account_store.intro [OF assms(1)] assms(2,3,4,5)])
    assume "lawful tabs w req s s'"
    then show ?thesis by (rule law)
  next
    fix uc assume "lawful tabs w (req\<lparr>rq_user := Some uc\<rparr>) s s'"
    then show ?thesis by (rule law)
  qed (simp add: assms(4))
qed

text \<open>
  Over any history of requests the invariant of the accounts holds: \<open>admin\<close> is the one
  administrator, every role that is assigned exists, and once there is an administrator there
  always is one.
\<close>

theorem accounts_invariant:
  assumes "gorm_api (gorm X) tabs" and "\<And>d. finite (ran (tabs d))" and "harmless tabs other"
    and "history X other s s'" and "m_rdb (s_mgr s) = None" and "accounts_ok (tables_of tabs s)"
  shows "accounts_ok (tables_of tabs s') \<and>
    (user_at (tables_of tabs s) ''admin'' \<noteq> None \<longrightarrow> user_at (tables_of tabs s') ''admin'' \<noteq> None)"
proof -
  from assms(4-6) have "accounts_ok (tables_of tabs s') \<and> m_rdb (s_mgr s') = None \<and>
    (user_at (tables_of tabs s) ''admin'' \<noteq> None \<longrightarrow> user_at (tables_of tabs s') ''admin'' \<noteq> None)"
  proof (induction rule: history.induct)
    case (request s s1 w req out s2)
    then have "accounts_ok (tables_of tabs s1)" "m_rdb (s_mgr s1) = None"
      "user_at (tables_of tabs s) ''admin'' \<noteq> None \<longrightarrow> user_at (tables_of tabs s1) ''admin'' \<noteq> None" by blast+
    with request_keeps_accounts [OF assms(1) request.hyps(2) assms(3) _ assms(2)] show ?case by blast
  qed simp
  then show ?thesis by blast
qed

text \<open>On the sample server, after Bob has logged in.\<close>

theorem accounts_invariant_witness:
  "\<exists>s'. history mem_services sample_other sample_state s' \<and> s' \<noteq> sample_state \<and>
     accounts_ok (tables_of mem_tabs s') \<and> user_at (tables_of mem_tabs s') ''admin'' \<noteq> None"
proof -
  obtain out s' where r: "serve mem_services sample_world sample_other login_request sample_state = (out, s')"
    by fastforce
  have user: "rq_user login_request = None" by (simp add: login_request_def sample_request_def)
  have h: "history mem_services sample_other sample_state s'"
    by (rule history.request [OF history.nothing r user])
  have none: "m_rdb (s_mgr sample_state) = None" by (simp add: sample_state_def New_def)
  have other: "harmless mem_tabs sample_other" by (simp add: handles_def sample_other_def)
  have fin: "finite (ran (mem_tabs d))" for d by (simp add: mem_tabs_def)
  have t: "tables_of mem_tabs sample_state = tab sample_rows"
    by (simp add: sample_state_def New_def mem_tabs_def)
  have ok: "accounts_ok (tables_of mem_tabs sample_state)"
    unfolding t by (auto simp: accounts_ok_def roles_exist_def row_at_def sample_rows_def sample_user_def
        split: if_splits)
  have "user_at (tables_of mem_tabs sample_state) ''admin'' \<noteq> None"
    unfolding t by (simp add: row_at_def sample_rows_def sample_user_def)
  moreover have "s' \<noteq> sample_state"
    using new_session r bob_not_in by auto
  ultimately show ?thesis
    using accounts_invariant [OF mema.database fin other h none ok] h by blast
qed

end
