(* ===== verification/Panic_Laws.thy ===== *)
theory Panic_Laws
  imports Auth_Props
begin

section \<open>Which requests make a handler panic\<close>

text \<open>
  A handler that dereferences a nil pointer or slices out of range panics; \<open>net/http\<close> recovers
  and drops the connection. Five routes can panic, each for a reason stated here
  (\<open>panic_cause\<close>); every other request gets a reply.
\<close>

subsection \<open>Handlers that always reply\<close>

interpretation any: step_relation "\<lambda>_ _. True"
  by unfold_locales auto

lemma any_quiet [step_intros]: "any.quiet f"
  by (simp add: any.quiet_def)

lemma replies_accounts [simp]:
  "replies invalid_credentials" "replies forgot_generic" "replies short_password"
  by (simp_all add: invalid_credentials_def forgot_generic_def short_password_def)

lemma known_role_replies [step_intros]: "steps (\<lambda>_ _. True) replies (known_role X role)"
  unfolding known_role_def by (intro step_intros; simp)

lemma start_session_replies [step_intros]: "ends (\<lambda>_ _. True) replies (start_session X w n u)"
  unfolding start_session_def by (intro step_intros; simp)

lemma accounts_reply:
  "handles (\<lambda>_ _. True) replies (AuthInit_h X w)" "handles (\<lambda>_ _. True) replies (AuthLogin_h X w)"
  "handles (\<lambda>_ _. True) replies (AuthChangePassword_h X w)" "handles (\<lambda>_ _. True) replies (OTPSetup_h X w)"
  "handles (\<lambda>_ _. True) replies (OTPEnable_h X w)" "handles (\<lambda>_ _. True) replies (OTPDisable_h X w)"
  "handles (\<lambda>_ _. True) replies (OTPLoginStep_h X w)" "handles (\<lambda>_ _. True) replies (ForgotPassword_h X w)"
  "handles (\<lambda>_ _. True) replies (ResetPassword_h X w)" "handles (\<lambda>_ _. True) replies (SetMyEmail_h X w)"
  "handles (\<lambda>_ _. True) replies (CreateUser_h X w)" "handles (\<lambda>_ _. True) replies (DeleteUser_h X)"
  "handles (\<lambda>_ _. True) replies (ResetUserPassword_h X w)" "handles (\<lambda>_ _. True) replies (AssignUserRole_h X w)"
  "handles (\<lambda>_ _. True) replies (CreateRole_h X w)" "handles (\<lambda>_ _. True) replies (DeleteRole_h X)"
  unfolding AuthInit_h_def AuthLogin_h_def AuthChangePassword_h_def OTPSetup_h_def OTPEnable_h_def
    OTPDisable_h_def OTPLoginStep_h_def ForgotPassword_h_def ResetPassword_h_def SetMyEmail_h_def
    CreateUser_h_def DeleteUser_h_def ResetUserPassword_h_def AssignUserRole_h_def CreateRole_h_def
    DeleteRole_h_def Let_def
  by (intro step_intros; simp)+

lemma logout_replies: "handles (\<lambda>_ _. True) replies (AuthLogout_h X)"
  by (simp add: handles_def AuthLogout_h_def)

lemma admin_replies: "handles R replies h \<Longrightarrow> handles (\<lambda>_ _. True) replies (requireAdmin h)"
  by (auto simp: handles_def requireAdmin_def split: option.splits)

lemma calm_replies: "handles R replies h \<Longrightarrow> handles (\<lambda>_ _. True) replies h"
  by (simp add: handles_def)

subsection \<open>The five that may panic\<close>

definition null_element :: "(json \<Rightarrow> 'a option list option) \<Rightarrow> json option \<Rightarrow> bool" where
  "null_element fill j \<longleftrightarrow> (\<exists>xs. Option.bind j fill = Some xs \<and> None \<in> set xs)"

text \<open>The history entry that a rollback replays.\<close>

definition null_snapshot :: "tables \<Rightarrow> nat \<Rightarrow> string \<Rightarrow> bool" where
  "null_snapshot t i name \<longleftrightarrow>
     (\<exists>h. row_at as_history (KHistory i) t = Some h \<and> ch_resource_type h = ''group'' \<and> ch_resource_name h = name \<and>
        (ch_action h = ''set_tags'' \<and> null_element fill_tags (json_parse (ch_detail h)) \<or>
         ch_action h = ''delete'' \<and>
           null_element (map_option gs_tags \<circ> fill_snapshot) (json_parse (ch_detail h)) \<or>
         ch_action h = ''delete'' \<and>
           null_element (map_option gs_configs \<circ> fill_snapshot) (json_parse (ch_detail h))))"

definition panic_cause :: "tables \<Rightarrow> hreq \<Rightarrow> string \<times> string \<Rightarrow> bool" where
  "panic_cause t req mp \<longleftrightarrow>
     (mp = (''GET'', ''/api/v1/agents'') \<and>
        (\<exists>all :: Agent list. page_of (query_page req) (query_page_size req) all = None)) \<or>
     (mp = (''PUT'', ''/api/v1/groups/{name}/tags'') \<and>
        null_element fill_tags (json_parse (take json_limit (fst (rq_body req))))) \<or>
     (mp = (''PUT'', ''/api/v1/users/{username}/email'') \<and> user_at t (rq_vars req ''username'') = None) \<or>
     (mp = (''PUT'', ''/api/v1/roles/{name}/permissions'') \<and>
        null_element (\<lambda>j. fill_list (fill_pointer fill_perm) [] [j])
          (json_decode_first (take json_limit (fst (rq_body req))))) \<or>
     (mp = (''POST'', ''/api/v1/history/{type}/{name}/{id}/rollback'') \<and> rq_vars req ''type'' = ''group'' \<and>
        (\<exists>i. parse_uint (rq_vars req ''id'') = Some i \<and> null_snapshot t i (rq_vars req ''name'')))"

lemma panic_cause_user: "panic_cause t (req\<lparr>rq_user := u, rq_vars := v\<rparr>) mp = panic_cause t (req\<lparr>rq_vars := v\<rparr>) mp"
  by (simp add: panic_cause_def query_page_def query_page_size_def)

lemma those_None: "those xs = None \<longleftrightarrow> None \<in> set xs"
  by (induction xs) (auto split: option.splits)

context account_store
begin

definition panics_for :: "string \<times> string \<Rightarrow> ('d, 'f, 'r) handler \<Rightarrow> bool" where
  "panics_for mp h \<longleftrightarrow> (\<forall>req s s'. h req s = (Panicked, s') \<longrightarrow> panic_cause (db s) req mp)"

lemma panics_forD: "panics_for mp h \<Longrightarrow> h req s = (Panicked, s') \<Longrightarrow> panic_cause (db s) req mp"
  by (auto simp: panics_for_def)

lemma panics_never: "handles R replies h \<Longrightarrow> panics_for mp h"
  by (auto simp: panics_for_def handles_def replies_def) (metis fst_conv)

lemma run_steps:
  "steps (\<lambda>_ _. True) replies f \<Longrightarrow> (\<And>x s1. Q x s1) \<Longrightarrow> run f s Q (\<lambda>out s1. \<not> replies out \<longrightarrow> C)"
  by (auto simp: run_def steps_def split: prod.split sum.split) (metis fst_conv)

lemma panics_if:
  "(\<And>req s. run (f req) s (\<lambda>out _. \<not> replies out \<longrightarrow> panic_cause (db s) req mp)
      (\<lambda>out _. \<not> replies out \<longrightarrow> panic_cause (db s) req mp)) \<Longrightarrow>
   panics_for mp (\<lambda>req. finish (f req))"
  using finish_run by (fastforce simp: panics_for_def)

lemma panics_admin: "panics_for mp h \<Longrightarrow> panics_for mp (requireAdmin h)"
  by (auto simp: panics_for_def requireAdmin_def writeJSON_def split: option.splits if_splits)

lemma page_result:
  assumes "ListAgentsPaged_m lower ord X grp page pageSize search m = (Inr None, m')"
  shows "\<exists>all :: Agent list. page_of page pageSize all = None"
  using assms by (auto simp: ListAgentsPaged_m_def Let_def split: prod.splits sum.splits if_splits)

lemma panics_agents: "panics_for (''GET'', ''/api/v1/agents'') (ListAgents_h X w)"
  unfolding ListAgents_h_def
  by (rule panics_if) (auto simp: run_simps run_need panic_cause_def dest: page_result
      split: prod.split sum.split option.split)

lemma panics_tags: "panics_for (''PUT'', ''/api/v1/groups/{name}/tags'') (SetGroupTags_h X w)"
  unfolding SetGroupTags_h_def Let_def set_tags_def
proof (rule panics_if)
  fix req and s :: "('d, 'f, 'r) adm"
  let ?P = "\<lambda>out _. \<not> replies out \<longrightarrow> panic_cause (db s) req (''PUT'', ''/api/v1/groups/{name}/tags'')"
  have set: "run (bindh (attempt (GetGroupTags_m X n)) (\<lambda>old. bindh (bindh (present Panicked (those ts)) (\<lambda>tags.
      bindh (need (\<lambda>_. internalError) (SetGroupTags_m X n tags)) (\<lambda>_. reth tags))) (\<lambda>tags.
      bindh (rec old tags) (\<lambda>_. reth (ok_h (j tags)))))) s ?P ?P"
    if "None \<in> set ts \<Longrightarrow> panic_cause (db s) req (''PUT'', ''/api/v1/groups/{name}/tags'')"
      "\<And>old tags. steps (\<lambda>_ _. True) replies (rec old tags)" for n ts rec j
  proof (cases "those ts")
    case None
    then have "None \<in> set ts" by (simp add: those_None)
    with that(1) show ?thesis
      by (simp only: run_simps None) (rule run_steps, intro step_intros, simp)
  next
    case (Some tags)
    show ?thesis
      by (simp only: run_simps Some option.case) (intro run_steps step_intros that(2); simp)
  qed
  show "run (bindh (readJSON w (\<lambda>j. map_option (\<lambda>ts. (ts, j = JNull)) (fill_tags j)) req) (\<lambda>(ts, is_nil).
      bindh (attempt (GetGroupTags_m X (rq_vars req ''name''))) (\<lambda>old.
      bindh (bindh (present Panicked (those ts)) (\<lambda>tags.
        bindh (need (\<lambda>_. internalError) (SetGroupTags_m X (rq_vars req ''name'') tags)) (\<lambda>_. reth tags))) (\<lambda>tags.
      bindh (record_change X w req 200 ''set_tags'' ''group'' (rq_vars req ''name'') 0
          (json_print (slice_json tag_row_json old)) (tags_summary tags)) (\<lambda>_.
      reth (ok_h (Some (if is_nil then JNull else JArr (map tag_row_json (stored_tags w (rq_vars req ''name'') tags)))))))))) s ?P ?P"
  proof (subst run_bindh, rule run_readJSON)
    fix x
    assume "Option.bind (json_parse (take json_limit (fst (rq_body req))))
      (\<lambda>j. map_option (\<lambda>ts. (ts, j = JNull)) (fill_tags j)) = Some x"
    moreover obtain ts is_nil where x: "x = (ts, is_nil)" by fastforce
    ultimately have cause: "None \<in> set ts \<Longrightarrow> panic_cause (db s) req (''PUT'', ''/api/v1/groups/{name}/tags'')"
      by (auto simp: panic_cause_def null_element_def bind_eq_Some_conv)
    show "run (case x of (ts, is_nil) \<Rightarrow>
      bindh (attempt (GetGroupTags_m X (rq_vars req ''name''))) (\<lambda>old.
      bindh (bindh (present Panicked (those ts)) (\<lambda>tags.
        bindh (need (\<lambda>_. internalError) (SetGroupTags_m X (rq_vars req ''name'') tags)) (\<lambda>_. reth tags))) (\<lambda>tags.
      bindh (record_change X w req 200 ''set_tags'' ''group'' (rq_vars req ''name'') 0
          (json_print (slice_json tag_row_json old)) (tags_summary tags)) (\<lambda>_.
      reth (ok_h (Some (if is_nil then JNull else JArr (map tag_row_json (stored_tags w (rq_vars req ''name'') tags)))))))))
      s ?P ?P"
      unfolding x prod.case
      by (rule set [OF cause], assumption) (unfold record_change_def saveHistory_def logAudit_def, intro step_intros; simp)
  qed simp
qed

lemma panics_email: "panics_for (''PUT'', ''/api/v1/users/{username}/email'') (requireAdmin (SetUserEmail_h X w))"
  unfolding SetUserEmail_h_def
  by (intro panics_admin panics_if, simp add: run_simps split: option.split)
    (auto simp: run_simps panic_cause_def intro!: run_GetUser run_UpdateUser split: option.split)

lemma panics_perms:
  "panics_for (''PUT'', ''/api/v1/roles/{name}/permissions'') (requireAdmin (SetRolePermissions_h X w))"
  unfolding SetRolePermissions_h_def Let_def
  by (intro panics_admin panics_if)
    (auto simp: run_simps panic_cause_def null_element_def those_None intro!: run_SetRolePermissions split: option.split)

subsection \<open>Rollback\<close>

lemma any_checks [step_intros]:
  "steps (\<lambda>_ _. True) replies (need_valid problem :: (('d, 'f, 'r) adm, unit) step)"
  "steps (\<lambda>_ _. True) replies (unmarshal w what fill raw :: (('d, 'f, 'r) adm, 'x) step)"
  "steps (\<lambda>_ _. True) replies (saveHistory X w req rt n a v d)"
  "steps (\<lambda>_ _. True) replies (logAudit X w req st a rt n d)"
  unfolding need_valid_def unmarshal_def saveHistory_def logAudit_def by (intro step_intros; simp)+

lemma any_rollback [step_intros]:
  "steps (\<lambda>_ _. True) replies (remove_mappings X n ms)"
  "steps (\<lambda>_ _. True) replies (rollback_config w K n h)"
  "steps (\<lambda>_ _. True) replies (rollback_onetime X w n h)"
proof -
  show "steps (\<lambda>_ _. True) replies (remove_mappings X n ms)"
    by (induction ms, simp_all only: remove_mappings.simps, (intro step_intros; simp)+)
  show "steps (\<lambda>_ _. True) replies (rollback_config w K n h)"
    unfolding rollback_config_def by (intro step_intros; simp)
  show "steps (\<lambda>_ _. True) replies (rollback_onetime X w n h)"
    unfolding rollback_onetime_def by (intro step_intros; simp)
qed

lemma any_field: "steps (\<lambda>_ _. True) replies check \<Longrightarrow> steps (\<lambda>_ _. True) replies (rollback_group_field X n f c check)"
  unfolding rollback_group_field_def by (intro step_intros; simp)

lemma run_add_mappings:
  "(None \<in> set cs \<Longrightarrow> C) \<Longrightarrow> (\<And>s1. Q () s1) \<Longrightarrow> run (add_mappings X n cs) s Q (\<lambda>out s1. \<not> replies out \<longrightarrow> C)"
proof (induction cs arbitrary: s)
  case (Cons c cs)
  have rest: "run (add_mappings X n cs) s1 Q (\<lambda>out s1. \<not> replies out \<longrightarrow> C)" for s1
    by (rule Cons.IH) (use Cons.prems in auto)
  show ?case
  proof (cases c)
    case (Some m)
    show ?thesis
      by (simp only: add_mappings.simps run_simps Some option.case) (intro run_steps step_intros rest)
  qed (simp add: run_simps Cons.prems(1))
qed (simp add: run_simps)

lemma run_set_tags:
  "(None \<in> set ts \<Longrightarrow> C) \<Longrightarrow> (\<And>x s1. Q x s1) \<Longrightarrow> run (set_tags X n ts) s Q (\<lambda>out s1. \<not> replies out \<longrightarrow> C)"
proof (cases "those ts")
  case (Some tags)
  assume "\<And>x s1. Q x s1"
  then show ?thesis
    unfolding set_tags_def by (simp only: run_simps Some option.case) (intro run_steps step_intros; simp)
next
  case None
  moreover assume "None \<in> set ts \<Longrightarrow> C"
  ultimately show ?thesis
    by (simp add: set_tags_def run_simps) (simp add: those_None)
qed

lemma run_restore:
  assumes "None \<in> set (gs_tags snap) \<Longrightarrow> C" and "None \<in> set (gs_configs snap) \<Longrightarrow> C"
  shows "run (restore_group X n snap) s (\<lambda>_ _. True) (\<lambda>out s1. \<not> replies out \<longrightarrow> C)"
proof -
  have tail: "run (bindh (if gs_tags snap = [] then reth [] else set_tags X n (gs_tags snap)) (\<lambda>_.
      add_mappings X n (gs_configs snap))) s1 (\<lambda>_ _. True) (\<lambda>out s1. \<not> replies out \<longrightarrow> C)" for s1
    using assms by (auto simp: run_simps intro!: run_set_tags run_add_mappings)
  show ?thesis
    unfolding restore_group_def
    by (subst run_bindh, rule run_steps, intro step_intros)
      (subst run_bindh, rule run_steps, (intro step_intros; simp), rule tail)
qed

lemma run_unmarshal:
  "(\<And>x. Option.bind (json_parse raw) fill = Some x \<Longrightarrow> Q x s) \<Longrightarrow>
   run (unmarshal w what fill raw) s Q (\<lambda>out s1. \<not> replies out \<longrightarrow> C)"
  by (auto simp: unmarshal_def run_simps split: option.split)

lemma run_rollback_of:
  assumes "rt = ''group'' \<Longrightarrow> ch_action h = ''set_tags'' \<Longrightarrow> null_element fill_tags (json_parse (ch_detail h)) \<Longrightarrow> C"
    and "rt = ''group'' \<Longrightarrow> ch_action h = ''delete'' \<Longrightarrow>
      null_element (map_option gs_tags \<circ> fill_snapshot) (json_parse (ch_detail h)) \<Longrightarrow> C"
    and "rt = ''group'' \<Longrightarrow> ch_action h = ''delete'' \<Longrightarrow>
      null_element (map_option gs_configs \<circ> fill_snapshot) (json_parse (ch_detail h)) \<Longrightarrow> C"
  shows "run (rollback_of X w rt n h) s (\<lambda>_ _. True) (\<lambda>out s1. \<not> replies out \<longrightarrow> C)"
proof (cases "rt = ''group''")
  case False
  then show ?thesis
    unfolding rollback_of_def if_not_P [OF False]
    by (intro run_steps step_intros; simp)
next
  case True
  note attempt = any.attempt_quiet [OF any_quiet]
  let ?goal = "\<lambda>f. run f s (\<lambda>_ _. True) (\<lambda>out s1. \<not> replies out \<longrightarrow> C)"
  have tags: "?goal (bindh (unmarshal w ''stored tags'' fill_tags (ch_detail h)) (\<lambda>ts.
      bindh (attempt (GetGroupTags_m X n)) (\<lambda>current. bindh (set_tags X n ts) (\<lambda>_.
      reth (json_print (slice_json tag_row_json current))))))"
    if "ch_action h = ''set_tags''"
  proof (subst run_bindh, rule run_unmarshal)
    fix ts assume "Option.bind (json_parse (ch_detail h)) fill_tags = Some ts"
    then have "None \<in> set ts \<Longrightarrow> C" using assms(1) [OF True that] by (auto simp: null_element_def)
    then show "?goal (bindh (attempt (GetGroupTags_m X n)) (\<lambda>current. bindh (set_tags X n ts) (\<lambda>_.
      reth (json_print (slice_json tag_row_json current)))))"
      unfolding run_bindh by (intro run_steps [OF attempt] run_set_tags) (auto simp: run_reth)
  qed
  have restore: "?goal (bindh (unmarshal w ''group snapshot'' fill_snapshot (ch_detail h)) (\<lambda>snap.
      bindh (restore_group X n snap) (\<lambda>_. reth (ch_detail h))))"
    if "ch_action h = ''delete''"
  proof (subst run_bindh, rule run_unmarshal)
    fix snap assume "Option.bind (json_parse (ch_detail h)) fill_snapshot = Some snap"
    then have "None \<in> set (gs_tags snap) \<Longrightarrow> C" "None \<in> set (gs_configs snap) \<Longrightarrow> C"
      using assms(2,3) [OF True that] by (auto simp: null_element_def bind_eq_Some_conv)
    then show "?goal (bindh (restore_group X n snap) (\<lambda>_. reth (ch_detail h)))"
      by (subst run_bindh) (rule run_mono [OF run_restore]; simp add: run_simps)
  qed
  have "steps (\<lambda>_ _. True) replies (rollback_group X w n h)"
    if "ch_action h \<noteq> ''set_tags''" "ch_action h \<noteq> ''delete''"
    unfolding rollback_group_def Let_def if_not_P [OF that(1)] if_not_P [OF that(2)]
    by (intro step_intros any_field; simp)
  then have other: "?goal (rollback_group X w n h)"
    if "ch_action h \<noteq> ''set_tags''" "ch_action h \<noteq> ''delete''"
    using that by (intro run_steps) simp_all
  have "?goal (rollback_group X w n h)"
  proof (cases "ch_action h = ''set_tags''")
    case True
    with tags show ?thesis by (simp add: rollback_group_def)
  next
    case False
    with other restore show ?thesis by (cases "ch_action h = ''delete''") (simp_all add: rollback_group_def Let_def)
  qed
  then show ?thesis by (simp add: rollback_of_def True)
qed

lemma run_GetConfigHistoryByID:
  assumes "\<And>h d'. row_at as_history (KHistory i) (db s) = Some h \<Longrightarrow> Q h (set_db d' s)"
    and "\<And>e d'. R (on_err e) (set_db d' s)"
  shows "run (need on_err (GetConfigHistoryByID_m X i)) s Q R"
  unfolding GetConfigHistoryByID_m_def GetConfigHistoryByID_def
proof (rule on_db_need)
  fix h d' assume "first_as (gorm X) as_history (\<lambda>h. ch_id h = i) (m_db (s_mgr s)) = (Inr h, d')"
  then have "row_at as_history (KHistory i) (db s) = Some h"
    using gorm_api.first_as_ok [OF database, of as_history RHistory]
      gorm_api.row_at_tabs [OF database, of as_history RHistory "KHistory i" "m_db (s_mgr s)" h] by auto
  then show "Q h (set_db d' s)" by (rule assms(1))
qed (rule assms(2))

lemma panics_rollback: "panics_for (''POST'', ''/api/v1/history/{type}/{name}/{id}/rollback'') (RollbackConfig_h X w)"
  unfolding RollbackConfig_h_def Let_def
proof (rule panics_if)
  fix req and s :: "('d, 'f, 'r) adm"
  let ?C = "panic_cause (db s) req (''POST'', ''/api/v1/history/{type}/{name}/{id}/rollback'')"
  let ?P = "\<lambda>out _. \<not> replies out \<longrightarrow> ?C"
  let ?rest = "\<lambda>i entry. bindh (stop_if (ch_resource_type entry \<noteq> rq_vars req ''type'' \<or>
        ch_resource_name entry \<noteq> rq_vars req ''name'') notFound) (\<lambda>_.
      bindh (stop_if (ch_detail entry = []) (badRequest ''cannot rollback to a deleted version'')) (\<lambda>_.
      bindh (rollback_of X w (rq_vars req ''type'') (rq_vars req ''name'') entry) (\<lambda>oldDetail.
      bindh (record_change X w req 200 ''rollback'' (rq_vars req ''type'') (rq_vars req ''name'')
        (unix_milli (w_now w)) oldDetail (''to_history_id='' @ show_nat i @ newline @ ch_detail entry)) (\<lambda>_.
      reth (ok_h None)))))"
  have rest: "run (?rest i h) s1 ?P ?P"
    if "parse_uint (rq_vars req ''id'') = Some i" "row_at as_history (KHistory i) (db s) = Some h" for i h s1
  proof -
    have "run (rollback_of X w (rq_vars req ''type'') (rq_vars req ''name'') h) s1 (\<lambda>_ _. True) ?P"
      if "ch_resource_type h = rq_vars req ''type''" "ch_resource_name h = rq_vars req ''name''"
      by (rule run_rollback_of) (use that \<open>row_at as_history (KHistory i) (db s) = Some h\<close>
          \<open>parse_uint (rq_vars req ''id'') = Some i\<close> in \<open>auto simp: panic_cause_def null_snapshot_def\<close>)
    then have "run (rollback_of X w (rq_vars req ''type'') (rq_vars req ''name'') h) s1
        (\<lambda>x s2. run (bindh (record_change X w req 200 ''rollback'' (rq_vars req ''type'') (rq_vars req ''name'')
          (unix_milli (w_now w)) x (''to_history_id='' @ show_nat i @ newline @ ch_detail h)) (\<lambda>_. reth (ok_h None))) s2 ?P ?P) ?P"
      if "ch_resource_type h = rq_vars req ''type''" "ch_resource_name h = rq_vars req ''name''"
      by (rule run_mono) (use that in \<open>auto simp: record_change_def run_bindh run_reth intro!: run_steps any_checks\<close>)
    then show ?thesis
      by (subst run_bindh, subst run_stop_if, subst run_bindh, subst run_stop_if, subst run_bindh) simp
  qed
  show "run (bindh (present (badRequest ''invalid id'') (parse_uint (rq_vars req ''id''))) (\<lambda>i.
      bindh (need (\<lambda>_. internalError) (GetConfigHistoryByID_m X i)) (?rest i))) s ?P ?P"
  proof (cases "parse_uint (rq_vars req ''id'')")
    case None
    then show ?thesis by (simp add: run_bindh run_present)
  next
    case (Some i)
    have "run (bindh (need (\<lambda>_. internalError) (GetConfigHistoryByID_m X i)) (?rest i)) s ?P ?P"
      by (subst run_bindh, rule run_GetConfigHistoryByID, rule rest [OF Some]) simp_all
    with Some show ?thesis by (subst run_bindh, subst run_present) simp
  qed
qed

lemma reads_reply:
  "handles (\<lambda>_ _. True) replies (AuthStatus_h X w)" "handles (\<lambda>_ _. True) replies (GetMe_h X)"
  "handles (\<lambda>_ _. True) replies (ListUsers_h X w)" "handles (\<lambda>_ _. True) replies (ListRoles_h X w)"
  "handles (\<lambda>_ _. True) replies (GetRolePermissions_h X)"
  unfolding AuthStatus_h_def GetMe_h_def ListUsers_h_def ListRoles_h_def GetRolePermissions_h_def Let_def
  by (intro step_intros; simp)+

lemmas calm_panics = calm_listing calm_changes calm_onetime calm_groups calm_agent calm_history calm_canaries

lemma routes_panic: "list_all (\<lambda>r. panics_for (fst r, fst (snd r)) (snd (snd r))) (routes X w)"
  unfolding routes_def list.pred_inject prod.sel
  by (intro conjI TrueI panics_agents panics_tags panics_email panics_perms panics_rollback
      calm_panics [THEN panics_never] accounts_reply [THEN panics_never] logout_replies [THEN panics_never]
      reads_reply [THEN panics_never] accounts_reply [THEN admin_replies, THEN panics_never]
      reads_reply [THEN admin_replies, THEN panics_never]) simp_all

end

text \<open>
  C11. Which requests panic: a request that a handler of the table does not answer is one of five,
  for the reason \<open>panic_cause\<close> states on the request and the tables: an agent page that slices
  out of range, a \<open>null\<close> among the tags of a group or the permissions of a role, an email
  address for an account that does not exist, and a rollback. Every other request gets a reply.
\<close>

theorem panics_enumerated:
  assumes "gorm_api (gorm X) tabs" and "serve X w other req s = (Panicked, s')"
    and "\<And>r t. fst (other r t) \<noteq> Panicked" and "m_rdb (s_mgr s) = None"
  shows "\<exists>r. route_of X w req = Some r \<and>
    panic_cause (tables_of tabs s)
      (req\<lparr>rq_vars := path_values (the (match_segments (pattern_segments (fst (snd r))) (rq_segments req)))\<rparr>)
      (fst r, fst (snd r))"
    (is "?cause req")
proof -
  have dispatch: "?cause req'" if "dispatch X w other req' s1 = (Panicked, s')" "tabs (m_db (s_mgr s1)) = tables_of tabs s"
    for req' s1
  proof (cases "route_of X w req'")
    case None
    with that assms(3) [of req' s1] show ?thesis
      by (simp add: account_store.dispatch_route [OF account_store.intro [OF assms(1)]])
  next
    case (Some r)
    have "account_store.panics_for tabs (fst r, fst (snd r)) (snd (snd r))"
      using account_store.routes_panic [OF account_store.intro [OF assms(1)], of w] Some
      by (auto simp: list_all_iff route_of_def dest: find_Some_iff [THEN iffD1])
    from account_store.panics_forD [OF account_store.intro [OF assms(1)] this] that Some show ?thesis
      by (simp add: account_store.dispatch_route [OF account_store.intro [OF assms(1)]] flip: that(2))
  qed
  from assms(2,4) show ?thesis
    unfolding serve_def
  proof (rule account_store.requireAuth_cases [OF account_store.intro [OF assms(1)]])
    assume "dispatch X w other req s = (Panicked, s')"
    then show ?thesis by (rule dispatch) simp
  next
    fix uc d assume "tabs d = tables_of tabs s" "dispatch X w other (req\<lparr>rq_user := Some uc\<rparr>) (set_db d s) = (Panicked, s')"
    with dispatch [OF this(2)] show ?thesis
      by (simp add: account_store.route_of_user [OF account_store.intro [OF assms(1)]] panic_cause_user)
  qed (simp add: turned_away_def)
qed

text \<open>Bob asks for a page so far away that its offset overflows.\<close>

definition page_request :: hreq where
  "page_request = (sample_request ''GET'' [''api'', ''v1'', ''agents''] [sessionCookieName \<mapsto> ''t1''] [] [])
     \<lparr>rq_query := (\<lambda>n. if n = ''page'' then ''4611686018427387905'' else if n = ''page_size'' then ''2'' else [])\<rparr>"

lemma page_caller:
  "authenticate mem_services sample_world page_request sample_state = (Inr \<lparr>uc_name = ''bob'', uc_admin = False\<rparr>, sample_state)"
  by code_simp

lemma page_route: "route_of X w page_request = Some (''GET'', ''/api/v1/agents'', ListAgents_h X w)"
  by (simp add: route_of_def routes_def route_matches_if method_matches_def page_request_def sample_request_def
      pattern_segments_def split_def split_acc.simps is_wildcard_def)

lemma page_asked: "query_page page_request = 4611686018427387905" "query_page_size page_request = 2"
  by (simp_all add: query_page_def query_page_size_def page_request_def atoi_def dec_val_def digit_val_def
      in_int64_def is_digit_def less_eq_char_def less_char_def)

lemma page_panics:
  "ListAgentsPaged_m lower (\<lambda>x. x) mem_services g 4611686018427387905 2 t (s_mgr sample_state) = (Inr None, m)"
  if "g = []" "m = s_mgr sample_state"
  using that by (simp add: ListAgentsPaged_m_def ListAgents_m_def sample_state_def New_def page_of_def wrap64_def)

lemma page_served: "serve mem_services sample_world sample_other page_request sample_state = (Panicked, sample_state)"
proof -
  have "protected_path (rq_path page_request)" by code_simp
  moreover have "match_segments (pattern_segments ''/api/v1/agents'') (rq_segments page_request) = Some []"
    by code_simp
  moreover have "rq_query page_request ''group'' = []" by (simp add: page_request_def)
  moreover have "w_agent_order sample_world = (\<lambda>x. x)" by (simp add: sample_world_def)
  moreover have "query_page (page_request\<lparr>rq_user := u, rq_vars := v\<rparr>) = query_page page_request"
    "query_page_size (page_request\<lparr>rq_user := u, rq_vars := v\<rparr>) = query_page_size page_request" for u v
    by (simp_all add: query_page_def query_page_size_def)
  ultimately show ?thesis
    by (simp add: serve_def requireAuth_def page_caller account_store.dispatch_route [OF mema.account_store_axioms]
        account_store.route_of_user [OF mema.account_store_axioms] page_route page_asked ListAgents_h_def
        finish_def bindh_def need_def attempt_def page_panics present_def stop_def reth_def)
qed

theorem panics_enumerated_witness:
  "\<exists>r. route_of mem_services sample_world page_request = Some r \<and>
     panic_cause (tables_of mem_tabs sample_state)
       (page_request\<lparr>rq_vars := path_values (the (match_segments (pattern_segments (fst (snd r))) (rq_segments page_request)))\<rparr>)
       (fst r, fst (snd r))"
  by (rule panics_enumerated [OF mema.database page_served])
    (simp_all add: sample_other_def notFound_def writeJSON_def sample_state_def New_def)

end
