(* ===== verification/Metrics_Laws.thy ===== *)
theory Metrics_Laws
  imports Metrics_Collector
begin

section \<open>What the metrics say\<close>

text \<open>
  The series of a push carry well-formed labels, whatever the agents report as their tags; and
  the text of a scrape and the series of a push are two renderings of the same samples.
\<close>

subsection \<open>Label names\<close>

text \<open>The Prometheus grammar \<open>[a-zA-Z_][a-zA-Z0-9_]*\<close>.\<close>

definition label_name :: "string \<Rightarrow> bool" where
  "label_name s \<longleftrightarrow> s \<noteq> [] \<and> list_all label_char s \<and> \<not> is_digit (hd s)"

lemma underscore: "label_char (CHR ''_'')" "\<not> is_digit (CHR ''_'')"
  by code_simp+

lemma sanitise_chars: "list_all label_char (sanitise s)"
proof (induction s rule: sanitise.induct)
  case (1 s)
  show ?case
  proof (cases s)
    case Nil
    then show ?thesis by (simp add: sanitise.simps)
  next
    case (Cons c r)
    with 1 underscore show ?thesis by (subst sanitise.simps) simp
  qed
qed

lemma tag_prefix_name: "label_name ''tag_''"
  by code_simp

lemma tag_label_name: "label_name (tag_label n)"
  using tag_prefix_name underscore by (simp add: label_name_def tag_label_def Let_def sanitise_chars)

lemma tag_label_prefix: "prefix ''tag_'' (tag_label n)"
  by (simp add: tag_label_def Let_def)

lemma tag_pairs_names:
  "distinct (map fst (tag_pairs seen es)) \<and> set (map fst (tag_pairs seen es)) \<inter> set seen = {} \<and>
   (\<forall>n \<in> set (map fst (tag_pairs seen es)). label_name n \<and> prefix ''tag_'' n)"
  by (induction seen es rule: tag_pairs.induct) (auto simp: tag_label_name tag_label_prefix)

lemma tags_names:
  "distinct (map fst (parseTagsJSON t))" "n \<in> fst ` set (parseTagsJSON t) \<Longrightarrow> label_name n \<and> prefix ''tag_'' n"
  using tag_pairs_names by (auto simp: parseTagsJSON_def split: option.split)

text \<open>The names of the labels of an agent and of a configuration status.\<close>

definition good_labels :: "labelPair list \<Rightarrow> bool" where
  "good_labels ls \<longleftrightarrow> distinct (map fst ls) \<and> ''__name__'' \<notin> fst ` set ls \<and> (\<forall>n \<in> fst ` set ls. label_name n)"

lemma agent_labels_good: "good_labels (agent_labels a)"
proof -
  define base tags where "base = [''type'', ''uuid'', ''ip'', ''hostname'', ''version'']"
    and "tags = map fst (parseTagsJSON (a_tags_json a))"
  have names: "map fst (agent_labels a) = base @ tags"
    by (simp add: agent_labels_def base_def tags_def)
  have base: "distinct base" "list_all (\<lambda>b. label_name b \<and> \<not> prefix ''tag_'' b \<and> b \<noteq> ''__name__'') base"
    unfolding base_def by code_simp+
  have tags: "distinct tags" "\<And>n. n \<in> set tags \<Longrightarrow> label_name n \<and> prefix ''tag_'' n"
    using tags_names(1) tags_names(2) [of _ "a_tags_json a"] by (simp_all add: tags_def)
  have "distinct (base @ tags)" "\<forall>n \<in> set (base @ tags). label_name n"
    using base tags unfolding list_all_iff by (auto simp only: distinct_append set_append)
  moreover have "''__name__'' \<notin> set (base @ tags)"
    using base(2) tags(2) [of "''__name__''"] unfolding list_all_iff by auto
  ultimately show ?thesis unfolding good_labels_def set_map [symmetric] names by blast
qed

lemma config_labels_good: "good_labels (config_labels a st)"
proof -
  have "list_all label_name [''config_name'', ''config_type'', ''agent_type'', ''agent_uuid'', ''agent_ip'',
    ''agent_hostname'', ''agent_version'']" by code_simp
  then show ?thesis by (simp add: good_labels_def config_labels_def)
qed

lemma count_labels_good: "good_labels []" "good_labels [(''status'', v)]" "good_labels [(''agent_type'', v)]"
proof -
  have "list_all label_name [''status'', ''agent_type'']" by code_simp
  then show "good_labels []" "good_labels [(''status'', v)]" "good_labels [(''agent_type'', v)]"
    by (simp_all add: good_labels_def)
qed

lemma label_map_id: "distinct (map fst ls) \<Longrightarrow> label_map ls = ls"
proof -
  have "distinct (map fst (acc @ ls)) \<Longrightarrow> fold (\<lambda>(k, v). AList.update k v) ls acc = acc @ ls" for acc
  proof (induction ls arbitrary: acc)
    case (Cons p ls)
    obtain k v where p: "p = (k, v)" by fastforce
    have "k \<notin> fst ` set acc" using Cons.prems by (auto simp: p)
    then have "AList.update k v acc = acc @ [p]" by (induction acc) (auto simp: p)
    with Cons show ?case by (simp add: p)
  qed simp
  from this [of "[]"] show "distinct (map fst ls) \<Longrightarrow> label_map ls = ls" by (simp add: label_map_def)
qed

subsection \<open>One list of samples\<close>

type_synonym sample = "string \<times> labelPair list \<times> int"

definition samples :: "time \<Rightarrow> int \<Rightarrow> Agent list \<Rightarrow> AgentConfigStatus list \<Rightarrow> sample list" where
  "samples now onlineWindow agents statuses =
     (let f = count_agents now onlineWindow agents
      in [(''configserver_agents_total'', [], int (fl_total f)),
          (''configserver_agents_online_total'', [], int (fl_online f))] @
         map (\<lambda>k. (''configserver_agents_by_status'', [(''status'', k)], int (counter (fl_status f) k))) (sortedKeys (fl_status f)) @
         map (\<lambda>k. (''configserver_agents_by_type'', [(''agent_type'', k)], int (counter (fl_type f) k))) (sortedKeys (fl_type f)) @
         concat (map (\<lambda>a. if a_last_heartbeat a = time_zero then [] else
           [(''agent_hearbeat'', agent_labels a, agentOnlineValue now (a_last_heartbeat a) onlineWindow),
            (''agent_last_heartbeat_timestamp_seconds'', agent_labels a, unix_sec (a_last_heartbeat a))]) agents) @
         concat (map (\<lambda>s. if st_updated s = time_zero then [] else
           let ls = config_labels (map_of (fl_by_id f) (st_instance s)) s
           in [(''agent_config'', ls, st_status s),
               (''agent_config_updated_timestamp_seconds'', ls, unix_sec (st_updated s))]) statuses))"

definition line_of :: "(string \<Rightarrow> string) \<Rightarrow> sample \<Rightarrow> string" where
  "line_of q = (\<lambda>(n, ls, v). n @ (if ls = [] then [] else ''{'' @ formatLabels q ls @ ''}'') @ '' '' @ itoa v)"

definition series_of :: "int \<Rightarrow> sample \<Rightarrow> TimeSeries" where
  "series_of ts = (\<lambda>(n, ls, v).
     \<lparr>se_labels = sort_key fst ((''__name__'', n) # ls), se_value = as_double v, se_timestamp = ts\<rparr>)"

lemma samples_good: "(n, ls, v) \<in> set (samples now win agents statuses) \<Longrightarrow> good_labels ls"
  by (auto simp: samples_def Let_def agent_labels_good config_labels_good count_labels_good split: if_splits)

lemma label_map_good: "good_labels ls \<Longrightarrow> label_map ls = ls"
  by (simp add: good_labels_def label_map_id)

lemma collect_series_samples:
  "collect_series now win agents statuses = map (series_of (unix_milli now)) (samples now win agents statuses)"
  by (simp add: collect_series_def samples_def Let_def addMetric_def series_of_def map_concat o_def
      label_map_good agent_labels_good config_labels_good count_labels_good if_distrib [of "map _"] cong: if_cong)

text \<open>The lines of the text that are no comments, and lines in general.\<close>

definition comment :: "string \<Rightarrow> bool" where
  "comment l \<longleftrightarrow> l \<noteq> [] \<and> hd l = CHR ''#''"

lemma comment_simps [simp]:
  "comment (CHR ''#'' # s)" "\<not> comment (CHR ''c'' # s)" "\<not> comment (CHR ''a'' # s)"
  by (simp_all add: comment_def)

lemma itoa_count: "itoa (int n) = show_nat n"
  by (simp add: itoa_def)

lemma format_single: "formatLabels q [(n, v)] = n @ ''='' @ q v"
  by (simp add: formatLabels_def)

lemma nonempty_labels: "agent_labels a \<noteq> []" "config_labels x st \<noteq> []"
  by (simp_all add: agent_labels_def config_labels_def)

lemma filter_blocks:
  "(\<And>x. filter P (f x) = map h (g x)) \<Longrightarrow> filter P (concat (map f xs)) = map h (concat (map g xs))"
  by (induction xs) simp_all

lemma filter_lines:
  "(\<And>x. P (f x)) \<Longrightarrow> (\<And>x. f x = h (g x)) \<Longrightarrow> filter P (map f xs) = map h (map g xs)"
  by (induction xs) simp_all

lemma collect_lines_samples:
  "filter (\<lambda>l. \<not> comment l) (collect_lines q now win agents statuses) = map (line_of q) (samples now win agents statuses)"
proof -
  let ?P = "\<lambda>l. \<not> comment l"
  let ?f = "count_agents now win agents"
  have counts: "filter ?P (map (\<lambda>k. ''configserver_agents_by_status{status='' @ q k @ ''} '' @ show_nat (counter m k)) ks) =
      map (line_of q) (map (\<lambda>k. (''configserver_agents_by_status'', [(''status'', k)], int (counter m k))) ks)"
    "filter ?P (map (\<lambda>k. ''configserver_agents_by_type{agent_type='' @ q k @ ''} '' @ show_nat (counter m k)) ks) =
      map (line_of q) (map (\<lambda>k. (''configserver_agents_by_type'', [(''agent_type'', k)], int (counter m k))) ks)"
    for m ks
    by (rule filter_lines; simp add: line_of_def itoa_count format_single)+
  have agents: "filter ?P (concat (map (\<lambda>a. if a_last_heartbeat a = time_zero then [] else
        let labels = formatLabels q (agent_labels a)
        in [''agent_hearbeat{'' @ labels @ ''} '' @ itoa (agentOnlineValue now (a_last_heartbeat a) win),
            ''agent_last_heartbeat_timestamp_seconds{'' @ labels @ ''} '' @ itoa (unix_sec (a_last_heartbeat a))]) agents)) =
      map (line_of q) (concat (map (\<lambda>a. if a_last_heartbeat a = time_zero then [] else
        [(''agent_hearbeat'', agent_labels a, agentOnlineValue now (a_last_heartbeat a) win),
         (''agent_last_heartbeat_timestamp_seconds'', agent_labels a, unix_sec (a_last_heartbeat a))]) agents))"
    by (rule filter_blocks) (simp add: line_of_def nonempty_labels Let_def)
  have configs: "filter ?P (concat (map (\<lambda>s. if st_updated s = time_zero then [] else
        let labels = formatLabels q (config_labels (map_of (fl_by_id ?f) (st_instance s)) s)
        in [''agent_config{'' @ labels @ ''} '' @ itoa (st_status s),
            ''agent_config_updated_timestamp_seconds{'' @ labels @ ''} '' @ itoa (unix_sec (st_updated s))]) statuses)) =
      map (line_of q) (concat (map (\<lambda>s. if st_updated s = time_zero then [] else
        let ls = config_labels (map_of (fl_by_id ?f) (st_instance s)) s
        in [(''agent_config'', ls, st_status s),
            (''agent_config_updated_timestamp_seconds'', ls, unix_sec (st_updated s))]) statuses))"
    by (rule filter_blocks) (simp add: line_of_def nonempty_labels Let_def)
  show ?thesis
    unfolding collect_lines_def samples_def Let_def [of ?f] filter_append map_append counts agents configs
    by (simp add: writeMetric_def line_of_def itoa_count)
qed

subsection \<open>Reading the lines back\<close>

lemma split_lines:
  "\<forall>l \<in> set ls. c \<notin> set l \<Longrightarrow> split (concat (map (\<lambda>l. l @ [c]) ls)) [c] = ls @ [[]]"
proof (induction ls)
  case Nil
  show ?case by (simp add: split_def)
next
  case (Cons l ls)
  then show ?case using split_char_append [of c l "concat (map (\<lambda>l. l @ [c]) ls)"] by simp
qed

lemma newline_plain: "\<not> is_digit newline_char" "newline_char \<noteq> CHR ''.''" "newline_char \<noteq> CHR ''-''" "\<not> label_char newline_char"
  by code_simp+

lemma no_newline_numbers: "newline_char \<notin> set (show_nat n)" "newline_char \<notin> set (itoa i)" "newline_char \<notin> set (show_int i)"
  by (simp_all add: show_int_def itoa_def show_nat_not_mem newline_plain)

lemma no_newline_frac: "newline_char \<notin> set acc \<Longrightarrow> newline_char \<notin> set (frac_digits n v b acc)"
proof (induction n v b acc rule: frac_digits.induct)
  case (2 n v b acc)
  have "is_digit (digit_char (nat (v mod 10)))" by (rule digit_char_digit) (simp add: nat_less_iff)
  then have "newline_char \<noteq> digit_char (nat (v mod 10))" using newline_plain(1) by metis
  with 2 show ?case by (simp add: Let_def)
qed (simp add: newline_plain)

lemma no_newline_duration: "newline_char \<notin> set (duration_string d)"
proof -
  have "newline_char \<notin> {CHR ''0'', CHR ''n'', CHR ''s'', CHR ''m'', CHR ''h'', CHR 0xC2, CHR 0xB5, CHR ''-''}"
    by code_simp
  then show ?thesis
    by (simp add: duration_string_def Let_def fmt_frac_def no_newline_numbers no_newline_frac)
qed

lemma no_newline_labels:
  assumes "\<And>v. newline_char \<notin> set (q v)" and "good_labels ls"
  shows "newline_char \<notin> set (formatLabels q ls)"
proof -
  have "newline_char \<notin> set n" if "n \<in> fst ` set ls" for n
    using assms(2) that newline_plain(4) by (auto simp: good_labels_def label_name_def list_all_iff)
  then have "\<forall>x \<in> set (map (\<lambda>(n, v). n @ ''='' @ q v) ls). newline_char \<notin> set x"
    using assms(1) by (force simp: newline_char_def)
  moreover have "\<forall>x \<in> set xs. newline_char \<notin> set x \<Longrightarrow> newline_char \<notin> set (join xs '','')" for xs
    by (induction xs "'',''" rule: join.induct) (auto simp: newline_char_def)
  ultimately show ?thesis by (simp add: formatLabels_def)
qed

definition one_line :: "string \<Rightarrow> bool" where
  "one_line l \<longleftrightarrow> newline_char \<notin> set l"

lemma one_line_simps:
  "one_line []" "one_line (c # s) \<longleftrightarrow> c \<noteq> newline_char \<and> one_line s"
  "one_line (a @ b) \<longleftrightarrow> one_line a \<and> one_line b"
  by (auto simp: one_line_def)

lemma collect_lines_one:
  assumes "\<And>v. newline_char \<notin> set (q v)"
  shows "list_all one_line (collect_lines q now win agents statuses)"
proof -
  have parts: "one_line (q v)" "one_line (show_nat n)" "one_line (itoa i)" "one_line (duration_string i)"
    "one_line (formatLabels q (agent_labels a))" "one_line (formatLabels q (config_labels x st))"
    for v n i a x st
    using assms no_newline_numbers no_newline_duration no_newline_labels [OF assms] agent_labels_good config_labels_good
    by (simp_all add: one_line_def)
  show ?thesis
    unfolding collect_lines_def Let_def writeMetric_def list_all_append
    by (simp add: list_all_iff one_line_simps parts newline_char_def)
qed

lemma text_lines:
  assumes "\<And>v. newline_char \<notin> set (w_quote w v)" and "Collect_text X w win m = (Inr text, m1)"
    and "CollectProto X w win m = (Inr series, m2)"
  shows "\<exists>agents statuses. m1 = m2 \<and>
    split text [newline_char] = collect_lines (w_quote w) (w_now w) win agents statuses @ [[]] \<and>
    series = collect_series (w_now w) win agents statuses"
proof -
  from assms(2) obtain agents statuses where r: "read_fleet X w m = (Inr (agents, statuses), m1)"
    and body: "text = concat (map (\<lambda>l. l @ [newline_char]) (collect_lines (w_quote w) (w_now w) win agents statuses))"
    by (auto simp: Collect_text_def split: prod.splits sum.splits)
  from assms(3) r have "m1 = m2" "series = collect_series (w_now w) win agents statuses"
    by (simp_all add: CollectProto_def)
  moreover have "split text [newline_char] = collect_lines (w_quote w) (w_now w) win agents statuses @ [[]]"
    unfolding body by (rule split_lines)
      (use collect_lines_one [OF assms(1)] in \<open>auto simp: list_all_iff one_line_def\<close>)
  ultimately show ?thesis by blast
qed

lemma map_fst_sort: "map fst (sort_key fst xs) = sort (map fst xs)"
proof -
  have "map fst (insort_key fst x ys) = insort (fst x) (map fst ys)" for x :: "'a \<times> 'b" and ys
    by (induction ys) simp_all
  then show ?thesis by (induction xs) simp_all
qed

end
