(* ===== verification/Metrics_Props.thy ===== *)
theory Metrics_Props
  imports Metrics_Laws Auth_Props
begin

section \<open>The guarantees of the metrics\<close>

text \<open>
  What holds of every scrape and every push. The witnesses run on one agent whose tags need
  sanitising, with one configuration status.
\<close>

definition metrics_state :: "(memdb, memcache, unit) mgr" where
  "metrics_state = (s_mgr sample_state)
     \<lparr>m_agents := [(''a1'', \<lparr>a_instance = ''a1'', a_type = ''t'', a_ip = ''10.0.0.1'', a_hostname = ''h'', a_hostid = [],
         a_version = ''1.0'', a_attributes_json = [],
         a_tags_json = ''[{'' @ [CHR 0x22] @ ''name'' @ [CHR 0x22] @ '':'' @ [CHR 0x22] @ ''1-x'' @ [CHR 0x22] @ '','' @
           [CHR 0x22] @ ''value'' @ [CHR 0x22] @ '':'' @ [CHR 0x22] @ ''v'' @ [CHR 0x22] @ ''}]'',
         a_running_status = ''ok'', a_startup = 0, a_seq = 1, a_capabilities = 0, a_last_heartbeat = 5,
         a_created = 0, a_updated = 0\<rparr>)],
       m_statuses := [(''k'', \<lparr>st_instance = ''a1'', st_config = ''c'', st_type = ''pipeline'', st_status = 2,
         st_message = [], st_updated = 5\<rparr>)]\<rparr>"

definition metrics_world :: world where
  "metrics_world = sample_world\<lparr>w_quote := \<lambda>s. [CHR 0x22] @ filter (\<lambda>c. c \<noteq> newline_char) s @ [CHR 0x22]\<rparr>"

text \<open>
  C36. The labels of every pushed series are what Remote Write requires: strictly sorted by name
  (so no name occurs twice), every name in the Prometheus grammar, and the name of the metric
  under \<open>__name__\<close>, whatever tags the agents report.
\<close>

theorem series_labels_wellformed:
  assumes "CollectProto X w win m = (Inr series, m')" and "se \<in> set series"
  shows "sorted_wrt (<) (map fst (se_labels se)) \<and> list_all label_name (map fst (se_labels se)) \<and>
    map_of (se_labels se) ''__name__'' \<noteq> None"
proof -
  obtain agents statuses where "series = collect_series (w_now w) win agents statuses"
    using assms(1) by (auto simp: CollectProto_def split: prod.splits sum.splits)
  with assms(2) obtain n ls v where s: "(n, ls, v) \<in> set (samples (w_now w) win agents statuses)"
    and se: "se_labels se = sort_key fst ((''__name__'', n) # ls)"
    by (auto simp: collect_series_samples series_of_def)
  have good: "good_labels ls" using s by (rule samples_good)
  have "distinct (map fst (se_labels se))"
    using good by (simp add: se map_fst_sort good_labels_def del: sort_key_simps)
  moreover have "sorted (map fst (se_labels se))" by (simp add: se map_fst_sort del: sort_key_simps)
  ultimately have "sorted_wrt (<) (map fst (se_labels se))" by (simp add: strict_sorted_iff)
  moreover have "label_name ''__name__''" by code_simp
  then have "list_all label_name (map fst (se_labels se))"
    using good by (simp add: se map_fst_sort list_all_iff good_labels_def del: sort_key_simps)
  moreover have "''__name__'' \<in> set (map fst (se_labels se))" by (simp add: se map_fst_sort del: sort_key_simps)
  then have "map_of (se_labels se) ''__name__'' \<noteq> None" by (simp add: map_of_eq_None_iff del: set_map add: set_map [symmetric])
  ultimately show ?thesis by blast
qed

text \<open>The tag \<open>1-x\<close> becomes the label \<open>tag__1_x\<close>.\<close>

theorem series_labels_wellformed_witness:
  "\<exists>series se m'. CollectProto mem_services metrics_world (5 * minute) metrics_state = (Inr series, m') \<and>
     se \<in> set series \<and> (''tag__1_x'', ''v'') \<in> set (se_labels se) \<and> sorted_wrt (<) (map fst (se_labels se))"
proof -
  obtain series m' where r: "CollectProto mem_services metrics_world (5 * minute) metrics_state = (Inr series, m')"
    by (cases "CollectProto mem_services metrics_world (5 * minute) metrics_state")
      (auto simp: CollectProto_def read_fleet_def ListAgents_m_def ListAgentConfigStatuses_m_def metrics_state_def
        sample_state_def New_def)
  have "case fst (CollectProto mem_services metrics_world (5 * minute) metrics_state) of
      Inl e \<Rightarrow> False | Inr ss \<Rightarrow> list_ex (\<lambda>se. (''tag__1_x'', ''v'') \<in> set (se_labels se)) ss"
    by code_simp
  then obtain se where "se \<in> set series" "(''tag__1_x'', ''v'') \<in> set (se_labels se)"
    by (auto simp: r list_ex_iff)
  with r series_labels_wellformed [OF r] show ?thesis by blast
qed

text \<open>
  C37. A scrape and a push of the same fleet report the same samples: the lines of the text that
  are no comments and the series are renderings of one list, line by line, with the same metric,
  labels and value.
\<close>

theorem scrape_and_push_agree:
  assumes "\<And>v. newline_char \<notin> set (w_quote w v)" and "Collect_text X w win m = (Inr text, m1)"
    and "CollectProto X w win m = (Inr series, m2)"
  shows "\<exists>ss. filter (\<lambda>l. l \<noteq> [] \<and> \<not> comment l) (split text [newline_char]) = map (line_of (w_quote w)) ss \<and>
    series = map (series_of (unix_milli (w_now w))) ss"
proof -
  obtain agents statuses where l: "split text [newline_char] = collect_lines (w_quote w) (w_now w) win agents statuses @ [[]]"
    and s: "series = collect_series (w_now w) win agents statuses"
    using text_lines [OF assms] by blast
  let ?ss = "samples (w_now w) win agents statuses"
  have "line_of q x \<noteq> []" for q x by (simp add: line_of_def split: prod.split)
  then have "filter (\<lambda>l. l \<noteq> []) (map (line_of (w_quote w)) ?ss) = map (line_of (w_quote w)) ?ss"
    by (intro filter_True) auto
  moreover have "filter (\<lambda>l. l \<noteq> [] \<and> \<not> comment l) ls = filter (\<lambda>l. l \<noteq> []) (filter (\<lambda>l. \<not> comment l) ls)" for ls
    by (simp add: conj_commute)
  ultimately have "filter (\<lambda>l. l \<noteq> [] \<and> \<not> comment l) (split text [newline_char]) = map (line_of (w_quote w)) ?ss"
    unfolding l by (simp only: filter_append collect_lines_samples) simp
  with s show ?thesis by (metis collect_series_samples)
qed

text \<open>On the same fleet, both collectors succeed.\<close>

theorem scrape_and_push_agree_witness:
  "\<exists>text series ss. fst (Collect_text mem_services metrics_world (5 * minute) metrics_state) = Inr text \<and>
     fst (CollectProto mem_services metrics_world (5 * minute) metrics_state) = Inr series \<and> ss \<noteq> [] \<and>
     filter (\<lambda>l. l \<noteq> [] \<and> \<not> comment l) (split text [newline_char]) = map (line_of (w_quote metrics_world)) ss \<and>
     series = map (series_of (unix_milli (w_now metrics_world))) ss"
proof -
  let ?c = "CollectProto mem_services metrics_world (5 * minute) metrics_state"
  let ?t = "Collect_text mem_services metrics_world (5 * minute) metrics_state"
  obtain agents statuses where f: "read_fleet mem_services metrics_world metrics_state = (Inr (agents, statuses), metrics_state)"
    by (simp add: read_fleet_def ListAgents_m_def ListAgentConfigStatuses_m_def metrics_state_def sample_state_def New_def)
  obtain body series m1 m2 where r: "?t = (Inr body, m1)" "?c = (Inr series, m2)"
    using f by (simp add: Collect_text_def CollectProto_def)
  have q: "newline_char \<notin> set (w_quote metrics_world v)" for v
    by (simp add: metrics_world_def newline_char_def)
  have "case fst ?c of Inl e \<Rightarrow> False | Inr ss \<Rightarrow> ss \<noteq> []" by code_simp
  then have "series \<noteq> []" by (simp add: r)
  with scrape_and_push_agree [OF q r] r show ?thesis by auto
qed

end
