(* ===== verification/Canary_Lifecycle.thy ===== *)
theory Canary_Lifecycle
  imports Admin_Frames
begin

section \<open>The life of a canary release\<close>

text \<open>
  The abstract state machine of one canary release (\<open>lifecycle\<close>), and that every request to the
  admin API, to whatever handler, moves every canary release of the database by a step of it.
\<close>

subsection \<open>The state machine\<close>

definition percent_range :: "int \<Rightarrow> bool" where
  "percent_range p \<longleftrightarrow> 0 \<le> p \<and> p \<le> 100"

text \<open>What an edit may not touch: whose canary it is, its status and who made it.\<close>

definition same_release :: "CanaryRelease \<Rightarrow> CanaryRelease \<Rightarrow> bool" where
  "same_release cr cr' \<longleftrightarrow>
     cr_config cr' = cr_config cr \<and> cr_type cr' = cr_type cr \<and> cr_created_by cr' = cr_created_by cr"

definition same_content :: "CanaryRelease \<Rightarrow> CanaryRelease \<Rightarrow> bool" where
  "same_content cr cr' \<longleftrightarrow>
     cr_detail cr' = cr_detail cr \<and> cr_version cr' = cr_version cr \<and>
     cr_version_constraint cr' = cr_version_constraint cr \<and> cr_ip_selector cr' = cr_ip_selector cr \<and>
     cr_tag_selector cr' = cr_tag_selector cr"

inductive lifecycle :: "CanaryRelease option \<Rightarrow> CanaryRelease option \<Rightarrow> bool" where
  idle: "lifecycle x x"
| start: "cr_status cr = CanaryStatusRolling \<Longrightarrow> percent_range (cr_percent cr) \<Longrightarrow> lifecycle None (Some cr)"
| edit: "cr_status cr \<in> {CanaryStatusRolling, CanaryStatusPaused} \<Longrightarrow> cr_status cr' = cr_status cr \<Longrightarrow>
    same_release cr cr' \<Longrightarrow> percent_range (cr_percent cr') \<Longrightarrow> lifecycle (Some cr) (Some cr')"
| ramp: "cr_status cr = CanaryStatusRolling \<Longrightarrow> cr_status cr' = CanaryStatusRolling \<Longrightarrow> same_release cr cr' \<Longrightarrow>
    same_content cr cr' \<Longrightarrow> percent_range (cr_percent cr') \<Longrightarrow> lifecycle (Some cr) (Some cr')"
| pause: "cr_status cr = CanaryStatusRolling \<Longrightarrow> cr_status cr' = CanaryStatusPaused \<Longrightarrow> same_release cr cr' \<Longrightarrow>
    same_content cr cr' \<Longrightarrow> cr_percent cr' = cr_percent cr \<Longrightarrow> lifecycle (Some cr) (Some cr')"
| resume: "cr_status cr = CanaryStatusPaused \<Longrightarrow> cr_status cr' = CanaryStatusRolling \<Longrightarrow> same_release cr cr' \<Longrightarrow>
    same_content cr cr' \<Longrightarrow> cr_percent cr' = cr_percent cr \<Longrightarrow> lifecycle (Some cr) (Some cr')"
| finish: "lifecycle (Some cr) None"

subsection \<open>The canaries of a database\<close>

definition canaries :: "tables \<Rightarrow> string \<times> string \<Rightarrow> CanaryRelease option" where
  "canaries t = (\<lambda>(n, ct). canary_at t n ct)"

lemma frame_canaries: "frame K t t' \<Longrightarrow> TCanary \<notin> K \<Longrightarrow> canaries t' = canaries t"
  by (auto simp: canaries_def canary_at_def fun_eq_iff frame_row_at)

text \<open>The canary that a request names moves, the others stay.\<close>

definition moved :: "string \<times> string \<Rightarrow> (string \<times> string \<Rightarrow> CanaryRelease option) \<Rightarrow> (string \<times> string \<Rightarrow> CanaryRelease option) \<Rightarrow> bool" where
  "moved k c c' \<longleftrightarrow> lifecycle (c k) (c' k) \<and> (\<forall>j. j \<noteq> k \<longrightarrow> c' j = c j)"

lemma moved_refl [simp]: "moved k c c"
  by (simp add: moved_def idle)

lemma moved_upd: "lifecycle (c k) v \<Longrightarrow> moved k c (c(k := v))"
  by (simp add: moved_def)

definition refreshed :: "CanaryRelease \<Rightarrow> CanaryRelease \<Rightarrow> bool" where
  "refreshed cr cr' \<longleftrightarrow> cr'\<lparr>cr_created := 0, cr_updated := 0\<rparr> = cr\<lparr>cr_created := 0, cr_updated := 0\<rparr>"

lemma stored_canary: "stored (RCanary cr) r \<Longrightarrow> \<exists>cr'. r = RCanary cr' \<and> refreshed cr cr'"
  by (cases r) (auto simp: stored_def refreshed_def)

lemma refreshedD:
  assumes "refreshed cr cr'"
  shows "same_release cr cr'" "same_content cr cr'" "cr_status cr' = cr_status cr" "cr_percent cr' = cr_percent cr"
  using assms by (cases cr; cases cr'; simp add: refreshed_def same_release_def same_content_def)+

context account_store
begin

abbreviation cans where "cans s \<equiv> canaries (db s)"

lemma canaries_upd: "canaries (t(KCanary n ct \<mapsto> RCanary cr)) = (canaries t)((n, ct) \<mapsto> cr)"
  by (auto simp: canaries_def canary_at_def row_at_def fun_eq_iff)

lemma canaries_keyed: "canaries (tabs d) k = Some cr \<Longrightarrow> k = (cr_config cr, cr_type cr)"
  using canary_at_iff [OF gorm_api.well_keyed_tabs [OF database]] by (cases k) (simp add: canaries_def)

lemma and_then_db:
  assumes "and_then w after m = (r, m')" and "\<And>m. m_db (after m) = m_db m"
  shows "\<exists>d'. w (m_db m) = (r, d') \<and> m_db m' = d'"
  using assms by (auto simp: and_then_def on_db_def split: prod.splits sum.splits)

lemma canary_statements:
  "UpdateCanary_m X cr m = (r, m') \<Longrightarrow> exec (gorm X) (Write (Save (RCanary cr))) (m_db m) = (r, m_db m')"
  "CreateCanary_m X cr m = (r, m') \<Longrightarrow> exec (gorm X) (Write (Create [RCanary cr])) (m_db m) = (r, m_db m')"
  "DeleteCanary_m X n ct m = (r, m') \<Longrightarrow>
     exec (gorm X) (Write (Delete (on as_canary (\<lambda>cr. cr_config cr = n \<and> cr_type cr = ct)))) (m_db m) = (r, m_db m')"
  unfolding UpdateCanary_m_def CreateCanary_m_def DeleteCanary_m_def UpdateCanary_def CreateCanary_def DeleteCanary_def
  by (drule and_then_db; simp add: cache_ops)+

lemma canary_failures:
  "UpdateCanary_m X cr m = (Inl e, m') \<Longrightarrow> tabs (m_db m') = tabs (m_db m)"
  "CreateCanary_m X cr m = (Inl e, m') \<Longrightarrow> tabs (m_db m') = tabs (m_db m)"
  "DeleteCanary_m X n ct m = (Inl e, m') \<Longrightarrow> tabs (m_db m') = tabs (m_db m)"
  by (drule canary_statements, erule gorm_api.exec_err [OF database])+

lemma canary_updated:
  assumes "UpdateCanary_m X cr m = (Inr u, m')"
  shows "\<exists>cr'. refreshed cr cr' \<and> canaries (tabs (m_db m')) = (canaries (tabs (m_db m)))((cr_config cr, cr_type cr) \<mapsto> cr')"
  using gorm_api.exec_write [OF database canary_statements(1) [OF assms]]
  by (auto simp: canaries_upd dest!: stored_canary)

lemma canary_created:
  assumes "CreateCanary_m X cr m = (Inr u, m')"
  shows "canaries (tabs (m_db m)) (cr_config cr, cr_type cr) = None"
    and "\<exists>cr'. refreshed cr cr' \<and> canaries (tabs (m_db m')) = (canaries (tabs (m_db m)))((cr_config cr, cr_type cr) \<mapsto> cr')"
proof -
  have w: "write_ok (Create [RCanary cr]) (tabs (m_db m)) (tabs (m_db m'))"
    by (rule gorm_api.exec_write [OF database canary_statements(2) [OF assms]])
  have "tabs (m_db m) (KCanary (cr_config cr) (cr_type cr)) = None \<and>
      (\<exists>r'. stored (RCanary cr) r' \<and> tabs (m_db m') = (tabs (m_db m))(KCanary (cr_config cr) (cr_type cr) \<mapsto> r'))"
    using write_create_single [OF w] by auto
  then obtain cr' where t: "tabs (m_db m) (KCanary (cr_config cr) (cr_type cr)) = None" "refreshed cr cr'"
      "tabs (m_db m') = (tabs (m_db m))(KCanary (cr_config cr) (cr_type cr) \<mapsto> RCanary cr')"
    by (auto dest!: stored_canary)
  then show "canaries (tabs (m_db m)) (cr_config cr, cr_type cr) = None"
    by (simp add: canaries_def canary_at_def row_at_def)
  from t show "\<exists>cr'. refreshed cr cr' \<and> canaries (tabs (m_db m')) = (canaries (tabs (m_db m)))((cr_config cr, cr_type cr) \<mapsto> cr')"
    by (auto simp: canaries_upd)
qed

lemma canary_deleted:
  assumes "DeleteCanary_m X n ct m = (Inr u, m')"
  shows "canaries (tabs (m_db m')) = (canaries (tabs (m_db m)))((n, ct) := None)"
proof -
  let ?P = "\<lambda>cr. cr_config cr = n \<and> cr_type cr = ct"
  have t: "tabs (m_db m') = drop_rows (on as_canary ?P) (tabs (m_db m))"
    using gorm_api.exec_write [OF database canary_statements(3) [OF assms]] by simp
  show ?thesis
  proof (rule ext)
    fix k :: "string \<times> string"
    have "canaries (tabs (m_db m')) k = (case canaries (tabs (m_db m)) k of None \<Rightarrow> None | Some x \<Rightarrow> if ?P x then None else Some x)"
      by (cases k) (simp add: t canaries_def canary_at_def
          row_at_drop [OF projects_table(11) gorm_api.well_keyed_tabs [OF database]])
    then show "canaries (tabs (m_db m')) k = ((canaries (tabs (m_db m)))((n, ct) := None)) k"
      using canaries_keyed [of "m_db m" k] by (auto split: option.split)
  qed
qed

subsection \<open>Running the handlers\<close>

lemma run_still:
  assumes "steps (calm tabs plain) Ob f"
    and "\<And>x s1. cans s1 = cans s \<Longrightarrow> Q x s1" and "\<And>out s1. cans s1 = cans s \<Longrightarrow> R out s1"
  shows "run f s Q R"
proof -
  have "cans (snd (f s)) = cans s"
    using assms(1) frame_canaries [of plain "db s" "db (snd (f s))"] by (simp add: steps_def calm_def)
  with assms(2,3) show ?thesis by (auto simp: run_def split: prod.split sum.split)
qed

lemma run_GetCanary:
  assumes "\<And>s1. cans s1 = cans s \<Longrightarrow> Q (cans s (n, ct)) s1" and "\<And>e s1. cans s1 = cans s \<Longrightarrow> R (on_err e) s1"
  shows "run (need on_err (GetCanary_m X n ct)) s Q R"
  unfolding GetCanary_m_def GetCanary_def
proof (rule on_db_need)
  let ?P = "\<lambda>cr. cr_config cr = n \<and> cr_type cr = ct"
  note at = canary_at_iff [OF gorm_api.well_keyed_tabs [OF database], of "m_db (s_mgr s)" n ct]
  fix x d' assume g: "or_nil (first_as (gorm X) as_canary ?P) (m_db (s_mgr s)) = (Inr x, d')"
  have "tabs d' = db s \<and> x = cans s (n, ct)"
  proof (cases x)
    case None
    with g obtain e where "first_as (gorm X) as_canary ?P (m_db (s_mgr s)) = (Inl e, d')" "is_not_found e"
      by (auto simp: or_nil_def split: prod.splits sum.splits if_splits)
    with gorm_api.first_as_err [OF database projects_table(11) this(1)] at None show ?thesis
      by (cases "canary_at (db s) n ct") (auto simp: canaries_def)
  next
    case (Some cr)
    with g have "first_as (gorm X) as_canary ?P (m_db (s_mgr s)) = (Inr cr, d')"
      by (auto simp: or_nil_def split: prod.splits sum.splits if_splits)
    from gorm_api.first_as_ok [OF database projects_table(11) this] have "tabs d' = db s" "canary_at (db s) n ct = Some cr"
      by (simp_all add: at)
    with Some show ?thesis by (simp add: canaries_def)
  qed
  with assms(1) [of "set_db d' s"] show "Q x (set_db d' s)" by simp
next
  fix e d' assume "or_nil (first_as (gorm X) as_canary (\<lambda>cr. cr_config cr = n \<and> cr_type cr = ct)) (m_db (s_mgr s)) = (Inl e, d')"
  then have "first_as (gorm X) as_canary (\<lambda>cr. cr_config cr = n \<and> cr_type cr = ct) (m_db (s_mgr s)) = (Inl e, d')"
    by (auto simp: or_nil_def split: prod.splits sum.splits if_splits)
  with gorm_api.first_as_err [OF database projects_table(11) this] assms(2) [of "set_db d' s" e]
  show "R (on_err e) (set_db d' s)" by simp
qed

lemma run_UpdateCanary:
  assumes "\<And>cr' s1. refreshed cr cr' \<Longrightarrow> cans s1 = (cans s)((cr_config cr, cr_type cr) \<mapsto> cr') \<Longrightarrow> Q () s1"
    and "\<And>e s1. cans s1 = cans s \<Longrightarrow> R (on_err e) s1"
  shows "run (need on_err (UpdateCanary_m X cr)) s Q R"
proof (cases "UpdateCanary_m X cr (s_mgr s)")
  case (Pair r m)
  show ?thesis
  proof (cases r)
    case (Inl e)
    with Pair canary_failures(1) assms(2) show ?thesis by (simp add: run_need)
  next
    case (Inr u)
    with Pair canary_updated [of cr "s_mgr s" u m] assms(1) show ?thesis by (auto simp: run_need)
  qed
qed

lemma run_DeleteCanary:
  assumes "\<And>s1. cans s1 = (cans s)((n, ct) := None) \<Longrightarrow> Q () s1"
    and "\<And>e s1. cans s1 = cans s \<Longrightarrow> R (on_err e) s1"
  shows "run (need on_err (DeleteCanary_m X n ct)) s Q R"
proof (cases "DeleteCanary_m X n ct (s_mgr s)")
  case (Pair r m)
  show ?thesis
  proof (cases r)
    case (Inl e)
    with Pair canary_failures(3) assms(2) show ?thesis by (simp add: run_need)
  next
    case (Inr u)
    with Pair canary_deleted [of n ct "s_mgr s" u m] assms(1) show ?thesis by (simp add: run_need)
  qed
qed

text \<open>
  The rules for a handler about the canary \<open>k\<close>, whose canaries were \<open>c\<close> when it began: \<open>moves\<close>
  is what holds wherever it ends.
\<close>

definition moves :: "string \<times> string \<Rightarrow> (string \<times> string \<Rightarrow> CanaryRelease option) \<Rightarrow> (('d, 'f, 'r) adm, outcome) step \<Rightarrow>
    ('d, 'f, 'r) adm \<Rightarrow> bool" where
  "moves k c f s \<longleftrightarrow> run f s (\<lambda>_ s1. moved k c (cans s1)) (\<lambda>_ s1. moved k c (cans s1))"

named_theorems life_intros

lemma moves_still [life_intros]:
  "steps (calm tabs plain) replies f \<Longrightarrow> cans s = c \<Longrightarrow> (\<And>x s1. cans s1 = c \<Longrightarrow> moves k c (g x) s1) \<Longrightarrow> moves k c (bindh f g) s"
  unfolding moves_def by (subst run_bindh, rule run_still) auto

lemma moves_tail [life_intros]: "ends (calm tabs plain) replies f \<Longrightarrow> moved k c (cans s) \<Longrightarrow> moves k c f s"
  unfolding moves_def by (rule run_still [where Ob = replies]) (auto simp: steps_def ends_def)

lemma moves_stop_if: "cans s = c \<Longrightarrow> (\<not> b \<Longrightarrow> moves k c (g ()) s) \<Longrightarrow> moves k c (bindh (stop_if b out) g) s"
  by (simp add: moves_def run_simps)

lemma moves_present: "cans s = c \<Longrightarrow> (\<And>x. y = Some x \<Longrightarrow> moves k c (g x) s) \<Longrightarrow> moves k c (bindh (present out y) g) s"
  by (auto simp: moves_def run_simps split: option.split)

lemma moves_get:
  "cans s = c \<Longrightarrow> (\<And>s1. cans s1 = c \<Longrightarrow> moves (n, ct) c (g (c (n, ct))) s1) \<Longrightarrow>
   moves (n, ct) c (bindh (need on_err (GetCanary_m X n ct)) g) s"
  unfolding moves_def by (subst run_bindh, rule run_GetCanary) auto

lemma moves_update:
  assumes "cans s = c" and "(cr_config cr, cr_type cr) = k"
    and "\<And>cr'. refreshed cr cr' \<Longrightarrow> lifecycle (c k) (Some cr')" and "ends (calm tabs plain) replies (g ())"
  shows "moves k c (bindh (need on_err (UpdateCanary_m X cr)) g) s"
  unfolding moves_def
proof (subst run_bindh, rule run_UpdateCanary)
  fix cr' and s1 :: "('d, 'f, 'r) adm" assume "refreshed cr cr'" "cans s1 = (cans s)((cr_config cr, cr_type cr) \<mapsto> cr')"
  with assms(1-3) have "moved k c (cans s1)" by (simp add: moved_upd)
  from moves_tail [OF assms(4) this] show "run (g ()) s1 (\<lambda>_ s1. moved k c (cans s1)) (\<lambda>_ s1. moved k c (cans s1))"
    by (simp add: moves_def)
qed (use assms(1) in simp)

lemma moves_delete:
  assumes "cans s = c" and "c (n, ct) = Some cr" and "ends (calm tabs plain) replies (g ())"
  shows "moves (n, ct) c (bindh (need on_err (DeleteCanary_m X n ct)) g) s"
  unfolding moves_def
proof (subst run_bindh, rule run_DeleteCanary)
  fix s1 :: "('d, 'f, 'r) adm" assume "cans s1 = (cans s)((n, ct) := None)"
  with assms(1,2) have "moved (n, ct) c (cans s1)" by (simp add: moved_upd finish)
  from moves_tail [OF assms(3) this] show "run (g ()) s1 (\<lambda>_ s1. moved (n, ct) c (cans s1)) (\<lambda>_ s1. moved (n, ct) c (cans s1))"
    by (simp add: moves_def)
qed (use assms(1) in simp)

lemma moves_drop:
  assumes "cans s = c" and "c (n, ct) = Some cr" and "\<And>x. ends (calm tabs plain) replies (g x)"
  shows "moves (n, ct) c (bindh (attempt (DeleteCanary_m X n ct)) g) s"
proof (cases "DeleteCanary_m X n ct (s_mgr s)")
  case (Pair r m)
  have "moved (n, ct) c (canaries (tabs (m_db m)))"
  proof (cases r)
    case (Inl e)
    with Pair canary_failures(3) assms(1) show ?thesis by (cases r) auto
  next
    case (Inr u)
    with Pair canary_deleted [of n ct "s_mgr s" u m] assms(1,2) show ?thesis by (simp add: moved_upd finish)
  qed
  with Pair moves_tail [OF assms(3), of "(n, ct)" c "s\<lparr>s_mgr := m\<rparr>"] show ?thesis
    by (simp add: moves_def run_bindh run_attempt)
qed

lemma moves_create:
  assumes "cans s = c" and "(cr_config cr, cr_type cr) = k" and "cr_status cr = CanaryStatusRolling"
    and "percent_range (cr_percent cr)" and "\<And>e s1. cans s1 = c \<Longrightarrow> moves k c (g (Inl e)) s1"
    and "ends (calm tabs plain) replies (g (Inr ()))"
  shows "moves k c (bindh (attempt (CreateCanary_m X cr)) g) s"
proof (cases "CreateCanary_m X cr (s_mgr s)")
  case (Pair r m)
  have "moves k c (g r) (s\<lparr>s_mgr := m\<rparr>)"
  proof (cases r)
    case (Inl e)
    with Pair canary_failures(2) assms(1,5) show ?thesis by auto
  next
    case (Inr u)
    from canary_created [of cr "s_mgr s" u m] Pair Inr obtain cr' where
      "cans s (cr_config cr, cr_type cr) = None" "refreshed cr cr'"
      "canaries (tabs (m_db m)) = (cans s)((cr_config cr, cr_type cr) \<mapsto> cr')" by auto
    with assms(1-4) have "moved k c (canaries (tabs (m_db m)))"
      using refreshedD(3,4) by (auto intro!: moved_upd start)
    with Inr moves_tail [OF assms(6), of k c "s\<lparr>s_mgr := m\<rparr>"] show ?thesis by simp
  qed
  with Pair show ?thesis by (simp add: moves_def run_bindh run_attempt)
qed

lemma moves_type:
  "cans s = c \<Longrightarrow> (\<And>ct. moves (rq_vars req ''name'', ct) c (g ct) s) \<Longrightarrow> \<exists>k. moves k c (bindh (need_type req) g) s"
  by (cases "configTypeFromPath (rq_vars req ''type'')")
    (auto simp: need_type_def moves_def run_simps)

text \<open>Each of the seven handlers that write canaries.\<close>

definition canary_handler :: "('d, 'f, 'r) handler \<Rightarrow> bool" where
  "canary_handler h \<longleftrightarrow> (\<forall>req s. \<exists>k. moved k (cans s) (cans (snd (h req s))))"

lemma canary_handler_finish:
  "(\<And>req s. \<exists>k. moves k (cans s) (f req) s) \<Longrightarrow> canary_handler (\<lambda>req. finish (f req))"
  unfolding canary_handler_def moves_def by (metis (no_types, lifting) finish_run surjective_pairing)

lemma moves_change:
  assumes "cans s = c" and "c k = Some cr0" and "cr_config cr = cr_config cr0" and "cr_type cr = cr_type cr0"
    and "\<And>cr'. refreshed cr cr' \<Longrightarrow> lifecycle (Some cr0) (Some cr')" and "ends (calm tabs plain) replies (g ())"
  shows "moves k c (bindh (need on_err (UpdateCanary_m X cr)) g) s"
  using assms canaries_keyed [of "m_db (s_mgr s)" k cr0] by (intro moves_update) simp_all

lemma status_step:
  assumes "(cr_status cr, b) \<in> {(CanaryStatusRolling, CanaryStatusPaused), (CanaryStatusPaused, CanaryStatusRolling)}"
    and "refreshed (cr\<lparr>cr_status := b\<rparr>) cr'"
  shows "lifecycle (Some cr) (Some cr')"
  using refreshedD [OF assms(2)] assms(1)
  by (auto simp: same_release_def same_content_def intro: pause resume)

lemma percent_step:
  assumes "cr_status cr = CanaryStatusRolling" and "percent_range p" and "refreshed (cr\<lparr>cr_percent := p\<rparr>) cr'"
  shows "lifecycle (Some cr) (Some cr')"
  using refreshedD [OF assms(3)] assms(1,2)
  by (intro ramp) (auto simp: same_release_def same_content_def)

lemma edit_step:
  assumes "\<not> (cr_status cr \<noteq> CanaryStatusRolling \<and> cr_status cr \<noteq> CanaryStatusPaused)" and "percent_range (cr_percent cr1)"
    and "same_release cr cr1" and "cr_status cr1 = cr_status cr" and "refreshed cr1 cr'"
  shows "lifecycle (Some cr) (Some cr')"
  using refreshedD [OF assms(5)] assms(1-4) by (intro edit) (auto simp: same_release_def)

lemma status_handlers: "canary_handler (PauseCanary_h X w)" "canary_handler (ResumeCanary_h X w)"
proof -
  have "canary_handler (setCanaryStatus X w a b audit)"
    if "(a, b) \<in> {(CanaryStatusRolling, CanaryStatusPaused), (CanaryStatusPaused, CanaryStatusRolling)}" for a b audit
    unfolding setCanaryStatus_def Let_def
    apply (rule canary_handler_finish, rule moves_type, rule refl)
    apply (intro moves_get moves_present moves_stop_if moves_change)
            apply (assumption | rule refl | simp)+
     apply (rule status_step, use that in simp, assumption)
    apply (intro step_intros; simp)
    done
  then show "canary_handler (PauseCanary_h X w)" "canary_handler (ResumeCanary_h X w)"
    by (simp_all add: PauseCanary_h_def ResumeCanary_h_def)
qed

lemma plain_canary_steps [step_intros]:
  "steps (calm tabs plain) replies (readJSON w fill req)"
  "steps (calm tabs plain) replies (ip_selector_of w body)"
  "steps (calm tabs plain) replies (tag_selector_of body)"
  "steps (calm tabs plain) replies (promote_into X w req (kind_of X ct) n cr)"
  unfolding ip_selector_of_def tag_selector_of_def
     apply (intro step_intros; simp)+
  unfolding promote_into_def kind_of_def Let_def
  apply (cases "ct = ConfigTypePipeline")
   apply (simp_all only: if_True if_False pipeline_kind_def instance_kind_def config_kind.simps)
   apply (intro step_intros; simp)+
  done

text \<open>A body that was read is in range.\<close>

lemma moves_percent:
  "cans s = c \<Longrightarrow> (percent_range p \<Longrightarrow> moves k c (g ()) s) \<Longrightarrow> moves k c (bindh (percent_ok p) g) s"
  by (auto simp: percent_ok_def moves_def run_simps percent_range_def)

lemma moves_body:
  assumes "cans s = c" and "\<And>body s1. cans s1 = c \<Longrightarrow> percent_range (cb_percent body) \<Longrightarrow> moves k c (g body) s1"
  shows "moves k c (bindh (read_canary w req) g) s"
proof -
  have "run (read_canary w req) s (\<lambda>body s1. moves k c (g body) s1) (\<lambda>_ s1. moved k c (cans s1))"
    unfolding read_canary_def
  proof (subst run_bindh, rule run_still [where Ob = replies])
    fix body and s1 :: "('d, 'f, 'r) adm" assume "cans s1 = cans s"
    with assms(1) have s1: "cans s1 = c" by simp
    show "run (bindh (percent_ok (cb_percent body)) (\<lambda>_.
        bindh (need_valid (map_option (\<lambda>msg. ''canary_detail: '' @ msg) (validateYAML w (cb_detail body)))) (\<lambda>_. reth body)))
        s1 (\<lambda>body s1. moves k c (g body) s1) (\<lambda>_ s1. moved k c (cans s1))"
      using s1 assms(2) [OF s1, of body]
      by (auto simp: run_simps percent_ok_def need_valid_def percent_range_def split: option.split)
  qed (use assms(1) plain_canary_steps(1) in simp_all)
  then show ?thesis unfolding moves_def by (simp add: run_bindh)
qed

lemma percent_handler: "canary_handler (SetCanaryPercent_h X w)"
  unfolding SetCanaryPercent_h_def Let_def
  apply (rule canary_handler_finish, rule moves_type, rule refl)
  apply (rule moves_still, rule plain_canary_steps, rule refl)
  apply (intro moves_percent moves_get moves_present moves_stop_if moves_change)
               apply (assumption | rule refl | simp)+
   apply (rule percent_step, simp, assumption, assumption)
  apply (intro step_intros; simp)
  done

lemma edit_handler: "canary_handler (UpdateCanary_h X w)"
  unfolding UpdateCanary_h_def Let_def
  apply (rule canary_handler_finish, rule moves_type, rule refl)
  apply (rule moves_body, rule refl)
  apply (intro moves_get moves_present moves_stop_if)
          apply (assumption | rule refl)+
  apply (rule moves_still, rule plain_canary_steps, assumption)
  apply (rule moves_still, rule plain_canary_steps, assumption)
  apply (intro moves_stop_if moves_change)
        apply (assumption | rule refl | simp)+
   apply (rule edit_step; simp add: same_release_def)
  apply (intro step_intros; simp)
  done

lemma end_handlers: "canary_handler (AbortCanary_h X w)" "canary_handler (PromoteCanary_h X w)"
proof -
  show "canary_handler (AbortCanary_h X w)"
    unfolding AbortCanary_h_def Let_def
    apply (rule canary_handler_finish, rule moves_type, rule refl)
    apply (intro moves_get moves_present moves_delete)
        apply (assumption | rule refl)+
    apply (intro step_intros; simp)
    done
  show "canary_handler (PromoteCanary_h X w)"
    unfolding PromoteCanary_h_def Let_def
    apply (rule canary_handler_finish, rule moves_type, rule refl)
    apply (intro moves_get moves_present)
      apply (assumption | rule refl)+
    apply (rule moves_still, rule plain_canary_steps, assumption)
    apply (rule moves_drop, assumption, assumption)
    apply (intro step_intros; simp)
    done
qed

lemma start_handler: "canary_handler (CreateCanary_h X w)"
  unfolding CreateCanary_h_def Let_def
  apply (rule canary_handler_finish, rule moves_type, rule refl)
  apply (rule moves_body, rule refl)
  apply (rule moves_still, rule plain_canary_steps, assumption)
  apply (rule moves_still, rule plain_canary_steps, assumption)
  apply (rule moves_get, assumption)
  apply (split option.split, intro conjI allI impI)
   apply (rule moves_create, assumption)
       apply (simp_all add: new_canary_def)
   apply (split sum.split option.split)?
   apply (intro moves_tail step_intros; simp)
   apply (intro step_intros; simp)
  apply (intro moves_tail step_intros; simp)
  done

subsection \<open>All the other handlers\<close>

lemma handler_plain: "handles (calm tabs plain) Ob h \<Longrightarrow> canary_handler h"
  using frame_canaries [of plain] unfolding canary_handler_def handles_def calm_def by (metis moved_refl plain_simps(11))

lemma canary_reads:
  "handles (calm tabs plain) replies (ListCanaries_h X w)"
  "handles (calm tabs plain) replies (GetCanary_h X w)"
  "handles (calm tabs plain) replies (GetCanaryStats_h X w)"
  "handles (calm tabs plain) replies (GetCanaryAgents_h X w)"
  unfolding ListCanaries_h_def GetCanary_h_def GetCanaryStats_h_def GetCanaryAgents_h_def canary_view_def Let_def
  by (intro step_intros; simp)+

end

text \<open>The handlers of accounts write tokens and the tables of accounts.\<close>

definition same_canaries :: "('d \<Rightarrow> tables) \<Rightarrow> ('d, 'f, 'r) adm \<Rightarrow> ('d, 'f, 'r) adm \<Rightarrow> bool" where
  "same_canaries tabs s s' \<longleftrightarrow> canaries (tabs (m_db (s_mgr s'))) = canaries (tabs (m_db (s_mgr s)))"

interpretation still: step_relation "same_canaries tabs" for tabs
  by unfold_locales (auto simp: same_canaries_def)

lemma still_quiet [step_intros]: "calm.quiet tabs (- {TCanary}) f \<Longrightarrow> still.quiet tabs f"
  using frame_canaries [of "- {TCanary}"] by (auto simp: calm.quiet_def still.quiet_def calm_def same_canaries_def)

context account_store
begin

lemma quiet_accounts [step_intros]:
  "TUser \<in> K \<Longrightarrow> calm.quiet tabs K (CreateUser_m X u)"
  "TUser \<in> K \<Longrightarrow> calm.quiet tabs K (UpdateUser_m X u)"
  "TUser \<in> K \<Longrightarrow> calm.quiet tabs K (DeleteUser_m X n)"
  "TRole \<in> K \<Longrightarrow> calm.quiet tabs K (CreateRole_m X ro)"
  "TUser \<in> K \<Longrightarrow> TPerm \<in> K \<Longrightarrow> TRole \<in> K \<Longrightarrow> calm.quiet tabs K (DeleteRole_m X n)"
  "TPerm \<in> K \<Longrightarrow> calm.quiet tabs K (SetRolePermissions_m X n ps)"
  unfolding CreateUser_m_def UpdateUser_m_def DeleteUser_m_def CreateRole_m_def DeleteRole_m_def SetRolePermissions_m_def
  by (rule quiet_confined(1), rule store_writes, simp)+

lemma token_stores:
  "m_db (s_mgr (snd (sessions_create X w n s))) = m_db (s_mgr s)"
  "m_db (s_mgr (snd (sessions_get X w tok s))) = m_db (s_mgr s)"
  "m_db (s_mgr (sessions_delete X tok s)) = m_db (s_mgr s)"
  "m_db (s_mgr (snd (pendingOTP_issue X w n s))) = m_db (s_mgr s)"
  "m_db (s_mgr (snd (pendingOTP_consume X w tok s))) = m_db (s_mgr s)"
  "m_db (s_mgr (snd (resetTokens_issue X w n s))) = m_db (s_mgr s)"
  "m_db (s_mgr (snd (resetTokens_consume X w tok s))) = m_db (s_mgr s)"
  "m_db (s_mgr (snd (sendMail w to sub body s))) = m_db (s_mgr s)"
  by (simp_all add: sessions_create_def sessions_get_def sessions_delete_def pendingOTP_issue_def pendingOTP_consume_def
      resetTokens_issue_def resetTokens_consume_def redis_issue_def redis_consume_def sendMail_def Let_def split_beta
      cache_ops split: option.split)

lemma still_act: "(\<And>s. m_db (s_mgr (snd (f s))) = m_db (s_mgr s)) \<Longrightarrow> steps (same_canaries tabs) Ob (act f)"
  by (rule still.leaves) (simp add: same_canaries_def)

lemmas still_tokens [step_intros] = token_stores(1,2,4-8) [THEN still_act]

lemma still_accounts:
  "handles (same_canaries tabs) (\<lambda>_. True) (AuthStatus_h X w)" "handles (same_canaries tabs) (\<lambda>_. True) (AuthInit_h X w)"
  "handles (same_canaries tabs) (\<lambda>_. True) (AuthLogin_h X w)" "handles (same_canaries tabs) (\<lambda>_. True) (AuthChangePassword_h X w)"
  "handles (same_canaries tabs) (\<lambda>_. True) (OTPSetup_h X w)" "handles (same_canaries tabs) (\<lambda>_. True) (OTPEnable_h X w)"
  "handles (same_canaries tabs) (\<lambda>_. True) (OTPDisable_h X w)" "handles (same_canaries tabs) (\<lambda>_. True) (OTPLoginStep_h X w)"
  "handles (same_canaries tabs) (\<lambda>_. True) (ForgotPassword_h X w)" "handles (same_canaries tabs) (\<lambda>_. True) (ResetPassword_h X w)"
  "handles (same_canaries tabs) (\<lambda>_. True) (GetMe_h X)" "handles (same_canaries tabs) (\<lambda>_. True) (SetMyEmail_h X w)"
  "handles (same_canaries tabs) (\<lambda>_. True) (ListUsers_h X w)" "handles (same_canaries tabs) (\<lambda>_. True) (CreateUser_h X w)"
  "handles (same_canaries tabs) (\<lambda>_. True) (DeleteUser_h X)" "handles (same_canaries tabs) (\<lambda>_. True) (ResetUserPassword_h X w)"
  "handles (same_canaries tabs) (\<lambda>_. True) (AssignUserRole_h X w)" "handles (same_canaries tabs) (\<lambda>_. True) (SetUserEmail_h X w)"
  "handles (same_canaries tabs) (\<lambda>_. True) (ListRoles_h X w)" "handles (same_canaries tabs) (\<lambda>_. True) (CreateRole_h X w)"
  "handles (same_canaries tabs) (\<lambda>_. True) (DeleteRole_h X)" "handles (same_canaries tabs) (\<lambda>_. True) (GetRolePermissions_h X)"
  "handles (same_canaries tabs) (\<lambda>_. True) (SetRolePermissions_h X w)"
  unfolding AuthStatus_h_def AuthInit_h_def AuthLogin_h_def AuthChangePassword_h_def OTPSetup_h_def OTPEnable_h_def
    OTPDisable_h_def OTPLoginStep_h_def ForgotPassword_h_def ResetPassword_h_def GetMe_h_def SetMyEmail_h_def
    ListUsers_h_def CreateUser_h_def DeleteUser_h_def ResetUserPassword_h_def AssignUserRole_h_def SetUserEmail_h_def
    ListRoles_h_def CreateRole_h_def DeleteRole_h_def GetRolePermissions_h_def SetRolePermissions_h_def
    start_session_def known_role_def Let_def
  by (intro step_intros; simp)+

lemma handler_still: "handles (same_canaries tabs) Ob h \<Longrightarrow> canary_handler h"
  unfolding canary_handler_def handles_def same_canaries_def by (metis moved_refl)

lemma logout_handler: "canary_handler (AuthLogout_h X)"
  by (auto simp: canary_handler_def AuthLogout_h_def token_stores split: option.split intro: exI [of _ undefined])

lemma handler_admin: "canary_handler h \<Longrightarrow> canary_handler (requireAdmin h)"
  unfolding canary_handler_def requireAdmin_def by (auto split: option.split)

lemma routes_move: "list_all (\<lambda>r. canary_handler (snd (snd r))) (routes X w)"
  unfolding routes_def list.pred_inject prod.sel
  by (intro conjI TrueI status_handlers percent_handler edit_handler end_handlers start_handler logout_handler
      canary_reads [THEN handler_plain] calm_listing [THEN handler_plain] calm_changes [THEN handler_plain]
      calm_onetime [THEN handler_plain] calm_groups [THEN handler_plain] calm_agent [THEN handler_plain]
      calm_panicking [THEN handler_plain] calm_history [THEN handler_plain] calm_rollback [THEN handler_plain]
      still_accounts [THEN handler_still] still_accounts [THEN handler_still, THEN handler_admin]) simp_all

lemma still_bindr: "still.quiet tabs f \<Longrightarrow> (\<And>x. still.quiet tabs (g x)) \<Longrightarrow> still.quiet tabs (bindr f g)"
  by (auto simp: still.quiet_def same_canaries_def bindr_def split_beta split: sum.split) (metis (no_types) adm.select_convs(1) adm.surjective adm.update_convs(1))+

lemma still_retr: "still.quiet tabs (retr x)"
  by (simp add: still.quiet_def same_canaries_def retr_def)

lemma still_hasPermission [step_intros]: "still.quiet tabs (hasPermission X n res a)"
  unfolding hasPermission_def
  by (rule still_bindr, rule still_quiet, rule quiet_reads)
    (auto intro: still_retr still_bindr [OF still_quiet [OF quiet_reads(14)]] split: option.split)

lemma authenticate_still: "steps (same_canaries tabs) (\<lambda>_. True) (authenticate X w req)"
  unfolding authenticate_def Let_def by (intro step_intros; simp)

lemma serve_moves:
  assumes "canary_handler other"
  shows "canary_handler (serve X w other)"
proof -
  have dispatch: "canary_handler (dispatch X w other)"
    unfolding canary_handler_def
  proof (intro allI)
    fix req s
    show "\<exists>k. moved k (cans s) (cans (snd (dispatch X w other req s)))"
    proof (cases "find (\<lambda>r. route_matches r req) (routes X w)")
      case None
      with assms show ?thesis by (simp add: dispatch_def canary_handler_def)
    next
      case (Some r)
      then have "canary_handler (snd (snd r))"
        using routes_move [of w] by (auto simp: list_all_iff find_Some_iff)
      with Some show ?thesis by (simp add: dispatch_def canary_handler_def split_beta)
    qed
  qed
  show ?thesis
    unfolding canary_handler_def
  proof (intro allI)
    fix req s
    obtain r s1 where a: "authenticate X w req s = (r, s1)" by fastforce
    with authenticate_still [of w req] have "cans s1 = cans s"
      unfolding steps_def same_canaries_def by (metis snd_conv)
    with a dispatch show "\<exists>k. moved k (cans s) (cans (snd (serve X w other req s)))"
      unfolding serve_def requireAuth_def canary_handler_def by (auto split: sum.split intro: exI [of _ undefined]) metis+
  qed
qed

end

end
