(* ===== verification/Canary_Props.thy ===== *)
theory Canary_Props
  imports Canary_Lifecycle Auth_Props
begin

section \<open>The guarantee of canary releases\<close>

text \<open>
  The life of every canary release under every request to the admin API. The witness aborts one.
\<close>

definition live_release :: "CanaryRelease \<Rightarrow> bool" where
  "live_release cr \<longleftrightarrow> cr_status cr \<in> {CanaryStatusRolling, CanaryStatusPaused} \<and> percent_range (cr_percent cr)"

lemma statuses_differ: "CanaryStatusRolling \<noteq> CanaryStatusPaused"
  by (simp add: CanaryStatusRolling_def CanaryStatusPaused_def)

lemma lifecycle_live: "lifecycle x y \<Longrightarrow> (\<And>cr. x = Some cr \<Longrightarrow> live_release cr) \<Longrightarrow> y = Some cr' \<Longrightarrow> live_release cr'"
  by (induction rule: lifecycle.induct) (auto simp: live_release_def)

text \<open>
  C7. Every request to the admin API, whatever it asks, moves at most one canary release, and
  that by a step of its state machine: it starts rolling, is edited while rolling or paused, ramped
  only while rolling, paused, resumed, and ends by leaving the table. So every release stays rolling or
  paused with a percentage between 0 and 100: the statuses "promoted" and "aborted" are never stored.
\<close>

theorem canary_lifecycle:
  assumes "gorm_api (gorm X) tabs" and "serve X w other req s = (out, s')"
    and "\<And>r t. canaries (tabs (m_db (s_mgr (snd (other r t))))) = canaries (tabs (m_db (s_mgr t)))"
  shows "(\<exists>k. lifecycle (canaries (tabs (m_db (s_mgr s))) k) (canaries (tabs (m_db (s_mgr s'))) k) \<and>
      (\<forall>j. j \<noteq> k \<longrightarrow> canaries (tabs (m_db (s_mgr s'))) j = canaries (tabs (m_db (s_mgr s))) j)) \<and>
    ((\<forall>k cr. canaries (tabs (m_db (s_mgr s))) k = Some cr \<longrightarrow> live_release cr) \<longrightarrow>
     (\<forall>k cr. canaries (tabs (m_db (s_mgr s'))) k = Some cr \<longrightarrow> live_release cr))"
proof -
  have store: "account_store X tabs" using assms(1) by (rule account_store.intro)
  have "account_store.canary_handler tabs other"
    using assms(3) by (auto simp: account_store.canary_handler_def [OF store])
  from account_store.serve_moves [OF store this, of w]
  obtain k where k: "moved k (canaries (tabs (m_db (s_mgr s)))) (canaries (tabs (m_db (s_mgr s'))))"
    using assms(2) unfolding account_store.canary_handler_def [OF store] by (metis snd_conv)
  have "live_release cr" if "\<And>k cr. canaries (tabs (m_db (s_mgr s))) k = Some cr \<Longrightarrow> live_release cr"
    and "canaries (tabs (m_db (s_mgr s'))) j = Some cr" for j cr
  proof (cases "j = k")
    case True
    with k lifecycle_live [OF _ that(1) that(2)] show ?thesis by (auto simp: moved_def)
  next
    case False
    with k that(2) have "canaries (tabs (m_db (s_mgr s))) j = Some cr" by (cases j) (simp add: moved_def)
    then show ?thesis by (rule that(1))
  qed
  with k show ?thesis unfolding moved_def by blast
qed

text \<open>Bob aborts a canary release.\<close>

definition sample_release :: CanaryRelease where
  "sample_release = \<lparr>cr_config = ''p'', cr_type = ConfigTypePipeline, cr_detail = ''d'', cr_version = 1, cr_percent = 10,
     cr_version_constraint = [], cr_ip_selector = [], cr_tag_selector = [], cr_status = CanaryStatusPaused,
     cr_created_by = ''bob'', cr_created = 0, cr_updated = 0\<rparr>"

definition canary_state :: "(memdb, memcache, unit) adm" where
  "canary_state = sample_state
     \<lparr>s_mgr := New \<lparr>mem_rows = RCanary sample_release # sample_rows, mem_faults = []\<rparr> [] [] None (300 * second) 0 False\<rparr>"

definition abort_request :: hreq where
  "abort_request = sample_request ''POST'' [''api'', ''v1'', ''configs'', ''pipeline'', ''p'', ''canary'', ''abort'']
     [sessionCookieName \<mapsto> ''t1'', csrfCookieName \<mapsto> ''t1''] ''t1'' []"

lemma abort_caller:
  "authenticate mem_services sample_world abort_request canary_state = (Inr \<lparr>uc_name = ''bob'', uc_admin = False\<rparr>, canary_state)"
  by code_simp

lemma abort_route:
  "route_of X w abort_request = Some (''POST'', ''/api/v1/configs/{type}/{name}/canary/abort'', AbortCanary_h X w)"
  by (simp add: route_of_def routes_def route_matches_if method_matches_def abort_request_def sample_request_def
      pattern_segments_def split_def split_acc.simps is_wildcard_def)

definition abort_result :: "outcome \<times> (memdb, memcache, unit) adm" where
  "abort_result = AbortCanary_h mem_services sample_world
     (abort_request\<lparr>rq_user := Some \<lparr>uc_name = ''bob'', uc_admin = False\<rparr>,
        rq_vars := path_values [(''type'', ''pipeline''), (''name'', ''p'')]\<rparr>) canary_state"

lemma abort_served: "serve mem_services sample_world sample_other abort_request canary_state = abort_result"
proof -
  have "protected_path (rq_path abort_request)" by code_simp
  moreover have "match_segments (pattern_segments ''/api/v1/configs/{type}/{name}/canary/abort'') (rq_segments abort_request) =
      Some [(''type'', ''pipeline''), (''name'', ''p'')]"
    by code_simp
  ultimately show ?thesis
    by (simp add: serve_def requireAuth_def abort_caller account_store.dispatch_route [OF mema.account_store_axioms]
        account_store.route_of_user [OF mema.account_store_axioms] abort_route abort_result_def)
qed

lemma aborted: "canaries (mem_tabs (m_db (s_mgr (snd abort_result)))) (''p'', ConfigTypePipeline) = None"
  by code_simp

theorem canary_lifecycle_witness:
  "\<exists>s'. snd (serve mem_services sample_world sample_other abort_request canary_state) = s' \<and>
     canaries (mem_tabs (m_db (s_mgr canary_state))) (''p'', ConfigTypePipeline) = Some sample_release \<and>
     canaries (mem_tabs (m_db (s_mgr s'))) (''p'', ConfigTypePipeline) = None \<and>
     (\<exists>k. lifecycle (canaries (mem_tabs (m_db (s_mgr canary_state))) k) (canaries (mem_tabs (m_db (s_mgr s'))) k))"
proof -
  obtain out s' where r: "abort_result = (out, s')" by fastforce
  have "canaries (mem_tabs (m_db (s_mgr canary_state))) (''p'', ConfigTypePipeline) = Some sample_release"
    by code_simp
  with canary_lifecycle [OF mema.database abort_served [unfolded r]] aborted show ?thesis
    by (auto simp: r abort_served sample_other_def)
qed

end
