(* ===== verification/History_Props.thy ===== *)
theory History_Props
  imports Auth_Props
begin

section \<open>Undoing a change through the history\<close>

text \<open>
  Every change of a configuration through the API leaves its content before the change in the
  history, and a rollback to that entry brings it back. Pipelines and instances are two kinds
  of one interface: the locale \<open>kind_api\<close> says what the handlers of \<open>Admin_Configs\<close> and
  \<open>Admin_History\<close> rely on, \<open>cached_manager\<close> gives it for both.
\<close>

subsection \<open>The history table\<close>

abbreviation history_at where "history_at t i \<equiv> row_at as_history (KHistory i) t"

text \<open>Entries are only added, and each new one satisfies \<open>P\<close>.\<close>

definition history_grows :: "(ConfigHistory \<Rightarrow> bool) \<Rightarrow> tables \<Rightarrow> tables \<Rightarrow> bool" where
  "history_grows P t t' \<longleftrightarrow>
     (\<forall>i h. history_at t i = Some h \<longrightarrow> history_at t' i = Some h) \<and>
     (\<forall>i h. history_at t' i = Some h \<longrightarrow> history_at t i = None \<longrightarrow> P h)"

lemma history_grows_refl [simp, intro]: "history_grows P t t"
  by (simp add: history_grows_def)

lemma history_grows_trans: "history_grows P t t1 \<Longrightarrow> history_grows P t1 t2 \<Longrightarrow> history_grows P t t2"
  unfolding history_grows_def by (metis option.exhaust)

lemma history_grows_same: "(\<And>i. history_at t' i = history_at t i) \<Longrightarrow> history_grows P t t'"
  by (simp add: history_grows_def)

text \<open>What a saved entry holds, whatever id the database gave it.\<close>

definition entry_of :: "string \<Rightarrow> string \<Rightarrow> string \<Rightarrow> bytes \<Rightarrow> string \<Rightarrow> ConfigHistory \<Rightarrow> bool" where
  "entry_of ct name action detail user h \<longleftrightarrow>
     ch_resource_type h = ct \<and> ch_resource_name h = name \<and> ch_action h = action \<and> ch_detail h = detail \<and>
     ch_changed_by h = user"

lemma stored_history:
  assumes "stored (RHistory h) r'"
  shows "\<exists>h'. r' = RHistory h' \<and>
    entry_of (ch_resource_type h) (ch_resource_name h) (ch_action h) (ch_detail h) (ch_changed_by h) h'"
proof (cases r')
  case (RHistory h')
  with assms have "h'\<lparr>ch_id := 0\<rparr> = h\<lparr>ch_id := 0\<rparr>" by (simp add: stored_def)
  then have "ConfigHistory.more (h'\<lparr>ch_id := 0\<rparr>) = ConfigHistory.more (h\<lparr>ch_id := 0\<rparr>)"
    "ch_resource_type (h'\<lparr>ch_id := 0\<rparr>) = ch_resource_type (h\<lparr>ch_id := 0\<rparr>)"
    "ch_resource_name (h'\<lparr>ch_id := 0\<rparr>) = ch_resource_name (h\<lparr>ch_id := 0\<rparr>)"
    "ch_action (h'\<lparr>ch_id := 0\<rparr>) = ch_action (h\<lparr>ch_id := 0\<rparr>)"
    "ch_detail (h'\<lparr>ch_id := 0\<rparr>) = ch_detail (h\<lparr>ch_id := 0\<rparr>)"
    "ch_changed_by (h'\<lparr>ch_id := 0\<rparr>) = ch_changed_by (h\<lparr>ch_id := 0\<rparr>)" by simp_all
  with RHistory show ?thesis by (simp add: entry_of_def)
qed (use assms in \<open>simp_all add: stored_def\<close>)

lemma save_history:
  assumes "gorm_api G tabs" and "SaveConfigHistory G h d = (r, d')"
  shows "history_grows (entry_of (ch_resource_type h) (ch_resource_name h) (ch_action h) (ch_detail h) (ch_changed_by h))
      (tabs d) (tabs d')"
proof (cases r)
  case (Inl e)
  with assms gorm_api.store_confined(25) [OF assms(1)] have "tabs d' = tabs d" by (auto simp: confined_def)
  then show ?thesis by simp
next
  case (Inr u)
  have "write_ok (Create [RHistory h]) (tabs d) (tabs d')"
    by (rule gorm_api.exec_write [OF assms(1)]) (use assms(2) Inr in \<open>simp add: SaveConfigHistory_def\<close>)
  then obtain r' where r': "stored (RHistory h) r'" "tabs d (key_of r') = None" "tabs d' = (tabs d)(key_of r' \<mapsto> r')"
    by (auto simp: list_all2_Cons1)
  with stored_history show ?thesis by (fastforce simp: history_grows_def row_at_def)
qed

subsection \<open>A kind of configuration\<close>

text \<open>
  The rows of a kind, and what its methods promise while the caches are coherent: reads agree
  with the rows, writes change the one row they name, and none of them touches the history.
\<close>

definition config_at :: "string \<Rightarrow> tables \<Rightarrow> string \<Rightarrow> config_row option" where
  "config_at ct t name = (if ct = ''pipeline'' then pipeline_at t name else instance_at t name)"

locale kind_api =
  fixes K :: "('d, 'f, 'r) config_kind"
    and tabs :: "'d \<Rightarrow> tables"
    and coh :: "('d, 'f, 'r) mgr \<Rightarrow> bool"
  assumes get_done: "coh m \<Longrightarrow> ck_get K n m = (Inr c, m') \<Longrightarrow>
      tabs (m_db m') = tabs (m_db m) \<and> config_at (ck_type K) (tabs (m_db m)) n = Some c"
    and get_failed: "coh m \<Longrightarrow> ck_get K n m = (Inl e, m') \<Longrightarrow>
      tabs (m_db m') = tabs (m_db m) \<and> (is_not_found e \<longrightarrow> config_at (ck_type K) (tabs (m_db m)) n = None)"
    and created: "ck_create K c m = (Inr u, m') \<Longrightarrow>
      \<exists>c'. same_config c c' \<and> (\<forall>n. config_at (ck_type K) (tabs (m_db m')) n =
        (if n = cf_name c then Some c' else config_at (ck_type K) (tabs (m_db m)) n))"
    and updated: "ck_update K now c m = (Inr u, m') \<Longrightarrow>
      if n = cf_name c
      then rel_option (\<lambda>_ c'. same_config c c') (config_at (ck_type K) (tabs (m_db m)) n)
        (config_at (ck_type K) (tabs (m_db m')) n)
      else config_at (ck_type K) (tabs (m_db m')) n = config_at (ck_type K) (tabs (m_db m)) n"
    and deleted: "ck_delete K n m = (Inr u, m') \<Longrightarrow>
      config_at (ck_type K) (tabs (m_db m')) k = (if k = n then None else config_at (ck_type K) (tabs (m_db m)) k)"
    and history_kept: "ck_create K c m = (r, m') \<Longrightarrow> history_at (tabs (m_db m')) i = history_at (tabs (m_db m)) i"
      "ck_update K now c m = (r, m') \<Longrightarrow> history_at (tabs (m_db m')) i = history_at (tabs (m_db m)) i"
      "ck_delete K n m = (r, m') \<Longrightarrow> history_at (tabs (m_db m')) i = history_at (tabs (m_db m)) i"
    and write_failed: "ck_create K c m = (Inl e, m') \<Longrightarrow> tabs (m_db m') = tabs (m_db m)"
      "ck_update K now c m = (Inl e, m') \<Longrightarrow> tabs (m_db m') = tabs (m_db m)"
      "ck_delete K n m = (Inl e, m') \<Longrightarrow> tabs (m_db m') = tabs (m_db m)"

lemma and_then_cases:
  assumes "and_then w after m = (r, m')" and "\<And>m. m_db (after m) = m_db m"
  obtains d' where "w (m_db m) = (r, d')" "m_db m' = d'"
  using assms by (auto simp: and_then_def on_db_def split: prod.splits sum.splits)

lemma and_then_history:
  assumes "and_then w after m = (r, m')" and "\<And>m. m_db (after m) = m_db m"
    and "confined tabs T w" and "THistory \<notin> T"
  shows "history_at (tabs (m_db m')) i = history_at (tabs (m_db m)) i"
proof -
  obtain d' where "w (m_db m) = (r, d')" "m_db m' = d'" using and_then_cases [OF assms(1,2)] by blast
  with assms(3) have "frame T (tabs (m_db m)) (tabs (m_db m'))" by (auto simp: confined_def)
  then show ?thesis by (rule frame_row_at) (use assms(4) in simp)
qed

lemma and_then_failed:
  assumes "and_then w after m = (Inl e, m')" and "\<And>m. m_db (after m) = m_db m" and "confined tabs T w"
  shows "tabs (m_db m') = tabs (m_db m)"
proof -
  obtain d' where "w (m_db m) = (Inl e, d')" "m_db m' = d'" using and_then_cases [OF assms(1,2)] by blast
  with assms(3) show ?thesis by (auto simp: confined_def)
qed

lemmas after_writes = InvalidatePipelineConfig_def InvalidateInstanceConfig_def cache_ops

text \<open>Both kinds are a table behind a cached read and three writes that go on in the caches.\<close>

lemma config_at_kinds: "config_at ''pipeline'' = pipeline_at" "config_at ''instance'' = instance_at"
  by (auto simp: config_at_def fun_eq_iff)

context cached_manager
begin

lemma kind_of_table:
  assumes table: "config_table tabs (config_at (ck_type K)) create get update delete"
    and get: "reader A (ck_get K) (config_at (ck_type K))"
    and create: "\<And>c. ck_create K c = and_then (create c) (f1 c)" "\<And>c m. m_db (f1 c m) = m_db m"
    and update: "\<And>now c. ck_update K now c = and_then (update now c) (f2 c)" "\<And>c m. m_db (f2 c m) = m_db m"
    and delete: "\<And>n. ck_delete K n = and_then (delete n) (f3 n)" "\<And>n m. m_db (f3 n m) = m_db m"
    and confined: "\<And>c. confined tabs T (create c)" "\<And>now c. confined tabs T (update now c)"
      "\<And>n. confined tabs T' (delete n)" "THistory \<notin> T" "THistory \<notin> T'"
  shows "kind_api K tabs (coherent tabs view A)"
proof
  let ?at = "config_at (ck_type K)"
  show "tabs (m_db m') = tabs (m_db m) \<and> ?at (tabs (m_db m)) n = Some c"
    if "coh A m" "ck_get K n m = (Inr c, m')" for m n c m'
    using readerD(1,2) [OF get that] by (simp add: steady_def)
  show "tabs (m_db m') = tabs (m_db m) \<and> (is_not_found e \<longrightarrow> ?at (tabs (m_db m)) n = None)"
    if "coh A m" "ck_get K n m = (Inl e, m')" for m n e m'
    using readerD(1,3) [OF get that] by (simp add: steady_def)
  show "\<exists>c'. same_config c c' \<and> (\<forall>n. ?at (tabs (m_db m')) n = (if n = cf_name c then Some c' else ?at (tabs (m_db m)) n))"
    if "ck_create K c m = (Inr u, m')" for c m u m'
  proof -
    from and_then_cases [OF that [unfolded create(1)] create(2)] config_table.create_ok [OF table]
    obtain c' where "same_config c c'" "?at (tabs (m_db m')) = (?at (tabs (m_db m)))(cf_name c \<mapsto> c')" by metis
    then show ?thesis by auto
  qed
  show "if n = cf_name c then rel_option (\<lambda>_ c'. same_config c c') (?at (tabs (m_db m)) n) (?at (tabs (m_db m')) n)
      else ?at (tabs (m_db m')) n = ?at (tabs (m_db m)) n" if "ck_update K now c m = (Inr u, m')" for now c m u m' n
    using and_then_cases [OF that [unfolded update(1)] update(2)] config_table.update_ok [OF table] by metis
  show "?at (tabs (m_db m')) k = (if k = n then None else ?at (tabs (m_db m)) k)"
    if "ck_delete K n m = (Inr u, m')" for n m u m' k
  proof -
    from and_then_cases [OF that [unfolded delete(1)] delete(2)] config_table.delete_ok [OF table]
    have "?at (tabs (m_db m')) = (?at (tabs (m_db m)))(n := None)" by metis
    then show ?thesis by simp
  qed
  show "ck_create K c m = (r, m') \<Longrightarrow> history_at (tabs (m_db m')) i = history_at (tabs (m_db m)) i"
      "ck_update K now c m = (r, m') \<Longrightarrow> history_at (tabs (m_db m')) i = history_at (tabs (m_db m)) i"
      "ck_delete K n m = (r, m') \<Longrightarrow> history_at (tabs (m_db m')) i = history_at (tabs (m_db m)) i"
    for c m r m' i now n
    unfolding create(1) update(1) delete(1)
    by (auto elim: and_then_history [OF _ create(2) confined(1,4)] and_then_history [OF _ update(2) confined(2,4)]
        and_then_history [OF _ delete(2) confined(3,5)])
  show "ck_create K c m = (Inl e, m') \<Longrightarrow> tabs (m_db m') = tabs (m_db m)"
      "ck_update K now c m = (Inl e, m') \<Longrightarrow> tabs (m_db m') = tabs (m_db m)"
      "ck_delete K n m = (Inl e, m') \<Longrightarrow> tabs (m_db m') = tabs (m_db m)" for c m e m' now n
    unfolding create(1) update(1) delete(1)
    by (auto elim: and_then_failed [OF _ create(2) confined(1)] and_then_failed [OF _ update(2) confined(2)]
        and_then_failed [OF _ delete(2) confined(3)])
qed

end

sublocale cached_manager < pipeline_kind: kind_api "pipeline_kind X" tabs "coherent tabs view A" for A
proof (rule kind_of_table [where ?f1.0 = "\<lambda>c. InvalidatePipelineConfig X (cf_name c)"
      and ?f2.0 = "\<lambda>c. InvalidatePipelineConfig X (cf_name c)"
      and ?f3.0 = "\<lambda>n m. invalidateResolveCache X (InvalidatePipelineConfig X n m)"
      and T = "{TPipeline}" and T' = "{TPipeline, TMapping}"])
  show "config_table tabs (config_at (ck_type (pipeline_kind X))) (CreatePipelineConfig (gorm X))
      (GetPipelineConfig (gorm X)) (UpdatePipelineConfig (gorm X)) (DeletePipelineConfig (gorm X))"
    using pipelines.config_table_axioms by (simp add: pipeline_kind_def config_at_kinds)
qed (simp_all add: pipeline_kind_def config_at_kinds reader_pipeline CreatePipelineConfig_m_def
    UpdatePipelineConfig_m_def DeletePipelineConfig_m_def after_writes store_confined)

sublocale cached_manager < instance_kind: kind_api "instance_kind X" tabs "coherent tabs view A" for A
proof (rule kind_of_table [where ?f1.0 = "\<lambda>c. InvalidateInstanceConfig X (cf_name c)"
      and ?f2.0 = "\<lambda>c. InvalidateInstanceConfig X (cf_name c)"
      and ?f3.0 = "\<lambda>n m. invalidateResolveCache X (InvalidateInstanceConfig X n m)"
      and T = "{TInstance}" and T' = "{TInstance, TMapping}"])
  show "config_table tabs (config_at (ck_type (instance_kind X))) (CreateInstanceConfig (gorm X))
      (GetInstanceConfig (gorm X)) (UpdateInstanceConfig (gorm X)) (DeleteInstanceConfig (gorm X))"
    using instances.config_table_axioms by (simp add: instance_kind_def config_at_kinds)
qed (simp_all add: instance_kind_def config_at_kinds reader_instance CreateInstanceConfig_m_def
    UpdateInstanceConfig_m_def DeleteInstanceConfig_m_def after_writes store_confined)

subsection \<open>What the handlers do\<close>

text \<open>A handler may add entries that satisfy \<open>P\<close>, and leave the rows of a kind as \<open>C\<close> says.\<close>

definition kind_step ::
  "('d \<Rightarrow> tables) \<Rightarrow> string \<Rightarrow> (ConfigHistory \<Rightarrow> bool) \<Rightarrow> ('d, 'f, 'r) adm \<Rightarrow> ('d, 'f, 'r) adm \<Rightarrow> bool" where
  "kind_step tabs ct P s s' \<longleftrightarrow>
     history_grows P (tabs (m_db (s_mgr s))) (tabs (m_db (s_mgr s'))) \<and>
     (\<forall>n. config_at ct (tabs (m_db (s_mgr s'))) n = config_at ct (tabs (m_db (s_mgr s))) n)"

lemma kind_step_refl [simp, intro]: "kind_step tabs ct P s s"
  by (simp add: kind_step_def)

lemma kind_step_trans: "kind_step tabs ct P s s1 \<Longrightarrow> kind_step tabs ct P s1 s2 \<Longrightarrow> kind_step tabs ct P s s2"
  by (auto simp: kind_step_def intro: history_grows_trans)

context cached_manager
begin

lemma frame_config_at: "frame T t t' \<Longrightarrow> TPipeline \<notin> T \<Longrightarrow> TInstance \<notin> T \<Longrightarrow> config_at ct t' n = config_at ct t n"
  by (simp add: config_at_def frame_row_at)

lemma run_record_change:
  assumes "\<And>s1. kind_step tabs ct' (entry_of ct name action old (uc_name (user_of req))) s s1 \<Longrightarrow> Q () s1"
  shows "run (record_change X w req code action ct name v old summary) s Q R"
proof -
  let ?P = "entry_of ct name action old (uc_name (user_of req))"
  have save: "kind_step tabs ct' ?P s (s\<lparr>s_mgr := m\<rparr>)"
    if "SaveConfigHistory_m X \<lparr>ch_id = 0, ch_resource_type = ct, ch_resource_name = name, ch_version = v,
        ch_action = action, ch_detail = old, ch_changed_by = uc_name (user_of req), ch_changed_at = w_now w\<rparr>
      (s_mgr s) = (r, m)" for r m
  proof -
    let ?h = "\<lparr>ch_id = 0, ch_resource_type = ct, ch_resource_name = name, ch_version = v,
        ch_action = action, ch_detail = old, ch_changed_by = uc_name (user_of req), ch_changed_at = w_now w\<rparr>"
    from that have d: "SaveConfigHistory (gorm X) ?h (m_db (s_mgr s)) = (r, m_db m)"
      by (auto simp: SaveConfigHistory_m_def on_db_def split: prod.splits)
    with store_confined(25) have "frame {THistory} (tabs (m_db (s_mgr s))) (tabs (m_db m))"
      unfolding confined_def by blast
    with save_history [OF gorm_api_axioms d] show ?thesis by (simp add: kind_step_def frame_config_at)
  qed
  have audit: "kind_step tabs ct' ?P s1 (s1\<lparr>s_mgr := m\<rparr>)" if "CreateAuditLog_m X a (s_mgr s1) = (r, m)" for a s1 r m
  proof -
    from that have "CreateAuditLog (gorm X) a (m_db (s_mgr s1)) = (r, m_db m)"
      by (auto simp: CreateAuditLog_m_def on_db_def split: prod.splits)
    with store_confined(26) have "frame {TAudit} (tabs (m_db (s_mgr s1))) (tabs (m_db m))"
      unfolding confined_def by blast
    then show ?thesis by (simp add: kind_step_def frame_config_at frame_row_at history_grows_same)
  qed
  have both: "kind_step tabs ct' ?P s (s\<lparr>s_mgr := m2\<rparr>)"
    if "SaveConfigHistory_m X \<lparr>ch_id = 0, ch_resource_type = ct, ch_resource_name = name, ch_version = v,
        ch_action = action, ch_detail = old, ch_changed_by = uc_name (user_of req), ch_changed_at = w_now w\<rparr>
      (s_mgr s) = (r1, m1)" "CreateAuditLog_m X a m1 = (r2, m2)" for r1 m1 a r2 m2
    using kind_step_trans [OF save [OF that(1)] audit [of a "s\<lparr>s_mgr := m1\<rparr>" r2 m2]] that(2) by simp
  show ?thesis
    unfolding record_change_def saveHistory_def logAudit_def
    by (auto simp: run_simps run_attempt split: prod.split intro!: assms elim: both)
qed

end

text \<open>A rollback to an entry of its kind gives the row the content of the entry.\<close>

definition restored :: "string \<Rightarrow> string \<Rightarrow> bytes \<Rightarrow> int \<Rightarrow> tables \<Rightarrow> tables \<Rightarrow> bool" where
  "restored ct name detail version t t' \<longleftrightarrow>
     (\<exists>c. config_at ct t' name = Some c \<and> cf_detail c = detail \<and> cf_version c = version) \<and>
     (\<forall>n. n \<noteq> name \<longrightarrow> config_at ct t' n = config_at ct t n)"

lemma restored_step: "restored ct name d v t (tabs (m_db (s_mgr s))) \<Longrightarrow> kind_step tabs ct P s s' \<Longrightarrow>
    restored ct name d v t (tabs (m_db (s_mgr s')))"
  by (simp add: restored_def kind_step_def)

context kind_api
begin

lemma run_get:
  assumes "coh (s_mgr s)"
    and "\<And>c m. config_at (ck_type K) (tabs (m_db (s_mgr s))) n = Some c \<Longrightarrow>
      tabs (m_db m) = tabs (m_db (s_mgr s)) \<Longrightarrow> Q c (s\<lparr>s_mgr := m\<rparr>)"
    and "\<And>e m. (is_not_found e \<Longrightarrow> config_at (ck_type K) (tabs (m_db (s_mgr s))) n = None) \<Longrightarrow>
      tabs (m_db m) = tabs (m_db (s_mgr s)) \<Longrightarrow> R (on_err e) (s\<lparr>s_mgr := m\<rparr>)"
  shows "run (need on_err (ck_get K n)) s Q R"
  using get_done [OF assms(1)] get_failed [OF assms(1)] assms(2,3)
  by (auto simp: run_need split: prod.split sum.split)

lemma run_write:
  assumes "\<And>m. f (s_mgr s) = (Inr (), m) \<Longrightarrow> Q () (s\<lparr>s_mgr := m\<rparr>)"
    and "\<And>e m. f (s_mgr s) = (Inl e, m) \<Longrightarrow> R (on_err e) (s\<lparr>s_mgr := m\<rparr>)"
  shows "run (need on_err f) s Q R"
  using assms by (auto simp: run_need split: prod.split sum.split)

end

context cached_manager
begin

lemma delete_recorded:
  assumes K: "kind_api K tabs (coherent tabs view A)" and "coh A (s_mgr s)"
    and c: "config_at (ck_type K) (tabs (m_db (s_mgr s))) (rq_vars req ''name'') = Some c"
    and r: "delete_config X w K req s = (out, s')"
  shows "history_grows (entry_of (ck_type K) (rq_vars req ''name'') ''delete'' (cf_detail c) (uc_name (user_of req)))
      (tabs (m_db (s_mgr s))) (tabs (m_db (s_mgr s'))) \<and>
    (out = ok_h None \<longrightarrow> config_at (ck_type K) (tabs (m_db (s_mgr s'))) (rq_vars req ''name'') = None)"
proof -
  let ?n = "rq_vars req ''name''" and ?t = "tabs (m_db (s_mgr s))"
  let ?P = "entry_of (ck_type K) ?n ''delete'' (cf_detail c) (uc_name (user_of req))"
  let ?G = "\<lambda>out s'. history_grows ?P ?t (tabs (m_db (s_mgr s'))) \<and>
    (out = ok_h None \<longrightarrow> config_at (ck_type K) (tabs (m_db (s_mgr s'))) ?n = None)"
  have rest: "run (bindh (need (\<lambda>_. internalError) (ck_delete K ?n)) (\<lambda>_.
      bindh (record_change X w req 200 ''delete'' (ck_type K) ?n 0 (cf_detail c) []) (\<lambda>_. reth (ok_h None)))) s1 ?G ?G"
    if t1: "tabs (m_db (s_mgr s1)) = ?t" for s1
  proof (subst run_bindh, rule kind_api.run_write [OF K])
    fix m assume d: "ck_delete K ?n (s_mgr s1) = (Inr (), m)"
    have h: "history_grows ?P ?t (tabs (m_db m))"
      by (rule history_grows_same) (simp add: kind_api.history_kept(3) [OF K d] t1)
    show "run (bindh (record_change X w req 200 ''delete'' (ck_type K) ?n 0 (cf_detail c) []) (\<lambda>_. reth (ok_h None)))
        (s1\<lparr>s_mgr := m\<rparr>) ?G ?G"
      unfolding run_bindh
    proof (rule run_record_change)
      fix s2 assume "kind_step tabs (ck_type K) ?P (s1\<lparr>s_mgr := m\<rparr>) s2"
      with history_grows_trans [OF h] kind_api.deleted [OF K d, of ?n]
      show "run (reth (ok_h None)) s2 ?G ?G" by (simp add: run_reth kind_step_def)
    qed
  next
    fix e m assume "ck_delete K ?n (s_mgr s1) = (Inl e, m)"
    from kind_api.history_kept(3) [OF K this] have "history_grows ?P ?t (tabs (m_db m))"
      by (intro history_grows_same) (simp add: t1)
    then show "?G internalError (s1\<lparr>s_mgr := m\<rparr>)" by (simp add: ok_h_def internalError_def writeJSON_def)
  qed
  have "run (bindh (need (\<lambda>e. if is_not_found e then ok_h None else internalError) (ck_get K ?n)) (\<lambda>cfg.
      bindh (need (\<lambda>_. internalError) (ck_delete K ?n)) (\<lambda>_.
      bindh (record_change X w req 200 ''delete'' (ck_type K) ?n 0 (cf_detail cfg) []) (\<lambda>_. reth (ok_h None))))) s ?G ?G"
  proof (subst run_bindh, rule kind_api.run_get [OF K assms(2)])
    fix cfg and m :: "('d, 'f, 'r) mgr" assume "config_at (ck_type K) ?t ?n = Some cfg" and "tabs (m_db m) = ?t"
    with rest [of "s\<lparr>s_mgr := m\<rparr>"] c
    show "run (bindh (need (\<lambda>_. internalError) (ck_delete K ?n)) (\<lambda>_.
        bindh (record_change X w req 200 ''delete'' (ck_type K) ?n 0 (cf_detail cfg) []) (\<lambda>_. reth (ok_h None))))
      (s\<lparr>s_mgr := m\<rparr>) ?G ?G" by simp
  next
    fix e and m :: "('d, 'f, 'r) mgr" assume "is_not_found e \<Longrightarrow> config_at (ck_type K) ?t ?n = None" and "tabs (m_db m) = ?t"
    with c show "?G (if is_not_found e then ok_h None else internalError) (s\<lparr>s_mgr := m\<rparr>)"
      by (auto simp: ok_h_def internalError_def writeJSON_def)
  qed
  from finish_run [OF r [unfolded delete_config_def Let_def] this] show ?thesis .
qed

lemma run_need_valid: "(p = None \<Longrightarrow> Q () s) \<Longrightarrow> (\<And>msg. R (badRequest msg) s) \<Longrightarrow> run (need_valid p) s Q R"
  by (simp add: need_valid_def run_simps split: option.split)

text \<open>The entry of an update holds the content it replaced.\<close>

lemma update_recorded:
  assumes K: "kind_api K tabs (coherent tabs view A)" and "coh A (s_mgr s)"
    and named: "\<And>c. config_at (ck_type K) (tabs (m_db (s_mgr s))) (rq_vars req ''name'') = Some c \<Longrightarrow> cf_name c = rq_vars req ''name''"
    and c: "config_at (ck_type K) (tabs (m_db (s_mgr s))) (rq_vars req ''name'') = Some c"
    and r: "update_config X w K req s = (out, s')"
  shows "history_grows (entry_of (ck_type K) (rq_vars req ''name'') ''update'' (cf_detail c) (uc_name (user_of req)))
      (tabs (m_db (s_mgr s))) (tabs (m_db (s_mgr s')))"
proof -
  let ?n = "rq_vars req ''name''" and ?t = "tabs (m_db (s_mgr s))"
  let ?P = "entry_of (ck_type K) ?n ''update'' (cf_detail c) (uc_name (user_of req))"
  let ?G = "\<lambda>(out :: outcome) s'. history_grows ?P ?t (tabs (m_db (s_mgr s')))"
  let ?new = "\<lambda>detail. c\<lparr>cf_detail := detail, cf_version := unix_milli (w_now w)\<rparr>"
  let ?rest = "\<lambda>detail. bindh (need (\<lambda>_. internalError) (ck_update K (w_now w) (?new detail))) (\<lambda>_.
      bindh (record_change X w req 200 ''update'' (ck_type K) ?n (unix_milli (w_now w)) (cf_detail c) detail) (\<lambda>_.
      reth (ok_h (Some (config_resp w (?new detail))))))"
  have rest: "run (?rest detail) s1 ?G ?G" if t1: "tabs (m_db (s_mgr s1)) = ?t" for detail s1
  proof (subst run_bindh, rule kind_api.run_write [OF K])
    fix m assume "ck_update K (w_now w) (?new detail) (s_mgr s1) = (Inr (), m)"
    from kind_api.history_kept(2) [OF K this] have h: "history_grows ?P ?t (tabs (m_db m))"
      by (intro history_grows_same) (simp add: t1)
    show "run (bindh (record_change X w req 200 ''update'' (ck_type K) ?n (unix_milli (w_now w)) (cf_detail c) detail) (\<lambda>_.
        reth (ok_h (Some (config_resp w (?new detail)))))) (s1\<lparr>s_mgr := m\<rparr>) ?G ?G"
      unfolding run_bindh
    proof (rule run_record_change)
      fix s2 assume "kind_step tabs (ck_type K) ?P (s1\<lparr>s_mgr := m\<rparr>) s2"
      with history_grows_trans [OF h] show "run (reth (ok_h (Some (config_resp w (?new detail))))) s2 ?G ?G"
        by (simp add: run_reth kind_step_def)
    qed
  next
    fix e m assume "ck_update K (w_now w) (?new detail) (s_mgr s1) = (Inl e, m)"
    from kind_api.history_kept(2) [OF K this] show "?G internalError (s1\<lparr>s_mgr := m\<rparr>)"
      by (intro history_grows_same) (simp add: t1)
  qed
  have looked: "run (need lookup_failed (ck_get K ?n)) s (\<lambda>x s1. x = c \<and> tabs (m_db (s_mgr s1)) = ?t) ?G"
    by (rule kind_api.run_get [OF K assms(2)]) (use c in auto)
  have "run (bindh (readJSON w (string_field ''detail'') req) (\<lambda>detail.
      bindh (need_valid (validateYAML w detail)) (\<lambda>_.
      bindh (need lookup_failed (ck_get K ?n)) (\<lambda>cfg0.
      bindh (stop_if (cf_detail cfg0 = detail) (ok_h (Some (config_resp w cfg0)))) (\<lambda>_.
      let cfg = cfg0\<lparr>cf_detail := detail, cf_version := unix_milli (w_now w)\<rparr>
      in bindh (need (\<lambda>_. internalError) (ck_update K (w_now w) cfg)) (\<lambda>_.
         bindh (record_change X w req 200 ''update'' (ck_type K) (cf_name cfg) (cf_version cfg)
                  (cf_detail cfg0) detail) (\<lambda>_.
         reth (ok_h (Some (config_resp w cfg)))))))))) s ?G ?G"
    unfolding run_bindh
    by (intro run_readJSON run_need_valid run_mono [OF looked])
      (use rest named [OF c] in \<open>auto simp: run_stop_if Let_def run_bindh\<close>)
  from finish_run [OF r [unfolded update_config_def] this] show ?thesis .
qed

lemma run_rollback_config:
  assumes K: "kind_api K tabs (coherent tabs view A)" and "coh A (s_mgr s)"
    and named: "\<And>c. config_at (ck_type K) (tabs (m_db (s_mgr s))) name = Some c \<Longrightarrow> cf_name c = name"
    and Q: "\<And>x s1. restored (ck_type K) name (ch_detail h) (unix_milli (w_now w)) (tabs (m_db (s_mgr s)))
      (tabs (m_db (s_mgr s1))) \<Longrightarrow> Q x s1"
    and R: "\<And>s1. tabs (m_db (s_mgr s1)) = tabs (m_db (s_mgr s)) \<Longrightarrow> R internalError s1"
  shows "run (rollback_config w K name h) s Q R"
  unfolding rollback_config_def
proof (subst run_bindh, subst run_attempt, simp only: split_beta, split sum.split, intro conjI allI impI)
  let ?at = "config_at (ck_type K)" and ?t = "tabs (m_db (s_mgr s))" and ?v = "unix_milli (w_now w)"
  obtain r m where g: "ck_get K name (s_mgr s) = (r, m)" by fastforce
  have wrote: "run (bindh (need (\<lambda>_. internalError) f) (\<lambda>_. reth x)) (s\<lparr>s_mgr := m\<rparr>) Q R"
    if "\<And>m'. f m = (Inr (), m') \<Longrightarrow> restored (ck_type K) name (ch_detail h) ?v ?t (tabs (m_db m'))"
      and "\<And>e m'. f m = (Inl e, m') \<Longrightarrow> tabs (m_db m') = ?t" for f x
    unfolding run_bindh by (rule kind_api.run_write [OF K]) (use that in \<open>auto simp: run_reth intro!: Q R\<close>)
  {
    fix e assume "fst (ck_get K name (s_mgr s)) = Inl e"
    with g have e: "r = Inl e" by simp
    from kind_api.get_failed [OF K assms(2) g [unfolded e]]
    have t: "tabs (m_db m) = ?t" and none: "is_not_found e \<Longrightarrow> ?at ?t name = None" by blast+
    let ?c = "\<lparr>cf_name = name, cf_version = ?v, cf_detail = ch_detail h, cf_created = time_zero, cf_updated = time_zero\<rparr>"
    have "restored (ck_type K) name (ch_detail h) ?v ?t (tabs (m_db m'))"
      if "ck_create K ?c m = (Inr (), m')" for m'
      using kind_api.created [OF K that] t by (auto simp: restored_def same_config_def)
    from wrote [OF this] R kind_api.write_failed(1) [OF K] t show "run (if \<not> is_not_found e then stop internalError
        else bindh (need (\<lambda>_. internalError) (ck_create K ?c)) (\<lambda>_. reth []))
      (s\<lparr>s_mgr := snd (ck_get K name (s_mgr s))\<rparr>) Q R"
      by (simp add: g run_stop)
  next
    fix cfg assume "fst (ck_get K name (s_mgr s)) = Inr cfg"
    with g have cfg: "r = Inr cfg" by simp
    from kind_api.get_done [OF K assms(2) g [unfolded cfg]]
    have t: "tabs (m_db m) = ?t" and at_n: "?at ?t name = Some cfg" by blast+
    let ?c = "cfg\<lparr>cf_detail := ch_detail h, cf_version := ?v\<rparr>"
    have "restored (ck_type K) name (ch_detail h) ?v ?t (tabs (m_db m'))"
      if "ck_update K (w_now w) ?c m = (Inr (), m')" for m'
    proof -
      note u = kind_api.updated [OF K that]
      from u [of name] named [OF at_n] at_n t obtain c' where
        "?at (tabs (m_db m')) name = Some c'" "same_config ?c c'" by (auto simp: option_rel_Some1)
      with u named [OF at_n] t show ?thesis by (auto simp: restored_def same_config_def)
    qed
    from wrote [OF this] kind_api.write_failed(2) [OF K] t show "run (bindh (need (\<lambda>_. internalError) (ck_update K (w_now w) ?c)) (\<lambda>_. reth (cf_detail cfg)))
        (s\<lparr>s_mgr := snd (ck_get K name (s_mgr s))\<rparr>) Q R"
      by (simp add: g)
  }
qed

lemma kinds_contract:
  "K = pipeline_kind X \<or> K = instance_kind X \<Longrightarrow> kind_api K tabs (coherent tabs view A)"
  using pipeline_kind.kind_api_axioms instance_kind.kind_api_axioms by blast

lemma run_read:
  assumes "coh A (s_mgr s)" and "keeps tabs f"
    and "\<And>x m. std A (s_mgr s) m \<Longrightarrow> f (m_db (s_mgr s)) = (Inr x, m_db m) \<Longrightarrow> Q x (s\<lparr>s_mgr := m\<rparr>)"
    and "\<And>e m. std A (s_mgr s) m \<Longrightarrow> R (on_err e) (s\<lparr>s_mgr := m\<rparr>)"
  shows "run (need on_err (on_db f)) s Q R"
  using on_db_steady [OF assms(1,2)] assms(3,4) by (auto simp: run_need split: prod.split sum.split)

lemma config_at_name: "config_at ct (tabs d) n = Some c \<Longrightarrow> cf_name c = n"
  using row_at_tabs [OF projects_table(3)] row_at_tabs [OF projects_table(4)]
  by (auto simp: config_at_def split: if_splits)

lemma rollback_restored:
  assumes K: "kind_api K tabs (coherent tabs view A)" and "coh A (s_mgr s)"
    and of_kind: "\<And>h. rollback_of X w (ck_type K) name h = rollback_config w K name h"
    and entry: "parse_uint (rq_vars req ''id'') = Some i" "history_at (tabs (m_db (s_mgr s))) i = Some h"
      "ch_resource_type h = ck_type K" "ch_resource_name h = name" "ch_detail h \<noteq> []"
    and path: "rq_vars req ''type'' = ck_type K" "rq_vars req ''name'' = name"
    and r: "RollbackConfig_h X w req s = (out, s')"
  shows "(out = ok_h None \<and> restored (ck_type K) name (ch_detail h) (unix_milli (w_now w))
      (tabs (m_db (s_mgr s))) (tabs (m_db (s_mgr s')))) \<or>
    (out = internalError \<and> tabs (m_db (s_mgr s')) = tabs (m_db (s_mgr s)))"
proof -
  let ?t = "tabs (m_db (s_mgr s))"
  let ?done = "restored (ck_type K) name (ch_detail h) (unix_milli (w_now w)) ?t"
  let ?G = "\<lambda>out s'. (out = ok_h None \<and> ?done (tabs (m_db (s_mgr s')))) \<or>
      (out = internalError \<and> tabs (m_db (s_mgr s')) = ?t)"
  let ?rest = "\<lambda>entry. bindh (rollback_of X w (ck_type K) name entry) (\<lambda>oldDetail.
      bindh (record_change X w req 200 ''rollback'' (ck_type K) name (unix_milli (w_now w)) oldDetail
               (''to_history_id='' @ show_nat i @ newline @ ch_detail entry)) (\<lambda>_. reth (ok_h None)))"
  have rest: "run (?rest h) s1 ?G ?G" if s1: "coh A (s_mgr s1)" "tabs (m_db (s_mgr s1)) = ?t" for s1
    unfolding of_kind run_bindh
  proof (rule run_rollback_config [OF K s1(1)])
    show "cf_name c = name" if "config_at (ck_type K) (tabs (m_db (s_mgr s1))) name = Some c" for c
      using config_at_name that .
    fix x and s2 :: "('d, 'f, 'r) adm" assume "restored (ck_type K) name (ch_detail h) (unix_milli (w_now w))
        (tabs (m_db (s_mgr s1))) (tabs (m_db (s_mgr s2)))"
    with s1(2) have r2: "?done (tabs (m_db (s_mgr s2)))" by simp
    have "?G (ok_h None) s3" if "kind_step tabs (ck_type K) P s2 s3" for P s3
      using restored_step [where tabs = tabs, OF r2 that] by simp
    then show "run (record_change X w req 200 ''rollback'' (ck_type K) name (unix_milli (w_now w)) x
        (''to_history_id='' @ show_nat i @ newline @ ch_detail h)) s2 (\<lambda>_ s3. run (reth (ok_h None)) s3 ?G ?G) ?G"
      by (intro run_record_change) (simp only: run_reth)
  qed (simp add: s1(2))
  have read: "run (need (\<lambda>_. internalError) (GetConfigHistoryByID_m X i)) s
      (\<lambda>x s1. x = h \<and> coh A (s_mgr s1) \<and> tabs (m_db (s_mgr s1)) = ?t) ?G"
    unfolding GetConfigHistoryByID_m_def GetConfigHistoryByID_def
  proof (rule run_read [OF assms(2) keeps_reads(2)])
    fix x and m :: "('d, 'f, 'r) mgr" assume std: "std A (s_mgr s) m"
    assume "first_as (gorm X) as_history (\<lambda>h. ch_id h = i) (m_db (s_mgr s)) = (Inr x, m_db m)"
    from first_as_ok [OF projects_table(9) this] have "history_at ?t i = Some x"
      by (simp add: row_at_tabs [OF projects_table(9)])
    with entry(2) have "x = h" by simp
    with std show "x = h \<and> coh A (s_mgr (s\<lparr>s_mgr := m\<rparr>)) \<and> tabs (m_db (s_mgr (s\<lparr>s_mgr := m\<rparr>))) = ?t"
      by (simp add: steady_def)
  qed (simp add: steady_def)
  have "run (bindh (present (badRequest ''invalid id'') (parse_uint (rq_vars req ''id''))) (\<lambda>i.
      bindh (need (\<lambda>_. internalError) (GetConfigHistoryByID_m X i)) (\<lambda>entry.
      bindh (stop_if (ch_resource_type entry \<noteq> ck_type K \<or> ch_resource_name entry \<noteq> name) notFound) (\<lambda>_.
      bindh (stop_if (ch_detail entry = []) (badRequest ''cannot rollback to a deleted version'')) (\<lambda>_.
      bindh (rollback_of X w (ck_type K) name entry) (\<lambda>oldDetail.
      bindh (record_change X w req 200 ''rollback'' (ck_type K) name (unix_milli (w_now w)) oldDetail
               (''to_history_id='' @ show_nat i @ newline @ ch_detail entry)) (\<lambda>_.
      reth (ok_h None)))))))) s ?G ?G"
    unfolding run_bindh run_present entry(1) option.case
    by (rule run_mono [OF read]) (use rest entry(3-5) in \<open>auto simp: run_stop_if run_bindh\<close>)
  from finish_run [OF r [unfolded RollbackConfig_h_def Let_def path] this] show ?thesis .
qed

end

subsection \<open>The property\<close>

text \<open>
  C8. A change of a configuration can be undone. When a pipeline or instance configuration is
  deleted or updated through the API, every history entry the request adds holds the content
  from before the change, under the name of the user. A rollback to such an entry, in any later
  state, either answers with success, and then the configuration has that content again, under
  a version of the time of the rollback, and no other configuration of the kind has changed; or
  it answers with an internal error and nothing has changed. (A rollback to an empty content is
  refused.)
\<close>

theorem rollback_undoes_change:
  assumes X: "services_ok X tabs view"
    and kind: "K = pipeline_kind X \<or> K = instance_kind X"
    and start: "coherent tabs view A (s_mgr s)"
    and there: "config_at (ck_type K) (tables_of tabs s) name = Some c" "cf_detail c \<noteq> []"
    and change: "delete_config X w K req s = (out, s1) \<or> update_config X w K req s = (out, s1)"
      "rq_vars req ''name'' = name"
    and entry: "history_at (tables_of tabs s1) i = Some h" "history_at (tables_of tabs s) i = None"
    and later: "coherent tabs view B (s_mgr s2)" "history_at (tables_of tabs s2) i = Some h"
    and rollback: "RollbackConfig_h X w' req' s2 = (out', s3)" "rq_vars req' ''type'' = ck_type K"
      "rq_vars req' ''name'' = name" "parse_uint (rq_vars req' ''id'') = Some i"
  shows "ch_detail h = cf_detail c \<and> ch_changed_by h = uc_name (user_of req) \<and>
    ((out' = ok_h None \<and>
      (\<exists>c'. config_at (ck_type K) (tables_of tabs s3) name = Some c' \<and>
        cf_detail c' = cf_detail c \<and> cf_version c' = unix_milli (w_now w')) \<and>
      (\<forall>n. n \<noteq> name \<longrightarrow> config_at (ck_type K) (tables_of tabs s3) n = config_at (ck_type K) (tables_of tabs s2) n)) \<or>
     (out' = internalError \<and> tables_of tabs s3 = tables_of tabs s2))"
proof -
  have M: "cached_manager X tabs view" using X by (simp add: cached_manager_services)
  note K = cached_manager.kinds_contract [OF M kind]
  have named: "config_at ct (tables_of tabs s') n = Some c' \<Longrightarrow> cf_name c' = n" for ct s' n c'
    using cached_manager.config_at_name [OF M] .
  have "\<exists>action. history_grows (entry_of (ck_type K) name action (cf_detail c) (uc_name (user_of req)))
      (tables_of tabs s) (tables_of tabs s1)"
    using change(1)
  proof
    assume "delete_config X w K req s = (out, s1)"
    with cached_manager.delete_recorded [OF M K start] there change(2) show ?thesis by blast
  next
    assume "update_config X w K req s = (out, s1)"
    with cached_manager.update_recorded [OF M K start] there change(2) named show ?thesis by blast
  qed
  with entry obtain action where "entry_of (ck_type K) name action (cf_detail c) (uc_name (user_of req)) h"
    unfolding history_grows_def by blast
  then have h: "ch_resource_type h = ck_type K" "ch_resource_name h = name" "ch_detail h = cf_detail c"
    "ch_changed_by h = uc_name (user_of req)" by (simp_all add: entry_of_def)
  have of_kind: "rollback_of X w' (ck_type K) name h = rollback_config w' K name h" for h
    using kind by (auto simp: rollback_of_def pipeline_kind_def instance_kind_def)
  from cached_manager.rollback_restored [OF M K later(1) of_kind rollback(4) later(2) h(1,2) _ rollback(2,3,1)]
    there(2) h show ?thesis by (simp add: restored_def)
qed


text \<open>A pipeline is deleted, and restored from the recycle bin.\<close>

definition undo_state :: "(memdb, memcache, unit) adm" where
  "undo_state = sample_state\<lparr>s_mgr := New sample_db [] [] None (300 * second) 0 False\<rparr>"

definition undo_request :: hreq where
  "undo_request =
     (sample_request ''POST'' [] Map.empty [] [])\<lparr>
       rq_vars := \<lambda>k. if k = ''type'' then ''pipeline'' else if k = ''name'' then ''p1'' else ''2'',
       rq_user := Some \<lparr>uc_name = ''bob'', uc_admin = False\<rparr>\<rparr>"

definition undo_delete :: "outcome \<times> (memdb, memcache, unit) adm" where
  "undo_delete = delete_config mem_services sample_world (pipeline_kind mem_services) undo_request undo_state"

definition undo_rollback :: "outcome \<times> (memdb, memcache, unit) adm" where
  "undo_rollback = RollbackConfig_h mem_services sample_world undo_request (snd undo_delete)"

lemma parse_two: "parse_uint ''2'' = Some 2"
  by (simp add: parse_uint_def is_digit_def dec_val_def digit_val_def)

lemma undo_vars:
  "rq_vars undo_request ''type'' = ''pipeline''" "rq_vars undo_request ''name'' = ''p1''"
  "rq_vars undo_request ''id'' = ''2''"
  by (simp_all add: undo_request_def)

lemma undo_id: "bindh (present out (parse_uint ''2'')) f = f 2"
  by (simp add: parse_two present_def fun_eq_iff bindh_def reth_def)

lemma undo_rollback_ok: "fst undo_rollback = ok_h None"
  unfolding undo_rollback_def RollbackConfig_h_def undo_vars undo_id Let_def by code_simp

lemma undo_entry: "history_at (tables_of mem_tabs (snd undo_delete)) 2 = Some
    \<lparr>ch_id = 2, ch_resource_type = ''pipeline'', ch_resource_name = ''p1'', ch_version = 0, ch_action = ''delete'',
     ch_detail = ''a: 1'', ch_changed_by = ''bob'', ch_changed_at = 10\<rparr>"
  by code_simp

lemma undo_coherent:
  "coherent mem_tabs map_of {} (s_mgr undo_state)" "coherent mem_tabs map_of {} (s_mgr (snd undo_delete))"
proof -
  have "m_rdb (s_mgr (snd undo_delete)) = None \<and> m_l1 (s_mgr (snd undo_delete)) = [] \<and>
      m_resolve (s_mgr (snd undo_delete)) = []" by code_simp
  then show "coherent mem_tabs map_of {} (s_mgr (snd undo_delete))" by (simp add: coherent_def)
  show "coherent mem_tabs map_of {} (s_mgr undo_state)" by (simp add: coherent_def undo_state_def New_def)
qed

theorem rollback_undoes_change_witness:
  "fst undo_delete = ok_h None \<and> config_at ''pipeline'' (tables_of mem_tabs (snd undo_delete)) ''p1'' = None \<and>
   fst undo_rollback = ok_h None \<and>
   (\<exists>c. config_at ''pipeline'' (tables_of mem_tabs (snd undo_rollback)) ''p1'' = Some c \<and> cf_detail c = ''a: 1'')"
proof -
  let ?K = "pipeline_kind mem_services"
  have gone: "fst undo_delete = ok_h None" "config_at ''pipeline'' (tables_of mem_tabs (snd undo_delete)) ''p1'' = None"
    by code_simp+
  have before: "config_at (ck_type ?K) (tables_of mem_tabs undo_state) ''p1'' =
      Some \<lparr>cf_name = ''p1'', cf_version = 7, cf_detail = ''a: 1'', cf_created = 1, cf_updated = 1\<rparr>"
    "history_at (tables_of mem_tabs undo_state) 2 = None" by code_simp+
  have changed: "delete_config mem_services sample_world ?K undo_request undo_state = (fst undo_delete, snd undo_delete) \<or>
      update_config mem_services sample_world ?K undo_request undo_state = (fst undo_delete, snd undo_delete)"
    by (simp add: undo_delete_def)
  have rolled: "RollbackConfig_h mem_services sample_world undo_request (snd undo_delete) = (fst undo_rollback, snd undo_rollback)"
    by (simp add: undo_rollback_def)
  have ty: "ck_type ?K = ''pipeline''" by (simp add: pipeline_kind_def)
  have entry: "parse_uint (rq_vars undo_request ''id'') = Some 2" using parse_two by (simp add: undo_vars)
  from rollback_undoes_change [OF mem_services_ok disjI1 [OF refl] undo_coherent(1) before(1) _ changed undo_vars(2)
      undo_entry before(2) undo_coherent(2) undo_entry rolled _ undo_vars(2) entry] undo_rollback_ok gone undo_vars(1)
  show ?thesis by (auto simp: ty internalError_def ok_h_def writeJSON_def)
qed

end
