(* ===== verification/Server_Config.thy ===== *)
theory Server_Config
  imports Go_Time Json
begin

section \<open>Configuration of the server\<close>

text \<open>
  \<open>internal/config/config.go\<close>: the settings and their three sources, built-in defaults, a YAML
  file and environment variables. \<open>os.LookupEnv\<close> and \<open>os.ReadFile\<close> are inputs; the decoder
  \<open>yaml.v3\<close> and the parts of a URL that \<open>url.Parse\<close> returns are parameters. The log lines are
  left out, and \<open>log.Fatalf\<close> is the error result of \<open>Load\<close>, whose message leaves out the path.
\<close>

subsection \<open>The settings\<close>

record SMTPConfig =
  sm_Host :: string
  sm_Port :: int
  sm_Username :: string
  sm_Password :: string
  sm_From :: string
  sm_TLS :: bool
  sm_PublicURL :: string

record Config =
  cg_DBDriver :: string
  cg_DBDSN :: string
  cg_DBPoolMaxOpenConns :: int
  cg_DBPoolMaxIdleConns :: int
  cg_DBPoolConnMaxLifetime :: int
  cg_DBPoolConnMaxIdleTime :: int
  cg_RedisAddrs :: "string list"
  cg_RedisPassword :: string
  cg_RedisDB :: int
  cg_RedisHFE :: bool
  cg_L1MaxSizeMB :: int
  cg_L1TTL :: int
  cg_L2TTL :: int
  cg_AgentHost :: string
  cg_AgentPort :: int
  cg_AdminHost :: string
  cg_AdminPort :: int
  cg_MetricsPushURL :: string
  cg_MetricsPushUsername :: string
  cg_MetricsPushPassword :: string
  cg_MetricsPushInterval :: int
  cg_MetricsOnlineWindow :: int
  cg_SMTP :: SMTPConfig

text \<open>The decoded file, its nested structs flattened; a key that is missing leaves the zero value.\<close>

record yamlFile =
  yf_database_driver :: string
  yf_database_dsn :: string
  yf_pool_max_open_conns :: int
  yf_pool_max_idle_conns :: int
  yf_pool_conn_max_lifetime :: int
  yf_pool_conn_max_idle_time :: int
  yf_redis_addrs :: "string list"
  yf_redis_addr :: string
  yf_redis_password :: string
  yf_redis_db :: int
  yf_redis_hfe :: bool
  yf_cache_l1_max_size_mb :: int
  yf_cache_l1_ttl :: string
  yf_cache_l2_ttl :: string
  yf_agent_server_host :: string
  yf_agent_server_port :: int
  yf_admin_server_host :: string
  yf_admin_server_port :: int
  yf_metrics_push_url :: string
  yf_metrics_push_username :: string
  yf_metrics_push_password :: string
  yf_metrics_push_interval :: string
  yf_metrics_online_window :: string
  yf_smtp_host :: string
  yf_smtp_port :: int
  yf_smtp_username :: string
  yf_smtp_password :: string
  yf_smtp_from :: string
  yf_smtp_tls :: bool
  yf_smtp_public_url :: string

record url_parts =
  url_Scheme :: string
  url_Host :: string
  url_Path :: string

record startup =
  su_env :: "string \<rightharpoonup> string"
  su_file :: "string \<Rightarrow> err + bytes"
  su_yaml :: "bytes \<Rightarrow> err + yamlFile"
  su_url :: "string \<rightharpoonup> url_parts"

definition configDefaults :: Config where
  "configDefaults =
     \<lparr>cg_DBDriver = ''sqlite'', cg_DBDSN = ''configserver.db'', cg_DBPoolMaxOpenConns = 25,
      cg_DBPoolMaxIdleConns = 10, cg_DBPoolConnMaxLifetime = 3600 * second,
      cg_DBPoolConnMaxIdleTime = 600 * second, cg_RedisAddrs = [], cg_RedisPassword = [], cg_RedisDB = 0,
      cg_RedisHFE = False, cg_L1MaxSizeMB = 100, cg_L1TTL = 5 * minute, cg_L2TTL = 30 * 24 * hour,
      cg_AgentHost = ''0.0.0.0'', cg_AgentPort = 8080, cg_AdminHost = ''0.0.0.0'', cg_AdminPort = 8081,
      cg_MetricsPushURL = [], cg_MetricsPushUsername = [], cg_MetricsPushPassword = [],
      cg_MetricsPushInterval = 30 * second, cg_MetricsOnlineWindow = 5 * minute,
      cg_SMTP = \<lparr>sm_Host = [], sm_Port = 587, sm_Username = [], sm_Password = [], sm_From = [],
        sm_TLS = False, sm_PublicURL = []\<rparr>\<rparr>"

definition splitAddrs :: "string \<Rightarrow> string list" where
  "splitAddrs s = filter (\<lambda>t. t \<noteq> []) (map trim_space (split s '',''))"

subsection \<open>The file\<close>

text \<open>\<open>if v := ...; v != zero { dest = v }\<close>, and the closure \<open>parseDur\<close>.\<close>

definition non_empty :: "'a list \<Rightarrow> 'a list \<Rightarrow> 'a list" where
  "non_empty v old = (if v \<noteq> [] then v else old)"

definition non_zero :: "int \<Rightarrow> int \<Rightarrow> int" where
  "non_zero v old = (if v \<noteq> 0 then v else old)"

definition parseDur :: "string \<Rightarrow> int \<Rightarrow> int" where
  "parseDur s fallback =
     (if s = [] then fallback else case parse_duration s of None \<Rightarrow> fallback | Some d \<Rightarrow> d)"

text \<open>\<open>time.Duration(v) * time.Second\<close> wraps around.\<close>

definition seconds :: "int \<Rightarrow> int" where
  "seconds n = wrap64 (n * second)"

definition merge_file :: "yamlFile \<Rightarrow> Config \<Rightarrow> Config" where
  "merge_file yf c =
     c\<lparr>cg_DBDriver := non_empty (yf_database_driver yf) (cg_DBDriver c),
       cg_DBDSN := non_empty (yf_database_dsn yf) (cg_DBDSN c),
       cg_DBPoolMaxOpenConns := non_zero (yf_pool_max_open_conns yf) (cg_DBPoolMaxOpenConns c),
       cg_DBPoolMaxIdleConns := non_zero (yf_pool_max_idle_conns yf) (cg_DBPoolMaxIdleConns c),
       cg_DBPoolConnMaxLifetime :=
         (if yf_pool_conn_max_lifetime yf \<noteq> 0 then seconds (yf_pool_conn_max_lifetime yf)
          else cg_DBPoolConnMaxLifetime c),
       cg_DBPoolConnMaxIdleTime :=
         (if yf_pool_conn_max_idle_time yf \<noteq> 0 then seconds (yf_pool_conn_max_idle_time yf)
          else cg_DBPoolConnMaxIdleTime c),
       cg_RedisAddrs :=
         (if yf_redis_addrs yf \<noteq> [] then yf_redis_addrs yf
          else if yf_redis_addr yf \<noteq> [] then splitAddrs (yf_redis_addr yf)
          else cg_RedisAddrs c),
       cg_RedisPassword := yf_redis_password yf,
       cg_RedisDB := non_zero (yf_redis_db yf) (cg_RedisDB c),
       cg_RedisHFE := (if yf_redis_hfe yf then True else cg_RedisHFE c),
       cg_L1MaxSizeMB := non_zero (yf_cache_l1_max_size_mb yf) (cg_L1MaxSizeMB c),
       cg_L1TTL := parseDur (yf_cache_l1_ttl yf) (cg_L1TTL c),
       cg_L2TTL := parseDur (yf_cache_l2_ttl yf) (cg_L2TTL c),
       cg_AgentHost := non_empty (yf_agent_server_host yf) (cg_AgentHost c),
       cg_AgentPort := non_zero (yf_agent_server_port yf) (cg_AgentPort c),
       cg_AdminHost := non_empty (yf_admin_server_host yf) (cg_AdminHost c),
       cg_AdminPort := non_zero (yf_admin_server_port yf) (cg_AdminPort c),
       cg_MetricsPushURL := non_empty (yf_metrics_push_url yf) (cg_MetricsPushURL c),
       cg_MetricsPushUsername := yf_metrics_push_username yf,
       cg_MetricsPushPassword := yf_metrics_push_password yf,
       cg_MetricsPushInterval := parseDur (yf_metrics_push_interval yf) (cg_MetricsPushInterval c),
       cg_MetricsOnlineWindow := parseDur (yf_metrics_online_window yf) (cg_MetricsOnlineWindow c),
       cg_SMTP := (cg_SMTP c)
         \<lparr>sm_Host := non_empty (yf_smtp_host yf) (sm_Host (cg_SMTP c)),
          sm_Port := non_zero (yf_smtp_port yf) (sm_Port (cg_SMTP c)),
          sm_Username := yf_smtp_username yf,
          sm_Password := yf_smtp_password yf,
          sm_From := non_empty (yf_smtp_from yf) (sm_From (cg_SMTP c)),
          sm_TLS := (if yf_smtp_tls yf then True else sm_TLS (cg_SMTP c)),
          sm_PublicURL := non_empty (yf_smtp_public_url yf) (sm_PublicURL (cg_SMTP c))\<rparr>\<rparr>"

definition applyFile :: "startup \<Rightarrow> Config \<Rightarrow> string \<Rightarrow> err + Config" where
  "applyFile P c path =
     (case su_file P path of
        Inl e \<Rightarrow> Inl (ErrWrap ''read'' e)
      | Inr data \<Rightarrow>
          (case su_yaml P data of
             Inl e \<Rightarrow> Inl (ErrWrap ''parse yaml'' e)
           | Inr yf \<Rightarrow> Inr (merge_file yf c)))"

subsection \<open>The environment\<close>

definition setStr :: "(string \<rightharpoonup> string) \<Rightarrow> string \<Rightarrow> string \<Rightarrow> string" where
  "setStr env key dest = (case env key of None \<Rightarrow> dest | Some v \<Rightarrow> v)"

definition setInt :: "(string \<rightharpoonup> string) \<Rightarrow> string \<Rightarrow> int \<Rightarrow> int" where
  "setInt env key dest =
     (case env key of
        None \<Rightarrow> dest
      | Some v \<Rightarrow> if v = [] then dest else case atoi v of (n, None) \<Rightarrow> n | (_, Some _) \<Rightarrow> dest)"

definition setDur :: "(string \<rightharpoonup> string) \<Rightarrow> string \<Rightarrow> int \<Rightarrow> int" where
  "setDur env key dest =
     (case env key of
        None \<Rightarrow> dest
      | Some v \<Rightarrow> if v = [] then dest else case parse_duration v of None \<Rightarrow> dest | Some d \<Rightarrow> d)"

definition setIntDur :: "(string \<rightharpoonup> string) \<Rightarrow> string \<Rightarrow> int \<Rightarrow> int" where
  "setIntDur env key dest =
     (case env key of
        None \<Rightarrow> dest
      | Some v \<Rightarrow> if v = [] then dest else case atoi v of (n, None) \<Rightarrow> seconds n | (_, Some _) \<Rightarrow> dest)"

definition env_addrs :: "(string \<rightharpoonup> string) \<Rightarrow> string list \<Rightarrow> string list" where
  "env_addrs env dest =
     (let legacy = (case env ''CONFIGSERVER_REDIS_ADDR'' of
                      None \<Rightarrow> dest
                    | Some v \<Rightarrow> if v \<noteq> [] then splitAddrs v else [])
      in case env ''CONFIGSERVER_REDIS_ADDRS'' of
           None \<Rightarrow> legacy
         | Some v \<Rightarrow> if v \<noteq> [] then splitAddrs v else legacy)"

definition applyEnv :: "(string \<rightharpoonup> string) \<Rightarrow> Config \<Rightarrow> Config" where
  "applyEnv env c =
     c\<lparr>cg_DBDriver := setStr env ''CONFIGSERVER_DB_DRIVER'' (cg_DBDriver c),
       cg_DBDSN := setStr env ''CONFIGSERVER_DB_DSN'' (cg_DBDSN c),
       cg_DBPoolMaxOpenConns := setInt env ''CONFIGSERVER_DB_POOL_MAX_OPEN_CONNS'' (cg_DBPoolMaxOpenConns c),
       cg_DBPoolMaxIdleConns := setInt env ''CONFIGSERVER_DB_POOL_MAX_IDLE_CONNS'' (cg_DBPoolMaxIdleConns c),
       cg_DBPoolConnMaxLifetime :=
         setIntDur env ''CONFIGSERVER_DB_POOL_CONN_MAX_LIFETIME'' (cg_DBPoolConnMaxLifetime c),
       cg_DBPoolConnMaxIdleTime :=
         setIntDur env ''CONFIGSERVER_DB_POOL_CONN_MAX_IDLE_TIME'' (cg_DBPoolConnMaxIdleTime c),
       cg_RedisAddrs := env_addrs env (cg_RedisAddrs c),
       cg_RedisPassword := setStr env ''CONFIGSERVER_REDIS_PASSWORD'' (cg_RedisPassword c),
       cg_RedisDB := setInt env ''CONFIGSERVER_REDIS_DB'' (cg_RedisDB c),
       cg_RedisHFE := (if env ''CONFIGSERVER_REDIS_HFE'' \<noteq> None then True else cg_RedisHFE c),
       cg_L1MaxSizeMB := setInt env ''CONFIGSERVER_L1_MAX_SIZE_MB'' (cg_L1MaxSizeMB c),
       cg_L1TTL := setDur env ''CONFIGSERVER_L1_TTL'' (cg_L1TTL c),
       cg_L2TTL := setDur env ''CONFIGSERVER_L2_TTL'' (cg_L2TTL c),
       cg_AgentHost := setStr env ''CONFIGSERVER_AGENT_HOST'' (cg_AgentHost c),
       cg_AgentPort := setInt env ''CONFIGSERVER_AGENT_PORT'' (cg_AgentPort c),
       cg_AdminHost := setStr env ''CONFIGSERVER_ADMIN_HOST'' (cg_AdminHost c),
       cg_AdminPort := setInt env ''CONFIGSERVER_ADMIN_PORT'' (cg_AdminPort c),
       cg_MetricsPushURL := setStr env ''CONFIGSERVER_METRICS_PUSH_URL'' (cg_MetricsPushURL c),
       cg_MetricsPushUsername := setStr env ''CONFIGSERVER_METRICS_PUSH_USERNAME'' (cg_MetricsPushUsername c),
       cg_MetricsPushPassword := setStr env ''CONFIGSERVER_METRICS_PUSH_PASSWORD'' (cg_MetricsPushPassword c),
       cg_MetricsPushInterval := setDur env ''CONFIGSERVER_METRICS_PUSH_INTERVAL'' (cg_MetricsPushInterval c),
       cg_MetricsOnlineWindow := setDur env ''CONFIGSERVER_METRICS_ONLINE_WINDOW'' (cg_MetricsOnlineWindow c),
       cg_SMTP := (cg_SMTP c)
         \<lparr>sm_Host := setStr env ''CONFIGSERVER_SMTP_HOST'' (sm_Host (cg_SMTP c)),
          sm_Port := setInt env ''CONFIGSERVER_SMTP_PORT'' (sm_Port (cg_SMTP c)),
          sm_Username := setStr env ''CONFIGSERVER_SMTP_USERNAME'' (sm_Username (cg_SMTP c)),
          sm_Password := setStr env ''CONFIGSERVER_SMTP_PASSWORD'' (sm_Password (cg_SMTP c)),
          sm_From := setStr env ''CONFIGSERVER_SMTP_FROM'' (sm_From (cg_SMTP c)),
          sm_TLS := (if env ''CONFIGSERVER_SMTP_TLS'' \<noteq> None then True else sm_TLS (cg_SMTP c)),
          sm_PublicURL := setStr env ''CONFIGSERVER_SMTP_PUBLIC_URL'' (sm_PublicURL (cg_SMTP c))\<rparr>\<rparr>"

subsection \<open>Checks and addresses\<close>

definition RedisEnabled :: "Config \<Rightarrow> bool" where
  "RedisEnabled c \<longleftrightarrow> length (cg_RedisAddrs c) > 0"

definition RedisCluster :: "Config \<Rightarrow> bool" where
  "RedisCluster c \<longleftrightarrow> length (cg_RedisAddrs c) > 1"

text \<open>\<open>strings.TrimRight(s, "/")\<close>.\<close>

definition trim_right_slashes :: "string \<Rightarrow> string" where
  "trim_right_slashes s = rev (dropWhile (\<lambda>c. c = CHR ''/'') (rev s))"

definition ValidateMetrics :: "startup \<Rightarrow> Config \<Rightarrow> err option" where
  "ValidateMetrics P c =
     (if cg_MetricsPushURL c = [] then None
      else
        case su_url P (cg_MetricsPushURL c) of
          None \<Rightarrow>
            Some (ErrMsg ''metrics.push_url must be a valid Prometheus Remote Write URL ending with /api/v1/write'')
        | Some u \<Rightarrow>
            if url_Scheme u = [] \<or> url_Host u = [] then
              Some (ErrMsg ''metrics.push_url must be a valid Prometheus Remote Write URL ending with /api/v1/write'')
            else if url_Scheme u \<noteq> ''http'' \<and> url_Scheme u \<noteq> ''https'' then
              Some (ErrMsg ''metrics.push_url only supports http/https Prometheus Remote Write URLs'')
            else if \<not> suffix ''/api/v1/write'' (trim_right_slashes (url_Path u)) then
              Some (ErrMsg (''metrics.push_url only supports Prometheus Remote Write endpoints, for example '' @
                ''http://vmagent:8429/api/v1/write''))
            else None)"

definition AgentAddr :: "Config \<Rightarrow> string" where
  "AgentAddr c = cg_AgentHost c @ '':'' @ itoa (cg_AgentPort c)"

definition AdminAddr :: "Config \<Rightarrow> string" where
  "AdminAddr c = cg_AdminHost c @ '':'' @ itoa (cg_AdminPort c)"

text \<open>\<open>q\<close> is the verb \<open>%q\<close>.\<close>

definition ValidateDistributed :: "(string \<Rightarrow> string) \<Rightarrow> Config \<Rightarrow> err option" where
  "ValidateDistributed q c =
     (if cg_DBDriver c \<notin> {''mysql'', ''postgres'', ''postgresql''} then
        Some (ErrMsg (''distributed mode requires database.driver=mysql or postgres (got '' @
          q (cg_DBDriver c) @ '')''))
      else if cg_RedisAddrs c = [] then
        Some (ErrMsg ''distributed mode requires redis.addr (or redis.addrs) to be set'')
      else None)"

subsection \<open>Load\<close>

definition Load :: "startup \<Rightarrow> string \<Rightarrow> err + Config" where
  "Load P file =
     (let from_file = (if file \<noteq> [] then applyFile P configDefaults file else Inr configDefaults)
      in case from_file of
           Inl e \<Rightarrow> Inl (ErrWrap ''config file'' e)
         | Inr c0 \<Rightarrow>
             let c = applyEnv (su_env P) c0
             in case ValidateMetrics P c of
                  Some e \<Rightarrow> Inl (ErrWrap ''config validation'' e)
                | None \<Rightarrow> Inr c)"

subsection \<open>What a setting is\<close>

text \<open>
  The documented rule: each setting is the first of its sources that gives a value, the
  environment, then the file, then the default. What counts as a value differs by kind: a text
  variable gives one even when it is empty, a number or a duration only if it is well formed,
  a flag as soon as the variable exists, whatever it says; in the file the zero value gives none.
\<close>

fun pick :: "'a option list \<Rightarrow> 'a \<Rightarrow> 'a" where
  "pick [] d = d"
| "pick (None # layers) d = pick layers d"
| "pick (Some v # layers) d = v"

definition number_in :: "(string \<rightharpoonup> string) \<Rightarrow> string \<Rightarrow> int option" where
  "number_in env key = Option.bind (env key) (\<lambda>v. if snd (atoi v) = None then Some (fst (atoi v)) else None)"

definition duration_in :: "(string \<rightharpoonup> string) \<Rightarrow> string \<Rightarrow> int option" where
  "duration_in env key = Option.bind (env key) parse_duration"

definition addrs_in :: "(string \<rightharpoonup> string) \<Rightarrow> string list option" where
  "addrs_in env =
     (if env ''CONFIGSERVER_REDIS_ADDRS'' \<in> {None, Some []}
      then map_option splitAddrs (env ''CONFIGSERVER_REDIS_ADDR'')
      else map_option splitAddrs (env ''CONFIGSERVER_REDIS_ADDRS''))"

definition some_text :: "'a list \<Rightarrow> 'a list option" where
  "some_text v = (if v = [] then None else Some v)"

definition some_number :: "int \<Rightarrow> int option" where
  "some_number v = (if v = 0 then None else Some v)"

definition configured :: "(string \<rightharpoonup> string) \<Rightarrow> yamlFile \<Rightarrow> Config" where
  "configured env yf =
     \<lparr>cg_DBDriver = pick [env ''CONFIGSERVER_DB_DRIVER'', some_text (yf_database_driver yf)] ''sqlite'',
      cg_DBDSN = pick [env ''CONFIGSERVER_DB_DSN'', some_text (yf_database_dsn yf)] ''configserver.db'',
      cg_DBPoolMaxOpenConns =
        pick [number_in env ''CONFIGSERVER_DB_POOL_MAX_OPEN_CONNS'', some_number (yf_pool_max_open_conns yf)] 25,
      cg_DBPoolMaxIdleConns =
        pick [number_in env ''CONFIGSERVER_DB_POOL_MAX_IDLE_CONNS'', some_number (yf_pool_max_idle_conns yf)] 10,
      cg_DBPoolConnMaxLifetime =
        pick [map_option seconds (number_in env ''CONFIGSERVER_DB_POOL_CONN_MAX_LIFETIME''),
              map_option seconds (some_number (yf_pool_conn_max_lifetime yf))] (3600 * second),
      cg_DBPoolConnMaxIdleTime =
        pick [map_option seconds (number_in env ''CONFIGSERVER_DB_POOL_CONN_MAX_IDLE_TIME''),
              map_option seconds (some_number (yf_pool_conn_max_idle_time yf))] (600 * second),
      cg_RedisAddrs =
        pick [addrs_in env, some_text (yf_redis_addrs yf), map_option splitAddrs (some_text (yf_redis_addr yf))] [],
      cg_RedisPassword = pick [env ''CONFIGSERVER_REDIS_PASSWORD''] (yf_redis_password yf),
      cg_RedisDB = pick [number_in env ''CONFIGSERVER_REDIS_DB'', some_number (yf_redis_db yf)] 0,
      cg_RedisHFE = (env ''CONFIGSERVER_REDIS_HFE'' \<noteq> None \<or> yf_redis_hfe yf),
      cg_L1MaxSizeMB = pick [number_in env ''CONFIGSERVER_L1_MAX_SIZE_MB'', some_number (yf_cache_l1_max_size_mb yf)] 100,
      cg_L1TTL = pick [duration_in env ''CONFIGSERVER_L1_TTL'', parse_duration (yf_cache_l1_ttl yf)] (300 * second),
      cg_L2TTL = pick [duration_in env ''CONFIGSERVER_L2_TTL'', parse_duration (yf_cache_l2_ttl yf)] (2592000 * second),
      cg_AgentHost = pick [env ''CONFIGSERVER_AGENT_HOST'', some_text (yf_agent_server_host yf)] ''0.0.0.0'',
      cg_AgentPort = pick [number_in env ''CONFIGSERVER_AGENT_PORT'', some_number (yf_agent_server_port yf)] 8080,
      cg_AdminHost = pick [env ''CONFIGSERVER_ADMIN_HOST'', some_text (yf_admin_server_host yf)] ''0.0.0.0'',
      cg_AdminPort = pick [number_in env ''CONFIGSERVER_ADMIN_PORT'', some_number (yf_admin_server_port yf)] 8081,
      cg_MetricsPushURL = pick [env ''CONFIGSERVER_METRICS_PUSH_URL'', some_text (yf_metrics_push_url yf)] [],
      cg_MetricsPushUsername = pick [env ''CONFIGSERVER_METRICS_PUSH_USERNAME''] (yf_metrics_push_username yf),
      cg_MetricsPushPassword = pick [env ''CONFIGSERVER_METRICS_PUSH_PASSWORD''] (yf_metrics_push_password yf),
      cg_MetricsPushInterval =
        pick [duration_in env ''CONFIGSERVER_METRICS_PUSH_INTERVAL'', parse_duration (yf_metrics_push_interval yf)]
          (30 * second),
      cg_MetricsOnlineWindow =
        pick [duration_in env ''CONFIGSERVER_METRICS_ONLINE_WINDOW'', parse_duration (yf_metrics_online_window yf)]
          (300 * second),
      cg_SMTP =
        \<lparr>sm_Host = pick [env ''CONFIGSERVER_SMTP_HOST'', some_text (yf_smtp_host yf)] [],
         sm_Port = pick [number_in env ''CONFIGSERVER_SMTP_PORT'', some_number (yf_smtp_port yf)] 587,
         sm_Username = pick [env ''CONFIGSERVER_SMTP_USERNAME''] (yf_smtp_username yf),
         sm_Password = pick [env ''CONFIGSERVER_SMTP_PASSWORD''] (yf_smtp_password yf),
         sm_From = pick [env ''CONFIGSERVER_SMTP_FROM'', some_text (yf_smtp_from yf)] [],
         sm_TLS = (env ''CONFIGSERVER_SMTP_TLS'' \<noteq> None \<or> yf_smtp_tls yf),
         sm_PublicURL = pick [env ''CONFIGSERVER_SMTP_PUBLIC_URL'', some_text (yf_smtp_public_url yf)] []\<rparr>\<rparr>"

text \<open>Each update is one layer.\<close>

named_theorems layering

lemma nothing_given: "parse_duration [] = None" "splitAddrs [] = []" "snd (atoi []) \<noteq> None"
  by (simp_all add: parse_duration_def splitAddrs_def split_def atoi_def)

lemma env_layers [layering]:
  "setStr env k d = pick [env k] d"
  "setInt env k n = pick [number_in env k] n"
  "setDur env k n = pick [duration_in env k] n"
  "setIntDur env k n = pick [map_option seconds (number_in env k)] n"
  "env_addrs env l = pick [addrs_in env] l"
  using nothing_given
  by (auto simp: setStr_def setInt_def setDur_def setIntDur_def env_addrs_def number_in_def duration_in_def
      addrs_in_def split_beta Let_def split: option.split)

lemma file_layers [layering]:
  "non_empty v d = pick [some_text v] d"
  "non_zero n i = pick [some_number n] i"
  "parseDur v i = pick [parse_duration v] i"
  using nothing_given
  by (auto simp: non_empty_def non_zero_def parseDur_def some_text_def some_number_def split: option.split)

lemma pick_pick [layering]: "pick xs (pick ys d) = pick (xs @ ys) d"
  by (induction xs d rule: pick.induct) simp_all

definition zero_file :: yamlFile where
  "zero_file =
     \<lparr>yf_database_driver = [], yf_database_dsn = [], yf_pool_max_open_conns = 0, yf_pool_max_idle_conns = 0,
      yf_pool_conn_max_lifetime = 0, yf_pool_conn_max_idle_time = 0, yf_redis_addrs = [], yf_redis_addr = [],
      yf_redis_password = [], yf_redis_db = 0, yf_redis_hfe = False, yf_cache_l1_max_size_mb = 0,
      yf_cache_l1_ttl = [], yf_cache_l2_ttl = [], yf_agent_server_host = [], yf_agent_server_port = 0,
      yf_admin_server_host = [], yf_admin_server_port = 0, yf_metrics_push_url = [],
      yf_metrics_push_username = [], yf_metrics_push_password = [], yf_metrics_push_interval = [],
      yf_metrics_online_window = [], yf_smtp_host = [], yf_smtp_port = 0, yf_smtp_username = [],
      yf_smtp_password = [], yf_smtp_from = [], yf_smtp_tls = False, yf_smtp_public_url = []\<rparr>"

lemma merge_zero_file: "merge_file zero_file configDefaults = configDefaults"
  by (simp add: merge_file_def zero_file_def configDefaults_def non_empty_def non_zero_def parseDur_def)

lemma if_seconds: "(if n \<noteq> 0 then seconds n else d) = pick [map_option seconds (some_number n)] d"
  by (simp add: some_number_def)

lemma if_addrs:
  "(if l \<noteq> [] then l else if a \<noteq> [] then splitAddrs a else d) =
     pick [some_text l, map_option splitAddrs (some_text a)] d"
  by (simp add: some_text_def)

lemma if_flag: "(if b then True else c) = (b \<or> c)"
  by simp

lemma apply_layers: "applyEnv env (merge_file yf configDefaults) = configured env yf"
  by (simp only: applyEnv_def merge_file_def configDefaults_def configured_def Config.simps SMTPConfig.simps
      layering if_seconds if_addrs if_flag append.simps) (simp add: minute_def hour_def)

definition file_settings :: "startup \<Rightarrow> string \<Rightarrow> err + yamlFile" where
  "file_settings P file =
     (if file = [] then Inr zero_file
      else
        case su_file P file of
          Inl e \<Rightarrow> Inl (ErrWrap ''read'' e)
        | Inr data \<Rightarrow> (case su_yaml P data of Inl e \<Rightarrow> Inl (ErrWrap ''parse yaml'' e) | Inr yf \<Rightarrow> Inr yf))"

text \<open>
  C35. \<open>Load\<close> follows the documented priority for every setting: environment variables over
  the YAML file over the defaults. It fails exactly when the file cannot be read or parsed, or
  the URL for pushing metrics is refused; nothing else in the environment or the file, however
  malformed, keeps the server from starting.
\<close>

theorem Load_layers:
  "Load P file =
     (case file_settings P file of
        Inl e \<Rightarrow> Inl (ErrWrap ''config file'' e)
      | Inr yf \<Rightarrow>
          (case ValidateMetrics P (configured (su_env P) yf) of
             Some e \<Rightarrow> Inl (ErrWrap ''config validation'' e)
           | None \<Rightarrow> Inr (configured (su_env P) yf)))"
proof -
  have "(if file \<noteq> [] then applyFile P configDefaults file else Inr configDefaults) =
      map_sum id (\<lambda>yf. merge_file yf configDefaults) (file_settings P file)"
    by (simp add: applyFile_def file_settings_def merge_zero_file split: sum.split)
  then show ?thesis
    by (simp add: Load_def Let_def apply_layers split: sum.split)
qed

end
