(* ===== verification/Admin_Server.thy ===== *)
theory Admin_Server
  imports Admin_Routes Metrics_Collector Server_Config
begin

section \<open>The admin server (internal/server/admin/server.go)\<close>

text \<open>
  What the mux serves beside the API: the metrics and the web UI, whose pattern \<open>/\<close> takes every
  request that no other pattern takes. The files are those the build embeds: with what the
  standard library does with their contents (types by extension or by content, ranges and
  conditional requests, listings of directories, compression) they are the record \<open>web\<close>. The
  handlers of files are written out as far as the server relies on them: redirects, errors and
  the header. A page is what a handler writes; \<open>net/http\<close> leaves out its body in the reply to HEAD.
\<close>

subsection \<open>Paths and headers\<close>

definition filepath_Ext :: "string \<Rightarrow> string" where
  "filepath_Ext path =
     (let last_part = takeWhile (\<lambda>c. c \<noteq> CHR ''/'') (rev path)
      in if CHR ''.'' \<in> set last_part then ''.'' @ rev (takeWhile (\<lambda>c. c \<noteq> CHR ''.'') last_part) else [])"

definition path_Base :: "string \<Rightarrow> string" where
  "path_Base path =
     (if path = [] then ''.''
      else
        let last_part = rev (takeWhile (\<lambda>c. c \<noteq> CHR ''/'') (dropWhile (\<lambda>c. c = CHR ''/'') (rev path)))
        in if last_part = [] then ''/'' else last_part)"

definition ends_with :: "string \<Rightarrow> string \<Rightarrow> bool" where
  "ends_with s t \<longleftrightarrow> has_prefix (rev s) (rev t)"

type_synonym header = "(string \<times> string) list"

definition with_header :: "string \<Rightarrow> string \<Rightarrow> header \<Rightarrow> header" where
  "with_header = AList.update"

definition without_header :: "string \<Rightarrow> header \<Rightarrow> header" where
  "without_header = AList.delete"

definition immutableAssetCacheControl :: string where
  "immutableAssetCacheControl = ''public, max-age=31536000, immutable''"
definition staticAssetCacheControl :: string where
  "staticAssetCacheControl = ''public, max-age=86400''"
definition noCacheControl :: string where
  "noCacheControl = ''no-cache''"

text \<open>\<open>http.Error\<close>, and the same from the handlers of files.\<close>

definition http_error :: "string \<Rightarrow> nat \<Rightarrow> header \<Rightarrow> page" where
  "http_error msg code h =
     \<lparr>pg_status = code,
      pg_header = with_header ''X-Content-Type-Options'' ''nosniff''
        (with_header ''Content-Type'' ''text/plain; charset=utf-8'' (without_header ''Content-Length'' h)),
      pg_body = msg @ [newline_char]\<rparr>"

definition file_error :: "string \<Rightarrow> nat \<Rightarrow> header \<Rightarrow> page" where
  "file_error msg code h =
     http_error msg code (fold without_header [''Cache-Control'', ''Content-Encoding'', ''Etag'', ''Last-Modified''] h)"

subsection \<open>Serving files (http.FileServerFS, http.ServeFileFS)\<close>

datatype node = File bytes | Dir

record web =
  wb_files :: "string \<Rightarrow> node option"
  wb_mime :: "string \<Rightarrow> string"
  wb_gzip :: "bytes \<Rightarrow> bytes"
  wb_content :: "hreq \<Rightarrow> string \<Rightarrow> bytes \<Rightarrow> header \<Rightarrow> page"
  wb_listing :: "string \<Rightarrow> header \<Rightarrow> page"

definition valid_path :: "string \<Rightarrow> bool" where
  "valid_path name \<longleftrightarrow>
     name = ''.'' \<or> list_all (\<lambda>e. e \<noteq> [] \<and> e \<noteq> ''.'' \<and> e \<noteq> ''..'') (split name ''/'')"

definition fs_Open :: "web \<Rightarrow> string \<Rightarrow> node option" where
  "fs_Open W name = (if valid_path name then wb_files W name else None)"

definition local_redirect :: "hreq \<Rightarrow> string \<Rightarrow> header \<Rightarrow> page" where
  "local_redirect req new_path h =
     (let query = dropWhile (\<lambda>c. c \<noteq> CHR ''?'') (rq_uri req)
      in \<lparr>pg_status = 301,
          pg_header = with_header ''Location'' (if length query \<le> 1 then new_path else new_path @ query) h,
          pg_body = []\<rparr>)"

definition serve_directory :: "web \<Rightarrow> hreq \<Rightarrow> string \<Rightarrow> header \<Rightarrow> page" where
  "serve_directory W req name h =
     (if \<not> ends_with (rq_path req) ''/'' then local_redirect req (path_Base (rq_path req) @ ''/'') h
      else
        case fs_Open W (if name = ''.'' then ''index.html'' else name @ ''/index.html'') of
          Some (File content) \<Rightarrow> wb_content W req ''index.html'' content h
        | _ \<Rightarrow> wb_listing W name h)"

definition serve_file :: "web \<Rightarrow> hreq \<Rightarrow> string \<Rightarrow> header \<Rightarrow> page" where
  "serve_file W req name h =
     (if ends_with (rq_path req) ''/index.html'' then local_redirect req ''./'' h
      else
        case fs_Open W name of
          None \<Rightarrow> file_error ''404 page not found'' 404 h
        | Some Dir \<Rightarrow> serve_directory W req name h
        | Some (File content) \<Rightarrow> wb_content W req (path_Base name) content h)"

text \<open>
  The file server is only reached with a path whose name could be opened, so it is clean and
  has no final slash; the root goes by the name of a dot.
\<close>

definition FileServerFS :: "web \<Rightarrow> hreq \<Rightarrow> header \<Rightarrow> page" where
  "FileServerFS W req h = serve_file W req (tl (rq_path req)) h"

definition contains_dot_dot :: "string \<Rightarrow> bool" where
  "contains_dot_dot path \<longleftrightarrow>
     ''..'' \<in> set (split (map (\<lambda>c. if c = CHR 0x5C then CHR ''/'' else c) path) ''/'')"

definition ServeFileFS :: "web \<Rightarrow> hreq \<Rightarrow> string \<Rightarrow> header \<Rightarrow> page" where
  "ServeFileFS W req name h =
     (if contains_dot_dot (rq_path req) then file_error ''invalid URL path'' 400 h
      else serve_file W req name h)"

subsection \<open>The middleware of the web UI\<close>

type_synonym page_handler = "hreq \<Rightarrow> header \<Rightarrow> page"

definition compressibleType :: "(string \<Rightarrow> string) \<Rightarrow> string \<Rightarrow> bool" where
  "compressibleType lower contentType =
     (let ct = lower contentType
      in has_prefix ct ''text/'' \<or> contains ct ''javascript'' \<or> contains ct ''json'' \<or> contains ct ''xml'' \<or>
         contains ct ''svg'' \<or> contains ct ''wasm'')"

definition gzipMiddleware :: "world \<Rightarrow> web \<Rightarrow> page_handler \<Rightarrow> page_handler" where
  "gzipMiddleware w W nxt req h =
     (if \<not> contains (rq_header req ''Accept-Encoding'') ''gzip'' then nxt req h
      else
        let ext = w_lower w (filepath_Ext (rq_path req));
            ct = wb_mime W ext
        in if \<not> compressibleType (w_lower w) ct then nxt req h
           else
             let p = nxt req (without_header ''Content-Length'' (with_header ''Content-Encoding'' ''gzip'' h))
             in p\<lparr>pg_header := without_header ''Content-Length'' (pg_header p), pg_body := wb_gzip W (pg_body p)\<rparr>)"

definition static_extensions :: "string list" where
  "static_extensions =
     [''.js'', ''.mjs'', ''.css'', ''.map'', ''.png'', ''.svg'', ''.jpg'', ''.jpeg'', ''.gif'', ''.webp'', ''.avif'',
      ''.ico'', ''.woff'', ''.woff2'', ''.ttf'', ''.otf'', ''.eot'', ''.wasm'']"

definition isStaticAssetPath :: "(string \<Rightarrow> string) \<Rightarrow> string \<Rightarrow> bool" where
  "isStaticAssetPath lower path \<longleftrightarrow> lower (filepath_Ext path) \<in> set static_extensions"

definition cache_control :: "world \<Rightarrow> string \<Rightarrow> string" where
  "cache_control w path =
     (if has_prefix path ''/assets/'' then immutableAssetCacheControl
      else if isStaticAssetPath (w_lower w) path then staticAssetCacheControl
      else noCacheControl)"

definition staticCacheMiddleware :: "world \<Rightarrow> page_handler \<Rightarrow> page_handler" where
  "staticCacheMiddleware w nxt req h =
     nxt req (with_header ''Cache-Control'' (cache_control w (rq_path req)) h)"

definition serve_spa :: "world \<Rightarrow> web \<Rightarrow> hreq \<Rightarrow> page" where
  "serve_spa w W req =
     (case fs_Open W (tl (rq_path req)) of
        None \<Rightarrow> ServeFileFS W req ''index.html'' (with_header ''Cache-Control'' noCacheControl [])
      | Some _ \<Rightarrow> gzipMiddleware w W (staticCacheMiddleware w (FileServerFS W)) req [])"

subsection \<open>The server\<close>

text \<open>Without a web UI the mux answers itself: 405 if another method would be served, else 404.\<close>

definition allowed_methods :: "('d, 'f, 'r) services \<Rightarrow> world \<Rightarrow> bool \<Rightarrow> hreq \<Rightarrow> string list" where
  "allowed_methods X w metrics req =
     filter
       (\<lambda>m. find (\<lambda>r. route_matches r (req\<lparr>rq_method := m\<rparr>)) (routes X w) \<noteq> None \<or>
          (metrics \<and> rq_segments req = [''metrics''] \<and> method_matches ''GET'' m))
       [''DELETE'', ''GET'', ''HEAD'', ''POST'', ''PUT'']"

definition no_route :: "('d, 'f, 'r) services \<Rightarrow> world \<Rightarrow> bool \<Rightarrow> hreq \<Rightarrow> page" where
  "no_route X w metrics req =
     (let allowed = allowed_methods X w metrics req
      in if allowed = [] then http_error ''404 page not found'' 404 []
         else http_error ''Method Not Allowed'' 405 (with_header ''Allow'' (join allowed '', '') []))"

definition serve_metrics :: "('d, 'f, 'r) services \<Rightarrow> world \<Rightarrow> int \<Rightarrow> ('d, 'f, 'r) adm \<Rightarrow> outcome \<times> ('d, 'f, 'r) adm" where
  "serve_metrics X w onlineWindow s =
     (case MetricsHandler X w onlineWindow (s_mgr s) of
        ((code, content_type, body), m1) \<Rightarrow>
          (Page \<lparr>pg_status = code,
                 pg_header = (''Content-Type'', content_type) #
                   (if code = 500 then [(''X-Content-Type-Options'', ''nosniff'')] else []),
                 pg_body = body\<rparr>, s\<lparr>s_mgr := m1\<rparr>))"

definition other_patterns ::
  "('d, 'f, 'r) services \<Rightarrow> world \<Rightarrow> web option \<Rightarrow> int option \<Rightarrow> ('d, 'f, 'r) handler" where
  "other_patterns X w webFS metrics req s =
     (case metrics of
        Some window \<Rightarrow>
          if rq_segments req = [''metrics''] \<and> method_matches ''GET'' (rq_method req) then serve_metrics X w window s
          else (case webFS of
                  Some W \<Rightarrow> (Page (serve_spa w W req), s)
                | None \<Rightarrow> (Page (no_route X w True req), s))
      | None \<Rightarrow>
          (case webFS of
             Some W \<Rightarrow> (Page (serve_spa w W req), s)
           | None \<Rightarrow> (Page (no_route X w False req), s)))"

text \<open>
  The server as \<open>net/http\<close> gets it. The stores of tokens are emptied when a server is made (the
  package's variables of a fresh process), and kept in Redis if there is a client.
\<close>

record ('d, 'f, 'r) http_server =
  hs_addr :: string
  hs_handler :: "world \<Rightarrow> ('d, 'f, 'r) handler"
  hs_read_timeout :: int
  hs_write_timeout :: int
  hs_idle_timeout :: int

definition initSessionStore :: "('d, 'f, 'r) mgr \<Rightarrow> ('d, 'f, 'r) adm" where
  "initSessionStore m =
     \<lparr>s_mgr = m, s_sessions = [], s_pending = [], s_resets = [], s_outbox = []\<rparr>"

text \<open>The handlers read the SMTP settings they were made with.\<close>

definition NewAdminHandler :: "SMTPConfig \<Rightarrow> world \<Rightarrow> world" where
  "NewAdminHandler smtp w =
     w\<lparr>w_smtp_host := sm_Host smtp, w_smtp_from := sm_From smtp, w_public_url := sm_PublicURL smtp\<rparr>"

definition admin_handler ::
  "('d, 'f, 'r) services \<Rightarrow> web option \<Rightarrow> int option \<Rightarrow> SMTPConfig \<Rightarrow> world \<Rightarrow> ('d, 'f, 'r) handler" where
  "admin_handler X webFS metrics smtp w =
     (let w' = NewAdminHandler smtp w in serve X w' (other_patterns X w' webFS metrics))"

definition NewAdminServer ::
  "string \<Rightarrow> ('d, 'f, 'r) services \<Rightarrow> ('d, 'f, 'r) mgr \<Rightarrow> web option \<Rightarrow> int option \<Rightarrow> SMTPConfig \<Rightarrow>
   ('d, 'f, 'r) http_server \<times> ('d, 'f, 'r) adm" where
  "NewAdminServer addr X m webFS metrics smtp =
     (\<lparr>hs_addr = addr, hs_handler = admin_handler X webFS metrics smtp,
       hs_read_timeout = 15 * second, hs_write_timeout = 15 * second, hs_idle_timeout = 60 * second\<rparr>,
      initSessionStore m)"

end
