(* ===== verification/Mail_Delivery.thy ===== *)
theory Mail_Delivery
  imports Admin_Server Auth_Props
begin

section \<open>Sending mail (internal/server/admin/email.go)\<close>

text \<open>
  The conversation with the mail server behind \<open>sendMail\<close>. \<open>net/smtp\<close> and \<open>crypto/tls\<close> are a
  parameter: what each call answers, given the calls made before. The state is the list of
  calls, so that their order can be stated. \<open>mail_world\<close> is the world in which the handlers of
  the admin server send their mail this way.
\<close>

subsection \<open>The conversation\<close>

record smtp_auth =
  au_username :: string
  au_password :: string
  au_host :: string

datatype smtp_call =
    TlsDial string string
  | NewClient string
  | Auth smtp_auth
  | MailFrom string
  | RcptTo string
  | OpenData
  | WriteData bytes
  | CloseData
  | Quit
  | CloseConn
  | SendMail string "smtp_auth option" string "string list" bytes

type_synonym smtp_net = "smtp_call list \<Rightarrow> smtp_call \<Rightarrow> err option"

definition call :: "smtp_net \<Rightarrow> smtp_call \<Rightarrow> smtp_call list \<Rightarrow> (err + unit) \<times> smtp_call list" where
  "call net c calls = ((case net calls c of None \<Rightarrow> Inr () | Some e \<Rightarrow> Inl e), calls @ [c])"

text \<open>A deferred call: it runs when the function returns, its error is dropped.\<close>

definition deferring ::
  "smtp_net \<Rightarrow> smtp_call \<Rightarrow> (smtp_call list \<Rightarrow> (err + unit) \<times> smtp_call list) \<Rightarrow>
   smtp_call list \<Rightarrow> (err + unit) \<times> smtp_call list" where
  "deferring net c f calls = (case f calls of (r, calls1) \<Rightarrow> (r, snd (call net c calls1)))"

definition plain_auth :: "SMTPConfig \<Rightarrow> smtp_auth option" where
  "plain_auth cfg =
     (if sm_Username cfg = [] then None
      else Some \<lparr>au_username = sm_Username cfg, au_password = sm_Password cfg, au_host = sm_Host cfg\<rparr>)"

definition smtp_addr :: "SMTPConfig \<Rightarrow> string" where
  "smtp_addr cfg = sm_Host cfg @ '':'' @ itoa (sm_Port cfg)"

definition send_over_tls ::
  "smtp_net \<Rightarrow> SMTPConfig \<Rightarrow> string \<Rightarrow> bytes \<Rightarrow> smtp_call list \<Rightarrow> (err + unit) \<times> smtp_call list" where
  "send_over_tls net cfg to msg =
     bindr (wrapr (''smtp tls dial '' @ smtp_addr cfg) (call net (TlsDial (smtp_addr cfg) (sm_Host cfg)))) (\<lambda>_.
     deferring net CloseConn
       (bindr (wrapr ''smtp new client'' (call net (NewClient (sm_Host cfg)))) (\<lambda>_.
        deferring net Quit
          (bindr (case plain_auth cfg of None \<Rightarrow> retr () | Some a \<Rightarrow> wrapr ''smtp auth'' (call net (Auth a))) (\<lambda>_.
           bindr (wrapr ''smtp MAIL FROM'' (call net (MailFrom (sm_From cfg)))) (\<lambda>_.
           bindr (wrapr ''smtp RCPT TO'' (call net (RcptTo to))) (\<lambda>_.
           bindr (wrapr ''smtp DATA'' (call net OpenData)) (\<lambda>_.
           bindr (wrapr ''smtp write body'' (call net (WriteData msg))) (\<lambda>_.
           call net CloseData)))))))))"

definition deliver :: "smtp_net \<Rightarrow> SMTPConfig \<Rightarrow> mail \<Rightarrow> smtp_call list \<Rightarrow> (err + unit) \<times> smtp_call list" where
  "deliver net cfg m =
     (if sm_TLS cfg then send_over_tls net cfg (ml_to m) (ml_message m)
      else call net (SendMail (smtp_addr cfg) (plain_auth cfg) (sm_From cfg) [ml_to m] (ml_message m)))"

definition sendMail_smtp ::
  "smtp_net \<Rightarrow> SMTPConfig \<Rightarrow> string \<Rightarrow> string \<Rightarrow> string \<Rightarrow> smtp_call list \<Rightarrow> (err + unit) \<times> smtp_call list" where
  "sendMail_smtp net cfg to subject body =
     (if sm_Host cfg = [] then failr (ErrMsg ''SMTP not configured (smtp.host is empty)'')
      else deliver net cfg \<lparr>ml_to = to, ml_message = buildMessage (sm_From cfg) to subject body\<rparr>)"

text \<open>The world of handlers that were made with these settings.\<close>

definition mail_world :: "smtp_net \<Rightarrow> SMTPConfig \<Rightarrow> world \<Rightarrow> world" where
  "mail_world net cfg w = (NewAdminHandler cfg w)\<lparr>w_send_mail := \<lambda>m. result_ok (fst (deliver net cfg m []))\<rparr>"

subsection \<open>What a conversation looks like\<close>

definition credentials :: "SMTPConfig \<Rightarrow> smtp_call list" where
  "credentials cfg = (case plain_auth cfg of None \<Rightarrow> [] | Some a \<Rightarrow> [Auth a])"

text \<open>The calls of a mail that was accepted.\<close>

definition accepted_calls :: "SMTPConfig \<Rightarrow> mail \<Rightarrow> smtp_call list" where
  "accepted_calls cfg m =
     (if sm_TLS cfg then
        [TlsDial (smtp_addr cfg) (sm_Host cfg), NewClient (sm_Host cfg)] @ credentials cfg @
        [MailFrom (sm_From cfg), RcptTo (ml_to m), OpenData, WriteData (ml_message m), CloseData, Quit, CloseConn]
      else [SendMail (smtp_addr cfg) (plain_auth cfg) (sm_From cfg) [ml_to m] (ml_message m)])"

lemma call_done: "call net c calls = (Inr u, calls') \<longleftrightarrow> net calls c = None \<and> calls' = calls @ [c]"
  by (auto simp: call_def split: option.split)

lemma wrapr_done: "wrapr msg f calls = (Inr u, calls') \<longleftrightarrow> f calls = (Inr u, calls')"
  by (auto simp: wrapr_def split: prod.split sum.split)

lemma deferring_done: "deferring net c f calls = (Inr u, calls') \<longleftrightarrow>
    (\<exists>calls1. f calls = (Inr u, calls1) \<and> calls' = calls1 @ [c])"
  by (auto simp: deferring_def call_def split: prod.split)

lemma auth_done:
  "(case plain_auth cfg of None \<Rightarrow> retr () | Some a \<Rightarrow> wrapr ''smtp auth'' (call net (Auth a))) calls = (Inr u, calls') \<Longrightarrow>
   calls' = calls @ credentials cfg"
  by (auto simp: credentials_def retr_def wrapr_done call_done split: option.splits)

lemma deliver_accepted:
  assumes "deliver net cfg m [] = (Inr u, calls)"
  shows "calls = accepted_calls cfg m"
proof (cases "sm_TLS cfg")
  case True
  with assms show ?thesis
    by (auto simp: deliver_def accepted_calls_def send_over_tls_def bindr_Inr wrapr_done deferring_done call_done
        dest!: auth_done)
next
  case False
  with assms show ?thesis by (auto simp: deliver_def accepted_calls_def call_done)
qed

text \<open>
  Over TLS, whatever fails: the connection is made first, nothing is sent if it is not, and it
  is closed in the end. So the password never leaves before the server has shown its certificate.
\<close>

lemma bindr_grows:
  assumes "\<And>c. \<exists>z. snd (f c) = c @ z" and "\<And>x c. \<exists>z. snd (g x c) = c @ z"
  shows "\<exists>z. snd (bindr f g c) = c @ z"
proof (cases "f c")
  case (Pair r c1)
  with assms(1) [of c] obtain y where "c1 = c @ y" by auto
  with Pair assms(2) [of _ "c @ y"] show ?thesis by (cases r) (fastforce simp: bindr_def)+
qed

lemma call_grows: "\<exists>z. snd (call net c calls) = calls @ z"
  by (simp add: call_def)

lemma wrapr_grows: "\<exists>z. snd (f calls) = calls @ z \<Longrightarrow> \<exists>z. snd (wrapr msg f calls) = calls @ z"
  by (auto simp: wrapr_def split: prod.splits sum.splits)

lemma deferring_last: "\<exists>z. snd (f calls) = calls @ z \<Longrightarrow> \<exists>z. snd (deferring net c f calls) = calls @ z @ [c]"
  by (auto simp: deferring_def call_def split: prod.splits)

lemma deferring_grows: "(\<exists>z. snd (f calls) = calls @ z) \<Longrightarrow> \<exists>z. snd (deferring net c f calls) = calls @ z"
  using deferring_last by blast

lemma tls_first:
  assumes "send_over_tls net cfg to msg [] = (r, calls)"
  shows "if net [] (TlsDial (smtp_addr cfg) (sm_Host cfg)) = None
    then \<exists>z. calls = TlsDial (smtp_addr cfg) (sm_Host cfg) # z @ [CloseConn]
    else calls = [TlsDial (smtp_addr cfg) (sm_Host cfg)]"
proof (cases "net [] (TlsDial (smtp_addr cfg) (sm_Host cfg))")
  case (Some e)
  with assms show ?thesis by (auto simp: send_over_tls_def bindr_def wrapr_def call_def)
next
  case None
  let ?dial = "TlsDial (smtp_addr cfg) (sm_Host cfg)"
  let ?auth = "case plain_auth cfg of None \<Rightarrow> retr () | Some a \<Rightarrow> wrapr ''smtp auth'' (call net (Auth a))"
  let ?talk = "bindr (wrapr ''smtp new client'' (call net (NewClient (sm_Host cfg)))) (\<lambda>_.
      deferring net Quit
        (bindr ?auth (\<lambda>_.
         bindr (wrapr ''smtp MAIL FROM'' (call net (MailFrom (sm_From cfg)))) (\<lambda>_.
         bindr (wrapr ''smtp RCPT TO'' (call net (RcptTo to))) (\<lambda>_.
         bindr (wrapr ''smtp DATA'' (call net OpenData)) (\<lambda>_.
         bindr (wrapr ''smtp write body'' (call net (WriteData msg))) (\<lambda>_.
         call net CloseData)))))))"
  have auth: "\<exists>z. snd (?auth c) = c @ z" for c
    by (auto simp: retr_def intro: wrapr_grows call_grows split: option.split)
  have "\<exists>z. snd (?talk c) = c @ z" for c
    by (intro bindr_grows wrapr_grows deferring_grows call_grows auth)
  then have "\<exists>z. snd (deferring net CloseConn ?talk [?dial]) = [?dial] @ z @ [CloseConn]"
    by (rule deferring_last)
  moreover have "wrapr (''smtp tls dial '' @ smtp_addr cfg) (call net ?dial) [] = (Inr (), [?dial])"
    using None by (simp add: wrapr_done call_done)
  then have "send_over_tls net cfg to msg [] = deferring net CloseConn ?talk [?dial]"
    by (subst send_over_tls_def, subst bindr_def) (simp only: prod.case sum.case)
  ultimately have "\<exists>z. calls = [?dial] @ z @ [CloseConn]" using assms by (metis snd_conv)
  with None show ?thesis by simp
qed

text \<open>The step of the handlers is this conversation.\<close>

lemma sendMail_refined:
  "sendMail (mail_world net cfg w) to subject body s =
     (let ok = result_ok (fst (sendMail_smtp net cfg to subject body []))
      in (ok, if ok then s\<lparr>s_outbox := s_outbox s @
        [\<lparr>ml_to = to, ml_message = buildMessage (sm_From cfg) to subject body\<rparr>]\<rparr> else s))"
  by (simp add: sendMail_def sendMail_smtp_def failr_def mail_world_def NewAdminHandler_def Let_def)

subsection \<open>The mail of a password reset\<close>

lemma forgot_reply:
  "fst (ForgotPassword_h X w req s) =
     (case Option.bind (json_decode_first (take json_limit (fst (rq_body req)))) (string_field ''username'') of
        None \<Rightarrow> badRequest (w_json_error w (take json_limit (fst (rq_body req))))
      | Some name \<Rightarrow> if trim_space name = [] then badRequest ''username is required'' else forgot_generic)"
    (is "_ = ?reply")
proof -
  obtain out s' where r: "ForgotPassword_h X w req s = (out, s')" by fastforce
  have "out = ?reply"
    by (rule finish_run [OF r [unfolded ForgotPassword_h_def], where P = "\<lambda>out _. out = ?reply"])
      (auto simp: run_simps run_need Let_def split: option.split prod.split sum.split)
  with r show ?thesis by simp
qed

text \<open>
  C13. A request to reset a password tells its sender nothing and mails the token to nobody but
  the owner: the reply depends on the body of the request only, whatever accounts there are and
  whatever fails; no row changes; and at most one mail goes out, to the address on file of the
  account that was named, with a live token of that account, in a conversation with the mail
  server in which every step succeeded - over TLS, where that is configured, from the first
  byte, and closed in the end.
\<close>

theorem reset_mail_reaches_owner:
  assumes "gorm_api (gorm X) tabs" and "m_rdb (s_mgr s) = None"
    and "ForgotPassword_h X (mail_world net cfg w) req s = (out, s')"
  shows "fst (ForgotPassword_h X (mail_world net cfg w) req t) = out \<and>
    tables_of tabs s' = tables_of tabs s \<and> s_sessions s' = s_sessions s \<and>
    (s_outbox s' = s_outbox s \<or>
     (\<exists>u token m.
       user_at (tables_of tabs s) (us_name u) = Some u \<and> us_email u \<noteq> [] \<and>
       find_token (w_now w) token (s_resets s') = Some (us_name u) \<and>
       m = \<lparr>ml_to = us_email u, ml_message = buildMessage (sm_From cfg) (us_email u) reset_subject
         (buildResetEmailBody (us_name u) token (sm_PublicURL cfg))\<rparr> \<and>
       s_outbox s' = s_outbox s @ [m] \<and> snd (deliver net cfg m []) = accepted_calls cfg m))"
proof -
  let ?w = "mail_world net cfg w"
  have A: "account_store X tabs" using assms(1) by (simp add: account_store_def)
  have w: "w_now ?w = w_now w" "w_smtp_host ?w = sm_Host cfg" "w_public_url ?w = sm_PublicURL cfg"
    by (simp_all add: mail_world_def NewAdminHandler_def)
  let ?sent = "\<lambda>s1. \<exists>u token m. user_at (tables_of tabs s) (us_name u) = Some u \<and> us_email u \<noteq> [] \<and>
       find_token (w_now w) token (s_resets s1) = Some (us_name u) \<and>
       m = \<lparr>ml_to = us_email u, ml_message = buildMessage (sm_From cfg) (us_email u) reset_subject
         (buildResetEmailBody (us_name u) token (sm_PublicURL cfg))\<rparr> \<and>
       s_outbox s1 = s_outbox s @ [m] \<and> snd (deliver net cfg m []) = accepted_calls cfg m"
  let ?P = "\<lambda>(out :: outcome) s1. tables_of tabs s1 = tables_of tabs s \<and> s_sessions s1 = s_sessions s \<and>
      (s_outbox s1 = s_outbox s \<or> ?sent s1)"
  have issue: "run (bindh (act (resetTokens_issue X ?w (us_name u))) (\<lambda>token.
      bindh (act (sendMail ?w (us_email u) reset_subject (buildResetEmailBody (us_name u) token (w_public_url ?w)))) (\<lambda>_.
      reth forgot_generic))) (set_db d s) ?P ?P"
    if u: "user_at (tables_of tabs s) (us_name u) = Some u" "us_email u \<noteq> []" and host: "sm_Host cfg \<noteq> []"
      and d: "tabs d = tables_of tabs s" for u d
  proof -
    let ?token = "hex_encode (w_random ?w 32)"
    let ?m = "\<lparr>ml_to = us_email u, ml_message = buildMessage (sm_From cfg) (us_email u) reset_subject
         (buildResetEmailBody (us_name u) ?token (sm_PublicURL cfg))\<rparr>"
    have "\<exists>s1. resetTokens_issue X ?w (us_name u) (set_db d s) = (?token, s1) \<and>
        tables_of tabs s1 = tables_of tabs s \<and> s_sessions s1 = s_sessions s \<and> s_outbox s1 = s_outbox s \<and>
        find_token (w_now w) ?token (s_resets s1) = Some (us_name u)"
      using assms(2) d
      by (simp add: resetTokens_issue_def Let_def put_token_def find_token_def update_conv' resetTokenTTL_def second_def w)
    then obtain s1 where issued: "resetTokens_issue X ?w (us_name u) (set_db d s) = (?token, s1)"
        "tables_of tabs s1 = tables_of tabs s" "s_sessions s1 = s_sessions s" "s_outbox s1 = s_outbox s"
        "find_token (w_now w) ?token (s_resets s1) = Some (us_name u)" by blast
    have "?P forgot_generic (snd (sendMail ?w (us_email u) reset_subject
        (buildResetEmailBody (us_name u) ?token (sm_PublicURL cfg)) s1))"
    proof (cases "deliver net cfg ?m []")
      case (Pair r calls)
      show ?thesis
      proof (cases r)
        case (Inl e)
        with Pair host issued show ?thesis by (simp add: sendMail_refined sendMail_smtp_def Let_def)
      next
        case (Inr x)
        with deliver_accepted [of net cfg ?m x calls] Pair have "snd (deliver net cfg ?m []) = accepted_calls cfg ?m" by simp
        with issued u have "?sent (s1\<lparr>s_outbox := s_outbox s @ [?m]\<rparr>)"
          by (intro exI [of _ u] exI [of _ ?token] exI [of _ ?m]) simp
        with Pair Inr host issued show ?thesis by (simp add: sendMail_refined sendMail_smtp_def Let_def)
      qed
    qed
    then show ?thesis by (simp add: run_bindh run_act run_reth issued(1) w split_beta)
  qed
  have user: "us_name u = n" if "user_at (tables_of tabs s) n = Some u" for n u
    using that gorm_api.row_at_tabs [OF assms(1) projects_table(12)] by simp
  let ?rest = "\<lambda>n. bindh (need (\<lambda>_. forgot_generic) (GetUser_m X n)) (\<lambda>row.
         bindh (present forgot_generic row) (\<lambda>user.
         bindh (stop_if (us_email user = [] \<or> w_smtp_host ?w = []) forgot_generic) (\<lambda>_.
         bindh (act (resetTokens_issue X ?w n)) (\<lambda>token.
         bindh (act (sendMail ?w (us_email user) reset_subject
                  (buildResetEmailBody n token (w_public_url ?w)))) (\<lambda>_.
         reth forgot_generic)))))"
  have rest: "run (?rest n) s ?P ?P" for n
  proof (subst run_bindh, rule account_store.run_GetUser [OF A])
    fix d assume d: "tabs d = tables_of tabs s"
    show "run (bindh (present forgot_generic (user_at (tables_of tabs s) n)) (\<lambda>user.
         bindh (stop_if (us_email user = [] \<or> w_smtp_host ?w = []) forgot_generic) (\<lambda>_.
         bindh (act (resetTokens_issue X ?w n)) (\<lambda>token.
         bindh (act (sendMail ?w (us_email user) reset_subject
                  (buildResetEmailBody n token (w_public_url ?w)))) (\<lambda>_.
         reth forgot_generic))))) (set_db d s) ?P ?P"
    proof (cases "user_at (tables_of tabs s) n")
      case None
      with d show ?thesis by (simp add: run_simps)
    next
      case (Some u)
      with user have n: "n = us_name u" by simp
      show ?thesis
      proof (cases "us_email u = [] \<or> sm_Host cfg = []")
        case True
        with Some d show ?thesis by (auto simp: run_simps w)
      next
        case False
        with issue [of u d] Some n d show ?thesis
          by (subst run_bindh) (simp add: run_present run_bindh [of "stop_if _ _"] run_stop_if w(2))
      qed
    qed
  qed simp
  have "run (bindh (decodeJSON ?w (string_field ''username'') req) (\<lambda>name.
      let username = trim_space name
      in bindh (stop_if (username = []) (badRequest ''username is required'')) (\<lambda>_. ?rest username))) s ?P ?P"
    unfolding run_bindh [of "decodeJSON _ _ _"] run_decodeJSON Let_def run_bindh [of "stop_if _ _"] run_stop_if
    using rest by (simp split: option.split)
  from finish_run [OF assms(3) [unfolded ForgotPassword_h_def] this] show ?thesis
    using forgot_reply [of X ?w req t] forgot_reply [of X ?w req s] assms(3) by simp
qed

text \<open>Bob has a mail address and forgot his password; the server speaks TLS and accepts everything.\<close>

definition mail_settings :: SMTPConfig where
  "mail_settings =
     \<lparr>sm_Host = ''mx'', sm_Port = 465, sm_Username = ''cs'', sm_Password = ''pw'', sm_From = ''cs@x'',
      sm_TLS = True, sm_PublicURL = ''https://cs/''\<rparr>"

definition mail_state :: "(memdb, memcache, unit) adm" where
  "mail_state = sample_state\<lparr>s_mgr := New
     \<lparr>mem_rows = [RUser ((sample_user ''bob'' False [])\<lparr>us_email := ''bob@x''\<rparr>)], mem_faults = []\<rparr>
     [] [] None (300 * second) 0 False\<rparr>"

definition forgot_request :: hreq where
  "forgot_request = sample_request ''POST'' [''api'', ''v1'', ''auth'', ''forgot-password''] Map.empty []
     (''{'' @ [CHR 0x22] @ ''username'' @ [CHR 0x22] @ '':'' @ [CHR 0x22] @ ''bob'' @ [CHR 0x22] @ ''}'')"

definition forgot_run :: "outcome \<times> (memdb, memcache, unit) adm" where
  "forgot_run = ForgotPassword_h mem_services (mail_world (\<lambda>_ _. None) mail_settings sample_world) forgot_request mail_state"

lemma forgot_decoded: "bindh (decodeJSON w (string_field ''username'') forgot_request) f = f ''bob''"
proof -
  have "take json_limit (fst (rq_body forgot_request)) = fst (rq_body forgot_request)"
    by (simp add: json_limit_def forgot_request_def sample_request_def)
  moreover have "Option.bind (json_decode_first (fst (rq_body forgot_request))) (string_field ''username'') = Some ''bob''"
    by code_simp
  ultimately show ?thesis by (simp add: decodeJSON_def Let_def fun_eq_iff bindh_def reth_def)
qed

lemma forgot_sent: "map ml_to (s_outbox (snd forgot_run)) = [''bob@x'']" "fst forgot_run = forgot_generic"
  unfolding forgot_run_def ForgotPassword_h_def forgot_decoded by code_simp+

theorem reset_mail_reaches_owner_witness:
  "\<exists>m token. fst forgot_run = forgot_generic \<and> s_outbox (snd forgot_run) = [m] \<and> ml_to m = ''bob@x'' \<and>
     find_token 10 token (s_resets (snd forgot_run)) = Some ''bob'' \<and>
     snd (deliver (\<lambda>_ _. None) mail_settings m []) = accepted_calls mail_settings m"
proof -
  note sent = forgot_sent
  have start: "m_rdb (s_mgr mail_state) = None" "s_outbox mail_state = []" "w_now sample_world = 10"
    by (simp_all add: mail_state_def sample_state_def New_def sample_world_def)
  have user: "user_at (tables_of mem_tabs mail_state) n = Some u \<Longrightarrow> n = ''bob''" for n u
    by (simp add: mail_state_def New_def mem_tabs_def row_at_def sample_user_def split: if_splits)
  have "ForgotPassword_h mem_services (mail_world (\<lambda>_ _. None) mail_settings sample_world) forgot_request mail_state =
      (fst forgot_run, snd forgot_run)" by (simp add: forgot_run_def)
  from reset_mail_reaches_owner [OF mema.database start(1) this]
  have "s_outbox (snd forgot_run) = [] \<or>
    (\<exists>u token m. user_at (tables_of mem_tabs mail_state) (us_name u) = Some u \<and>
       find_token 10 token (s_resets (snd forgot_run)) = Some (us_name u) \<and> s_outbox (snd forgot_run) = [m] \<and>
       snd (deliver (\<lambda>_ _. None) mail_settings m []) = accepted_calls mail_settings m)"
    unfolding start(2,3) append_Nil by blast
  with sent(1) obtain u token m where m: "user_at (tables_of mem_tabs mail_state) (us_name u) = Some u"
      "find_token 10 token (s_resets (snd forgot_run)) = Some (us_name u)" "s_outbox (snd forgot_run) = [m]"
      "snd (deliver (\<lambda>_ _. None) mail_settings m []) = accepted_calls mail_settings m" by auto
  from user [OF m(1)] m(2-4) sent show ?thesis by auto
qed

end
