(* ===== verification/Store_Open.thy ===== *)
theory Store_Open
  imports Gorm_Store
begin

section \<open>Opening the store (gormdb.New and model.MigrateAll)\<close>

text \<open>
  \<open>New\<close> opens the database for a driver, sets up the pool, migrates the tables and makes sure
  that the default group exists. What GORM and \<open>database/sql\<close> do for it is the record
  \<open>db_setup\<close>: connecting, fetching the handle of \<open>database/sql\<close>, the four setters of the pool, a
  raw statement, and \<open>AutoMigrate\<close> for a list of models. The database outlives the process, so
  \<open>NewStore\<close> takes and returns its state even where it fails.
\<close>

datatype dialect = SQLite | MySQL | Postgres

record PoolConfig =
  MaxOpenConns :: int
  MaxIdleConns :: int
  ConnMaxLifetime :: int
  ConnMaxIdleTime :: int

record 'd db_setup =
  go_open :: "dialect \<Rightarrow> string \<Rightarrow> 'd \<Rightarrow> (err + unit) \<times> 'd"
  go_sql_db :: "'d \<Rightarrow> (err + unit) \<times> 'd"
  go_set_pool :: "PoolConfig \<Rightarrow> 'd \<Rightarrow> 'd"
  go_exec :: "string \<Rightarrow> 'd \<Rightarrow> (err + unit) \<times> 'd"
  go_auto_migrate :: "string list \<Rightarrow> 'd \<Rightarrow> (err + unit) \<times> 'd"

definition dialector :: "string \<Rightarrow> dialect option" where
  "dialector driver =
     (if driver = ''sqlite'' then Some SQLite
      else if driver = ''mysql'' then Some MySQL
      else if driver = ''postgres'' \<or> driver = ''postgresql'' then Some Postgres
      else None)"

definition migrated_models :: "string list" where
  "migrated_models =
     [''AgentGroup'', ''AgentGroupTag'', ''PipelineConfig'', ''InstanceConfig'', ''OnetimeCommand'',
      ''GroupConfigMapping'', ''Agent'', ''AgentConfigStatus'', ''User'', ''Role'', ''RolePermission'',
      ''ConfigHistory'', ''AuditLog'', ''CanaryRelease'']"

definition backfill_admin :: wstmt where
  "backfill_admin =
     Update (on as_user (\<lambda>u. us_name u = ''admin'')) (setting as_user RUser (\<lambda>u. u\<lparr>us_is_admin := True\<rparr>))"

definition MigrateAll :: "'d db_setup \<Rightarrow> 'd gorm \<Rightarrow> 'd \<Rightarrow> (err + unit) \<times> 'd" where
  "MigrateAll D G =
     bindr (go_auto_migrate D migrated_models) (\<lambda>_.
     exec G (Write backfill_admin))"

definition default_group :: AgentGroup where
  "default_group =
     \<lparr>ag_name = DefaultGroupName,
      ag_description = ''Built-in group: configs assigned here are delivered to every agent.'',
      ag_ip_selector = [], ag_version_constraint = [], ag_created = time_zero, ag_updated = time_zero\<rparr>"

definition ensure_default_group :: "'d gorm \<Rightarrow> 'd \<Rightarrow> (err + unit) \<times> 'd" where
  "ensure_default_group G =
     exec G (FirstOrCreate (on as_group (\<lambda>g. ag_name g = DefaultGroupName)) (RGroup default_group))"

definition NewStore ::
  "'d db_setup \<Rightarrow> 'd gorm \<Rightarrow> string \<Rightarrow> string \<Rightarrow> PoolConfig \<Rightarrow> 'd \<Rightarrow> (err + unit) \<times> 'd" where
  "NewStore D G driver dsn pool =
     (case dialector driver of
        None \<Rightarrow>
          failr (ErrMsg (''unsupported db driver: '' @ driver @ '' (supported: sqlite, mysql, postgres)''))
      | Some dl \<Rightarrow>
          bindr (wrapr ''open db'' (go_open D dl dsn)) (\<lambda>_.
          bindr (wrapr ''get sql.DB'' (go_sql_db D)) (\<lambda>_.
          bindr (\<lambda>d. (Inr (), go_set_pool D pool d)) (\<lambda>_.
          bindr
            (if driver = ''sqlite'' then wrapr ''enable WAL'' (go_exec D ''PRAGMA journal_mode=WAL'')
             else retr ()) (\<lambda>_.
          bindr (wrapr ''migrate'' (MigrateAll D G)) (\<lambda>_.
          wrapr ''ensure default group'' (ensure_default_group G)))))))"

subsection \<open>What it leaves in the database\<close>

text \<open>
  Connecting, the pool and the journal mode do not touch rows, and \<open>AutoMigrate\<close> only adds
  tables and columns: the rows, seen through the models, are the same, whether or not it fails.
\<close>

locale database_setup = gorm_api G tabs for G :: "'d gorm" and tabs :: "'d \<Rightarrow> tables" +
  fixes D :: "'d db_setup"
  assumes open_keeps: "tabs (snd (go_open D dl dsn d)) = tabs d"
    and sql_db_keeps: "tabs (snd (go_sql_db D d)) = tabs d"
    and pool_keeps: "tabs (go_set_pool D pool d) = tabs d"
    and exec_keeps: "tabs (snd (go_exec D sql d)) = tabs d"
    and migrate_keeps: "tabs (snd (go_auto_migrate D models d)) = tabs d"

text \<open>
  The tables after a start, as far as it came: the admin's flag may be set (with \<open>b\<close> it is),
  the default group may be added (only with \<open>c\<close>, and then it is there), nothing else differs.
\<close>

definition admin_backfilled :: "bool \<Rightarrow> row option \<Rightarrow> row option \<Rightarrow> bool" where
  "admin_backfilled b r r' \<longleftrightarrow>
     (r' = r \<and> \<not> b) \<or>
     (case r of
        Some (RUser u) \<Rightarrow> \<exists>t. r' = Some (RUser (u\<lparr>us_is_admin := True, us_updated := t\<rparr>))
      | _ \<Rightarrow> r' = r)"

definition group_ensured :: "bool \<Rightarrow> row option \<Rightarrow> row option \<Rightarrow> bool" where
  "group_ensured c r r' \<longleftrightarrow>
     (r' = r \<and> (c \<longrightarrow> r \<noteq> None)) \<or> (c \<and> r = None \<and> (\<exists>x. r' = Some x \<and> stored (RGroup default_group) x))"

definition started :: "bool \<Rightarrow> bool \<Rightarrow> tables \<Rightarrow> tables \<Rightarrow> bool" where
  "started b c t t' \<longleftrightarrow>
     (\<forall>k. k \<noteq> KGroup DefaultGroupName \<and> k \<noteq> KUser ''admin'' \<longrightarrow> t' k = t k) \<and>
     admin_backfilled b (t (KUser ''admin'')) (t' (KUser ''admin'')) \<and>
     group_ensured c (t (KGroup DefaultGroupName)) (t' (KGroup DefaultGroupName))"

lemma admin_backfilled_flag: "admin_backfilled True r r' \<Longrightarrow> \<forall>u. r' = Some (RUser u) \<longrightarrow> us_is_admin u"
  by (auto simp: admin_backfilled_def split: option.splits row.splits)

lemma admin_backfilled_kept:
  "admin_backfilled b (Some (RUser u)) r' \<Longrightarrow> \<exists>a t. r' = Some (RUser (u\<lparr>us_is_admin := a, us_updated := t\<rparr>))"
proof -
  assume "admin_backfilled b (Some (RUser u)) r'"
  then consider "r' = Some (RUser u)" | t where "r' = Some (RUser (u\<lparr>us_is_admin := True, us_updated := t\<rparr>))"
    by (auto simp: admin_backfilled_def)
  then show ?thesis
  proof cases
    case 1
    then show ?thesis by (intro exI [of _ "us_is_admin u"] exI [of _ "us_updated u"]) simp
  qed blast
qed

lemma group_ensured_there: "group_ensured True r r' \<Longrightarrow> \<exists>x. r' = Some x"
  by (auto simp: group_ensured_def)

lemma group_ensured_kept: "group_ensured c (Some g) r' \<Longrightarrow> r' = Some g"
  by (auto simp: group_ensured_def)

lemma key_of_KUser: "key_of r = KUser n \<longleftrightarrow> (\<exists>u. r = RUser u \<and> us_name u = n)"
  by (cases r) auto

lemma key_of_KGroup: "key_of r = KGroup n \<longleftrightarrow> (\<exists>g. r = RGroup g \<and> ag_name g = n)"
  by (cases r) auto

lemma on_admin: "on as_user (\<lambda>u. us_name u = n) r \<longleftrightarrow> key_of r = KUser n"
  by (cases r) (auto simp: on_def)

lemma on_default: "on as_group (\<lambda>g. ag_name g = n) r \<longleftrightarrow> key_of r = KGroup n"
  by (cases r) (auto simp: on_def)

lemma stored_account:
  assumes "stored (RUser u) r'"
  shows "\<exists>t. r' = RUser (u\<lparr>us_updated := t\<rparr>)"
proof (cases r')
  case (RUser u')
  then have "u\<lparr>us_updated := 0\<rparr> = u'\<lparr>us_updated := 0\<rparr>" using assms by (simp add: stored_def)
  then have "u\<lparr>us_updated := us_updated u'\<rparr> = u'"
    by (metis User.surjective User.update_convs(8))
  with RUser show ?thesis by (metis (no_types))
qed (use assms in \<open>simp_all add: stored_def\<close>)

lemma change_rows_None: "change_rows P f t t' \<Longrightarrow> t k = None \<Longrightarrow> t' k = None"
  by (drule change_rows_def [THEN iffD1, THEN spec [of _ k]]) simp

lemma change_rows_Some:
  "change_rows P f t t' \<Longrightarrow> t k = Some r \<Longrightarrow> \<exists>r'. t' k = Some r' \<and> (if P r then stored (f r) r' else r' = r)"
  by (drule change_rows_def [THEN iffD1, THEN spec [of _ k]]) simp

lemma backfill_admin_started:
  assumes w: "well_keyed t" and c: "change_rows P f t t'"
    and P: "P = on as_user (\<lambda>u. us_name u = ''admin'')"
    and f: "f = setting as_user RUser (\<lambda>u. u\<lparr>us_is_admin := True\<rparr>)"
  shows "started True False t t'"
proof -
  have same: "t' k = t k" if "k \<noteq> KUser ''admin''" for k
  proof (cases "t k")
    case None
    with change_rows_None [OF c] show ?thesis by simp
  next
    case (Some r)
    with w that have "\<not> P r" by (simp add: P on_admin well_keyed_def)
    with change_rows_Some [OF c Some] Some show ?thesis by simp
  qed
  have "admin_backfilled True (t (KUser ''admin'')) (t' (KUser ''admin''))"
  proof (cases "t (KUser ''admin'')")
    case None
    with change_rows_None [OF c None] show ?thesis by (simp add: admin_backfilled_def)
  next
    case (Some r)
    with w have "key_of r = KUser ''admin''" by (simp add: well_keyed_def)
    then obtain u where r: "r = RUser u" "us_name u = ''admin''" unfolding key_of_KUser by blast
    then have "P r" by (simp add: P on_admin)
    with change_rows_Some [OF c Some] obtain r' where "t' (KUser ''admin'') = Some r'" "stored (f r) r'"
      by auto
    with Some r show ?thesis
      by (auto simp: f setting_def admin_backfilled_def dest!: stored_account)
  qed
  with same show ?thesis by (auto simp: started_def group_ensured_def)
qed

lemma started_refl: "started False False t t"
  by (simp add: started_def admin_backfilled_def group_ensured_def)

lemma started_weaken: "started b False t t' \<Longrightarrow> started False False t t'"
  by (auto simp: started_def admin_backfilled_def group_ensured_def split: option.splits row.splits)

lemma started_ensure:
  assumes "started b False t t1" and "well_keyed t1"
    and "stmt_ok (FirstOrCreate (on as_group (\<lambda>g. ag_name g = DefaultGroupName)) (RGroup default_group)) t1 x t2"
  shows "started b True t t2"
proof -
  let ?k = "KGroup DefaultGroupName"
  have g: "t1 ?k = t ?k" using assms(1) by (auto simp: started_def group_ensured_def)
  have there: "(\<exists>r \<in> ran t1. on as_group (\<lambda>g. ag_name g = DefaultGroupName) r) \<longleftrightarrow> t1 ?k \<noteq> None"
    using assms(2) by (fastforce simp: on_default well_keyed_def ran_def)
  show ?thesis
  proof (cases "t1 ?k")
    case (Some r)
    with assms(3) there have "t2 = t1" by simp
    with assms(1) Some g show ?thesis by (auto simp: started_def group_ensured_def)
  next
    case None
    with assms(3) there obtain x where x: "stored (RGroup default_group) x" "t2 = t1(key_of x \<mapsto> x)"
      by auto
    with stored_key [OF x(1)] have "t2 = t1(?k \<mapsto> x)" by (simp add: default_group_def)
    with assms(1) None g x(1) show ?thesis by (auto simp: started_def group_ensured_def)
  qed
qed

context database_setup
begin

lemma exec_done: "exec G q d = (Inr u, d') \<Longrightarrow> \<exists>x. stmt_ok q (tabs d) x (tabs d')"
  by (auto simp: exec_def split: prod.splits sum.splits dest: succeeded)

lemma exec_failed: "exec G q d = (Inl e, d') \<Longrightarrow> tabs d' = tabs d"
  by (auto simp: exec_def split: prod.splits sum.splits dest: failed)

lemma migrate_started:
  assumes "MigrateAll D G d = (r, d')"
  shows "started (result_ok r) False (tabs d) (tabs d')"
proof -
  obtain r1 d1 where m: "go_auto_migrate D migrated_models d = (r1, d1)" by fastforce
  with migrate_keeps [of migrated_models d] have t: "tabs d1 = tabs d" by simp
  show ?thesis
  proof (cases r1)
    case (Inl e)
    with assms m t show ?thesis by (auto simp: MigrateAll_def bindr_def started_refl)
  next
    case (Inr u)
    with assms m have e: "exec G (Write backfill_admin) d1 = (r, d')" by (simp add: MigrateAll_def bindr_def)
    show ?thesis
    proof (cases r)
      case (Inl err)
      with exec_failed e t show ?thesis by (simp add: started_refl)
    next
      case (Inr u)
      with exec_done e have "change_rows (on as_user (\<lambda>u. us_name u = ''admin''))
          (setting as_user RUser (\<lambda>u. u\<lparr>us_is_admin := True\<rparr>)) (tabs d) (tabs d')"
        by (fastforce simp: backfill_admin_def t)
      from backfill_admin_started [OF well_keyed_tabs this refl refl] Inr show ?thesis by simp
    qed
  qed
qed

lemma ensure_started:
  assumes "ensure_default_group G d1 = (r, d')" and "started True False t (tabs d1)"
  shows "started (result_ok r) (result_ok r) t (tabs d')"
proof (cases r)
  case (Inl e)
  with assms exec_failed show ?thesis by (auto simp: ensure_default_group_def dest: started_weaken)
next
  case (Inr u)
  with assms(1) exec_done obtain x where
    "stmt_ok (FirstOrCreate (on as_group (\<lambda>g. ag_name g = DefaultGroupName)) (RGroup default_group)) (tabs d1) x (tabs d')"
    unfolding ensure_default_group_def by blast
  from started_ensure [OF assms(2) well_keyed_tabs this] Inr show ?thesis by simp
qed

lemma new_store_started:
  assumes "NewStore D G driver dsn pool d = (r, d')"
  shows "started (result_ok r) (result_ok r) (tabs d) (tabs d')"
proof (cases "dialector driver")
  case None
  with assms show ?thesis by (auto simp: NewStore_def failr_def started_refl)
next
  case (Some dl)
  let ?wal = "if driver = ''sqlite'' then wrapr ''enable WAL'' (go_exec D ''PRAGMA journal_mode=WAL'') else retr ()"
  let ?opened = "bindr (wrapr ''open db'' (go_open D dl dsn)) (\<lambda>_.
    bindr (wrapr ''get sql.DB'' (go_sql_db D)) (\<lambda>_.
    bindr (\<lambda>d. (Inr (), go_set_pool D pool d)) (\<lambda>_. ?wal)))"
  let ?rows = "bindr (wrapr ''migrate'' (MigrateAll D G)) (\<lambda>_.
    wrapr ''ensure default group'' (ensure_default_group G))"
  have new: "NewStore D G driver dsn pool d = bindr ?opened (\<lambda>_. ?rows) d"
    using Some by (simp add: NewStore_def bindr_def split: prod.splits sum.splits)
  have kept: "tabs (snd (?opened d)) = tabs d"
    using open_keeps [of dl dsn] sql_db_keeps pool_keeps [of pool] exec_keeps
    by (auto simp: bindr_def wrapr_def retr_def split: prod.splits sum.splits) (metis snd_conv)+
  obtain r1 d1 where s: "?opened d = (r1, d1)" by fastforce
  show ?thesis
  proof (cases r1)
    case (Inl e)
    with assms new s kept show ?thesis by (auto simp: bindr_def [of ?opened] started_refl)
  next
    case (Inr u)
    with assms new s have rows: "?rows d1 = (r, d')" by (simp add: bindr_def [of ?opened])
    obtain r2 d2 where m: "MigrateAll D G d1 = (r2, d2)" by fastforce
    have t: "started (result_ok r2) False (tabs d) (tabs d2)" using migrate_started [OF m] kept s by simp
    show ?thesis
    proof (cases r2)
      case (Inl e)
      with rows m t show ?thesis by (auto simp: bindr_def wrapr_def)
    next
      case (Inr u)
      obtain r3 d3 where e: "ensure_default_group G d2 = (r3, d3)" by fastforce
      with rows m Inr have "result_ok r = result_ok r3" "d' = d3"
        by (auto simp: bindr_def wrapr_def split: sum.splits)
      with ensure_started [OF e] t Inr show ?thesis by simp
    qed
  qed
qed

end

subsection \<open>On the database in memory\<close>

definition mem_setup :: "memdb db_setup" where
  "mem_setup =
     \<lparr>go_open = \<lambda>_ _ d. (Inr (), d), go_sql_db = \<lambda>d. (Inr (), d), go_set_pool = \<lambda>_ d. d,
      go_exec = \<lambda>_ d. (Inr (), d), go_auto_migrate = \<lambda>_ d. (Inr (), d)\<rparr>"

interpretation memopen: database_setup mem_gorm mem_tabs mem_setup
  by unfold_locales (simp_all add: mem_setup_def)

text \<open>
  C38. Opening the store makes it ready and loses nothing: for an unknown driver it fails and
  touches nothing; when it succeeds the default group exists and the account \<open>admin\<close>, if there
  is one, is an administrator; and however it ends, no row but these two is different, an
  existing default group is as it was, and the account keeps all but its flag.
\<close>

theorem new_store_ready:
  assumes "database_setup G tabs D" and "NewStore D G driver dsn pool d = (r, d')"
  shows "(dialector driver = None \<longrightarrow> (\<exists>e. r = Inl e) \<and> d' = d) \<and>
    (r = Inr () \<longrightarrow>
       (\<exists>g. tabs d' (KGroup DefaultGroupName) = Some (RGroup g)) \<and>
       (\<forall>u. tabs d' (KUser ''admin'') = Some (RUser u) \<longrightarrow> us_is_admin u)) \<and>
    (\<forall>k. k \<noteq> KGroup DefaultGroupName \<and> k \<noteq> KUser ''admin'' \<longrightarrow> tabs d' k = tabs d k) \<and>
    (\<forall>g. tabs d (KGroup DefaultGroupName) = Some g \<longrightarrow> tabs d' (KGroup DefaultGroupName) = Some g) \<and>
    (\<forall>u. tabs d (KUser ''admin'') = Some (RUser u) \<longrightarrow>
       (\<exists>a t. tabs d' (KUser ''admin'') = Some (RUser (u\<lparr>us_is_admin := a, us_updated := t\<rparr>))))"
proof -
  from database_setup.new_store_started [OF assms]
  have s: "started (result_ok r) (result_ok r) (tabs d) (tabs d')" .
  have k: "key_of x = KGroup DefaultGroupName" if "tabs d' (KGroup DefaultGroupName) = Some x" for x
    using gorm_api.keyed [OF database_setup.axioms(1) [OF assms(1)] that] .
  have unknown: "dialector driver = None \<longrightarrow> (\<exists>e. r = Inl e) \<and> d' = d"
    using assms(2) by (auto simp: NewStore_def failr_def)
  have ready: "(\<exists>g. tabs d' (KGroup DefaultGroupName) = Some (RGroup g)) \<and>
      (\<forall>u. tabs d' (KUser ''admin'') = Some (RUser u) \<longrightarrow> us_is_admin u)" if "r = Inr ()"
    using s that k by (auto simp: started_def key_of_KGroup dest!: group_ensured_there admin_backfilled_flag)
  have admin: "\<forall>u. tabs d (KUser ''admin'') = Some (RUser u) \<longrightarrow>
       (\<exists>a t. tabs d' (KUser ''admin'') = Some (RUser (u\<lparr>us_is_admin := a, us_updated := t\<rparr>)))"
    using s admin_backfilled_kept unfolding started_def by metis
  have grp: "\<forall>g. tabs d (KGroup DefaultGroupName) = Some g \<longrightarrow> tabs d' (KGroup DefaultGroupName) = Some g"
    using s group_ensured_kept unfolding started_def by metis
  from s have "\<forall>k. k \<noteq> KGroup DefaultGroupName \<and> k \<noteq> KUser ''admin'' \<longrightarrow> tabs d' k = tabs d k"
    by (simp add: started_def)
  with unknown ready grp admin show ?thesis by blast
qed

text \<open>An old database: an account \<open>admin\<close> without the flag, no default group.\<close>

definition old_admin :: User where
  "old_admin =
     \<lparr>us_name = ''admin'', us_password_hash = ''h'', us_is_admin = False, us_role = [], us_email = [],
      us_totp_secret = [], us_totp_enabled = False, us_updated = 5\<rparr>"

definition old_database :: memdb where
  "old_database = mem_empty\<lparr>mem_rows := [RUser old_admin]\<rparr>"

definition sample_pool :: PoolConfig where
  "sample_pool = \<lparr>MaxOpenConns = 25, MaxIdleConns = 10, ConnMaxLifetime = 0, ConnMaxIdleTime = 0\<rparr>"

theorem new_store_ready_witness:
  "\<exists>d' g u. NewStore mem_setup mem_gorm ''sqlite'' ''configs.db'' sample_pool old_database = (Inr (), d') \<and>
     mem_tabs old_database (KGroup DefaultGroupName) = None \<and>
     mem_tabs d' (KGroup DefaultGroupName) = Some (RGroup g) \<and>
     mem_tabs d' (KUser ''admin'') = Some (RUser u) \<and> us_is_admin u \<and> us_password_hash u = ''h''"
proof -
  have ok: "result_ok (fst (NewStore mem_setup mem_gorm ''sqlite'' ''configs.db'' sample_pool old_database))"
    by code_simp
  then obtain d' where n: "NewStore mem_setup mem_gorm ''sqlite'' ''configs.db'' sample_pool old_database = (Inr (), d')"
    by (cases "NewStore mem_setup mem_gorm ''sqlite'' ''configs.db'' sample_pool old_database" rule: prod.exhaust)
      (auto elim: result_ok.elims)
  have old: "mem_tabs old_database (KUser ''admin'') = Some (RUser old_admin)"
      "mem_tabs old_database (KGroup DefaultGroupName) = None"
    by (simp_all add: old_database_def mem_tabs_def old_admin_def)
  from new_store_ready [OF memopen.database_setup_axioms n] old(1)
  obtain g a t where "mem_tabs d' (KGroup DefaultGroupName) = Some (RGroup g)"
      "mem_tabs d' (KUser ''admin'') = Some (RUser (old_admin\<lparr>us_is_admin := a, us_updated := t\<rparr>))" "a"
    by fastforce
  moreover have "us_password_hash (old_admin\<lparr>us_is_admin := a, us_updated := t\<rparr>) = ''h''" by (simp add: old_admin_def)
  ultimately show ?thesis using n old(2) by auto
qed

end
