(* ===== verification/Commands.thy ===== *)
theory Commands
  imports Admin_Server Agent_Handler Background Store_Open
begin

section \<open>The agent server and the commands (internal/server/agent/server.go, cmd)\<close>

text \<open>
  A command reads its configuration, opens the store, connects to Redis where it uses it, makes
  the manager and the servers, and starts its goroutines; or it ends with a message
  (\<open>log.Fatalf\<close>). The result is the message or the system that runs then: its state, its servers
  and its goroutines. The caches of the given sizes, the Redis client and the embedded files of
  the web UI are parameters. Waiting for the signal and the shutdown of the servers
  (\<open>net/http\<close> lets running requests end) are not modelled, nor are the other log lines.
\<close>

subsection \<open>The agent server\<close>

text \<open>The codecs of the six messages, and the order in which Go iterates over a map.\<close>

record wire =
  wi_heartbeat :: "bytes \<Rightarrow> HeartbeatRequest option"
  wi_heartbeat_reply :: "HeartbeatResponse \<Rightarrow> bytes option"
  wi_fetch :: "bytes \<Rightarrow> FetchConfigRequest option"
  wi_fetch_reply :: "FetchConfigResponse \<Rightarrow> bytes option"
  wi_report :: "bytes \<Rightarrow> ReportStatusRequest option"
  wi_report_reply :: "ReportStatusResponse \<Rightarrow> bytes option"
  wi_order :: "string \<Rightarrow> string list \<Rightarrow> string list"

type_synonym ('d, 'f, 'r) agent_handler =
  "time \<Rightarrow> bytes \<times> bool \<Rightarrow> ('d, 'f, 'r) mgr \<Rightarrow> http_reply \<times> ('d, 'f, 'r) mgr"

definition RegisterAgentRoutes ::
  "wire \<Rightarrow> ('d, 'f, 'r) services \<Rightarrow> (string \<times> string \<times> ('d, 'f, 'r) agent_handler) list" where
  "RegisterAgentRoutes wi X =
     [(''POST'', ''/Agent/Heartbeat'', Heartbeat_h (wi_heartbeat wi) (wi_heartbeat_reply wi) (wi_order wi) X),
      (''POST'', ''/Agent/FetchConfig'', FetchConfig_h (wi_fetch wi) (wi_fetch_reply wi) X),
      (''POST'', ''/Agent/ReportStatus'', ReportStatus_h (wi_report wi) (wi_report_reply wi) X)]"

text \<open>The mux has these three literal patterns: another method gets 405, another path 404.\<close>

definition agent_mux ::
  "wire \<Rightarrow> ('d, 'f, 'r) services \<Rightarrow> string \<Rightarrow> string \<Rightarrow> ('d, 'f, 'r) agent_handler" where
  "agent_mux wi X req_method path now sent m =
     (case find (\<lambda>(_, p, _). p = path) (RegisterAgentRoutes wi X) of
        None \<Rightarrow> (HttpError 404 ''404 page not found'', m)
      | Some (pattern_method, _, h) \<Rightarrow>
          if pattern_method = req_method then h now sent m
          else (HttpError 405 ''Method Not Allowed'', m))"

record ('d, 'f, 'r) agent_server =
  gs_addr :: string
  gs_handler :: "wire \<Rightarrow> string \<Rightarrow> string \<Rightarrow> ('d, 'f, 'r) agent_handler"
  gs_read_timeout :: int
  gs_write_timeout :: int
  gs_idle_timeout :: int

definition NewAgentServer :: "string \<Rightarrow> ('d, 'f, 'r) services \<Rightarrow> ('d, 'f, 'r) agent_server" where
  "NewAgentServer addr X =
     \<lparr>gs_addr = addr, gs_handler = \<lambda>wi. agent_mux wi X,
      gs_read_timeout = 15 * second, gs_write_timeout = 15 * second, gs_idle_timeout = 60 * second\<rparr>"

subsection \<open>The password in the log (maskDSN)\<close>

definition maskDSN :: "string \<Rightarrow> string" where
  "maskDSN dsn =
     (if CHR ''@'' \<notin> set dsn then dsn
      else
        let from_at = CHR ''@'' # rev (takeWhile (\<lambda>c. c \<noteq> CHR ''@'') (rev dsn));
            creds = take (length dsn - length from_at) dsn
        in if CHR '':'' \<notin> set creds then dsn
           else takeWhile (\<lambda>c. c \<noteq> CHR '':'') creds @ '':***'' @ from_at)"

subsection \<open>The commands\<close>

record ('d, 'f, 'r) platform =
  pf_startup :: startup
  pf_setup :: "'d db_setup"
  pf_services :: "('d, 'f, 'r) services"
  pf_cache :: "int \<Rightarrow> 'f"
  pf_redis :: "string list \<Rightarrow> string \<Rightarrow> int \<Rightarrow> 'r"
  pf_web :: "err + web"
  pf_quote :: "string \<Rightarrow> string"
  pf_error :: "err \<Rightarrow> string"

text \<open>Where the metrics are pushed: URL, user, password and interval.\<close>

type_synonym push_settings = "string \<times> string \<times> string \<times> int"

record ('d, 'f, 'r) system =
  sy_state :: "('d, 'f, 'r) adm"
  sy_admin :: "('d, 'f, 'r) http_server option"
  sy_agent :: "('d, 'f, 'r) agent_server option"
  sy_push :: "push_settings option"
  sy_goroutines :: "goroutine list"
  sy_started :: string

definition pool_of :: "Config \<Rightarrow> PoolConfig" where
  "pool_of c =
     \<lparr>MaxOpenConns = cg_DBPoolMaxOpenConns c, MaxIdleConns = cg_DBPoolMaxIdleConns c,
      ConnMaxLifetime = cg_DBPoolConnMaxLifetime c, ConnMaxIdleTime = cg_DBPoolConnMaxIdleTime c\<rparr>"

definition new_manager :: "('d, 'f, 'r) platform \<Rightarrow> Config \<Rightarrow> 'r option \<Rightarrow> bool \<Rightarrow> 'd \<Rightarrow> ('d, 'f, 'r) mgr" where
  "new_manager P c rdb hfe d =
     New d (pf_cache P (cg_L1MaxSizeMB c)) (pf_cache P 64) rdb (cg_L1TTL c) (cg_L2TTL c) hfe"

definition push_of :: "Config \<Rightarrow> push_settings option" where
  "push_of c =
     (if cg_MetricsPushURL c = [] then None
      else Some (cg_MetricsPushURL c, cg_MetricsPushUsername c, cg_MetricsPushPassword c, cg_MetricsPushInterval c))"

definition fatal :: "('d, 'f, 'r) platform \<Rightarrow> string \<Rightarrow> err \<Rightarrow> string" where
  "fatal P what e = what @ '': '' @ pf_error P e"

text \<open>The store opens, or the command ends; so in every command.\<close>

definition with_store ::
  "('d, 'f, 'r) platform \<Rightarrow> Config \<Rightarrow> ('d \<Rightarrow> (string + 'a) \<times> 'd) \<Rightarrow> 'd \<Rightarrow> (string + 'a) \<times> 'd" where
  "with_store P c start_up d =
     (case NewStore (pf_setup P) (gorm (pf_services P)) (cg_DBDriver c) (cg_DBDSN c) (pool_of c) d of
        (Inl e, d1) \<Rightarrow> (Inl (fatal P ''open store'' e), d1)
      | (Inr _, d1) \<Rightarrow> start_up d1)"

definition loaded :: "('d, 'f, 'r) platform \<Rightarrow> string \<Rightarrow> (Config \<Rightarrow> 'd \<Rightarrow> (string + 'a) \<times> 'd) \<Rightarrow> 'd \<Rightarrow> (string + 'a) \<times> 'd" where
  "loaded P cfgFile start_up d =
     (case Load (pf_startup P) cfgFile of
        Inl e \<Rightarrow> (Inl (pf_error P e), d)
      | Inr c \<Rightarrow> start_up c d)"

definition distributed ::
  "('d, 'f, 'r) platform \<Rightarrow> string \<Rightarrow> (Config \<Rightarrow> 'd \<Rightarrow> (string + 'a) \<times> 'd) \<Rightarrow> 'd \<Rightarrow> (string + 'a) \<times> 'd" where
  "distributed P cfgFile start_up =
     loaded P cfgFile (\<lambda>c d.
       case ValidateDistributed (pf_quote P) c of
         Some e \<Rightarrow> (Inl (fatal P ''config validation'' e), d)
       | None \<Rightarrow> with_store P c (start_up c) d)"

definition redis_client :: "('d, 'f, 'r) platform \<Rightarrow> Config \<Rightarrow> 'r" where
  "redis_client P c = pf_redis P (cg_RedisAddrs c) (cg_RedisPassword c) (cg_RedisDB c)"

definition allinone_started :: "Config \<Rightarrow> string" where
  "allinone_started c =
     ''All-in-One ConfigServer started (agent='' @ AgentAddr c @ '', admin='' @ AdminAddr c @ '', db='' @
       cg_DBDriver c @ ''/'' @ maskDSN (cg_DBDSN c) @ '')''"

definition allinone_main :: "('d, 'f, 'r) platform \<Rightarrow> string \<Rightarrow> 'd \<Rightarrow> (string + ('d, 'f, 'r) system) \<times> 'd" where
  "allinone_main P cfgFile =
     loaded P cfgFile (\<lambda>c. with_store P c (\<lambda>d.
       let m = new_manager P c None False d;
           window = NewCollector (cg_MetricsOnlineWindow c)
       in case pf_web P of
            Inl e \<Rightarrow> (Inl (fatal P ''embed fs'' e), d)
          | Inr webFS \<Rightarrow>
              (case NewAdminServer (AdminAddr c) (pf_services P) m (Some webFS) (Some window) (cg_SMTP c) of
                 (adminSrv, s) \<Rightarrow>
                   (Inr \<lparr>sy_state = s, sy_admin = Some adminSrv,
                         sy_agent = Some (NewAgentServer (AgentAddr c) (pf_services P)),
                         sy_push = push_of c, sy_goroutines = StartGC m,
                         sy_started = allinone_started c\<rparr>, d))))"

definition admin_main :: "('d, 'f, 'r) platform \<Rightarrow> string \<Rightarrow> 'd \<Rightarrow> (string + ('d, 'f, 'r) system) \<times> 'd" where
  "admin_main P cfgFile =
     distributed P cfgFile (\<lambda>c d.
       let m = new_manager P c (Some (redis_client P c)) (cg_RedisHFE c) d;
           window = NewCollector (cg_MetricsOnlineWindow c)
       in case pf_web P of
            Inl e \<Rightarrow> (Inl (fatal P ''embed fs'' e), d)
          | Inr webFS \<Rightarrow>
              (case NewAdminServer (AdminAddr c) (pf_services P) m (Some webFS) (Some window) (cg_SMTP c) of
                 (adminSrv, s) \<Rightarrow>
                   (Inr \<lparr>sy_state = s, sy_admin = Some adminSrv, sy_agent = None,
                         sy_push = push_of c, sy_goroutines = StartGC m,
                         sy_started = ''Admin server started on '' @ AdminAddr c\<rparr>, d)))"

definition configserver_main :: "('d, 'f, 'r) platform \<Rightarrow> string \<Rightarrow> 'd \<Rightarrow> (string + ('d, 'f, 'r) system) \<times> 'd" where
  "configserver_main P cfgFile =
     distributed P cfgFile (\<lambda>c d.
       let m = new_manager P c (Some (redis_client P c)) (cg_RedisHFE c) d
       in (Inr \<lparr>sy_state = initSessionStore m, sy_admin = None,
                sy_agent = Some (NewAgentServer (AgentAddr c) (pf_services P)),
                sy_push = None, sy_goroutines = StartGC m,
                sy_started = ''ConfigServer (agent-only) started on '' @ AgentAddr c\<rparr>, d))"

end
