(* ===== verification/Agent_Frames.thy ===== *)
theory Agent_Frames
  imports Commands Admin_Frames
begin

section \<open>The agents' side leaves the database alone\<close>

text \<open>
  Serving agents, evicting them, and collecting and pushing metrics read the database and
  change what the manager keeps in memory and in Redis; no row changes, and whether there is a
  Redis does not either. \<open>leaves_rows\<close> says so of a method that returns a value,
  \<open>tidy\<close> of a step from one manager to the next.
\<close>

definition tidy :: "('d \<Rightarrow> tables) \<Rightarrow> ('d, 'f, 'r) mgr \<Rightarrow> ('d, 'f, 'r) mgr \<Rightarrow> bool" where
  "tidy tabs m m' \<longleftrightarrow> tabs (m_db m') = tabs (m_db m) \<and> (m_rdb m' = None \<longleftrightarrow> m_rdb m = None)"

definition leaves_rows :: "('d \<Rightarrow> tables) \<Rightarrow> (('d, 'f, 'r) mgr \<Rightarrow> 'x \<times> ('d, 'f, 'r) mgr) \<Rightarrow> bool" where
  "leaves_rows tabs f \<longleftrightarrow> (\<forall>m. tidy tabs m (snd (f m)))"

lemma tidy_refl [simp]: "tidy tabs m m"
  by (simp add: tidy_def)

lemma tidy_trans: "tidy tabs m m1 \<Longrightarrow> tidy tabs m1 m2 \<Longrightarrow> tidy tabs m m2"
  by (simp add: tidy_def)

lemma leavesD: "leaves_rows tabs f \<Longrightarrow> f m = (r, m') \<Longrightarrow> tidy tabs m m'"
  by (metis leaves_rows_def snd_conv)

lemma leaves_quiet: "calm.quiet tabs {} f \<Longrightarrow> leaves_rows tabs f"
  unfolding leaves_rows_def
proof
  fix m :: "('a, 'b, 'c) mgr"
  assume "calm.quiet tabs {} f"
  from this [unfolded calm.quiet_def, rule_format, of "initSessionStore m"]
  show "tidy tabs m (snd (f m))"
    by (auto simp: calm_def frame_def tidy_def initSessionStore_def)
qed

lemma leaves_bindr: "leaves_rows tabs f \<Longrightarrow> (\<And>x. leaves_rows tabs (g x)) \<Longrightarrow> leaves_rows tabs (bindr f g)"
  unfolding leaves_rows_def bindr_def by (auto simp: tidy_def split: prod.splits sum.splits)
    (metis snd_conv)+

lemma leaves_retr [simp]: "leaves_rows tabs (retr x)"
  by (simp add: leaves_rows_def retr_def)

lemma leaves_redis: "tidy tabs m (snd (on_redis X c m))" "tidy tabs m (redis_do X c m)"
  by (simp_all add: tidy_def cache_ops)

subsection \<open>The registry\<close>

lemma tidy_registry:
  "tidy tabs m (purge_statuses p m)"
  "tidy tabs m (evictOldestAgentLocked m)"
  "tidy tabs m (register a m)"
  "tidy tabs m (put_status st m)"
  by (simp_all add: tidy_def purge_statuses_def evictOldestAgentLocked_def register_def put_status_def Let_def
      split: option.split)

lemma tidy_drop_agents: "tidy tabs m (drop_agents ids m)"
  by (induction ids arbitrary: m) (auto simp: Let_def tidy_def)

lemma tidy_purge_all: "tidy tabs m (purge_all ids m)"
  by (induction ids arbitrary: m) (auto simp: tidy_def purge_statuses_def)

lemma tidy_redis_drop: "tidy tabs m (redis_drop_agents X ids m)"
  by (induction ids arbitrary: m) (auto simp: tidy_def cache_ops simp del: not_None_eq)

lemma tidy_evict: "tidy tabs m (evictStaleAgents X now m)"
proof -
  let ?stale = "map fst (filter (\<lambda>(_, a). is_stale now a) (m_agents m))"
  let ?m2 = "purge_all ?stale (drop_agents ?stale m)"
  have m2: "tidy tabs m ?m2" by (rule tidy_trans [OF tidy_drop_agents tidy_purge_all])
  then have "tidy tabs m (redis_drop_agents X ?stale ?m2)" by (rule tidy_trans [OF _ tidy_redis_drop])
  with m2 tidy_drop_agents show ?thesis
    by (simp add: evictStaleAgents_def Let_def split: option.split)
qed

lemma leaves_upserts:
  "leaves_rows tabs (UpsertAgent_m X a)"
  "leaves_rows tabs (UpsertAgentConfigStatus_m X now st)"
  unfolding leaves_rows_def UpsertAgent_m_def UpsertAgentConfigStatus_m_def Let_def
  by (auto intro: tidy_trans [OF tidy_registry(3)] tidy_trans [OF tidy_registry(4)] tidy_registry(3,4)
      leaves_redis split: option.split)

lemma tidy_save_statuses: "tidy tabs m (saveStatusList X now i cfgs ct m)"
  by (induction cfgs arbitrary: m)
    (auto intro: tidy_trans leaves_upserts(2) [unfolded leaves_rows_def, rule_format])

lemma leaves_fetch_statuses: "leaves_rows tabs (fetch_statuses X keys)"
  unfolding leaves_rows_def
proof
  fix m :: "('a, 'b, 'c) mgr"
  show "tidy tabs m (snd (fetch_statuses X keys m))"
  proof (induction keys arbitrary: m)
    case (Cons key keys)
    obtain r m1 where r: "on_redis X (RHGetAll key) m = (r, m1)" by fastforce
    with leaves_redis(1) [of tabs m X "RHGetAll key"] have "tidy tabs m m1" by simp
    with r Cons.IH [of m1] show ?case
      by (auto simp: split_beta intro: tidy_trans split: sum.split redis_reply.split)
  qed simp
qed

context account_store
begin

lemma leaves_reads:
  "leaves_rows tabs (GetAgent_m X i)"
  "leaves_rows tabs (ListAgents_m ord X)"
  "leaves_rows tabs (GetPipelineConfig_m X n)"
  "leaves_rows tabs (GetInstanceConfig_m X n)"
  "leaves_rows tabs (GetOnetimeCommand_m X n)"
  by (intro leaves_quiet quiet_registry quiet_cached_reads)+

lemma leaves_list_statuses: "leaves_rows tabs (ListAgentConfigStatuses_m ord X)"
  unfolding leaves_rows_def
proof
  fix m :: "('d, 'f, 'r) mgr"
  obtain r m1 where r: "on_redis X (RScan (prefixStatus @ ''*'')) m = (r, m1)" by fastforce
  with leaves_redis(1) [of tabs m X] have "tidy tabs m m1" by (metis snd_conv)
  with r leaves_fetch_statuses [of tabs X, unfolded leaves_rows_def] show "tidy tabs m (snd (ListAgentConfigStatuses_m ord X m))"
    by (auto simp: ListAgentConfigStatuses_m_def split_beta intro: tidy_trans
        split: option.split sum.split redis_reply.split)
qed

lemma leaves_canaries: "leaves_rows tabs (getActiveCanaries X)"
  unfolding leaves_rows_def
proof
  fix m :: "('d, 'f, 'r) mgr"
  obtain x m1 where g: "resolve_get X decode_canaries keyResolveCanaries m = (x, m1)" by fastforce
  then have m1: "tidy tabs m m1" by (auto simp: resolve_get_def tidy_def split: prod.splits)
  obtain r m2 where l: "on_db (ListCanaries (gorm X)) m1 = (r, m2)" by fastforce
  have "leaves_rows tabs (on_db (ListCanaries (gorm X)) :: ('d, 'f, 'r) mgr \<Rightarrow> _)"
    by (rule leaves_quiet) (simp add: quiet_reads [unfolded ListCanaries_m_def])
  with l have "tidy tabs m1 m2" by (rule leavesD [rotated])
  then show "tidy tabs m (snd (getActiveCanaries X m))"
    using m1 g l by (auto simp: getActiveCanaries_def resolve_set_def Let_def tidy_def split: option.split sum.split)
qed

lemma leaves_hydrate:
  fixes get :: "string \<Rightarrow> ('d, 'f, 'r) mgr \<Rightarrow> (err + 'a) \<times> ('d, 'f, 'r) mgr"
  assumes "\<And>n. leaves_rows tabs (get n)"
  shows "leaves_rows tabs (hydrate get adapt names)"
  unfolding leaves_rows_def
proof
  fix m :: "('d, 'f, 'r) mgr"
  show "tidy tabs m (snd (hydrate get adapt names m))"
  proof (induction names arbitrary: m)
    case (Cons n names)
    obtain r m1 where g: "get n m = (r, m1)" by fastforce
    have "tidy tabs m m1" by (rule leavesD [OF assms g])
    with g Cons.IH [of m1] show ?case
      by (auto simp: split_beta intro: tidy_trans split: sum.split)
  qed simp
qed

lemma leaves_hydrate_set: "leaves_rows tabs (hydrateAgentConfigSet X aset match)"
  unfolding hydrateAgentConfigSet_def Let_def
  by (intro leaves_bindr leaves_canaries leaves_hydrate leaves_reads leaves_retr)

lemma leaves_resolution: "leaves_rows tabs (GetConfigsForAgent_m X match)"
  unfolding leaves_rows_def
proof
  fix m :: "('d, 'f, 'r) mgr"
  let ?key = "resolveAgentKey match m"
  obtain x m1 where g: "resolve_get X decode_set ?key m = (x, m1)" by fastforce
  then have m1: "tidy tabs m m1" by (auto simp: resolve_get_def tidy_def split: prod.splits)
  obtain r m2 where l: "on_db (GetConfigsForAgent (gorm X) match) m1 = (r, m2)" by fastforce
  have "tabs (snd (GetConfigsForAgent (gorm X) match d)) = tabs d" for d
    using gorm_api.keeps_GetConfigsForAgent [OF database] by (simp add: keeps_def)
  with l have m2: "tidy tabs m1 m2" by (auto simp: on_db_def tidy_def split_beta)
  have set: "tidy tabs m2 (resolve_set X k b ttl m2)" for k b ttl by (simp add: resolve_set_def tidy_def)
  have hyd: "tidy tabs m3 (snd (hydrateAgentConfigSet X aset match m3))" for aset m3
    using leaves_hydrate_set by (simp add: leaves_rows_def)
  show "tidy tabs m (snd (GetConfigsForAgent_m X match m))"
  proof (cases x)
    case (Some aset)
    with g m1 hyd [of m1 aset] show ?thesis by (auto simp: GetConfigsForAgent_m_def intro: tidy_trans)
  next
    case None
    have "tidy tabs m m2" using m1 m2 by (rule tidy_trans)
    with None g l set hyd show ?thesis
      by (simp add: GetConfigsForAgent_m_def tidy_def split: sum.split)
  qed
qed

subsection \<open>The agent server and the metrics\<close>

lemma leaves_heartbeat: "leaves_rows tabs (heartbeat ord X now req)"
  unfolding leaves_rows_def
proof
  fix m :: "('d, 'f, 'r) mgr"
  obtain found m1 where 1: "GetAgent_m X (hb_instance_id req) m = (found, m1)" by fastforce
  let ?agent = "buildAgent now req"
  let ?m2 = "snd (UpsertAgent_m X ?agent m1)"
  let ?m3 = "saveConfigStatuses X now req (hb_instance_id req) ?m2"
  obtain r m4 where 4: "GetConfigsForAgent_m X (match_context ?agent req) ?m3 = (r, m4)" by fastforce
  have "tidy tabs m m1" by (rule leavesD [OF leaves_reads(1) 1])
  moreover have "tidy tabs m1 ?m2" by (rule leaves_upserts(1) [unfolded leaves_rows_def, rule_format])
  moreover have "tidy tabs ?m2 ?m3"
    by (simp add: saveConfigStatuses_def Let_def tidy_def tidy_save_statuses [unfolded tidy_def])
  moreover have "tidy tabs ?m3 m4" by (rule leavesD [OF leaves_resolution 4])
  ultimately have "tidy tabs m m4" by (blast intro: tidy_trans)
  then show "tidy tabs m (snd (heartbeat ord X now req m))"
    using 1 4 by (auto simp: heartbeat_def Let_def split: sum.split)
qed

lemma leaves_fetch_updates:
  fixes get :: "string \<Rightarrow> ('d, 'f, 'r) mgr \<Rightarrow> (err + config_row) \<times> ('d, 'f, 'r) mgr"
  assumes "\<And>n. leaves_rows tabs (get n)"
  shows "leaves_rows tabs (fetch_updates get cfgs)"
  unfolding leaves_rows_def
proof
  fix m :: "('d, 'f, 'r) mgr"
  show "tidy tabs m (snd (fetch_updates get cfgs m))"
  proof (induction cfgs arbitrary: m)
    case (Cons ci cfgs)
    obtain r m1 where g: "get (ci_name ci) m = (r, m1)" by fastforce
    have "tidy tabs m m1" by (rule leavesD [OF assms g])
    with g Cons.IH [of m1] show ?case by (auto simp: split_beta intro: tidy_trans)
  qed simp
qed

lemma leaves_fetch_commands: "leaves_rows tabs (fetch_commands X now cfgs)"
  unfolding leaves_rows_def
proof
  fix m :: "('d, 'f, 'r) mgr"
  show "tidy tabs m (snd (fetch_commands X now cfgs m))"
  proof (induction cfgs arbitrary: m)
    case (Cons ci cfgs)
    obtain r m1 where g: "GetOnetimeCommand_m X (ci_name ci) m = (r, m1)" by fastforce
    have "tidy tabs m m1" by (rule leavesD [OF leaves_reads(5) g])
    with g Cons.IH [of m1] show ?case by (auto simp: split_beta intro: tidy_trans)
  qed simp
qed

lemma leaves_fetch: "leaves_rows tabs (fetch_config X now req)"
  unfolding leaves_rows_def
proof
  fix m :: "('d, 'f, 'r) mgr"
  obtain ps m1 where 1: "fetch_updates (GetPipelineConfig_m X) (fq_pipelines req) m = (ps, m1)" by fastforce
  obtain xs m2 where 2: "fetch_updates (GetInstanceConfig_m X) (fq_instances req) m1 = (xs, m2)" by fastforce
  obtain cs m3 where 3: "fetch_commands X now (fq_onetimes req) m2 = (cs, m3)" by fastforce
  have "tidy tabs m m1" by (rule leavesD [OF leaves_fetch_updates [OF leaves_reads(3)] 1])
  also have "tidy tabs m1 m2" by (rule leavesD [OF leaves_fetch_updates [OF leaves_reads(4)] 2])
  finally (tidy_trans) have "tidy tabs m m3" using leavesD [OF leaves_fetch_commands 3] tidy_trans by blast
  with 1 2 3 show "tidy tabs m (snd (fetch_config X now req m))" by (simp add: fetch_config_def)
qed

lemma tidy_report: "tidy tabs m (snd (report_status X now req m))"
  by (simp add: report_status_def Let_def tidy_def tidy_save_statuses [unfolded tidy_def])

lemma tidy_agent_mux:
  assumes "agent_mux wi X req_method path now sent m = (out, m')"
  shows "tidy tabs m m'"
proof -
  have "tidy tabs m (snd (h now sent m))" if "(a, p, h) \<in> set (RegisterAgentRoutes wi X)" for a p h
  proof -
    have "leaves_rows tabs (heartbeat (wi_order wi) X now req)" "leaves_rows tabs (fetch_config X now req')" for req req'
      by (rule leaves_heartbeat leaves_fetch)+
    then show ?thesis
      using that tidy_report [of m now]
      by (auto simp: RegisterAgentRoutes_def Heartbeat_h_def FetchConfig_h_def ReportStatus_h_def leaves_rows_def
          split_beta split: option.split)
  qed
  with assms show ?thesis
    by (auto simp: agent_mux_def split: option.splits if_splits prod.splits dest!: find_Some_mem) (metis snd_conv)+
qed

lemma leaves_fleet: "leaves_rows tabs (read_fleet X w)"
  unfolding leaves_rows_def
proof
  fix m :: "('d, 'f, 'r) mgr"
  obtain r m1 where 1: "ListAgents_m (w_agent_order w) X m = (r, m1)" by fastforce
  obtain r2 m2 where 2: "ListAgentConfigStatuses_m (w_status_order w) X m1 = (r2, m2)" by fastforce
  have "tidy tabs m m1" by (rule leavesD [OF leaves_reads(2) 1])
  moreover have "tidy tabs m1 m2" by (rule leavesD [OF leaves_list_statuses 2])
  ultimately show "tidy tabs m (snd (read_fleet X w m))"
    using 1 2 by (auto simp: read_fleet_def intro: tidy_trans split: sum.split)
qed

lemma leaves_metrics: "leaves_rows tabs (MetricsHandler X w window)"
  using leaves_fleet [of w]
  by (auto simp: leaves_rows_def MetricsHandler_def Collect_text_def split_beta split: sum.split)

lemma tidy_push:
  assumes "pushWithLease X w window post url user pass interval (m, h) = (e, m', h')"
  shows "tidy tabs m m'"
proof -
  have push: "tidy tabs m1 (fst (snd (push X w window post url user pass (m1, h1))))" for m1 h1
    using leaves_fleet [of w] unfolding leaves_rows_def
    by (auto simp: push_def CollectProto_def split_beta split: sum.split)
  show ?thesis
  proof (cases "m_rdb m = None")
    case True
    with assms push [of m h] show ?thesis by (simp add: pushWithLease_def)
  next
    case False
    let ?token = "hex_encode (w_random w 16)"
    let ?ttl = "if wrap64 (interval * 2) < minute then minute else wrap64 (interval * 2)"
    obtain r m1 where r: "on_redis X (RSetNX pushLockName (JRaw ?token) ?ttl) m = (r, m1)" by fastforce
    have "tidy tabs m m1" using leaves_redis(1) r by (metis snd_conv)
    moreover obtain e2 m2 h2 where p: "push X w window post url user pass (m1, h) = (e2, m2, h2)" by (metis prod_cases3)
    moreover have "tidy tabs m1 m2" using push [of m1 h] p by simp
    moreover have "tidy tabs m2 (redis_do X c m2)" for c by (rule leaves_redis)
    ultimately show ?thesis
      using assms False r
      by (auto simp: pushWithLease_def Let_def intro: tidy_trans split: sum.splits redis_reply.splits bool.splits)
  qed
qed

end

end
