(* ===== verification/Default_Group.thy ===== *)
theory Default_Group
  imports Admin_Frames
begin

section \<open>The default group cannot be deleted\<close>

text \<open>
  The relation \<open>default_kept\<close> on states: if the default group was there, it still is. It is an
  instance of the rules of \<open>Step_Frames\<close>, and every handler of the admin API stays within it:
  of the methods of the manager only three write groups, and none of these drops the row.
\<close>

definition default_kept :: "('d \<Rightarrow> tables) \<Rightarrow> ('d, 'f, 'r) adm \<Rightarrow> ('d, 'f, 'r) adm \<Rightarrow> bool" where
  "default_kept tabs s s' \<longleftrightarrow>
     (tabs (m_db (s_mgr s)) (KGroup DefaultGroupName) \<noteq> None \<longrightarrow>
      tabs (m_db (s_mgr s')) (KGroup DefaultGroupName) \<noteq> None)"

interpretation kept: step_relation "default_kept tabs" for tabs
  by unfold_locales (auto simp: default_kept_def)

lemma calm_kept: "calm tabs K s s' \<Longrightarrow> TGroup \<notin> K \<Longrightarrow> default_kept tabs s s'"
  by (simp add: calm_def frame_def default_kept_def)

lemma kept_quiet: "calm.quiet tabs (- {TGroup}) f \<Longrightarrow> kept.quiet tabs f"
  unfolding calm.quiet_def kept.quiet_def using calm_kept by (metis ComplD insertI1)

lemma kept_same_db: "(\<And>s. m_db (s_mgr (snd (f s))) = m_db (s_mgr s)) \<Longrightarrow> default_kept tabs s (snd (f s))"
  by (simp add: default_kept_def)

text \<open>Methods built from others.\<close>

lemma kept_bindr:
  assumes "kept.quiet tabs f" and "\<And>x. kept.quiet tabs (g x)"
  shows "kept.quiet tabs (bindr f g)"
  unfolding kept.quiet_def
proof
  fix s :: "('a, 'b, 'c) adm"
  obtain r m where f: "f (s_mgr s) = (r, m)" by fastforce
  have "default_kept tabs s (s\<lparr>s_mgr := m\<rparr>)" using assms(1) f by (metis kept.quiet_def snd_conv)
  moreover have "default_kept tabs (s\<lparr>s_mgr := m\<rparr>) (s\<lparr>s_mgr := snd (g x m)\<rparr>)" for x
    using assms(2) [of x, unfolded kept.quiet_def, rule_format, of "s\<lparr>s_mgr := m\<rparr>"] by simp
  ultimately show "default_kept tabs s (s\<lparr>s_mgr := snd (bindr f g (s_mgr s))\<rparr>)"
    using kept.trans by (simp add: bindr_def f split: sum.split) blast
qed

lemma kept_retr: "kept.quiet tabs (retr x)"
  by (simp add: kept.quiet_def retr_def default_kept_def)

lemma kept_option:
  "kept.quiet tabs f \<Longrightarrow> (\<And>x. kept.quiet tabs (g x)) \<Longrightarrow> kept.quiet tabs (case y of None \<Rightarrow> f | Some x \<Rightarrow> g x)"
  by (simp split: option.split)

lemma kept_if: "kept.quiet tabs f \<Longrightarrow> kept.quiet tabs g \<Longrightarrow> kept.quiet tabs (if b then f else g)"
  by simp

context account_store
begin

subsection \<open>The methods of the manager\<close>

lemmas kept_other [step_intros] =
  quiet_reads [THEN kept_quiet] quiet_groups(4-6) [THEN kept_quiet] quiet_configs [THEN kept_quiet]
  quiet_logs [THEN kept_quiet] quiet_cached_reads [THEN kept_quiet] quiet_registry [THEN kept_quiet]

lemma kept_write:
  assumes "\<And>d d'. w d = (Inr (), d') \<Longrightarrow> tabs d (KGroup DefaultGroupName) \<noteq> None \<Longrightarrow> tabs d' (KGroup DefaultGroupName) \<noteq> None"
    and "confined tabs K w"
  shows "kept.quiet tabs (and_then w (invalidateResolveCache X))"
  unfolding kept.quiet_def default_kept_def
proof
  fix s :: "('d, 'f, 'r) adm"
  obtain r d' where w: "w (m_db (s_mgr s)) = (r, d')" by fastforce
  then have "tabs d' (KGroup DefaultGroupName) \<noteq> None" if "tabs (m_db (s_mgr s)) (KGroup DefaultGroupName) \<noteq> None"
    using that assms by (cases r) (auto simp: confined_def)
  with w show "tabs (m_db (s_mgr s)) (KGroup DefaultGroupName) \<noteq> None \<longrightarrow>
      tabs (m_db (s_mgr (s\<lparr>s_mgr := snd (and_then w (invalidateResolveCache X) (s_mgr s))\<rparr>))) (KGroup DefaultGroupName) \<noteq> None"
    by (simp add: and_then_def on_db_def cache_ops split: sum.split)
qed

lemma kept_groups [step_intros]:
  "kept.quiet tabs (CreateGroup_m X g)"
  "kept.quiet tabs (UpdateGroup_m X g)"
  "kept.quiet tabs (DeleteGroup_m X n)"
proof -
  show "kept.quiet tabs (CreateGroup_m X g)"
    unfolding CreateGroup_m_def
  proof (rule kept_write [OF _ store_writes(1)])
    fix d d' assume new: "CreateGroup (gorm X) g d = (Inr (), d')" and there: "tabs d (KGroup DefaultGroupName) \<noteq> None"
    from write_create_single [OF gorm_api.exec_write [OF database new [unfolded CreateGroup_def]]] obtain r' where "tabs d' = (tabs d)(key_of (RGroup g) \<mapsto> r')" by auto
    with there show "tabs d' (KGroup DefaultGroupName) \<noteq> None" by simp
  qed
  show "kept.quiet tabs (UpdateGroup_m X g)"
    unfolding UpdateGroup_m_def
  proof (rule kept_write [OF _ store_writes(2)])
    fix d d' assume save: "UpdateGroup (gorm X) g d = (Inr (), d')" and there: "tabs d (KGroup DefaultGroupName) \<noteq> None"
    from gorm_api.exec_write [OF database save [unfolded UpdateGroup_def]] there
    show "tabs d' (KGroup DefaultGroupName) \<noteq> None" by auto
  qed
  show "kept.quiet tabs (DeleteGroup_m X n)"
    unfolding DeleteGroup_m_def
  proof (rule kept_write [OF _ store_writes(3)])
    fix d d' assume del: "DeleteGroup (gorm X) n d = (Inr (), d')" and "tabs d (KGroup DefaultGroupName) \<noteq> None"
    then obtain r where r: "tabs d (KGroup DefaultGroupName) = Some r" by blast
    from gorm_api.keyed [OF database this] obtain g where g: "r = RGroup g" "ag_name g = DefaultGroupName"
      by (cases r) auto
    from del have "n \<noteq> DefaultGroupName" by (auto simp: DeleteGroup_def failr_def)
    moreover from this del have "tabs d' = drop_rows (on as_mapping (\<lambda>m. mp_group m = n))
        (drop_rows (on as_tag (\<lambda>t. tag_group t = n)) (drop_rows (on as_group (\<lambda>g. ag_name g = n)) (tabs d)))"
      by (simp add: DeleteGroup_def) (drule gorm_api.exec_writes [OF database], simp)
    ultimately show "tabs d' (KGroup DefaultGroupName) \<noteq> None"
      using r g by (simp add: drop_rows_def on_def)
  qed
qed

lemma kept_accounts [step_intros]:
  "kept.quiet tabs (CreateUser_m X u)" "kept.quiet tabs (UpdateUser_m X u)" "kept.quiet tabs (DeleteUser_m X n)"
  "kept.quiet tabs (CreateRole_m X ro)" "kept.quiet tabs (DeleteRole_m X n)"
  "kept.quiet tabs (SetRolePermissions_m X n ps)"
  unfolding CreateUser_m_def UpdateUser_m_def DeleteUser_m_def CreateRole_m_def DeleteRole_m_def
    SetRolePermissions_m_def
  by (rule kept_quiet, rule quiet_confined(1), rule store_writes, simp)+

lemma kept_permission [step_intros]: "kept.quiet tabs (hasPermission X n resource action)"
  unfolding hasPermission_def by (intro kept_bindr kept_retr kept_other kept_option kept_if)

subsection \<open>The handlers\<close>

lemma kept_shared [step_intros]:
  "steps (default_kept tabs) (\<lambda>_. True) (saveHistory X w req rt n a v d)"
  "steps (default_kept tabs) (\<lambda>_. True) (logAudit X w req st a rt n d)"
  "steps (default_kept tabs) (\<lambda>_. True) (need_valid problem)"
  "steps (default_kept tabs) (\<lambda>_. True) (need_type req)"
  "steps (default_kept tabs) (\<lambda>_. True) (percent_ok p)"
  "steps (default_kept tabs) (\<lambda>_. True) (unmarshal w what fill raw)"
  "steps (default_kept tabs) (\<lambda>_. True) (set_tags X n ts)"
  "steps (default_kept tabs) (\<lambda>_. True) (known_role X n)"
  unfolding saveHistory_def logAudit_def need_valid_def need_type_def percent_ok_def unmarshal_def
    set_tags_def known_role_def
  by (intro step_intros; simp)+

lemma kept_record [step_intros]:
  "steps (default_kept tabs) (\<lambda>_. True) (record_change X w req st a rt n v old sm)"
  unfolding record_change_def by (intro step_intros; simp)

lemma kept_config_kind:
  assumes "K = pipeline_kind X \<or> K = instance_kind X"
  shows "handles (default_kept tabs) (\<lambda>_. True) (list_configs w K)"
    and "handles (default_kept tabs) (\<lambda>_. True) (get_config w K)"
    and "handles (default_kept tabs) (\<lambda>_. True) (create_config X w K)"
    and "handles (default_kept tabs) (\<lambda>_. True) (update_config X w K)"
    and "handles (default_kept tabs) (\<lambda>_. True) (delete_config X w K)"
    and "steps (default_kept tabs) (\<lambda>_. True) (rollback_config w K n h)"
proof -
  have K: "kept.quiet tabs (ck_list K)" "kept.quiet tabs (ck_get K n)" "kept.quiet tabs (ck_create K c)"
    "kept.quiet tabs (ck_update K now c)" "kept.quiet tabs (ck_delete K n)" for n c now
    using assms by (auto simp: pipeline_kind_def instance_kind_def intro!: kept_other)
  show "handles (default_kept tabs) (\<lambda>_. True) (list_configs w K)"
    unfolding list_configs_def Let_def by (intro step_intros K; simp)
  show "handles (default_kept tabs) (\<lambda>_. True) (get_config w K)"
    unfolding get_config_def Let_def by (intro step_intros K; simp)
  show "handles (default_kept tabs) (\<lambda>_. True) (create_config X w K)"
    unfolding create_config_def Let_def by (intro step_intros K; simp)
  show "handles (default_kept tabs) (\<lambda>_. True) (update_config X w K)"
    unfolding update_config_def Let_def by (intro step_intros K; simp)
  show "handles (default_kept tabs) (\<lambda>_. True) (delete_config X w K)"
    unfolding delete_config_def Let_def by (intro step_intros K; simp)
  show "steps (default_kept tabs) (\<lambda>_. True) (rollback_config w K n h)"
    unfolding rollback_config_def by (intro step_intros K; simp)
qed

lemma kept_configs [step_intros]:
  "handles (default_kept tabs) (\<lambda>_. True) (ListPipelineConfigs_h X w)"
  "handles (default_kept tabs) (\<lambda>_. True) (ListInstanceConfigs_h X w)"
  "handles (default_kept tabs) (\<lambda>_. True) (GetPipelineConfig_h X w)"
  "handles (default_kept tabs) (\<lambda>_. True) (GetInstanceConfig_h X w)"
  "handles (default_kept tabs) (\<lambda>_. True) (CreatePipelineConfig_h X w)"
  "handles (default_kept tabs) (\<lambda>_. True) (UpdatePipelineConfig_h X w)"
  "handles (default_kept tabs) (\<lambda>_. True) (DeletePipelineConfig_h X w)"
  "handles (default_kept tabs) (\<lambda>_. True) (CreateInstanceConfig_h X w)"
  "handles (default_kept tabs) (\<lambda>_. True) (UpdateInstanceConfig_h X w)"
  "handles (default_kept tabs) (\<lambda>_. True) (DeleteInstanceConfig_h X w)"
  unfolding ListPipelineConfigs_h_def ListInstanceConfigs_h_def GetPipelineConfig_h_def GetInstanceConfig_h_def
    CreatePipelineConfig_h_def UpdatePipelineConfig_h_def DeletePipelineConfig_h_def
    CreateInstanceConfig_h_def UpdateInstanceConfig_h_def DeleteInstanceConfig_h_def
  by (intro kept_config_kind; simp)+

lemma kept_onetime [step_intros]:
  "handles (default_kept tabs) (\<lambda>_. True) (ListOnetimeCommands_h X w)"
  "handles (default_kept tabs) (\<lambda>_. True) (GetOnetimeCommand_h X w)"
  "handles (default_kept tabs) (\<lambda>_. True) (CreateOnetimeCommand_h X w)"
  "handles (default_kept tabs) (\<lambda>_. True) (DeleteOnetimeCommand_h X w)"
  unfolding ListOnetimeCommands_h_def GetOnetimeCommand_h_def CreateOnetimeCommand_h_def
    DeleteOnetimeCommand_h_def Let_def
  by (intro step_intros; simp)+

lemma kept_group_handlers [step_intros]:
  "handles (default_kept tabs) (\<lambda>_. True) (ListGroups_h X w)"
  "handles (default_kept tabs) (\<lambda>_. True) (CreateGroup_h X w)"
  "handles (default_kept tabs) (\<lambda>_. True) (GetGroup_h X w)"
  "handles (default_kept tabs) (\<lambda>_. True) (UpdateGroup_h X w)"
  "handles (default_kept tabs) (\<lambda>_. True) (DeleteGroup_h X w)"
  "handles (default_kept tabs) (\<lambda>_. True) (GetGroupIPSelector_h X w)"
  "handles (default_kept tabs) (\<lambda>_. True) (SetGroupIPSelector_h X w)"
  "handles (default_kept tabs) (\<lambda>_. True) (DeleteGroupIPSelector_h X w)"
  "handles (default_kept tabs) (\<lambda>_. True) (SetGroupVersionConstraint_h X w)"
  "handles (default_kept tabs) (\<lambda>_. True) (GetGroupTags_h X)"
  "handles (default_kept tabs) (\<lambda>_. True) (SetGroupTags_h X w)"
  "handles (default_kept tabs) (\<lambda>_. True) (GetGroupConfigs_h X)"
  "handles (default_kept tabs) (\<lambda>_. True) (AddGroupConfig_h X w)"
  "handles (default_kept tabs) (\<lambda>_. True) (RemoveGroupConfig_h X w)"
  "handles (default_kept tabs) (\<lambda>_. True) (ListAgents_h X w)"
  unfolding ListGroups_h_def CreateGroup_h_def GetGroup_h_def UpdateGroup_h_def DeleteGroup_h_def
    GetGroupIPSelector_h_def SetGroupIPSelector_h_def DeleteGroupIPSelector_h_def
    SetGroupVersionConstraint_h_def GetGroupTags_h_def SetGroupTags_h_def GetGroupConfigs_h_def
    AddGroupConfig_h_def RemoveGroupConfig_h_def ListAgents_h_def Let_def
  by (intro step_intros; simp)+

lemma kept_agent [step_intros]: "handles (default_kept tabs) (\<lambda>_. True) (GetAgent_h X w)"
proof -
  have "ends (default_kept tabs) (\<lambda>_. True)
    (bindh (need lookup_failed (GetAgent_m X i)) (\<lambda>agent.
     bindh (attempt (GetAgentConfigStatuses_m (w_status_order w) X i)) (\<lambda>statuses. reth (ok_h (j agent statuses)))))"
    for i and j :: "Agent \<Rightarrow> err + AgentConfigStatus list \<Rightarrow> json option"
    by (intro step_intros; simp)
  then show ?thesis
    unfolding GetAgent_h_def Let_def
    by (simp add: handles_def ends_def finish_def split_beta split: sum.split)
qed

lemma kept_history [step_intros]:
  "handles (default_kept tabs) (\<lambda>_. True) (ListConfigHistory_h X w)"
  "handles (default_kept tabs) (\<lambda>_. True) (ListDeletedHistory_h X w)"
  "handles (default_kept tabs) (\<lambda>_. True) (ListAuditLogs_h X w)"
  unfolding ListConfigHistory_h_def ListDeletedHistory_h_def ListAuditLogs_h_def Let_def
  by (intro step_intros; simp)+

lemma kept_mappings [step_intros]:
  "steps (default_kept tabs) (\<lambda>_. True) (remove_mappings X n ms)"
  "steps (default_kept tabs) (\<lambda>_. True) (add_mappings X n cs)"
  by (induction ms, simp_all only: remove_mappings.simps, (intro step_intros; simp)+)
    (induction cs, simp_all only: add_mappings.simps, (intro step_intros; simp)+)

lemma kept_restore [step_intros]: "steps (default_kept tabs) (\<lambda>_. True) (restore_group X n snap)"
  unfolding restore_group_def by (intro step_intros; simp)

lemma kept_rollback_field:
  "steps (default_kept tabs) (\<lambda>_. True) check \<Longrightarrow>
   steps (default_kept tabs) (\<lambda>_. True) (rollback_group_field X n field change check)"
  unfolding rollback_group_field_def by (intro step_intros; simp)

lemma kept_rollback_parts [step_intros]:
  "steps (default_kept tabs) (\<lambda>_. True) (rollback_group X w n h)"
  "steps (default_kept tabs) (\<lambda>_. True) (rollback_onetime X w n h)"
  unfolding rollback_group_def rollback_onetime_def Let_def
  by (intro step_intros kept_rollback_field; simp)+

lemma kept_rollback [step_intros]:
  "handles (default_kept tabs) (\<lambda>_. True) (RollbackConfig_h X w)"
  unfolding RollbackConfig_h_def rollback_of_def Let_def
  by (intro step_intros kept_config_kind; simp)

lemma kept_canary_steps [step_intros]:
  "steps (default_kept tabs) (\<lambda>_. True) (read_canary w req)"
  "steps (default_kept tabs) (\<lambda>_. True) (ip_selector_of w body)"
  "steps (default_kept tabs) (\<lambda>_. True) (tag_selector_of body)"
  "steps (default_kept tabs) (\<lambda>_. True) (canary_view X w req)"
  unfolding read_canary_def ip_selector_of_def tag_selector_of_def canary_view_def Let_def
  by (intro step_intros; simp)+

lemma kept_promote [step_intros]:
  "steps (default_kept tabs) (\<lambda>_. True) (promote_into X w req (kind_of X ct) n cr)"
proof -
  have K: "kept.quiet tabs (ck_get (kind_of X ct) n)" "kept.quiet tabs (ck_update (kind_of X ct) now c)" for now c
    by (auto simp: kind_of_def pipeline_kind_def instance_kind_def intro!: kept_other)
  show ?thesis unfolding promote_into_def Let_def by (intro step_intros K; simp)
qed

lemma kept_status: "handles (default_kept tabs) (\<lambda>_. True) (setCanaryStatus X w a b audit)"
  unfolding setCanaryStatus_def Let_def by (intro step_intros; simp)

lemma kept_canaries [step_intros]:
  "handles (default_kept tabs) (\<lambda>_. True) (ListCanaries_h X w)"
  "handles (default_kept tabs) (\<lambda>_. True) (CreateCanary_h X w)"
  "handles (default_kept tabs) (\<lambda>_. True) (UpdateCanary_h X w)"
  "handles (default_kept tabs) (\<lambda>_. True) (GetCanary_h X w)"
  "handles (default_kept tabs) (\<lambda>_. True) (SetCanaryPercent_h X w)"
  "handles (default_kept tabs) (\<lambda>_. True) (PauseCanary_h X w)"
  "handles (default_kept tabs) (\<lambda>_. True) (ResumeCanary_h X w)"
  "handles (default_kept tabs) (\<lambda>_. True) (PromoteCanary_h X w)"
  "handles (default_kept tabs) (\<lambda>_. True) (AbortCanary_h X w)"
  "handles (default_kept tabs) (\<lambda>_. True) (GetCanaryStats_h X w)"
  "handles (default_kept tabs) (\<lambda>_. True) (GetCanaryAgents_h X w)"
  unfolding ListCanaries_h_def CreateCanary_h_def UpdateCanary_h_def GetCanary_h_def SetCanaryPercent_h_def
    PauseCanary_h_def ResumeCanary_h_def PromoteCanary_h_def AbortCanary_h_def GetCanaryStats_h_def
    GetCanaryAgents_h_def Let_def
  by (intro step_intros kept_status; simp)+

lemma kept_users [step_intros]:
  "handles (default_kept tabs) (\<lambda>_. True) (GetMe_h X)"
  "handles (default_kept tabs) (\<lambda>_. True) (ListUsers_h X w)"
  "handles (default_kept tabs) (\<lambda>_. True) (CreateUser_h X w)"
  "handles (default_kept tabs) (\<lambda>_. True) (DeleteUser_h X)"
  "handles (default_kept tabs) (\<lambda>_. True) (ResetUserPassword_h X w)"
  "handles (default_kept tabs) (\<lambda>_. True) (AssignUserRole_h X w)"
  "handles (default_kept tabs) (\<lambda>_. True) (ListRoles_h X w)"
  "handles (default_kept tabs) (\<lambda>_. True) (CreateRole_h X w)"
  "handles (default_kept tabs) (\<lambda>_. True) (DeleteRole_h X)"
  "handles (default_kept tabs) (\<lambda>_. True) (GetRolePermissions_h X)"
  "handles (default_kept tabs) (\<lambda>_. True) (SetRolePermissions_h X w)"
  unfolding GetMe_h_def ListUsers_h_def CreateUser_h_def DeleteUser_h_def ResetUserPassword_h_def
    AssignUserRole_h_def ListRoles_h_def CreateRole_h_def DeleteRole_h_def GetRolePermissions_h_def
    SetRolePermissions_h_def Let_def
  by (intro step_intros; simp)+

text \<open>Tokens and mail live outside of the database.\<close>

lemma kept_tokens [simp]:
  "default_kept tabs s (snd (sessions_create X w u s))"
  "default_kept tabs s (snd (sessions_get X w tok s))"
  "default_kept tabs s (sessions_delete X tok s)"
  "default_kept tabs s (snd (pendingOTP_issue X w u s))"
  "default_kept tabs s (snd (pendingOTP_consume X w tok s))"
  "default_kept tabs s (snd (resetTokens_issue X w u s))"
  "default_kept tabs s (snd (resetTokens_consume X w tok s))"
  "default_kept tabs s (snd (sendMail w to subject body s))"
  unfolding sessions_create_def sessions_get_def sessions_delete_def pendingOTP_issue_def
    pendingOTP_consume_def resetTokens_issue_def resetTokens_consume_def redis_consume_def redis_issue_def
    sendMail_def default_kept_def Let_def
  by (simp_all add: split_beta cache_ops split: option.split)

lemma kept_logout [step_intros]: "handles (default_kept tabs) (\<lambda>_. True) (AuthLogout_h X)"
  unfolding AuthLogout_h_def by (simp add: handles_def split: option.split)

lemma kept_auth [step_intros]:
  "handles (default_kept tabs) (\<lambda>_. True) (AuthStatus_h X w)"
  "handles (default_kept tabs) (\<lambda>_. True) (AuthInit_h X w)"
  "handles (default_kept tabs) (\<lambda>_. True) (AuthLogin_h X w)"
  "handles (default_kept tabs) (\<lambda>_. True) (AuthChangePassword_h X w)"
  "handles (default_kept tabs) (\<lambda>_. True) (OTPSetup_h X w)"
  "handles (default_kept tabs) (\<lambda>_. True) (OTPEnable_h X w)"
  "handles (default_kept tabs) (\<lambda>_. True) (OTPDisable_h X w)"
  "handles (default_kept tabs) (\<lambda>_. True) (OTPLoginStep_h X w)"
  "handles (default_kept tabs) (\<lambda>_. True) (ForgotPassword_h X w)"
  "handles (default_kept tabs) (\<lambda>_. True) (ResetPassword_h X w)"
  "handles (default_kept tabs) (\<lambda>_. True) (SetMyEmail_h X w)"
  "handles (default_kept tabs) (\<lambda>_. True) (SetUserEmail_h X w)"
  unfolding AuthStatus_h_def AuthInit_h_def AuthLogin_h_def AuthChangePassword_h_def
    OTPSetup_h_def OTPEnable_h_def OTPDisable_h_def OTPLoginStep_h_def ForgotPassword_h_def
    ResetPassword_h_def SetMyEmail_h_def SetUserEmail_h_def start_session_def Let_def
  by (intro step_intros; simp)+

lemma kept_requireAdmin [step_intros]:
  "handles (default_kept tabs) (\<lambda>_. True) h \<Longrightarrow> handles (default_kept tabs) (\<lambda>_. True) (requireAdmin h)"
  by (auto simp: handles_def requireAdmin_def split: option.split)

lemma routes_kept: "list_all (\<lambda>r. handles (default_kept tabs) (\<lambda>_. True) (snd (snd r))) (routes X w)"
  unfolding routes_def list.pred_inject prod.sel by (intro conjI TrueI step_intros) simp_all

subsection \<open>Every request\<close>

lemma kept_dispatch:
  assumes "handles (default_kept tabs) (\<lambda>_. True) other"
  shows "default_kept tabs s (snd (dispatch X w other req s))"
proof (cases "find (\<lambda>r. route_matches r req) (routes X w)")
  case None
  with assms show ?thesis by (simp add: dispatch_def handles_def)
next
  case (Some r)
  then have "r \<in> set (routes X w)" by (auto dest: find_Some_iff [THEN iffD1])
  with routes_kept have "handles (default_kept tabs) (\<lambda>_. True) (snd (snd r))" by (auto simp: list_all_iff)
  with Some show ?thesis by (cases r) (simp add: dispatch_def handles_def)
qed

lemma kept_authenticate: "steps (default_kept tabs) (\<lambda>_. True) (authenticate X w req)"
  unfolding authenticate_def Let_def by (intro step_intros; simp)

lemma serve_keeps_default:
  assumes "handles (default_kept tabs) (\<lambda>_. True) other"
  shows "handles (default_kept tabs) (\<lambda>_. True) (serve X w other)"
  unfolding handles_def
proof (intro allI conjI TrueI)
  fix req and s :: "('d, 'f, 'r) adm"
  show "default_kept tabs s (snd (serve X w other req s))"
  proof (cases "protected_path (rq_path req)")
    case False
    with kept_dispatch [OF assms] show ?thesis by (simp add: serve_def requireAuth_def)
  next
    case True
    obtain r s1 where a: "authenticate X w req s = (r, s1)" by fastforce
    with kept_authenticate have "default_kept tabs s s1" by (metis steps_def snd_conv)
    with True a kept_dispatch [OF assms] kept.trans show ?thesis
      by (fastforce simp: serve_def requireAuth_def split: sum.split)
  qed
qed

end

end
