(* ===== verification/Server_Props.thy ===== *)
theory Server_Props
  imports Agent_Frames Default_Group Auth_Props
begin

section \<open>The servers as a whole\<close>

text \<open>
  The composition: an all-in-one installation through starts, requests, background jobs and
  crashes keeps its accounts and its default group; what the servers log and serve beside the
  API.
\<close>

subsection \<open>What the mux serves beside the API\<close>

context account_store
begin

lemma calm_rest: "calm tabs {} s (snd (other_patterns X w webFS metrics req s))"
proof -
  have "tidy tabs (s_mgr s) (snd (MetricsHandler X w window (s_mgr s)))" for window
    using leaves_metrics by (simp add: leaves_rows_def)
  then have "calm tabs {} s (snd (serve_metrics X w window s))" for window
    by (auto simp: serve_metrics_def calm_def frame_def tidy_def split_beta)
  then show ?thesis by (simp add: other_patterns_def split: option.split)
qed

lemma rest_harmless: "harmless tabs (other_patterns X w webFS metrics)"
  unfolding handles_def by (blast intro: calm_rest [THEN calm_mono])

lemma rest_keeps_default: "handles (default_kept tabs) (\<lambda>_. True) (other_patterns X w webFS metrics)"
  unfolding handles_def by (blast intro: calm_rest [THEN calm_kept])

end

subsection \<open>The life of an all-in-one server\<close>

text \<open>
  The database outlives the process: it is \<open>Halted\<close> with the rows it holds, or \<open>Running\<close> as a
  system. Starts that fail, starts with other settings, requests of users and agents, the
  goroutines and crashes interleave in any order.
\<close>

datatype ('d, 'f, 'r) process = Halted 'd | Running "('d, 'f, 'r) system"

definition in_state :: "('d, 'f, 'r) system \<Rightarrow> ('d, 'f, 'r) mgr \<Rightarrow> ('d, 'f, 'r) system" where
  "in_state sys m = sys\<lparr>sy_state := (sy_state sys)\<lparr>s_mgr := m\<rparr>\<rparr>"

inductive allinone_step ::
  "('d, 'f, 'r) services \<Rightarrow> 'd db_setup \<Rightarrow> ('d, 'f, 'r) process \<Rightarrow> ('d, 'f, 'r) process \<Rightarrow> bool"
  for X :: "('d, 'f, 'r) services" and D :: "'d db_setup"
where
  starts: "pf_services P = X \<Longrightarrow> pf_setup P = D \<Longrightarrow> allinone_main P cfgFile d = (Inr sys, d') \<Longrightarrow>
    allinone_step X D (Halted d) (Running sys)"
| fails: "pf_services P = X \<Longrightarrow> pf_setup P = D \<Longrightarrow> allinone_main P cfgFile d = (Inl msg, d') \<Longrightarrow>
    allinone_step X D (Halted d) (Halted d')"
| admin: "sy_admin sys = Some srv \<Longrightarrow> hs_handler srv w req (sy_state sys) = (out, s) \<Longrightarrow> rq_user req = None \<Longrightarrow>
    allinone_step X D (Running sys) (Running (sys\<lparr>sy_state := s\<rparr>))"
| agent: "sy_agent sys = Some srv \<Longrightarrow>
    gs_handler srv wi meth path now sent (s_mgr (sy_state sys)) = (answer, m) \<Longrightarrow>
    allinone_step X D (Running sys) (Running (in_state sys m))"
| evict: "EvictLoop \<in> set (sy_goroutines sys) \<Longrightarrow>
    allinone_step X D (Running sys) (Running (in_state sys (evictStaleAgents X now (s_mgr (sy_state sys)))))"
| pushes: "sy_push sys = Some (url, user, pass, interval) \<Longrightarrow>
    pushWithLease X w window post url user pass interval (s_mgr (sy_state sys), ()) = (e, m, ()) \<Longrightarrow>
    allinone_step X D (Running sys) (Running (in_state sys m))"
| halts: "allinone_step X D (Running sys) (Halted (m_db (s_mgr (sy_state sys))))"

inductive lifetime ::
  "('d, 'f, 'r) services \<Rightarrow> 'd db_setup \<Rightarrow> ('d, 'f, 'r) process \<Rightarrow> ('d, 'f, 'r) process \<Rightarrow> bool"
  for X :: "('d, 'f, 'r) services" and D :: "'d db_setup"
where
  begins: "lifetime X D p p"
| goes_on: "lifetime X D p p1 \<Longrightarrow> allinone_step X D p1 p2 \<Longrightarrow> lifetime X D p p2"

text \<open>
  The invariant: of the tables in every case, and of the accounts and the default group while
  the server runs.
\<close>

definition admin_only :: "tables \<Rightarrow> bool" where
  "admin_only t \<longleftrightarrow> (\<forall>n u. user_at t n = Some u \<longrightarrow> us_is_admin u \<longrightarrow> n = ''admin'') \<and> roles_exist t"

definition serves_with :: "('d, 'f, 'r) services \<Rightarrow> ('d, 'f, 'r) system \<Rightarrow> bool" where
  "serves_with X sys \<longleftrightarrow>
     (\<forall>srv. sy_admin sys = Some srv \<longrightarrow> (\<exists>webFS metrics smtp. hs_handler srv = admin_handler X webFS metrics smtp)) \<and>
     (\<forall>srv. sy_agent sys = Some srv \<longrightarrow> gs_handler srv = (\<lambda>wi. agent_mux wi X))"

fun process_ok :: "('d \<Rightarrow> tables) \<Rightarrow> ('d, 'f, 'r) services \<Rightarrow> tables \<Rightarrow> ('d, 'f, 'r) process \<Rightarrow> bool" where
  "process_ok tabs X t0 (Halted d) \<longleftrightarrow>
     admin_only (tabs d) \<and> (user_at t0 ''admin'' \<noteq> None \<longrightarrow> user_at (tabs d) ''admin'' \<noteq> None)"
| "process_ok tabs X t0 (Running sys) \<longleftrightarrow>
     accounts_ok (tables_of tabs (sy_state sys)) \<and>
     tables_of tabs (sy_state sys) (KGroup DefaultGroupName) \<noteq> None \<and>
     (user_at t0 ''admin'' \<noteq> None \<longrightarrow> user_at (tables_of tabs (sy_state sys)) ''admin'' \<noteq> None) \<and>
     m_rdb (s_mgr (sy_state sys)) = None \<and> serves_with X sys"

lemma accounts_admin_only: "accounts_ok t \<Longrightarrow> admin_only t"
  by (auto simp: accounts_ok_def admin_only_def)

text \<open>Opening the store.\<close>

lemma as_user_Some: "as_user r = Some u \<longleftrightarrow> r = RUser u"
  by (cases r) auto

lemma user_at_row: "user_at t n = Some u \<longleftrightarrow> t (KUser n) = Some (RUser u)"
  by (auto simp: row_at_def as_user_Some bind_eq_Some_conv)

lemma admin_backfilled_user:
  "admin_backfilled b (Some (RUser u)) r' \<Longrightarrow>
   \<exists>u'. r' = Some (RUser u') \<and> us_role u' = us_role u \<and> (b \<or> us_is_admin u \<longrightarrow> us_is_admin u')"
  by (auto simp: admin_backfilled_def)

lemma admin_backfilled_other: "admin_backfilled b r r' \<Longrightarrow> \<forall>u. r \<noteq> Some (RUser u) \<Longrightarrow> r' = r"
  by (auto simp: admin_backfilled_def split: option.splits row.splits)

lemma started_rows:
  assumes "started b c t t'"
  shows "n \<noteq> ''admin'' \<Longrightarrow> user_at t' n = user_at t n" and "role_at t' n = role_at t n"
    and "user_at t ''admin'' = None \<Longrightarrow> user_at t' ''admin'' = None"
    and "user_at t ''admin'' = Some u \<Longrightarrow>
      \<exists>u'. user_at t' ''admin'' = Some u' \<and> us_role u' = us_role u \<and> (b \<or> us_is_admin u \<longrightarrow> us_is_admin u')"
proof -
  have flag: "admin_backfilled b (t (KUser ''admin'')) (t' (KUser ''admin''))"
    using assms by (simp add: started_def)
  show "n \<noteq> ''admin'' \<Longrightarrow> user_at t' n = user_at t n" "role_at t' n = role_at t n"
    using assms by (simp_all add: started_def row_at_def)
  show "user_at t' ''admin'' = None" if none: "user_at t ''admin'' = None"
  proof -
    have "\<forall>u. t (KUser ''admin'') \<noteq> Some (RUser u)" using none user_at_row by (metis option.distinct(1))
    from admin_backfilled_other [OF flag this] none show ?thesis by (simp add: row_at_def)
  qed
  show "\<exists>u'. user_at t' ''admin'' = Some u' \<and> us_role u' = us_role u \<and> (b \<or> us_is_admin u \<longrightarrow> us_is_admin u')"
    if "user_at t ''admin'' = Some u"
  proof -
    have "t (KUser ''admin'') = Some (RUser u)" using that by (simp add: user_at_row)
    with flag have "admin_backfilled b (Some (RUser u)) (t' (KUser ''admin''))" by simp
    from admin_backfilled_user [OF this] show ?thesis unfolding user_at_row .
  qed
qed

lemma started_accounts:
  assumes s: "started b c t t'" and ok: "admin_only t"
  shows "admin_only t'" and "b \<Longrightarrow> accounts_ok t'"
    and "user_at t ''admin'' \<noteq> None \<Longrightarrow> user_at t' ''admin'' \<noteq> None"
proof -
  have before: "\<exists>v. user_at t n = Some v \<and> us_role u = us_role v \<and> (n \<noteq> ''admin'' \<longrightarrow> u = v)"
    if "user_at t' n = Some u" for n u
  proof (cases "n = ''admin''")
    case True
    with that started_rows(3) [OF s] obtain v where v: "user_at t ''admin'' = Some v" by fastforce
    with started_rows(4) [OF s this] that True show ?thesis by auto
  next
    case False
    with that started_rows(1) [OF s] show ?thesis by auto
  qed
  have roles: "roles_exist t'"
    using ok before started_rows(2) [OF s] unfolding admin_only_def roles_exist_def by metis
  have only: "n = ''admin''" if "user_at t' n = Some u" "us_is_admin u" for n u
    using before [OF that(1)] that(2) ok unfolding admin_only_def by metis
  from roles only show "admin_only t'" by (simp add: admin_only_def)
  show "accounts_ok t'" if b
  proof -
    have "us_is_admin u" if "user_at t' ''admin'' = Some u" for u
      using before [OF that] started_rows(4) [OF s] that \<open>b\<close> by fastforce
    with roles only show ?thesis by (auto simp: accounts_ok_def)
  qed
  show "user_at t' ''admin'' \<noteq> None" if "user_at t ''admin'' \<noteq> None"
    using that started_rows(4) [OF s] by fastforce
qed

lemma started_default: "started b True t t' \<Longrightarrow> t' (KGroup DefaultGroupName) \<noteq> None"
  by (auto simp: started_def dest!: group_ensured_there)

text \<open>What a start comes to.\<close>

lemma allinone_cases:
  assumes "allinone_main P cfgFile d = (r, d')"
  obtains (unread) msg where "r = Inl msg" and "d' = d"
  | (unopened) msg driver dsn pool x where "r = Inl msg"
      and "NewStore (pf_setup P) (gorm (pf_services P)) driver dsn pool d = (x, d')"
  | (up) sys driver dsn pool m where "r = Inr sys"
      and "NewStore (pf_setup P) (gorm (pf_services P)) driver dsn pool d = (Inr (), d')"
      and "sy_state sys = initSessionStore m" and "m_db m = d'" and "m_rdb m = None"
      and "serves_with (pf_services P) sys"
proof (cases "Load (pf_startup P) cfgFile")
  case (Inl e)
  with assms show thesis by (auto simp: allinone_main_def loaded_def intro: unread)
next
  case (Inr c)
  let ?new = "NewStore (pf_setup P) (gorm (pf_services P)) (cg_DBDriver c) (cg_DBDSN c) (pool_of c) d"
  obtain x d1 where n: "?new = (x, d1)" by fastforce
  show thesis
  proof (cases x)
    case err: (Inl e)
    with assms Inr n have "r = Inl (fatal P ''open store'' e)" "d' = d1"
      by (simp_all add: allinone_main_def loaded_def with_store_def)
    with n show thesis using unopened by simp
  next
    case opened: (Inr u)
    show thesis
    proof (cases "pf_web P")
      case web: (Inl e)
      with assms Inr n opened have "r = Inl (fatal P ''embed fs'' e)" "d' = d1"
        by (simp_all add: allinone_main_def loaded_def with_store_def Let_def)
      with n show thesis using unopened by simp
    next
      case web: (Inr webFS)
      let ?m = "new_manager P c None False d1"
      let ?sys = "projr r"
      have "isl r = False" "d' = d1"
        and sys: "sy_state ?sys = initSessionStore ?m" "serves_with (pf_services P) ?sys"
        using assms Inr n opened web
        by (auto simp: allinone_main_def loaded_def with_store_def Let_def NewAdminServer_def serves_with_def
            NewAgentServer_def) blast
      then have r: "r = Inr ?sys" by (cases r) simp_all
      have m: "m_db ?m = d1" "m_rdb ?m = None" by (simp_all add: new_manager_def New_def)
      from n opened \<open>d' = d1\<close> have "?new = (Inr (), d')" by simp
      from up [OF r this sys(1) _ m(2) sys(2)] m(1) \<open>d' = d1\<close> show thesis by simp
    qed
  qed
qed


text \<open>Every step keeps the invariant.\<close>

context account_store
begin

lemma start_keeps:
  assumes D: "database_setup (gorm X) tabs D" and "pf_services P = X" "pf_setup P = D"
    and main: "allinone_main P cfgFile d = (r, d')" and ok: "process_ok tabs X t0 (Halted d)"
  shows "process_ok tabs X t0 (case r of Inl msg \<Rightarrow> Halted d' | Inr sys \<Rightarrow> Running sys)"
proof -
  have s: "started (result_ok x) (result_ok x) (tabs d) (tabs d')"
    if "NewStore (pf_setup P) (gorm (pf_services P)) driver dsn pool d = (x, d')" for x driver dsn pool
    using database_setup.new_store_started [OF D, of driver dsn pool d x d'] that assms(2,3) by simp
  have d: "admin_only (tabs d)" "user_at t0 ''admin'' \<noteq> None \<longrightarrow> user_at (tabs d) ''admin'' \<noteq> None"
    using ok by simp_all
  from main show ?thesis
  proof (cases rule: allinone_cases)
    case unread
    with ok show ?thesis by simp
  next
    case (unopened msg driver dsn pool x)
    from started_accounts(1,3) [OF s [OF this(2)] d(1)] d(2) unopened(1) show ?thesis by simp
  next
    case (up sys driver dsn pool m)
    have t: "started True True (tabs d) (tabs d')" using s [OF up(2)] by simp
    from started_accounts(2,3) [OF t d(1)] started_default [OF t] d(2) up assms(2)
    show ?thesis by (simp add: initSessionStore_def)
  qed
qed

lemma tidy_keeps:
  "tidy tabs (s_mgr (sy_state sys)) m \<Longrightarrow> process_ok tabs X t0 (Running sys) \<Longrightarrow> process_ok tabs X t0 (Running (in_state sys m))"
  by (simp add: tidy_def in_state_def serves_with_def)

lemma request_keeps:
  assumes h: "hs_handler srv w req (sy_state sys) = (out, s)" "sy_admin sys = Some srv" and "rq_user req = None"
    and fin: "\<And>d. finite (ran (tabs d))" and ok: "process_ok tabs X t0 (Running sys)"
  shows "process_ok tabs X t0 (Running (sys\<lparr>sy_state := s\<rparr>))"
proof -
  from ok h(2) obtain webFS metrics smtp where "hs_handler srv = admin_handler X webFS metrics smtp"
    by (auto simp: serves_with_def)
  with h(1) have serve: "serve X (NewAdminHandler smtp w) (other_patterns X (NewAdminHandler smtp w) webFS metrics) req (sy_state sys) = (out, s)"
    by (simp add: admin_handler_def Let_def)
  from ok have none: "m_rdb (s_mgr (sy_state sys)) = None" by simp
  from request_keeps_accounts [OF database serve rest_harmless none fin] ok
  have "accounts_ok (tables_of tabs s)" "m_rdb (s_mgr s) = None"
    "user_at t0 ''admin'' \<noteq> None \<longrightarrow> user_at (tables_of tabs s) ''admin'' \<noteq> None" by auto
  moreover have "default_kept tabs (sy_state sys) s"
    using handlesD [OF serve_keeps_default [OF rest_keeps_default] serve] by blast
  with ok have "tables_of tabs s (KGroup DefaultGroupName) \<noteq> None" by (simp add: default_kept_def)
  ultimately show ?thesis using ok by (simp add: serves_with_def)
qed

lemma step_keeps:
  assumes "allinone_step X D p p'" and "database_setup (gorm X) tabs D" and "\<And>d. finite (ran (tabs d))"
    and "process_ok tabs X t0 p"
  shows "process_ok tabs X t0 p'"
  using assms(1)
proof cases
  case (starts P cfgFile d sys d')
  from start_keeps [OF assms(2) starts(3,4,5), of t0] assms(4) show ?thesis unfolding starts(1,2) by simp
next
  case (fails P cfgFile d msg d')
  from start_keeps [OF assms(2) fails(3,4,5), of t0] assms(4) show ?thesis unfolding fails(1,2) by simp
next
  case (admin sys srv w req out s)
  from request_keeps [OF admin(4,3,5) assms(3), of t0] assms(4) show ?thesis unfolding admin(1,2) by blast
next
  case (agent sys srv wi meth path now sent answer m)
  with assms(4) have "agent_mux wi X meth path now sent (s_mgr (sy_state sys)) = (answer, m)"
    by (simp add: serves_with_def)
  from tidy_keeps [OF tidy_agent_mux [OF this], of t0] assms(4) show ?thesis unfolding agent(1,2) by blast
next
  case (evict sys now)
  from tidy_keeps [OF tidy_evict, of t0] assms(4) show ?thesis unfolding evict(1,2) by blast
next
  case (pushes sys url user pass interval w window post e m)
  from tidy_keeps [OF tidy_push [OF pushes(4)], of t0] assms(4) show ?thesis unfolding pushes(1,2) by blast
next
  case (halts sys)
  with assms(4) show ?thesis by (simp add: accounts_admin_only)
qed

lemma lifetime_keeps:
  assumes "lifetime X D p p'" and "database_setup (gorm X) tabs D" and "\<And>d. finite (ran (tabs d))"
    and "process_ok tabs X t0 p"
  shows "process_ok tabs X t0 p'"
  using assms(1,4) by induction (blast intro: step_keeps [OF _ assms(2,3)])+

end

subsection \<open>Accounts over restarts\<close>

text \<open>
  C6. The accounts survive restarts: from any database in which only \<open>admin\<close> is an administrator
  and every assigned role exists, such as an empty one, whatever starts, crashes, requests of
  users and agents and background work follow, a running server has exactly one account that is
  an administrator, if there is one, every assigned role exists, the default group exists, and
  an administrator once created is never lost.
\<close>

theorem accounts_survive_restarts:
  assumes "database_setup (gorm X) tabs D" and "\<And>d. finite (ran (tabs d))" and "admin_only (tabs d)"
    and "lifetime X D (Halted d) (Running sys)"
  shows "accounts_ok (tables_of tabs (sy_state sys)) \<and>
    tables_of tabs (sy_state sys) (KGroup DefaultGroupName) \<noteq> None \<and>
    (user_at (tabs d) ''admin'' \<noteq> None \<longrightarrow> user_at (tables_of tabs (sy_state sys)) ''admin'' \<noteq> None)"
proof -
  have "account_store X tabs" using assms(1) by (simp add: account_store_def database_setup_def)
  from account_store.lifetime_keeps [OF this assms(4,1,2), of "tabs d"] assms(3) show ?thesis by simp
qed

definition sample_web :: web where
  "sample_web =
     \<lparr>wb_files = (\<lambda>n. if n = ''index.html'' then Some (File ''<html>'')
          else if n = ''assets/app.js'' then Some (File ''let x = 1'') else None),
      wb_mime = (\<lambda>_. ''text/html; charset=utf-8''), wb_gzip = rev,
      wb_content = (\<lambda>_ _ c h. \<lparr>pg_status = 200, pg_header = h, pg_body = c\<rparr>),
      wb_listing = (\<lambda>_ h. \<lparr>pg_status = 200, pg_header = h, pg_body = []\<rparr>)\<rparr>"

definition sample_platform :: "(memdb, memcache, unit) platform" where
  "sample_platform =
     \<lparr>pf_startup = \<lparr>su_env = Map.empty, su_file = \<lambda>_. Inl (ErrMsg ''no file''),
        su_yaml = \<lambda>_. Inl (ErrMsg ''no yaml''), su_url = Map.empty\<rparr>,
      pf_setup = mem_setup, pf_services = mem_services, pf_cache = \<lambda>_. [], pf_redis = \<lambda>_ _ _. (),
      pf_web = Inr sample_web, pf_quote = id, pf_error = \<lambda>_. []\<rparr>"

lemma sample_start:
  assumes "NewStore mem_setup mem_gorm ''sqlite'' dsn pool d = (Inr (), d')"
  shows "\<exists>sys. allinone_main sample_platform [] d = (Inr sys, d')"
proof -
  have env: "setStr Map.empty k v = v" for k v by (simp add: setStr_def)
  let ?c = "applyEnv Map.empty configDefaults"
  have c: "cg_DBDriver ?c = ''sqlite''" "cg_MetricsPushURL ?c = []"
    by (simp_all add: applyEnv_def env configDefaults_def)
  then have load: "Load (pf_startup sample_platform) [] = Inr ?c"
    by (simp add: Load_def sample_platform_def ValidateMetrics_def Let_def)
  have "NewStore mem_setup mem_gorm ''sqlite'' (cg_DBDSN ?c) (pool_of ?c) d = (Inr (), d')"
    using assms by (simp add: NewStore_def mem_setup_def dialector_def bindr_def wrapr_def)
  with load c show ?thesis
    by (simp add: allinone_main_def loaded_def with_store_def sample_platform_def mem_services_def
        NewAdminServer_def Let_def)
qed

theorem accounts_survive_restarts_witness:
  "\<exists>sys. lifetime mem_services mem_setup (Halted old_database) (Running sys) \<and>
     accounts_ok (tables_of mem_tabs (sy_state sys)) \<and>
     tables_of mem_tabs (sy_state sys) (KGroup DefaultGroupName) \<noteq> None \<and>
     user_at (tables_of mem_tabs (sy_state sys)) ''admin'' \<noteq> None"
proof -
  have "result_ok (fst (NewStore mem_setup mem_gorm ''sqlite'' ''configs.db'' sample_pool old_database))"
    by code_simp
  then obtain d' where "NewStore mem_setup mem_gorm ''sqlite'' ''configs.db'' sample_pool old_database = (Inr (), d')"
    by (cases "NewStore mem_setup mem_gorm ''sqlite'' ''configs.db'' sample_pool old_database" rule: prod.exhaust)
      (auto elim: result_ok.elims)
  from sample_start [OF this] obtain sys where main: "allinone_main sample_platform [] old_database = (Inr sys, d')" ..
  have P: "pf_services sample_platform = mem_services" "pf_setup sample_platform = mem_setup"
    by (simp_all add: sample_platform_def)
  have life: "lifetime mem_services mem_setup (Halted old_database) (Running sys)"
    by (rule lifetime.goes_on [OF lifetime.begins allinone_step.starts [OF P main]])
  have u: "user_at (mem_tabs old_database) n = (if n = ''admin'' then Some old_admin else None)" for n
    by (simp add: old_database_def mem_tabs_def row_at_def old_admin_def)
  then have admin: "admin_only (mem_tabs old_database)"
    by (auto simp: admin_only_def roles_exist_def old_admin_def split: if_splits)
  have fin: "finite (ran (mem_tabs d))" for d by (simp add: mem_tabs_def)
  have D: "database_setup (gorm mem_services) mem_tabs mem_setup"
    using memopen.database_setup_axioms by (simp add: mem_services_def)
  from accounts_survive_restarts [OF D fin admin life] life u show ?thesis by auto
qed

subsection \<open>The password in the log\<close>

lemma no_at: "CHR ''@'' \<notin> set z \<Longrightarrow> takeWhile (\<lambda>c. c \<noteq> CHR ''@'') (rev z) = rev z"
  unfolding takeWhile_eq_all_conv by auto

lemma take_to_last_at:
  assumes "CHR ''@'' \<notin> set z"
  shows "rev (takeWhile (\<lambda>c. c \<noteq> CHR ''@'') (rev (x @ CHR ''@'' # z))) = z"
proof -
  have "takeWhile (\<lambda>c. c \<noteq> CHR ''@'') (rev z @ CHR ''@'' # rev x) = rev z"
    by (subst takeWhile_append2) (use assms in auto)
  then show ?thesis by simp
qed

text \<open>
  C39. The masked DSN does not depend on the password: for a DSN of the form
  \<open>user:password@rest\<close>, whatever characters the password has, it is the user, three asterisks
  and what follows the last \<open>@\<close>; two DSNs that differ in the password are logged alike. A DSN
  without an \<open>@\<close> is logged as it is.
\<close>

theorem maskDSN_hides_password:
  assumes "CHR '':'' \<notin> set user" and "CHR ''@'' \<notin> set host"
  shows "maskDSN (user @ '':'' @ password @ ''@'' @ host) = user @ '':***@'' @ host \<and>
    (\<exists>shown. \<forall>pw. maskDSN (user @ '':'' @ pw @ ''@'' @ rest) = shown) \<and>
    (CHR ''@'' \<notin> set dsn \<longrightarrow> maskDSN dsn = dsn)"
proof -
  have masked: "maskDSN (user @ '':'' @ pw @ ''@'' @ rest) =
      user @ '':***@'' @ rev (takeWhile (\<lambda>c. c \<noteq> CHR ''@'') (rev rest))" for pw rest
  proof -
    let ?z = "rev (takeWhile (\<lambda>c. c \<noteq> CHR ''@'') (rev rest))"
    obtain y where y: "''@'' @ rest = y @ CHR ''@'' # ?z"
    proof (cases "CHR ''@'' \<in> set rest")
      case True
      then have "dropWhile (\<lambda>c. c \<noteq> CHR ''@'') (rev rest) \<noteq> []" by (simp add: dropWhile_eq_Nil_conv)
      with hd_dropWhile [OF this] obtain us where us: "dropWhile (\<lambda>c. c \<noteq> CHR ''@'') (rev rest) = CHR ''@'' # us"
        by (cases "dropWhile (\<lambda>c. c \<noteq> CHR ''@'') (rev rest)") auto
      have "rev rest = takeWhile (\<lambda>c. c \<noteq> CHR ''@'') (rev rest) @ CHR ''@'' # us"
        unfolding us [symmetric] by (rule takeWhile_dropWhile_id [symmetric])
      then have "rev (rev rest) = rev (takeWhile (\<lambda>c. c \<noteq> CHR ''@'') (rev rest) @ CHR ''@'' # us)" by (rule arg_cong)
      then have "rest = rev us @ CHR ''@'' # ?z"
        by (simp only: rev_rev_ident rev_append rev.simps append_assoc append_Cons append_Nil)
      then show thesis using that [of "''@'' @ rev us"] by simp
    next
      case False
      then have "?z = rest" by (simp add: no_at)
      then show thesis using that [of "[]"] by simp
    qed
    let ?creds = "user @ '':'' @ pw @ y"
    have dsn: "user @ '':'' @ pw @ ''@'' @ rest = ?creds @ CHR ''@'' # ?z" using y by simp
    have z: "CHR ''@'' \<notin> set ?z" by (auto dest: set_takeWhileD)
    have last_at: "rev (takeWhile (\<lambda>c. c \<noteq> CHR ''@'') (rev (?creds @ CHR ''@'' # ?z))) = ?z"
      by (rule take_to_last_at [OF z])
    have colon: "takeWhile (\<lambda>c. c \<noteq> CHR '':'') ?creds = user"
      by (subst takeWhile_append2) (use assms(1) in auto)
    show ?thesis
      unfolding dsn maskDSN_def Let_def last_at using colon by simp
  qed
  moreover have "rev (takeWhile (\<lambda>c. c \<noteq> CHR ''@'') (rev host)) = host"
    using assms(2) by (simp add: no_at)
  moreover have "CHR ''@'' \<notin> set dsn \<longrightarrow> maskDSN dsn = dsn" by (simp add: maskDSN_def)
  ultimately show ?thesis by auto
qed

theorem maskDSN_hides_password_witness:
  "maskDSN ''root:p@ss:w@tcp(db:3306)/config'' = ''root:***@tcp(db:3306)/config'' \<and>
   maskDSN ''host=db user=config password=secret'' = ''host=db user=config password=secret''"
proof -
  have "CHR '':'' \<notin> set ''root''" "CHR ''@'' \<notin> set ''tcp(db:3306)/config''"
    "CHR ''@'' \<notin> set ''host=db user=config password=secret''" by simp_all
  with maskDSN_hides_password [of "''root''" "''tcp(db:3306)/config''" "''p@ss:w''"
      "[]" "''host=db user=config password=secret''"] show ?thesis by simp
qed

subsection \<open>The web UI\<close>

text \<open>Serving the contents of a file, or a listing, leaves the caching that was asked for.\<close>

definition content_keeps :: "web \<Rightarrow> bool" where
  "content_keeps W \<longleftrightarrow>
     (\<forall>req n c h. map_of (pg_header (wb_content W req n c h)) ''Cache-Control'' = map_of h ''Cache-Control'') \<and>
     (\<forall>n h. map_of (pg_header (wb_listing W n h)) ''Cache-Control'' = map_of h ''Cache-Control'')"

lemma header_simps [simp]:
  "map_of (with_header k v h) k' = (if k = k' then Some v else map_of h k')"
  "map_of (without_header k h) k' = (if k = k' then None else map_of h k')"
  by (simp_all add: with_header_def without_header_def update_conv' delete_conv')

lemma gzip_sets:
  assumes "\<And>h. map_of (pg_header (nxt req h)) ''Cache-Control'' = Some v"
  shows "map_of (pg_header (gzipMiddleware w W nxt req h)) ''Cache-Control'' = Some v"
  unfolding gzipMiddleware_def Let_def
  by (cases "contains (rq_header req ''Accept-Encoding'') ''gzip''";
      cases "compressibleType (w_lower w) (wb_mime W (w_lower w (filepath_Ext (rq_path req))))";
      simp_all only: assms if_True if_False not_False_eq_True not_True_eq_False; simp add: assms)

lemma serve_file_cache:
  assumes "content_keeps W"
  shows "map_of (pg_header (serve_file W req n h)) ''Cache-Control'' =
    (if \<not> ends_with (rq_path req) ''/index.html'' \<and> fs_Open W n = None then None else map_of h ''Cache-Control'')"
  using assms unfolding content_keeps_def
  by (auto simp: serve_file_def serve_directory_def local_redirect_def file_error_def http_error_def Let_def
      split: option.split node.split)

lemma serve_spa_cache:
  assumes "content_keeps W"
  shows "case fs_Open W (tl (rq_path req)) of
      None \<Rightarrow> map_of (pg_header (serve_spa w W req)) ''Cache-Control'' \<in> {None, Some noCacheControl}
    | Some _ \<Rightarrow> map_of (pg_header (serve_spa w W req)) ''Cache-Control'' = Some (cache_control w (rq_path req))"
proof (cases "fs_Open W (tl (rq_path req))")
  case None
  let ?h = "with_header ''Cache-Control'' noCacheControl []"
  have "map_of (pg_header (serve_file W req ''index.html'' ?h)) ''Cache-Control'' \<in> {None, Some noCacheControl}"
    unfolding serve_file_cache [OF assms] by simp
  moreover have "map_of (pg_header (file_error msg code ?h)) ''Cache-Control'' = None" for msg code
    by (simp add: file_error_def http_error_def)
  ultimately show ?thesis using None by (simp add: serve_spa_def ServeFileFS_def)
next
  case (Some x)
  let ?h = "with_header ''Cache-Control'' (cache_control w (rq_path req))"
  have "map_of (pg_header (serve_file W req (tl (rq_path req)) h)) ''Cache-Control'' = map_of h ''Cache-Control''" for h
    unfolding serve_file_cache [OF assms] using Some by simp
  then have "map_of (pg_header (staticCacheMiddleware w (FileServerFS W) req h)) ''Cache-Control'' =
      Some (cache_control w (rq_path req))" for h
    by (simp add: staticCacheMiddleware_def FileServerFS_def)
  then show ?thesis using Some by (simp add: serve_spa_def gzip_sets)
qed

text \<open>
  C40. Everything that is not a route of the API or the metrics is answered by the web UI, other
  methods and unknown paths of the API included: a protected path only after the caller was let
  through; the answer is a page, nothing changes, and the entry page (the answer for a path
  without a file) is never cached without revalidation, while only files under \<open>/assets/\<close> are
  immutable.
\<close>

theorem web_ui_answers_the_rest:
  assumes "gorm_api (gorm X) tabs" and "m_rdb (s_mgr s) = None" and "content_keeps W"
    and "route_of X (NewAdminHandler smtp w) req = None"
    and "rq_segments req \<noteq> [''metrics'']"
    and "admin_handler X (Some W) metrics smtp w req s = (out, s')"
  shows "(protected_path (rq_path req) \<and> turned_away out) \<or>
    (\<exists>p. out = Page p \<and> tables_of tabs s' = tables_of tabs s \<and> s_sessions s' = s_sessions s \<and>
       (case fs_Open W (tl (rq_path req)) of
          None \<Rightarrow> map_of (pg_header p) ''Cache-Control'' \<in> {None, Some ''no-cache''}
        | Some _ \<Rightarrow> map_of (pg_header p) ''Cache-Control'' = Some
            (if has_prefix (rq_path req) ''/assets/'' then ''public, max-age=31536000, immutable''
             else if isStaticAssetPath (w_lower w) (rq_path req) then ''public, max-age=86400''
             else ''no-cache'')))"
proof -
  let ?w = "NewAdminHandler smtp w"
  have A: "account_store X tabs" using assms(1) by (simp add: account_store_def)
  have page: "dispatch X ?w (other_patterns X ?w (Some W) metrics) req1 s1 = (Page (serve_spa ?w W req1), s1)"
    if "req1 = req\<lparr>rq_user := u\<rparr>" for req1 u s1
  proof -
    have "route_of X ?w req1 = None"
      using assms(4) that by (simp add: route_of_def route_matches_def)
    then show ?thesis
      using assms(5) that by (simp add: account_store.dispatch_route [OF A] other_patterns_def split: option.split)
  qed
  have path: "rq_path (req\<lparr>rq_user := u\<rparr>) = rq_path req" for u by (simp add: rq_path_def)
  have cc: "cache_control ?w p = cache_control w p" for p by (simp add: cache_control_def NewAdminHandler_def)
  have spa: "case fs_Open W (tl (rq_path req)) of
      None \<Rightarrow> map_of (pg_header (serve_spa ?w W (req\<lparr>rq_user := u\<rparr>))) ''Cache-Control'' \<in> {None, Some noCacheControl}
    | Some _ \<Rightarrow> map_of (pg_header (serve_spa ?w W (req\<lparr>rq_user := u\<rparr>))) ''Cache-Control'' = Some (cache_control w (rq_path req))" for u
    using serve_spa_cache [OF assms(3), where req = "req\<lparr>rq_user := u\<rparr>" and w = ?w]
    unfolding path cc .
  have "serve X ?w (other_patterns X ?w (Some W) metrics) req s = (out, s')"
    using assms(6) by (simp add: admin_handler_def Let_def)
  then have "requireAuth X ?w (dispatch X ?w (other_patterns X ?w (Some W) metrics)) req s = (out, s')"
    by (simp add: serve_def)
  from A this assms(2) have "(protected_path (rq_path req) \<and> turned_away out) \<or>
    (\<exists>p. out = Page p \<and> tables_of tabs s' = tables_of tabs s \<and> s_sessions s' = s_sessions s \<and>
       (case fs_Open W (tl (rq_path req)) of
          None \<Rightarrow> map_of (pg_header p) ''Cache-Control'' \<in> {None, Some noCacheControl}
        | Some _ \<Rightarrow> map_of (pg_header p) ''Cache-Control'' = Some (cache_control w (rq_path req))))"
  proof (cases rule: account_store.requireAuth_cases [consumes 3, case_names public away through])
    case public
    have same: "req\<lparr>rq_user := rq_user req\<rparr> = req" by simp
    from public page [of req "rq_user req" s] have out: "out = Page (serve_spa ?w W req)" "s' = s" by simp_all
    from spa [of "rq_user req"] show ?thesis
      unfolding same by (intro disjI2 exI [of _ "serve_spa ?w W req"]) (simp add: out)
  next
    case (away d)
    then show ?thesis by simp
  next
    case (through uc d)
    with page [of "req\<lparr>rq_user := Some uc\<rparr>" "Some uc" "set_db d s"]
    have out: "out = Page (serve_spa ?w W (req\<lparr>rq_user := Some uc\<rparr>))" "s' = set_db d s" by simp_all
    from spa [of "Some uc"] through(3) show ?thesis
      by (intro disjI2 exI [of _ "serve_spa ?w W (req\<lparr>rq_user := Some uc\<rparr>)"]) (simp add: out set_db_def)
  qed
  then show ?thesis
    unfolding cache_control_def noCacheControl_def immutableAssetCacheControl_def staticAssetCacheControl_def .
qed

text \<open>A script of the web UI, asked for without a session.\<close>

definition script_request :: hreq where
  "script_request =
     \<lparr>rq_method = ''GET'', rq_segments = [''assets'', ''app.js''], rq_uri = ''/assets/app.js'', rq_remote = [],
      rq_vars = \<lambda>_. [], rq_query = \<lambda>_. [], rq_header = \<lambda>_. [], rq_cookies = Map.empty, rq_body = ([], False),
      rq_user = None\<rparr>"

theorem web_ui_answers_the_rest_witness:
  "\<exists>p. fst (admin_handler mem_services (Some sample_web) None (cg_SMTP configDefaults) sample_world script_request sample_state) = Page p \<and>
     map_of (pg_header p) ''Cache-Control'' = Some ''public, max-age=31536000, immutable''"
proof -
  obtain out s' where r: "admin_handler mem_services (Some sample_web) None (cg_SMTP configDefaults) sample_world
      script_request sample_state = (out, s')" by fastforce
  have none: "m_rdb (s_mgr sample_state) = None" by (simp add: sample_state_def New_def)
  have keeps: "content_keeps sample_web" by (simp add: content_keeps_def sample_web_def)
  have route: "route_of mem_services (NewAdminHandler (cg_SMTP configDefaults) sample_world) script_request = None"
    by (simp add: route_of_def routes_def route_matches_if method_matches_def script_request_def
        pattern_segments_def split_def split_acc.simps is_wildcard_def)
  have path: "\<not> protected_path (rq_path script_request)" "has_prefix (rq_path script_request) ''/assets/''"
    "fs_Open sample_web (tl (rq_path script_request)) = Some (File ''let x = 1'')"
    by code_simp+
  have "rq_segments script_request \<noteq> [''metrics'']" by (simp add: script_request_def)
  from web_ui_answers_the_rest [OF mema.database none keeps route this r] path r show ?thesis by auto
qed

end
