(* ===== verification/Spec2Isabelle.thy ===== *)
theory Spec2Isabelle
  imports Agent_Sync Background_Props Panic_Laws Metrics_Props Canary_Props History_Props Mail_Delivery Server_Props
begin

text \<open>
  A verification development for the configuration server (Go, \<open>src/\<close>).

  THE PROGRAM. Agents (log collectors) poll the agent server with heartbeats and are told which
  pipeline configurations, instance configurations and one-time commands to run. Operators
  manage these, and the groups of agents they are assigned to, through the admin server, a REST
  API with accounts, roles and a web UI. Both servers work on one \<open>Manager\<close>, which caches the
  database (GORM over SQLite, MySQL or Postgres), keeps the registry of live agents in memory
  and, with several replicas, shares a Redis. \<open>cmd/allinone\<close> runs everything in one process
  without Redis; \<open>cmd/admin\<close> and \<open>cmd/configserver\<close> are the two halves of a distributed
  installation. A request goes: HTTP mux, middleware, handler, manager (caches), store, GORM.

  HOW IT IS MODELLED. A Go string or byte slice is a list of bytes, a struct a record, an error
  a value of \<open>err\<close> in a sum, an \<open>int64\<close> an int with \<open>wrap64\<close> where it can overflow, a hash or an
  epoch a 64-bit word. A method is a function from its arguments and the state to a result and
  the next state; handlers are sequences of steps (\<open>bindh\<close>) that may end early with a reply,
  and a nil dereference or a slice out of range is the outcome \<open>Panicked\<close>. Definitions have the
  Go names, with \<open>_m\<close> for methods of the manager that the store has too and \<open>_h\<close> for handlers.
  Libraries are parameters: GORM (\<open>'d gorm\<close>), freecache and Redis (\<open>services\<close>), and bcrypt,
  TOTP, YAML, clock, random bytes and texts of times (\<open>world\<close>). What is relied on of them is
  stated by the locales \<open>gorm_api\<close>, \<open>database_setup\<close>, \<open>freecache_api\<close>, \<open>redis_api\<close> and
  \<open>reliable_redis\<close>, each interpreted on an executable instance in memory, on which the
  witnesses run. No property assumes that the database, a cache or Redis succeeds, unless it
  says so: a failure is a branch of every operation.

  THE THEORIES, in the order of the code.
  \<^item> Go and its libraries: \<open>Go_Prelude\<close> (strings, numbers, UTF-8, the error monad), \<open>Go_Time\<close>
    (durations), \<open>Netip\<close> (IP addresses), \<open>Json\<close> (encoding/json).
  \<^item> \<open>internal/model\<close>: \<open>Data_Model\<close> (\<open>model.go\<close>), \<open>Semver\<close>, \<open>IP_Selector\<close>, \<open>Canary_Rules\<close>.
  \<^item> \<open>internal/store\<close>: \<open>Gorm_Api\<close> (the interface to GORM), \<open>Gorm_Store\<close> (every method of
    \<open>gormdb.go\<close>), \<open>Store_Open\<close> (\<open>New\<close>, \<open>MigrateAll\<close>). \<open>Store_Laws\<close> proves the laws of the methods; the
    locale \<open>config_table\<close> is the contract that both configuration tables keep.
  \<^item> \<open>internal/cache/manager.go\<close>: \<open>Cache_Api\<close> (freecache, Redis, what is stored in them),
    \<open>Cache_Manager\<close> (cached reads, writes with invalidation, resolution for an agent),
    \<open>Agent_Registry\<close> (agents, statuses, eviction, paging, the reconciler and its lock),
    \<open>Background\<close> (the goroutines). \<open>Manager_Laws\<close> and \<open>Manager_Coherence\<close> prove that every operation
    keeps the caches coherent, \<open>Registry_Laws\<close> the invariant of the registry, \<open>Manager_Props\<close>
    what that means for readers; \<open>Redis_Api\<close>, \<open>Reconcile_Laws\<close>, \<open>Reconcile_Lock\<close> and
    \<open>Background_Props\<close> treat Redis shared by replicas.
  \<^item> \<open>internal/server/agent\<close>: \<open>Agent_Handler\<close>; \<open>Agent_Laws\<close>, \<open>Agent_Props\<close> (single requests),
    \<open>Agent_Sync\<close> (whole runs of an agent).
  \<^item> \<open>internal/server/admin\<close>: \<open>Admin_Http\<close> (requests, replies, sessions and tokens, from
    \<open>auth.go\<close>, \<open>otp.go\<close>, \<open>email.go\<close>), \<open>Admin_Auth\<close> (middleware, logins, passwords, second factor,
    resets), \<open>Admin_Users\<close>, \<open>Admin_Configs\<close>, \<open>Admin_Groups\<close>, \<open>Admin_History\<close>, \<open>Admin_Canary\<close>
    (\<open>handler.go\<close>), \<open>Admin_Routes\<close> (the table of routes and the mux), \<open>Admin_Server\<close> (\<open>server.go\<close>),
    \<open>Mail_Delivery\<close> (the SMTP conversation). \<open>Step_Frames\<close> and \<open>Admin_Frames\<close> say which tables each
    handler may write, \<open>Auth_Laws\<close> has the rules to run a handler, \<open>Route_Laws\<close>, \<open>Auth_Effects\<close> and
    \<open>Serve_Laws\<close> what any request may do to accounts and tokens; \<open>Auth_Props\<close>, \<open>Panic_Laws\<close>,
    \<open>Canary_Lifecycle\<close>, \<open>Canary_Props\<close> and \<open>History_Props\<close> hold the properties of the API.
  \<^item> \<open>internal/config\<close>: \<open>Server_Config\<close>. \<open>internal/metrics\<close>: \<open>Metrics_Collector\<close>,
    \<open>Metrics_Laws\<close>, \<open>Metrics_Props\<close>.
  \<^item> \<open>cmd\<close> and the agent server: \<open>Commands\<close>; \<open>Default_Group\<close>, \<open>Agent_Frames\<close> and \<open>Server_Props\<close> compose
    everything into the life of an installation.

  WHAT THE PROPERTIES SAY, by part.
  \<^item> Delivery: \<open>GetConfigsForAgent\<close> refines the specification \<open>assigned\<close> (groups by tag, IP and
    version, default group, canary overlay); caching is invisible for it and for single reads
    after any history; a heartbeat brings an agent to exactly its assignment, and a run of
    heartbeats settles; \<open>FetchConfig\<close> answers all it is asked, from the database; when one-time
    commands are delivered and cancelled; the 256 KiB bound.
  \<^item> Rules: the meaning of version constraints and IP selectors against the languages they
    document, the round trip of stored selectors, monotonicity of canary rollouts.
  \<^item> Accounts: requests are authorised, sessions are earned, who may change which account,
    no way to become administrator, reset mails reach the owner only and reveal nothing.
  \<^item> Operation: the state machine of canary releases, undoing changes through the history, the
    requests that panic, the registry under eviction, the pages of the agent list (a partition
    where no two heartbeats are equal); one reconciler among replicas,
    its lock after a crash, what it repairs; which background loops return; the layers of the
    configuration; well-formed metrics; opening the store; accounts over the life of an
    installation; what is logged of a DSN and what the web UI serves.

  BOUNDS AND FUEL. \<open>json_parse\<close> recurses with the fuel \<open>2 * length s + 2\<close>: a level of a
  value and an element of a sequence cost a unit each, and both consume text;
  \<open>json_roundtrip\<close> shows that it suffices for whatever is printed.
  The scanners of \<open>Go_Prelude\<close>, \<open>Go_Time\<close> and \<open>Netip\<close> recurse on what is left of the text, with
  termination proofs. Loops that may run for ever are \<open>partial_function (option)\<close> over streams of
  ticks (\<open>ticker_loop\<close>): None is a loop that never returns, and which loops return is a theorem.
  Capacities, times and sizes are the constants of the code.

  Hypotheses that name a limit of the code, not of the model: \<open>collision_free\<close> (the cached
  resolution of two agents is shared when the FNV-64a hashes of their attributes agree),
  \<open>ops_safe\<close> (a new configuration under a name that is already assigned is seen late), and an epoch of
  the cache that has not wrapped around \<open>2^64\<close>. \<open>list_agents_pages\<close> partitions only without equal
  heartbeats: each request ranges over the map in an order of its own (\<open>ord\<close>), and \<open>sort.Slice\<close>
  may leave ties in any order (\<open>sort_slice\<close>). \<open>plain_names\<close>: no canary release
  has the NUL byte in its name that the code puts between name and type to form a key.

  NOT MODELLED. Code outside \<open>src/\<close> or generated: the protobuf messages' codec, GORM's SQL, the
  schema changes of \<open>AutoMigrate\<close>, freecache and Redis beyond their contracts, the embedded web
  files and how \<open>net/http\<close> serves their contents, gzip, QR codes. Concurrency inside one
  manager: mutexes are taken as given, a method runs alone, \<open>singleflight\<close> is a plain call;
  interleavings are modelled between operations, requests, goroutines and replicas. The clock
  is read once in a request. The dispatch of Redis commands in a cluster (\<open>forEachMaster\<close>,
  \<open>clusterPublish\<close>, \<open>clusterSubscribe\<close>) belongs to the Redis parameter. \<open>http.Server\<close>: listening,
  timeouts, shutdown on a signal, and the redirects of unclean paths. JSON deeper than 10000
  levels, which Go refuses; the replacement of bytes that are not UTF-8 in what is cached. Log lines, but for the one that shows the DSN. Functions nothing
  calls (\<open>unixMilli\<close>, \<open>runningStatusValue\<close>, \<open>FormatKeyPipeline\<close>, \<open>GetPipelineConfigS\<close>).
\<close>

end
